(* ===== verification/Prelude.thy ===== *)
theory Prelude
  imports Complex_Main "HOL-Library.Code_Target_Nat"
begin

section \<open>Shared vocabulary of the agent-service model\<close>

text \<open>
  This theory holds what every component shares and what stands for the JavaScript language
  itself: strings as sequences of UTF-16 code units, the white-space class of \<open>trim\<close> and
  of the regular-expression escape for white space, JSON-like values, the scores the code
  rounds and clamps to 0..100, table operations that mirror the SQL statements of the code, and
  the append-only journal that the audit logs are instances of.

  Numbers are exact rationals: the code computes in IEEE doubles, so a result that the code
  rounds may differ from the model only where the exact value lies within a double's rounding
  error of a half.
\<close>

named_theorems js_eval \<open>definitions unfolded to evaluate the model on concrete input\<close>
named_theorems score_intro \<open>facts that a value is a score between 0 and 100\<close>

subsection \<open>Strings\<close>

type_synonym jsstr = "nat list"

text \<open>An ASCII literal of the source. Other literals are written as their code units.\<close>

definition js :: "string \<Rightarrow> jsstr" where
  [js_eval]: "js s = map of_char s"

lemma js_Nil [simp]: "js [] = []"
  by (simp add: js_def)

lemma js_inject [simp]: "js a = js b \<longleftrightarrow> a = b"
  unfolding js_def by (rule inj_map_eq_map) (auto intro: injI)

lemma js_eq_Nil [simp]: "js a = [] \<longleftrightarrow> a = []" "[] = js a \<longleftrightarrow> a = []"
  by (simp_all add: js_def)

definition is_space :: "nat \<Rightarrow> bool" where
  [js_eval]: "is_space u \<longleftrightarrow> 9 \<le> u \<and> u \<le> 13 \<or> u = 32 \<or> u = 160 \<or> u = 5760 \<or> 8192 \<le> u \<and> u \<le> 8202
     \<or> u = 8232 \<or> u = 8233 \<or> u = 8239 \<or> u = 8287 \<or> u = 12288 \<or> u = 65279"

definition trim_left :: "jsstr \<Rightarrow> jsstr" where
  [js_eval]: "trim_left = dropWhile is_space"

definition trim :: "jsstr \<Rightarrow> jsstr" where
  [js_eval]: "trim s = rev (trim_left (rev (trim_left s)))"

text \<open>
  \<open>toLowerCase\<close> on the scripts that occur in the program: ASCII, Latin-1, Greek and Cyrillic
  capitals, the Kelvin sign (which becomes an ASCII \<open>k\<close>) and the dotted capital I (which becomes
  two code units). Han characters have no case; capitals of further scripts are left unchanged.
\<close>

definition lower_unit :: "nat \<Rightarrow> jsstr" where
  [js_eval]: "lower_unit u =
     (if 65 \<le> u \<and> u \<le> 90 then [u + 32]
      else if 192 \<le> u \<and> u \<le> 222 \<and> u \<noteq> 215 then [u + 32]
      else if u = 304 then [105, 775]
      else if 913 \<le> u \<and> u \<le> 939 \<and> u \<noteq> 930 then [u + 32]
      else if 1024 \<le> u \<and> u \<le> 1039 then [u + 80]
      else if 1040 \<le> u \<and> u \<le> 1071 then [u + 32]
      else if u = 8490 then [107]
      else [u])"

definition to_lower :: "jsstr \<Rightarrow> jsstr" where
  [js_eval]: "to_lower s = concat (map lower_unit s)"

text \<open>\<open>startsWith\<close>, \<open>includes\<close>, \<open>slice(0, n)\<close> and \<open>join\<close>.\<close>

fun starts_with :: "jsstr \<Rightarrow> jsstr \<Rightarrow> bool" where
  "starts_with s [] = True"
| "starts_with [] (p # ps) = False"
| "starts_with (x # xs) (p # ps) = (x = p \<and> starts_with xs ps)"

fun str_includes :: "jsstr \<Rightarrow> jsstr \<Rightarrow> bool" where
  "str_includes [] p = (p = [])"
| "str_includes (x # xs) p = (starts_with (x # xs) p \<or> str_includes xs p)"

fun str_join :: "jsstr \<Rightarrow> jsstr list \<Rightarrow> jsstr" where
  "str_join sep [] = []"
| "str_join sep [w] = w"
| "str_join sep (w # v # ws) = w @ sep @ str_join sep (v # ws)"

text \<open>\<open>split\<close> at a single code unit; a string without it gives the string itself.\<close>

fun str_split :: "nat \<Rightarrow> jsstr \<Rightarrow> jsstr list" where
  "str_split d [] = [[]]"
| "str_split d (x # xs) =
     (if x = d then [] # str_split d xs
      else (case str_split d xs of [] \<Rightarrow> [[x]] | w # ws \<Rightarrow> (x # w) # ws))"

lemma starts_with_iff: "starts_with s p \<longleftrightarrow> (\<exists>t. s = p @ t)"
  by (induction s p rule: starts_with.induct) auto

lemma str_includes_iff: "str_includes s p \<longleftrightarrow> (\<exists>u v. s = u @ p @ v)"
proof (induction s)
  case Nil
  then show ?case by simp
next
  case (Cons x xs)
  have "(\<exists>u v. x # xs = u @ p @ v) \<longleftrightarrow> (\<exists>v. x # xs = p @ v) \<or> (\<exists>u v. xs = u @ p @ v)"
    by (metis append_Cons append_Nil append_eq_Cons_conv)
  with Cons show ?case by (simp add: starts_with_iff)
qed

lemma str_split_nonempty [simp]: "str_split d s \<noteq> []"
  by (induction s) (auto split: list.splits)

lemma trim_left_Nil [simp]: "trim_left [] = []"
  by (simp add: trim_left_def)

lemma trim_Nil [simp]: "trim [] = []"
  by (simp add: trim_def)

lemma trim_left_idem [simp]: "trim_left (trim_left s) = trim_left s"
  by (simp add: trim_left_def dropWhile_idem)

lemma trim_left_fix: "s = [] \<or> \<not> is_space (hd s) \<Longrightarrow> trim_left s = s"
  by (cases s) (auto simp: trim_left_def)

lemma trim_fix:
  assumes "s \<noteq> []" "\<not> is_space (hd s)" "\<not> is_space (last s)"
  shows "trim s = s"
  using assms by (simp add: trim_def trim_left_fix hd_rev)

lemma hd_trim_left: "trim_left s \<noteq> [] \<Longrightarrow> \<not> is_space (hd (trim_left s))"
  by (auto simp: trim_left_def hd_dropWhile)

lemma last_trim_left: "trim_left s \<noteq> [] \<Longrightarrow> last (trim_left s) = last s"
  by (induction s) (auto simp: trim_left_def split: if_splits)

lemma trim_ends: "trim s \<noteq> [] \<Longrightarrow> \<not> is_space (hd (trim s)) \<and> \<not> is_space (last (trim s))"
proof -
  assume ne: "trim s \<noteq> []"
  let ?t = "trim_left (rev (trim_left s))"
  have t: "?t \<noteq> []" using ne by (simp add: trim_def)
  have "hd (rev ?t) = last (rev (trim_left s))"
    using t by (simp add: hd_rev last_trim_left)
  moreover have "trim_left s \<noteq> []" using t by (metis rev.simps(1) trim_left_Nil)
  ultimately show ?thesis
    using t hd_trim_left [OF t] hd_trim_left [of s] by (simp add: trim_def hd_rev last_rev)
qed

lemma trim_idem [simp]: "trim (trim s) = trim s"
  using trim_ends [of s] trim_fix [of "trim s"] by (cases "trim s = []") simp_all

lemma length_trim_left: "length (trim_left s) \<le> length s"
  by (simp add: trim_left_def length_dropWhile_le)

lemma length_trim: "length (trim s) \<le> length s"
  using length_trim_left [of s] length_trim_left [of "rev (trim_left s)"] by (simp add: trim_def)

subsection \<open>Values\<close>

text \<open>
  A JSON value, or \<open>undefined\<close>. Object keys keep their insertion order, so an object is an
  association list; the source builds objects with distinct keys only.
\<close>

datatype jsval =
    Undef | Null | JBool bool | Num rat | Str jsstr | Arr "jsval list" | Obj "(jsstr \<times> jsval) list"

fun truthy :: "jsval \<Rightarrow> bool" where
  "truthy Undef = False"
| "truthy Null = False"
| "truthy (JBool b) = b"
| "truthy (Num n) = (n \<noteq> 0)"
| "truthy (Str s) = (s \<noteq> [])"
| "truthy (Arr _) = True"
| "truthy (Obj _) = True"

fun get_prop :: "(jsstr \<times> jsval) list \<Rightarrow> jsstr \<Rightarrow> jsval" where
  "get_prop [] k = Undef"
| "get_prop ((k', v) # kvs) k = (if k' = k then v else get_prop kvs k)"

text \<open>
  The properties every object inherits. Reading one of them gives a built-in function, or the
  prototype object, where an own property is absent.
\<close>

definition inherited_names :: "jsstr list" where
  [js_eval]: "inherited_names = map js [''constructor'', ''__defineGetter__'', ''__defineSetter__'', ''hasOwnProperty'',
     ''__lookupGetter__'', ''__lookupSetter__'', ''isPrototypeOf'', ''propertyIsEnumerable'', ''toString'',
     ''valueOf'', ''toLocaleString'', ''__proto__'']"

text \<open>\<open>{ ...obj, [k]: v }\<close>: an existing key keeps its place, a new one goes last.\<close>

fun put_prop :: "(jsstr \<times> 'v) list \<Rightarrow> jsstr \<Rightarrow> 'v \<Rightarrow> (jsstr \<times> 'v) list" where
  "put_prop [] k v = [(k, v)]"
| "put_prop ((k', v') # kvs) k v = (if k' = k then (k, v) # kvs else (k', v') # put_prop kvs k v)"

definition put_all :: "(jsstr \<times> 'v) list \<Rightarrow> (jsstr \<times> 'v) list \<Rightarrow> (jsstr \<times> 'v) list" where
  [js_eval]: "put_all base kvs = foldl (\<lambda>m (k, v). put_prop m k v) base kvs"

lemma get_put_prop [simp]: "get_prop (put_prop m k v) k' = (if k' = k then v else get_prop m k')"
  by (induction m) auto

lemma map_of_put_prop [simp]: "map_of (put_prop m k v) = (map_of m)(k \<mapsto> v)"
  by (induction m) auto

lemma set_keys_put_prop [simp]: "fst ` set (put_prop m k v) = insert k (fst ` set m)"
proof (induction m)
  case (Cons kv m)
  obtain k' v' where "kv = (k', v')" by (cases kv)
  with Cons show ?case by (simp add: insert_commute)
qed simp

lemma distinct_put_prop [simp]:
  "distinct (map fst (put_prop m k v)) = distinct (map fst m)"
proof (induction m)
  case (Cons kv m)
  obtain k' v' where "kv = (k', v')" by (cases kv)
  moreover have "k' \<in> fst ` set (put_prop m k v) \<longleftrightarrow> k' = k \<or> k' \<in> fst ` set m" by simp
  ultimately show ?case using Cons by auto
qed simp

lemma map_of_put_all: "map_of (put_all base kvs) = map_of base ++ map_of (rev kvs)"
proof (induction kvs arbitrary: base)
  case (Cons kv kvs)
  obtain k v where "kv = (k, v)" by (cases kv)
  then have "map_of (put_all base (kv # kvs)) = map_of (put_all (put_prop base k v) kvs)"
    by (simp add: put_all_def)
  also have "\<dots> = (map_of base)(k \<mapsto> v) ++ map_of (rev kvs)" by (simp only: Cons.IH map_of_put_prop)
  also have "\<dots> = map_of base ++ map_of (rev (kv # kvs))"
    using \<open>kv = (k, v)\<close> by (simp add: map_add_def fun_eq_iff split: option.splits)
  finally show ?case .
qed (simp add: put_all_def)

subsection \<open>Library functions the source calls\<close>

text \<open>
  Functions of the platform that the model takes as arguments: Unicode normalisation, SHA-256 as
  a hexadecimal digest, the decimal form of a number that is not an integer, \<open>Math.log1p\<close>,
  \<open>Math.sqrt\<close>, the power of one half, the text of a built-in function, and
  the order of keys by \<open>localeCompare\<close>.
\<close>

record platform =
  nfkc :: "jsstr \<Rightarrow> jsstr"
  sha256 :: "jsstr \<Rightarrow> jsstr"
  fraction_text :: "rat \<Rightarrow> jsstr"
  log1p :: "rat \<Rightarrow> rat"
  sqrt_of :: "rat \<Rightarrow> rat"
  half_pow :: "rat \<Rightarrow> rat"
  native_text :: "jsstr \<Rightarrow> jsstr"
  locale_le :: "jsstr \<Rightarrow> jsstr \<Rightarrow> bool"

text \<open>A platform for evaluating examples.\<close>

definition demo_platform :: platform where
  [js_eval]: "demo_platform = \<lparr>nfkc = id, sha256 = id, fraction_text = (\<lambda>_. [63]), log1p = id,
     sqrt_of = id, half_pow = (\<lambda>_. 1), native_text = id,
     locale_le = (\<lambda>a b. length a \<le> length b)\<rparr>"

definition demo_fresh :: "nat \<Rightarrow> jsstr" where
  [js_eval]: "demo_fresh k = js ''id'' @ [48 + k]"

subsection \<open>Scores\<close>

text \<open>\<open>Math.round\<close> rounds a half up, as \<open>\<lfloor>x + 1/2\<rfloor>\<close> does.\<close>

definition js_round :: "rat \<Rightarrow> int" where
  [js_eval]: "js_round x = floor (x + 1 / 2)"

definition is_score :: "int \<Rightarrow> bool" where
  "is_score n \<longleftrightarrow> 0 \<le> n \<and> n \<le> 100"

lemma is_score_bounds [score_intro]: "0 \<le> n \<Longrightarrow> n \<le> 100 \<Longrightarrow> is_score n"
  by (simp add: is_score_def)

lemma js_round_mono: "x \<le> y \<Longrightarrow> js_round x \<le> js_round y"
  by (simp add: js_round_def floor_mono)

lemma js_round_of_int [simp]: "js_round (of_int n) = n"
  unfolding js_round_def by linarith

subsection \<open>Tables\<close>

text \<open>
  A table is the list of its rows in insertion order. \<open>UPDATE ... WHERE\<close> rewrites the matching
  rows in place, \<open>DELETE\<close> drops them, \<open>INSERT OR IGNORE\<close> appends unless a row conflicts.
\<close>

definition update_where :: "('r \<Rightarrow> bool) \<Rightarrow> ('r \<Rightarrow> 'r) \<Rightarrow> 'r list \<Rightarrow> 'r list" where
  [js_eval]: "update_where P f rows = map (\<lambda>r. if P r then f r else r) rows"

definition delete_where :: "('r \<Rightarrow> bool) \<Rightarrow> 'r list \<Rightarrow> 'r list" where
  [js_eval]: "delete_where P rows = filter (\<lambda>r. \<not> P r) rows"

definition insert_or_ignore :: "('r \<Rightarrow> 'r \<Rightarrow> bool) \<Rightarrow> 'r \<Rightarrow> 'r list \<Rightarrow> 'r list" where
  [js_eval]: "insert_or_ignore conflict r rows = (if list_ex (conflict r) rows then rows else rows @ [r])"

definition head_option :: "'a list \<Rightarrow> 'a option" where
  [js_eval]: "head_option xs = (case xs of [] \<Rightarrow> None | x # _ \<Rightarrow> Some x)"

lemma head_option_simps [simp]: "head_option [] = None" "head_option (x # xs) = Some x"
  by (simp_all add: head_option_def)

lemma head_option_SomeD: "head_option xs = Some x \<Longrightarrow> x \<in> set xs"
  by (cases xs) auto

lemma head_option_filterD: "head_option (filter P xs) = Some x \<Longrightarrow> x \<in> set xs \<and> P x"
  by (drule head_option_SomeD) simp

lemma length_update_where [simp]: "length (update_where P f rows) = length rows"
  by (simp add: update_where_def)

lemma map_update_where:
  "(\<And>r. r \<in> set rows \<Longrightarrow> P r \<Longrightarrow> g (f r) = g r) \<Longrightarrow> map g (update_where P f rows) = map g rows"
  by (simp add: update_where_def)

lemma update_where_other: "r \<in> set rows \<Longrightarrow> \<not> P r \<Longrightarrow> r \<in> set (update_where P f rows)"
  by (force simp: update_where_def)

text \<open>An update that stays outside a selection leaves the selection as it was.\<close>

lemma filter_update_where:
  "(\<And>r. r \<in> set rows \<Longrightarrow> P r \<Longrightarrow> \<not> Q r \<and> \<not> Q (f r)) \<Longrightarrow> filter Q (update_where P f rows) = filter Q rows"
  by (induction rows) (auto simp: update_where_def)

lemma list_all_update_where:
  "list_all Q rows \<Longrightarrow> (\<And>r. r \<in> set rows \<Longrightarrow> P r \<Longrightarrow> Q r \<Longrightarrow> Q (f r)) \<Longrightarrow> list_all Q (update_where P f rows)"
  by (auto simp: update_where_def list_all_iff)

lemma list_all_delete_where: "list_all Q rows \<Longrightarrow> list_all Q (delete_where P rows)"
  by (auto simp: delete_where_def list_all_iff)

lemma list_all_insert_or_ignore:
  "list_all Q rows \<Longrightarrow> Q r \<Longrightarrow> list_all Q (insert_or_ignore c r rows)"
  by (simp add: insert_or_ignore_def)

subsection \<open>Append-only journals\<close>

text \<open>
  The interface of an audit log: writing an event appends it and changes nothing that was
  recorded before. A sequence of writes therefore only extends the log.
\<close>

locale journal =
  fixes events :: "'s \<Rightarrow> 'e list"
    and emit :: "'e \<Rightarrow> 's \<Rightarrow> 's"
  assumes events_emit: "events (emit e s) = events s @ [e]"
begin

lemma events_fold_emit: "events (fold emit es s) = events s @ es"
  by (induction es arbitrary: s) (simp_all add: events_emit)

lemma emit_keeps_prefix: "take (length (events s)) (events (emit e s)) = events s"
  by (simp add: events_emit)

lemma emit_records: "e \<in> set (events (emit e s))"
  by (simp add: events_emit)

end

end
