(* ===== verification/Regex.thy ===== *)
theory Regex
  imports Prelude
begin

section \<open>Regular expressions of the source language\<close>

text \<open>
  The source decides a great deal by regular expressions. This theory gives the fragment it uses
  as a datatype with a backtracking matcher: \<open>ends r c\<close> lists the cursors at which a match of
  \<open>r\<close> started at \<open>c\<close> may stop, in the order in which the language's matcher tries them, so the
  head is the match it takes. A cursor is the text before it, reversed, and the text after it.
  \<open>rmatch\<close> is the declarative match relation; \<open>ends_iff_rmatch\<close> says the matcher finds exactly
  the matches that exist.
\<close>

datatype cursor = Cur (before: jsstr) (after: jsstr)

datatype regex =
    Eps
  | Chr "nat \<Rightarrow> bool"
  | Cat regex regex
  | Alt regex regex
  | Rep nat nat regex
  | Many regex
  | AtStart
  | AtEnd
  | WordB

definition word_unit :: "nat \<Rightarrow> bool" where
  [js_eval]: "word_unit u \<longleftrightarrow> 48 \<le> u \<and> u \<le> 57 \<or> 65 \<le> u \<and> u \<le> 90 \<or> u = 95 \<or> 97 \<le> u \<and> u \<le> 122"

definition word_at :: "jsstr \<Rightarrow> bool" where
  [js_eval]: "word_at s = (case s of [] \<Rightarrow> False | u # _ \<Rightarrow> word_unit u)"

definition word_boundary :: "cursor \<Rightarrow> bool" where
  [js_eval]: "word_boundary c \<longleftrightarrow> word_at (before c) \<noteq> word_at (after c)"

text \<open>
  Greedy bounded repetition: try one more iteration first, then stop if the lower bound is met.
  As in the language's matcher an optional iteration must consume something.
\<close>

fun rep_ends :: "(cursor \<Rightarrow> cursor list) \<Rightarrow> nat \<Rightarrow> nat \<Rightarrow> cursor \<Rightarrow> cursor list" where
  "rep_ends f lo 0 c = [c]"
| "rep_ends f lo (Suc n) c =
     concat (map (rep_ends f (lo - 1) n)
       (filter (\<lambda>c'. 0 < lo \<or> length (after c') < length (after c)) (f c)))
     @ (if lo = 0 then [c] else [])"

primrec ends :: "regex \<Rightarrow> cursor \<Rightarrow> cursor list" where
  "ends Eps c = [c]"
| "ends (Chr p) c =
     (case after c of [] \<Rightarrow> [] | u # us \<Rightarrow> (if p u then [Cur (u # before c) us] else []))"
| "ends (Cat r s) c = concat (map (ends s) (ends r c))"
| "ends (Alt r s) c = ends r c @ ends s c"
| "ends (Rep lo hi r) c = rep_ends (ends r) lo hi c"
| "ends (Many r) c = rep_ends (ends r) 0 (length (after c)) c"
| "ends AtStart c = (if before c = [] then [c] else [])"
| "ends AtEnd c = (if after c = [] then [c] else [])"
| "ends WordB c = (if word_boundary c then [c] else [])"

text \<open>\<open>test\<close>: some position of the text starts a match.\<close>

fun test_at :: "regex \<Rightarrow> jsstr \<Rightarrow> jsstr \<Rightarrow> bool" where
  "test_at r rp [] = (ends r (Cur rp []) \<noteq> [])"
| "test_at r rp (u # us) = (ends r (Cur rp (u # us)) \<noteq> [] \<or> test_at r (u # rp) us)"

definition re_test :: "regex \<Rightarrow> jsstr \<Rightarrow> bool" where
  [js_eval]: "re_test r s = test_at r [] s"

text \<open>\<open>replace\<close> with the global flag: leftmost matches, each replaced by \<open>w\<close>.\<close>

function replace_at :: "regex \<Rightarrow> jsstr \<Rightarrow> jsstr \<Rightarrow> jsstr \<Rightarrow> jsstr" where
  "replace_at r w rp rs =
     (case ends r (Cur rp rs) of
        [] \<Rightarrow> (case rs of [] \<Rightarrow> [] | u # us \<Rightarrow> u # replace_at r w (u # rp) us)
      | c # _ \<Rightarrow>
          (if length (after c) < length rs then w @ replace_at r w (before c) (after c)
           else w @ (case rs of [] \<Rightarrow> [] | u # us \<Rightarrow> u # replace_at r w (u # rp) us)))"
  by pat_completeness auto
termination
  by (relation "measure (\<lambda>(r, w, rp, rs). length rs)") auto

declare replace_at.simps [simp del]

definition re_replace :: "regex \<Rightarrow> jsstr \<Rightarrow> jsstr \<Rightarrow> jsstr" where
  [js_eval]: "re_replace r w s = replace_at r w [] s"

text \<open>\<open>match\<close> and \<open>matchAll\<close> with the global flag: the texts of the leftmost matches that consume something.\<close>

function find_all :: "regex \<Rightarrow> jsstr \<Rightarrow> jsstr \<Rightarrow> jsstr list" where
  "find_all r rp rs =
     (case ends r (Cur rp rs) of
        [] \<Rightarrow> (case rs of [] \<Rightarrow> [] | u # us \<Rightarrow> find_all r (u # rp) us)
      | c # _ \<Rightarrow>
          (if length (after c) < length rs
           then take (length rs - length (after c)) rs # find_all r (before c) (after c)
           else (case rs of [] \<Rightarrow> [] | u # us \<Rightarrow> find_all r (u # rp) us)))"
  by pat_completeness auto
termination
  by (relation "measure (\<lambda>(r, rp, rs). length rs)") auto

declare find_all.simps [simp del]

definition re_find_all :: "regex \<Rightarrow> jsstr \<Rightarrow> jsstr list" where
  [js_eval]: "re_find_all r s = find_all r [] s"

subsection \<open>Building blocks\<close>

definition ci_eq :: "nat \<Rightarrow> nat \<Rightarrow> bool" where
  [js_eval]: "ci_eq a b \<longleftrightarrow> a = b
     \<or> 65 \<le> a \<and> a \<le> 90 \<and> b = a + 32 \<or> 97 \<le> a \<and> a \<le> 122 \<and> b + 32 = a"

text \<open>A literal, and a literal under the \<open>i\<close> flag (ASCII letters only have a case here).\<close>

definition lit :: "jsstr \<Rightarrow> regex" where
  [js_eval]: "lit w = foldr (\<lambda>a r. Cat (Chr (\<lambda>u. u = a)) r) w Eps"

definition lit_ci :: "jsstr \<Rightarrow> regex" where
  [js_eval]: "lit_ci w = foldr (\<lambda>a r. Cat (Chr (ci_eq a)) r) w Eps"

fun alts :: "regex list \<Rightarrow> regex" where
  "alts [] = Chr (\<lambda>_. False)"
| "alts [r] = r"
| "alts (r # s # rs) = Alt r (alts (s # rs))"

fun cats :: "regex list \<Rightarrow> regex" where
  "cats [] = Eps"
| "cats [r] = r"
| "cats (r # s # rs) = Cat r (cats (s # rs))"

definition opt :: "regex \<Rightarrow> regex" where
  [js_eval]: "opt r = Rep 0 1 r"

definition some :: "regex \<Rightarrow> regex" where
  [js_eval]: "some r = Cat r (Many r)"

definition space :: regex where
  [js_eval]: "space = Chr is_space"

text \<open>The dot: any unit but a line terminator.\<close>

definition dot :: regex where
  [js_eval]: "dot = Chr (\<lambda>u. u \<noteq> 10 \<and> u \<noteq> 13 \<and> u \<noteq> 8232 \<and> u \<noteq> 8233)"

definition gap :: "nat \<Rightarrow> regex" where
  [js_eval]: "gap n = Rep 0 n dot"

definition lower_alnum :: "nat \<Rightarrow> bool" where
  [js_eval]: "lower_alnum u \<longleftrightarrow> 97 \<le> u \<and> u \<le> 122 \<or> 48 \<le> u \<and> u \<le> 57"

definition alnum :: "nat \<Rightarrow> bool" where
  [js_eval]: "alnum u \<longleftrightarrow> lower_alnum u \<or> 65 \<le> u \<and> u \<le> 90"

subsection \<open>The match relation\<close>

inductive rmatch :: "regex \<Rightarrow> cursor \<Rightarrow> cursor \<Rightarrow> bool" where
  m_eps: "rmatch Eps c c"
| m_chr: "p u \<Longrightarrow> rmatch (Chr p) (Cur rp (u # us)) (Cur (u # rp) us)"
| m_cat: "rmatch r c d \<Longrightarrow> rmatch s d e \<Longrightarrow> rmatch (Cat r s) c e"
| m_altl: "rmatch r c d \<Longrightarrow> rmatch (Alt r s) c d"
| m_altr: "rmatch s c d \<Longrightarrow> rmatch (Alt r s) c d"
| m_rep0: "rmatch (Rep 0 hi r) c c"
| m_rep: "rmatch r c d \<Longrightarrow> rmatch (Rep (lo - 1) hi r) d e \<Longrightarrow> rmatch (Rep lo (Suc hi) r) c e"
| m_many0: "rmatch (Many r) c c"
| m_many: "rmatch r c d \<Longrightarrow> rmatch (Many r) d e \<Longrightarrow> rmatch (Many r) c e"
| m_start: "rmatch AtStart (Cur [] s) (Cur [] s)"
| m_end: "rmatch AtEnd (Cur rp []) (Cur rp [])"
| m_wordb: "word_boundary c \<Longrightarrow> rmatch WordB c c"

inductive_cases rmatch_EpsE [elim!]: "rmatch Eps c d"
inductive_cases rmatch_ChrE [elim!]: "rmatch (Chr p) c d"
inductive_cases rmatch_CatE [elim!]: "rmatch (Cat r s) c d"
inductive_cases rmatch_AltE [elim!]: "rmatch (Alt r s) c d"
inductive_cases rmatch_RepE: "rmatch (Rep lo hi r) c d"
inductive_cases rmatch_StartE [elim!]: "rmatch AtStart c d"
inductive_cases rmatch_EndE [elim!]: "rmatch AtEnd c d"
inductive_cases rmatch_WordBE [elim!]: "rmatch WordB c d"

text \<open>A match moves the cursor over the text it consumed.\<close>

definition advances :: "cursor \<Rightarrow> cursor \<Rightarrow> bool" where
  "advances c d \<longleftrightarrow> (\<exists>w. after c = w @ after d \<and> before d = rev w @ before c)"

lemma advances_refl [simp]: "advances c c"
  by (simp add: advances_def)

lemma advances_trans [trans]: "advances c d \<Longrightarrow> advances d e \<Longrightarrow> advances c e"
  by (fastforce simp: advances_def)

lemma advances_length: "advances c d \<Longrightarrow> length (after d) \<le> length (after c)"
  by (auto simp: advances_def)

lemma advances_same: "advances c d \<Longrightarrow> length (after c) \<le> length (after d) \<Longrightarrow> d = c"
  by (cases c; cases d) (auto simp: advances_def)

lemma rmatch_advances: "rmatch r c d \<Longrightarrow> advances c d"
  by (induction rule: rmatch.induct)
     (auto intro: advances_trans, simp add: advances_def)

lemma rmatch_stuck: "rmatch r c d \<Longrightarrow> \<not> length (after d) < length (after c) \<Longrightarrow> d = c"
  by (meson advances_same not_less rmatch_advances)

lemma rep_ends_Suc_iff:
  "d \<in> set (rep_ends f lo (Suc n) c) \<longleftrightarrow>
     (\<exists>e \<in> set (f c). (0 < lo \<or> length (after e) < length (after c)) \<and> d \<in> set (rep_ends f (lo - 1) n e))
     \<or> lo = 0 \<and> d = c"
  unfolding rep_ends.simps set_append set_concat set_map set_filter
  by auto

declare rep_ends.simps(2) [simp del]

text \<open>Soundness: every cursor the matcher lists ends a match.\<close>

lemma rep_ends_sound:
  assumes "\<And>c d. d \<in> set (f c) \<Longrightarrow> rmatch r c d" "lo \<le> n" "d \<in> set (rep_ends f lo n c)"
  shows "rmatch (Rep lo n r) c d"
  using assms(2,3)
proof (induction n arbitrary: lo c)
  case 0
  then show ?case by (simp add: m_rep0)
next
  case (Suc n)
  from Suc.prems(2) consider (stop) "lo = 0" "d = c"
    | (more) e where "e \<in> set (f c)" "d \<in> set (rep_ends f (lo - 1) n e)"
    unfolding rep_ends_Suc_iff by blast
  then show ?case
  proof cases
    case stop
    then show ?thesis by (simp add: m_rep0)
  next
    case (more e)
    moreover have "lo - 1 \<le> n" using Suc.prems(1) by simp
    ultimately show ?thesis using Suc.IH assms(1) by (blast intro: m_rep)
  qed
qed

lemma many_ends_sound:
  assumes "\<And>c d. d \<in> set (f c) \<Longrightarrow> rmatch r c d" "d \<in> set (rep_ends f 0 n c)"
  shows "rmatch (Many r) c d"
  using assms(2)
proof (induction n arbitrary: c)
  case 0
  then show ?case by (simp add: m_many0)
next
  case (Suc n)
  then consider "d = c" | e where "e \<in> set (f c)" "d \<in> set (rep_ends f 0 n e)"
    unfolding rep_ends_Suc_iff by auto
  then show ?case using Suc.IH assms(1) by cases (blast intro: m_many0 m_many)+
qed

text \<open>The bounded repetitions of a well-formed expression have their bounds in order.\<close>

primrec wf_regex :: "regex \<Rightarrow> bool" where
  "wf_regex Eps = True"
| "wf_regex (Chr p) = True"
| "wf_regex (Cat r s) = (wf_regex r \<and> wf_regex s)"
| "wf_regex (Alt r s) = (wf_regex r \<and> wf_regex s)"
| "wf_regex (Rep lo hi r) = (lo \<le> hi \<and> wf_regex r)"
| "wf_regex (Many r) = wf_regex r"
| "wf_regex AtStart = True"
| "wf_regex AtEnd = True"
| "wf_regex WordB = True"

lemma ends_sound: "wf_regex r \<Longrightarrow> d \<in> set (ends r c) \<Longrightarrow> rmatch r c d"
proof (induction r arbitrary: c d)
  case (Chr p)
  then show ?case by (cases c) (auto split: list.splits if_splits intro: m_chr)
next
  case (Rep lo hi r)
  then show ?case using rep_ends_sound [of "ends r" r lo hi d c] by simp
next
  case (Many r)
  then show ?case using many_ends_sound [of "ends r" r] by simp
next
  case AtStart
  then show ?case by (cases c) (auto split: if_splits intro: m_start)
next
  case AtEnd
  then show ?case by (cases c) (auto split: if_splits intro: m_end)
next
  case (Cat r s)
  from Cat.prems obtain e where "e \<in> set (ends r c)" "d \<in> set (ends s e)" by auto
  with Cat.IH Cat.prems(1) show ?case by (meson m_cat wf_regex.simps(3))
qed (auto split: if_splits intro: rmatch.intros)

text \<open>
  Completeness: every match is listed. An iteration that consumes nothing leaves the cursor where
  it was, so leaving such iterations out loses no end point.
\<close>

lemma rep_ends_zero_self: "c \<in> set (rep_ends f 0 n c)"
  by (cases n) (simp_all add: rep_ends_Suc_iff)

lemma rep_ends_mono: "d \<in> set (rep_ends f 0 n c) \<Longrightarrow> d \<in> set (rep_ends f 0 (Suc n) c)"
proof (induction n arbitrary: c)
  case 0
  then show ?case by (simp add: rep_ends_zero_self)
next
  case (Suc n)
  from Suc.prems consider "d = c"
    | e where "e \<in> set (f c)" "length (after e) < length (after c)" "d \<in> set (rep_ends f 0 n e)"
    unfolding rep_ends_Suc_iff by auto
  then show ?case
  proof cases
    case 1
    then show ?thesis by (simp add: rep_ends_zero_self)
  next
    case (2 e)
    with Suc.IH have "d \<in> set (rep_ends f 0 (Suc n) e)" by blast
    with 2 show ?thesis by (subst rep_ends_Suc_iff) auto
  qed
qed

lemma rmatch_Rep_SucD:
  "rmatch (Rep lo (Suc n) r) c e \<Longrightarrow> lo = 0 \<and> e = c \<or> (\<exists>d. rmatch r c d \<and> rmatch (Rep (lo - 1) n r) d e)"
  by (erule rmatch_RepE) auto

lemma rep_ends_complete:
  assumes f: "\<And>c d. rmatch r c d \<Longrightarrow> d \<in> set (f c)"
    and "rmatch (Rep lo hi r) c e"
  shows "e \<in> set (rep_ends f lo hi c)"
  using assms(2)
proof (induction hi arbitrary: lo c)
  case 0
  then show ?case by (auto elim: rmatch_RepE)
next
  case (Suc n)
  from Suc.prems consider "lo = 0" "e = c"
    | d where "rmatch r c d" "rmatch (Rep (lo - 1) n r) d e"
    using rmatch_Rep_SucD by blast
  then show ?case
  proof cases
    case 1
    then show ?thesis by (simp add: rep_ends_zero_self)
  next
    case (2 d)
    have e: "e \<in> set (rep_ends f (lo - 1) n d)" using 2 Suc.IH by blast
    have d: "d \<in> set (f c)" using 2 f by blast
    show ?thesis
    proof (cases "0 < lo \<or> length (after d) < length (after c)")
      case True
      with d e show ?thesis unfolding rep_ends_Suc_iff by blast
    next
      case False
      then have "d = c" using rmatch_stuck [OF 2(1)] by blast
      with False e show ?thesis using rep_ends_mono [of e f n c] by simp
    qed
  qed
qed

lemma many_ends_complete:
  assumes f: "\<And>c d. rmatch r c d \<Longrightarrow> d \<in> set (f c)"
  shows "rmatch q c e \<Longrightarrow> q = Many r \<Longrightarrow> length (after c) \<le> n \<Longrightarrow> e \<in> set (rep_ends f 0 n c)"
proof (induction arbitrary: n rule: rmatch.induct)
  case (m_many0 r c)
  then show ?case by (simp add: rep_ends_zero_self)
next
  case (m_many r' c d e)
  then have r: "rmatch r c d" by simp
  show ?case
  proof (cases "length (after d) < length (after c)")
    case True
    then obtain m where n: "n = Suc m" and "length (after d) \<le> m"
      using m_many.prems(2) by (cases n) auto
    then have "e \<in> set (rep_ends f 0 m d)" using m_many.IH(2) m_many.prems(1) by simp
    then show ?thesis using True f [OF r] unfolding n rep_ends_Suc_iff by auto
  next
    case False
    then have "d = c" using rmatch_stuck [OF r] by blast
    with m_many.IH(2) m_many.prems show ?thesis by simp
  qed
qed simp_all

lemma ends_complete: "rmatch r c d \<Longrightarrow> d \<in> set (ends r c)"
proof (induction r arbitrary: c d)
  case (Rep lo hi r)
  show ?case using rep_ends_complete [of r "ends r", OF Rep.IH Rep.prems] by simp
next
  case (Many r)
  show ?case using many_ends_complete [of r "ends r", OF Many.IH Many.prems refl order_refl] by simp
next
  case (Cat r s)
  from Cat.prems obtain e where "rmatch r c e" "rmatch s e d" by blast
  with Cat.IH show ?case unfolding ends.simps set_concat set_map by blast
qed auto

theorem ends_iff_rmatch: "wf_regex r \<Longrightarrow> d \<in> set (ends r c) \<longleftrightarrow> rmatch r c d"
  by (blast intro: ends_sound ends_complete)

text \<open>\<open>test\<close> finds a match exactly if some part of the text is one.\<close>

lemma test_at_iff:
  "test_at r rp s \<longleftrightarrow> (\<exists>u v. s = u @ v \<and> ends r (Cur (rev u @ rp) v) \<noteq> [])"
proof (induction r rp s rule: test_at.induct)
  case (1 r rp)
  then show ?case by simp
next
  case (2 r rp x xs)
  let ?M = "\<lambda>u v. ends r (Cur (rev u @ rp) v) \<noteq> []"
  have "(\<exists>u v. x # xs = u @ v \<and> ?M u v) \<longleftrightarrow> ?M [] (x # xs) \<or> (\<exists>u v. xs = u @ v \<and> ?M (x # u) v)"
    by (metis append_Cons append_Nil append_eq_Cons_conv)
  with 2 show ?case by simp
qed

lemma ends_nonempty_iff: "wf_regex r \<Longrightarrow> ends r c \<noteq> [] \<longleftrightarrow> (\<exists>d. rmatch r c d)"
  using ends_iff_rmatch [of r _ c] by (cases "ends r c") auto

theorem re_test_iff:
  "wf_regex r \<Longrightarrow> re_test r s \<longleftrightarrow> (\<exists>u v d. s = u @ v \<and> rmatch r (Cur (rev u) v) d)"
  by (simp add: re_test_def test_at_iff ends_nonempty_iff)

lemma re_test_false_start: "wf_regex r \<Longrightarrow> re_test (Cat AtStart r) s \<longleftrightarrow> ends r (Cur [] s) \<noteq> []"
proof -
  assume wf: "wf_regex r"
  have "re_test (Cat AtStart r) s \<longleftrightarrow> (\<exists>u v. s = u @ v \<and> ends (Cat AtStart r) (Cur (rev u) v) \<noteq> [])"
    by (simp add: re_test_def test_at_iff)
  also have "\<dots> \<longleftrightarrow> ends r (Cur [] s) \<noteq> []" by auto
  finally show ?thesis .
qed

subsection \<open>What the building blocks match\<close>

lemma rmatch_Chr_iff:
  "rmatch (Chr p) c d \<longleftrightarrow> (\<exists>u us. after c = u # us \<and> p u \<and> d = Cur (u # before c) us)"
  by (cases c) (auto intro: m_chr)

lemma rmatch_Cat_iff: "rmatch (Cat r s) c d \<longleftrightarrow> (\<exists>e. rmatch r c e \<and> rmatch s e d)"
  by (auto intro: m_cat)

lemma rmatch_Alt_iff: "rmatch (Alt r s) c d \<longleftrightarrow> rmatch r c d \<or> rmatch s c d"
  by (auto intro: m_altl m_altr)

lemma rmatch_Eps_iff: "rmatch Eps c d \<longleftrightarrow> d = c"
  by (auto intro: m_eps)

lemma rmatch_AtStart_iff: "rmatch AtStart c d \<longleftrightarrow> d = c \<and> before c = []"
  by (cases c) (auto intro: m_start)

lemma rmatch_AtEnd_iff: "rmatch AtEnd c d \<longleftrightarrow> d = c \<and> after c = []"
  by (cases c) (auto intro: m_end)

lemmas rmatch_iffs = rmatch_Chr_iff rmatch_Cat_iff rmatch_Alt_iff rmatch_Eps_iff
  rmatch_AtStart_iff rmatch_AtEnd_iff

lemma rmatch_lit: "rmatch (lit w) c d \<longleftrightarrow> after c = w @ after d \<and> before d = rev w @ before c"
proof (induction w arbitrary: c)
  case Nil
  then show ?case by (cases c; cases d) (auto simp: lit_def rmatch_Eps_iff)
next
  case (Cons a w)
  have "rmatch (lit (a # w)) c d \<longleftrightarrow> (\<exists>e. rmatch (Chr (\<lambda>u. u = a)) c e \<and> rmatch (lit w) e d)"
    by (simp add: lit_def rmatch_Cat_iff)
  also have "\<dots> \<longleftrightarrow> after c = (a # w) @ after d \<and> before d = rev (a # w) @ before c"
    by (auto simp: Cons.IH rmatch_Chr_iff)
  finally show ?case .
qed

lemma rmatch_Many_Chr:
  "rmatch (Many (Chr p)) c d \<longleftrightarrow> (\<exists>w. list_all p w \<and> after c = w @ after d \<and> before d = rev w @ before c)"
proof
  have "rmatch q c d \<Longrightarrow> q = Many (Chr p) \<Longrightarrow>
      \<exists>w. list_all p w \<and> after c = w @ after d \<and> before d = rev w @ before c" for q
  proof (induction rule: rmatch.induct)
    case (m_many r c d e)
    then obtain u us w where "after c = u # us" "p u" "d = Cur (u # before c) us"
      "list_all p w" "after d = w @ after e" "before e = rev w @ before d"
      by (auto simp: rmatch_Chr_iff)
    then show ?case by (intro exI [of _ "u # w"]) simp
  qed auto
  then show "rmatch (Many (Chr p)) c d \<Longrightarrow>
      \<exists>w. list_all p w \<and> after c = w @ after d \<and> before d = rev w @ before c" by blast
next
  have "list_all p w \<Longrightarrow> rmatch (Many (Chr p)) (Cur rp (w @ us)) (Cur (rev w @ rp) us)" for w rp us
  proof (induction w arbitrary: rp)
    case (Cons u w)
    then have one: "rmatch (Chr p) (Cur rp (u # w @ us)) (Cur (u # rp) (w @ us))"
      and rest: "rmatch (Many (Chr p)) (Cur (u # rp) (w @ us)) (Cur (rev (u # w) @ rp) us)"
      using Cons.IH [of "u # rp"] by (auto simp: rmatch_Chr_iff)
    show ?case using m_many [OF one rest] by simp
  qed (simp add: m_many0)
  then show "\<exists>w. list_all p w \<and> after c = w @ after d \<and> before d = rev w @ before c \<Longrightarrow>
      rmatch (Many (Chr p)) c d"
    by (cases c; cases d) auto
qed

lemma wf_lit [simp]: "wf_regex (lit w)" "wf_regex (lit_ci w)"
  by (induction w) (simp_all add: lit_def lit_ci_def)

lemma wf_alts [simp]: "wf_regex (alts rs) \<longleftrightarrow> list_all wf_regex rs"
  by (induction rs rule: alts.induct) auto

lemma wf_cats [simp]: "wf_regex (cats rs) \<longleftrightarrow> list_all wf_regex rs"
  by (induction rs rule: cats.induct) auto

lemma wf_blocks [simp]:
  "wf_regex (opt r) \<longleftrightarrow> wf_regex r" "wf_regex (some r) \<longleftrightarrow> wf_regex r"
  "wf_regex space" "wf_regex dot" "wf_regex (gap n)"
  by (simp_all add: opt_def some_def space_def dot_def gap_def)

lemma rmatch_alts: "rmatch (alts rs) c d \<longleftrightarrow> (\<exists>r \<in> set rs. rmatch r c d)"
  by (induction rs rule: alts.induct) (auto simp: rmatch_iffs)

lemma rmatch_alts_lit:
  "rmatch (alts (map lit ws)) c d \<longleftrightarrow> (\<exists>w \<in> set ws. after c = w @ after d \<and> before d = rev w @ before c)"
  by (auto simp: rmatch_alts rmatch_lit)

lemma rmatch_some_Chr:
  "rmatch (some (Chr p)) c d \<longleftrightarrow>
     (\<exists>w. w \<noteq> [] \<and> list_all p w \<and> after c = w @ after d \<and> before d = rev w @ before c)"
  (is "_ \<longleftrightarrow> (\<exists>w. ?P w)")
proof -
  have "rmatch (some (Chr p)) c d \<longleftrightarrow> (\<exists>u us w. after c = u # us \<and> p u \<and> list_all p w
      \<and> us = w @ after d \<and> before d = rev w @ u # before c)"
    by (auto simp: some_def rmatch_iffs rmatch_Many_Chr)
  also have "\<dots> \<longleftrightarrow> (\<exists>u w. ?P (u # w))" by auto
  also have "\<dots> \<longleftrightarrow> (\<exists>w. ?P w)" by (metis neq_Nil_conv)
  finally show ?thesis .
qed

text \<open>An expression anchored at the start is tried there only.\<close>

lemma re_test_start:
  "wf_regex r \<Longrightarrow> re_test (Cat AtStart r) s \<longleftrightarrow> (\<exists>d. rmatch r (Cur [] s) d)"
  using ends_nonempty_iff [of r "Cur [] s"] re_test_false_start [of r s] by simp

subsection \<open>Words a pattern accepts wherever they stand\<close>

definition spans :: "regex \<Rightarrow> jsstr \<Rightarrow> bool" where
  "spans r w \<longleftrightarrow> (\<forall>rp s. rmatch r (Cur rp (w @ s)) (Cur (rev w @ rp) s))"

lemma spans_Cat: "spans r a \<Longrightarrow> spans s b \<Longrightarrow> spans (Cat r s) (a @ b)"
  unfolding spans_def by (metis append.assoc m_cat rev_append)

lemma spans_alts: "r \<in> set rs \<Longrightarrow> spans r w \<Longrightarrow> spans (alts rs) w"
  by (auto simp: spans_def rmatch_alts)

lemma spans_cats3: "spans r a \<Longrightarrow> spans s b \<Longrightarrow> spans t c \<Longrightarrow> spans (cats [r, s, t]) (a @ b @ c)"
  by (simp add: spans_Cat)

lemma spans_lit_ci: "list_all2 ci_eq w w' \<Longrightarrow> spans (lit_ci w) w'"
proof (induction rule: list_all2_induct)
  case Nil
  show ?case by (simp add: spans_def lit_ci_def m_eps)
next
  case (Cons a w b w')
  have "spans (Chr (ci_eq a)) [b]" using Cons.hyps(1) by (simp add: spans_def m_chr)
  then have "spans (Cat (Chr (ci_eq a)) (lit_ci w)) ([b] @ w')" using Cons.IH by (rule spans_Cat)
  then show ?case by (simp add: lit_ci_def)
qed

lemma spans_Rep_Chr: "length g \<le> n \<Longrightarrow> list_all p g \<Longrightarrow> spans (Rep 0 n (Chr p)) g"
proof (induction g arbitrary: n)
  case Nil
  show ?case by (simp add: spans_def m_rep0)
next
  case (Cons a g)
  then obtain m where n: "n = Suc m" by (cases n) auto
  have IH: "spans (Rep 0 m (Chr p)) g" using Cons n by simp
  have "rmatch (Rep 0 (Suc m) (Chr p)) (Cur rp ((a # g) @ s)) (Cur (rev (a # g) @ rp) s)" for rp s
  proof (rule m_rep)
    show "rmatch (Chr p) (Cur rp ((a # g) @ s)) (Cur (a # rp) (g @ s))"
      using Cons.prems(2) by (simp add: m_chr)
    show "rmatch (Rep (0 - 1) m (Chr p)) (Cur (a # rp) (g @ s)) (Cur (rev (a # g) @ rp) s)"
      using IH by (simp add: spans_def)
  qed
  then show ?case by (simp add: spans_def n)
qed

definition line_break :: "nat \<Rightarrow> bool" where
  [js_eval]: "line_break u \<longleftrightarrow> u = 10 \<or> u = 13 \<or> u = 8232 \<or> u = 8233"

lemma spans_gap: "length g \<le> n \<Longrightarrow> list_all (\<lambda>u. \<not> line_break u) g \<Longrightarrow> spans (gap n) g"
  unfolding gap_def dot_def by (rule spans_Rep_Chr) (auto simp: line_break_def list_all_iff)

lemma re_test_spans: "wf_regex r \<Longrightarrow> spans r w \<Longrightarrow> re_test r (u @ w @ v)"
  unfolding re_test_iff spans_def by blast

subsection \<open>Collapsing white space\<close>

text \<open>The reference meaning of replacing every run of white space by one blank.\<close>

function collapse :: "jsstr \<Rightarrow> jsstr" where
  "collapse [] = []"
| "collapse (u # us) = (if is_space u then 32 # collapse (dropWhile is_space us) else u # collapse us)"
  by pat_completeness auto
termination
  by (relation "measure length") (auto simp: le_imp_less_Suc length_dropWhile_le)

lemma rep_ends_Chr_greedy:
  "length s \<le> n \<Longrightarrow> \<exists>cs. rep_ends (ends (Chr p)) 0 n (Cur rp s)
     = Cur (rev (takeWhile p s) @ rp) (dropWhile p s) # cs"
proof (induction n arbitrary: rp s)
  case (Suc n)
  show ?case
  proof (cases s)
    case (Cons u us)
    with Suc.IH [of us "u # rp"] Suc.prems show ?thesis
      by (cases "p u") (auto simp: rep_ends.simps)
  qed (simp add: rep_ends.simps)
qed (simp add: rep_ends.simps)

lemma ends_spaces:
  "is_space u \<Longrightarrow> \<exists>rp' cs. ends (some space) (Cur rp (u # us)) = Cur rp' (dropWhile is_space us) # cs"
  using rep_ends_Chr_greedy [of us "length us" is_space "u # rp"] by (auto simp: some_def space_def)

theorem re_replace_spaces: "re_replace (some space) [32] s = collapse s"
proof -
  have "replace_at (some space) [32] rp s = collapse s" for rp
  proof (induction s arbitrary: rp rule: collapse.induct)
    case 1
    show ?case by (subst replace_at.simps) (simp add: some_def space_def)
  next
    case (2 u us)
    show ?case
    proof (cases "is_space u")
      case True
      then obtain rp' cs where
        "ends (some space) (Cur rp (u # us)) = Cur rp' (dropWhile is_space us) # cs"
        using ends_spaces by blast
      then show ?thesis
        using True 2(1) by (subst replace_at.simps) (simp add: le_imp_less_Suc length_dropWhile_le)
    next
      case False
      then have "ends (some space) (Cur rp (u # us)) = []" by (simp add: some_def space_def)
      then show ?thesis using False 2(2) by (subst replace_at.simps) simp
    qed
  qed
  then show ?thesis by (simp add: re_replace_def)
qed

text \<open>No two blanks in a row, and no other white space.\<close>

fun squeezed :: "jsstr \<Rightarrow> bool" where
  "squeezed [] = True"
| "squeezed [u] = (is_space u \<longrightarrow> u = 32)"
| "squeezed (u # v # us) = ((is_space u \<longrightarrow> u = 32 \<and> \<not> is_space v) \<and> squeezed (v # us))"

lemma squeezed_Cons:
  "squeezed (u # us) \<longleftrightarrow> (is_space u \<longrightarrow> u = 32 \<and> (us = [] \<or> \<not> is_space (hd us))) \<and> squeezed us"
  by (cases us) auto

lemma hd_collapse: "s \<noteq> [] \<Longrightarrow> \<not> is_space (hd s) \<Longrightarrow> collapse s \<noteq> [] \<and> hd (collapse s) = hd s"
  by (cases s) auto

lemma squeezed_collapse: "squeezed (collapse s)"
proof (induction s rule: collapse.induct)
  case (2 u us)
  show ?case
  proof (cases "is_space u")
    case True
    let ?r = "dropWhile is_space us"
    have "collapse ?r = [] \<or> \<not> is_space (hd (collapse ?r))"
    proof (cases "?r = []")
      case False
      then show ?thesis using hd_collapse [of ?r] hd_dropWhile [of is_space us] by simp
    next
      case True
      then show ?thesis by (simp only: collapse.simps simp_thms)
    qed
    then show ?thesis using True 2(1) by (simp add: squeezed_Cons)
  qed (simp add: 2 squeezed_Cons)
qed simp

lemma squeezed_append1: "squeezed (a @ b) \<Longrightarrow> squeezed b"
  by (induction a) (auto simp: squeezed_Cons)

lemma squeezed_append2: "squeezed (a @ b) \<Longrightarrow> squeezed a"
  by (induction a) (auto simp: squeezed_Cons)

lemma trim_infix: "\<exists>a b. s = a @ trim s @ b"
proof -
  have l: "t = takeWhile is_space t @ trim_left t" for t by (simp add: trim_left_def)
  have "rev (trim_left s) = takeWhile is_space (rev (trim_left s)) @ trim_left (rev (trim_left s))"
    by (rule l)
  then have "trim_left s = trim s @ rev (takeWhile is_space (rev (trim_left s)))"
    unfolding trim_def by (metis rev_append rev_rev_ident)
  then show ?thesis using l [of s] by metis
qed

lemma squeezed_trim: "squeezed s \<Longrightarrow> squeezed (trim s)"
  using trim_infix [of s] squeezed_append1 squeezed_append2 by metis

lemma set_collapse: "set (collapse s) \<subseteq> set s \<union> {32}"
proof (induction s rule: collapse.induct)
  case (2 u us)
  have "set (dropWhile is_space us) \<subseteq> set us" by (auto dest: set_dropWhileD)
  with 2 show ?case by (cases "is_space u") auto
qed simp

lemma set_trim: "set (trim s) \<subseteq> set s"
  using trim_infix [of s] by (metis Un_upper1 Un_upper2 set_append subset_trans)

end
