(* ===== verification/Workflow_Types.thy ===== *)
theory Workflow_Types
  imports Prelude
begin

section \<open>Workflow definitions\<close>

text \<open>
  The workflow types of \<open>types.ts\<close>. A step carries its own fields and, optionally, the children
  of a condition, of parallel branches or of a loop; the type of a step and the children it carries
  are independent in the data, as in the source.
\<close>

datatype step_type =
    AgentStep | ServicesStep | AlertsStep | DashboardsStep | McpToolStep | SecurityCheckStep
  | OperationStep | VerifyStep | ApprovalStep | ConditionStep | ParallelStep | LoopStep

datatype condition_operator = OpExists | OpEquals | OpNotEquals | OpGt | OpGte | OpLt | OpLte

record condition_rule =
  cr_path :: jsstr
  cr_operator :: condition_operator
  cr_value :: "jsstr option"

datatype loop_mode = WhileLoop | UntilLoop | ForeachLoop

record step_info =
  si_id :: jsstr
  si_name :: jsstr
  si_type :: step_type
  si_prompt :: "jsstr option"
  si_message :: "jsstr option"
  si_tool :: "jsstr option"
  si_input :: "jsval option"
  si_retries :: "nat option"

record loop_info =
  lo_mode :: loop_mode
  lo_rule :: condition_rule
  lo_max :: nat
  lo_source :: "jsstr option"
  lo_concurrency :: "nat option"

datatype step =
    Step (st_info: step_info) (st_condition: "condition option") (st_parallel: "branch list option")
      (st_loop: "loop option")
and condition = Condition condition_rule "step list" "step list"
and branch = Branch jsstr jsstr "step list"
and loop = Loop loop_info "step list"

definition st_id :: "step \<Rightarrow> jsstr" where
  [js_eval]: "st_id s = si_id (st_info s)"

definition st_type :: "step \<Rightarrow> step_type" where
  [js_eval]: "st_type s = si_type (st_info s)"

record workflow_definition =
  wd_version :: nat
  wd_steps :: "step list"

record schedule_config =
  sd_enabled :: bool
  sd_cron :: jsstr
  sd_timezone :: jsstr

record event_trigger =
  et_id :: jsstr
  et_type :: jsstr
  et_filter :: jsstr
  et_enabled :: bool

datatype input_type = TextInput | NumberInput | BooleanInput | JsonInput

record input_field =
  if_id :: jsstr
  if_label :: jsstr
  if_type :: input_type
  if_required :: bool
  if_description :: "jsstr option"
  if_default :: "jsstr option"

record version_record =
  vr_version :: nat
  vr_name :: jsstr
  vr_definition :: workflow_definition
  vr_created :: int

record workflow_row =
  wf_id :: jsstr
  wf_name :: jsstr
  wf_description :: jsstr
  wf_enabled :: bool
  wf_definition :: workflow_definition
  wf_tags :: "jsstr list"
  wf_schedule :: schedule_config
  wf_triggers :: "event_trigger list"
  wf_inputs :: "input_field list"
  wf_version :: nat
  wf_versions :: "version_record list"
  wf_created :: int
  wf_updated :: int

end
