(* ===== verification/Database.thy ===== *)
theory Database
  imports Workflow_Types
begin

section \<open>The data model and the tables of the agent service\<close>

text \<open>
  The enumerations and records of \<open>types.ts\<close> and the tables \<open>db.ts\<close> creates. One record
  serves as the row and as the object read back from it: the column readers of the source
  (\<open>evidenceFromRow\<close>, \<open>memoryFromRow\<close>, ...) invert the writers. Columns that hold a JSON text
  hold the value here. The record \<open>agent_db\<close> is the database: every operation of the model takes
  it and returns it updated. Fresh identifiers (\<open>randomUUID\<close>) and the clock are arguments of the
  operations that read them.
\<close>

subsection \<open>Enumerations\<close>

datatype agent_mode = Diagnose | Plan | Operate
datatype user_role = Admin | Editor | Viewer
datatype security_decision = Allow | RequireApproval | Deny
datatype evidence_status = EvActive | EvAccepted | EvRejected | EvSuspended
datatype evidence_source =
  SrcTelemetry | SrcService | SrcAlert | SrcDashboard | SrcSsh | SrcMcp | SrcWorkflow | SrcDocument | SrcUrl
datatype evidence_relation_type = RelSameTrace | RelRelated | RelCorroborates | RelDerivedFrom
datatype memory_type = Working | Episodic | Semantic | Procedural
datatype memory_scope = ScopeOrganization | ScopeUser | ScopeAgent | ScopeThread | ScopeWorkflow
datatype memory_status = MemActive | MemVerified | MemSuspended | MemArchived | MemForgotten
datatype memory_source_type =
  FromEvidence | FromMessage | FromWorkflow | FromManual | FromMemory | FromDocument
datatype memory_relation_type =
  MrSupports | MrConflicts | MrDuplicates | MrDerivedFrom | MrSameService
datatype ssh_auth_type = Password | PrivateKey
datatype ssh_tool = ReadonlyInspect | ExecuteCommand
datatype audit_source = AuChat | AuWorkflow | AuMcp | AuTool | AuEvidence | AuMemory
datatype run_status = RunRunning | RunSuspended | RunCompleted | RunFailed
datatype model_provider = OpenAI | Anthropic
datatype endpoint_mode = OfficialEndpoint | CustomEndpoint
datatype tool_choice = AutoTools | NoTools | RequiredTools

text \<open>
  The decisions of the security policy, ordered by severity: a request that is denied is treated
  more strictly than one that needs an approval, and that more strictly than an allowed one.
\<close>

instantiation security_decision :: linorder
begin

primrec strictness :: "security_decision \<Rightarrow> nat" where
  "strictness Allow = 0"
| "strictness RequireApproval = 1"
| "strictness Deny = 2"

definition less_eq_security_decision :: "security_decision \<Rightarrow> security_decision \<Rightarrow> bool" where
  "a \<le> b \<longleftrightarrow> strictness a \<le> strictness b"

definition less_security_decision :: "security_decision \<Rightarrow> security_decision \<Rightarrow> bool" where
  "a < b \<longleftrightarrow> strictness a < strictness b"

instance
proof
  fix a b c :: security_decision
  show "a < b \<longleftrightarrow> a \<le> b \<and> \<not> b \<le> a"
    by (auto simp: less_eq_security_decision_def less_security_decision_def)
  show "a \<le> a" by (simp add: less_eq_security_decision_def)
  show "a \<le> b \<Longrightarrow> b \<le> c \<Longrightarrow> a \<le> c" by (simp add: less_eq_security_decision_def)
  show "a \<le> b \<Longrightarrow> b \<le> a \<Longrightarrow> a = b" by (cases a; cases b) (simp_all add: less_eq_security_decision_def)
  show "a \<le> b \<or> b \<le> a" by (simp add: less_eq_security_decision_def linear)
qed

end

subsection \<open>Users and capture contexts\<close>

record auth_user =
  user_id :: jsstr
  user_org :: jsstr
  user_email :: jsstr
  user_role :: user_role
  user_token :: jsstr

record capture_context =
  ctx_thread :: jsstr
  ctx_trace :: jsstr
  ctx_query :: jsstr

subsection \<open>Security audit events\<close>

record security_event =
  se_trace :: jsstr
  se_org :: jsstr
  se_user :: jsstr
  se_type :: jsstr
  se_source :: audit_source
  se_target :: jsstr
  se_decision :: "security_decision option"
  se_risk :: int
  se_hash :: jsstr
  se_details :: jsval
  se_at :: int

subsection \<open>Threads\<close>

record thread_row =
  th_id :: jsstr
  th_user :: jsstr
  th_org :: jsstr
  th_title :: jsstr
  th_created :: int
  th_updated :: int

record ui_message_row =
  um_id :: jsstr
  um_thread :: jsstr
  um_role :: jsstr
  um_message :: jsval
  um_created :: int
  um_updated :: int

subsection \<open>Evidence\<close>

record score_factors =
  sf_reliability :: int
  sf_quality :: int
  sf_freshness :: int
  sf_integrity :: int
  sf_directness :: int
  sf_lexical :: int

record evidence_row =
  ev_id :: jsstr
  ev_thread :: jsstr
  ev_org :: jsstr
  ev_user :: jsstr
  ev_trace :: jsstr
  ev_message :: jsstr
  ev_source :: evidence_source
  ev_source_name :: jsstr
  ev_title :: jsstr
  ev_summary :: jsstr
  ev_content :: jsval
  ev_hash :: jsstr
  ev_confidence :: int
  ev_relevance :: int
  ev_factors :: score_factors
  ev_status :: evidence_status
  ev_selected :: bool
  ev_note :: jsstr
  ev_captured :: int
  ev_updated :: int

record evidence_relation =
  er_id :: jsstr
  er_thread :: jsstr
  er_from :: jsstr
  er_to :: jsstr
  er_type :: evidence_relation_type
  er_score :: int
  er_rationale :: jsstr
  er_created :: int

record evidence_action =
  ea_evidence :: jsstr
  ea_thread :: jsstr
  ea_user :: jsstr
  ea_action :: jsstr
  ea_previous :: evidence_status
  ea_next :: evidence_status
  ea_note :: jsstr
  ea_created :: int

record evidence_revision =
  rv_id :: jsstr
  rv_thread :: jsstr
  rv_org :: jsstr
  rv_user :: jsstr
  rv_message :: jsstr
  rv_selected :: "jsstr list"
  rv_excluded :: "jsstr list"
  rv_instruction :: jsstr
  rv_created :: int

subsection \<open>Memories\<close>

datatype chunk_type = CkSummary | CkObservation | CkProcedure | CkEvidence | CkMetadata

record memory_row =
  me_id :: jsstr
  me_org :: jsstr
  me_user :: jsstr
  me_thread :: jsstr
  me_workflow :: jsstr
  me_agent :: jsstr
  me_type :: memory_type
  me_scope :: memory_scope
  me_service :: jsstr
  me_title :: jsstr
  me_summary :: jsstr
  me_content :: jsval
  me_hash :: jsstr
  me_tags :: "jsstr list"
  me_keywords :: "jsstr list"
  me_confidence :: int
  me_importance :: int
  me_vitality :: int
  me_access :: int
  me_reinforced :: int
  me_status :: memory_status
  me_pinned :: bool
  me_note :: jsstr
  me_created :: int
  me_last_access :: int
  me_last_reinforced :: int
  me_expires :: int
  me_updated :: int

record memory_source =
  ms_memory :: jsstr
  ms_type :: memory_source_type
  ms_source :: jsstr
  ms_trace :: jsstr
  ms_relation :: jsstr
  ms_weight :: int
  ms_created :: int

record memory_relation =
  mr_id :: jsstr
  mr_org :: jsstr
  mr_from :: jsstr
  mr_to :: jsstr
  mr_type :: memory_relation_type
  mr_score :: int
  mr_rationale :: jsstr
  mr_created :: int

record memory_action =
  ma_memory :: jsstr
  ma_org :: jsstr
  ma_user :: jsstr
  ma_action :: jsstr
  ma_previous :: memory_status
  ma_next :: memory_status
  ma_detail :: jsstr
  ma_created :: int

record memory_chunk =
  mc_id :: jsstr
  mc_memory :: jsstr
  mc_index :: nat
  mc_type :: chunk_type
  mc_title :: jsstr
  mc_content :: jsstr
  mc_hash :: jsstr
  mc_tokens :: nat
  mc_keywords :: "jsstr list"
  mc_service :: jsstr
  mc_confidence :: int
  mc_created :: int
  mc_updated :: int

record topology_edge =
  te_org :: jsstr
  te_from :: jsstr
  te_to :: jsstr
  te_observations :: int
  te_errors :: int
  te_rate :: rat
  te_confidence :: int
  te_trace :: jsstr
  te_observed :: int

record retrieval_run =
  rr_id :: jsstr
  rr_org :: jsstr
  rr_user :: jsstr
  rr_thread :: jsstr
  rr_trace :: jsstr
  rr_query :: jsstr
  rr_strategy :: jsstr
  rr_symptom :: jsstr
  rr_signature :: "jsstr list"
  rr_paths :: "jsstr list list"
  rr_reason :: jsstr
  rr_candidates :: nat
  rr_returned :: "jsstr list"
  rr_latency :: int
  rr_created :: int

subsection \<open>Managed SSH hosts\<close>

record ssh_host =
  sh_id :: jsstr
  sh_name :: jsstr
  sh_hostname :: jsstr
  sh_port :: int
  sh_username :: jsstr
  sh_auth :: ssh_auth_type
  sh_fingerprint :: jsstr
  sh_enabled :: bool
  sh_private_key :: jsstr
  sh_passphrase :: jsstr
  sh_simulated :: bool
  sh_created :: int
  sh_updated :: int

record ssh_command =
  sc_id :: jsstr
  sc_name :: jsstr
  sc_description :: jsstr
  sc_command :: jsstr

record ssh_policy =
  sp_tool :: ssh_tool
  sp_risk :: int
  sp_enabled :: bool
  sp_approval :: bool
  sp_seconds :: int
  sp_command_ids :: "jsstr list"
  sp_commands :: "ssh_command list"
  sp_updated :: int

record ssh_audit =
  sa_user :: jsstr
  sa_host :: jsstr
  sa_host_name :: jsstr
  sa_tool :: jsstr
  sa_command :: jsstr
  sa_success :: bool
  sa_exit :: "int option"
  sa_duration :: int
  sa_stdout :: nat
  sa_stderr :: nat
  sa_error :: jsstr
  sa_created :: int

record simulation_row =
  sm_org :: jsstr
  sm_enabled :: bool
  sm_updated :: int

subsection \<open>Workflow runs\<close>

record run_row =
  rn_id :: jsstr
  rn_workflow :: jsstr
  rn_thread :: jsstr
  rn_user :: jsstr
  rn_status :: run_status
  rn_input :: jsval
  rn_output :: jsval
  rn_steps :: "(jsstr \<times> jsval) list"
  rn_suspended :: jsstr
  rn_created :: int
  rn_updated :: int

subsection \<open>Settings\<close>

text \<open>Secrets are stored encrypted: \<open>mv_headers\<close> and \<open>mo_key\<close> hold the cipher text, or nothing.\<close>

record mcp_row =
  mv_id :: jsstr
  mv_org :: jsstr
  mv_name :: jsstr
  mv_description :: jsstr
  mv_url :: jsstr
  mv_enabled :: bool
  mv_headers :: jsstr
  mv_timeout :: int
  mv_created :: int
  mv_updated :: int

record model_row =
  mo_provider :: model_provider
  mo_mode :: endpoint_mode
  mo_model :: jsstr
  mo_base :: jsstr
  mo_key :: jsstr
  mo_temperature :: "rat option"
  mo_tokens :: int
  mo_steps :: int
  mo_timeout :: int
  mo_retries :: int
  mo_choice :: tool_choice
  mo_instructions :: jsstr
  mo_memory :: int
  mo_updated :: int

subsection \<open>The database\<close>

record agent_db =
  security_events :: "security_event list"
  threads :: "thread_row list"
  ui_messages :: "ui_message_row list"
  evidence_items :: "evidence_row list"
  evidence_relations :: "evidence_relation list"
  evidence_actions :: "evidence_action list"
  evidence_revisions :: "evidence_revision list"
  memory_items :: "memory_row list"
  memory_sources :: "memory_source list"
  memory_relations :: "memory_relation list"
  memory_actions :: "memory_action list"
  memory_chunks :: "memory_chunk list"
  topology_edges :: "topology_edge list"
  retrieval_runs :: "retrieval_run list"
  ssh_hosts :: "ssh_host list"
  tool_policies :: "ssh_policy list"
  ssh_audits :: "ssh_audit list"
  simulation_settings :: "simulation_row list"
  workflows :: "workflow_row list"
  workflow_runs :: "run_row list"
  mcp_servers :: "mcp_row list"
  model_settings :: "model_row list"

definition empty_db :: agent_db where
  "empty_db = \<lparr>security_events = [], threads = [], ui_messages = [], evidence_items = [],
     evidence_relations = [], evidence_actions = [], evidence_revisions = [], memory_items = [],
     memory_sources = [], memory_relations = [], memory_actions = [], memory_chunks = [],
     topology_edges = [], retrieval_runs = [], ssh_hosts = [], tool_policies = [], ssh_audits = [],
     simulation_settings = [], workflows = [], workflow_runs = [], mcp_servers = [], model_settings = []\<rparr>"

subsection \<open>The security audit log (\<open>security/audit.ts\<close>)\<close>

definition addSecurityAuditEvent :: "security_event \<Rightarrow> agent_db \<Rightarrow> agent_db" where
  [js_eval]: "addSecurityAuditEvent e s = s\<lparr>security_events := security_events s @ [e]\<rparr>"

text \<open>\<open>ORDER BY id DESC LIMIT ?\<close> over the rows of one organisation, the limit clamped to 1..500.\<close>

definition listSecurityAuditEvents :: "jsstr \<Rightarrow> int \<Rightarrow> agent_db \<Rightarrow> security_event list" where
  [js_eval]: "listSecurityAuditEvents org limit s =
     take (nat (min (max limit 1) 500)) (filter (\<lambda>e. se_org e = org) (rev (security_events s)))"

interpretation security_log: journal security_events addSecurityAuditEvent
  by unfold_locales (simp add: addSecurityAuditEvent_def)

text \<open>Writing an audit event leaves every other table alone.\<close>

lemma audit_frame [simp]:
  "evidence_items (addSecurityAuditEvent e s) = evidence_items s"
  "evidence_actions (addSecurityAuditEvent e s) = evidence_actions s"
  "evidence_relations (addSecurityAuditEvent e s) = evidence_relations s"
  "evidence_revisions (addSecurityAuditEvent e s) = evidence_revisions s"
  "memory_items (addSecurityAuditEvent e s) = memory_items s"
  "memory_actions (addSecurityAuditEvent e s) = memory_actions s"
  "memory_chunks (addSecurityAuditEvent e s) = memory_chunks s"
  "memory_sources (addSecurityAuditEvent e s) = memory_sources s"
  "memory_relations (addSecurityAuditEvent e s) = memory_relations s"
  "topology_edges (addSecurityAuditEvent e s) = topology_edges s"
  "retrieval_runs (addSecurityAuditEvent e s) = retrieval_runs s"
  "ssh_hosts (addSecurityAuditEvent e s) = ssh_hosts s"
  "ssh_audits (addSecurityAuditEvent e s) = ssh_audits s"
  "tool_policies (addSecurityAuditEvent e s) = tool_policies s"
  "simulation_settings (addSecurityAuditEvent e s) = simulation_settings s"
  "threads (addSecurityAuditEvent e s) = threads s"
  "ui_messages (addSecurityAuditEvent e s) = ui_messages s"
  "workflows (addSecurityAuditEvent e s) = workflows s"
  "workflow_runs (addSecurityAuditEvent e s) = workflow_runs s"
  "mcp_servers (addSecurityAuditEvent e s) = mcp_servers s"
  "model_settings (addSecurityAuditEvent e s) = model_settings s"
  by (simp_all add: addSecurityAuditEvent_def)

lemma security_events_audit [simp]:
  "security_events (addSecurityAuditEvent e s) = security_events s @ [e]"
  by (rule security_log.events_emit)

lemma listSecurityAuditEvents_bound: "length (listSecurityAuditEvents org limit s) \<le> 500"
proof -
  have "nat (min (max limit 1) 500) \<le> 500" by simp
  then show ?thesis unfolding listSecurityAuditEvents_def length_take by linarith
qed

end
