(* ===== verification/Command_Risk.thy ===== *)
theory Command_Risk
  imports Regex Database
begin

section \<open>The command gate (\<open>security/command-risk-analyzer.ts\<close>)\<close>

text \<open>
  Every shell command the agent may run on a managed host passes \<open>analyzeCommandRisk\<close>: a shell
  tokenizer, a screen for control operators, interpreters and destructive commands, and the
  requirement that the command calls a wrapper under \<open>/opt/scry-ops/bin\<close>. The theory models the
  tokenizer as the fold over characters it is, and proves what an accepted command looks like.
\<close>

subsection \<open>The screens\<close>

definition control_words :: "jsstr list" where
  [js_eval]: "control_words = [js '';'', js ''&&'', js ''||'', js ''|'', [96], js ''$('', js ''>'', js ''<'', [13], [10]]"

definition control_operators :: regex where
  [js_eval]: "control_operators =
     Cat (alts [AtStart, Chr (\<lambda>u. u \<noteq> 92)]) (alts (map lit control_words))"

definition forbidden_executables :: "jsstr list" where
  [js_eval]: "forbidden_executables =
     map js [''bash'', ''sh'', ''zsh'', ''dash'', ''fish'', ''sudo'', ''su'', ''doas'', ''env'', ''eval'', ''exec'',
       ''python'', ''python3'', ''perl'', ''ruby'', ''node'', ''php'', ''nc'', ''ncat'', ''socat'']"

definition destructive :: regex where
  [js_eval]: "destructive =
     cats [alts [AtStart, space], alts [
       cats [lit_ci (js ''rm''), some space, lit_ci (js ''-''), Many (Chr (\<lambda>u. \<not> (u = 10))),
         lit_ci (js ''r''), Many (Chr (\<lambda>u. \<not> (u = 10))), lit_ci (js ''f'')],
       cats [lit_ci (js ''mkfs''), alts [lit_ci (js ''.''), space]],
       lit_ci (js ''wipefs''), lit_ci (js ''fdisk''), lit_ci (js ''parted''),
       cats [lit_ci (js ''dd''), some space, lit_ci (js ''if='')],
       lit_ci (js ''shutdown''), lit_ci (js ''poweroff''), lit_ci (js ''reboot''),
       cats [lit_ci (js ''init''), some space, Chr (\<lambda>u. u = 48 \<or> u = 54)],
       cats [lit_ci (js ''iptables''), some space, lit_ci (js ''-F'')],
       cats [lit_ci (js ''nft''), some space, lit_ci (js ''flush'')],
       cats [lit_ci (js ''user''), alts [lit_ci (js ''add''), lit_ci (js ''del''), lit_ci (js ''mod'')]],
       cats [lit_ci (js ''passwd''), WordB]]]"

definition wrapper_char :: "nat \<Rightarrow> bool" where
  [js_eval]: "wrapper_char u \<longleftrightarrow> 97 \<le> u \<and> u \<le> 122 \<or> 48 \<le> u \<and> u \<le> 57 \<or> u = 45"

definition wrapper_pattern :: regex where
  [js_eval]: "wrapper_pattern =
     cats [AtStart, lit (js ''/opt/scry-ops/bin/scry-''), some (Chr wrapper_char), AtEnd]"

subsection \<open>The tokenizer\<close>

datatype quote = Single | Double

record tok_state =
  toks :: "jsstr list"
  current :: jsstr
  quoting :: "quote option"
  escaped :: bool

definition tok_init :: tok_state where
  [js_eval]: "tok_init = \<lparr>toks = [], current = [], quoting = None, escaped = False\<rparr>"

definition tok_step :: "tok_state \<Rightarrow> nat \<Rightarrow> tok_state" where
  [js_eval]: "tok_step t u =
     (if escaped t then t\<lparr>current := current t @ [u], escaped := False\<rparr>
      else if u = 92 \<and> quoting t \<noteq> Some Single then t\<lparr>escaped := True\<rparr>
      else if u = 39 \<and> quoting t \<noteq> Some Double then
        t\<lparr>quoting := (if quoting t = Some Single then None else Some Single)\<rparr>
      else if u = 34 \<and> quoting t \<noteq> Some Single then
        t\<lparr>quoting := (if quoting t = Some Double then None else Some Double)\<rparr>
      else if is_space u \<and> quoting t = None then
        t\<lparr>toks := (if current t \<noteq> [] then toks t @ [current t] else toks t), current := []\<rparr>
      else t\<lparr>current := current t @ [u]\<rparr>)"

definition tok_finish :: "tok_state \<Rightarrow> jsstr list" where
  [js_eval]: "tok_finish t =
     (if quoting t \<noteq> None \<or> escaped t then []
      else if current t \<noteq> [] then toks t @ [current t] else toks t)"

definition tokenize :: "jsstr \<Rightarrow> jsstr list" where
  [js_eval]: "tokenize command = tok_finish (foldl tok_step tok_init (trim command))"

subsection \<open>The analysis\<close>

datatype risk_reason =
    EmptyOrUnbalanced
  | ControlOperator
  | ForbiddenExecutable jsstr
  | DestructiveOperation
  | NulByte
  | ManagedWrapper
  | NotAWrapper

text \<open>The messages shown to the user, as code units.\<close>

fun reason_text :: "risk_reason \<Rightarrow> jsstr" where
  "reason_text EmptyOrUnbalanced =
     [21629, 20196, 20026, 31354, 25110, 24341, 21495, 32467, 26500, 19981, 23436, 25972]"
| "reason_text ControlOperator =
     [21629, 20196, 21253, 21547] @ js '' Shell '' @
     [25511, 21046, 12289, 26367, 25442, 25110, 37325, 23450, 21521, 25805, 20316, 31526]"
| "reason_text (ForbiddenExecutable e) =
     [31105, 27490, 36890, 36807] @ js '' '' @ (if e = [] then js ''Shell'' else e) @ js '' '' @
     [35299, 37322, 22120, 25110, 25552, 26435, 31243, 24207, 25191, 34892]"
| "reason_text DestructiveOperation =
     [21629, 20196, 21253, 21547, 30772, 22351, 24615, 31995, 32479, 25805, 20316]"
| "reason_text NulByte = [21629, 20196, 21253, 21547, 31354, 23383, 33410]"
| "reason_text ManagedWrapper =
     [35843, 29992, 21463, 31649] @ js '' scry-ops '' @
     [21253, 35013, 22120, 65292, 25191, 34892, 21069, 24517, 39035, 23457, 25209]"
| "reason_text NotAWrapper =
     [21629, 20196, 27809, 26377, 35843, 29992, 21463, 31649] @ js '' scry-ops '' @ [21253, 35013, 22120]"

record command_risk =
  cr_decision :: security_decision
  cr_score :: int
  cr_executable :: jsstr
  cr_tokens :: "jsstr list"
  cr_reasons :: "risk_reason list"

text \<open>\<open>tokens[i] || ''\<close>.\<close>

definition token_at :: "jsstr list \<Rightarrow> nat \<Rightarrow> jsstr" where
  [js_eval]: "token_at ts i = (if i < length ts then ts ! i else [])"

definition wrapper_path :: "jsstr \<Rightarrow> bool" where
  [js_eval]: "wrapper_path s = re_test wrapper_pattern s"

definition executable_of :: "jsstr list \<Rightarrow> jsstr" where
  [js_eval]: "executable_of ts = to_lower (last (str_split 47 (token_at ts 0)))"

definition safe_sudo_wrapper :: "jsstr list \<Rightarrow> bool" where
  [js_eval]: "safe_sudo_wrapper ts \<longleftrightarrow>
     executable_of ts = js ''sudo'' \<and> 1 < length ts \<and> ts ! 1 = js ''-n'' \<and> wrapper_path (token_at ts 2)"

definition deny_reasons :: "jsstr \<Rightarrow> jsstr list \<Rightarrow> risk_reason list" where
  [js_eval]: "deny_reasons trimmed ts =
     (if trimmed = [] \<or> ts = [] then [EmptyOrUnbalanced] else []) @
     (if re_test control_operators trimmed then [ControlOperator] else []) @
     (if executable_of ts \<in> set forbidden_executables \<and> \<not> safe_sudo_wrapper ts
      then [ForbiddenExecutable (executable_of ts)] else []) @
     (if re_test destructive trimmed then [DestructiveOperation] else []) @
     (if list_ex (\<lambda>t. 0 \<in> set t) ts then [NulByte] else [])"

definition analyzeCommandRisk :: "jsstr \<Rightarrow> command_risk" where
  [js_eval]: "analyzeCommandRisk command =
     (let trimmed = trim command; ts = tokenize trimmed; exe = executable_of ts;
          reasons = deny_reasons trimmed ts
      in if reasons \<noteq> [] then
           \<lparr>cr_decision = Deny, cr_score = 100, cr_executable = exe, cr_tokens = ts, cr_reasons = reasons\<rparr>
         else if wrapper_path (token_at ts 0) \<or> safe_sudo_wrapper ts then
           \<lparr>cr_decision = RequireApproval, cr_score = 65, cr_executable = exe, cr_tokens = ts,
            cr_reasons = [ManagedWrapper]\<rparr>
         else
           \<lparr>cr_decision = Deny, cr_score = 90, cr_executable = exe, cr_tokens = ts,
            cr_reasons = [NotAWrapper]\<rparr>)"

subsection \<open>What the screens accept\<close>

lemma wrapper_path_iff:
  "wrapper_path s \<longleftrightarrow> (\<exists>w. w \<noteq> [] \<and> list_all wrapper_char w \<and> s = js ''/opt/scry-ops/bin/scry-'' @ w)"
proof -
  let ?p = "js ''/opt/scry-ops/bin/scry-''"
  have "wrapper_path s \<longleftrightarrow>
      (\<exists>d. rmatch (cats [lit ?p, some (Chr wrapper_char), AtEnd]) (Cur [] s) d)"
    by (simp add: wrapper_path_def wrapper_pattern_def re_test_start)
  also have "\<dots> \<longleftrightarrow> (\<exists>d e. rmatch (lit ?p) (Cur [] s) d \<and> rmatch (some (Chr wrapper_char)) d e \<and> after e = [])"
    by (auto simp: rmatch_Cat_iff rmatch_AtEnd_iff)
  also have "\<dots> \<longleftrightarrow> (\<exists>w. w \<noteq> [] \<and> list_all wrapper_char w \<and> s = ?p @ w)" (is "?L \<longleftrightarrow> ?R")
  proof
    assume ?L
    then show ?R by (auto simp: rmatch_lit rmatch_some_Chr)
  next
    assume ?R
    then obtain w where w: "w \<noteq> []" "list_all wrapper_char w" "s = ?p @ w" by blast
    then have "rmatch (lit ?p) (Cur [] s) (Cur (rev ?p) w)"
      and "rmatch (some (Chr wrapper_char)) (Cur (rev ?p) w) (Cur (rev w @ rev ?p) [])"
      by (auto simp: rmatch_lit rmatch_some_Chr)
    then show ?L by (metis cursor.sel(2))
  qed
  finally show ?thesis .
qed

text \<open>
  The control screen: an operator is caught at the start of the command or after any character
  but a backslash.
\<close>

lemma control_operators_caught:
  assumes "s = u @ op @ v" "u = [] \<or> last u \<noteq> 92" "op \<in> set control_words"
  shows "re_test control_operators s"
proof -
  let ?r = "alts (map lit control_words)"
  have wf: "wf_regex control_operators"
    by (simp add: control_operators_def list_all_iff)
  have op: "rmatch ?r (Cur rp (op @ v)) (Cur (rev op @ rp) v)" for rp
    using assms(3) by (auto simp: rmatch_alts_lit)
  show ?thesis
  proof (cases u rule: rev_cases)
    case Nil
    have "rmatch (alts [AtStart, Chr (\<lambda>u. u \<noteq> 92)]) (Cur [] s) (Cur [] (op @ v))"
      using Nil assms(1) by (simp add: rmatch_Alt_iff rmatch_AtStart_iff)
    then have "rmatch control_operators (Cur [] s) (Cur (rev op @ []) v)"
      unfolding control_operators_def using op by (rule m_cat)
    then show ?thesis unfolding re_test_iff [OF wf] by (metis append_Nil rev.simps(1))
  next
    case (snoc u' x)
    with assms(2) have "rmatch (alts [AtStart, Chr (\<lambda>u. u \<noteq> 92)])
        (Cur (rev u') (x # op @ v)) (Cur (x # rev u') (op @ v))"
      by (simp add: rmatch_Alt_iff rmatch_Chr_iff)
    then have "rmatch control_operators (Cur (rev u') (x # op @ v)) (Cur (rev op @ x # rev u') v)"
      unfolding control_operators_def using op by (rule m_cat)
    moreover have "s = u' @ x # op @ v" using assms(1) snoc by simp
    ultimately show ?thesis unfolding re_test_iff [OF wf] by blast
  qed
qed

subsection \<open>The gate\<close>

lemmas analysis_defs = analyzeCommandRisk_def deny_reasons_def Let_def

lemma accepted_iff:
  "cr_decision (analyzeCommandRisk c) = RequireApproval \<longleftrightarrow>
     deny_reasons (trim c) (tokenize (trim c)) = [] \<and>
     (wrapper_path (token_at (tokenize (trim c)) 0) \<or> safe_sudo_wrapper (tokenize (trim c)))"
  by (simp add: analyzeCommandRisk_def Let_def)

lemma cr_tokens_eq: "cr_tokens (analyzeCommandRisk c) = tokenize (trim c)"
  by (simp add: analyzeCommandRisk_def Let_def)

lemma no_deny_reasons:
  assumes "deny_reasons t ts = []"
  shows "t \<noteq> [] \<and> ts \<noteq> [] \<and> \<not> re_test control_operators t \<and> \<not> re_test destructive t
     \<and> (\<forall>w \<in> set ts. 0 \<notin> set w)
     \<and> (executable_of ts \<in> set forbidden_executables \<longrightarrow> safe_sudo_wrapper ts)"
  using assms by (auto simp: deny_reasons_def list_ex_iff split: if_splits)

text \<open>A token list that calls a managed wrapper, directly or through \<open>sudo -n\<close>.\<close>

definition calls_wrapper :: "jsstr list \<Rightarrow> bool" where
  "calls_wrapper ts \<longleftrightarrow>
     (\<exists>w. w \<noteq> [] \<and> list_all wrapper_char w
        \<and> (ts \<noteq> [] \<and> hd ts = js ''/opt/scry-ops/bin/scry-'' @ w
           \<or> 2 < length ts \<and> executable_of ts = js ''sudo'' \<and> ts ! 1 = js ''-n''
             \<and> ts ! 2 = js ''/opt/scry-ops/bin/scry-'' @ w))"

lemma not_denied:
  assumes "cr_decision (analyzeCommandRisk c) \<noteq> Deny"
  shows "cr_decision (analyzeCommandRisk c) = RequireApproval"
    and "cr_score (analyzeCommandRisk c) = 65"
    and "calls_wrapper (tokenize (trim c))"
    and "deny_reasons (trim c) (tokenize (trim c)) = []"
proof -
  let ?ts = "tokenize (trim c)"
  show dec: "cr_decision (analyzeCommandRisk c) = RequireApproval"
    and "cr_score (analyzeCommandRisk c) = 65"
    using assms by (auto simp: analyzeCommandRisk_def Let_def split: if_splits)
  from dec show "deny_reasons (trim c) ?ts = []" using accepted_iff by blast
  from dec have "wrapper_path (token_at ?ts 0) \<or> safe_sudo_wrapper ?ts" using accepted_iff by blast
  moreover have "\<not> wrapper_path []" by (auto simp: wrapper_path_iff js_def)
  ultimately show "calls_wrapper ?ts"
    by (auto simp: calls_wrapper_def safe_sudo_wrapper_def token_at_def hd_conv_nth wrapper_path_iff
        split: if_splits)
qed

text \<open>
  C1. A command the gate lets through to approval calls a managed wrapper, directly or through
  \<open>sudo -n\<close>; none of the shell operators the screen knows occurs in it except behind a backslash;
  it has no destructive pattern and no NUL. In particular nothing is ever allowed without approval.
\<close>

theorem accepted_command_is_wrapper_call:
  assumes "cr_decision (analyzeCommandRisk c) \<noteq> Deny"
  shows "cr_decision (analyzeCommandRisk c) = RequireApproval
    \<and> calls_wrapper (cr_tokens (analyzeCommandRisk c))
    \<and> (\<forall>u op v. trim c = u @ op @ v \<longrightarrow> op \<in> set control_words \<longrightarrow> u \<noteq> [] \<and> last u = 92)
    \<and> \<not> re_test destructive (trim c) \<and> (\<forall>w \<in> set (cr_tokens (analyzeCommandRisk c)). 0 \<notin> set w)"
  using not_denied [OF assms] no_deny_reasons control_operators_caught [of "trim c"]
  unfolding cr_tokens_eq by blast

theorem accepted_command_is_wrapper_call_witness:
  "cr_decision (analyzeCommandRisk (js ''/opt/scry-ops/bin/scry-disk-usage'')) = RequireApproval"
proof -
  have "cr_decision (analyzeCommandRisk (js ''/opt/scry-ops/bin/scry-disk-usage'')) \<noteq> Deny"
    by code_simp
  from accepted_command_is_wrapper_call [OF this] show ?thesis by blast
qed

subsection \<open>The tokenizer against the quoting rules of a shell\<close>

text \<open>
  A word can be written between single quotes, if it holds none, or with a backslash before every
  character. \<open>render\<close> writes it so, and \<open>renderable\<close> says when that is possible at the end of a
  command: \<open>trim\<close> runs first and would cut an escaped blank off the end.
\<close>

datatype style = InQuotes | Backslashed

fun render :: "style \<times> jsstr \<Rightarrow> jsstr" where
  "render (InQuotes, w) = [39] @ w @ [39]"
| "render (Backslashed, w) = concat (map (\<lambda>u. [92, u]) w)"

fun renderable :: "style \<times> jsstr \<Rightarrow> bool" where
  "renderable (InQuotes, w) = (w \<noteq> [] \<and> 39 \<notin> set w)"
| "renderable (Backslashed, w) = (w \<noteq> [] \<and> \<not> is_space (last w))"

definition tok_idle :: "tok_state \<Rightarrow> bool" where
  "tok_idle t \<longleftrightarrow> quoting t = None \<and> \<not> escaped t"

lemma is_space_quotes [simp]: "\<not> is_space 39" "\<not> is_space 92" "is_space 32"
  by (simp_all add: is_space_def)

lemma foldl_in_single:
  "quoting t = Some Single \<Longrightarrow> \<not> escaped t \<Longrightarrow> 39 \<notin> set w \<Longrightarrow>
     foldl tok_step t w = t\<lparr>current := current t @ w\<rparr>"
  by (induction w arbitrary: t) (auto simp: tok_step_def)

lemma foldl_backslashed:
  "tok_idle t \<Longrightarrow> foldl tok_step t (concat (map (\<lambda>u. [92, u]) w)) = t\<lparr>current := current t @ w\<rparr>"
  by (induction w arbitrary: t) (simp_all add: tok_idle_def tok_step_def)

lemma foldl_render:
  "tok_idle t \<Longrightarrow> renderable w \<Longrightarrow> foldl tok_step t (render w) = t\<lparr>current := current t @ snd w\<rparr>"
  by (cases w rule: render.cases) (auto simp: foldl_backslashed tok_idle_def foldl_in_single tok_step_def)

lemma foldl_join:
  "tok_idle t \<Longrightarrow> current t = [] \<Longrightarrow> ws \<noteq> [] \<Longrightarrow> list_all renderable ws \<Longrightarrow>
     tok_finish (foldl tok_step t (str_join [32] (map render ws))) = toks t @ map snd ws"
proof (induction ws arbitrary: t)
  case (Cons w ws)
  have w: "renderable w" "snd w \<noteq> []" using Cons.prems(4) by (cases w rule: render.cases; simp)+
  have t1: "foldl tok_step t (render w) = t\<lparr>current := snd w\<rparr>"
    using foldl_render [OF Cons.prems(1) w(1)] Cons.prems(2) by simp
  show ?case
  proof (cases ws)
    case Nil
    with t1 w Cons.prems(1) show ?thesis by (simp add: tok_finish_def tok_idle_def)
  next
    case (Cons v vs)
    let ?t = "t\<lparr>toks := toks t @ [snd w], current := []\<rparr>"
    have "foldl tok_step t (render w @ [32]) = ?t"
      using t1 w Cons.prems(1) by (simp add: tok_step_def tok_idle_def)
    moreover have "tok_finish (foldl tok_step ?t (str_join [32] (map render ws))) = toks ?t @ map snd ws"
      using Cons.IH [of ?t] Cons.prems Cons by (simp add: tok_idle_def)
    ultimately show ?thesis using Cons by simp
  qed
qed simp

lemma render_ends: "renderable w \<Longrightarrow>
    render w \<noteq> [] \<and> \<not> is_space (hd (render w)) \<and> \<not> is_space (last (render w))"
proof (cases w rule: render.cases)
  case (2 v)
  assume "renderable w"
  with 2 obtain v' u where "v = v' @ [u]" "\<not> is_space u" by (cases v rule: rev_cases) auto
  with 2 show ?thesis by (cases v') auto
qed auto

lemma join_ends: "ws \<noteq> [] \<Longrightarrow> list_all renderable ws \<Longrightarrow>
    str_join [32] (map render ws) \<noteq> [] \<and> \<not> is_space (hd (str_join [32] (map render ws)))
    \<and> \<not> is_space (last (str_join [32] (map render ws)))"
proof (induction ws)
  case (Cons w ws)
  then show ?case using render_ends [of w] by (cases ws) auto
qed simp

text \<open>
  The tokenizer inverts shell quoting: words written in single quotes or with backslashes
  and separated by blanks come back as exactly those words.
\<close>

theorem tokenize_render:
  assumes "ws \<noteq> []" "list_all renderable ws"
  shows "tokenize (str_join [32] (map render ws)) = map snd ws"
proof -
  have "trim (str_join [32] (map render ws)) = str_join [32] (map render ws)"
    using join_ends [OF assms] by (intro trim_fix) auto
  moreover have "tok_idle tok_init" "current tok_init = []" "toks tok_init = []"
    by (simp_all add: tok_init_def tok_idle_def)
  ultimately show ?thesis using foldl_join [of tok_init] assms by (simp add: tokenize_def)
qed

theorem tokenize_render_witness:
  "tokenize (str_join [32] (map render [(Backslashed, js ''rm''), (InQuotes, js ''a b;c'')]))
     = [js ''rm'', js ''a b;c'']"
proof -
  let ?ws = "[(Backslashed, js ''rm''), (InQuotes, js ''a b;c'')]"
  have "list_all renderable ?ws" by (simp add: js_def is_space_def)
  from tokenize_render [OF _ this] show ?thesis by simp
qed

subsection \<open>What the screen of operators misses\<close>

text \<open>
  The screen knows \<open>&&\<close> but not a single \<open>&\<close>, and takes the operator after an escaped
  backslash for an escaped operator: two commands that start a second program in a shell are let
  through to approval.
\<close>

theorem background_operator_passes:
  "cr_decision (analyzeCommandRisk (js ''/opt/scry-ops/bin/scry-a & /tmp/x'')) = RequireApproval
   \<and> cr_decision (analyzeCommandRisk (js ''/opt/scry-ops/bin/scry-a '' @ [92, 92] @ js ''; /tmp/x'')) = RequireApproval"
  by code_simp

end
