(* ===== verification/Json.thy ===== *)
theory Json
  imports Prelude
begin

section \<open>\<open>String\<close>, \<open>Number\<close> and \<open>JSON.stringify\<close>\<close>

text \<open>
  Conversions of the language that the components call: the decimal form of integers, the text
  of a value, the numeric value of a text, and the serialisation of a value. The
  text of a number with a fraction is left to the platform (\<open>fraction_text\<close>).
\<close>

subsection \<open>Numbers as text\<close>

fun nat_digits :: "nat \<Rightarrow> jsstr" where
  "nat_digits n = (if n < 10 then [48 + n] else nat_digits (n div 10) @ [48 + n mod 10])"

declare nat_digits.simps [simp del]

definition int_text :: "int \<Rightarrow> jsstr" where
  [js_eval]: "int_text i = (if i < 0 then 45 # nat_digits (nat (- i)) else nat_digits (nat i))"

definition num_text :: "platform \<Rightarrow> rat \<Rightarrow> jsstr" where
  [js_eval]: "num_text pf q = (if of_int (floor q) = q then int_text (floor q) else fraction_text pf q)"

definition is_digit :: "nat \<Rightarrow> bool" where
  [js_eval]: "is_digit u \<longleftrightarrow> 48 \<le> u \<and> u \<le> 57"

definition digits_value :: "jsstr \<Rightarrow> nat" where
  [js_eval]: "digits_value ds = foldl (\<lambda>n u. n * 10 + (u - 48)) 0 ds"

lemma digits_value_snoc: "digits_value (ds @ [u]) = digits_value ds * 10 + (u - 48)"
  by (simp add: digits_value_def)

lemma nat_digits_value: "digits_value (nat_digits n) = n \<and> list_all is_digit (nat_digits n) \<and> nat_digits n \<noteq> []"
proof (induction n rule: nat_digits.induct)
  case (1 n)
  show ?case
  proof (cases "n < 10")
    case True
    then show ?thesis by (subst (1 2 3) nat_digits.simps) (simp add: digits_value_def is_digit_def)
  next
    case False
    have "n mod 10 < 10" by simp
    then have d: "is_digit (48 + n mod 10)" by (simp add: is_digit_def del: mod_less_divisor)
    have "nat_digits n = nat_digits (n div 10) @ [48 + n mod 10]"
      using False by (subst nat_digits.simps) simp
    with 1 False d show ?thesis by (simp add: digits_value_snoc)
  qed
qed

lemma nat_digits_inject: "nat_digits m = nat_digits n \<longleftrightarrow> m = n"
  by (metis nat_digits_value)

text \<open>
  \<open>Number(text)\<close>: white space around it is dropped, the empty text is zero; then a decimal
  literal with optional sign, fraction and exponent, or a hexadecimal, octal or binary literal.
  \<open>None\<close> stands for \<open>NaN\<close> and the infinities, which the callers all test with \<open>isFinite\<close>.
\<close>

definition pow10 :: "int \<Rightarrow> rat" where
  [js_eval]: "pow10 e = (if 0 \<le> e then 10 ^ nat e else 1 / 10 ^ nat (- e))"

definition exponent_value :: "jsstr \<Rightarrow> int option" where
  [js_eval]: "exponent_value s =
     (case s of
        [] \<Rightarrow> Some 0
      | e # ds \<Rightarrow>
          if e \<noteq> 101 \<and> e \<noteq> 69 then None
          else (let neg = (ds \<noteq> [] \<and> hd ds = 45);
                    ds = (if ds \<noteq> [] \<and> (hd ds = 45 \<or> hd ds = 43) then tl ds else ds)
                in if ds = [] \<or> \<not> list_all is_digit ds then None
                   else Some (if neg then - int (digits_value ds) else int (digits_value ds))))"

definition decimal_value :: "jsstr \<Rightarrow> rat option" where
  [js_eval]: "decimal_value s =
     (let ip = takeWhile is_digit s; r = dropWhile is_digit s;
          dotted = (r \<noteq> [] \<and> hd r = 46);
          fp = (if dotted then takeWhile is_digit (tl r) else []);
          r = (if dotted then dropWhile is_digit (tl r) else r)
      in if ip = [] \<and> fp = [] then None
         else map_option (\<lambda>e. of_nat (digits_value (ip @ fp)) * pow10 (e - int (length fp)))
                (exponent_value r))"

definition radix_digit :: "nat \<Rightarrow> nat option" where
  [js_eval]: "radix_digit u =
     (if is_digit u then Some (u - 48)
      else if 97 \<le> u \<and> u \<le> 102 then Some (u - 87)
      else if 65 \<le> u \<and> u \<le> 70 then Some (u - 55) else None)"

definition radix_value :: "nat \<Rightarrow> jsstr \<Rightarrow> rat option" where
  [js_eval]: "radix_value b ds =
     (if ds = [] then None
      else map_option of_nat (foldl (\<lambda>acc u. case (acc, radix_digit u) of
               (Some n, Some d) \<Rightarrow> if d < b then Some (n * b + d) else None
             | _ \<Rightarrow> None) (Some (0 :: nat)) ds))"

definition number_of_text :: "jsstr \<Rightarrow> rat option" where
  [js_eval]: "number_of_text text =
     (let t = trim text; k = (if 1 < length t then t ! 1 else 0)
      in if t = [] then Some 0
         else if hd t = 48 \<and> (k = 120 \<or> k = 88) then radix_value 16 (drop 2 t)
         else if hd t = 48 \<and> (k = 111 \<or> k = 79) then radix_value 8 (drop 2 t)
         else if hd t = 48 \<and> (k = 98 \<or> k = 66) then radix_value 2 (drop 2 t)
         else if hd t = 45 then map_option uminus (decimal_value (tl t))
         else if hd t = 43 then decimal_value (tl t)
         else decimal_value t)"

subsection \<open>\<open>String(value)\<close> and \<open>Number(value)\<close>\<close>

text \<open>An array is the texts of its elements joined by commas; \<open>null\<close> and \<open>undefined\<close> elements are empty.\<close>

fun text_of :: "platform \<Rightarrow> jsval \<Rightarrow> jsstr" where
  "text_of pf Undef = js ''undefined''"
| "text_of pf Null = js ''null''"
| "text_of pf (JBool b) = (if b then js ''true'' else js ''false'')"
| "text_of pf (Num q) = num_text pf q"
| "text_of pf (Str s) = s"
| "text_of pf (Arr vs) =
     str_join [44] (map (\<lambda>v. if v = Undef \<or> v = Null then [] else text_of pf v) vs)"
| "text_of pf (Obj _) = js ''[object Object]''"

definition number_of :: "platform \<Rightarrow> jsval \<Rightarrow> rat option" where
  [js_eval]: "number_of pf v =
     (case v of
        Undef \<Rightarrow> None
      | Null \<Rightarrow> Some 0
      | JBool b \<Rightarrow> Some (if b then 1 else 0)
      | Num q \<Rightarrow> Some q
      | Str s \<Rightarrow> number_of_text s
      | Arr vs \<Rightarrow> number_of_text (text_of pf (Arr vs))
      | Obj _ \<Rightarrow> None)"

subsection \<open>\<open>JSON.stringify\<close>\<close>

definition hex_digit :: "nat \<Rightarrow> nat" where
  [js_eval]: "hex_digit d = (if d < 10 then 48 + d else 87 + d)"

definition hex_escape :: "nat \<Rightarrow> jsstr" where
  [js_eval]: "hex_escape u = [92, 117, hex_digit (u div 4096 mod 16), hex_digit (u div 256 mod 16),
     hex_digit (u div 16 mod 16), hex_digit (u mod 16)]"

definition escape_unit :: "nat \<Rightarrow> jsstr" where
  [js_eval]: "escape_unit u =
     (if u = 34 then [92, 34] else if u = 92 then [92, 92]
      else if u = 8 then [92, 98] else if u = 9 then [92, 116] else if u = 10 then [92, 110]
      else if u = 12 then [92, 102] else if u = 13 then [92, 114]
      else if u < 32 then hex_escape u
      else if 55296 \<le> u \<and> u \<le> 57343 then hex_escape u
      else [u])"

text \<open>A surrogate pair stays as it is; a lone surrogate is escaped.\<close>

fun escape_text :: "jsstr \<Rightarrow> jsstr" where
  "escape_text [] = []"
| "escape_text [u] = escape_unit u"
| "escape_text (u # v # s) =
     (if 55296 \<le> u \<and> u \<le> 56319 \<and> 56320 \<le> v \<and> v \<le> 57343 then u # v # escape_text s
      else escape_unit u @ escape_text (v # s))"

definition json_quote :: "jsstr \<Rightarrow> jsstr" where
  [js_eval]: "json_quote s = [34] @ escape_text s @ [34]"

fun stringify :: "platform \<Rightarrow> jsval \<Rightarrow> jsstr option" where
  "stringify pf Undef = None"
| "stringify pf Null = Some (js ''null'')"
| "stringify pf (JBool b) = Some (if b then js ''true'' else js ''false'')"
| "stringify pf (Num q) = Some (num_text pf q)"
| "stringify pf (Str s) = Some (json_quote s)"
| "stringify pf (Arr vs) =
     Some ([91] @ str_join [44]
       (map (\<lambda>v. case stringify pf v of None \<Rightarrow> js ''null'' | Some t \<Rightarrow> t) vs) @ [93])"
| "stringify pf (Obj kvs) =
     Some ([123] @ str_join [44]
       (concat (map (\<lambda>(k, v). case stringify pf v of None \<Rightarrow> [] | Some t \<Rightarrow> [json_quote k @ [58] @ t]) kvs))
       @ [125])"

text \<open>The text of a value that is not \<open>undefined\<close>.\<close>

definition json_text :: "platform \<Rightarrow> jsval \<Rightarrow> jsstr" where
  [js_eval]: "json_text pf v = (case stringify pf v of None \<Rightarrow> [] | Some t \<Rightarrow> t)"

text \<open>\<open>JSON.stringify(value, null, 2)\<close>; the argument is the indentation reached.\<close>

fun pretty :: "platform \<Rightarrow> jsstr \<Rightarrow> jsval \<Rightarrow> jsstr option" where
  "pretty pf ind (Arr vs) =
     (if vs = [] then Some [91, 93]
      else Some ([91, 10] @ str_join [44, 10]
        (map (\<lambda>v. ind @ [32, 32] @ (case pretty pf (ind @ [32, 32]) v of None \<Rightarrow> js ''null'' | Some t \<Rightarrow> t)) vs)
        @ [10] @ ind @ [93]))"
| "pretty pf ind (Obj kvs) =
     (let entries = concat (map (\<lambda>(k, v). case pretty pf (ind @ [32, 32]) v of
            None \<Rightarrow> [] | Some t \<Rightarrow> [ind @ [32, 32] @ json_quote k @ [58, 32] @ t]) kvs)
      in if entries = [] then Some [123, 125]
         else Some ([123, 10] @ str_join [44, 10] entries @ [10] @ ind @ [125]))"
| "pretty pf ind v = stringify pf v"

lemma stringify_None_iff: "stringify pf v = None \<longleftrightarrow> v = Undef"
  by (cases v) auto

end
