(* ===== verification/Workflow.thy ===== *)
theory Workflow
  imports Database Json
begin

section \<open>Workflow definitions, conditions and contexts (\<open>workflows/\<close>, \<open>server.ts\<close>)\<close>

text \<open>
  What a workflow is before it runs: the checks of the schema (\<open>server.ts\<close>), the conditions and the
  contexts that flow between steps, the compilation of a definition to the operations of the
  workflow engine (\<open>workflows/compiler.ts\<close>) and the built-in presets (\<open>workflows/presets.ts\<close>).
  The engine itself (\<open>@mastra/core\<close>) is not part of the repository; a compiled workflow is the tree of
  the engine calls the source makes.
\<close>

subsection \<open>Steps of a type\<close>

fun containsStepType :: "step_type \<Rightarrow> step list \<Rightarrow> bool"
  and stepContainsType :: "step_type \<Rightarrow> step \<Rightarrow> bool"
  and branchesContainType :: "step_type \<Rightarrow> branch list \<Rightarrow> bool" where
  "containsStepType ty [] = False"
| "containsStepType ty (s # ss) = (stepContainsType ty s \<or> containsStepType ty ss)"
| "stepContainsType ty (Step i c p l) =
     (si_type i = ty
      \<or> (case c of None \<Rightarrow> False | Some (Condition r t f) \<Rightarrow> containsStepType ty t \<or> containsStepType ty f)
      \<or> (case p of None \<Rightarrow> False | Some bs \<Rightarrow> branchesContainType ty bs)
      \<or> (case l of None \<Rightarrow> False | Some (Loop li b) \<Rightarrow> containsStepType ty b))"
| "branchesContainType ty [] = False"
| "branchesContainType ty (Branch b n ss # bs) = (containsStepType ty ss \<or> branchesContainType ty bs)"

subsection \<open>Reading a path\<close>

text \<open>What a path reads: a value, or a property every object inherits.\<close>

datatype reached = Val jsval | Native jsstr

definition read_segment :: "reached \<Rightarrow> jsstr \<Rightarrow> reached" where
  [js_eval]: "read_segment cur seg =
     (case cur of
        Native n \<Rightarrow> if n = js ''__proto__'' \<and> seg \<in> set inherited_names \<and> seg \<noteq> js ''__proto__'' then Native seg
                    else Val Undef
      | Val (Arr vs) \<Rightarrow>
          (case number_of_text seg of
             None \<Rightarrow> Val Undef
           | Some q \<Rightarrow> if of_int (floor q) = q \<and> 0 \<le> q \<and> nat (floor q) < length vs
                      then Val (vs ! nat (floor q)) else Val Undef)
      | Val (Obj kvs) \<Rightarrow>
          if seg \<in> fst ` set kvs then Val (get_prop kvs seg)
          else if seg \<in> set inherited_names then Native seg else Val Undef
      | Val _ \<Rightarrow> Val Undef)"

definition readPath :: "jsval \<Rightarrow> jsstr \<Rightarrow> reached" where
  [js_eval]: "readPath source path = foldl read_segment (Val source) (filter (\<lambda>w. w \<noteq> []) (str_split 46 path))"

subsection \<open>Contexts\<close>

record wf_context =
  cx_message :: jsstr
  cx_results :: "(jsstr \<times> jsval) list"
  cx_text :: jsstr

definition context_value :: "wf_context \<Rightarrow> jsval" where
  [js_eval]: "context_value c = Obj [(js ''message'', Str (cx_message c)), (js ''results'', Obj (cx_results c)),
     (js ''text'', Str (cx_text c))]"

text \<open>The schema of a context drops further properties.\<close>

definition parse_context :: "jsval \<Rightarrow> wf_context option" where
  [js_eval]: "parse_context v =
     (case v of
        Obj kvs \<Rightarrow>
          (case (get_prop kvs (js ''message''), get_prop kvs (js ''results''), get_prop kvs (js ''text'')) of
             (Str m, Obj rs, Str t) \<Rightarrow> Some \<lparr>cx_message = m, cx_results = rs, cx_text = t\<rparr>
           | _ \<Rightarrow> None)
      | _ \<Rightarrow> None)"

fun asContext :: "jsval \<Rightarrow> wf_context option"
  and firstContext :: "jsval list \<Rightarrow> wf_context option"
  and firstContextIn :: "(jsstr \<times> jsval) list \<Rightarrow> wf_context option" where
  "asContext v =
     (case parse_context v of
        Some c \<Rightarrow> Some c
      | None \<Rightarrow> (case v of Arr vs \<Rightarrow> firstContext vs | Obj kvs \<Rightarrow> firstContextIn kvs | _ \<Rightarrow> None))"
| "firstContext [] = None"
| "firstContext (v # vs) = (case asContext v of Some c \<Rightarrow> Some c | None \<Rightarrow> firstContext vs)"
| "firstContextIn [] = None"
| "firstContextIn ((k, v) # kvs) = (case asContext v of Some c \<Rightarrow> Some c | None \<Rightarrow> firstContextIn kvs)"

fun collectContexts :: "jsval \<Rightarrow> wf_context list"
  and collectList :: "jsval list \<Rightarrow> wf_context list"
  and collectProps :: "(jsstr \<times> jsval) list \<Rightarrow> wf_context list" where
  "collectContexts v =
     (case parse_context v of
        Some c \<Rightarrow> [c]
      | None \<Rightarrow> (case v of Arr vs \<Rightarrow> collectList vs | Obj kvs \<Rightarrow> collectProps kvs | _ \<Rightarrow> []))"
| "collectList [] = []"
| "collectList (v # vs) = collectContexts v @ collectList vs"
| "collectProps [] = []"
| "collectProps ((k, v) # kvs) = collectContexts v @ collectProps kvs"

definition mergeContexts :: "jsval \<Rightarrow> wf_context" where
  [js_eval]: "mergeContexts v =
     (let cs = collectContexts v
      in \<lparr>cx_message = (case cs of [] \<Rightarrow> [] | c # _ \<Rightarrow> cx_message c),
          cx_results = foldl put_all [] (map cx_results cs),
          cx_text = str_join [10, 10] (filter (\<lambda>t. t \<noteq> []) (map cx_text cs))\<rparr>)"

subsection \<open>Conditions\<close>

definition reached_text :: "platform \<Rightarrow> reached \<Rightarrow> jsstr" where
  [js_eval]: "reached_text pf r =
     (case r of
        Native n \<Rightarrow> if n = js ''__proto__'' then js ''[object Object]'' else native_text pf n
      | Val v \<Rightarrow> if v = Undef \<or> v = Null then [] else text_of pf v)"

definition reached_number :: "platform \<Rightarrow> reached \<Rightarrow> rat option" where
  [js_eval]: "reached_number pf r = (case r of Native n \<Rightarrow> None | Val v \<Rightarrow> number_of pf v)"

definition compareRule :: "platform \<Rightarrow> wf_context \<Rightarrow> condition_rule \<Rightarrow> bool" where
  [js_eval]: "compareRule pf c rule =
     (let actual = readPath (context_value c) (cr_path rule);
          wanted = (case cr_value rule of None \<Rightarrow> [] | Some w \<Rightarrow> w)
      in case cr_operator rule of
        OpExists \<Rightarrow> actual \<noteq> Val Undef \<and> actual \<noteq> Val Null
      | OpEquals \<Rightarrow> reached_text pf actual = wanted
      | OpNotEquals \<Rightarrow> reached_text pf actual \<noteq> wanted
      | op \<Rightarrow>
          (case (reached_number pf actual, case cr_value rule of None \<Rightarrow> None | Some w \<Rightarrow> number_of_text w) of
             (Some l, Some r) \<Rightarrow>
               (case op of OpGt \<Rightarrow> r < l | OpGte \<Rightarrow> r \<le> l | OpLt \<Rightarrow> l < r | _ \<Rightarrow> l \<le> r)
           | _ \<Rightarrow> False))"

subsection \<open>The schema\<close>

definition id_unit :: "nat \<Rightarrow> bool" where
  [js_eval]: "id_unit u \<longleftrightarrow> 48 \<le> u \<and> u \<le> 57 \<or> 65 \<le> u \<and> u \<le> 90 \<or> 97 \<le> u \<and> u \<le> 122 \<or> u = 95 \<or> u = 45"

definition valid_id :: "nat \<Rightarrow> jsstr \<Rightarrow> bool" where
  [js_eval]: "valid_id n s \<longleftrightarrow> 1 \<le> length s \<and> length s \<le> n \<and> list_all id_unit s"

definition sized :: "nat \<Rightarrow> nat \<Rightarrow> 'a list \<Rightarrow> bool" where
  [js_eval]: "sized lo hi xs \<longleftrightarrow> lo \<le> length xs \<and> length xs \<le> hi"

definition at_most :: "nat \<Rightarrow> jsstr option \<Rightarrow> bool" where
  [js_eval]: "at_most n o' = (case o' of None \<Rightarrow> True | Some s \<Rightarrow> length s \<le> n)"

definition valid_rule :: "condition_rule \<Rightarrow> bool" where
  [js_eval]: "valid_rule r \<longleftrightarrow> sized 1 300 (cr_path r) \<and> at_most 2000 (cr_value r)"

definition valid_info :: "step_info \<Rightarrow> bool" where
  [js_eval]: "valid_info i \<longleftrightarrow> valid_id 80 (si_id i) \<and> sized 1 100 (si_name i) \<and> at_most 10000 (si_prompt i)
     \<and> at_most 2000 (si_message i) \<and> (case si_tool i of None \<Rightarrow> True | Some t \<Rightarrow> valid_id 200 t)
     \<and> (case si_retries i of None \<Rightarrow> True | Some n \<Rightarrow> n \<le> 10)"

definition valid_loop :: "loop_info \<Rightarrow> bool" where
  [js_eval]: "valid_loop l \<longleftrightarrow> valid_rule (lo_rule l) \<and> 1 \<le> lo_max l \<and> lo_max l \<le> 50
     \<and> (case lo_source l of None \<Rightarrow> lo_mode l \<noteq> ForeachLoop | Some s \<Rightarrow> sized 1 300 s)
     \<and> (case lo_concurrency l of None \<Rightarrow> True | Some n \<Rightarrow> 1 \<le> n \<and> n \<le> 10)"

fun valid_steps :: "step list \<Rightarrow> bool"
  and valid_step :: "step \<Rightarrow> bool"
  and valid_branches :: "branch list \<Rightarrow> bool" where
  "valid_steps [] = True"
| "valid_steps (s # ss) = (valid_step s \<and> valid_steps ss)"
| "valid_step (Step i c p l) =
     (valid_info i
      \<and> (case c of None \<Rightarrow> si_type i \<noteq> ConditionStep
         | Some (Condition r t f) \<Rightarrow> valid_rule r \<and> sized 1 20 t \<and> sized 1 20 f \<and> valid_steps t \<and> valid_steps f)
      \<and> (case p of None \<Rightarrow> si_type i \<noteq> ParallelStep | Some bs \<Rightarrow> sized 2 6 bs \<and> valid_branches bs)
      \<and> (case l of None \<Rightarrow> si_type i \<noteq> LoopStep | Some (Loop li b) \<Rightarrow> valid_loop li \<and> sized 1 20 b \<and> valid_steps b)
      \<and> (si_type i = McpToolStep \<longrightarrow> si_tool i \<noteq> None))"
| "valid_branches [] = True"
| "valid_branches (Branch b n ss # bs) =
     (valid_id 80 b \<and> sized 1 100 n \<and> sized 1 20 ss \<and> valid_steps ss \<and> valid_branches bs)"

text \<open>\<open>inspectWorkflowSteps\<close>: one walk with three running results.\<close>

record inspection =
  in_count :: nat
  in_depth :: nat
  in_ids :: "jsstr list"

definition reach_depth :: "nat \<Rightarrow> inspection \<Rightarrow> inspection" where
  [js_eval]: "reach_depth d st = st\<lparr>in_depth := max (in_depth st) d\<rparr>"

definition count_step :: "jsstr \<Rightarrow> inspection \<Rightarrow> inspection" where
  [js_eval]: "count_step i st = st\<lparr>in_count := in_count st + 1, in_ids := in_ids st @ [i]\<rparr>"

function visit :: "step list \<Rightarrow> nat \<Rightarrow> inspection \<Rightarrow> inspection"
  and visit_condition :: "condition option \<Rightarrow> nat \<Rightarrow> inspection \<Rightarrow> inspection"
  and visit_branches :: "branch list \<Rightarrow> nat \<Rightarrow> inspection \<Rightarrow> inspection"
  and visit_loop :: "loop option \<Rightarrow> nat \<Rightarrow> inspection \<Rightarrow> inspection" where
  "visit [] d st = st"
| "visit (Step i c p l # ss) d st =
     visit ss d (visit_loop l d (visit_branches (case p of None \<Rightarrow> [] | Some bs \<Rightarrow> bs) d
       (visit_condition c d (count_step (si_id i) st))))"
| "visit_condition None d st = st"
| "visit_condition (Some (Condition r t f)) d st =
     visit f (d + 1) (reach_depth (d + 1) (visit t (d + 1) (reach_depth (d + 1) st)))"
| "visit_branches [] d st = st"
| "visit_branches (Branch b n ss # bs) d st = visit_branches bs d (visit ss (d + 1) (reach_depth (d + 1) st))"
| "visit_loop None d st = st"
| "visit_loop (Some (Loop li b)) d st = visit b (d + 1) (reach_depth (d + 1) st)"
  by pat_completeness auto
termination
  by (relation "measure (\<lambda>x. case x of
        Inl (Inl (ss, _)) \<Rightarrow> size_list size ss | Inl (Inr (c, _)) \<Rightarrow> size_option size c
      | Inr (Inl (bs, _)) \<Rightarrow> size_list size bs | Inr (Inr (l, _)) \<Rightarrow> size_option size l)")
     (auto split: option.splits)

definition inspectWorkflowSteps :: "step list \<Rightarrow> inspection" where
  [js_eval]: "inspectWorkflowSteps steps = visit steps 1 (reach_depth 1 \<lparr>in_count = 0, in_depth = 1, in_ids = []\<rparr>)"

definition valid_definition :: "workflow_definition \<Rightarrow> bool" where
  [js_eval]: "valid_definition d \<longleftrightarrow> (wd_version d = 1 \<or> wd_version d = 2) \<and> sized 1 20 (wd_steps d) \<and> valid_steps (wd_steps d)
     \<and> in_count (inspectWorkflowSteps (wd_steps d)) \<le> 100
     \<and> in_depth (inspectWorkflowSteps (wd_steps d)) \<le> 5
     \<and> distinct (in_ids (inspectWorkflowSteps (wd_steps d)))"

subsection \<open>Compilation\<close>

datatype control_mode = BranchMode | ParallelMode | LoopMode | ForeachMode

text \<open>The steps the source creates, and the calls of the engine it chains them with.\<close>

datatype unit_step =
    Marker step_info jsstr | Normalize step_info control_mode | Items step_info loop_info
  | Leaf step_info | Finalize

datatype program = Program jsstr "op list"
and op =
    Then unit_step
  | BranchOn condition_rule program program
  | Parallel "program list"
  | Foreach program nat
  | DoWhile program condition_rule nat
  | DoUntil program condition_rule nat

fun engine_id :: "unit_step \<Rightarrow> jsstr" where
  "engine_id (Marker i suffix) = js ''__scry_'' @ si_id i @ js ''_'' @ suffix"
| "engine_id (Normalize i m) = js ''__scry_'' @ si_id i @ js ''_normalize''"
| "engine_id (Items i l) = js ''__scry_'' @ si_id i @ js ''_items''"
| "engine_id (Leaf i) = si_id i"
| "engine_id Finalize = js ''__scry_finalize''"

fun compile_steps :: "jsstr \<Rightarrow> step list \<Rightarrow> op list"
  and compile_step :: "jsstr \<Rightarrow> step \<Rightarrow> op list"
  and compile_branches :: "jsstr \<Rightarrow> branch list \<Rightarrow> program list" where
  "compile_steps q [] = []"
| "compile_steps q (s # ss) = compile_step q s @ compile_steps q ss"
| "compile_step q (Step i c p l) =
     (if si_type i = ConditionStep \<and> c \<noteq> None then
        (case c of None \<Rightarrow> [] | Some (Condition r t f) \<Rightarrow>
           [Then (Marker i (js ''start'')),
            BranchOn r (Program (q @ js ''_'' @ si_id i @ js ''_true'') (compile_steps (q @ js ''_'' @ si_id i @ js ''_true'') t))
              (Program (q @ js ''_'' @ si_id i @ js ''_false'') (compile_steps (q @ js ''_'' @ si_id i @ js ''_false'') f)),
            Then (Normalize i BranchMode)])
      else if si_type i = ParallelStep \<and> p \<noteq> None then
        (case p of None \<Rightarrow> [] | Some bs \<Rightarrow>
           [Then (Marker i (js ''start'')), Parallel (compile_branches (q @ js ''_'' @ si_id i) bs),
            Then (Normalize i ParallelMode)])
      else if si_type i = LoopStep \<and> l \<noteq> None then
        (case l of None \<Rightarrow> [] | Some (Loop li b) \<Rightarrow>
           (let body = Program (q @ js ''_'' @ si_id i @ js ''_body'') (compile_steps (q @ js ''_'' @ si_id i @ js ''_body'') b)
            in case lo_mode li of
              ForeachLoop \<Rightarrow> [Then (Marker i (js ''start'')), Then (Items i li),
                Foreach body (case lo_concurrency li of None \<Rightarrow> 1 | Some n \<Rightarrow> if n = 0 then 1 else n),
                Then (Normalize i ForeachMode)]
            | WhileLoop \<Rightarrow> [Then (Marker i (js ''start'')), DoWhile body (lo_rule li) (lo_max li),
                Then (Normalize i LoopMode)]
            | UntilLoop \<Rightarrow> [Then (Marker i (js ''start'')), DoUntil body (lo_rule li) (lo_max li),
                Then (Normalize i LoopMode)]))
      else [Then (Leaf i)])"
| "compile_branches q [] = []"
| "compile_branches q (Branch b n ss # bs) =
     Program (q @ js ''_'' @ b) (compile_steps (q @ js ''_'' @ b) ss) # compile_branches q bs"

definition compileSequence :: "jsstr \<Rightarrow> step list \<Rightarrow> program" where
  [js_eval]: "compileSequence q steps = Program q (compile_steps q steps)"

definition compileWorkflow :: "workflow_row \<Rightarrow> program" where
  [js_eval]: "compileWorkflow w =
     (case compileSequence (wf_id w @ js ''_loop'') (wd_steps (wf_definition w)) of
        Program q ops \<Rightarrow> Program q (ops @ [Then Finalize]))"

text \<open>The conditions given to the engine's loops: the number of finished iterations and a context.\<close>

definition while_condition :: "platform \<Rightarrow> nat \<Rightarrow> condition_rule \<Rightarrow> nat \<Rightarrow> wf_context \<Rightarrow> bool" where
  [js_eval]: "while_condition pf limit rule iterations c \<longleftrightarrow> iterations < limit \<and> compareRule pf c rule"

definition until_condition :: "platform \<Rightarrow> nat \<Rightarrow> condition_rule \<Rightarrow> nat \<Rightarrow> wf_context \<Rightarrow> bool" where
  [js_eval]: "until_condition pf limit rule iterations c \<longleftrightarrow> limit \<le> iterations \<or> compareRule pf c rule"

text \<open>\<open>prepareForeachStep\<close>: one context per element, at most \<open>maxIterations\<close>.\<close>

definition foreach_items :: "step_info \<Rightarrow> loop_info \<Rightarrow> wf_context \<Rightarrow> wf_context list option" where
  [js_eval]: "foreach_items i l c =
     (case readPath (context_value c) (case lo_source l of None \<Rightarrow> [] | Some s \<Rightarrow> s) of
        Val (Arr vs) \<Rightarrow>
          Some (map (\<lambda>(k, v). c\<lparr>cx_results := put_prop (put_prop (cx_results c) (si_id i @ js ''.item'') v)
                  (si_id i @ js ''.index'') (Num (of_nat k))\<rparr>)
            (enumerate 0 (take (if lo_max l = 0 then 50 else lo_max l) vs)))
      | _ \<Rightarrow> None)"

subsection \<open>The presets (\<open>presets.ts\<close>)\<close>

record workflow_preset =
  wp_id :: jsstr
  wp_name :: jsstr
  wp_description :: jsstr
  wp_tags :: "jsstr list"
  wp_definition :: workflow_definition

definition plain_info :: "jsstr \<Rightarrow> jsstr \<Rightarrow> step_type \<Rightarrow> step_info" where
  [js_eval]: "plain_info i n ty = \<lparr>si_id = i, si_name = n, si_type = ty, si_prompt = None, si_message = None,
     si_tool = None, si_input = None, si_retries = None\<rparr>"

definition mcp_step :: "jsstr \<Rightarrow> jsstr \<Rightarrow> jsstr \<Rightarrow> step" where
  [js_eval]: "mcp_step i n tool =
     Step ((plain_info i n McpToolStep)\<lparr>si_tool := Some tool, si_input := Some (Obj [])\<rparr>) None None None"

definition analysis_step :: "jsstr \<Rightarrow> jsstr \<Rightarrow> jsstr \<Rightarrow> step" where
  [js_eval]: "analysis_step i n prompt =
     Step ((plain_info i n AgentStep)\<lparr>si_prompt := Some prompt\<rparr>) None None None"

definition preset_disk_full :: workflow_preset where
  [js_eval]: "preset_disk_full = \<lparr>wp_id = js ''preset-disk-full'',
     wp_name = [30913, 30424, 29190, 28385, 35786, 26029, 19982, 28165, 29702],
     wp_description = [35835, 21462, 26381, 21153, 21644, 21578, 35686, 35777, 25454, 65292, 21028, 26029,
       30913, 30424, 21387, 21147, 26469, 28304, 65307, 20219, 20309, 28165, 29702, 21160, 20316, 24517,
       39035, 32463, 36807, 23457, 25209, 12290],
     wp_tags = [js ''preset'', js ''capacity'', js ''approval''],
     wp_definition = \<lparr>wd_version = 2, wd_steps =
      [mcp_step (js ''services'') ([35835, 21462, 26381, 21153, 21015, 34920]) (js ''scry_listServices''),
       mcp_step (js ''alerts'') ([35835, 21462, 24403, 21069, 21578, 35686]) (js ''scry_listAlerts''),
       analysis_step (js ''diagnosis'') ([20998, 26512, 30913, 30424, 21387, 21147]) ([32467, 21512, 26381,
         21153, 21644, 21578, 35686, 35777, 25454, 20998, 26512, 30913, 30424, 21387, 21147, 26469, 28304,
         65292, 32473, 20986, 21482, 35835, 26816, 26597, 21644, 28165, 29702, 24314, 35758, 12290]),
       Step ((plain_info (js ''approval'') ([28165, 29702, 25805, 20316, 23457, 25209])
         ApprovalStep)\<lparr>si_message := Some ([30830, 35748, 25191, 34892, 30913, 30424, 28165, 29702,
         30456, 20851, 25805, 20316, 65311])\<rparr>) None None None,
       Step ((plain_info (js ''operation'') ([21463, 25511, 28165, 29702]) OperationStep)\<lparr>si_prompt
         := Some ([20165, 25191, 34892, 24050, 25480, 26435, 30340, 30913, 30424, 28165, 29702, 21253, 35013,
         22120, 65292, 24182, 35760, 24405, 28165, 29702, 21069, 21518, 31354, 38388, 21464, 21270,
         12290])\<rparr>) None None None,
       Step ((plain_info (js ''verify'') ([28165, 29702, 32467, 26524, 39564, 35777])
         VerifyStep)\<lparr>si_prompt := Some ([39564, 35777, 30913, 30424, 20351, 29992, 29575, 26159, 21542,
         19979, 38477, 65292, 24182, 30830, 35748, 27809, 26377, 24433, 21709, 20851, 38190, 26381, 21153,
         12290])\<rparr>) None None None]\<rparr>\<rparr>"

definition preset_zombie_process :: workflow_preset where
  [js_eval]: "preset_zombie_process = \<lparr>wp_id = js ''preset-zombie-process'',
     wp_name = [20725, 23608, 36827, 31243, 35786, 26029],
     wp_description = [20174, 21578, 35686, 21644, 26381, 21153, 29366, 24577, 23450, 20301, 20725, 23608,
       36827, 31243, 26469, 28304, 65292, 19981, 30452, 25509, 32456, 27490, 36827, 31243, 12290],
     wp_tags = [js ''preset'', js ''process'', js ''readonly''],
     wp_definition = \<lparr>wd_version = 2, wd_steps =
      [mcp_step (js ''services'') ([35835, 21462, 26381, 21153, 21015, 34920]) (js ''scry_listServices''),
       mcp_step (js ''alerts'') ([35835, 21462, 21578, 35686]) (js ''scry_listAlerts''),
       analysis_step (js ''diagnosis'') ([20998, 26512, 36827, 31243, 29983, 21629, 21608, 26399]) ([21028,
         26029, 26159, 21542, 23384, 22312, 20725, 23608, 36827, 31243, 36857, 35937, 65292, 21015, 20986,
         38656, 35201, 22312, 21463, 31649, 20027, 26426, 19978, 39564, 35777, 30340, 35777, 25454, 12290]),
       Step ((plain_info (js ''verify'') ([35786, 26029, 32467, 35770, 22797, 26680])
         VerifyStep)\<lparr>si_prompt := Some ([22797, 26680, 35777, 25454, 21644, 19981, 30830, 23450, 24615,
         65292, 36755, 20986, 26681, 22240, 20551, 35774, 19982, 23433, 20840, 19979, 19968, 27493,
         12290])\<rparr>) None None None]\<rparr>\<rparr>"

definition preset_disk_io :: workflow_preset where
  [js_eval]: "preset_disk_io = \<lparr>wp_id = js ''preset-disk-io'',
     wp_name = [30913, 30424] @ js '' I/O '' @ [24322, 24120, 35786, 26029],
     wp_description = [32467, 21512, 21578, 35686, 12289, 26381, 21153, 21644, 26597, 35810, 25968, 25454,
       20998, 26512] @ js '' I/O '' @ [24310, 36831, 12289, 38431, 21015, 19982, 24322, 24120, 20889, 20837,
       12290],
     wp_tags = [js ''preset'', js ''io'', js ''readonly''],
     wp_definition = \<lparr>wd_version = 2, wd_steps =
      [mcp_step (js ''services'') ([35835, 21462, 26381, 21153, 21015, 34920]) (js ''scry_listServices''),
       mcp_step (js ''dashboards'') ([35835, 21462, 20202, 34920, 30424]) (js ''scry_listDashboards''),
       analysis_step (js ''diagnosis'') ([20998, 26512] @ js '' I/O '' @ [24322, 24120]) ([26681, 25454,
         21487, 35266, 27979, 25968, 25454, 21306, 20998, 35774, 22791, 12289, 25991, 20214, 31995, 32479,
         12289, 36827, 31243, 21644, 27969, 37327, 21407, 22240, 65292, 32473, 20986, 35777, 25454, 12290]),
       Step ((plain_info (js ''verify'') ([26681, 22240, 20505, 36873, 22797, 26680])
         VerifyStep)\<lparr>si_prompt := Some ([26816, 26597, 26681, 22240, 20505, 36873, 26159, 21542, 26377,
         36275, 22815, 35777, 25454, 65292, 21015, 20986, 38656, 35201, 34917, 37319, 38598, 30340, 20449,
         21495, 12290])\<rparr>) None None None]\<rparr>\<rparr>"

definition preset_config_drift :: workflow_preset where
  [js_eval]: "preset_config_drift = \<lparr>wp_id = js ''preset-config-drift'',
     wp_name = [37197, 32622, 28418, 31227, 26816, 26597],
     wp_description = [26816, 26597, 26381, 21153, 29366, 24577, 21644, 29616, 26377, 30417, 25511, 35270,
       22270, 65292, 29983, 25104, 37197, 32622, 28418, 31227, 26680, 23545, 28165, 21333, 12290],
     wp_tags = [js ''preset'', js ''configuration'', js ''readonly''],
     wp_definition = \<lparr>wd_version = 2, wd_steps =
      [mcp_step (js ''services'') ([35835, 21462, 26381, 21153, 21015, 34920]) (js ''scry_listServices''),
       mcp_step (js ''dashboards'') ([35835, 21462, 37197, 32622, 35270, 22270]) (js ''scry_listDashboards''),
       analysis_step (js ''comparison'') ([29983, 25104, 37197, 32622, 26680, 23545, 28165, 21333]) ([26681,
         25454, 29616, 26377, 35777, 25454, 29983, 25104, 37197, 32622, 22522, 32447, 12289, 28418, 31227,
         39033, 21644, 20154, 24037, 26680, 23545, 27493, 39588, 65292, 19981, 20462, 25913, 37197, 32622,
         12290])]\<rparr>\<rparr>"

definition preset_service_recovery :: workflow_preset where
  [js_eval]: "preset_service_recovery = \<lparr>wp_id = js ''preset-service-recovery'',
     wp_name = [26381, 21153, 24322, 24120, 24674, 22797],
     wp_description = [20808, 35786, 26029, 26381, 21153, 24322, 24120, 65292, 20877, 36890, 36807, 20154,
       24037, 23457, 25209, 25191, 34892, 21463, 25511, 24674, 22797, 24182, 39564, 35777, 12290],
     wp_tags = [js ''preset'', js ''recovery'', js ''approval''],
     wp_definition = \<lparr>wd_version = 2, wd_steps =
      [mcp_step (js ''services'') ([35835, 21462, 26381, 21153, 29366, 24577]) (js ''scry_listServices''),
       mcp_step (js ''alerts'') ([35835, 21462, 21578, 35686, 35777, 25454]) (js ''scry_listAlerts''),
       analysis_step (js ''plan'') ([29983, 25104, 24674, 22797, 35745, 21010]) ([21482, 26681, 25454,
         35777, 25454, 29983, 25104, 26368, 23567, 24433, 21709, 24674, 22797, 35745, 21010, 65292, 26631,
         27880, 27599, 19968, 27493, 39118, 38505, 12290]),
       Step ((plain_info (js ''approval'') ([24674, 22797, 25805, 20316, 23457, 25209])
         ApprovalStep)\<lparr>si_message := Some ([30830, 35748, 25353, 24674, 22797, 35745, 21010, 25191,
         34892, 21463, 25511, 26381, 21153, 25805, 20316, 65311])\<rparr>) None None None,
       Step ((plain_info (js ''operation'') ([25191, 34892, 24674, 22797]) OperationStep)\<lparr>si_prompt
         := Some ([20165, 20351, 29992, 24050, 25209, 20934, 30340] @ js '' scry-ops '' @ [21253, 35013,
         22120, 25191, 34892, 24674, 22797, 65292, 19981, 24471, 35843, 29992, 20219, 24847] @ js '' Shell'' @
         [12290])\<rparr>) None None None,
       Step ((plain_info (js ''verify'') ([24674, 22797, 21518, 39564, 35777]) VerifyStep)\<lparr>si_prompt
         := Some ([37325, 26032, 35835, 21462, 29366, 24577, 21644, 21578, 35686, 65292, 30830, 35748, 26381,
         21153, 24674, 22797, 24182, 35760, 24405, 27531, 20313, 39118, 38505, 12290])\<rparr>) None None
         None]\<rparr>\<rparr>"

definition preset_network_exposure :: workflow_preset where
  [js_eval]: "preset_network_exposure = \<lparr>wp_id = js ''preset-network-exposure'',
     wp_name = [32593, 32476, 26292, 38706, 38754, 26816, 26597],
     wp_description = [27719, 24635, 21578, 35686, 12289, 26381, 21153, 21644, 29616, 26377, 20202, 34920,
       30424, 65292, 35782, 21035, 24322, 24120, 26292, 38706, 38754, 24182, 32473, 20986, 25972, 25913,
       24314, 35758, 12290],
     wp_tags = [js ''preset'', js ''network'', js ''security''],
     wp_definition = \<lparr>wd_version = 2, wd_steps =
      [mcp_step (js ''services'') ([35835, 21462, 26381, 21153, 28165, 21333]) (js ''scry_listServices''),
       mcp_step (js ''alerts'') ([35835, 21462, 23433, 20840, 21578, 35686]) (js ''scry_listAlerts''),
       mcp_step (js ''dashboards'') ([35835, 21462, 32593, 32476, 35270, 22270]) (js ''scry_listDashboards''),
       analysis_step (js ''exposure'') ([20998, 26512, 32593, 32476, 26292, 38706, 38754]) ([35782, 21035,
         24322, 24120, 26381, 21153, 12289, 21578, 35686, 20851, 32852, 21644, 38656, 35201, 20154, 24037,
         30830, 35748, 30340, 31471, 21475, 26292, 38706, 65292, 31105, 27490, 30452, 25509, 20462, 25913,
         38450, 28779, 22681, 12290])]\<rparr>\<rparr>"

definition preset_root_cause :: workflow_preset where
  [js_eval]: "preset_root_cause = \<lparr>wp_id = js ''preset-root-cause'',
     wp_name = [32508, 21512, 26681, 22240, 20998, 26512],
     wp_description = [24182, 34892, 25910, 38598, 26381, 21153, 12289, 21578, 35686, 21644, 20202, 34920,
       30424, 35777, 25454, 65292, 20877, 24418, 25104, 24102, 32622, 20449, 24230, 30340, 26681, 22240,
       32467, 35770, 12290],
     wp_tags = [js ''preset'', js ''root-cause'', js ''parallel''],
     wp_definition = \<lparr>wd_version = 2, wd_steps =
      [Step (plain_info (js ''evidence'') ([24182, 34892, 25910, 38598, 35777, 25454]) ParallelStep) None
        (Some [Branch (js ''services'') ([26381, 21153, 20998, 25903]) [mcp_step (js ''services'') ([26381,
        21153, 21015, 34920]) (js ''scry_listServices'')],
       Branch (js ''alerts'') ([21578, 35686, 20998, 25903]) [mcp_step (js ''alerts'') ([21578, 35686,
         21015, 34920]) (js ''scry_listAlerts'')],
       Branch (js ''dashboards'') ([20202, 34920, 30424, 20998, 25903]) [mcp_step (js ''dashboards'')
         ([20202, 34920, 30424, 21015, 34920]) (js ''scry_listDashboards'')]]) None,
       analysis_step (js ''root_cause'') ([32508, 21512, 26681, 22240, 20998, 26512]) ([21512, 24182, 24182,
         34892, 35777, 25454, 65292, 32473, 20986, 26681, 22240, 20505, 36873, 12289, 32622, 20449, 24230,
         12289, 25490, 38500, 20381, 25454, 21644, 19979, 19968, 27493, 39564, 35777, 12290]),
       Step ((plain_info (js ''verify'') ([32467, 35770, 22797, 26680]) VerifyStep)\<lparr>si_prompt := Some
         ([22797, 26680, 26681, 22240, 32467, 35770, 26159, 21542, 30001, 35777, 25454, 25903, 25345, 65292,
         26126, 30830, 19981, 33021, 30830, 23450, 30340, 37096, 20998, 12290])\<rparr>) None None
         None]\<rparr>\<rparr>"

definition preset_prompt_review :: workflow_preset where
  [js_eval]: "preset_prompt_review = \<lparr>wp_id = js ''preset-prompt-review'',
     wp_name = js ''Prompt Injection '' @ [23457, 26597],
     wp_description = [23545, 29992, 25143, 38382, 39064, 21644, 38468, 20214, 20869, 23481, 25191, 34892,
       23433, 20840, 20915, 31574] @ js '' Loop'' @ [65292, 25298, 32477, 36234, 26435, 21644, 27880, 20837,
       35831, 27714, 12290],
     wp_tags = [js ''preset'', js ''security'', js ''prompt-injection''],
     wp_definition = \<lparr>wd_version = 2, wd_steps =
      [Step (plain_info (js ''security'') ([23433, 20840, 24847, 22270, 26816, 26597]) SecurityCheckStep)
        None None None,
       analysis_step (js ''review'') ([36755, 20986, 23433, 20840, 23457, 26597, 32467, 35770]) ([35299,
         37322, 27880, 20837, 39118, 38505, 12289, 24847, 22270, 20998, 31867, 12289, 31574, 30053, 35009,
         20915, 21644, 20801, 35768, 30340, 26367, 20195, 35831, 27714, 65292, 19981, 25191, 34892, 31995,
         32479, 25805, 20316, 12290])]\<rparr>\<rparr>"

definition preset_memory_maintenance :: workflow_preset where
  [js_eval]: "preset_memory_maintenance = \<lparr>wp_id = js ''preset-memory-maintenance'',
     wp_name = [35760, 24518, 33258, 32500, 25252],
     wp_description = [25191, 34892, 35760, 24518, 34928, 20943, 12289, 37325, 22797, 21512, 24182, 12289,
       20914, 31361, 26631, 35760, 12289, 21040, 26399, 22788, 29702, 21644, 20302, 27963, 24615, 24402,
       26723, 65292, 24182, 36755, 20986, 32500, 25252, 23457, 35745, 25688, 35201, 12290],
     wp_tags = [js ''preset'', js ''memory'', js ''maintenance''],
     wp_definition = \<lparr>wd_version = 2, wd_steps =
      [Step ((plain_info (js ''maintain'') ([25191, 34892, 35760, 24518, 32500, 25252])
        McpToolStep)\<lparr>si_tool := Some (js ''scry_maintainMemory''), si_input := Some (Obj [(js
        ''limit'', Num 500)])\<rparr>) None None None,
       analysis_step (js ''review'') ([22797, 26680, 32500, 25252, 32467, 26524]) ([26816, 26597, 35760,
         24518, 32500, 25252, 25253, 21578, 65292, 35828, 26126, 34928, 20943, 12289, 21512, 24182, 12289,
         20914, 31361, 12289, 24402, 26723, 21644, 21040, 26399, 22788, 29702, 32467, 26524, 65292, 19981,
         20462, 25913, 35777, 25454, 12290])]\<rparr>\<rparr>"

definition workflowPresets :: "workflow_preset list" where
  [js_eval]: "workflowPresets =
     [preset_disk_full,
      preset_zombie_process,
      preset_disk_io,
      preset_config_drift,
      preset_service_recovery,
      preset_network_exposure,
      preset_root_cause,
      preset_prompt_review,
      preset_memory_maintenance]"

subsection \<open>The inspection of a definition\<close>

text \<open>The identifiers of all steps in the order of their definition, and the depth of the nesting.\<close>

fun node_ids :: "step list \<Rightarrow> jsstr list"
  and branch_node_ids :: "branch list \<Rightarrow> jsstr list" where
  "node_ids [] = []"
| "node_ids (Step i c p l # ss) =
     si_id i # (case c of None \<Rightarrow> [] | Some (Condition r t f) \<Rightarrow> node_ids t @ node_ids f)
       @ (case p of None \<Rightarrow> [] | Some bs \<Rightarrow> branch_node_ids bs)
       @ (case l of None \<Rightarrow> [] | Some (Loop li b) \<Rightarrow> node_ids b) @ node_ids ss"
| "branch_node_ids [] = []"
| "branch_node_ids (Branch b n ss # bs) = node_ids ss @ branch_node_ids bs"

fun nesting :: "step list \<Rightarrow> nat"
  and branch_nesting :: "branch list \<Rightarrow> nat" where
  "nesting [] = 0"
| "nesting (Step i c p l # ss) =
     max (max (case c of None \<Rightarrow> 0 | Some (Condition r t f) \<Rightarrow> 1 + max (nesting t) (nesting f))
              (case p of None \<Rightarrow> 0 | Some bs \<Rightarrow> branch_nesting bs))
         (max (case l of None \<Rightarrow> 0 | Some (Loop li b) \<Rightarrow> 1 + nesting b) (nesting ss))"
| "branch_nesting [] = 0"
| "branch_nesting (Branch b n ss # bs) = max (1 + nesting ss) (branch_nesting bs)"

definition adds :: "inspection \<Rightarrow> jsstr list \<Rightarrow> nat \<Rightarrow> inspection" where
  "adds st ids d = \<lparr>in_count = in_count st + length ids, in_depth = max (in_depth st) d, in_ids = in_ids st @ ids\<rparr>"

lemma adds_simps [simp]:
  "in_depth (adds st ids d) = max (in_depth st) d"
  "adds (adds st ids d) ids' d' = adds st (ids @ ids') (max d d')"
  "adds (reach_depth e st) ids d = adds st ids (max e d)"
  "adds (count_step i st) ids d = adds st (i # ids) d"
  "in_depth (reach_depth e st) = max (in_depth st) e"
  "in_depth (count_step i st) = in_depth st"
  by (simp_all add: adds_def reach_depth_def count_step_def ac_simps)

lemma adds_nothing: "d \<le> in_depth st \<Longrightarrow> adds st [] d = st"
  by (simp add: adds_def max_def)

lemma visit_adds:
  "d \<le> in_depth st \<Longrightarrow> visit ss d st = adds st (node_ids ss) (d + nesting ss)"
  "d \<le> in_depth st \<Longrightarrow> visit_condition c d st = adds st
     (case c of None \<Rightarrow> [] | Some (Condition r t f) \<Rightarrow> node_ids t @ node_ids f)
     (d + (case c of None \<Rightarrow> 0 | Some (Condition r t f) \<Rightarrow> 1 + max (nesting t) (nesting f)))"
  "d \<le> in_depth st \<Longrightarrow> visit_branches bs d st = adds st (branch_node_ids bs) (d + branch_nesting bs)"
  "d \<le> in_depth st \<Longrightarrow> visit_loop l d st = adds st
     (case l of None \<Rightarrow> [] | Some (Loop li b) \<Rightarrow> node_ids b)
     (d + (case l of None \<Rightarrow> 0 | Some (Loop li b) \<Rightarrow> 1 + nesting b))"
proof (induction ss d st and c d st and bs d st and l d st
    rule: visit_visit_condition_visit_branches_visit_loop.induct)
  case (2 i c p l ss d st)
  then show ?case
    by (cases p) (simp_all add: nat_add_max_right max.assoc max.left_commute max.commute)
qed (simp_all add: adds_nothing nat_add_max_right max.assoc max.left_commute max.commute)

lemma inspect_adds: "inspectWorkflowSteps ss =
    \<lparr>in_count = length (node_ids ss), in_depth = 1 + nesting ss, in_ids = node_ids ss\<rparr>"
  by (simp add: inspectWorkflowSteps_def visit_adds(1) reach_depth_def adds_def)

text \<open>
  C11. The single walk of \<open>inspectWorkflowSteps\<close> computes the number of steps, their identifiers in
  order and the nesting depth; so an accepted definition has at most 100 steps, all with different
  identifiers, nested at most five deep.
\<close>

theorem inspection_is_reference:
  "inspectWorkflowSteps ss =
     \<lparr>in_count = length (node_ids ss), in_depth = 1 + nesting ss, in_ids = node_ids ss\<rparr>
   \<and> (valid_definition \<lparr>wd_version = v, wd_steps = ss\<rparr> \<longleftrightarrow>
       v \<in> {1, 2} \<and> sized 1 20 ss \<and> valid_steps ss \<and> length (node_ids ss) \<le> 100 \<and> nesting ss \<le> 4
       \<and> distinct (node_ids ss))"
  by (simp add: inspect_adds valid_definition_def)

subsection \<open>What compilation keeps\<close>

fun program_leaves :: "program \<Rightarrow> step_info list"
  and ops_leaves :: "op list \<Rightarrow> step_info list"
  and op_leaves :: "op \<Rightarrow> step_info list"
  and programs_leaves :: "program list \<Rightarrow> step_info list" where
  "program_leaves (Program q ops) = ops_leaves ops"
| "ops_leaves [] = []"
| "ops_leaves (x # xs) = op_leaves x @ ops_leaves xs"
| "op_leaves (Then u) = (case u of Leaf i \<Rightarrow> [i] | _ \<Rightarrow> [])"
| "op_leaves (BranchOn r a b) = program_leaves a @ program_leaves b"
| "op_leaves (Parallel ps) = programs_leaves ps"
| "op_leaves (Foreach p n) = program_leaves p"
| "op_leaves (DoWhile p r n) = program_leaves p"
| "op_leaves (DoUntil p r n) = program_leaves p"
| "programs_leaves [] = []"
| "programs_leaves (p # ps) = program_leaves p @ programs_leaves ps"

text \<open>
  A definition is well shaped if a step carries children exactly of its own kind. The schema asks
  only that a control step has its children, not that other steps have none.
\<close>

fun shaped :: "step list \<Rightarrow> bool"
  and branches_shaped :: "branch list \<Rightarrow> bool" where
  "shaped [] = True"
| "shaped (Step i c p l # ss) =
     ((case c of None \<Rightarrow> si_type i \<noteq> ConditionStep
       | Some (Condition r t f) \<Rightarrow> si_type i = ConditionStep \<and> shaped t \<and> shaped f)
      \<and> (case p of None \<Rightarrow> si_type i \<noteq> ParallelStep | Some bs \<Rightarrow> si_type i = ParallelStep \<and> branches_shaped bs)
      \<and> (case l of None \<Rightarrow> si_type i \<noteq> LoopStep | Some (Loop li b) \<Rightarrow> si_type i = LoopStep \<and> shaped b)
      \<and> shaped ss)"
| "branches_shaped [] = True"
| "branches_shaped (Branch b n ss # bs) = (shaped ss \<and> branches_shaped bs)"

lemma ops_leaves_append [simp]: "ops_leaves (xs @ ys) = ops_leaves xs @ ops_leaves ys"
  by (induction xs) simp_all

definition control_types :: "step_type set" where
  "control_types = {ConditionStep, ParallelStep, LoopStep}"

lemma contains_compiled:
  "shaped ss \<Longrightarrow> ty \<notin> control_types \<Longrightarrow>
     containsStepType ty ss \<longleftrightarrow> ty \<in> si_type ` set (ops_leaves (compile_steps q ss))"
  "branches_shaped bs \<Longrightarrow> ty \<notin> control_types \<Longrightarrow>
     branchesContainType ty bs \<longleftrightarrow> ty \<in> si_type ` set (programs_leaves (compile_branches q bs))"
proof (induction ss and bs arbitrary: q and q rule: shaped_branches_shaped.induct)
  case (2 i c p l ss)
  then show ?case
    by (cases "si_type i")
       (auto simp: control_types_def image_Un Let_def split: option.splits condition.splits loop.splits loop_mode.splits)
qed (auto simp: image_Un)

text \<open>
  Compilation keeps the steps: in a well-shaped definition a step of some type occurs exactly
  if the compiled workflow runs a step of that type. The test for a verifying step, which decides
  whether a memory is learned from the run, is then right.
\<close>

theorem compiled_steps_are_the_defined:
  assumes "shaped (wd_steps (wf_definition w))" "ty \<notin> control_types"
  shows "containsStepType ty (wd_steps (wf_definition w))
    \<longleftrightarrow> ty \<in> si_type ` set (program_leaves (compileWorkflow w))"
  using contains_compiled(1) [OF assms]
  by (simp add: compileWorkflow_def compileSequence_def)

definition demo_step :: "string \<Rightarrow> step_type \<Rightarrow> step" where
  [js_eval]: "demo_step i ty = Step (plain_info (js i) (js i) ty) None None None"

definition demo_rule :: condition_rule where
  [js_eval]: "demo_rule = \<lparr>cr_path = js ''text'', cr_operator = OpExists, cr_value = None\<rparr>"

definition demo_workflow :: "step list \<Rightarrow> workflow_row" where
  [js_eval]: "demo_workflow ss = \<lparr>wf_id = js ''w1'', wf_name = js ''w'', wf_description = [], wf_enabled = True,
     wf_definition = \<lparr>wd_version = 2, wd_steps = ss\<rparr>, wf_tags = [],
     wf_schedule = \<lparr>sd_enabled = False, sd_cron = [], sd_timezone = js ''UTC''\<rparr>, wf_triggers = [], wf_inputs = [],
     wf_version = 1, wf_versions = [], wf_created = 0, wf_updated = 0\<rparr>"

definition demo_condition :: "step_type \<Rightarrow> step" where
  [js_eval]: "demo_condition ty = Step (plain_info (js ''c'') (js ''c'') ty)
     (Some (Condition demo_rule [demo_step ''v'' VerifyStep] [demo_step ''a'' AgentStep])) None None"

theorem compiled_steps_are_the_defined_witness:
  "VerifyStep \<in> si_type ` set (program_leaves (compileWorkflow (demo_workflow [demo_condition ConditionStep])))"
proof -
  let ?w = "demo_workflow [demo_condition ConditionStep]"
  have "shaped (wd_steps (wf_definition ?w))"
    by (simp add: demo_workflow_def demo_condition_def demo_step_def plain_info_def)
  moreover have "VerifyStep \<notin> control_types" by (simp add: control_types_def)
  moreover have "containsStepType VerifyStep (wd_steps (wf_definition ?w))"
    by (simp add: demo_workflow_def demo_condition_def demo_step_def plain_info_def)
  ultimately show ?thesis using compiled_steps_are_the_defined [of ?w VerifyStep] by blast
qed

text \<open>
  A step of another type may carry the children of a condition: the schema accepts it, the
  compiler ignores the children, and \<open>containsStepType\<close> still finds a verifying step among them, so
  that a memory is learned from a run that verified nothing.
\<close>

theorem ignored_children_count_as_steps:
  "valid_definition (wf_definition (demo_workflow [demo_condition AgentStep]))
   \<and> containsStepType VerifyStep (wd_steps (wf_definition (demo_workflow [demo_condition AgentStep])))
   \<and> map si_type (program_leaves (compileWorkflow (demo_workflow [demo_condition AgentStep]))) = [AgentStep]"
  by code_simp

text \<open>
  Step identifiers must be unique, branch identifiers need not be: a parallel step with two
  branches of the same identifier is accepted and compiles to two engine workflows of the same name.
\<close>

definition demo_parallel :: step where
  [js_eval]: "demo_parallel = Step (plain_info (js ''p'') (js ''p'') ParallelStep) None
     (Some [Branch (js ''b'') (js ''b'') [demo_step ''x'' AgentStep],
            Branch (js ''b'') (js ''b'') [demo_step ''y'' AgentStep]]) None"

lemma duplicate_branch_ids:
  "valid_definition (wf_definition (demo_workflow [demo_parallel]))
   \<and> compile_steps (js ''w'') [demo_parallel] =
       [Then (Marker (plain_info (js ''p'') (js ''p'') ParallelStep) (js ''start'')),
        Parallel [Program (js ''w_p_b'') [Then (Leaf (plain_info (js ''x'') (js ''x'') AgentStep))],
                  Program (js ''w_p_b'') [Then (Leaf (plain_info (js ''y'') (js ''y'') AgentStep))]],
        Then (Normalize (plain_info (js ''p'') (js ''p'') ParallelStep) ParallelMode)]"
proof
  show "valid_definition (wf_definition (demo_workflow [demo_parallel]))" by code_simp
qed (simp add: demo_parallel_def demo_step_def plain_info_def js_def)

subsection \<open>Loops\<close>

text \<open>The iteration limits and the concurrency of all loops of a compiled workflow.\<close>

fun program_limits :: "program \<Rightarrow> nat list"
  and ops_limits :: "op list \<Rightarrow> nat list"
  and op_limits :: "op \<Rightarrow> nat list"
  and programs_limits :: "program list \<Rightarrow> nat list" where
  "program_limits (Program q ops) = ops_limits ops"
| "ops_limits [] = []"
| "ops_limits (x # xs) = op_limits x @ ops_limits xs"
| "op_limits (Then u) = (case u of Items i l \<Rightarrow> [lo_max l] | _ \<Rightarrow> [])"
| "op_limits (BranchOn r a b) = program_limits a @ program_limits b"
| "op_limits (Parallel ps) = programs_limits ps"
| "op_limits (Foreach p n) = n # program_limits p"
| "op_limits (DoWhile p r n) = n # program_limits p"
| "op_limits (DoUntil p r n) = n # program_limits p"
| "programs_limits [] = []"
| "programs_limits (p # ps) = program_limits p @ programs_limits ps"

lemma ops_limits_append [simp]: "ops_limits (xs @ ys) = ops_limits xs @ ops_limits ys"
  by (induction xs) simp_all

lemma limits_compiled:
  "valid_steps ss \<Longrightarrow> list_all (\<lambda>n. 1 \<le> n \<and> n \<le> 50) (ops_limits (compile_steps q ss))"
  "valid_step s \<Longrightarrow> list_all (\<lambda>n. 1 \<le> n \<and> n \<le> 50) (ops_limits (compile_step q s))"
  "valid_branches bs \<Longrightarrow> list_all (\<lambda>n. 1 \<le> n \<and> n \<le> 50) (programs_limits (compile_branches q bs))"
proof (induction q ss and q s and q bs rule: compile_steps_compile_step_compile_branches.induct)
  case (3 q i c p l)
  then show ?case
    by (auto simp: Let_def valid_loop_def split: option.splits condition.splits loop.splits loop_mode.splits)
qed auto


definition demo_loop :: step where
  [js_eval]: "demo_loop = Step (plain_info (js ''l'') (js ''l'') LoopStep) None None
     (Some (Loop \<lparr>lo_mode = WhileLoop, lo_rule = demo_rule, lo_max = 3, lo_source = None, lo_concurrency = None\<rparr>
       [demo_step ''x'' AgentStep]))"


subsection \<open>Contexts\<close>

lemma parse_context_value [simp]: "parse_context (context_value c) = Some c"
  by (simp add: parse_context_def context_value_def)

lemma collectContexts_value [simp]: "collectContexts (context_value c) = [c]"
  by (subst collectContexts.simps) simp

lemma collectList_values: "collectList (map context_value cs) = cs"
  by (induction cs) (simp_all del: collectContexts.simps)

lemma collectProps_values: "length ids = length cs \<Longrightarrow> collectProps (zip ids (map context_value cs)) = cs"
  by (induction ids cs rule: list_induct2) (simp_all del: collectContexts.simps)

lemma parse_no_context:
  assumes "\<And>s. get_prop kvs (js ''message'') \<noteq> Str s"
  shows "parse_context (Obj kvs) = None"
  using assms by (simp add: parse_context_def split: jsval.splits)

lemma get_prop_values: "get_prop (zip ids (map context_value cs)) k \<noteq> Str s"
proof (induction ids arbitrary: cs)
  case (Cons i ids)
  then show ?case by (cases cs) (simp_all add: context_value_def)
qed simp

lemma collect_outputs:
  "collectContexts (Arr (map context_value cs)) = cs"
  "length ids = length cs \<Longrightarrow> collectContexts (Obj (zip ids (map context_value cs))) = cs"
proof -
  have "parse_context (Arr (map context_value cs)) = None" by (simp add: parse_context_def)
  then show "collectContexts (Arr (map context_value cs)) = cs"
    by (subst collectContexts.simps) (simp only: option.case jsval.case collectList_values)
  assume "length ids = length cs"
  then show "collectContexts (Obj (zip ids (map context_value cs))) = cs"
    by (subst collectContexts.simps)
       (simp only: parse_no_context [OF get_prop_values] option.case jsval.case collectProps_values)
qed

lemma map_of_merged: "map_of (foldl put_all base rss) k =
    (let hits = filter (\<lambda>rs. k \<in> fst ` set rs) rss
     in if hits = [] then map_of base k else map_of (rev (last hits)) k)"
proof (induction rss rule: rev_induct)
  case (snoc rs rss)
  show ?case
  proof (cases "k \<in> fst ` set rs")
    case True
    then obtain v where "map_of (rev rs) k = Some v"
      by (metis map_of_eq_None_iff option.exhaust set_rev)
    then show ?thesis using True
      by (simp add: map_of_put_all map_add_def)
  next
    case False
    then have "map_of (rev rs) k = None" by (simp add: map_of_eq_None_iff)
    then show ?thesis using False snoc.IH by (simp add: map_of_put_all map_add_def)
  qed
qed simp

lemma merged_lookup:
  assumes "cs = us @ c # vs" "(k, v) \<in> set (cx_results c)" "distinct (map fst (cx_results c))"
    and "list_all (\<lambda>d. k \<notin> fst ` set (cx_results d)) vs"
  shows "map_of (foldl put_all [] (map cx_results cs)) k = Some v"
proof -
  have k: "k \<in> fst ` set (cx_results c)" using assms(2) by force
  have none: "filter (\<lambda>rs. k \<in> fst ` set rs) (map cx_results vs) = []"
    using assms(4) by (auto simp: filter_empty_conv list_all_iff)
  let ?P = "\<lambda>rs :: (jsstr \<times> jsval) list. k \<in> fst ` set rs"
  have f: "filter ?P (map cx_results cs) = filter ?P (map cx_results us) @ [cx_results c]"
    using k none by (simp add: assms(1))
  have "map_of (rev (cx_results c)) k = Some v"
    using assms(2,3) by (simp add: distinct_map)
  then show ?thesis unfolding map_of_merged f by simp
qed

text \<open>
  After parallel branches and after a foreach-loop the contexts are merged: the message is the
  one of the first, and every result of every branch is in the merged results unless a later branch
  has a result of the same key. As the results of steps are keyed by step identifiers, nothing a
  branch found is lost.
\<close>

theorem merge_keeps_results:
  assumes "cs = us @ c # vs" "(k, v) \<in> set (cx_results c)" "distinct (map fst (cx_results c))"
    and "list_all (\<lambda>d. k \<notin> fst ` set (cx_results d)) vs" "length ids = length cs"
  shows "map_of (cx_results (mergeContexts (Arr (map context_value cs)))) k = Some v
    \<and> mergeContexts (Obj (zip ids (map context_value cs))) = mergeContexts (Arr (map context_value cs))
    \<and> cx_message (mergeContexts (Arr (map context_value cs))) = cx_message (hd cs)"
  using merged_lookup [OF assms(1-4)] assms(1)
  unfolding mergeContexts_def Let_def collect_outputs(1) collect_outputs(2) [OF assms(5)]
  by (cases us) simp_all

definition demo_context :: "string \<Rightarrow> wf_context" where
  [js_eval]: "demo_context k = \<lparr>cx_message = js ''m'', cx_results = [(js k, JBool True)], cx_text = js k\<rparr>"

theorem merge_keeps_results_witness:
  "map_of (cx_results (mergeContexts (Arr (map context_value [demo_context ''a'', demo_context ''b''])))) (js ''a'')
     = Some (JBool True)"
proof -
  have "[demo_context ''a'', demo_context ''b''] = [] @ demo_context ''a'' # [demo_context ''b'']" by simp
  from conjunct1 [OF merge_keeps_results [OF this, of "js ''a''" "JBool True" "[js ''x'', js ''y'']"]]
  show ?thesis by (simp add: demo_context_def)
qed

subsection \<open>The presets\<close>

text \<open>
  Every operation is behind an approval that precedes it in its own sequence or in one around it;
  and every operation is followed by a verifying step.
\<close>

fun guarded :: "bool \<Rightarrow> step list \<Rightarrow> bool"
  and branches_guarded :: "bool \<Rightarrow> branch list \<Rightarrow> bool" where
  "guarded approved [] = True"
| "guarded approved (Step i c p l # ss) =
     ((si_type i = OperationStep \<longrightarrow> approved)
      \<and> (case c of None \<Rightarrow> True | Some (Condition r t f) \<Rightarrow> guarded approved t \<and> guarded approved f)
      \<and> (case p of None \<Rightarrow> True | Some bs \<Rightarrow> branches_guarded approved bs)
      \<and> (case l of None \<Rightarrow> True | Some (Loop li b) \<Rightarrow> guarded approved b)
      \<and> guarded (approved \<or> si_type i = ApprovalStep) ss)"
| "branches_guarded approved [] = True"
| "branches_guarded approved (Branch b n ss # bs) = (guarded approved ss \<and> branches_guarded approved bs)"

fun verified_after :: "step list \<Rightarrow> bool" where
  "verified_after [] = True"
| "verified_after (s # ss) =
     ((st_type s = OperationStep \<longrightarrow> containsStepType VerifyStep ss) \<and> verified_after ss)"

text \<open>
  The built-in workflows pass the schema, have different identifiers and are well shaped; none
  runs an operation that is not behind an approval and followed by a verification.
\<close>

theorem presets_are_safe:
  "list_all (\<lambda>p. valid_definition (wp_definition p) \<and> shaped (wd_steps (wp_definition p))
      \<and> guarded False (wd_steps (wp_definition p)) \<and> verified_after (wd_steps (wp_definition p))) workflowPresets
   \<and> distinct (map wp_id workflowPresets) \<and> length workflowPresets = 9"
  by code_simp

end
