(* ===== verification/Text_Tools.thy ===== *)
theory Text_Tools
  imports Regex Json
begin

section \<open>Redaction, canonical content and token similarity\<close>

text \<open>
  The text functions that the evidence store (\<open>evidence.ts\<close>) and the memory store
  (\<open>memory/index.ts\<close>) each define for themselves, in the same words: redaction of secrets, the
  bounded and sorted content that is hashed, and the overlap of token sets.
\<close>

subsection \<open>Redaction\<close>

definition secret_key_pattern :: regex where
  [js_eval]: "secret_key_pattern = (alts [lit_ci (js ''authorization''), cats [lit_ci (js ''api''), opt dot, lit_ci (js
      ''key'')], lit_ci (js ''token''), lit_ci (js ''password''), cats [lit_ci (js ''private''),
      opt dot, lit_ci (js ''key'')], lit_ci (js ''passphrase''), lit_ci (js ''credential''),
      lit_ci (js ''secret'')])"

definition secret_value_pattern :: regex where
  [js_eval]: "secret_value_pattern = (alts [cats [lit_ci (js ''bearer''), some space, some (Chr (\<lambda>u. 97 \<le> u \<and> u
      \<le> 122 \<or> 65 \<le> u \<and> u \<le> 90 \<or> 48 \<le> u \<and> u \<le> 57 \<or> u = 46
      \<or> u = 95 \<or> u = 126 \<or> u = 45))], cats [lit_ci (js ''sk-''), cats [Rep 12 12 (Chr
      (\<lambda>u. 97 \<le> u \<and> u \<le> 122 \<or> 65 \<le> u \<and> u \<le> 90 \<or> 48 \<le>
      u \<and> u \<le> 57 \<or> u = 46 \<or> u = 95 \<or> u = 45)), Many (Chr (\<lambda>u. 97
      \<le> u \<and> u \<le> 122 \<or> 65 \<le> u \<and> u \<le> 90 \<or> 48 \<le> u \<and> u
      \<le> 57 \<or> u = 46 \<or> u = 95 \<or> u = 45))]], cats [lit_ci (js ''-----BEGIN ''), Many
      (Chr (\<lambda>u. 65 \<le> u \<and> u \<le> 90 \<or> 97 \<le> u \<and> u \<le> 122 \<or> u =
      32)), lit_ci (js ''PRIVATE KEY-----'')]])"

definition redacted :: jsstr where
  [js_eval]: "redacted = (js ''['' @ [25935, 24863, 20449, 24687, 24050, 38544, 34255] @ js '']'')"

definition too_deep :: jsstr where
  [js_eval]: "too_deep = (js ''['' @ [20869, 23481, 23618, 32423, 36807, 28145] @ js '']'')"

definition redactString :: "jsstr \<Rightarrow> jsstr" where
  [js_eval]: "redactString s = re_replace secret_value_pattern redacted s"

text \<open>
  \<open>sanitizeValue\<close> counts the depth up from 0 and stops beyond 8; the argument here is the number of
  levels left, so the source's call is the one with nine.
\<close>

fun sanitize_levels :: "nat \<Rightarrow> jsval \<Rightarrow> jsval" where
  "sanitize_levels 0 v = Str too_deep"
| "sanitize_levels (Suc n) v =
     (case v of
        Str s \<Rightarrow> Str (take 80000 (redactString s))
      | Arr vs \<Rightarrow> Arr (map (sanitize_levels n) (take 300 vs))
      | Obj kvs \<Rightarrow> Obj (map (\<lambda>(k, c). (k, if re_test secret_key_pattern k then Str redacted
                                             else sanitize_levels n c)) (take 300 kvs))
      | Undef \<Rightarrow> Str []
      | _ \<Rightarrow> v)"

definition sanitizeValue :: "jsval \<Rightarrow> jsval" where
  [js_eval]: "sanitizeValue v = sanitize_levels 9 v"

subsection \<open>Canonical content\<close>

text \<open>Insertion into a sorted list after the elements that do not come later, so sorting is stable.\<close>

fun insert_by :: "('a \<Rightarrow> 'a \<Rightarrow> bool) \<Rightarrow> 'a \<Rightarrow> 'a list \<Rightarrow> 'a list" where
  "insert_by le x [] = [x]"
| "insert_by le x (y # ys) = (if le y x then y # insert_by le x ys else x # y # ys)"

definition sort_by :: "('a \<Rightarrow> 'a \<Rightarrow> bool) \<Rightarrow> 'a list \<Rightarrow> 'a list" where
  [js_eval]: "sort_by le xs = foldl (\<lambda>ys x. insert_by le x ys) [] xs"

text \<open>The comparison of keys (\<open>localeCompare\<close>) belongs to the platform.\<close>

fun stableValue :: "platform \<Rightarrow> jsval \<Rightarrow> jsval" where
  "stableValue pf (Arr vs) = Arr (map (stableValue pf) vs)"
| "stableValue pf (Obj kvs) =
     Obj (sort_by (\<lambda>a b. locale_le pf (fst a) (fst b)) (map (\<lambda>(k, c). (k, stableValue pf c)) kvs))"
| "stableValue pf v = v"

text \<open>The length in bytes of the UTF-8 form; a unit of a surrogate pair counts two.\<close>

fun utf8_length :: "jsstr \<Rightarrow> nat" where
  "utf8_length [] = 0"
| "utf8_length [u] = (if u < 128 then 1 else if u < 2048 then 2 else 3)"
| "utf8_length (u # v # s) =
     (if 55296 \<le> u \<and> u \<le> 56319 \<and> 56320 \<le> v \<and> v \<le> 57343 then 4 + utf8_length s
      else (if u < 128 then 1 else if u < 2048 then 2 else 3) + utf8_length (v # s))"

record serialized =
  sr_content :: jsval
  sr_json :: jsstr
  sr_truncated :: bool
  sr_stored :: jsval

text \<open>
  \<open>serializeContent\<close> with the limit of the caller. The last field is the value the JSON text stands
  for, which is what a reader of the stored column gets back.
\<close>

definition serializeContent :: "platform \<Rightarrow> nat \<Rightarrow> jsval \<Rightarrow> serialized" where
  [js_eval]: "serializeContent pf limit v =
     (let sanitized = sanitizeValue v; stable = stableValue pf sanitized; json = json_text pf stable
      in if utf8_length json \<le> limit then
           \<lparr>sr_content = sanitized, sr_json = json, sr_truncated = False, sr_stored = stable\<rparr>
         else (let content = Obj [(js ''truncated'', JBool True), (js ''preview'', Str (take limit json))]
               in \<lparr>sr_content = content, sr_json = json_text pf content, sr_truncated = True,
                   sr_stored = content\<rparr>))"

subsection \<open>Scores\<close>

definition clampScore :: "rat \<Rightarrow> int" where
  [js_eval]: "clampScore q = max 0 (min 100 (js_round q))"

lemma is_score_clamp [simp, score_intro]: "is_score (clampScore q)"
  by (simp add: clampScore_def is_score_def)

lemma clampScore_mono: "p \<le> q \<Longrightarrow> clampScore p \<le> clampScore q"
  using js_round_mono [of p q] by (simp add: clampScore_def)

lemma clampScore_id: "is_score n \<Longrightarrow> clampScore (of_int n) = n"
  by (simp add: clampScore_def is_score_def)

subsection \<open>Tokens\<close>

definition is_cjk :: "nat \<Rightarrow> bool" where
  [js_eval]: "is_cjk u \<longleftrightarrow> 13312 \<le> u \<and> u \<le> 40959"

text \<open>\<open>split\<close> at runs of white space, the empty pieces dropped.\<close>

fun split_spaces :: "jsstr \<Rightarrow> jsstr list" where
  "split_spaces [] = []"
| "split_spaces (u # us) =
     (if is_space u then split_spaces us
      else (case us of
              [] \<Rightarrow> [[u]]
            | v # vs \<Rightarrow> if is_space v then [u] # split_spaces us
                         else (case split_spaces us of [] \<Rightarrow> [[u]] | w # ws \<Rightarrow> (u # w) # ws)))"

text \<open>The elements in the order of their first occurrence, as a set keeps them.\<close>

definition uniq :: "'a list \<Rightarrow> 'a list" where
  [js_eval]: "uniq xs = rev (remdups (rev xs))"

fun pairs_of :: "jsstr \<Rightarrow> jsstr list" where
  "pairs_of (u # v # s) = [u, v] # pairs_of (v # s)"
| "pairs_of _ = []"

definition cjk_runs :: "jsstr \<Rightarrow> jsstr list" where
  [js_eval]: "cjk_runs s = re_find_all (cats [Rep 2 2 (Chr is_cjk), Many (Chr is_cjk)]) s"

text \<open>The tokens of a text: its words, and the pairs of neighbours in its runs of Han characters.\<close>

definition token_list :: "(nat \<Rightarrow> bool) \<Rightarrow> jsstr \<Rightarrow> jsstr list" where
  [js_eval]: "token_list keep s =
     (let normalized = trim (re_replace (some (Chr (\<lambda>u. \<not> keep u))) [32] s)
      in uniq (filter (\<lambda>t. 1 < length t) (split_spaces normalized) @ concat (map pairs_of (cjk_runs normalized))))"

definition jaccard :: "jsstr list \<Rightarrow> jsstr list \<Rightarrow> rat" where
  [js_eval]: "jaccard ls rs =
     (if ls = [] \<or> rs = [] then 0
      else of_nat (length (filter (\<lambda>t. t \<in> set rs) ls)) / of_nat (length (uniq (ls @ rs))))"

lemma distinct_uniq [simp]: "distinct (uniq xs)"
  by (simp add: uniq_def)

lemma set_uniq [simp]: "set (uniq xs) = set xs"
  by (simp add: uniq_def)

lemma length_uniq: "length (uniq xs) = card (set xs)"
  using distinct_card [of "uniq xs"] by simp

lemma distinct_token_list [simp]: "distinct (token_list keep s)"
  by (simp add: token_list_def Let_def)

lemma token_length: "t \<in> set (token_list keep s) \<Longrightarrow> 2 \<le> length t"
proof -
  have "t \<in> set (pairs_of r) \<Longrightarrow> length t = 2" for r by (induction r rule: pairs_of.induct) auto
  then show "t \<in> set (token_list keep s) \<Longrightarrow> 2 \<le> length t" by (fastforce simp: token_list_def Let_def)
qed

lemma jaccard_set:
  assumes "distinct ls" "distinct rs"
  shows "jaccard ls rs = (if ls = [] \<or> rs = [] then 0
    else of_nat (card (set ls \<inter> set rs)) / of_nat (card (set ls \<union> set rs)))"
proof -
  have "length (filter (\<lambda>t. t \<in> set rs) ls) = card (set ls \<inter> set rs)"
    using distinct_card [of "filter (\<lambda>t. t \<in> set rs) ls"] assms(1)
    by (simp add: Int_def)
  then show ?thesis by (simp add: jaccard_def length_uniq)
qed

text \<open>
  The interface of a similarity: whatever the tokens are, as long as each counts once, the overlap
  is symmetric, between 0 and 1, and 1 exactly for equal non-empty token sets.
\<close>

locale token_source =
  fixes tokens :: "jsstr \<Rightarrow> jsstr list"
  assumes distinct_tokens: "distinct (tokens s)"
begin

lemma similarity_sym: "jaccard (tokens a) (tokens b) = jaccard (tokens b) (tokens a)"
  by (simp add: jaccard_set distinct_tokens Int_commute Un_commute)

lemma similarity_bounds: "0 \<le> jaccard (tokens a) (tokens b) \<and> jaccard (tokens a) (tokens b) \<le> 1"
proof -
  have "card (set (tokens a) \<inter> set (tokens b)) \<le> card (set (tokens a) \<union> set (tokens b))"
    by (intro card_mono) auto
  then show ?thesis by (simp add: jaccard_set distinct_tokens divide_le_eq_1 card_gt_0_iff)
qed

lemma similarity_one_iff:
  "jaccard (tokens a) (tokens b) = 1 \<longleftrightarrow> tokens a \<noteq> [] \<and> set (tokens a) = set (tokens b)"
proof (cases "tokens a = [] \<or> tokens b = []")
  case True
  then show ?thesis by (auto simp: jaccard_def)
next
  case False
  let ?i = "set (tokens a) \<inter> set (tokens b)" and ?u = "set (tokens a) \<union> set (tokens b)"
  have "card ?u \<noteq> 0" using False by simp
  then have "jaccard (tokens a) (tokens b) = 1 \<longleftrightarrow> card ?i = card ?u"
    using False by (auto simp: jaccard_set distinct_tokens)
  also have "\<dots> \<longleftrightarrow> ?i = ?u" using card_subset_eq [of ?u ?i] by auto
  also have "\<dots> \<longleftrightarrow> set (tokens a) = set (tokens b)" by auto
  finally show ?thesis using False by simp
qed

lemma similarity_score: "is_score (clampScore (jaccard (tokens a) (tokens b) * 100))"
  by simp

end

subsection \<open>Redaction reaches every level\<close>

text \<open>What sanitized content is made of: bounded, no deeper than the levels, nothing undefined.\<close>

fun clean :: "nat \<Rightarrow> jsval \<Rightarrow> bool" where
  "clean 0 v = (v = Str too_deep)"
| "clean (Suc n) v =
     (case v of
        Str s \<Rightarrow> length s \<le> 80000
      | Arr vs \<Rightarrow> length vs \<le> 300 \<and> list_all (clean n) vs
      | Obj kvs \<Rightarrow> length kvs \<le> 300 \<and> list_all (\<lambda>(k, c). (re_test secret_key_pattern k \<longrightarrow> c = Str redacted)
                   \<and> (\<not> re_test secret_key_pattern k \<longrightarrow> clean n c)) kvs
      | Undef \<Rightarrow> False
      | _ \<Rightarrow> True)"

lemma clean_sanitize: "clean n (sanitize_levels n v)"
proof (induction n arbitrary: v)
  case (Suc n)
  show ?case using Suc.IH by (cases v) (auto simp: list_all_iff)
qed simp

end
