(* ===== verification/Memory_Text.thy ===== *)
theory Memory_Text
  imports Text_Tools Input_Policy "HOL-Library.Word"
begin

section \<open>Memory text analysis (\<open>memory/index.ts\<close>, first half)\<close>

text \<open>
  Everything the memory store computes from texts and values alone: tokens and the two
  similarities, keywords, the chunks a memory is split into, service names, trace edges, error
  signatures and contradictions. Functions of the store itself are in the next theory.
\<close>

subsection \<open>Similarity of tokens\<close>

definition memory_unit :: "nat \<Rightarrow> bool" where
  [js_eval]: "memory_unit u \<longleftrightarrow> lower_alnum u \<or> is_cjk u \<or> u = 95 \<or> u = 46 \<or> u = 58 \<or> u = 47 \<or> u = 45"

definition memoryTokens :: "platform \<Rightarrow> jsstr \<Rightarrow> jsstr list" where
  [js_eval]: "memoryTokens pf s = token_list memory_unit (to_lower (nfkc pf s))"

definition memory_similarity :: "platform \<Rightarrow> jsstr \<Rightarrow> jsstr \<Rightarrow> rat" where
  [js_eval]: "memory_similarity pf l r = jaccard (memoryTokens pf l) (memoryTokens pf r)"

interpretation memory_tokens: token_source "memoryTokens pf"
  by unfold_locales (simp add: memoryTokens_def)

definition memory_content :: "platform \<Rightarrow> jsval \<Rightarrow> serialized" where
  [js_eval]: "memory_content pf v = serializeContent pf 120000 v"

subsection \<open>Hashed vectors\<close>

text \<open>\<open>Math.imul\<close> and the exclusive or work on 32 bits; the result is read without sign.\<close>

definition hash_step :: "32 word \<Rightarrow> nat \<Rightarrow> 32 word" where
  [js_eval]: "hash_step h u = xor h (of_nat u) * 16777619"

definition hashToken :: "jsstr \<Rightarrow> nat" where
  [js_eval]: "hashToken token = unat (foldl hash_step 2166136261 token)"

definition grams :: "jsstr \<Rightarrow> jsstr list" where
  [js_eval]: "grams s = filter (\<lambda>g. \<not> re_test (cats [Rep 2 2 space]) g)
     (map (\<lambda>i. take 3 (drop i s)) [0..<length s - 2])"

definition add_feature :: "int list \<Rightarrow> jsstr \<Rightarrow> int list" where
  [js_eval]: "add_feature vec f =
     (let h = hashToken f; i = h mod 256
      in vec[i := vec ! i + (if h mod 2 = 0 then 1 else - 1)])"

definition hashedVector :: "platform \<Rightarrow> jsstr \<Rightarrow> int list" where
  [js_eval]: "hashedVector pf s =
     (let normalized = to_lower (nfkc pf s)
      in foldl add_feature (replicate 256 0) (memoryTokens pf normalized @ grams normalized))"

definition dot_product :: "int list \<Rightarrow> int list \<Rightarrow> int" where
  [js_eval]: "dot_product a b = sum_list (map (\<lambda>(x, y). x * y) (zip a b))"

definition denseSimilarity :: "platform \<Rightarrow> jsstr \<Rightarrow> jsstr \<Rightarrow> rat" where
  [js_eval]: "denseSimilarity pf l r =
     (let a = hashedVector pf l; b = hashedVector pf r; na = dot_product a a; nb = dot_product b b
      in if na = 0 \<or> nb = 0 then 0
         else max 0 (of_int (dot_product a b) / sqrt_of pf (of_int (na * nb))))"

subsection \<open>Keywords and chunks\<close>

definition stop_words :: "jsstr list" where
  [js_eval]: "stop_words = map js [''the'', ''and'', ''with'', ''from'', ''this'', ''that'', ''for'', ''into''] @
     [[20197, 21450], [19968, 20010], [24403, 21069], [36827, 34892], [38656, 35201], [31995, 32479], [26381, 21153], [38382, 39064], [25968, 25454]]"

text \<open>
  The tokens are a set, so every one is counted once and the order is by length, ties as they come.
\<close>

definition extractKeywords :: "platform \<Rightarrow> jsstr \<Rightarrow> nat \<Rightarrow> jsstr list" where
  [js_eval]: "extractKeywords pf s limit =
     take limit (sort_by (\<lambda>a b. length b \<le> length a)
       (filter (\<lambda>t. t \<notin> set stop_words \<and> 2 \<le> length t) (memoryTokens pf s)))"

definition chunkType :: "jsstr \<Rightarrow> jsstr \<Rightarrow> chunk_type" where
  [js_eval]: "chunkType title content =
     (let v = title @ [32] @ content
      in if re_test (alts [lit_ci [27493, 39588], lit_ci [25805, 20316], lit_ci [22788, 32622], lit_ci [24674,
      22797], lit_ci [20462, 22797], lit_ci (js ''runbook''), lit_ci (js ''procedure''), lit_ci
      (js ''remediation''), lit_ci (js ''command'')]) v then CkProcedure
         else if re_test (alts [lit_ci [35777, 25454], lit_ci [26085, 24535], lit_ci [25351, 26631], lit_ci [38142,
      36335], lit_ci [21578, 35686], lit_ci (js ''evidence''), lit_ci (js ''trace''), lit_ci (js
      ''metric''), lit_ci (js ''log''), lit_ci (js ''alert'')]) v then CkEvidence
         else if re_test (alts [lit_ci [35266, 23519], lit_ci [29616, 35937], lit_ci [30456, 20851], lit_ci [20551,
      35774], lit_ci (js ''observation''), lit_ci (js ''correlation''), lit_ci (js
      ''hypothesis'')]) v then CkObservation
         else if re_test (alts [lit_ci (js ''metadata''), lit_ci [20803, 25968, 25454], lit_ci [26631, 35782], lit_ci
      [37197, 32622], lit_ci (js ''profile''), lit_ci [23646, 24615]]) v then CkMetadata
         else CkSummary)"

fun crlf_to_lf :: "jsstr \<Rightarrow> jsstr" where
  "crlf_to_lf [] = []"
| "crlf_to_lf [u] = [u]"
| "crlf_to_lf (u # v # s) = (if u = 13 \<and> v = 10 then 10 # crlf_to_lf s else u # crlf_to_lf (v # s))"

text \<open>\<open>split\<close> at runs of at least two line feeds; a single one stays.\<close>

function paragraphs_of :: "jsstr \<Rightarrow> jsstr \<Rightarrow> jsstr list" where
  "paragraphs_of cur [] = [cur]"
| "paragraphs_of cur (u # us) =
     (if u = 10 \<and> us \<noteq> [] \<and> hd us = 10 then cur # paragraphs_of [] (dropWhile (\<lambda>x. x = 10) us)
      else paragraphs_of (cur @ [u]) us)"
  by pat_completeness auto
termination
  by (relation "measure (\<lambda>(cur, s). length s)") (auto simp: le_imp_less_Suc length_dropWhile_le)

text \<open>\<open>split\<close> behind a sentence mark and the white space that follows it, empty pieces dropped.\<close>

definition sentence_mark :: "nat \<Rightarrow> bool" where
  [js_eval]: "sentence_mark u \<longleftrightarrow> u \<in> {12290, 65281, 65311, 46, 33, 63}"

function sentences_of :: "jsstr \<Rightarrow> jsstr \<Rightarrow> jsstr list" where
  "sentences_of cur [] = (if cur = [] then [] else [cur])"
| "sentences_of cur (u # us) =
     (if sentence_mark u then (cur @ [u]) # sentences_of [] (dropWhile is_space us)
      else sentences_of (cur @ [u]) us)"
  by pat_completeness auto
termination
  by (relation "measure (\<lambda>(cur, s). length s)") (auto simp: le_imp_less_Suc length_dropWhile_le)

text \<open>Slices of at most \<open>n + 1\<close> units.\<close>

function slices :: "nat \<Rightarrow> jsstr \<Rightarrow> jsstr list" where
  "slices n s = (if s = [] then [] else take (Suc n) s # slices n (drop (Suc n) s))"
  by pat_completeness auto
termination
  by (relation "measure (\<lambda>(n, s). length s)") auto

declare slices.simps [simp del]

definition max_chunk :: nat where
  [js_eval]: "max_chunk = 1800"

definition paragraph_parts :: "jsstr \<Rightarrow> jsstr list" where
  [js_eval]: "paragraph_parts p =
     (if length p \<le> max_chunk then [p]
      else (let ss = sentences_of [] p
            in if length ss \<le> 1 then slices (max_chunk - 1) p else ss))"

fun pack :: "jsstr \<Rightarrow> jsstr list \<Rightarrow> jsstr list" where
  "pack buffer [] = (if buffer = [] then [] else [buffer])"
| "pack buffer (p # ps) =
     (let candidate = (if buffer = [] then p else buffer @ [10, 10] @ p)
      in if length candidate \<le> max_chunk then pack candidate ps
         else (if buffer = [] then [] else [buffer]) @
              (if length p \<le> max_chunk then pack p ps else slices (max_chunk - 1) p @ pack [] ps))"

definition splitText :: "jsstr \<Rightarrow> jsstr list" where
  [js_eval]: "splitText v =
     (let normalized = trim (crlf_to_lf v)
      in if normalized = [] then [] else pack [] (concat (map paragraph_parts (paragraphs_of [] normalized))))"

record chunk_input =
  ci_memory :: jsstr
  ci_title :: jsstr
  ci_summary :: jsstr
  ci_content :: jsval
  ci_service :: jsstr
  ci_confidence :: int

definition summary_title :: jsstr where
  [js_eval]: "summary_title = [35760, 24518, 25688, 35201]"

definition sections_of :: "platform \<Rightarrow> chunk_input \<Rightarrow> (jsstr \<times> jsstr) list" where
  [js_eval]: "sections_of pf i =
     (if trim (ci_summary i) \<noteq> [] then [(summary_title, trim (ci_summary i))] else []) @
     (case ci_content i of
        Str s \<Rightarrow> [(ci_title i, s)]
      | Obj kvs \<Rightarrow> concat (map (\<lambda>(k, v).
            (let c = (case v of Str s \<Rightarrow> s | _ \<Rightarrow> (case pretty pf [] v of None \<Rightarrow> [] | Some t \<Rightarrow> t))
             in if c \<noteq> [] \<and> c \<noteq> js ''null'' \<and> c \<noteq> js ''[]'' \<and> c \<noteq> [123, 125] then [(k, c)] else []))
            (take 80 kvs))
      | Undef \<Rightarrow> []
      | Null \<Rightarrow> []
      | v \<Rightarrow> [(ci_title i, case pretty pf [] v of None \<Rightarrow> [] | Some t \<Rightarrow> t)])"

text \<open>The parts of all sections in order, each with the title its chunk gets.\<close>

definition titled_parts :: "(jsstr \<times> jsstr) list \<Rightarrow> (jsstr \<times> jsstr \<times> jsstr) list" where
  [js_eval]: "titled_parts sections = concat (map (\<lambda>(title, content).
     map (\<lambda>(i, part). (title, take 240 (title @ (if i = 0 then [] else [32, 183, 32] @ nat_digits (i + 1))), part))
       (enumerate 0 (splitText content))) sections)"

definition make_chunk ::
    "platform \<Rightarrow> int \<Rightarrow> chunk_input \<Rightarrow> nat \<Rightarrow> jsstr \<times> jsstr \<times> jsstr \<Rightarrow> memory_chunk" where
  [js_eval]: "make_chunk pf now i index part =
     (case part of (section, title, content) \<Rightarrow>
        (let hash = sha256 pf content
         in \<lparr>mc_id = sha256 pf (ci_memory i @ [58] @ nat_digits index @ [58] @ hash), mc_memory = ci_memory i,
             mc_index = index, mc_type = chunkType section content, mc_title = title, mc_content = content,
             mc_hash = hash, mc_tokens = length (memoryTokens pf content),
             mc_keywords = extractKeywords pf content 16, mc_service = ci_service i,
             mc_confidence = ci_confidence i, mc_created = now, mc_updated = now\<rparr>))"

text \<open>Parts of the same hash count once, and the loop stops with the 80th chunk.\<close>

definition chunk_limit :: nat where
  [js_eval]: "chunk_limit = 80"

fun add_chunks :: "platform \<Rightarrow> int \<Rightarrow> chunk_input \<Rightarrow> memory_chunk list \<Rightarrow> (jsstr \<times> jsstr \<times> jsstr) list \<Rightarrow> memory_chunk list" where
  "add_chunks pf now i chunks [] = chunks"
| "add_chunks pf now i chunks (part # parts) =
     (if sha256 pf (snd (snd part)) \<in> set (map mc_hash chunks) then add_chunks pf now i chunks parts
      else (let chunks' = chunks @ [make_chunk pf now i (length chunks) part]
            in if chunk_limit \<le> length chunks' then chunks' else add_chunks pf now i chunks' parts))"

definition buildMemoryChunks :: "platform \<Rightarrow> int \<Rightarrow> chunk_input \<Rightarrow> memory_chunk list" where
  [js_eval]: "buildMemoryChunks pf now i = add_chunks pf now i [] (titled_parts (sections_of pf i))"

subsection \<open>Services and trace edges\<close>

definition service_keys :: "jsstr list" where
  [js_eval]: "service_keys = map js [''serviceName'', ''service_name'', ''service.name'', ''service'', ''serviceId'', ''service_id'']"

definition from_service_keys :: "jsstr list" where
  [js_eval]: "from_service_keys = map js [''fromService'', ''from_service'', ''sourceService'', ''source_service'',
     ''parentService'', ''upstream'', ''caller'', ''clientService'']"

definition to_service_keys :: "jsstr list" where
  [js_eval]: "to_service_keys = map js [''toService'', ''to_service'', ''targetService'', ''target_service'',
     ''downstream'', ''callee'', ''peerService'', ''serverService'']"

type_synonym props = "(jsstr \<times> jsval) list"

definition descend :: "jsval \<Rightarrow> jsstr \<Rightarrow> jsval" where
  [js_eval]: "descend v seg = (case v of Obj kvs \<Rightarrow> get_prop kvs seg | _ \<Rightarrow> Undef)"

definition property_at :: "props \<Rightarrow> jsstr \<Rightarrow> jsval" where
  [js_eval]: "property_at rec key =
     (if 46 \<in> set key then foldl descend (Obj rec) (str_split 46 key) else get_prop rec key)"

fun objectString :: "props \<Rightarrow> jsstr list \<Rightarrow> jsstr" where
  "objectString rec [] = []"
| "objectString rec (key # keys) =
     (case property_at rec key of
        Str s \<Rightarrow> if trim s \<noteq> [] then trim s else objectString rec keys
      | _ \<Rightarrow> objectString rec keys)"

text \<open>The objects a walk visits, outermost first; the argument counts the ten levels down.\<close>

fun walk_levels :: "nat \<Rightarrow> jsval \<Rightarrow> props list" where
  "walk_levels 0 v = []"
| "walk_levels (Suc n) v =
     (case v of
        Arr vs \<Rightarrow> concat (map (walk_levels n) (take 1000 vs))
      | Obj kvs \<Rightarrow> kvs # concat (map (walk_levels n) (take 300 (map snd kvs)))
      | _ \<Rightarrow> [])"

definition walkObjects :: "jsval \<Rightarrow> props list" where
  [js_eval]: "walkObjects v = walk_levels 10 v"

definition all_service_keys :: "jsstr list" where
  [js_eval]: "all_service_keys = service_keys @ from_service_keys @ to_service_keys"

definition extractServiceNames :: "jsval \<Rightarrow> jsstr list" where
  [js_eval]: "extractServiceNames v =
     take 100 (uniq (concat (map (\<lambda>rec.
       filter (\<lambda>s. s \<noteq> [] \<and> length s \<le> 160)
         (objectString rec all_service_keys # map (\<lambda>k. objectString rec [k]) all_service_keys)) (walkObjects v))))"

fun numericValue :: "platform \<Rightarrow> props \<Rightarrow> jsstr list \<Rightarrow> rat" where
  "numericValue pf rec [] = 0"
| "numericValue pf rec (key # keys) =
     (case number_of pf (get_prop rec key) of Some q \<Rightarrow> q | None \<Rightarrow> numericValue pf rec keys)"

record trace_edge =
  tg_from :: jsstr
  tg_to :: jsstr
  tg_rate :: rat
  tg_calls :: rat

record span =
  sn_service :: jsstr
  sn_parent :: jsstr
  sn_rate :: rat
  sn_calls :: rat

definition unit_interval :: "rat \<Rightarrow> rat" where
  [js_eval]: "unit_interval q = max 0 (min 1 q)"

definition failing_status :: regex where
  [js_eval]: "failing_status = (alts [lit_ci (js ''error''), lit_ci (js ''fail''), lit_ci (js ''exception''), lit_ci (js
      ''timeout''), cats [lit_ci (js ''5''), Chr (\<lambda>u. 48 \<le> u \<and> u \<le> 57), Chr
      (\<lambda>u. 48 \<le> u \<and> u \<le> 57)]])"

definition rate_keys :: "jsstr list" where
  [js_eval]: "rate_keys = map js [''errorRate'', ''error_rate'', ''errorRatio'', ''error_ratio'']"

definition span_of :: "platform \<Rightarrow> props \<Rightarrow> (jsstr \<times> span) option" where
  [js_eval]: "span_of pf rec =
     (let spanid = objectString rec (map js [''spanId'', ''span_id'', ''id'']);
          service = objectString rec service_keys;
          status = objectString rec (map js [''status'', ''statusCode'', ''status_code'', ''error'']);
          given = numericValue pf rec rate_keys;
          rate = (if given \<noteq> 0 then given else if re_test failing_status status then 1 else 0)
      in if spanid = [] \<or> service = [] then None
         else Some (spanid, \<lparr>sn_service = service,
           sn_parent = objectString rec (map js [''parentSpanId'', ''parent_span_id'', ''parentId'', ''parent_id'']),
           sn_rate = unit_interval rate,
           sn_calls = max 1 (numericValue pf rec (map js [''calls'', ''callCount'', ''count'']))\<rparr>))"

definition spans_of :: "platform \<Rightarrow> props list \<Rightarrow> (jsstr \<times> span) list" where
  [js_eval]: "spans_of pf objects = foldl (\<lambda>m rec. case span_of pf rec of None \<Rightarrow> m | Some (k, s) \<Rightarrow> put_prop m k s) [] objects"

definition add_edge :: "(jsstr \<times> trace_edge) list \<Rightarrow> jsstr \<times> jsstr \<times> rat \<times> rat \<Rightarrow> (jsstr \<times> trace_edge) list" where
  [js_eval]: "add_edge m e =
     (case e of (from, to, rate, calls) \<Rightarrow>
        if from = [] \<or> to = [] \<or> from = to \<or> 160 < length from \<or> 160 < length to then m
        else (let key = from @ [0] @ to
              in case map_of m key of
                None \<Rightarrow> put_prop m key \<lparr>tg_from = from, tg_to = to, tg_rate = unit_interval rate, tg_calls = max 1 calls\<rparr>
              | Some c \<Rightarrow>
                  (let total = tg_calls c + max 1 calls
                   in put_prop m key (c\<lparr>tg_rate := (tg_rate c * tg_calls c + unit_interval rate * calls) / total,
                        tg_calls := total\<rparr>))))"

definition span_edges :: "(jsstr \<times> span) list \<Rightarrow> (jsstr \<times> jsstr \<times> rat \<times> rat) list" where
  [js_eval]: "span_edges sps = concat (map (\<lambda>(k, s). case map_of sps (sn_parent s) of
     None \<Rightarrow> [] | Some p \<Rightarrow> [(sn_service p, sn_service s, sn_rate s, sn_calls s)]) sps)"

definition declared_edges :: "platform \<Rightarrow> props list \<Rightarrow> (jsstr \<times> jsstr \<times> rat \<times> rat) list" where
  [js_eval]: "declared_edges pf objects = concat (map (\<lambda>rec.
     (let from = objectString rec from_service_keys;
          to = objectString rec (to_service_keys @ service_keys);
          errors = numericValue pf rec (map js [''errors'', ''errorCount'', ''error_count'']);
          calls = max 1 (numericValue pf rec (map js [''calls'', ''callCount'', ''call_count'', ''count'']));
          given = numericValue pf rec rate_keys
      in if from = [] \<or> to = [] then []
         else [(from, to, if given \<noteq> 0 then given else errors / calls, calls)])) objects)"

definition extractTraceEdges :: "platform \<Rightarrow> jsval \<Rightarrow> trace_edge list" where
  [js_eval]: "extractTraceEdges pf v =
     (let objects = walkObjects v
      in map snd (foldl add_edge [] (span_edges (spans_of pf objects) @ declared_edges pf objects)))"

subsection \<open>Error signatures and contradictions\<close>

definition signature_pattern :: regex where
  [js_eval]: "signature_pattern = (alts [cats [WordB, opt (cats [lit_ci (js ''http''), Many space]), Chr (\<lambda>u. 49 \<le>
      u \<and> u \<le> 53), Chr (\<lambda>u. 48 \<le> u \<and> u \<le> 57), Chr (\<lambda>u. 48
      \<le> u \<and> u \<le> 57), WordB], cats [WordB, alts [lit_ci (js ''grpc''), lit_ci (js
      ''sqlstate'')], opt (Chr (\<lambda>u. u = 45 \<or> u = 95 \<or> u = 58 \<or> u = 32)), some
      (Chr (\<lambda>u. 97 \<le> u \<and> u \<le> 122 \<or> 65 \<le> u \<and> u \<le> 90 \<or> 48
      \<le> u \<and> u \<le> 57)), WordB], cats [WordB, Chr (\<lambda>u. 97 \<le> u \<and> u \<le>
      122 \<or> 65 \<le> u \<and> u \<le> 90), Many (Chr (\<lambda>u. 97 \<le> u \<and> u \<le>
      122 \<or> 65 \<le> u \<and> u \<le> 90 \<or> 48 \<le> u \<and> u \<le> 57 \<or> u = 95 \<or>
      u = 46 \<or> u = 45)), alts [lit_ci (js ''error''), lit_ci (js ''exception''), lit_ci (js
      ''timeout''), lit_ci (js ''exhausted''), lit_ci (js ''refused''), lit_ci (js
      ''unavailable''), lit_ci (js ''overflow''), lit_ci (js ''deadlock''), cats [lit_ci (js
      ''throttl''), Many (Chr (\<lambda>u. 97 \<le> u \<and> u \<le> 122 \<or> 65 \<le> u \<and> u
      \<le> 90))]], WordB]])"

definition signature_keyword :: regex where
  [js_eval]: "signature_keyword = (alts [lit_ci [38169, 35823], lit_ci [24322, 24120], lit_ci [22833, 36133], lit_ci [36229,
      26102], lit_ci [32791, 23613], lit_ci [25298, 32477], lit_ci [38480, 27969], lit_ci [29076,
      26029], lit_ci (js ''error''), lit_ci (js ''fail''), lit_ci (js ''timeout''), lit_ci (js
      ''exhaust''), lit_ci (js ''refus''), lit_ci (js ''limit''), lit_ci (js ''circuit''), lit_ci
      (js ''latency''), lit_ci (js ''retry'')])"

definition evidence_text :: "platform \<Rightarrow> evidence_row \<Rightarrow> nat \<Rightarrow> jsstr" where
  [js_eval]: "evidence_text pf e n = ev_title e @ [32] @ ev_summary e @ [32] @ take n (json_text pf (ev_content e))"

definition extractErrorSignature :: "platform \<Rightarrow> jsstr \<Rightarrow> evidence_row list \<Rightarrow> jsstr list" where
  [js_eval]: "extractErrorSignature pf query evidence =
     (let text = to_lower (str_join [10] (query # map (\<lambda>e. evidence_text pf e 20000) evidence))
      in take 24 (uniq (map (\<lambda>m. to_lower (re_replace (some space) [] m)) (re_find_all signature_pattern text)
           @ filter (re_test signature_keyword) (extractKeywords pf text 40))))"

definition contradiction_pairs :: "(regex \<times> regex) list" where
  [js_eval]: "contradiction_pairs =
     [((alts [lit_ci [21551, 29992], lit_ci [27491, 24120], lit_ci [25104, 21151], lit_ci [24674,
      22797], lit_ci (js ''healthy''), lit_ci (js ''enabled''), lit_ci (js ''success''), lit_ci
      (js ''resolved'')]),
       (alts [lit_ci [20572, 29992], lit_ci [24322, 24120], lit_ci [22833, 36133], lit_ci [26410,
      24674, 22797], lit_ci (js ''unhealthy''), lit_ci (js ''disabled''), lit_ci (js ''failed''),
      lit_ci (js ''unresolved'')])),
      ((alts [lit_ci [23384, 22312], lit_ci [21253, 21547], lit_ci [24050, 37197, 32622], lit_ci (js
      ''present''), lit_ci (js ''configured'')]),
       (alts [lit_ci [19981, 23384, 22312], lit_ci [32570, 22833], lit_ci [26410, 37197, 32622],
      lit_ci (js ''absent''), lit_ci (js ''missing''), lit_ci (js ''unconfigured'')])),
      ((alts [lit_ci [22686, 21152], lit_ci [21319, 39640], lit_ci [24694, 21270], lit_ci (js
      ''increase''), lit_ci (js ''higher''), lit_ci (js ''degrad'')]),
       (alts [lit_ci [20943, 23569], lit_ci [38477, 20302], lit_ci [25913, 21892], lit_ci (js
      ''decrease''), lit_ci (js ''lower''), lit_ci (js ''improv'')]))]"

definition contradicts :: "jsstr \<Rightarrow> jsstr \<Rightarrow> regex \<times> regex \<Rightarrow> bool" where
  [js_eval]: "contradicts l r pn \<longleftrightarrow> re_test (fst pn) l \<and> re_test (snd pn) r \<or> re_test (snd pn) l \<and> re_test (fst pn) r"

definition contradictionScore :: "jsstr \<Rightarrow> jsstr \<Rightarrow> rat" where
  [js_eval]: "contradictionScore l r = min 1 (of_nat (length (filter (contradicts l r) contradiction_pairs)) / 2)"

subsection \<open>Splitting loses nothing\<close>

definition ink :: "jsstr \<Rightarrow> jsstr" where
  "ink s = filter (\<lambda>u. \<not> is_space u) s"

lemma ink_append [simp]: "ink (a @ b) = ink a @ ink b"
  by (simp add: ink_def)

lemma ink_Nil [simp]: "ink [] = []"
  by (simp add: ink_def)

lemma ink_Cons: "ink (u # s) = (if is_space u then ink s else u # ink s)"
  by (simp add: ink_def)

lemma ink_dropWhile: "(\<And>u. P u \<Longrightarrow> is_space u) \<Longrightarrow> ink (dropWhile P s) = ink s"
  by (induction s) (auto simp: ink_Cons)

lemma is_space_breaks [simp]: "is_space 10" "is_space 13"
  by (simp_all add: is_space_def)

lemma ink_rev: "ink (rev s) = rev (ink s)"
  by (simp add: ink_def rev_filter)

lemma ink_trim [simp]: "ink (trim s) = ink s"
  by (simp add: trim_def trim_left_def ink_rev ink_dropWhile)

lemma ink_crlf: "ink (crlf_to_lf s) = ink s"
  by (induction s rule: crlf_to_lf.induct) (auto simp: ink_Cons)

lemma ink_line_feeds: "ink (dropWhile (\<lambda>x. x = 10) s) = ink s"
  by (rule ink_dropWhile) simp

lemma ink_paragraphs: "ink (concat (paragraphs_of cur s)) = ink cur @ ink s"
  by (induction cur s rule: paragraphs_of.induct) (auto simp: ink_Cons ink_line_feeds)

lemma ink_sentences: "ink (concat (sentences_of cur s)) = ink cur @ ink s"
  by (induction cur s rule: sentences_of.induct) (auto simp: ink_Cons ink_dropWhile)

lemma concat_slices [simp]: "concat (slices n s) = s"
proof (induction n s rule: slices.induct)
  case (1 n s)
  then show ?case by (subst slices.simps) auto
qed

lemma slices_bounds: "list_all (\<lambda>x. x \<noteq> [] \<and> length x \<le> Suc n) (slices n s)"
proof (induction n s rule: slices.induct)
  case (1 n s)
  then show ?case by (subst slices.simps) auto
qed

lemma ink_parts: "ink (concat (paragraph_parts p)) = ink p"
  by (simp add: paragraph_parts_def Let_def ink_sentences)

lemma ink_concat_parts: "ink (concat (concat (map paragraph_parts ps))) = ink (concat ps)"
  by (induction ps) (simp_all add: ink_parts)

lemma ink_pack: "ink (concat (pack buffer ps)) = ink buffer @ ink (concat ps)"
  by (induction buffer ps rule: pack.induct) (auto simp: Let_def ink_Cons)

lemma pack_bounds:
  "length buffer \<le> max_chunk \<Longrightarrow> list_all (\<lambda>x. x \<noteq> [] \<and> length x \<le> max_chunk) (pack buffer ps)"
proof (induction buffer ps rule: pack.induct)
  case (2 buffer p ps)
  have "list_all (\<lambda>x. x \<noteq> [] \<and> length x \<le> max_chunk) (slices (max_chunk - 1) p)"
    using slices_bounds [of "max_chunk - 1" p] by (simp add: max_chunk_def)
  with 2 show ?case by (auto simp: Let_def max_chunk_def)
qed simp

lemma splitText_pieces:
  "list_all (\<lambda>x. x \<noteq> [] \<and> length x \<le> 1800) (splitText v)"
  using pack_bounds [of "[]"] by (simp add: splitText_def Let_def max_chunk_def)

text \<open>
  Splitting a text for retrieval loses nothing but white space: the pieces hold, in order,
  every other unit of the text, none is empty and none is longer than 1800 units.
\<close>

theorem splitText_keeps_text:
  "ink (concat (splitText v)) = ink v \<and> list_all (\<lambda>x. x \<noteq> [] \<and> length x \<le> 1800) (splitText v)"
proof -
  have "ink (trim (crlf_to_lf v)) = ink v" by (simp add: ink_crlf)
  moreover have "trim (crlf_to_lf v) = [] \<Longrightarrow> ink (trim (crlf_to_lf v)) = []" by simp
  ultimately show ?thesis
    using splitText_pieces [of v] ink_paragraphs [of "[]" "trim (crlf_to_lf v)"]
    by (auto simp: splitText_def Let_def ink_pack ink_concat_parts max_chunk_def)
qed

subsection \<open>Chunks\<close>

definition good_chunks :: "chunk_input \<Rightarrow> memory_chunk list \<Rightarrow> bool" where
  "good_chunks i cs \<longleftrightarrow> map mc_index cs = [0..<length cs] \<and> distinct (map mc_hash cs) \<and> length cs \<le> chunk_limit
     \<and> list_all (\<lambda>c. mc_memory c = ci_memory i \<and> mc_content c \<noteq> [] \<and> length (mc_content c) \<le> 1800
         \<and> length (mc_title c) \<le> 240 \<and> length (mc_keywords c) \<le> 16) cs"

definition good_part :: "jsstr \<times> jsstr \<times> jsstr \<Rightarrow> bool" where
  "good_part p \<longleftrightarrow> length (fst (snd p)) \<le> 240 \<and> snd (snd p) \<noteq> [] \<and> length (snd (snd p)) \<le> 1800"

lemma good_add_chunk:
  assumes "good_chunks i cs" "length cs < chunk_limit" "good_part part"
    "sha256 pf (snd (snd part)) \<notin> set (map mc_hash cs)"
  shows "good_chunks i (cs @ [make_chunk pf now i (length cs) part])"
  using assms by (cases part) (auto simp: good_chunks_def good_part_def make_chunk_def Let_def extractKeywords_def)

lemma good_add_chunks:
  "good_chunks i cs \<Longrightarrow> length cs < chunk_limit \<Longrightarrow> list_all good_part parts \<Longrightarrow>
     good_chunks i (add_chunks pf now i cs parts)"
proof (induction parts arbitrary: cs)
  case (Cons part parts)
  show ?case
  proof (cases "sha256 pf (snd (snd part)) \<in> set (map mc_hash cs)")
    case False
    then have "good_chunks i (cs @ [make_chunk pf now i (length cs) part])"
      using good_add_chunk Cons.prems by simp
    then show ?thesis using False Cons.IH Cons.prems by (simp add: Let_def)
  qed (use Cons in simp)
qed simp

lemma good_parts: "list_all good_part (titled_parts sections)"
proof -
  have "p \<in> set (splitText c) \<Longrightarrow> p \<noteq> [] \<and> length p \<le> 1800" for p c
    using splitText_pieces [of c] by (auto simp: list_all_iff)
  then show ?thesis
    by (auto simp: titled_parts_def good_part_def list_all_iff enumerate_eq_zip dest: set_zip_rightD)
qed

text \<open>
  The chunks of a memory: at most 80, numbered from 0 without gaps, no two of the same content
  hash, each of 1 to 1800 units with a title of at most 240 and at most 16 keywords.
\<close>

theorem chunks_are_bounded: "good_chunks i (buildMemoryChunks pf now i)"
  unfolding buildMemoryChunks_def
  by (rule good_add_chunks) (simp_all add: good_chunks_def chunk_limit_def good_parts)

subsection \<open>The hashed vectors have no cancellation\<close>

definition parity_signed :: "int list \<Rightarrow> bool" where
  "parity_signed v \<longleftrightarrow> length v = 256 \<and> (\<forall>i < 256. (even i \<longrightarrow> 0 \<le> v ! i) \<and> (odd i \<longrightarrow> v ! i \<le> 0))"

lemma parity_add_feature: "parity_signed v \<Longrightarrow> parity_signed (add_feature v f)"
proof -
  assume v: "parity_signed v"
  let ?i = "hashToken f mod 256"
  have p: "even ?i \<longleftrightarrow> hashToken f mod 2 = 0"
    by (simp add: even_iff_mod_2_eq_zero mod_mod_cancel)
  have i: "(even ?i \<longrightarrow> 0 \<le> v ! ?i) \<and> (odd ?i \<longrightarrow> v ! ?i \<le> 0)"
    using v by (simp add: parity_signed_def)
  show ?thesis
  proof (cases "even ?i")
    case True
    then have "add_feature v f = v[?i := v ! ?i + 1]" using p by (simp add: add_feature_def Let_def)
    then show ?thesis using v i True by (auto simp: parity_signed_def nth_list_update)
  next
    case False
    then have "add_feature v f = v[?i := v ! ?i - 1]" using p by (simp add: add_feature_def Let_def)
    moreover have "v ! ?i - 1 \<le> 0" using i False by linarith
    ultimately show ?thesis using v False by (simp add: parity_signed_def nth_list_update)
  qed
qed

lemma parity_foldl: "parity_signed v \<Longrightarrow> parity_signed (foldl add_feature v fs)"
  by (induction fs arbitrary: v) (simp_all add: parity_add_feature)

lemma parity_hashedVector: "parity_signed (hashedVector pf s)"
  unfolding hashedVector_def Let_def
  by (rule parity_foldl) (simp add: parity_signed_def)

text \<open>
  The sign a feature adds is the parity of the bucket it falls into, as both are the low bits
  of one hash: every even bucket is at least zero and every odd one at most zero, whatever the text.
  Collisions therefore never cancel, and the dot product of two texts is never negative.
\<close>

theorem hashed_signs_are_parities:
  "parity_signed (hashedVector pf a) \<and> 0 \<le> dot_product (hashedVector pf a) (hashedVector pf b)"
proof -
  let ?a = "hashedVector pf a" and ?b = "hashedVector pf b"
  have a: "parity_signed ?a" and b: "parity_signed ?b" by (rule parity_hashedVector)+
  have "0 \<le> x * y" if m: "(x, y) \<in> set (zip ?a ?b)" for x y
  proof -
    obtain i where "i < 256" "x = ?a ! i" "y = ?b ! i"
      using m a unfolding in_set_zip parity_signed_def by (metis fst_conv snd_conv)
    with a b show ?thesis by (cases "even i") (auto simp: parity_signed_def intro: mult_nonpos_nonpos)
  qed
  then have "0 \<le> dot_product ?a ?b"
    unfolding dot_product_def by (intro sum_list_nonneg) auto
  with a show ?thesis by simp
qed

text \<open>
  A text contradicts itself: the negative words contain the positive ones, so two memories that
  both say \<open>unresolved\<close> reach the score from which a conflict is recorded.
\<close>

theorem contradiction_of_agreement:
  "contradictionScore (js ''payment outage unresolved'') (js ''payment outage unresolved'') = 1 / 2"
  by code_simp

subsection \<open>Trace edges\<close>

definition good_edge :: "trace_edge \<Rightarrow> bool" where
  "good_edge e \<longleftrightarrow> tg_from e \<noteq> [] \<and> tg_to e \<noteq> [] \<and> tg_from e \<noteq> tg_to e
     \<and> length (tg_from e) \<le> 160 \<and> length (tg_to e) \<le> 160 \<and> 0 \<le> tg_rate e \<and> tg_rate e \<le> 1 \<and> 1 \<le> tg_calls e"

lemma unit_interval_bounds: "0 \<le> unit_interval q \<and> unit_interval q \<le> 1"
  by (simp add: unit_interval_def)

lemma weighted_rate:
  fixes r c u k :: rat
  assumes "0 \<le> r" "r \<le> 1" "1 \<le> c" "0 \<le> u" "u \<le> 1" "1 \<le> k"
  shows "0 \<le> (r * c + u * k) / (c + k) \<and> (r * c + u * k) / (c + k) \<le> 1"
proof -
  have "r * c \<le> 1 * c" "u * k \<le> 1 * k" using assms by (intro mult_right_mono; linarith)+
  then have "r * c + u * k \<le> c + k" by simp
  moreover have "0 \<le> r * c" "0 \<le> u * k" using assms by simp_all
  ultimately show ?thesis using assms by (simp add: divide_le_eq_1)
qed

definition good_edges :: "(jsstr \<times> trace_edge) list \<Rightarrow> bool" where
  "good_edges m \<longleftrightarrow> distinct (map fst m)
     \<and> (\<forall>k e. map_of m k = Some e \<longrightarrow> good_edge e \<and> k = tg_from e @ [0] @ tg_to e)"

lemma good_add_edge:
  assumes "good_edges m" "1 \<le> calls"
  shows "good_edges (add_edge m (from, to, rate, calls))"
proof -
  let ?k = "from @ [0] @ to"
  show ?thesis
  proof (cases "from = [] \<or> to = [] \<or> from = to \<or> 160 < length from \<or> 160 < length to")
    case True
    then show ?thesis using assms(1) by (auto simp: add_edge_def)
  next
    case False
    show ?thesis
    proof (cases "map_of m ?k")
      case None
      then show ?thesis using assms False unit_interval_bounds [of rate]
        by (auto simp: add_edge_def Let_def good_edges_def good_edge_def)
    next
      case (Some c)
      then have c: "good_edge c" "?k = tg_from c @ [0] @ tg_to c"
        using assms(1) by (auto simp: good_edges_def)
      then have "good_edge (c\<lparr>tg_rate := (tg_rate c * tg_calls c + unit_interval rate * calls) / (tg_calls c + max 1 calls),
          tg_calls := tg_calls c + max 1 calls\<rparr>)"
        using weighted_rate [of "tg_rate c" "tg_calls c" "unit_interval rate" calls] assms(2)
          unit_interval_bounds [of rate]
        by (auto simp: good_edge_def max_def)
      then show ?thesis using Some False assms(1) c(2)
        by (auto simp: add_edge_def Let_def good_edges_def)
    qed
  qed
qed

lemma good_fold_edges:
  "good_edges m \<Longrightarrow> list_all (\<lambda>(f, t, r, c). 1 \<le> c) es \<Longrightarrow> good_edges (foldl add_edge m es)"
  by (induction es arbitrary: m) (auto simp: good_add_edge)

lemma span_calls: "span_of pf rec = Some (k, s) \<Longrightarrow> 1 \<le> sn_calls s"
  by (auto simp: span_of_def Let_def split: if_splits)

lemma spans_calls: "list_all (\<lambda>(k, s). 1 \<le> sn_calls s) (spans_of pf objects)"
proof -
  have put: "list_all (\<lambda>(k, s). 1 \<le> sn_calls s) (put_prop m k s)"
    if "list_all (\<lambda>(k, s). 1 \<le> sn_calls s) m" "1 \<le> sn_calls s" for m k s
    using that by (induction m) auto
  have "list_all (\<lambda>(k, s). 1 \<le> sn_calls s)
      (foldl (\<lambda>m rec. case span_of pf rec of None \<Rightarrow> m | Some (k, s) \<Rightarrow> put_prop m k s) m objects)"
    if "list_all (\<lambda>(k, s). 1 \<le> sn_calls s) m" for m
    using that by (induction objects arbitrary: m) (auto split: option.splits dest: span_calls intro!: put)
  then show ?thesis by (simp add: spans_of_def)
qed

lemma edge_calls:
  "list_all (\<lambda>(f, t, r, c). 1 \<le> c) (span_edges (spans_of pf objects) @ declared_edges pf objects)"
  using spans_calls [of pf objects]
  by (auto simp: span_edges_def declared_edges_def list_all_iff Let_def split: option.splits if_splits)

lemma extracted_map:
  "\<exists>m. good_edges m \<and> extractTraceEdges pf v = map snd m"
proof -
  have "good_edges (foldl add_edge [] (span_edges (spans_of pf (walkObjects v)) @ declared_edges pf (walkObjects v)))"
    by (rule good_fold_edges [OF _ edge_calls]) (simp add: good_edges_def)
  then show ?thesis unfolding extractTraceEdges_def Let_def by blast
qed

lemma extracted_good: "list_all good_edge (extractTraceEdges pf v)"
proof -
  obtain m where m: "good_edges m" "extractTraceEdges pf v = map snd m" using extracted_map by blast
  then have "good_edge e" if "(k, e) \<in> set m" for k e
    using that unfolding good_edges_def by (metis map_of_eq_Some_iff)
  then show ?thesis unfolding m(2) list_all_iff by (metis (no_types, lifting) imageE list.set_map prod.collapse)
qed

text \<open>
  The edges read from traces are sound: each leads from one service to another with names of 1
  to 160 units, its error rate stays between 0 and 1 however often it is merged, it has at least one
  call, and no two edges join the same services.
\<close>

theorem trace_edges_are_sound:
  "list_all good_edge (extractTraceEdges pf v)
   \<and> distinct (map (\<lambda>e. tg_from e @ [0] @ tg_to e) (extractTraceEdges pf v))"
proof -
  obtain m where m: "good_edges m" "extractTraceEdges pf v = map snd m" using extracted_map by blast
  then have "k = tg_from e @ [0] @ tg_to e" if "(k, e) \<in> set m" for k e
    using that unfolding good_edges_def by (metis map_of_eq_Some_iff)
  then have "map (\<lambda>e. tg_from e @ [0] @ tg_to e) (map snd m) = map fst m"
    unfolding map_map comp_def by (intro map_cong refl) (metis prod.collapse)
  then have "distinct (map (\<lambda>e. tg_from e @ [0] @ tg_to e) (map snd m))"
    using m(1) unfolding good_edges_def by (simp only:)
  then show ?thesis using extracted_good [of pf v] unfolding m(2) by blast
qed

end
