(* ===== verification/Memory_Store.thy ===== *)
theory Memory_Store
  imports Memory_Text
begin

section \<open>The memory store (\<open>memory/index.ts\<close>)\<close>

text \<open>
  Reading, writing, updating and forgetting memories. Every operation takes the database and returns
  it; reading writes too, because reading a memory that has no chunks yet creates them. Fresh
  identifiers come from a supply \<open>fresh\<close>, the clock is read once per operation.
\<close>

subsection \<open>Reading\<close>

record memory_context =
  mx_thread :: jsstr
  mx_workflow :: jsstr
  mx_trace :: jsstr
  mx_evidence :: "evidence_row list"

definition no_context :: memory_context where
  [js_eval]: "no_context = \<lparr>mx_thread = [], mx_workflow = [], mx_trace = [], mx_evidence = []\<rparr>"

text \<open>A memory with what the other tables say of it.\<close>

record memory_item =
  mi_row :: memory_row
  mi_sources :: "memory_source list"
  mi_relations :: "memory_relation list"
  mi_actions :: "memory_action list"
  mi_chunks :: "memory_chunk list"

definition chunk_input_of :: "memory_row \<Rightarrow> chunk_input" where
  [js_eval]: "chunk_input_of m = \<lparr>ci_memory = me_id m, ci_title = me_title m, ci_summary = me_summary m,
     ci_content = me_content m, ci_service = me_service m, ci_confidence = me_confidence m\<rparr>"

definition persistMemoryChunks :: "platform \<Rightarrow> int \<Rightarrow> chunk_input \<Rightarrow> agent_db \<Rightarrow> memory_chunk list \<times> agent_db" where
  [js_eval]: "persistMemoryChunks pf now i s =
     (let chunks = buildMemoryChunks pf now i
      in (chunks, s\<lparr>memory_chunks := delete_where (\<lambda>c. mc_memory c = ci_memory i) (memory_chunks s) @ chunks\<rparr>))"

text \<open>The chunks of the items that have none, in the order of the items.\<close>

fun persist_missing :: "platform \<Rightarrow> int \<Rightarrow> memory_row list \<Rightarrow> agent_db \<Rightarrow> memory_chunk list \<times> agent_db" where
  "persist_missing pf now [] s = ([], s)"
| "persist_missing pf now (m # ms) s =
     (let (chunks, s) = persistMemoryChunks pf now (chunk_input_of m) s;
          (more, s) = persist_missing pf now ms s
      in (chunks @ more, s))"

definition hydrateMemories :: "platform \<Rightarrow> int \<Rightarrow> memory_row list \<Rightarrow> agent_db \<Rightarrow> memory_item list \<times> agent_db" where
  [js_eval]: "hydrateMemories pf now items s =
     (let ids = map me_id items;
          sources = sort_by (\<lambda>a b. ms_created a \<le> ms_created b) (filter (\<lambda>r. ms_memory r \<in> set ids) (memory_sources s));
          relations = sort_by (\<lambda>a b. mr_created a \<le> mr_created b)
            (filter (\<lambda>r. mr_from r \<in> set ids \<or> mr_to r \<in> set ids) (memory_relations s));
          actions = sort_by (\<lambda>a b. ma_created a \<le> ma_created b) (filter (\<lambda>r. ma_memory r \<in> set ids) (memory_actions s));
          initial = sort_by (\<lambda>a b. mc_index a \<le> mc_index b) (filter (\<lambda>c. mc_memory c \<in> set ids) (memory_chunks s));
          missing = filter (\<lambda>m. me_status m \<noteq> MemForgotten \<and> me_id m \<notin> set (map mc_memory initial)) items;
          (added, s) = persist_missing pf now missing s;
          chunks = initial @ added
      in (map (\<lambda>m. \<lparr>mi_row = m,
             mi_sources = filter (\<lambda>r. ms_memory r = me_id m) sources,
             mi_relations = filter (\<lambda>r. mr_from r \<in> set ids \<and> mr_to r \<in> set ids
               \<and> (mr_from r = me_id m \<or> mr_to r = me_id m)) relations,
             mi_actions = filter (\<lambda>r. ma_memory r = me_id m) actions,
             mi_chunks = filter (\<lambda>c. mc_memory c = me_id m) chunks\<rparr>) items, s))"

definition isVisible :: "memory_row \<Rightarrow> auth_user \<Rightarrow> memory_context \<Rightarrow> bool" where
  [js_eval]: "isVisible m u x =
     (if me_org m \<noteq> user_org u then False
      else case me_scope m of
        ScopeOrganization \<Rightarrow> True
      | ScopeThread \<Rightarrow> mx_thread x \<noteq> [] \<and> me_thread m = mx_thread x
      | ScopeWorkflow \<Rightarrow> mx_workflow x \<noteq> [] \<and> me_workflow m = mx_workflow x \<or> me_user m = user_id u
      | _ \<Rightarrow> me_user m = user_id u)"

definition getMemory ::
    "platform \<Rightarrow> int \<Rightarrow> jsstr \<Rightarrow> auth_user \<Rightarrow> memory_context \<Rightarrow> agent_db \<Rightarrow> memory_item option \<times> agent_db" where
  [js_eval]: "getMemory pf now i u x s =
     (case head_option (filter (\<lambda>m. me_id m = i \<and> me_org m = user_org u) (memory_items s)) of
        None \<Rightarrow> (None, s)
      | Some m \<Rightarrow>
          if \<not> isVisible m u x \<and> user_role u \<noteq> Admin then (None, s)
          else (let (items, s) = hydrateMemories pf now [m] s in (head_option items, s)))"

definition textForMemory :: "platform \<Rightarrow> memory_row \<Rightarrow> jsstr" where
  [js_eval]: "textForMemory pf m =
     me_title m @ [32] @ me_summary m @ [32] @ me_service m @ [32] @ str_join [32] (me_tags m) @ [32] @
     str_join [32] (me_keywords m) @ [32] @ take 30000 (json_text pf (me_content m))"

record memory_query =
  mq_context :: memory_context
  mq_query :: jsstr
  mq_type :: "memory_type option"
  mq_scope :: "memory_scope option"
  mq_status :: "memory_status option"
  mq_service :: jsstr
  mq_inactive :: bool
  mq_limit :: int

definition plain_query :: memory_query where
  [js_eval]: "plain_query = \<lparr>mq_context = no_context, mq_query = [], mq_type = None, mq_scope = None, mq_status = None,
     mq_service = [], mq_inactive = False, mq_limit = 0\<rparr>"

text \<open>\<open>ORDER BY pinned DESC, vitality DESC, updated_at DESC\<close>.\<close>

definition memory_before :: "memory_row \<Rightarrow> memory_row \<Rightarrow> bool" where
  [js_eval]: "memory_before a b \<longleftrightarrow>
     (if me_pinned a \<noteq> me_pinned b then me_pinned a
      else if me_vitality a \<noteq> me_vitality b then me_vitality b < me_vitality a
      else me_updated b \<le> me_updated a)"

definition list_limit :: "int \<Rightarrow> nat" where
  [js_eval]: "list_limit limit = nat (max 1 (min (if limit = 0 then 200 else limit) 500))"

definition select_memories :: "memory_query \<Rightarrow> auth_user \<Rightarrow> agent_db \<Rightarrow> memory_row list" where
  [js_eval]: "select_memories q u s =
     take (list_limit (mq_limit q)) (sort_by memory_before (filter (\<lambda>m.
         me_org m = user_org u
         \<and> (case mq_type q of None \<Rightarrow> True | Some t \<Rightarrow> me_type m = t)
         \<and> (case mq_scope q of None \<Rightarrow> True | Some c \<Rightarrow> me_scope m = c)
         \<and> (case mq_status q of Some st \<Rightarrow> me_status m = st
            | None \<Rightarrow> mq_inactive q \<or> me_status m = MemActive \<or> me_status m = MemVerified)
         \<and> (mq_service q = [] \<or> me_service m = mq_service q)) (memory_items s)))"

definition visible_memories :: "platform \<Rightarrow> memory_query \<Rightarrow> auth_user \<Rightarrow> agent_db \<Rightarrow> memory_row list" where
  [js_eval]: "visible_memories pf q u s =
     (let wanted = to_lower (trim (mq_query q));
          visible = filter (\<lambda>m. isVisible m u (mq_context q)) (select_memories q u s)
      in if wanted = [] then visible
         else filter (\<lambda>m. str_includes (to_lower (textForMemory pf m)) wanted) visible)"

definition listMemories ::
    "platform \<Rightarrow> int \<Rightarrow> memory_query \<Rightarrow> auth_user \<Rightarrow> agent_db \<Rightarrow> memory_item list \<times> agent_db" where
  [js_eval]: "listMemories pf now q u s = hydrateMemories pf now (visible_memories pf q u s) s"

subsection \<open>Sources, actions and relations\<close>

record source_input =
  so_type :: memory_source_type
  so_source :: jsstr
  so_trace :: jsstr
  so_relation :: jsstr
  so_weight :: "int option"

definition source_conflict :: "memory_source \<Rightarrow> memory_source \<Rightarrow> bool" where
  [js_eval]: "source_conflict a b \<longleftrightarrow> ms_memory a = ms_memory b \<and> ms_type a = ms_type b \<and> ms_source a = ms_source b
     \<and> ms_relation a = ms_relation b"

definition source_row :: "jsstr \<Rightarrow> int \<Rightarrow> source_input \<Rightarrow> memory_source" where
  [js_eval]: "source_row m now i = \<lparr>ms_memory = m, ms_type = so_type i, ms_source = so_source i, ms_trace = so_trace i,
     ms_relation = or_default (so_relation i) (js ''derived_from''),
     ms_weight = clampScore (case so_weight i of None \<Rightarrow> 100 | Some w \<Rightarrow> of_int w), ms_created = now\<rparr>"

definition addMemorySources :: "jsstr \<Rightarrow> int \<Rightarrow> source_input list \<Rightarrow> agent_db \<Rightarrow> agent_db" where
  [js_eval]: "addMemorySources m now sources s =
     s\<lparr>memory_sources := foldl (\<lambda>rows i. insert_or_ignore source_conflict (source_row m now i) rows)
        (memory_sources s) sources\<rparr>"

definition addMemoryAction ::
    "auth_user \<Rightarrow> int \<Rightarrow> jsstr \<Rightarrow> jsstr \<Rightarrow> memory_status \<Rightarrow> memory_status \<Rightarrow> jsstr \<Rightarrow> agent_db \<Rightarrow> agent_db" where
  [js_eval]: "addMemoryAction u now m action previous nxt detail s =
     s\<lparr>memory_actions := memory_actions s @ [\<lparr>ma_memory = m, ma_org = user_org u, ma_user = user_id u,
        ma_action = action, ma_previous = previous, ma_next = nxt, ma_detail = detail, ma_created = now\<rparr>]\<rparr>"

definition relation_conflict :: "memory_relation \<Rightarrow> memory_relation \<Rightarrow> bool" where
  [js_eval]: "relation_conflict a b \<longleftrightarrow> mr_id a = mr_id b \<or> mr_from a = mr_from b \<and> mr_to a = mr_to b \<and> mr_type a = mr_type b"

definition relation_between :: "platform \<Rightarrow> memory_row \<Rightarrow> memory_row \<Rightarrow> (memory_relation_type \<times> int \<times> jsstr) option" where
  [js_eval]: "relation_between pf m other =
     (let similarity = memory_similarity pf (textForMemory pf m) (textForMemory pf other);
          contradiction = contradictionScore (textForMemory pf m) (textForMemory pf other)
      in if me_hash m = me_hash other \<or> 86 / 100 \<le> similarity then
           Some (MrDuplicates, clampScore (max similarity (9 / 10) * 100), [20004, 39033, 35760, 24518, 21253, 21547, 36817, 20284, 30456, 21516, 30340, 21487, 22797,
      29992, 32463, 39564, 12290])
         else if 1 / 2 \<le> contradiction \<and> 12 / 100 \<le> similarity then
           Some (MrConflicts, clampScore ((contradiction * (7 / 10) + similarity * (3 / 10)) * 100),
             [20004, 39033, 35760, 24518, 23545, 21516, 19968, 29366, 24577, 32473, 20986, 30456, 21453,
      25551, 36848, 65292, 38656, 35201, 37325, 26032, 39564, 35777, 12290])
         else if me_service m \<noteq> [] \<and> me_service m = me_service other \<and> 34 / 100 \<le> similarity then
           Some (MrSupports, clampScore (similarity * 100), [21516, 19968, 26381, 21153, 30340, 29420, 31435, 35760, 24518, 21253, 21547, 30456, 20114,
      25903, 25345, 30340, 29366, 24577, 25110, 22788, 32622, 32463, 39564, 12290])
         else if me_service m \<noteq> [] \<and> me_service m = me_service other then
           Some (MrSameService, 100, [20004, 39033, 35760, 24518, 24402, 23646, 20110, 21516, 19968, 36816, 34892, 26381, 21153,
      12290])
         else None)"

definition related_rows :: "memory_row \<Rightarrow> agent_db \<Rightarrow> memory_row list" where
  [js_eval]: "related_rows m s = take 300 (sort_by (\<lambda>a b. me_updated b \<le> me_updated a)
     (filter (\<lambda>r. me_org r = me_org m \<and> me_id r \<noteq> me_id m \<and> me_status r \<noteq> MemForgotten) (memory_items s)))"

definition createMemoryRelations :: "platform \<Rightarrow> (nat \<Rightarrow> jsstr) \<Rightarrow> int \<Rightarrow> memory_row \<Rightarrow> agent_db \<Rightarrow> agent_db" where
  [js_eval]: "createMemoryRelations pf fresh now m s =
     s\<lparr>memory_relations := foldl (\<lambda>rows (k, other). case relation_between pf m other of
           None \<Rightarrow> rows
         | Some (ty, score, why) \<Rightarrow> insert_or_ignore relation_conflict
             \<lparr>mr_id = fresh k, mr_org = me_org m, mr_from = me_id m, mr_to = me_id other, mr_type = ty, mr_score = score,
              mr_rationale = why, mr_created = now\<rparr> rows)
       (memory_relations s) (enumerate 0 (related_rows m s))\<rparr>"

subsection \<open>Writing\<close>

record memory_input =
  mn_type :: memory_type
  mn_scope :: memory_scope
  mn_title :: jsstr
  mn_summary :: jsstr
  mn_content :: jsval
  mn_thread :: jsstr
  mn_workflow :: jsstr
  mn_service :: jsstr
  mn_tags :: "jsstr list"
  mn_confidence :: "int option"
  mn_importance :: "int option"
  mn_status :: "memory_status option"
  mn_pinned :: bool
  mn_note :: jsstr
  mn_expires :: int
  mn_sources :: "source_input list"

datatype memory_error = OrganizationNeedsAdmin | ThreadMissing | WorkflowMissing | NullMemory

definition memory_agent_id :: jsstr where
  [js_eval]: "memory_agent_id = js ''scry-operator''"

text \<open>What \<open>createMemory\<close> derives from its input before it touches the database.\<close>

record derived_memory =
  dm_title :: jsstr
  dm_summary :: jsstr
  dm_content :: serialized
  dm_hash :: jsstr
  dm_scan :: injection_result
  dm_status :: memory_status
  dm_confidence :: int
  dm_importance :: int

definition derive_memory :: "platform \<Rightarrow> memory_input \<Rightarrow> derived_memory" where
  [js_eval]: "derive_memory pf i =
     (let serialized = memory_content pf (mn_content i);
          title = take 240 (trim (redactString (mn_title i)));
          summary = take 4000 (trim (redactString (mn_summary i)));
          injection = detectPromptInjection pf (title @ [10] @ summary @ [10] @ sr_json serialized)
      in \<lparr>dm_title = title, dm_summary = summary, dm_content = serialized, dm_hash = sha256 pf (sr_json serialized),
          dm_scan = injection,
          dm_status = (if in_detected injection then MemSuspended
                       else case mn_status i of None \<Rightarrow> MemActive | Some st \<Rightarrow> st),
          dm_confidence = (if in_detected injection then min 35 (case mn_confidence i of None \<Rightarrow> 70 | Some c \<Rightarrow> c)
                           else clampScore (case mn_confidence i of None \<Rightarrow> 72 | Some c \<Rightarrow> of_int c)),
          dm_importance = clampScore (case mn_importance i of None \<Rightarrow> 60 | Some c \<Rightarrow> of_int c)\<rparr>)"

definition new_memory_row :: "platform \<Rightarrow> jsstr \<Rightarrow> int \<Rightarrow> auth_user \<Rightarrow> memory_input \<Rightarrow> memory_row" where
  [js_eval]: "new_memory_row pf i now u n =
     (let d = derive_memory pf n;
          service = take 160 (if mn_service n \<noteq> [] then mn_service n
                              else case extractServiceNames (sr_content (dm_content d)) of [] \<Rightarrow> [] | w # _ \<Rightarrow> w)
      in \<lparr>me_id = i, me_org = user_org u, me_user = user_id u, me_thread = mn_thread n, me_workflow = mn_workflow n,
          me_agent = memory_agent_id, me_type = mn_type n, me_scope = mn_scope n, me_service = service,
          me_title = dm_title d, me_summary = dm_summary d, me_content = sr_stored (dm_content d), me_hash = dm_hash d,
          me_tags = take 40 (uniq (filter (\<lambda>t. t \<noteq> []) (map trim (mn_tags n)))),
          me_keywords = extractKeywords pf (dm_title d @ [32] @ dm_summary d @ [32] @ service @ [32] @
            json_text pf (sr_content (dm_content d))) 24,
          me_confidence = dm_confidence d, me_importance = dm_importance d,
          me_vitality = clampScore (of_int (dm_confidence d) * (45 / 100) + of_int (dm_importance d) * (45 / 100) + 10),
          me_access = 0, me_reinforced = 0, me_status = dm_status d, me_pinned = mn_pinned n,
          me_note = take 4000 (redactString (mn_note n)), me_created = now, me_last_access = now,
          me_last_reinforced = now, me_expires = mn_expires n, me_updated = now\<rparr>)"

definition reinforce_row :: "int \<Rightarrow> derived_memory \<Rightarrow> memory_row \<Rightarrow> memory_row" where
  [js_eval]: "reinforce_row now d m =
     m\<lparr>me_reinforced := me_reinforced m + 1,
       me_vitality := clampScore (max (of_int (me_vitality m)) (of_int (dm_confidence d + dm_importance d) / 2) + 4),
       me_confidence := max (me_confidence m) (dm_confidence d), me_importance := max (me_importance m) (dm_importance d),
       me_last_reinforced := now, me_updated := now\<rparr>"

definition reinforced_text :: jsstr where
  [js_eval]: "reinforced_text = [30456, 21516, 20869, 23481, 20877, 27425, 20986, 29616, 65292, 24050, 24378, 21270, 29616,
      26377, 35760, 24518, 12290]"

definition created_text :: jsstr where
  [js_eval]: "created_text = [21019, 24314, 35760, 24518, 12290]"

definition injection_text :: "injection_result \<Rightarrow> jsstr" where
  [js_eval]: "injection_text r = [26816, 27979, 21040, 35760, 24518, 27880, 20837, 39118, 38505, 65306] @ str_join [65307] (map ir_description (in_findings r))"

definition same_content :: "auth_user \<Rightarrow> jsstr \<Rightarrow> agent_db \<Rightarrow> memory_row option" where
  [js_eval]: "same_content u hash s = head_option (sort_by (\<lambda>a b. me_updated b \<le> me_updated a)
     (filter (\<lambda>m. me_org m = user_org u \<and> me_hash m = hash \<and> me_status m \<noteq> MemForgotten) (memory_items s)))"

fun memory_type_text :: "memory_type \<Rightarrow> jsstr" where
  "memory_type_text Working = js ''working''"
| "memory_type_text Episodic = js ''episodic''"
| "memory_type_text Semantic = js ''semantic''"
| "memory_type_text Procedural = js ''procedural''"

fun memory_scope_text :: "memory_scope \<Rightarrow> jsstr" where
  "memory_scope_text ScopeOrganization = js ''organization''"
| "memory_scope_text ScopeUser = js ''user''"
| "memory_scope_text ScopeAgent = js ''agent''"
| "memory_scope_text ScopeThread = js ''thread''"
| "memory_scope_text ScopeWorkflow = js ''workflow''"

fun memory_status_text :: "memory_status \<Rightarrow> jsstr" where
  "memory_status_text MemActive = js ''active''"
| "memory_status_text MemVerified = js ''verified''"
| "memory_status_text MemSuspended = js ''suspended''"
| "memory_status_text MemArchived = js ''archived''"
| "memory_status_text MemForgotten = js ''forgotten''"

definition memory_event ::
    "auth_user \<Rightarrow> int \<Rightarrow> jsstr \<Rightarrow> jsstr \<Rightarrow> string \<Rightarrow> security_decision \<Rightarrow> int \<Rightarrow> jsval \<Rightarrow> security_event" where
  [js_eval]: "memory_event u now trace target ty decision risk details =
     \<lparr>se_trace = trace, se_org = user_org u, se_user = user_id u, se_type = js ty, se_source = AuMemory,
      se_target = target, se_decision = Some decision, se_risk = risk, se_hash = [], se_details = details, se_at = now\<rparr>"

definition context_of_input :: "memory_input \<Rightarrow> memory_context" where
  [js_eval]: "context_of_input n = no_context\<lparr>mx_thread := mn_thread n, mx_workflow := mn_workflow n\<rparr>"

text \<open>The content is already known: the existing memory is reinforced, whoever owns it.\<close>

definition reinforce_memory ::
    "platform \<Rightarrow> int \<Rightarrow> auth_user \<Rightarrow> memory_input \<Rightarrow> memory_row \<Rightarrow> agent_db \<Rightarrow> memory_item option \<times> agent_db" where
  [js_eval]: "reinforce_memory pf now u n existing s =
     (let s = s\<lparr>memory_items := update_where (\<lambda>m. me_id m = me_id existing) (reinforce_row now (derive_memory pf n))
                  (memory_items s)\<rparr>;
          s = addMemorySources (me_id existing) now (mn_sources n) s;
          s = addMemoryAction u now (me_id existing) (js ''reinforced'') (me_status existing) (me_status existing)
                reinforced_text s
      in getMemory pf now (me_id existing) u (context_of_input n) s)"

definition insert_memory ::
    "platform \<Rightarrow> (nat \<Rightarrow> jsstr) \<Rightarrow> int \<Rightarrow> auth_user \<Rightarrow> memory_input \<Rightarrow> agent_db \<Rightarrow>
       (memory_error + memory_item option) \<times> agent_db" where
  [js_eval]: "insert_memory pf fresh now u n s =
     (let d = derive_memory pf n; row = new_memory_row pf (fresh 0) now u n; bad = in_detected (dm_scan d);
          s = s\<lparr>memory_items := memory_items s @ [row]\<rparr>;
          s = addMemorySources (me_id row) now (mn_sources n) s;
          s = addMemoryAction u now (me_id row) (if bad then js ''auto_suspended'' else js ''created'')
                (dm_status d) (dm_status d) (if bad then injection_text (dm_scan d) else created_text) s;
          (created, s) = getMemory pf now (me_id row) u (context_of_input n) s
      in case created of
           None \<Rightarrow> (Inl NullMemory, s)
         | Some item \<Rightarrow>
             (let s = createMemoryRelations pf (\<lambda>k. fresh (Suc k)) now (mi_row item) s;
                  trace = (case mn_sources n of [] \<Rightarrow> me_id row | src # _ \<Rightarrow> or_default (so_trace src) (me_id row));
                  s = addSecurityAuditEvent (memory_event u now trace (me_id row)
                        (if bad then ''memory.auto_suspended'' else ''memory.created'') (if bad then Deny else Allow)
                        (in_score (dm_scan d))
                        (Obj [(js ''type'', Str (memory_type_text (mn_type n))),
                              (js ''scope'', Str (memory_scope_text (mn_scope n))),
                              (js ''serviceName'', Str (me_service row)),
                              (js ''sourceCount'', Num (of_nat (length (mn_sources n))))])) s;
                  (found, s) = getMemory pf now (me_id row) u (context_of_input n) s
              in (Inr found, s)))"

definition createMemory ::
    "platform \<Rightarrow> (nat \<Rightarrow> jsstr) \<Rightarrow> int \<Rightarrow> auth_user \<Rightarrow> memory_input \<Rightarrow> agent_db \<Rightarrow>
       (memory_error + memory_item option) \<times> agent_db" where
  [js_eval]: "createMemory pf fresh now u n s =
     (if mn_scope n = ScopeOrganization \<and> user_role u \<noteq> Admin then (Inl OrganizationNeedsAdmin, s)
      else if mn_scope n = ScopeThread \<and> mn_thread n = [] then (Inl ThreadMissing, s)
      else if mn_scope n = ScopeWorkflow \<and> mn_workflow n = [] then (Inl WorkflowMissing, s)
      else case same_content u (dm_hash (derive_memory pf n)) s of
        Some existing \<Rightarrow> (let (found, s) = reinforce_memory pf now u n existing s in (Inr found, s))
      | None \<Rightarrow> insert_memory pf fresh now u n s)"

subsection \<open>Updating and forgetting\<close>

record memory_patch =
  mp_status :: "memory_status option"
  mp_pinned :: "bool option"
  mp_note :: "jsstr option"
  mp_confidence :: "int option"
  mp_importance :: "int option"

definition patch_row :: "int \<Rightarrow> memory_patch \<Rightarrow> memory_row \<Rightarrow> memory_row \<Rightarrow> memory_row" where
  [js_eval]: "patch_row now p cur m =
     (let st = (case mp_status p of None \<Rightarrow> me_status cur | Some st \<Rightarrow> st);
          confidence = clampScore (of_int (case mp_confidence p of None \<Rightarrow> me_confidence cur | Some c \<Rightarrow> c));
          importance = clampScore (of_int (case mp_importance p of None \<Rightarrow> me_importance cur | Some c \<Rightarrow> c))
      in m\<lparr>me_status := st,
           me_pinned := (case mp_pinned p of None \<Rightarrow> me_pinned cur | Some b \<Rightarrow> b),
           me_note := take 4000 (redactString (case mp_note p of None \<Rightarrow> me_note cur | Some t \<Rightarrow> t)),
           me_confidence := confidence, me_importance := importance,
           me_vitality := (if st = MemVerified
             then clampScore (max (of_int (me_vitality cur))
                    (of_int confidence * (45 / 100) + of_int importance * (45 / 100) + 10))
             else me_vitality cur),
           me_last_reinforced := (if st = MemVerified then now else me_last_reinforced m),
           me_reinforced := me_reinforced m + (if st = MemVerified \<and> me_status m \<noteq> MemVerified then 1 else 0),
           me_updated := now\<rparr>)"

definition patch_action :: "memory_patch \<Rightarrow> memory_row \<Rightarrow> jsstr" where
  [js_eval]: "patch_action p cur =
     (let st = (case mp_status p of None \<Rightarrow> me_status cur | Some st \<Rightarrow> st);
          pinned = (case mp_pinned p of None \<Rightarrow> me_pinned cur | Some b \<Rightarrow> b)
      in if st \<noteq> me_status cur then js ''status_'' @ memory_status_text st
         else if pinned \<noteq> me_pinned cur then (if pinned then js ''pinned'' else js ''unpinned'')
         else js ''updated'')"

definition updateMemory ::
    "platform \<Rightarrow> int \<Rightarrow> jsstr \<Rightarrow> auth_user \<Rightarrow> memory_patch \<Rightarrow> agent_db \<Rightarrow>
       (memory_error + memory_item option) \<times> agent_db" where
  [js_eval]: "updateMemory pf now i u p s =
     (case getMemory pf now i u no_context s of
        (None, s) \<Rightarrow> (Inr None, s)
      | (Some item, s) \<Rightarrow>
          (let cur = mi_row item in
           if me_scope cur = ScopeOrganization \<and> user_role u \<noteq> Admin then (Inl OrganizationNeedsAdmin, s)
           else (let patched = patch_row now p cur cur;
                     s = s\<lparr>memory_items := update_where (\<lambda>m. me_id m = i \<and> me_org m = user_org u)
                            (patch_row now p cur) (memory_items s)\<rparr>;
                     s = (if me_confidence patched \<noteq> me_confidence cur then
                            s\<lparr>memory_chunks := update_where (\<lambda>c. mc_memory c = me_id cur)
                               (\<lambda>c. c\<lparr>mc_confidence := me_confidence patched, mc_updated := now\<rparr>) (memory_chunks s)\<rparr>
                          else s);
                     s = addMemoryAction u now i (patch_action p cur) (me_status cur) (me_status patched)
                           (case mp_note p of None \<Rightarrow> [] | Some t \<Rightarrow> t) s;
                     (found, s) = getMemory pf now i u no_context s
                 in (Inr found, s))))"

definition forgotten_title :: jsstr where
  [js_eval]: "forgotten_title = [24050, 36951, 24536, 35760, 24518]"

definition forgotten_text :: jsstr where
  [js_eval]: "forgotten_text = [24050, 28165, 38500, 35760, 24518, 27491, 25991, 12289, 25688, 35201, 12289, 26631, 31614,
      12289, 20851, 38190, 35789, 21644, 26381, 21153, 26631, 35782, 65292, 20165, 20445, 30041,
      23457, 35745, 39592, 26550, 12290]"

definition forget_row :: "platform \<Rightarrow> int \<Rightarrow> memory_row \<Rightarrow> memory_row" where
  [js_eval]: "forget_row pf now m =
     m\<lparr>me_title := forgotten_title, me_summary := [], me_content := Null, me_tags := [], me_keywords := [],
       me_service := [], me_hash := sha256 pf (js ''forgotten:'' @ me_id m @ [58] @ int_text now),
       me_status := MemForgotten, me_pinned := False, me_vitality := 0, me_note := [], me_updated := now\<rparr>"

definition forgetMemory ::
    "platform \<Rightarrow> int \<Rightarrow> jsstr \<Rightarrow> auth_user \<Rightarrow> agent_db \<Rightarrow> (memory_error + memory_item option) \<times> agent_db" where
  [js_eval]: "forgetMemory pf now i u s =
     (case getMemory pf now i u no_context s of
        (None, s) \<Rightarrow> (Inr None, s)
      | (Some item, s) \<Rightarrow>
          (let cur = mi_row item in
           if me_scope cur = ScopeOrganization \<and> user_role u \<noteq> Admin then (Inl OrganizationNeedsAdmin, s)
           else (let s = s\<lparr>memory_items := update_where (\<lambda>m. me_id m = i \<and> me_org m = user_org u)
                            (forget_row pf now) (memory_items s)\<rparr>;
                     s = s\<lparr>memory_chunks := delete_where (\<lambda>c. mc_memory c = i) (memory_chunks s)\<rparr>;
                     s = addMemoryAction u now i (js ''forgotten'') (me_status cur) MemForgotten forgotten_text s;
                     s = addSecurityAuditEvent (memory_event u now i i ''memory.forgotten'' Allow 0
                           (Obj [(js ''previousStatus'', Str (memory_status_text (me_status cur)))])) s;
                     (found, s) = getMemory pf now i u no_context s
                 in (Inr found, s))))"

subsection \<open>Learning\<close>

definition runbook_title :: regex where
  [js_eval]: "runbook_title = (alts [lit_ci [25163, 20876], lit_ci (js ''runbook''), lit_ci (js ''sop''), lit_ci [27493,
      39588], lit_ci [25805, 20316]])"

definition memoryTypeForEvidence :: "evidence_row \<Rightarrow> memory_type" where
  [js_eval]: "memoryTypeForEvidence e =
     (if ev_source e = SrcDocument \<and> re_test runbook_title (ev_title e @ [32] @ ev_summary e) then Procedural
      else if ev_source e \<in> {SrcDocument, SrcService, SrcDashboard} then Semantic
      else Episodic)"

fun source_text :: "evidence_source \<Rightarrow> jsstr" where
  "source_text SrcTelemetry = js ''telemetry''"
| "source_text SrcService = js ''service''"
| "source_text SrcAlert = js ''alert''"
| "source_text SrcDashboard = js ''dashboard''"
| "source_text SrcSsh = js ''ssh''"
| "source_text SrcMcp = js ''mcp''"
| "source_text SrcWorkflow = js ''workflow''"
| "source_text SrcDocument = js ''document''"
| "source_text SrcUrl = js ''url''"

definition memory_of_evidence :: "auth_user \<Rightarrow> evidence_row \<Rightarrow> memory_input" where
  [js_eval]: "memory_of_evidence u e =
     (let ty = memoryTypeForEvidence e
      in \<lparr>mn_type = ty,
          mn_scope = (if user_role u = Admin \<and> (ty = Semantic \<or> ty = Procedural) then ScopeOrganization else ScopeUser),
          mn_title = ([24050, 39564, 35777, 32463, 39564] @ js '' '' @ [183] @ js '' '') @ ev_title e,
          mn_summary = or_default (ev_note e) (ev_summary e),
          mn_content = Obj [(js ''evidenceSummary'', Str (ev_summary e)), (js ''evidenceContent'', ev_content e),
            (js ''source'', Str (source_text (ev_source e) @ [47] @ ev_source_name e))],
          mn_thread = ev_thread e, mn_workflow = [],
          mn_service = (case extractServiceNames (ev_content e) of [] \<Rightarrow> [] | w # _ \<Rightarrow> w),
          mn_tags = [js ''evidence-writeback'', source_text (ev_source e)],
          mn_confidence = Some (ev_confidence e),
          mn_importance = Some (clampScore (of_int (ev_relevance e) * (6 / 10) + of_int (ev_confidence e) * (4 / 10))),
          mn_status = Some MemVerified, mn_pinned = False, mn_note = [], mn_expires = 0,
          mn_sources = [\<lparr>so_type = FromEvidence, so_source = ev_id e, so_trace = ev_trace e,
            so_relation = js ''validated_from'', so_weight = Some 100\<rparr>]\<rparr>)"

definition learnMemoryFromEvidence ::
    "platform \<Rightarrow> (nat \<Rightarrow> jsstr) \<Rightarrow> int \<Rightarrow> auth_user \<Rightarrow> evidence_row \<Rightarrow> agent_db \<Rightarrow>
       (memory_error + memory_item option) \<times> agent_db" where
  [js_eval]: "learnMemoryFromEvidence pf fresh now u e s =
     (if ev_status e \<noteq> EvAccepted then (Inr None, s)
      else createMemory pf fresh now u (memory_of_evidence u e) s)"

record workflow_outcome =
  wo_workflow :: jsstr
  wo_name :: jsstr
  wo_run :: jsstr
  wo_thread :: jsstr
  wo_text :: jsstr
  wo_evidence :: "evidence_row list"

definition usable_evidence :: "evidence_row list \<Rightarrow> evidence_row list" where
  [js_eval]: "usable_evidence es = filter (\<lambda>e. ev_status e \<noteq> EvRejected \<and> ev_status e \<noteq> EvSuspended) es"

definition recovery_name :: regex where
  [js_eval]: "recovery_name = (alts [lit_ci [24674, 22797], lit_ci [28165, 29702], lit_ci [22788, 32622], lit_ci [20462,
      22797], lit_ci [25805, 20316], lit_ci (js ''recovery''), lit_ci (js ''remediation'')])"

definition memory_of_outcome :: "workflow_outcome \<Rightarrow> memory_input" where
  [js_eval]: "memory_of_outcome o' =
     (let usable = usable_evidence (wo_evidence o'); accepted = list_ex (\<lambda>e. ev_status e = EvAccepted) usable
      in \<lparr>mn_type = (if re_test recovery_name (wo_name o') then Procedural else Episodic),
          mn_scope = ScopeWorkflow,
          mn_title = (js ''Loop '' @ [32463, 39564] @ js '' '' @ [183] @ js '' '') @ wo_name o',
          mn_summary = take 1000 (trim (re_replace (some space) [32] (wo_text o'))),
          mn_content = Obj [(js ''outcome'', Str (wo_text o')), (js ''workflowId'', Str (wo_workflow o')),
            (js ''runId'', Str (wo_run o'))],
          mn_thread = wo_thread o', mn_workflow = wo_workflow o',
          mn_service = (case concat (map (\<lambda>e. extractServiceNames (ev_content e)) usable) of [] \<Rightarrow> [] | w # _ \<Rightarrow> w),
          mn_tags = [js ''loop-writeback'', wo_workflow o'],
          mn_confidence = Some (if accepted then 88 else 72), mn_importance = Some 75,
          mn_status = Some (if accepted then MemVerified else MemActive), mn_pinned = False, mn_note = [],
          mn_expires = 0,
          mn_sources = \<lparr>so_type = FromWorkflow, so_source = wo_run o', so_trace = wo_run o', so_relation = js ''produced_by'',
              so_weight = Some 100\<rparr>
            # map (\<lambda>e. \<lparr>so_type = FromEvidence, so_source = ev_id e, so_trace = ev_trace e,
                so_relation = js ''grounded_in'', so_weight = Some (ev_confidence e)\<rparr>) (take 50 usable)\<rparr>)"

definition learnMemoryFromWorkflowOutcome ::
    "platform \<Rightarrow> (nat \<Rightarrow> jsstr) \<Rightarrow> int \<Rightarrow> auth_user \<Rightarrow> workflow_outcome \<Rightarrow> agent_db \<Rightarrow>
       (memory_error + memory_item option) \<times> agent_db" where
  [js_eval]: "learnMemoryFromWorkflowOutcome pf fresh now u o' s =
     (if trim (wo_text o') = [] \<or> usable_evidence (wo_evidence o') = [] then (Inr None, s)
      else createMemory pf fresh now u (memory_of_outcome o') s)"

subsection \<open>Statistics\<close>

record memory_stats =
  mt_total :: nat
  mt_online :: nat
  mt_verified :: nat
  mt_suspended :: nat
  mt_vitality :: int
  mt_by_type :: "memory_type \<Rightarrow> nat"
  mt_by_status :: "memory_status \<Rightarrow> nat"

definition count_status :: "memory_status \<Rightarrow> memory_item list \<Rightarrow> nat" where
  [js_eval]: "count_status st items = length (filter (\<lambda>i. me_status (mi_row i) = st) items)"

definition count_type :: "memory_type \<Rightarrow> memory_item list \<Rightarrow> nat" where
  [js_eval]: "count_type ty items = length (filter (\<lambda>i. me_type (mi_row i) = ty) items)"

definition memoryStats :: "platform \<Rightarrow> int \<Rightarrow> auth_user \<Rightarrow> agent_db \<Rightarrow> memory_stats \<times> agent_db" where
  [js_eval]: "memoryStats pf now u s =
     (let (items, s) = listMemories pf now (plain_query\<lparr>mq_inactive := True, mq_limit := 500\<rparr>) u s
      in (\<lparr>mt_total = length items, mt_online = count_status MemActive items + count_status MemVerified items,
           mt_verified = count_status MemVerified items, mt_suspended = count_status MemSuspended items,
           mt_vitality = (if items = [] then 0
             else clampScore (of_int (sum_list (map (\<lambda>i. me_vitality (mi_row i)) items)) / of_nat (length items))),
           mt_by_type = (\<lambda>ty. count_type ty items), mt_by_status = (\<lambda>st. count_status st items)\<rparr>, s))"

subsection \<open>What reading writes\<close>

text \<open>Reading creates chunks and leaves every other table alone.\<close>

lemma persist_frame [simp]:
  "memory_items (snd (persistMemoryChunks pf now i s)) = memory_items s"
  "memory_actions (snd (persistMemoryChunks pf now i s)) = memory_actions s"
  "memory_sources (snd (persistMemoryChunks pf now i s)) = memory_sources s"
  "memory_relations (snd (persistMemoryChunks pf now i s)) = memory_relations s"
  "security_events (snd (persistMemoryChunks pf now i s)) = security_events s"
  by (simp_all add: persistMemoryChunks_def Let_def)

lemma missing_frame [simp]:
  "memory_items (snd (persist_missing pf now ms s)) = memory_items s"
  "memory_actions (snd (persist_missing pf now ms s)) = memory_actions s"
  "memory_sources (snd (persist_missing pf now ms s)) = memory_sources s"
  "memory_relations (snd (persist_missing pf now ms s)) = memory_relations s"
  "security_events (snd (persist_missing pf now ms s)) = security_events s"
  by (induction ms arbitrary: s; simp add: case_prod_unfold Let_def)+

lemma hydrate_frame [simp]:
  "memory_items (snd (hydrateMemories pf now items s)) = memory_items s"
  "memory_actions (snd (hydrateMemories pf now items s)) = memory_actions s"
  "memory_sources (snd (hydrateMemories pf now items s)) = memory_sources s"
  "memory_relations (snd (hydrateMemories pf now items s)) = memory_relations s"
  "security_events (snd (hydrateMemories pf now items s)) = security_events s"
  by (simp_all add: hydrateMemories_def Let_def case_prod_unfold)

lemma hydrate_rows [simp]: "map mi_row (fst (hydrateMemories pf now items s)) = items"
  by (simp add: hydrateMemories_def Let_def case_prod_unfold comp_def)

lemma getMemory_frame [simp]:
  "memory_items (snd (getMemory pf now i u x s)) = memory_items s"
  "memory_actions (snd (getMemory pf now i u x s)) = memory_actions s"
  "memory_sources (snd (getMemory pf now i u x s)) = memory_sources s"
  "memory_relations (snd (getMemory pf now i u x s)) = memory_relations s"
  "security_events (snd (getMemory pf now i u x s)) = security_events s"
  by (simp_all add: getMemory_def Let_def case_prod_unfold split: option.splits)

definition find_memory :: "jsstr \<Rightarrow> auth_user \<Rightarrow> agent_db \<Rightarrow> memory_row option" where
  "find_memory i u s = head_option (filter (\<lambda>m. me_id m = i \<and> me_org m = user_org u) (memory_items s))"

lemma hydrate_one: "\<exists>item rest. fst (hydrateMemories pf now [m] s) = item # rest \<and> mi_row item = m"
  using hydrate_rows [of pf now "[m]" s] by (cases "fst (hydrateMemories pf now [m] s)") auto

lemma getMemory_row:
  "map_option mi_row (fst (getMemory pf now i u x s)) =
     (case find_memory i u s of None \<Rightarrow> None
      | Some m \<Rightarrow> if isVisible m u x \<or> user_role u = Admin then Some m else None)"
proof (cases "find_memory i u s")
  case None
  then show ?thesis by (simp add: getMemory_def find_memory_def)
next
  case (Some m)
  obtain item rest where h: "fst (hydrateMemories pf now [m] s) = item # rest" "mi_row item = m"
    using hydrate_one by blast
  show ?thesis
    using Some h by (simp add: getMemory_def find_memory_def Let_def case_prod_unfold)
qed

lemma find_memoryD: "find_memory i u s = Some m \<Longrightarrow> m \<in> set (memory_items s) \<and> me_id m = i \<and> me_org m = user_org u"
  unfolding find_memory_def by (auto dest: head_option_filterD)

lemma write_frame [simp]:
  "memory_items (addMemorySources i now srcs s) = memory_items s"
  "memory_chunks (addMemorySources i now srcs s) = memory_chunks s"
  "memory_actions (addMemorySources i now srcs s) = memory_actions s"
  "memory_items (addMemoryAction u now i a p n d s) = memory_items s"
  "memory_chunks (addMemoryAction u now i a p n d s) = memory_chunks s"
  "memory_items (createMemoryRelations pf fresh now m s) = memory_items s"
  "memory_actions (createMemoryRelations pf fresh now m s) = memory_actions s"
  by (simp_all add: addMemorySources_def addMemoryAction_def createMemoryRelations_def)

interpretation memory_log: journal memory_actions
  "\<lambda>e s. s\<lparr>memory_actions := memory_actions s @ [e]\<rparr>"
  by unfold_locales simp

subsection \<open>Visibility\<close>

lemma set_insert_by [simp]: "set (insert_by le x ys) = insert x (set ys)"
  by (induction ys) auto

lemma set_sort_by [simp]: "set (sort_by le xs) = set xs"
proof -
  have "set (foldl (\<lambda>ys x. insert_by le x ys) acc xs) = set acc \<union> set xs" for acc
    by (induction xs arbitrary: acc) auto
  then show ?thesis by (simp add: sort_by_def)
qed

lemma length_insert_by [simp]: "length (insert_by le x ys) = Suc (length ys)"
  by (induction ys) auto

lemma length_sort_by [simp]: "length (sort_by le xs) = length xs"
proof -
  have "length (foldl (\<lambda>ys x. insert_by le x ys) acc xs) = length acc + length xs" for acc
    by (induction xs arbitrary: acc) auto
  then show ?thesis by (simp add: sort_by_def)
qed

lemma listed_row:
  assumes "m \<in> set (visible_memories pf q u s)"
  shows "m \<in> set (memory_items s) \<and> isVisible m u (mq_context q) \<and> me_org m = user_org u
    \<and> (mq_status q = None \<and> \<not> mq_inactive q \<longrightarrow> me_status m \<in> {MemActive, MemVerified})"
proof -
  have "m \<in> set (select_memories q u s) \<and> isVisible m u (mq_context q)"
    using assms by (auto simp: visible_memories_def Let_def split: if_splits)
  then show ?thesis unfolding select_memories_def
    by (auto dest!: in_set_takeD split: option.splits)
qed

lemma listed_length: "length (visible_memories pf q u s) \<le> 500"
proof -
  have "list_limit l \<le> 500" for l by (simp add: list_limit_def)
  then have "length (select_memories q u s) \<le> 500"
    unfolding select_memories_def length_take by (meson le_trans min.cobounded2)
  then show ?thesis unfolding visible_memories_def Let_def
    by (simp add: le_trans [OF length_filter_le])
qed

text \<open>
  C13. Isolation of memories: a listing returns at most 500 memories, all of the user's own
  organisation and visible to the user; a memory scoped to a user or an agent is only ever listed for
  its owner, and without asking for inactive ones only active and verified memories appear. Listing
  changes no memory.
\<close>

theorem listing_is_isolated:
  fixes pf now q u s
  defines "rows \<equiv> map mi_row (fst (listMemories pf now q u s))"
  shows "length rows \<le> 500
    \<and> list_all (\<lambda>m. me_org m = user_org u \<and> isVisible m u (mq_context q)) rows
    \<and> list_all (\<lambda>m. me_scope m \<in> {ScopeUser, ScopeAgent} \<longrightarrow> me_user m = user_id u) rows
    \<and> (mq_status q = None \<and> \<not> mq_inactive q \<longrightarrow> list_all (\<lambda>m. me_status m \<in> {MemActive, MemVerified}) rows)
    \<and> memory_items (snd (listMemories pf now q u s)) = memory_items s"
proof -
  have r: "rows = visible_memories pf q u s" by (simp add: rows_def listMemories_def)
  have v: "m \<in> set rows \<Longrightarrow> me_org m = user_org u \<and> isVisible m u (mq_context q)
      \<and> (me_scope m \<in> {ScopeUser, ScopeAgent} \<longrightarrow> me_user m = user_id u)
      \<and> (mq_status q = None \<and> \<not> mq_inactive q \<longrightarrow> me_status m \<in> {MemActive, MemVerified})" for m
    using listed_row [of m pf q u s] unfolding r by (auto simp: isVisible_def split: if_splits)
  show ?thesis
    using v listed_length [of pf q u s] unfolding list_all_iff by (simp add: r listMemories_def)
qed

definition demo_memory :: "jsstr \<Rightarrow> jsstr \<Rightarrow> memory_scope \<Rightarrow> memory_row" where
  [js_eval]: "demo_memory i owner scope = \<lparr>me_id = i, me_org = js ''o1'', me_user = owner, me_thread = [], me_workflow = [],
     me_agent = memory_agent_id, me_type = Episodic, me_scope = scope, me_service = [], me_title = js ''t'',
     me_summary = js ''s'', me_content = Str (js ''secret''), me_hash = [34] @ js ''secret'' @ [34], me_tags = [], me_keywords = [],
     me_confidence = 50, me_importance = 50, me_vitality = 50, me_access = 0, me_reinforced = 0,
     me_status = MemActive, me_pinned = False, me_note = [], me_created = 0, me_last_access = 0,
     me_last_reinforced = 0, me_expires = 0, me_updated = 0\<rparr>"

definition demo_store :: "memory_row list \<Rightarrow> agent_db" where
  [js_eval]: "demo_store ms = empty_db\<lparr>memory_items := ms\<rparr>"

theorem listing_is_isolated_witness:
  "list_all (\<lambda>m. me_user m = user_id demo_user)
     (map mi_row (fst (listMemories demo_platform 5 plain_query demo_user
        (demo_store [demo_memory (js ''m1'') (js ''u1'') ScopeUser, demo_memory (js ''m2'') (js ''u2'') ScopeUser]))))
   \<and> length (map mi_row (fst (listMemories demo_platform 5 plain_query demo_user
        (demo_store [demo_memory (js ''m1'') (js ''u1'') ScopeUser, demo_memory (js ''m2'') (js ''u2'') ScopeUser])))) \<le> 500"
proof -
  let ?s = "demo_store [demo_memory (js ''m1'') (js ''u1'') ScopeUser, demo_memory (js ''m2'') (js ''u2'') ScopeUser]"
  let ?rows = "map mi_row (fst (listMemories demo_platform 5 plain_query demo_user ?s))"
  have "list_all (\<lambda>m. me_scope m \<in> {ScopeUser, ScopeAgent}) ?rows" by code_simp
  then show ?thesis
    using listing_is_isolated [of demo_platform 5 plain_query demo_user ?s] by (auto simp: list_all_iff)
qed

end
