(* ===== verification/Workflow_Records.thy ===== *)
theory Workflow_Records
  imports Workflow Memory_Store
begin

section \<open>Conversations, workflows and runs (\<open>db.ts\<close>)\<close>

text \<open>
  The tables of conversations, of workflows and of their runs, with the operations of \<open>db.ts\<close> on
  them and the rows a new database starts with. The lemmas show that the history of a workflow is
  gapless and bounded and how the state of a run is merged; both are used by the theories of runs
  and of the server.
\<close>

subsection \<open>Conversations\<close>

definition new_thread_title :: jsstr where
  [js_eval]: "new_thread_title = [26032, 23545, 35805]"

definition createThread :: "jsstr \<Rightarrow> int \<Rightarrow> jsstr \<Rightarrow> jsstr \<Rightarrow> jsstr \<Rightarrow> agent_db \<Rightarrow> jsstr \<times> agent_db" where
  [js_eval]: "createThread i now user org title s =
     (i, s\<lparr>threads := threads s @ [\<lparr>th_id = i, th_user = user, th_org = org, th_title = title,
        th_created = now, th_updated = now\<rparr>]\<rparr>)"

text \<open>\<open>String(message.id || randomUUID())\<close> and \<open>String(message.role || 'assistant')\<close>.\<close>

definition text_or :: "platform \<Rightarrow> jsval \<Rightarrow> jsstr \<Rightarrow> jsstr" where
  [js_eval]: "text_or pf v d = (if truthy v then text_of pf v else d)"

definition upsertUIMessage ::
    "platform \<Rightarrow> jsstr \<Rightarrow> int \<Rightarrow> jsstr \<Rightarrow> (jsstr \<times> jsval) list \<Rightarrow> agent_db \<Rightarrow> agent_db" where
  [js_eval]: "upsertUIMessage pf fresh now thread message s =
     (let i = text_or pf (get_prop message (js ''id'')) fresh;
          role = text_or pf (get_prop message (js ''role'')) (js ''assistant'');
          stored = Obj (put_prop message (js ''id'') (Str i));
          ms = ui_messages s;
          s = s\<lparr>ui_messages :=
            (if list_ex (\<lambda>m. um_id m = i) ms
             then update_where (\<lambda>m. um_id m = i) (\<lambda>m. m\<lparr>um_message := stored, um_role := role, um_updated := now\<rparr>) ms
             else ms @ [\<lparr>um_id = i, um_thread = thread, um_role = role, um_message = stored, um_created = now,
               um_updated = now\<rparr>])\<rparr>
      in s\<lparr>threads := update_where (\<lambda>t. th_id t = thread) (\<lambda>t. t\<lparr>th_updated := now\<rparr>) (threads s)\<rparr>)"

text \<open>The order of texts is that of their code units.\<close>

fun text_le :: "jsstr \<Rightarrow> jsstr \<Rightarrow> bool" where
  "text_le [] b = True"
| "text_le (x # a) [] = False"
| "text_le (x # a) (y # b) = (x < y \<or> x = y \<and> text_le a b)"

definition getThreadUIMessages :: "jsstr \<Rightarrow> agent_db \<Rightarrow> jsval list" where
  [js_eval]: "getThreadUIMessages thread s = map um_message
     (sort_by (\<lambda>a b. um_created a < um_created b \<or> um_created a = um_created b \<and> text_le (um_id a) (um_id b))
       (filter (\<lambda>m. um_thread m = thread) (ui_messages s)))"

definition updateThreadTitleFromMessage :: "int \<Rightarrow> jsstr \<Rightarrow> jsstr \<Rightarrow> agent_db \<Rightarrow> agent_db" where
  [js_eval]: "updateThreadTitleFromMessage now thread content s =
     (case head_option (filter (\<lambda>t. th_id t = thread) (threads s)) of
        None \<Rightarrow> s
      | Some t \<Rightarrow>
          if th_title t \<noteq> new_thread_title then s
          else (let title = or_default (take 28 (trim (re_replace (some space) [32] content))) new_thread_title
                in s\<lparr>threads := update_where (\<lambda>t. th_id t = thread)
                       (\<lambda>t. t\<lparr>th_title := title, th_updated := now\<rparr>) (threads s)\<rparr>))"

text \<open>\<open>ownsThread\<close> of \<open>server.ts\<close>.\<close>

definition ownsThread :: "jsstr \<Rightarrow> jsstr \<Rightarrow> jsstr \<Rightarrow> agent_db \<Rightarrow> bool" where
  [js_eval]: "ownsThread thread user org s \<longleftrightarrow>
     list_ex (\<lambda>t. th_id t = thread \<and> th_user t = user \<and> th_org t = org) (threads s)"

subsection \<open>Workflows\<close>

record workflow_form =
  wi_name :: jsstr
  wi_description :: "jsstr option"
  wi_definition :: workflow_definition
  wi_enabled :: "bool option"
  wi_tags :: "jsstr list option"
  wi_schedule :: "schedule_config option"
  wi_triggers :: "event_trigger list option"
  wi_inputs :: "input_field list option"

definition or_else :: "'a option \<Rightarrow> 'a \<Rightarrow> 'a" where
  [js_eval]: "or_else x d = (case x of None \<Rightarrow> d | Some v \<Rightarrow> v)"

definition default_schedule :: schedule_config where
  [js_eval]: "default_schedule = \<lparr>sd_enabled = False, sd_cron = [], sd_timezone = js ''Asia/Shanghai''\<rparr>"

definition listWorkflows :: "bool \<Rightarrow> agent_db \<Rightarrow> workflow_row list" where
  [js_eval]: "listWorkflows only_enabled s =
     sort_by (\<lambda>a b. wf_updated b \<le> wf_updated a) (filter (\<lambda>w. only_enabled \<longrightarrow> wf_enabled w) (workflows s))"

definition getWorkflow :: "jsstr \<Rightarrow> agent_db \<Rightarrow> workflow_row option" where
  [js_eval]: "getWorkflow i s = head_option (filter (\<lambda>w. wf_id w = i) (workflows s))"

definition new_workflow_row :: "jsstr \<Rightarrow> int \<Rightarrow> workflow_form \<Rightarrow> workflow_row" where
  [js_eval]: "new_workflow_row i now f =
     \<lparr>wf_id = i, wf_name = wi_name f, wf_description = or_else (wi_description f) [],
      wf_enabled = (wi_enabled f \<noteq> Some False), wf_definition = wi_definition f, wf_tags = or_else (wi_tags f) [],
      wf_schedule = or_else (wi_schedule f) default_schedule, wf_triggers = or_else (wi_triggers f) [],
      wf_inputs = or_else (wi_inputs f) [], wf_version = 1, wf_versions = [], wf_created = now, wf_updated = now\<rparr>"

definition createWorkflowRecord :: "jsstr \<Rightarrow> int \<Rightarrow> workflow_form \<Rightarrow> agent_db \<Rightarrow> workflow_row option \<times> agent_db" where
  [js_eval]: "createWorkflowRecord i now f s =
     (let s = s\<lparr>workflows := workflows s @ [new_workflow_row i now f]\<rparr> in (getWorkflow i s, s))"

text \<open>\<open>[...versions, old].slice(-30)\<close>.\<close>

definition last_of :: "nat \<Rightarrow> 'a list \<Rightarrow> 'a list" where
  [js_eval]: "last_of n xs = drop (length xs - n) xs"

definition changed_workflow :: "int \<Rightarrow> workflow_form \<Rightarrow> workflow_row \<Rightarrow> workflow_row" where
  [js_eval]: "changed_workflow now f w =
     (let changed = wf_definition w \<noteq> wi_definition f
      in w\<lparr>wf_name := wi_name f, wf_description := or_else (wi_description f) [], wf_definition := wi_definition f,
           wf_enabled := (wi_enabled f = Some True), wf_tags := or_else (wi_tags f) [],
           wf_schedule := or_else (wi_schedule f) (wf_schedule w), wf_triggers := or_else (wi_triggers f) [],
           wf_inputs := or_else (wi_inputs f) [],
           wf_version := (if changed then wf_version w + 1 else wf_version w),
           wf_versions := (if changed then last_of 30 (wf_versions w @ [\<lparr>vr_version = wf_version w, vr_name = wf_name w,
               vr_definition = wf_definition w, vr_created = wf_updated w\<rparr>]) else wf_versions w),
           wf_updated := now\<rparr>)"

definition updateWorkflowRecord ::
    "int \<Rightarrow> jsstr \<Rightarrow> workflow_form \<Rightarrow> agent_db \<Rightarrow> workflow_row option \<times> agent_db" where
  [js_eval]: "updateWorkflowRecord now i f s =
     (case getWorkflow i s of
        None \<Rightarrow> (None, s)
      | Some w \<Rightarrow>
          (let s = s\<lparr>workflows := update_where (\<lambda>r. wf_id r = i) (\<lambda>_. changed_workflow now f w) (workflows s)\<rparr>
           in (getWorkflow i s, s)))"

definition deleteWorkflowRecord :: "jsstr \<Rightarrow> agent_db \<Rightarrow> agent_db" where
  [js_eval]: "deleteWorkflowRecord i s =
     (let s = s\<lparr>workflow_runs := delete_where (\<lambda>r. rn_workflow r = i) (workflow_runs s)\<rparr>
      in s\<lparr>workflows := delete_where (\<lambda>w. wf_id w = i) (workflows s)\<rparr>)"

subsection \<open>Runs\<close>

definition createWorkflowRunRecord ::
    "int \<Rightarrow> jsstr \<Rightarrow> jsstr \<Rightarrow> jsstr \<Rightarrow> jsstr \<Rightarrow> jsval \<Rightarrow> agent_db \<Rightarrow> agent_db" where
  [js_eval]: "createWorkflowRunRecord now i workflow thread user input s =
     s\<lparr>workflow_runs := workflow_runs s @ [\<lparr>rn_id = i, rn_workflow = workflow, rn_thread = thread, rn_user = user,
        rn_status = RunRunning, rn_input = input, rn_output = Obj [], rn_steps = [], rn_suspended = [],
        rn_created = now, rn_updated = now\<rparr>]\<rparr>"

record run_patch =
  pp_status :: "run_status option"
  pp_output :: "jsval option"
  pp_step :: jsstr
  pp_state :: jsval
  pp_suspended :: "jsstr option"

text \<open>
  \<open>stepState[patch.stepId] = patch.stepState\<close>. The property \<open>__proto__\<close> is not an own property: the
  assignment sets the prototype, which \<open>JSON.stringify\<close> leaves out, so nothing is stored.
\<close>

definition set_step :: "(jsstr \<times> jsval) list \<Rightarrow> jsstr \<Rightarrow> jsval \<Rightarrow> (jsstr \<times> jsval) list" where
  [js_eval]: "set_step m k v = (if k = js ''__proto__'' then m else put_prop m k v)"

definition patched_run :: "int \<Rightarrow> run_patch \<Rightarrow> run_row \<Rightarrow> run_row" where
  [js_eval]: "patched_run now p r =
     r\<lparr>rn_status := or_else (pp_status p) (rn_status r), rn_output := or_else (pp_output p) (rn_output r),
       rn_steps := (if pp_step p = [] then rn_steps r else set_step (rn_steps r) (pp_step p) (pp_state p)),
       rn_suspended := or_else (pp_suspended p) (rn_suspended r), rn_updated := now\<rparr>"

definition updateWorkflowRunRecord :: "int \<Rightarrow> jsstr \<Rightarrow> run_patch \<Rightarrow> agent_db \<Rightarrow> agent_db" where
  [js_eval]: "updateWorkflowRunRecord now i p s =
     s\<lparr>workflow_runs := update_where (\<lambda>r. rn_id r = i) (patched_run now p) (workflow_runs s)\<rparr>"

definition listWorkflowRuns :: "jsstr \<Rightarrow> jsstr \<Rightarrow> agent_db \<Rightarrow> run_row list" where
  [js_eval]: "listWorkflowRuns workflow user s =
     take 100 (sort_by (\<lambda>a b. rn_created b \<le> rn_created a)
       (filter (\<lambda>r. rn_workflow r = workflow \<and> rn_user r = user) (workflow_runs s)))"

definition getWorkflowRun :: "jsstr \<Rightarrow> jsstr \<Rightarrow> agent_db \<Rightarrow> run_row option" where
  [js_eval]: "getWorkflowRun i user s = head_option (filter (\<lambda>r. rn_id r = i \<and> rn_user r = user) (workflow_runs s))"

subsection \<open>The rows of a new database\<close>

definition seed_workflow ::
    "int \<Rightarrow> jsstr \<Rightarrow> jsstr \<Rightarrow> jsstr \<Rightarrow> jsstr list \<Rightarrow> workflow_definition \<Rightarrow> workflow_row" where
  [js_eval]: "seed_workflow now i name description tags d =
     (new_workflow_row i now \<lparr>wi_name = name, wi_description = Some description, wi_definition = d, wi_enabled = None,
        wi_tags = Some tags, wi_schedule = None, wi_triggers = None, wi_inputs = None\<rparr>)"

definition plain_step :: "string \<Rightarrow> jsstr \<Rightarrow> step_type \<Rightarrow> step" where
  [js_eval]: "plain_step i name ty = Step (plain_info (js i) name ty) None None None"

definition prompted_step :: "string \<Rightarrow> jsstr \<Rightarrow> step_type \<Rightarrow> jsstr \<Rightarrow> step" where
  [js_eval]: "prompted_step i name ty prompt =
     Step ((plain_info (js i) name ty)\<lparr>si_prompt := Some prompt\<rparr>) None None None"

definition defaultWorkflow :: workflow_definition where
  [js_eval]: "defaultWorkflow = \<lparr>wd_version = 1, wd_steps =
     [plain_step ''services'' [35835, 21462, 26381, 21153, 21015, 34920] ServicesStep,
      plain_step ''alerts'' [35835, 21462, 24403, 21069, 21578, 35686] AlertsStep,
      prompted_step ''analysis'' [29983, 25104, 20581, 24247, 35786, 26029] AgentStep
        ([26681, 25454, 21069, 24207, 27493, 39588, 33719, 24471, 30340, 26381, 21153, 19982, 21578,
      35686, 25968, 25454, 65292, 32473, 20986, 31995, 32479, 20581, 24247, 32467, 35770, 12289,
      20851, 38190, 35777, 25454, 21644, 19979, 19968, 27493, 34892, 21160, 12290])]\<rparr>"

definition security_rule :: condition_rule where
  [js_eval]: "security_rule = \<lparr>cr_path = js ''results.security.decision'', cr_operator = OpEquals,
     cr_value = Some (js ''require-approval'')\<rparr>"

definition securityWorkflow :: workflow_definition where
  [js_eval]: "securityWorkflow = \<lparr>wd_version = 2, wd_steps =
     [plain_step ''security'' [23433, 20840, 24847, 22270, 19982, 27880, 20837, 26816, 26597] SecurityCheckStep,
      Step (plain_info (js ''approval_gate'') [39640, 39118, 38505, 23457, 25209, 20998, 25903] ConditionStep)
        (Some (Condition security_rule
          [Step ((plain_info (js ''approval'') [20154, 24037, 23457, 25209] ApprovalStep)\<lparr>si_message :=
             Some ([23433, 20840, 20915, 31574, 21028, 23450, 26412, 27425, 35831, 27714, 20250, 25913, 21464,
      31995, 32479, 29366, 24577, 65292, 35831, 30830, 35748, 21518, 32487, 32493, 12290])\<rparr>) None None None]
          [prompted_step ''read_plan'' [21482, 35835, 35786, 26029, 35745, 21010] AgentStep
             ([26681, 25454, 35831, 27714, 29983, 25104, 21482, 35835, 35786, 26029, 35745, 21010, 65292,
      19981, 25191, 34892, 20219, 20309, 21464, 26356, 12290])])) None None,
      prompted_step ''operation'' [21463, 25511, 25191, 34892] OperationStep
        ([20165, 20351, 29992, 24050, 25480, 26435, 24037, 20855, 25191, 34892, 35831, 27714, 65307,
      24037, 20855, 23457, 25209, 19982, 24213, 23618, 23433, 20840, 22797, 26816, 19981, 21487,
      32469, 36807, 12290]),
      prompted_step ''verify'' [32467, 26524, 39564, 35777] VerifyStep
        ([26680, 39564, 25191, 34892, 32467, 26524, 12289, 30446, 26631, 29366, 24577, 21644, 27531,
      20313, 39118, 38505, 65292, 24182, 32473, 20986, 21487, 23457, 35745, 32467, 35770, 12290])]\<rparr>"

definition seed_policy :: "int \<Rightarrow> ssh_tool \<Rightarrow> ssh_policy" where
  [js_eval]: "seed_policy now tool =
     \<lparr>sp_tool = tool, sp_risk = (case tool of ReadonlyInspect \<Rightarrow> 1 | ExecuteCommand \<Rightarrow> 3), sp_enabled = False,
      sp_approval = True, sp_seconds = 30,
      sp_command_ids = (case tool of
          ReadonlyInspect \<Rightarrow> map js [''system_overview'', ''disk_usage'', ''memory_usage'', ''failed_services'',
            ''network_listeners'', ''recent_errors'']
        | ExecuteCommand \<Rightarrow> []),
      sp_commands = [], sp_updated = now\<rparr>"

definition seed_model :: "int \<Rightarrow> model_row" where
  [js_eval]: "seed_model now = \<lparr>mo_provider = OpenAI, mo_mode = OfficialEndpoint, mo_model = js ''gpt-4o-mini'', mo_base = [],
     mo_key = [], mo_temperature = None, mo_tokens = 8192, mo_steps = 8, mo_timeout = 120, mo_retries = 1,
     mo_choice = AutoTools, mo_instructions = [], mo_memory = 30, mo_updated = now\<rparr>"

definition seed_workflows :: "int \<Rightarrow> workflow_row list" where
  [js_eval]: "seed_workflows now =
     seed_workflow now (js ''system-health-diagnosis'') [31995, 32479, 20581, 24247, 35786, 26029]
       (([35835, 21462, 26381, 21153, 21644, 21578, 35686, 20449, 24687, 65292, 20877, 30001] @ js
      '' Agent '' @ [29983, 25104, 35786, 26029, 32467, 35770, 12290])) [] defaultWorkflow
     # seed_workflow now (js ''system-security-decision'') (([23433, 20840, 20915, 31574] @ js '' Loop''))
       ([31995, 32479, 38145, 23450, 30340, 36755, 20837, 26816, 27979, 12289, 39118, 38505, 20998,
      31867, 12289, 23457, 25209, 12289, 21463, 25511, 25191, 34892, 19982, 32467, 26524, 39564,
      35777, 27969, 31243, 12290])
       (map js [''system'', ''locked'', ''security'']) securityWorkflow
     # map (\<lambda>p. seed_workflow now (wp_id p) (wp_name p) (wp_description p) (wp_tags p) (wp_definition p)) workflowPresets"

definition add_seed :: "workflow_row \<Rightarrow> agent_db \<Rightarrow> agent_db" where
  [js_eval]: "add_seed w s = s\<lparr>workflows := insert_or_ignore (\<lambda>a b. wf_id a = wf_id b) w (workflows s)\<rparr>"

text \<open>Every row is written with \<open>INSERT OR IGNORE\<close>, so a restart changes nothing.\<close>

definition initializeDatabase :: "int \<Rightarrow> agent_db \<Rightarrow> agent_db" where
  [js_eval]: "initializeDatabase now s =
     (let s = s\<lparr>model_settings := insert_or_ignore (\<lambda>_ _. True) (seed_model now) (model_settings s)\<rparr>;
          policy = (\<lambda>tool s. s\<lparr>tool_policies := insert_or_ignore (\<lambda>a b. sp_tool a = sp_tool b) (seed_policy now tool)
                     (tool_policies s)\<rparr>);
          s = policy ExecuteCommand (policy ReadonlyInspect s)
      in fold add_seed (seed_workflows now) s)"

subsection \<open>The history of a workflow\<close>

text \<open>
  The history of a workflow holds the definitions it had before, at most thirty, numbered without
  gaps up to the version before the current one.
\<close>

definition good_workflow :: "workflow_row \<Rightarrow> bool" where
  "good_workflow w \<longleftrightarrow> 1 \<le> wf_version w
     \<and> map vr_version (wf_versions w) = [wf_version w - min 30 (wf_version w - 1) ..< wf_version w]
     \<and> valid_definition (wf_definition w) \<and> list_all (\<lambda>v. valid_definition (vr_definition v)) (wf_versions w)"

lemma last_of_append1: "last_of 30 (xs @ [x]) = drop (length xs - 29) xs @ [x]"
  by (simp add: last_of_def)

lemma good_new_workflow: "valid_definition (wi_definition f) \<Longrightarrow> good_workflow (new_workflow_row i now f)"
  by (simp add: good_workflow_def new_workflow_row_def)

lemma good_changed_workflow:
  assumes "good_workflow w" "valid_definition (wi_definition f)"
  shows "good_workflow (changed_workflow now f w)"
proof (cases "wf_definition w = wi_definition f")
  case True
  then show ?thesis using assms by (simp add: good_workflow_def changed_workflow_def)
next
  case False
  let ?v = "wf_version w"
  have vs: "map vr_version (wf_versions w) = [?v - min 30 (?v - 1) ..< ?v]" and v: "1 \<le> ?v"
    using assms(1) by (simp_all add: good_workflow_def)
  have n: "length (wf_versions w) = min 30 (?v - 1)"
    using arg_cong [OF vs, of length] v by simp
  have "drop (length (wf_versions w) - 29) (map vr_version (wf_versions w)) @ [?v] = [?v + 1 - min 30 ?v ..< ?v + 1]"
  proof -
    have a: "?v - min 30 (?v - 1) + (min 30 (?v - 1) - 29) = ?v + 1 - min 30 ?v" using v by linarith
    have "?v + 1 - min 30 ?v \<le> ?v" using v by linarith
    then show ?thesis unfolding vs n drop_upt a by simp
  qed
  then have "map vr_version (wf_versions (changed_workflow now f w)) = [?v + 1 - min 30 (?v + 1 - 1) ..< ?v + 1]"
    using False by (simp add: changed_workflow_def last_of_append1 drop_map del: upt_Suc)
  moreover have "list_all (\<lambda>v. valid_definition (vr_definition v)) (drop n' (wf_versions w))" for n'
    using assms(1) by (auto simp: good_workflow_def list_all_iff dest: in_set_dropD)
  ultimately show ?thesis
    using False assms by (simp add: good_workflow_def changed_workflow_def last_of_append1)
qed

text \<open>
  What can happen to the stored workflows: the administrator adds, changes and deletes them, always
  with a definition that passed the schema, and the service restarts.
\<close>

datatype workflow_edit =
    AddWorkflow jsstr int workflow_form | ChangeWorkflow jsstr int workflow_form | DropWorkflow jsstr | Restart int

fun apply_edit :: "workflow_edit \<Rightarrow> agent_db \<Rightarrow> agent_db" where
  "apply_edit (AddWorkflow i now f) s = snd (createWorkflowRecord i now f s)"
| "apply_edit (ChangeWorkflow i now f) s = snd (updateWorkflowRecord now i f s)"
| "apply_edit (DropWorkflow i) s = deleteWorkflowRecord i s"
| "apply_edit (Restart now) s = initializeDatabase now s"

fun valid_edit :: "workflow_edit \<Rightarrow> bool" where
  "valid_edit (AddWorkflow i now f) = valid_definition (wi_definition f)"
| "valid_edit (ChangeWorkflow i now f) = valid_definition (wi_definition f)"
| "valid_edit _ = True"

lemma seeds_valid:
  "valid_definition defaultWorkflow" "valid_definition securityWorkflow"
  "list_all (\<lambda>p. valid_definition (wp_definition p)) workflowPresets"
  by code_simp+

lemma good_seeds: "list_all good_workflow (seed_workflows now)"
  using seeds_valid by (simp add: seed_workflows_def seed_workflow_def list.pred_map o_def) (simp add: list_all_iff good_new_workflow)

lemma workflows_initialized:
  "workflows (initializeDatabase now s) = fold (insert_or_ignore (\<lambda>a b. wf_id a = wf_id b)) (seed_workflows now) (workflows s)"
proof -
  have "workflows (fold add_seed ws s') = fold (insert_or_ignore (\<lambda>a b. wf_id a = wf_id b)) ws (workflows s')" for ws s'
    by (induction ws arbitrary: s') (simp_all add: add_seed_def)
  then show ?thesis by (simp add: initializeDatabase_def Let_def)
qed

lemma good_inserted: "list_all good_workflow ws \<Longrightarrow> list_all good_workflow rows \<Longrightarrow>
    list_all good_workflow (fold (insert_or_ignore c) ws rows)"
  by (induction ws arbitrary: rows) (simp_all add: insert_or_ignore_def)

lemma good_edit:
  assumes "list_all good_workflow (workflows s)" "valid_edit x"
  shows "list_all good_workflow (workflows (apply_edit x s))"
proof (cases x)
  case (ChangeWorkflow i now f)
  show ?thesis
  proof (cases "getWorkflow i s")
    case (Some w)
    then have "w \<in> set (workflows s)" unfolding getWorkflow_def by (blast dest: head_option_filterD)
    then have "good_workflow (changed_workflow now f w)"
      using assms ChangeWorkflow by (auto simp: list_all_iff intro: good_changed_workflow)
    then show ?thesis using assms ChangeWorkflow Some
      by (simp add: updateWorkflowRecord_def Let_def list_all_update_where)
  qed (use assms ChangeWorkflow in \<open>simp add: updateWorkflowRecord_def\<close>)
qed (use assms in \<open>simp_all add: createWorkflowRecord_def deleteWorkflowRecord_def Let_def good_new_workflow
    list_all_delete_where workflows_initialized good_inserted good_seeds\<close>)

text \<open>
  C23. Whatever the administrator does to the workflows, and however often the service restarts, every
  stored workflow has a definition that passes the schema (so the bounds of loops hold when it is
  compiled), and so has every definition in its history. The history is the last thirty versions
  before the current one, numbered without a gap.
\<close>

theorem workflow_history:
  assumes "list_all valid_edit edits"
  shows "list_all good_workflow (workflows (fold apply_edit edits empty_db))"
proof -
  have "list_all good_workflow (workflows s) \<Longrightarrow> list_all good_workflow (workflows (fold apply_edit edits s))" for s
    using assms by (induction edits arbitrary: s) (simp_all add: good_edit)
  then show ?thesis by (simp add: empty_db_def)
qed

definition demo_form :: "string \<Rightarrow> workflow_form" where
  [js_eval]: "demo_form prompt = \<lparr>wi_name = js ''w'', wi_description = None,
     wi_definition = \<lparr>wd_version = 2, wd_steps = [prompted_step ''a'' (js ''a'') AgentStep (js prompt)]\<rparr>,
     wi_enabled = Some True, wi_tags = None, wi_schedule = None, wi_triggers = None, wi_inputs = None\<rparr>"

theorem workflow_history_witness:
  "list_all good_workflow (workflows (fold apply_edit [Restart 1, AddWorkflow (js ''w'') 2 (demo_form ''x''),
     ChangeWorkflow (js ''w'') 3 (demo_form ''y'')] empty_db))
   \<and> map (\<lambda>w. (wf_version w, map vr_version (wf_versions w))) (workflows (fold apply_edit
       [AddWorkflow (js ''w'') 2 (demo_form ''x''), ChangeWorkflow (js ''w'') 3 (demo_form ''y'')] empty_db)) = [(2, [1])]"
proof -
  have v: "valid_definition (wi_definition (demo_form ''x''))" "valid_definition (wi_definition (demo_form ''y''))"
    by code_simp+
  have "list_all valid_edit [Restart 1, AddWorkflow (js ''w'') 2 (demo_form ''x''), ChangeWorkflow (js ''w'') 3 (demo_form ''y'')]"
    using v by simp
  from workflow_history [OF this] show ?thesis by (rule conjI) code_simp
qed

end
