(* ===== verification/Evidence_Store.thy ===== *)
theory Evidence_Store
  imports Memory_Store
begin

section \<open>Evidence (\<open>evidence.ts\<close>)\<close>

text \<open>
  Every tool result, document and analysis of a conversation is captured as evidence: sanitized, hashed,
  scored, scanned for injections, related to the other evidence of its thread and audited. Users accept,
  reject, select and annotate it; accepted evidence is written to the memory. The operations are in the
  order of the source; fresh identifiers come from a supply and the clock is read once per operation.
\<close>

subsection \<open>Scores\<close>

definition evidence_unit :: "nat \<Rightarrow> bool" where
  [js_eval]: "evidence_unit u \<longleftrightarrow> 97 \<le> u \<and> u \<le> 122 \<or> 48 \<le> u \<and> u \<le> 57 \<or> is_cjk u"

definition evidenceTokens :: "jsstr \<Rightarrow> jsstr list" where
  [js_eval]: "evidenceTokens s = token_list evidence_unit (to_lower s)"

interpretation evidence_words: token_source evidenceTokens
  by unfold_locales (simp add: evidenceTokens_def)

definition evidence_similarity :: "jsstr \<Rightarrow> jsstr \<Rightarrow> rat" where
  [js_eval]: "evidence_similarity l r = jaccard (evidenceTokens l) (evidenceTokens r)"

definition evidence_content :: "platform \<Rightarrow> jsval \<Rightarrow> serialized" where
  [js_eval]: "evidence_content pf v = serializeContent pf 160000 v"

fun source_reliability :: "evidence_source \<Rightarrow> int" where
  "source_reliability SrcSsh = 96"
| "source_reliability SrcTelemetry = 92"
| "source_reliability SrcAlert = 88"
| "source_reliability SrcService = 86"
| "source_reliability SrcDashboard = 78"
| "source_reliability SrcMcp = 72"
| "source_reliability SrcWorkflow = 64"
| "source_reliability SrcDocument = 68"
| "source_reliability SrcUrl = 60"

fun source_directness :: "evidence_source \<Rightarrow> int" where
  "source_directness SrcSsh = 100"
| "source_directness SrcTelemetry = 96"
| "source_directness SrcAlert = 88"
| "source_directness SrcService = 88"
| "source_directness SrcDashboard = 72"
| "source_directness SrcMcp = 74"
| "source_directness SrcWorkflow = 58"
| "source_directness SrcDocument = 64"
| "source_directness SrcUrl = 52"

definition dataQuality :: "platform \<Rightarrow> jsval \<Rightarrow> bool \<Rightarrow> int" where
  [js_eval]: "dataQuality pf v truncated =
     (if truncated then 68
      else case v of
        Null \<Rightarrow> 30
      | Undef \<Rightarrow> 30
      | Arr vs \<Rightarrow> if vs = [] then 48 else 92
      | Obj kvs \<Rightarrow> if kvs = [] then 48 else 90
      | _ \<Rightarrow> if trim (text_of pf v) = [] then 30 else 82)"

fun source_cue :: "evidence_source \<Rightarrow> regex" where
  "source_cue SrcTelemetry = (alts [lit_ci [25351, 26631], lit_ci [26085, 24535], lit_ci [38142, 36335], lit_ci (js
      ''trace''), lit_ci (js ''metric''), lit_ci (js ''log''), lit_ci [24310, 36831], lit_ci
      [38169, 35823, 29575], lit_ci [21534, 21520], lit_ci (js ''i/o''), lit_ci (js ''io'')])"
| "source_cue SrcService = (alts [lit_ci [26381, 21153], lit_ci [24212, 29992], lit_ci (js ''service''), lit_ci [36827,
      31243], lit_ci [23454, 20363], lit_ci [20581, 24247]])"
| "source_cue SrcAlert = (alts [lit_ci [21578, 35686], lit_ci [24322, 24120], lit_ci [39118, 38505], lit_ci (js
      ''alert''), lit_ci [25925, 38556]])"
| "source_cue SrcDashboard = (alts [lit_ci [20202, 34920, 30424], lit_ci [36235, 21183], lit_ci [35270, 22270], lit_ci (js
      ''dashboard'')])"
| "source_cue SrcSsh = (alts [lit_ci [20027, 26426], lit_ci [31995, 32479], lit_ci [30913, 30424], lit_ci [20869,
      23384], lit_ci [31471, 21475], lit_ci [36827, 31243], lit_ci [26085, 24535], lit_ci [37197,
      32622], lit_ci (js ''ssh''), lit_ci (js ''linux'')])"
| "source_cue SrcMcp = (alts [lit_ci [24037, 20855], lit_ci [25554, 20214], lit_ci (js ''mcp''), lit_ci [22806,
      37096]])"
| "source_cue SrcWorkflow = (alts [lit_ci [32467, 35770], lit_ci [20998, 26512], lit_ci [26681, 22240], lit_ci [39564,
      35777], lit_ci (js ''loop''), lit_ci [27969, 31243]])"
| "source_cue SrcDocument = (alts [lit_ci [38468, 20214], lit_ci [25991, 26723], lit_ci [25991, 20214], lit_ci [37197,
      32622]])"
| "source_cue SrcUrl = (alts [lit_ci [38142, 25509], lit_ci [32593, 39029], lit_ci [26469, 28304], lit_ci (js
      ''url'')])"

definition sourceCueMatch :: "jsstr \<Rightarrow> evidence_source \<Rightarrow> jsstr \<Rightarrow> int" where
  [js_eval]: "sourceCueMatch query ty name =
     (if re_test (source_cue ty) query then 100 else if 0 < evidence_similarity query name then 62 else 38)"

record score_input =
  sn_query :: jsstr
  sn_type :: evidence_source
  sn_name :: jsstr
  sn_title :: jsstr
  sn_summary :: jsstr
  sn_content :: jsval
  sn_truncated :: bool
  sn_completed :: bool

definition calculateEvidenceScores :: "platform \<Rightarrow> score_input \<Rightarrow> int \<times> int \<times> score_factors" where
  [js_eval]: "calculateEvidenceScores pf i =
     (let serialized = take 20000 (json_text pf (sn_content i));
          lexical = clampScore (evidence_similarity (sn_query i)
            (sn_title i @ [32] @ sn_summary i @ [32] @ serialized) * 100);
          f = \<lparr>sf_reliability = source_reliability (sn_type i), sf_quality = dataQuality pf (sn_content i) (sn_truncated i),
            sf_freshness = 100, sf_integrity = (if sn_completed i then 100 else 45),
            sf_directness = source_directness (sn_type i), sf_lexical = lexical\<rparr>;
          confidence = clampScore (of_int (sf_reliability f) * (34 / 100) + of_int (sf_quality f) * (24 / 100)
            + of_int (sf_freshness f) * (12 / 100) + of_int (sf_integrity f) * (18 / 100)
            + of_int (sf_directness f) * (12 / 100));
          relevance = clampScore (of_int lexical * (62 / 100)
            + of_int (sourceCueMatch (sn_query i) (sn_type i) (sn_name i)) * (38 / 100))
      in (confidence, relevance, f))"

subsection \<open>Describing tool results\<close>

definition records_text :: "nat \<Rightarrow> jsstr" where
  [js_eval]: "records_text n = ([36820, 22238] @ js '' '') @ nat_digits n @ (js '' '' @ [39033, 32467, 26500, 21270, 35760, 24405, 12290])"

definition summaryFor :: "platform \<Rightarrow> jsval \<Rightarrow> jsstr" where
  [js_eval]: "summaryFor pf v =
     (case v of
        Arr vs \<Rightarrow> if vs \<noteq> [] then records_text (length vs) else [26597, 35810, 25104, 21151, 65292, 20294, 26410, 36820, 22238, 35760, 24405, 12290]
      | Str s \<Rightarrow> or_default (take 180 (trim (re_replace (some space) [32] (redactString s)))) [36820, 22238, 31354, 25991, 26412, 12290]
      | Obj kvs \<Rightarrow>
          (case get_prop kvs (js ''data'') of
             Arr vs \<Rightarrow> if vs \<noteq> [] then records_text (length vs) else [26597, 35810, 25104, 21151, 65292, 20294, 25968, 25454, 38598, 21512, 20026, 31354, 12290]
           | _ \<Rightarrow> (let keys = take 6 (filter (\<lambda>k. k \<noteq> js ''a2ui'') (map fst kvs))
                  in if keys \<noteq> [] then [36820, 22238, 32467, 26500, 21270, 23383, 27573, 65306] @ str_join [12289] keys @ [12290]
                     else [36820, 22238, 32467, 26500, 21270, 31354, 23545, 35937, 12290]))
      | _ \<Rightarrow> take 180 ([36820, 22238, 20540, 65306] @ (if v = Undef \<or> v = Null then [31354] else text_of pf v)))"

definition sourceTypeForTool :: "jsstr \<Rightarrow> evidence_source" where
  [js_eval]: "sourceTypeForTool tool =
     (let name = to_lower tool; has = (\<lambda>w. str_includes name (js w))
      in if has ''ssh'' then SrcSsh
         else if has ''query-signals'' \<or> has ''querysignals'' then SrcTelemetry
         else if has ''list-services'' \<or> has ''listservices'' then SrcService
         else if has ''list-alerts'' \<or> has ''listalerts'' then SrcAlert
         else if has ''list-dashboards'' \<or> has ''listdashboards'' then SrcDashboard
         else SrcMcp)"

text \<open>
  The table of other names is an object literal, so a name that every object inherits is found there
  too and is not a string: \<open>None\<close> stands for it.
\<close>

definition tool_aliases :: "(jsstr \<times> jsstr) list" where
  [js_eval]: "tool_aliases = map (\<lambda>(a, b). (js a, js b)) [(''listServices'', ''list-services''), (''listAlerts'', ''list-alerts''),
     (''listDashboards'', ''list-dashboards''), (''querySignals'', ''query-signals''),
     (''sshReadonlyInspect'', ''ssh-readonly-inspect''), (''sshExecuteCommand'', ''ssh-execute-command''),
     (''listEvidence'', ''list-evidence''), (''getEvidenceChain'', ''get-evidence-chain'')]"

text \<open>The prefix of the server, in any case of letters, with an underscore or a hyphen.\<close>

definition without_server :: "jsstr \<Rightarrow> jsstr" where
  [js_eval]: "without_server tool =
     (if to_lower (take 4 tool) = js ''scry'' \<and> take 1 (drop 4 tool) \<in> {[95], [45]} then drop 5 tool else tool)"

definition canonicalToolName :: "jsstr \<Rightarrow> jsstr option" where
  [js_eval]: "canonicalToolName tool =
     (let name = without_server tool
      in case map_of tool_aliases name of
           Some other \<Rightarrow> Some other
         | None \<Rightarrow> if name \<in> set inherited_names then None else Some name)"

definition tool_labels :: "(jsstr \<times> jsstr) list" where
  [js_eval]: "tool_labels = map (\<lambda>(a, b). (js a, b)) [(''list-services'', [26381, 21153, 29366, 24577, 35777, 25454]), (''listServices'', [26381, 21153, 29366, 24577, 35777, 25454]),
     (''list-alerts'', [21578, 35686, 35777, 25454]), (''listAlerts'', [21578, 35686, 35777, 25454]),
     (''list-dashboards'', [20202, 34920, 30424, 35777, 25454]), (''listDashboards'', [20202, 34920, 30424, 35777, 25454]),
     (''query-signals'', [21487, 35266, 27979, 20449, 21495, 35777, 25454]), (''querySignals'', [21487, 35266, 27979, 20449, 21495, 35777, 25454]),
     (''ssh-readonly-inspect'', [20027, 26426, 21482, 35835, 24033, 26816, 35777, 25454]), (''sshReadonlyInspect'', [20027, 26426, 21482, 35835, 24033, 26816, 35777, 25454]),
     (''ssh-execute-command'', [21463, 25511, 25805, 20316, 32467, 26524, 35777, 25454]), (''sshExecuteCommand'', [21463, 25511, 25805, 20316, 32467, 26524, 35777, 25454])]"

definition toolTitle :: "jsstr \<Rightarrow> jsstr" where
  [js_eval]: "toolTitle tool = (case map_of tool_labels tool of Some label \<Rightarrow> label | None \<Rightarrow> ([24037, 20855, 35777, 25454] @ js '' '' @ [183] @ js '' '') @ tool)"

subsection \<open>Reading\<close>

record evidence_item =
  ei_row :: evidence_row
  ei_relations :: "evidence_relation list"
  ei_actions :: "evidence_action list"

definition hydrateEvidence :: "evidence_row list \<Rightarrow> agent_db \<Rightarrow> evidence_item list" where
  [js_eval]: "hydrateEvidence items s =
     (case items of
        [] \<Rightarrow> []
      | first # _ \<Rightarrow>
          (let ids = map ev_id items; thread = ev_thread first;
               relations = sort_by (\<lambda>a b. er_created a \<le> er_created b) (filter (\<lambda>r. er_thread r = thread) (evidence_relations s));
               actions = sort_by (\<lambda>a b. ea_created a \<le> ea_created b) (filter (\<lambda>r. ea_thread r = thread) (evidence_actions s))
           in map (\<lambda>e. \<lparr>ei_row = e,
                ei_relations = filter (\<lambda>r. er_from r \<in> set ids \<and> er_to r \<in> set ids \<and> (er_from r = ev_id e \<or> er_to r = ev_id e))
                  relations,
                ei_actions = filter (\<lambda>a. ea_evidence a = ev_id e) actions\<rparr>) items))"

definition listEvidence :: "jsstr \<Rightarrow> jsstr \<Rightarrow> agent_db \<Rightarrow> evidence_item list" where
  [js_eval]: "listEvidence thread org s = hydrateEvidence (sort_by (\<lambda>a b. ev_captured b \<le> ev_captured a)
     (filter (\<lambda>e. ev_thread e = thread \<and> ev_org e = org) (evidence_items s))) s"

definition getEvidenceByIds :: "jsstr \<Rightarrow> jsstr \<Rightarrow> jsstr list \<Rightarrow> agent_db \<Rightarrow> evidence_item list" where
  [js_eval]: "getEvidenceByIds thread org ids s =
     (if ids = [] then [] else filter (\<lambda>i. ev_id (ei_row i) \<in> set ids) (listEvidence thread org s))"

subsection \<open>Relations\<close>

definition evidence_words_of :: "platform \<Rightarrow> evidence_row \<Rightarrow> jsstr" where
  [js_eval]: "evidence_words_of pf e = ev_title e @ [32] @ ev_summary e @ [32] @ take 10000 (json_text pf (ev_content e))"

definition evidence_relation_between ::
    "platform \<Rightarrow> evidence_row \<Rightarrow> evidence_row \<Rightarrow> (evidence_relation_type \<times> int \<times> jsstr) option" where
  [js_eval]: "evidence_relation_between pf e other =
     (let same = (ev_trace other = ev_trace e);
          similarity = evidence_similarity (evidence_words_of pf e) (evidence_words_of pf other)
      in if ev_source e = SrcWorkflow \<and> same \<and> ev_source other \<noteq> SrcWorkflow then
           Some (RelDerivedFrom, 100, [35813, 20998, 26512, 32467, 26524, 30001, 21516, 19968, 25191, 34892, 38142, 20013, 30340,
      21407, 22987, 35777, 25454, 27966, 29983, 12290])
         else if same then Some (RelSameTrace, 100, [20004, 39033, 35777, 25454, 26469, 33258, 21516, 19968, 27425, 35786, 26029, 25110, 25191,
      34892, 38142, 12290])
         else if 34 / 100 \<le> similarity \<and> ev_source e \<noteq> ev_source other then
           Some (RelCorroborates, clampScore (similarity * 100), [19981, 21516, 26469, 28304, 21253, 21547, 39640, 24230, 30456, 20284, 30340, 23454, 20307,
      25110, 29366, 24577, 20449, 24687, 12290])
         else if 18 / 100 \<le> similarity then
           Some (RelRelated, clampScore (similarity * 100), [35777, 25454, 20869, 23481, 19982, 24403, 21069, 35777, 25454, 23384, 22312, 21487, 35299,
      37322, 30340, 35821, 20041, 37325, 21512, 12290])
         else None)"

definition evidence_relation_conflict :: "evidence_relation \<Rightarrow> evidence_relation \<Rightarrow> bool" where
  [js_eval]: "evidence_relation_conflict a b \<longleftrightarrow> er_id a = er_id b \<or> er_from a = er_from b \<and> er_to a = er_to b \<and> er_type a = er_type b"

definition createRelations :: "platform \<Rightarrow> (nat \<Rightarrow> jsstr) \<Rightarrow> int \<Rightarrow> evidence_row \<Rightarrow> agent_db \<Rightarrow> agent_db" where
  [js_eval]: "createRelations pf fresh now e s =
     s\<lparr>evidence_relations := foldl (\<lambda>rows (k, other). case evidence_relation_between pf e other of
           None \<Rightarrow> rows
         | Some (ty, score, why) \<Rightarrow> insert_or_ignore evidence_relation_conflict
             \<lparr>er_id = fresh k, er_thread = ev_thread e, er_from = ev_id e, er_to = ev_id other, er_type = ty,
              er_score = score, er_rationale = why, er_created = now\<rparr> rows)
       (evidence_relations s)
       (enumerate 0 (take 200 (sort_by (\<lambda>a b. ev_captured b \<le> ev_captured a)
         (filter (\<lambda>r. ev_thread r = ev_thread e \<and> ev_id r \<noteq> ev_id e) (evidence_items s)))))\<rparr>"

subsection \<open>Capturing\<close>

record capture_input =
  ci_context :: capture_context
  ci_message :: jsstr
  ci_type :: evidence_source
  ci_name :: jsstr
  ci_heading :: jsstr
  ci_given :: jsstr
  ci_value :: jsval
  ci_completed :: bool

definition suspension_note :: "injection_result \<Rightarrow> jsstr" where
  [js_eval]: "suspension_note r = [31995, 32479, 33258, 21160, 25346, 36215, 65306, 26816, 27979, 21040, 28508, 22312, 35777,
      25454, 27880, 20837, 65288] @
     str_join [65307] (map ir_description (in_findings r)) @ [65289, 12290]"

text \<open>The scan and the row of a capture.\<close>

definition capture_scan :: "platform \<Rightarrow> capture_input \<Rightarrow> injection_result" where
  [js_eval]: "capture_scan pf i = detectPromptInjection pf (sr_json (evidence_content pf (ci_value i)))"

definition new_evidence_row :: "platform \<Rightarrow> jsstr \<Rightarrow> int \<Rightarrow> auth_user \<Rightarrow> capture_input \<Rightarrow> evidence_row" where
  [js_eval]: "new_evidence_row pf eid now u i =
     (let serialized = evidence_content pf (ci_value i);
          summary = or_default (ci_given i) (summaryFor pf (sr_content serialized));
          (confidence, relevance, factors) = calculateEvidenceScores pf
            \<lparr>sn_query = ctx_query (ci_context i), sn_type = ci_type i, sn_name = ci_name i, sn_title = ci_heading i,
             sn_summary = summary, sn_content = sr_content serialized, sn_truncated = sr_truncated serialized,
             sn_completed = ci_completed i\<rparr>;
          injection = capture_scan pf i; bad = in_detected injection
      in \<lparr>ev_id = eid, ev_thread = ctx_thread (ci_context i), ev_org = user_org u, ev_user = user_id u,
          ev_trace = ctx_trace (ci_context i), ev_message = ci_message i, ev_source = ci_type i,
          ev_source_name = ci_name i, ev_title = ci_heading i, ev_summary = summary,
          ev_content = sr_stored serialized, ev_hash = sha256 pf (sr_json serialized),
          ev_confidence = (if bad then min confidence 35 else confidence), ev_relevance = relevance,
          ev_factors = factors, ev_status = (if bad then EvSuspended else EvActive), ev_selected = (\<not> bad),
          ev_note = (if bad then suspension_note injection else []), ev_captured = now, ev_updated = now\<rparr>)"

text \<open>The unique index of the table.\<close>

definition evidence_key :: "evidence_row \<Rightarrow> jsstr \<times> jsstr \<times> jsstr \<times> jsstr" where
  [js_eval]: "evidence_key e = (ev_thread e, ev_trace e, ev_source_name e, ev_hash e)"

definition evidence_conflict :: "evidence_row \<Rightarrow> evidence_row \<Rightarrow> bool" where
  [js_eval]: "evidence_conflict a b \<longleftrightarrow> ev_id a = ev_id b \<or> evidence_key a = evidence_key b"

definition addEvidenceAction ::
    "evidence_row \<Rightarrow> auth_user \<Rightarrow> int \<Rightarrow> jsstr \<Rightarrow> evidence_status \<Rightarrow> evidence_status \<Rightarrow> jsstr \<Rightarrow> agent_db \<Rightarrow> agent_db" where
  [js_eval]: "addEvidenceAction e u now action previous next note s =
     s\<lparr>evidence_actions := evidence_actions s @ [\<lparr>ea_evidence = ev_id e, ea_thread = ev_thread e, ea_user = user_id u,
        ea_action = action, ea_previous = previous, ea_next = next, ea_note = note, ea_created = now\<rparr>]\<rparr>"

definition thread_in_org :: "jsstr \<Rightarrow> jsstr \<Rightarrow> agent_db \<Rightarrow> bool" where
  [js_eval]: "thread_in_org i org s \<longleftrightarrow> list_ex (\<lambda>t. th_id t = i \<and> th_org t = org) (threads s)"

definition suspension_event :: "auth_user \<Rightarrow> int \<Rightarrow> evidence_row \<Rightarrow> injection_result \<Rightarrow> security_event" where
  [js_eval]: "suspension_event u now e injection =
     \<lparr>se_trace = ev_trace e, se_org = user_org u, se_user = user_id u, se_type = js ''evidence.auto_suspended'',
      se_source = AuEvidence, se_target = ev_id e, se_decision = Some Deny, se_risk = in_score injection, se_hash = ev_hash e,
      se_details = Obj [(js ''findings'', Arr (map finding_value (in_findings injection))),
        (js ''sourceType'', Str (source_text (ev_source e))), (js ''sourceName'', Str (ev_source_name e))], se_at = now\<rparr>"

definition recordEvidence ::
    "platform \<Rightarrow> (nat \<Rightarrow> jsstr) \<Rightarrow> int \<Rightarrow> auth_user \<Rightarrow> capture_input \<Rightarrow> agent_db \<Rightarrow> evidence_item option \<times> agent_db" where
  [js_eval]: "recordEvidence pf fresh now u i s =
     (if ctx_thread (ci_context i) = [] then (None, s)
      else if \<not> thread_in_org (ctx_thread (ci_context i)) (user_org u) s then (None, s)
      else
        (let row = new_evidence_row pf (fresh 0) now u i; injection = capture_scan pf i;
             created = (\<not> list_ex (evidence_conflict row) (evidence_items s));
             s = s\<lparr>evidence_items := insert_or_ignore evidence_conflict row (evidence_items s)\<rparr>
         in case head_option (filter (\<lambda>e. evidence_key e = evidence_key row) (evidence_items s)) of
              None \<Rightarrow> (None, s)
            | Some e \<Rightarrow>
                (let s = (if created then
                       (let s = addEvidenceAction e u now (if in_detected injection then js ''auto_suspended'' else js ''captured'')
                              (ev_status row) (ev_status row) (ev_note row) s;
                            s = (if in_detected injection then addSecurityAuditEvent (suspension_event u now e injection) s else s)
                        in createRelations pf (\<lambda>k. fresh (Suc k)) now e s)
                     else s)
                 in (head_option (hydrateEvidence [e] s), s))))"

subsection \<open>Curating\<close>

record evidence_patch =
  ep_status :: "evidence_status option"
  ep_selected :: "bool option"
  ep_note :: "jsstr option"

fun evidence_status_text :: "evidence_status \<Rightarrow> jsstr" where
  "evidence_status_text EvActive = js ''active''"
| "evidence_status_text EvAccepted = js ''accepted''"
| "evidence_status_text EvRejected = js ''rejected''"
| "evidence_status_text EvSuspended = js ''suspended''"

definition patched_status :: "evidence_patch \<Rightarrow> evidence_row \<Rightarrow> evidence_status" where
  [js_eval]: "patched_status p e = (case ep_status p of None \<Rightarrow> ev_status e | Some st \<Rightarrow> st)"

definition patched_selected :: "evidence_patch \<Rightarrow> evidence_row \<Rightarrow> bool" where
  [js_eval]: "patched_selected p e =
     (if patched_status p e = EvRejected \<or> patched_status p e = EvSuspended then False
      else case ep_selected p of None \<Rightarrow> ev_selected e | Some b \<Rightarrow> b)"

definition patched_note :: "evidence_patch \<Rightarrow> evidence_row \<Rightarrow> jsstr" where
  [js_eval]: "patched_note p e = (case ep_note p of None \<Rightarrow> ev_note e | Some t \<Rightarrow> take 4000 (trim t))"

definition patch_actions :: "evidence_patch \<Rightarrow> evidence_row \<Rightarrow> jsstr list" where
  [js_eval]: "patch_actions p e =
     (case ep_status p of
        Some st \<Rightarrow> if st \<noteq> ev_status e then [if st = EvActive then js ''restored'' else evidence_status_text st] else []
      | None \<Rightarrow> []) @
     (if ep_selected p \<noteq> None \<and> patched_selected p e \<noteq> ev_selected e
      then [if patched_selected p e then js ''selected'' else js ''unselected''] else []) @
     (if ep_note p \<noteq> None \<and> patched_note p e \<noteq> ev_note e then [js ''noted''] else [])"

definition evidence_event :: "auth_user \<Rightarrow> int \<Rightarrow> evidence_row \<Rightarrow> evidence_patch \<Rightarrow> jsstr \<Rightarrow> security_event" where
  [js_eval]: "evidence_event u now e p action =
     \<lparr>se_trace = ev_trace e, se_org = user_org u, se_user = user_id u, se_type = js ''evidence.'' @ action,
      se_source = AuEvidence, se_target = ev_id e, se_decision = None, se_risk = 0, se_hash = ev_hash e,
      se_details = Obj [(js ''threadId'', Str (ev_thread e)), (js ''previousStatus'', Str (evidence_status_text (ev_status e))),
        (js ''nextStatus'', Str (evidence_status_text (patched_status p e))), (js ''selected'', JBool (patched_selected p e))],
      se_at = now\<rparr>"

definition log_patch :: "auth_user \<Rightarrow> int \<Rightarrow> evidence_row \<Rightarrow> evidence_patch \<Rightarrow> jsstr \<Rightarrow> agent_db \<Rightarrow> agent_db" where
  [js_eval]: "log_patch u now e p action s =
     addSecurityAuditEvent (evidence_event u now e p action)
       (addEvidenceAction e u now action (ev_status e) (patched_status p e)
         (if action = js ''noted'' then patched_note p e else []) s)"

definition logged_actions :: "evidence_patch \<Rightarrow> evidence_row \<Rightarrow> jsstr list" where
  [js_eval]: "logged_actions p e = (if patch_actions p e = [] then [js ''updated''] else patch_actions p e)"

definition patch_evidence :: "int \<Rightarrow> evidence_patch \<Rightarrow> evidence_row \<Rightarrow> evidence_row \<Rightarrow> evidence_row" where
  [js_eval]: "patch_evidence now p cur e = e\<lparr>ev_status := patched_status p cur, ev_selected := patched_selected p cur,
     ev_note := patched_note p cur, ev_updated := now\<rparr>"

text \<open>A failure to write the memory is caught and logged; what the database holds by then stays.\<close>

definition updateEvidence ::
    "platform \<Rightarrow> (nat \<Rightarrow> jsstr) \<Rightarrow> int \<Rightarrow> jsstr \<Rightarrow> auth_user \<Rightarrow> evidence_patch \<Rightarrow> agent_db \<Rightarrow> evidence_item option \<times> agent_db" where
  [js_eval]: "updateEvidence pf fresh now i u p s =
     (case head_option (filter (\<lambda>e. ev_id e = i \<and> ev_org e = user_org u) (evidence_items s)) of
        None \<Rightarrow> (None, s)
      | Some cur \<Rightarrow>
          (let s = s\<lparr>evidence_items := update_where (\<lambda>e. ev_id e = ev_id cur) (patch_evidence now p cur) (evidence_items s)\<rparr>;
               s = fold (log_patch u now cur p) (logged_actions p cur) s;
               updated = head_option (getEvidenceByIds (ev_thread cur) (user_org u) [ev_id cur] s)
           in case updated of
                None \<Rightarrow> (None, s)
              | Some item \<Rightarrow>
                  if ev_status cur \<noteq> EvAccepted \<and> ev_status (ei_row item) = EvAccepted
                  then (Some item, snd (learnMemoryFromEvidence pf fresh now u (ei_row item) s))
                  else (Some item, s)))"

definition recordEvidenceRevision ::
    "jsstr \<Rightarrow> int \<Rightarrow> auth_user \<Rightarrow> jsstr \<Rightarrow> jsstr \<Rightarrow> jsstr list \<Rightarrow> jsstr list \<Rightarrow> jsstr \<Rightarrow> agent_db \<Rightarrow> jsstr \<times> agent_db" where
  [js_eval]: "recordEvidenceRevision i now u thread message selected excluded instruction s =
     (let s = s\<lparr>evidence_revisions := evidence_revisions s @ [\<lparr>rv_id = i, rv_thread = thread, rv_org = user_org u,
            rv_user = user_id u, rv_message = message, rv_selected = selected, rv_excluded = excluded,
            rv_instruction = instruction, rv_created = now\<rparr>]\<rparr>
      in (i, fold (\<lambda>eid s. fold (\<lambda>e. addEvidenceAction e u now (js ''used_for_revision'') (ev_status e) (ev_status e) instruction)
             (filter (\<lambda>e. ev_id e = eid) (evidence_items s)) s) selected s))"

subsection \<open>Ingesting a message\<close>

definition non_evidence_tools :: "jsstr list" where
  [js_eval]: "non_evidence_tools = map js [''publish-plan'', ''publishPlan'', ''evaluate-security-intent'', ''evaluateSecurityIntent'',
     ''list-evidence'', ''listEvidence'', ''get-evidence-chain'', ''getEvidenceChain'', ''search-memory'', ''searchMemory'',
     ''remember'', ''inspect-memory'', ''inspectMemory'', ''maintain-memory'', ''maintainMemory'', ''forget-memory'', ''forgetMemory'']"

definition direct_capture_tools :: "jsstr list" where
  [js_eval]: "direct_capture_tools = map js [''list-services'', ''list-alerts'', ''list-dashboards'', ''query-signals'',
     ''ssh-readonly-inspect'', ''ssh-execute-command'']"

text \<open>\<open>a || b || 'default'\<close> over the properties of a part, as a text.\<close>

fun first_truthy :: "platform \<Rightarrow> (jsstr \<times> jsval) list \<Rightarrow> jsstr list \<Rightarrow> jsstr \<Rightarrow> jsstr" where
  "first_truthy pf part [] d = d"
| "first_truthy pf part (k # ks) d =
     (if truthy (get_prop part k) then text_of pf (get_prop part k) else first_truthy pf part ks d)"

datatype part_plan = SkipPart | FailPart | CapturePart capture_input

definition plan_capture ::
    "capture_context \<Rightarrow> jsstr \<Rightarrow> evidence_source \<Rightarrow> jsstr \<Rightarrow> jsstr \<Rightarrow> jsval \<Rightarrow> bool \<Rightarrow> part_plan" where
  [js_eval]: "plan_capture x message ty name heading v completed =
     CapturePart \<lparr>ci_context = x, ci_message = message, ci_type = ty, ci_name = name, ci_heading = heading, ci_given = [],
       ci_value = v, ci_completed = completed\<rparr>"

definition tool_part_output :: "(jsstr \<times> jsval) list \<Rightarrow> jsval" where
  [js_eval]: "tool_part_output part =
     (case get_prop part (js ''output'') of
        Obj kvs \<Rightarrow> if js ''data'' \<in> fst ` set kvs then get_prop kvs (js ''data'') else Obj kvs
      | v \<Rightarrow> v)"

text \<open>What a part of the message asks for; \<open>FailPart\<close> is the type error of a tool name that is no string.\<close>

definition plan_part :: "platform \<Rightarrow> capture_context \<Rightarrow> jsstr \<Rightarrow> bool \<Rightarrow> jsval \<Rightarrow> part_plan" where
  [js_eval]: "plan_part pf x message builtins v =
     (case v of
        Obj part \<Rightarrow>
          (let ty = first_truthy pf part [js ''type''] [] in
           if ty = js ''source-url'' then
             plan_capture x message SrcUrl (first_truthy pf part [js ''url''] (js ''url''))
               (first_truthy pf part [js ''title'', js ''url''] [32593, 39029, 26469, 28304]) v True
           else if ty = js ''source-document'' then
             plan_capture x message SrcDocument (first_truthy pf part [js ''filename'', js ''title''] (js ''document''))
               (first_truthy pf part [js ''title'', js ''filename''] [25991, 26723, 26469, 28304]) v True
           else if starts_with ty (js ''tool-'') \<or> ty = js ''dynamic-tool'' then
             (let given = first_truthy pf part [js ''toolName'']
                    (if starts_with ty (js ''tool-'') then drop 5 ty else js ''external-tool'')
              in case canonicalToolName given of
                   None \<Rightarrow> if get_prop part (js ''output'') = Undef then SkipPart else FailPart
                 | Some tool \<Rightarrow>
                     if tool \<in> set non_evidence_tools \<or> \<not> builtins \<and> tool \<in> set direct_capture_tools
                        \<or> get_prop part (js ''output'') = Undef then SkipPart
                     else plan_capture x message (sourceTypeForTool tool) tool (toolTitle tool) (tool_part_output part)
                            (first_truthy pf part [js ''state''] [] \<noteq> js ''output-error''))
           else if ty = js ''data-scry-workflow-step'' then
             (let data = (case get_prop part (js ''data'') of Obj kvs \<Rightarrow> kvs | _ \<Rightarrow> [])
              in if get_prop data (js ''status'') \<noteq> Str (js ''completed'') \<or> get_prop data (js ''detail'') = Undef
                    \<or> first_truthy pf data [js ''stepType''] [] \<notin> set (map js [''agent'', ''verify'', ''operation''])
                 then SkipPart
                 else plan_capture x message SrcWorkflow (js ''workflow:'' @ first_truthy pf data [js ''stepId''] (js ''step''))
                        (first_truthy pf data [js ''title''] (js ''Loop '' @ [20998, 26512, 35777, 25454])) (get_prop data (js ''detail'')) True)
           else SkipPart)
      | _ \<Rightarrow> SkipPart)"

text \<open>The parts one after another; the first failure ends the loop and what was captured stays.\<close>

fun ingest_parts ::
    "platform \<Rightarrow> (nat \<Rightarrow> nat \<Rightarrow> jsstr) \<Rightarrow> int \<Rightarrow> auth_user \<Rightarrow> part_plan list \<Rightarrow> nat \<Rightarrow> agent_db \<Rightarrow> bool \<times> agent_db" where
  "ingest_parts pf fresh now u [] k s = (True, s)"
| "ingest_parts pf fresh now u (p # ps) k s =
     (case p of
        SkipPart \<Rightarrow> ingest_parts pf fresh now u ps (Suc k) s
      | FailPart \<Rightarrow> (False, s)
      | CapturePart i \<Rightarrow> ingest_parts pf fresh now u ps (Suc k) (snd (recordEvidence pf (fresh k) now u i s)))"

definition message_parts :: "(jsstr \<times> jsval) list \<Rightarrow> jsval list" where
  [js_eval]: "message_parts message = (case get_prop message (js ''parts'') of Arr vs \<Rightarrow> vs | _ \<Rightarrow> [])"

definition ingestEvidenceFromUIMessage ::
    "platform \<Rightarrow> (nat \<Rightarrow> nat \<Rightarrow> jsstr) \<Rightarrow> int \<Rightarrow> auth_user \<Rightarrow> capture_context \<Rightarrow> (jsstr \<times> jsval) list \<Rightarrow> bool \<Rightarrow>
       agent_db \<Rightarrow> bool \<times> agent_db" where
  [js_eval]: "ingestEvidenceFromUIMessage pf fresh now u x message builtins s =
     ingest_parts pf fresh now u
       (map (plan_part pf x (first_truthy pf message [js ''id''] []) builtins) (message_parts message)) 0 s"

end
