(* ===== verification/Scry_Calls.thy ===== *)
theory Scry_Calls
  imports Evidence_Store
begin

section \<open>Calls of the query service (\<open>tools/scry.ts\<close>)\<close>

text \<open>
  \<open>callScry\<close>, the one way the tools and the workflow steps read from the query service. The service
  itself, its answers and \<open>JSON.parse\<close> on them are not code of this repository: the record
  \<open>gateway\<close> holds them. The lemmas give the frame of a call and its audit trail.
\<close>

subsection \<open>The gateway\<close>

text \<open>An answer of \<open>fetch\<close>: a network error, or a status with the text of the body.\<close>

record gateway =
  gw_fetch :: "jsstr \<Rightarrow> jsstr \<Rightarrow> jsstr \<Rightarrow> jsstr + (nat \<times> jsstr)"
  gw_parse :: "jsstr \<Rightarrow> jsstr + jsval"
  gw_limit :: nat
  gw_elapsed :: int

text \<open>\<open>Buffer.byteLength\<close>: the bytes of the UTF-8 form; a lone surrogate becomes three bytes.\<close>

fun utf8_length :: "jsstr \<Rightarrow> nat" where
  "utf8_length [] = 0"
| "utf8_length [u] = (if u < 128 then 1 else if u < 2048 then 2 else 3)"
| "utf8_length (u # v # s) =
     (if 55296 \<le> u \<and> u < 56320 \<and> 56320 \<le> v \<and> v < 57344 then 4 + utf8_length s
      else (if u < 128 then 1 else if u < 2048 then 2 else 3) + utf8_length (v # s))"

record http_init =
  hi_method :: jsstr
  hi_body :: jsstr

record evidence_label =
  el_type :: evidence_source
  el_name :: jsstr
  el_title :: jsstr

subsection \<open>A call\<close>

text \<open>\<open>None\<close> is the path \<open>undefined\<close>, which only an unknown operation gives.\<close>

definition call_event ::
    "auth_user \<Rightarrow> int \<Rightarrow> jsstr \<Rightarrow> jsstr option \<Rightarrow> jsstr \<Rightarrow> string \<Rightarrow> security_decision \<Rightarrow> int \<Rightarrow> jsval \<Rightarrow> security_event" where
  [js_eval]: "call_event u now trace path hash ty decision risk details =
     \<lparr>se_trace = trace, se_org = user_org u, se_user = user_id u, se_type = js ty, se_source = AuMcp,
      se_target = (case path of None \<Rightarrow> [] | Some p \<Rightarrow> p), se_decision = Some decision, se_risk = risk,
      se_hash = hash, se_details = details, se_at = now\<rparr>"

text \<open>What the call makes of the answer of the service.\<close>

definition read_answer :: "gateway \<Rightarrow> jsstr + (nat \<times> jsstr) \<Rightarrow> jsstr + (jsstr \<times> jsval)" where
  [js_eval]: "read_answer g answer =
     (case answer of
        Inl e \<Rightarrow> Inl e
      | Inr (status, body) \<Rightarrow>
          if \<not> (200 \<le> status \<and> status < 300) then Inl (js ''Scry API '' @ nat_digits status @ js '': '' @ take 500 body)
          else if gw_limit g < length body then Inl ([24037, 20855, 32467, 26524, 36807, 22823, 65292, 35831, 32553, 23567, 26597, 35810, 33539,
      22260])
          else if body = [] then Inr (body, Null)
          else (case gw_parse g body of Inl e \<Rightarrow> Inl e | Inr v \<Rightarrow> Inr (body, v)))"

definition record_answer ::
    "platform \<Rightarrow> (nat \<Rightarrow> jsstr) \<Rightarrow> int \<Rightarrow> auth_user \<Rightarrow> capture_context option \<Rightarrow> evidence_label option \<Rightarrow> jsval \<Rightarrow>
       agent_db \<Rightarrow> agent_db" where
  [js_eval]: "record_answer pf fresh now u x label v s =
     (case (x, label) of
        (Some x, Some l) \<Rightarrow> snd (recordEvidence pf fresh now u \<lparr>ci_context = x, ci_message = [], ci_type = el_type l,
            ci_name = el_name l, ci_heading = el_title l, ci_given = [], ci_value = v, ci_completed = True\<rparr> s)
      | _ \<Rightarrow> s)"

definition call_verb :: "http_init option \<Rightarrow> jsstr" where
  [js_eval]: "call_verb init = (case init of None \<Rightarrow> js ''GET'' | Some i \<Rightarrow> or_default (hi_method i) (js ''GET''))"

definition call_hash :: "platform \<Rightarrow> jsstr option \<Rightarrow> http_init option \<Rightarrow> jsstr" where
  [js_eval]: "call_hash pf path init = securityInputHash pf (Obj
     [(js ''path'', case path of None \<Rightarrow> Undef | Some p \<Rightarrow> Str p),
      (js ''method'', Str (call_verb init)),
      (js ''body'', Str (case init of None \<Rightarrow> [] | Some x \<Rightarrow> hi_body x))])"

definition fetch_answer :: "gateway \<Rightarrow> jsstr option \<Rightarrow> http_init option \<Rightarrow> jsstr + (jsstr \<times> jsval)" where
  [js_eval]: "fetch_answer g path init = read_answer g (gw_fetch g (call_verb init)
     (case path of None \<Rightarrow> js ''undefined'' | Some p \<Rightarrow> p) (case init of None \<Rightarrow> [] | Some i \<Rightarrow> hi_body i))"

definition answer_event :: "gateway \<Rightarrow> (string \<Rightarrow> security_decision \<Rightarrow> int \<Rightarrow> jsval \<Rightarrow> security_event) \<Rightarrow>
    jsstr + (jsstr \<times> jsval) \<Rightarrow> security_event" where
  [js_eval]: "answer_event g event answer =
     (case answer of
        Inr (body, v) \<Rightarrow> event ''tool.execution.completed'' Allow 10
          (Obj [(js ''durationMs'', Num (of_int (gw_elapsed g))), (js ''responseBytes'', Num (of_nat (utf8_length body)))])
      | Inl e \<Rightarrow> event ''tool.execution.failed'' Deny 30
          (Obj [(js ''durationMs'', Num (of_int (gw_elapsed g))), (js ''error'', Str (take 300 e))]))"

definition callScry ::
    "platform \<Rightarrow> gateway \<Rightarrow> jsstr \<Rightarrow> (nat \<Rightarrow> jsstr) \<Rightarrow> int \<Rightarrow> auth_user \<Rightarrow> jsstr option \<Rightarrow> http_init option \<Rightarrow>
       capture_context option \<Rightarrow> evidence_label option \<Rightarrow> agent_db \<Rightarrow> (jsstr + jsval) \<times> agent_db" where
  [js_eval]: "callScry pf g uuid fresh now u path init x label s =
     (let event = call_event u now (or_default (case x of None \<Rightarrow> [] | Some c \<Rightarrow> ctx_trace c) uuid) path (call_hash pf path init);
          s = addSecurityAuditEvent (event ''tool.execution.started'' Allow 10
                (Obj [(js ''method'', Str (call_verb init))])) s;
          answer = fetch_answer g path init;
          s = addSecurityAuditEvent (answer_event g event answer) s
      in case answer of
           Inr (body, v) \<Rightarrow> (Inr v, record_answer pf fresh now u x label v s)
         | Inl e \<Rightarrow> (Inl e, s))"

subsection \<open>The read operations\<close>

datatype read_operation = ReadServices | ReadAlerts | ReadDashboards

fun read_path :: "read_operation \<Rightarrow> jsstr" where
  "read_path ReadServices = js ''/api/v1/services/list''"
| "read_path ReadAlerts = js ''/api/v1/alerts''"
| "read_path ReadDashboards = js ''/api/v1/dashboards''"

fun read_label :: "read_operation \<Rightarrow> evidence_label" where
  "read_label ReadServices = \<lparr>el_type = SrcService, el_name = js ''list-services'', el_title = [26381, 21153, 29366, 24577, 35777, 25454]\<rparr>"
| "read_label ReadAlerts = \<lparr>el_type = SrcAlert, el_name = js ''list-alerts'', el_title = [21578, 35686, 35777, 25454]\<rparr>"
| "read_label ReadDashboards = \<lparr>el_type = SrcDashboard, el_name = js ''list-dashboards'', el_title = [20202, 34920, 30424, 35777, 25454]\<rparr>"

definition executeScryReadOperation ::
    "platform \<Rightarrow> gateway \<Rightarrow> jsstr \<Rightarrow> (nat \<Rightarrow> jsstr) \<Rightarrow> int \<Rightarrow> auth_user \<Rightarrow> read_operation option \<Rightarrow>
       capture_context option \<Rightarrow> agent_db \<Rightarrow> (jsstr + jsval) \<times> agent_db" where
  [js_eval]: "executeScryReadOperation pf g uuid fresh now u op x s =
     callScry pf g uuid fresh now u (map_option read_path op) None x (map_option read_label op) s"

subsection \<open>Frame and audit trail\<close>


text \<open>
  The tables of the control plane: hosts, policies, workflows, runs and settings. Reading,
  capturing evidence and learning leave them alone.
\<close>

definition control_part where
  "control_part s = (ssh_hosts s, tool_policies s, ssh_audits s, simulation_settings s, workflows s, workflow_runs s,
     mcp_servers s, model_settings s)"

lemma control_audit [simp]: "control_part (addSecurityAuditEvent e s) = control_part s"
  by (simp add: control_part_def)

lemma control_record [simp]: "control_part (snd (recordEvidence pf fresh now u i s)) = control_part s"
  by (simp add: recordEvidence_def Let_def control_part_def createRelations_def addEvidenceAction_def split: option.splits)

lemma record_log: "\<exists>es. security_events (snd (recordEvidence pf fresh now u i s)) = security_events s @ es"
  by (simp add: recordEvidence_def Let_def createRelations_def addEvidenceAction_def split: option.splits)

lemma control_call [simp]: "control_part (snd (callScry pf g uuid fresh now u path init x label s)) = control_part s"
  by (simp add: callScry_def Let_def record_answer_def split: sum.splits option.splits prod.splits)

text \<open>Every call opens with one event and closes with exactly one that tells its outcome.\<close>

definition is_call_log :: "jsstr + jsval \<Rightarrow> security_event list \<Rightarrow> bool" where
  "is_call_log r es \<longleftrightarrow>
     (case es of
        a # b # _ \<Rightarrow> se_type a = js ''tool.execution.started'' \<and> se_trace a = se_trace b \<and> se_hash a = se_hash b
          \<and> (case r of Inl _ \<Rightarrow> se_type b = js ''tool.execution.failed'' \<and> se_decision b = Some Deny
              | Inr _ \<Rightarrow> se_type b = js ''tool.execution.completed'' \<and> se_decision b = Some Allow)
      | _ \<Rightarrow> False)"

lemma record_answer_log: "\<exists>es. security_events (record_answer pf fresh now u x label v s) = security_events s @ es"
  using record_log [of pf fresh now u] by (simp add: record_answer_def split: option.splits)

lemma call_log:
  "\<exists>es. security_events (snd (callScry pf g uuid fresh now u path init x label s)) = security_events s @ es
     \<and> is_call_log (fst (callScry pf g uuid fresh now u path init x label s)) es"
proof (cases "fetch_answer g path init")
  case (Inl m)
  then show ?thesis by (simp add: callScry_def Let_def is_call_log_def call_event_def answer_event_def)
next
  case (Inr bv)
  obtain body v where bv: "bv = (body, v)" by (cases bv)
  let ?ev = "call_event u now (or_default (case x of None \<Rightarrow> [] | Some c \<Rightarrow> ctx_trace c) uuid) path (call_hash pf path init)"
  define a where "a = ?ev ''tool.execution.started'' Allow 10 (Obj [(js ''method'', Str (call_verb init))])"
  define b where "b = answer_event g ?ev (Inr bv)"
  have call: "callScry pf g uuid fresh now u path init x label s =
      (Inr v, record_answer pf fresh now u x label v (addSecurityAuditEvent b (addSecurityAuditEvent a s)))"
    using Inr bv by (simp add: callScry_def Let_def a_def b_def)
  obtain es where "security_events (record_answer pf fresh now u x label v (addSecurityAuditEvent b (addSecurityAuditEvent a s))) =
      (security_events s @ [a] @ [b]) @ es"
    using record_answer_log [of pf fresh now u x label v "addSecurityAuditEvent b (addSecurityAuditEvent a s)"] by auto
  then have "security_events (snd (callScry pf g uuid fresh now u path init x label s)) = security_events s @ a # b # es"
    by (simp add: call)
  moreover have "is_call_log (Inr v) (a # b # es)"
    by (simp add: is_call_log_def a_def b_def bv call_event_def answer_event_def)
  ultimately show ?thesis unfolding call fst_conv by blast
qed

end
