(* ===== verification/Workflow_Run.thy ===== *)
theory Workflow_Run
  imports Workflow_Records Scry_Calls
begin

section \<open>Running a workflow (\<open>workflows/compiler.ts\<close>)\<close>

text \<open>
  What the steps of a compiled workflow do when the engine executes them: the notices they send to
  the stream of the client, the row of the run they keep up to date, the audit events of approvals,
  and the final step that stores the answer and learns from a verified run. Which step the engine
  executes next, with which input and how often, is decided by the engine, so the theorems hold for
  every order: \<open>engine_step\<close> is the relation of all executions of any step.
\<close>

subsection \<open>The environment\<close>

text \<open>
  Agents and the tools of MCP servers are parameters: an agent answers a prompt with a text or an
  error, a tool of the connected servers is missing or gives data or an error; either may write to
  the database through the tools it calls.
\<close>

datatype tool_answer = ToolsUnreachable jsstr | NoSuchTool | ToolError jsstr | ToolData jsval

record run_world =
  rw_agent :: "agent_mode \<Rightarrow> jsstr \<Rightarrow> agent_db \<Rightarrow> (jsstr + jsstr) \<times> agent_db"
  rw_tool :: "jsstr \<Rightarrow> jsval \<Rightarrow> agent_db \<Rightarrow> tool_answer \<times> agent_db"
  rw_gateway :: gateway

record run_env =
  re_workflow :: workflow_row
  re_user :: auth_user
  re_thread :: jsstr
  re_run :: jsstr

record moment =
  mm_now :: int
  mm_uuid :: jsstr
  mm_fresh :: "nat \<Rightarrow> jsstr"

subsection \<open>The stream and the row of the run\<close>

datatype notice_status = NoticeRunning | NoticeCompleted | NoticeSuspended | NoticeFailed

datatype notice =
    StepNotice (nt_run: jsstr) (nt_step: jsstr) (nt_title: jsstr) (nt_type: step_type) (nt_status: notice_status) (nt_detail: jsval)
  | ResultNotice (nt_run: jsstr) (nt_text: jsstr)

type_synonym run_io = "notice list \<times> agent_db"

definition publishStep :: "jsstr \<Rightarrow> step_info \<Rightarrow> notice_status \<Rightarrow> jsval \<Rightarrow> run_io \<Rightarrow> run_io" where
  [js_eval]: "publishStep run i status detail x = (fst x @ [StepNotice run (si_id i) (si_name i) (si_type i) status detail], snd x)"

definition on_db :: "(agent_db \<Rightarrow> agent_db) \<Rightarrow> run_io \<Rightarrow> run_io" where
  [js_eval]: "on_db f x = (fst x, f (snd x))"

text \<open>The patches the steps write: a status, the state of one step and, for approvals, the suspended step.\<close>

definition step_patch :: "run_status \<Rightarrow> step_info \<Rightarrow> string \<Rightarrow> (jsstr \<times> jsval) list \<Rightarrow> jsstr option \<Rightarrow> run_patch" where
  [js_eval]: "step_patch status i word rest suspended =
     \<lparr>pp_status = Some status, pp_output = None, pp_step = si_id i,
      pp_state = Obj (put_all [(js ''status'', Str (js word))] rest), pp_suspended = suspended\<rparr>"

definition track :: "run_env \<Rightarrow> moment \<Rightarrow> run_patch \<Rightarrow> run_io \<Rightarrow> run_io" where
  [js_eval]: "track e t p = on_db (updateWorkflowRunRecord (mm_now t) (re_run e) p)"

definition int_num :: "int \<Rightarrow> jsval" where
  [js_eval]: "int_num n = Num (of_int n)"

subsection \<open>Control steps\<close>

definition controlMarker :: "run_env \<Rightarrow> moment \<Rightarrow> step_info \<Rightarrow> jsstr \<Rightarrow> wf_context \<Rightarrow> run_io \<Rightarrow> wf_context \<times> run_io" where
  [js_eval]: "controlMarker e t i suffix c x =
     (let word = (if suffix = js ''start'' then ''running'' else ''completed'');
          x = publishStep (re_run e) i (if suffix = js ''start'' then NoticeRunning else NoticeCompleted) Undef x
      in (c, track e t (step_patch RunRunning i word [(js ''updatedAt'', int_num (mm_now t))] None) x))"

fun mode_word :: "control_mode \<Rightarrow> string" where
  "mode_word BranchMode = ''branch''"
| "mode_word ParallelMode = ''parallel''"
| "mode_word LoopMode = ''loop''"
| "mode_word ForeachMode = ''foreach''"

definition normalizeControlOutput ::
    "run_env \<Rightarrow> moment \<Rightarrow> step_info \<Rightarrow> control_mode \<Rightarrow> jsval \<Rightarrow> run_io \<Rightarrow> (jsstr + wf_context) \<times> run_io" where
  [js_eval]: "normalizeControlOutput e t i m v x =
     (case (if m = ParallelMode \<or> m = ForeachMode then Some (mergeContexts v) else asContext v) of
        None \<Rightarrow> (Inl ([25511, 21046, 33410, 28857, 8220] @ si_name i @ [8221, 27809, 26377, 20135, 29983, 26377, 25928, 19978, 19979, 25991]), x)
      | Some c \<Rightarrow>
          (let mode = Str (js (mode_word m));
               x = publishStep (re_run e) i NoticeCompleted (Obj [(js ''mode'', mode)]) x
           in (Inr c, track e t (step_patch RunRunning i ''completed''
                [(js ''completedAt'', int_num (mm_now t)), (js ''mode'', mode)] None) x)))"

definition prepareForeachStep :: "step_info \<Rightarrow> loop_info \<Rightarrow> wf_context \<Rightarrow> jsstr + wf_context list" where
  [js_eval]: "prepareForeachStep i l c =
     (case foreach_items i l c of
        None \<Rightarrow> Inl ((js ''foreach '' @ [25968, 25454, 36335, 24452, 8220]) @ or_else (lo_source l) (js ''undefined'') @ [8221, 19981, 26159, 25968, 32452])
      | Some cs \<Rightarrow> Inr cs)"

subsection \<open>Leaf steps\<close>

text \<open>How an execution ends: with a context, suspended with a message, or with an error.\<close>

datatype step_result = Finished wf_context | Suspended jsstr jsstr | Broken jsstr

definition with_result :: "step_info \<Rightarrow> jsval \<Rightarrow> wf_context \<Rightarrow> wf_context" where
  [js_eval]: "with_result i v c = c\<lparr>cx_results := put_prop (cx_results c) (si_id i) v\<rparr>"

definition complete_step ::
    "run_env \<Rightarrow> moment \<Rightarrow> step_info \<Rightarrow> jsval \<Rightarrow> (jsstr \<times> jsval) list \<Rightarrow> jsstr option \<Rightarrow> run_io \<Rightarrow> run_io" where
  [js_eval]: "complete_step e t i detail rest suspended x =
     track e t (step_patch RunRunning i ''completed'' ((js ''completedAt'', int_num (mm_now t)) # rest) suspended)
       (publishStep (re_run e) i NoticeCompleted detail x)"

definition approval_event :: "platform \<Rightarrow> run_env \<Rightarrow> moment \<Rightarrow> step_info \<Rightarrow> wf_context \<Rightarrow> string \<Rightarrow>
    security_decision \<Rightarrow> (jsstr \<times> jsval) list \<Rightarrow> security_event" where
  [js_eval]: "approval_event pf e t i c ty decision rest =
     \<lparr>se_trace = re_run e, se_org = user_org (re_user e), se_user = user_id (re_user e), se_type = js ty,
      se_source = AuWorkflow, se_target = si_id i, se_decision = Some decision, se_risk = 70,
      se_hash = securityInputHash pf (Obj [(js ''workflowId'', Str (wf_id (re_workflow e))),
        (js ''stepId'', Str (si_id i)), (js ''input'', context_value c)]),
      se_details = Obj ([(js ''workflowId'', Str (wf_id (re_workflow e))), (js ''stepName'', Str (si_name i))] @ rest),
      se_at = mm_now t\<rparr>"

definition approval_message :: "run_env \<Rightarrow> step_info \<Rightarrow> jsstr" where
  [js_eval]: "approval_message e i = or_default (or_else (si_message i) [])
     ((js ''Loop'' @ [8220]) @ wf_name (re_workflow e) @ [8221, 38656, 35201, 20154, 24037, 30830, 35748, 21518, 32487, 32493, 12290])"

text \<open>An approval without a decision suspends the run; with one it passes or fails.\<close>

definition approval_step ::
    "platform \<Rightarrow> run_env \<Rightarrow> moment \<Rightarrow> step_info \<Rightarrow> (bool \<times> jsstr option) option \<Rightarrow> wf_context \<Rightarrow> run_io \<Rightarrow>
       step_result \<times> run_io" where
  [js_eval]: "approval_step pf e t i decision c x =
     (case decision of
        None \<Rightarrow>
          (let message = approval_message e i;
               x = on_db (addSecurityAuditEvent (approval_event pf e t i c ''approval.requested'' RequireApproval [])) x;
               x = publishStep (re_run e) i NoticeSuspended (Obj [(js ''message'', Str message)]) x;
               x = track e t (step_patch RunSuspended i ''suspended'' [(js ''message'', Str message),
                     (js ''suspendedAt'', int_num (mm_now t))] (Some (si_id i))) x
           in (Suspended message (si_id i), x))
      | Some (approved, remark) \<Rightarrow>
          (let said = or_else remark [];
               x = on_db (addSecurityAuditEvent (approval_event pf e t i c
                     (if approved then ''approval.approved'' else ''approval.denied'') (if approved then Allow else Deny)
                     [(js ''hasComment'', JBool (said \<noteq> []))])) x
           in if \<not> approved then (Broken (or_default said (([29992, 25143, 25298, 32477, 20102] @ js '' Loop '' @ [23457, 25209]))), x)
              else (Finished (with_result i (Obj [(js ''approved'', JBool True), (js ''comment'', Str said)]) c),
                    complete_step e t i (Obj [(js ''approved'', JBool True)]) [(js ''approved'', JBool True)] (Some []) x)))"

definition evidence_excerpt :: "platform \<Rightarrow> wf_context \<Rightarrow> jsstr" where
  [js_eval]: "evidence_excerpt pf c = take 50000 (json_text pf (Obj (cx_results c)))"

definition answer_step ::
    "platform \<Rightarrow> run_world \<Rightarrow> run_env \<Rightarrow> moment \<Rightarrow> step_info \<Rightarrow> agent_mode \<Rightarrow> jsstr \<Rightarrow> (jsstr \<times> jsval) list \<Rightarrow>
       wf_context \<Rightarrow> run_io \<Rightarrow> step_result \<times> run_io" where
  [js_eval]: "answer_step pf w e t i mode prompt rest c x =
     (let (answer, s) = rw_agent w mode prompt (snd x); x = (fst x, s)
      in case answer of
           Inl m \<Rightarrow> (Broken m, x)
         | Inr answer_text \<Rightarrow>
             (let found = Obj [(js ''text'', Str answer_text)]
              in (Finished (with_result i found (c\<lparr>cx_text := answer_text\<rparr>)), complete_step e t i found rest None x)))"

definition agent_prompt :: "platform \<Rightarrow> step_info \<Rightarrow> wf_context \<Rightarrow> jsstr" where
  [js_eval]: "agent_prompt pf i c = or_default (or_else (si_prompt i) []) ([26681, 25454, 24050, 26377, 20449, 24687, 32473, 20986, 32467, 35770, 12290])
     @ ([10, 10] @ [29992, 25143, 38382, 39064, 65306]) @ cx_message c @ ([10, 10] @ ([26412, 36718] @ js '' Loop '' @ [21069, 24207, 32467, 26524, 65306])) @ evidence_excerpt pf c"

definition operation_prompt :: "platform \<Rightarrow> step_info \<Rightarrow> wf_context \<Rightarrow> jsstr" where
  [js_eval]: "operation_prompt pf i c = or_default (or_else (si_prompt i) [])
       (if si_type i = OperationStep then [25353, 24050, 23457, 25209, 35745, 21010, 25191, 34892, 25805, 20316, 24182, 36820, 22238,
      32467, 26524, 12290] else [39564, 35777, 25805, 20316, 32467, 26524, 24182, 21028, 26029, 30446, 26631, 26159, 21542,
      36798, 25104, 12290])
     @ ([10, 10] @ [29992, 25143, 38382, 39064, 65306]) @ cx_message c @ ([10, 10] @ [21069, 24207, 32467, 26524, 65306]) @ evidence_excerpt pf c"

fun decision_text :: "security_decision \<Rightarrow> string" where
  "decision_text Allow = ''allow''"
| "decision_text RequireApproval = ''require-approval''"
| "decision_text Deny = ''deny''"

definition decision_fields :: "decision_result \<Rightarrow> (jsstr \<times> jsval) list" where
  [js_eval]: "decision_fields r = [(js ''traceId'', Str (dr_trace r)), (js ''decision'', Str (js (decision_text (dr_decision r)))),
     (js ''riskScore'', int_num (dr_risk r)), (js ''intent'', Str (intent_text (dr_intent r))),
     (js ''reasons'', Arr (map Str (dr_reasons r))), (js ''inputHash'', Str (dr_hash r))]"

definition security_step ::
    "platform \<Rightarrow> run_env \<Rightarrow> moment \<Rightarrow> step_info \<Rightarrow> wf_context \<Rightarrow> run_io \<Rightarrow> step_result \<times> run_io" where
  [js_eval]: "security_step pf e t i c x =
     (let (r, s) = evaluateInputSecurity pf (mm_uuid t) (mm_now t) \<lparr>sx_user = re_user e, sx_text = cx_message c,
            sx_mode = Operate, sx_source = AuWorkflow, sx_thread = [], sx_trace = []\<rparr> (snd x);
          x = (fst x, s)
      in if dr_decision r = Deny then (Broken ([23433, 20840, 20915, 31574, 25298, 32477, 25191, 34892, 65306] @ str_join [65307] (dr_reasons r)), x)
         else (Finished (with_result i (Obj (decision_fields r)) c),
               complete_step e t i (Obj (decision_fields r)) (decision_fields r) None x))"

definition tool_step ::
    "run_world \<Rightarrow> run_env \<Rightarrow> moment \<Rightarrow> step_info \<Rightarrow> wf_context \<Rightarrow> run_io \<Rightarrow> step_result \<times> run_io" where
  [js_eval]: "tool_step w e t i c x =
     (let tool = or_else (si_tool i) []; (answer, s) = rw_tool w tool (or_else (si_input i) (Obj [])) (snd x); x = (fst x, s)
      in case answer of
           ToolsUnreachable m \<Rightarrow> (Broken m, x)
         | NoSuchTool \<Rightarrow> (Broken ((js ''MCP '' @ [24037, 20855, 19981, 23384, 22312, 25110, 19981, 21487, 25191, 34892, 65306]) @ or_default tool [26410, 37197, 32622]), x)
         | ToolError m \<Rightarrow> (Broken m, x)
         | ToolData v \<Rightarrow> (Finished (with_result i v c), complete_step e t i v
             [(js ''toolId'', case si_tool i of None \<Rightarrow> Undef | Some tid \<Rightarrow> Str tid)] None x))"

fun read_operation_of :: "step_type \<Rightarrow> read_operation option" where
  "read_operation_of ServicesStep = Some ReadServices"
| "read_operation_of AlertsStep = Some ReadAlerts"
| "read_operation_of DashboardsStep = Some ReadDashboards"
| "read_operation_of _ = None"

definition run_capture :: "run_env \<Rightarrow> wf_context \<Rightarrow> capture_context" where
  [js_eval]: "run_capture e c = \<lparr>ctx_thread = re_thread e, ctx_trace = re_run e, ctx_query = cx_message c\<rparr>"

definition read_step ::
    "platform \<Rightarrow> run_world \<Rightarrow> run_env \<Rightarrow> moment \<Rightarrow> step_info \<Rightarrow> wf_context \<Rightarrow> run_io \<Rightarrow> step_result \<times> run_io" where
  [js_eval]: "read_step pf w e t i c x =
     (let (answer, s) = executeScryReadOperation pf (rw_gateway w) (mm_uuid t) (mm_fresh t) (mm_now t) (re_user e)
            (read_operation_of (si_type i)) (Some (run_capture e c)) (snd x);
          x = (fst x, s)
      in case answer of
           Inl m \<Rightarrow> (Broken m, x)
         | Inr v \<Rightarrow> (Finished (with_result i v c), complete_step e t i v [] None x))"

definition leaf_body ::
    "platform \<Rightarrow> run_world \<Rightarrow> run_env \<Rightarrow> moment \<Rightarrow> step_info \<Rightarrow> (bool \<times> jsstr option) option \<Rightarrow> wf_context \<Rightarrow> run_io \<Rightarrow>
       step_result \<times> run_io" where
  [js_eval]: "leaf_body pf w e t i decision c x =
     (case si_type i of
        ApprovalStep \<Rightarrow> approval_step pf e t i decision c x
      | AgentStep \<Rightarrow> answer_step pf w e t i Diagnose (agent_prompt pf i c) [] c x
      | SecurityCheckStep \<Rightarrow> security_step pf e t i c x
      | McpToolStep \<Rightarrow> tool_step w e t i c x
      | OperationStep \<Rightarrow> answer_step pf w e t i Operate (operation_prompt pf i c) [(js ''mode'', Str (js ''operate''))] c x
      | VerifyStep \<Rightarrow> answer_step pf w e t i Diagnose (operation_prompt pf i c) [(js ''mode'', Str (js ''diagnose''))] c x
      | _ \<Rightarrow> read_step pf w e t i c x)"

definition fail_step :: "run_env \<Rightarrow> moment \<Rightarrow> step_info \<Rightarrow> jsstr \<Rightarrow> run_io \<Rightarrow> run_io" where
  [js_eval]: "fail_step e t i m x =
     track e t (step_patch RunFailed i ''failed'' [(js ''failedAt'', int_num (mm_now t)), (js ''message'', Str m)] None)
       (publishStep (re_run e) i NoticeFailed (Obj [(js ''message'', Str m)]) x)"

definition execute_leaf ::
    "platform \<Rightarrow> run_world \<Rightarrow> run_env \<Rightarrow> moment \<Rightarrow> step_info \<Rightarrow> (bool \<times> jsstr option) option \<Rightarrow> wf_context \<Rightarrow> run_io \<Rightarrow>
       step_result \<times> run_io" where
  [js_eval]: "execute_leaf pf w e t i decision c x =
     (let retries = Num (of_nat (or_else (si_retries i) 0));
          x = publishStep (re_run e) i NoticeRunning (Obj [(js ''retries'', retries)]) x;
          x = track e t (step_patch RunRunning i ''running'' [(js ''startedAt'', int_num (mm_now t)), (js ''retries'', retries)] None) x;
          (r, x) = leaf_body pf w e t i decision c x
      in case r of Broken m \<Rightarrow> (r, fail_step e t i m x) | _ \<Rightarrow> (r, x))"

subsection \<open>The final step\<close>

definition finished_text :: jsstr where
  [js_eval]: "finished_text = (([26412, 36718] @ js '' Loop '' @ [24050, 25191, 34892, 23436, 25104, 12290]))"

definition result_message :: "run_env \<Rightarrow> moment \<Rightarrow> jsstr \<Rightarrow> (jsstr \<times> jsval) list" where
  [js_eval]: "result_message e t answer =
     [(js ''id'', Str (re_run e @ js ''-result'')), (js ''role'', Str (js ''assistant'')),
      (js ''parts'', Arr [Obj [(js ''type'', Str (js ''text'')), (js ''text'', Str answer)]]),
      (js ''metadata'', Obj [(js ''createdAt'', int_num (mm_now t)), (js ''workflowId'', Str (wf_id (re_workflow e))),
        (js ''runId'', Str (re_run e))])]"

definition run_evidence :: "run_env \<Rightarrow> agent_db \<Rightarrow> evidence_row list" where
  [js_eval]: "run_evidence e s = filter (\<lambda>r. ev_trace r = re_run e) (map ei_row (listEvidence (re_thread e) (user_org (re_user e)) s))"

definition run_outcome :: "run_env \<Rightarrow> jsstr \<Rightarrow> agent_db \<Rightarrow> workflow_outcome" where
  [js_eval]: "run_outcome e answer s = \<lparr>wo_workflow = wf_id (re_workflow e), wo_name = wf_name (re_workflow e), wo_run = re_run e,
     wo_thread = re_thread e, wo_text = answer, wo_evidence = run_evidence e s\<rparr>"

definition finalize :: "platform \<Rightarrow> run_env \<Rightarrow> moment \<Rightarrow> wf_context \<Rightarrow> run_io \<Rightarrow> wf_context \<times> run_io" where
  [js_eval]: "finalize pf e t c x =
     (let answer = or_default (cx_text c) finished_text;
          x = (fst x @ [ResultNotice (re_run e) answer], snd x);
          x = track e t \<lparr>pp_status = Some RunCompleted, pp_output = Some (context_value c), pp_step = [], pp_state = Undef,
                pp_suspended = Some []\<rparr> x;
          x = (if re_thread e = [] then x
               else (let x = on_db (upsertUIMessage pf (mm_uuid t) (mm_now t) (re_thread e) (result_message e t answer)) x
                     in if containsStepType VerifyStep (wd_steps (wf_definition (re_workflow e)))
                        then on_db (\<lambda>s. snd (learnMemoryFromWorkflowOutcome pf (mm_fresh t) (mm_now t) (re_user e)
                               (run_outcome e answer s) s)) x
                        else x))
      in (c\<lparr>cx_text := answer\<rparr>, x))"

end
