(* ===== verification/Memory_Retrieval.thy ===== *)
theory Memory_Retrieval
  imports Memory_Store
begin

section \<open>Retrieval along the service topology (\<open>memory/index.ts\<close>)\<close>

text \<open>
  How memories are found for a question: edges between services are read from the evidence, the paths of
  failing calls from the symptom are enumerated, one of three strategies is chosen, and the listed
  memories are scored and ranked. The edges are also accumulated in a table. The clock is read at the
  start and at the end.
\<close>

subsection \<open>The observed topology\<close>

definition edge_id :: "platform \<Rightarrow> jsstr \<Rightarrow> jsstr \<Rightarrow> jsstr \<Rightarrow> jsstr" where
  [js_eval]: "edge_id pf org from to = sha256 pf (org @ [0] @ from @ [0] @ to)"

definition row_edge_id :: "platform \<Rightarrow> topology_edge \<Rightarrow> jsstr" where
  [js_eval]: "row_edge_id pf r = edge_id pf (te_org r) (te_from r) (te_to r)"

definition observed_row :: "int \<Rightarrow> jsstr \<Rightarrow> jsstr \<Rightarrow> topology_edge option \<Rightarrow> trace_edge \<Rightarrow> topology_edge" where
  [js_eval]: "observed_row now org trace row e =
     (let observations = (case row of None \<Rightarrow> 0 | Some r \<Rightarrow> te_observations r);
          previous = (case row of None \<Rightarrow> 0 | Some r \<Rightarrow> te_rate r);
          errors = (case row of None \<Rightarrow> 0 | Some r \<Rightarrow> te_errors r);
          next = observations + 1
      in \<lparr>te_org = (case row of None \<Rightarrow> org | Some r \<Rightarrow> te_org r),
          te_from = (case row of None \<Rightarrow> tg_from e | Some r \<Rightarrow> te_from r),
          te_to = (case row of None \<Rightarrow> tg_to e | Some r \<Rightarrow> te_to r),
          te_observations = next, te_errors = errors + (if 1 / 10 \<le> tg_rate e then 1 else 0),
          te_rate = (previous * of_int observations + tg_rate e) / of_int next,
          te_confidence = clampScore (min 1 (of_int next / 10) * 100), te_trace = trace, te_observed = now\<rparr>)"

definition observe_edge :: "platform \<Rightarrow> int \<Rightarrow> jsstr \<Rightarrow> jsstr \<Rightarrow> trace_edge \<Rightarrow> topology_edge list \<Rightarrow> topology_edge list" where
  [js_eval]: "observe_edge pf now org trace e rows =
     (let i = edge_id pf org (tg_from e) (tg_to e)
      in case head_option (filter (\<lambda>r. row_edge_id pf r = i) rows) of
        None \<Rightarrow> rows @ [observed_row now org trace None e]
      | Some r \<Rightarrow> update_where (\<lambda>r. row_edge_id pf r = i) (\<lambda>_. observed_row now org trace (Some r) e) rows)"

definition observeTopology :: "platform \<Rightarrow> int \<Rightarrow> jsstr \<Rightarrow> jsstr \<Rightarrow> trace_edge list \<Rightarrow> agent_db \<Rightarrow> agent_db" where
  [js_eval]: "observeTopology pf now org trace edges s =
     s\<lparr>topology_edges := foldl (\<lambda>rows e. observe_edge pf now org trace e rows) (topology_edges s) edges\<rparr>"

subsection \<open>Paths of failing calls\<close>

definition edge_weight :: "platform \<Rightarrow> trace_edge \<Rightarrow> rat" where
  [js_eval]: "edge_weight pf e = tg_rate e * log1p pf (tg_calls e)"

type_synonym adjacency = "(jsstr \<times> trace_edge list) list"

definition adjacency_of :: "platform \<Rightarrow> trace_edge list \<Rightarrow> adjacency" where
  [js_eval]: "adjacency_of pf edges = foldl (\<lambda>m e.
     put_prop m (tg_from e) (sort_by (\<lambda>a b. edge_weight pf b \<le> edge_weight pf a)
       ((case map_of m (tg_from e) of None \<Rightarrow> [] | Some es \<Rightarrow> es) @ [e])))
     [] (filter (\<lambda>e. 1 / 10 \<le> tg_rate e) edges)"

definition outgoing :: "adjacency \<Rightarrow> jsstr \<Rightarrow> jsstr list \<Rightarrow> trace_edge list" where
  [js_eval]: "outgoing adj service path =
     filter (\<lambda>e. tg_to e \<notin> set path) (case map_of adj service of None \<Rightarrow> [] | Some es \<Rightarrow> es)"

text \<open>The walk stops at six services; the number of services still allowed decreases.\<close>

function walk :: "platform \<Rightarrow> adjacency \<Rightarrow> jsstr \<Rightarrow> jsstr list \<Rightarrow> rat \<Rightarrow> (jsstr list \<times> rat) list" where
  "walk pf adj service path weight =
     (if 6 \<le> length path then [(path, weight)]
      else if outgoing adj service path = [] then (if 1 < length path then [(path, weight)] else [])
      else concat (map (\<lambda>e. walk pf adj (tg_to e) (path @ [tg_to e]) (weight + edge_weight pf e))
             (take 3 (outgoing adj service path))))"
  by pat_completeness auto

termination by (relation "measure (\<lambda>(pf, adj, service, path, weight). 6 - length path)") auto

declare walk.simps [simp del]

definition enumeratePaths :: "platform \<Rightarrow> trace_edge list \<Rightarrow> jsstr \<Rightarrow> jsstr list list" where
  [js_eval]: "enumeratePaths pf edges symptom =
     (if symptom = [] then []
      else map fst (take 3 (sort_by (\<lambda>a b. snd b \<le> snd a) (walk pf (adjacency_of pf edges) symptom [symptom] 0))))"

definition chooseSymptomService :: "jsstr \<Rightarrow> evidence_row list \<Rightarrow> trace_edge list \<Rightarrow> jsstr" where
  [js_eval]: "chooseSymptomService query evidence edges =
     (case find (\<lambda>service. str_includes (to_lower query) (to_lower service))
             (uniq (concat (map (\<lambda>e. [tg_from e, tg_to e]) edges))) of
        Some service \<Rightarrow> service
      | None \<Rightarrow>
          (case concat (map (\<lambda>e. take 1 (extractServiceNames (ev_content e)))
                   (filter (\<lambda>e. ev_source e = SrcAlert \<or> ev_source e = SrcService) evidence)) of
             service # _ \<Rightarrow> service
           | [] \<Rightarrow> (case edges of [] \<Rightarrow> [] | e # _ \<Rightarrow> tg_from e)))"

subsection \<open>Scores\<close>

definition same_name :: "jsstr \<Rightarrow> jsstr \<Rightarrow> bool" where
  [js_eval]: "same_name a b \<longleftrightarrow> to_lower a = to_lower b"

fun index_of :: "('a \<Rightarrow> bool) \<Rightarrow> 'a list \<Rightarrow> nat option" where
  "index_of P [] = None"
| "index_of P (x # xs) = (if P x then Some 0 else map_option Suc (index_of P xs))"

definition path_score :: "jsstr \<Rightarrow> jsstr list \<Rightarrow> rat option" where
  [js_eval]: "path_score service path =
     map_option (\<lambda>i. if length path \<le> 1 then 100 else 35 + of_nat i / of_nat (length path - 1) * 65)
       (index_of (same_name service) path)"

definition topologyScore :: "jsstr \<Rightarrow> jsstr list list \<Rightarrow> int \<times> jsstr list" where
  [js_eval]: "topologyScore service paths =
     (let (best, matched) = foldl (\<lambda>(best, matched) path. case path_score service path of
              None \<Rightarrow> (best, matched)
            | Some score \<Rightarrow> if best < score then (score, path) else (best, matched)) (0, []) paths
      in (clampScore best, matched))"

definition signatureScore :: "jsstr \<Rightarrow> jsstr list \<Rightarrow> int \<times> jsstr list" where
  [js_eval]: "signatureScore text signature =
     (if signature = [] then (0, [])
      else (let matches = filter (\<lambda>t. str_includes (to_lower text) (to_lower t)) signature
            in (clampScore (of_nat (length matches) / of_nat (length signature) * 100), matches)))"

subsection \<open>The strategy\<close>

datatype strategy = Topomem | TopomemMp | LexicalFallback

definition terminal_memories :: "jsstr list \<Rightarrow> memory_item list \<Rightarrow> memory_row list" where
  [js_eval]: "terminal_memories path candidates =
     filter (\<lambda>m. same_name (me_service m) (last path)) (map mi_row candidates)"

definition single_support :: "platform \<Rightarrow> jsstr \<Rightarrow> jsstr list \<Rightarrow> memory_row list \<Rightarrow> int" where
  [js_eval]: "single_support pf query signature ms =
     foldl (\<lambda>best m. max best (max (fst (signatureScore (textForMemory pf m) signature))
       (clampScore (denseSimilarity pf query (textForMemory pf m) * 100)))) 0 ms"

definition path_support :: "platform \<Rightarrow> jsstr list \<Rightarrow> memory_item list \<Rightarrow> jsstr list \<Rightarrow> int" where
  [js_eval]: "path_support pf signature candidates path =
     foldl (\<lambda>best m. max best (fst (signatureScore (textForMemory pf m) signature))) 0 (terminal_memories path candidates)"

definition choose_strategy ::
    "platform \<Rightarrow> jsstr \<Rightarrow> jsstr list \<Rightarrow> trace_edge list \<Rightarrow> jsstr list list \<Rightarrow> memory_item list \<Rightarrow>
       strategy \<times> jsstr list list \<times> jsstr" where
  [js_eval]: "choose_strategy pf query signature edges allPaths candidates =
     (case allPaths of
        [] \<Rightarrow> (LexicalFallback, [],
          if edges \<noteq> [] then [26410, 25214, 21040, 20174, 30151, 29366, 26381, 21153, 20986, 21457, 30340, 24322, 24120,
      36335, 24452, 65292, 24050, 22238, 36864, 21040, 35789, 39033, 19982, 23616, 37096, 31264,
      23494, 26816, 32034, 12290]
          else ([24403, 21069, 35777, 25454, 27809, 26377, 21487, 29992] @ js '' Trace '' @ [25299, 25169,
      65292, 24050, 22238, 36864, 21040, 35789, 39033, 19982, 23616, 37096, 31264, 23494, 26816,
      32034, 12290]))
      | [path] \<Rightarrow>
          (let terminal = terminal_memories path candidates
           in if terminal = [] then
                (LexicalFallback, [], [24322, 24120, 36335, 24452, 32456, 31471, 27809, 26377, 21487, 29992, 35760, 24518, 65292,
      24050, 25918, 24323, 25299, 25169, 32422, 26463, 24182, 25191, 34892, 35789, 39033, 22238,
      36864, 12290])
              else if signature \<noteq> [] \<and> single_support pf query signature terminal < 5 then
                (LexicalFallback, [], [24322, 24120, 36335, 24452, 32456, 31471, 32570, 23569, 38169, 35823, 31614, 21517, 25110,
      35821, 20041, 25903, 25345, 65292, 24050, 25191, 34892, 36873, 25321, 24615, 25299, 25169,
      38477, 32423, 12290])
              else (Topomem, [path], []))
      | _ \<Rightarrow>
          (case sort_by (\<lambda>a b. snd b \<le> snd a) (map (\<lambda>path. (path, path_support pf signature candidates path)) allPaths) of
             (p, v) # rest \<Rightarrow>
               (let second = (case rest of [] \<Rightarrow> 0 | (p', w) # _ \<Rightarrow> w)
                in if 0 < v \<and> second < v then (TopomemMp, [p], [])
                   else if v = 0 then
                     (LexicalFallback, [], ([20914, 31361, 36335, 24452, 22343, 32570, 23569, 38169, 35823, 31614, 21517, 25903, 25345,
      65292, 24050, 25191, 34892] @ js '' BM25 '' @ [39118, 26684, 35789, 39033, 22238, 36864,
      12290]))
                   else (TopomemMp, allPaths, []))
           | [] \<Rightarrow> (TopomemMp, allPaths, [])))"

subsection \<open>Ranking\<close>

record chunk_score =
  cs_chunk :: memory_chunk
  cs_lexical :: int
  cs_dense :: int
  cs_signature :: int
  cs_score :: int
  cs_matches :: "jsstr list"

definition score_chunk :: "platform \<Rightarrow> jsstr \<Rightarrow> jsstr list \<Rightarrow> memory_chunk \<Rightarrow> chunk_score" where
  [js_eval]: "score_chunk pf query signature c =
     (let lexical = clampScore (memory_similarity pf query
            (mc_title c @ [32] @ mc_content c @ [32] @ str_join [32] (mc_keywords c)) * 100);
          dense = clampScore (denseSimilarity pf query (mc_title c @ [32] @ mc_content c) * 100);
          sig = signatureScore (mc_title c @ [32] @ mc_content c) signature
      in \<lparr>cs_chunk = c, cs_lexical = lexical, cs_dense = dense, cs_signature = fst sig,
          cs_score = clampScore (of_int lexical * (45 / 100) + of_int dense * (35 / 100) + of_int (fst sig) * (2 / 10)),
          cs_matches = snd sig\<rparr>)"

text \<open>A memory without chunks is scored as one chunk of its whole text.\<close>

definition whole_chunk :: "platform \<Rightarrow> memory_row \<Rightarrow> memory_chunk" where
  [js_eval]: "whole_chunk pf m = \<lparr>mc_id = me_id m, mc_memory = me_id m, mc_index = 0, mc_type = CkSummary,
     mc_title = me_title m, mc_content = textForMemory pf m, mc_hash = me_hash m,
     mc_tokens = length (memoryTokens pf (textForMemory pf m)), mc_keywords = me_keywords m, mc_service = me_service m,
     mc_confidence = me_confidence m, mc_created = me_created m, mc_updated = me_updated m\<rparr>"

record score_parts =
  sp_lexical :: int
  sp_dense :: int
  sp_topology :: int
  sp_signature :: int
  sp_quality :: int
  sp_final :: int

record search_result =
  rs_item :: memory_item
  rs_factors :: score_parts
  rs_path :: "jsstr list"
  rs_matches :: "jsstr list"
  rs_chunks :: "chunk_score list"

definition rs_score :: "search_result \<Rightarrow> int" where
  [js_eval]: "rs_score r = sp_final (rs_factors r)"

definition chunk_scores :: "platform \<Rightarrow> jsstr \<Rightarrow> jsstr list \<Rightarrow> memory_item \<Rightarrow> chunk_score list" where
  [js_eval]: "chunk_scores pf query signature item =
     sort_by (\<lambda>a b. cs_score b \<le> cs_score a)
       (map (score_chunk pf query signature)
         (if mi_chunks item \<noteq> [] then mi_chunks item else [whole_chunk pf (mi_row item)]))"

definition score_memory ::
    "platform \<Rightarrow> jsstr \<Rightarrow> jsstr list \<Rightarrow> strategy \<Rightarrow> jsstr list list \<Rightarrow> memory_item \<Rightarrow> search_result" where
  [js_eval]: "score_memory pf query signature strategy paths item =
     (let m = mi_row item; chunks = chunk_scores pf query signature item;
          lexical = (case chunks of [] \<Rightarrow> 0 | c # _ \<Rightarrow> cs_lexical c);
          dense = (case chunks of [] \<Rightarrow> 0 | c # _ \<Rightarrow> cs_dense c);
          sig = (case chunks of [] \<Rightarrow> 0 | c # _ \<Rightarrow> cs_signature c);
          (topology, path) = topologyScore (me_service m) paths;
          quality = clampScore (of_int (me_confidence m) * (35 / 100) + of_int (me_importance m) * (25 / 100)
            + of_int (me_vitality m) * (3 / 10) + (if me_status m = MemVerified then 10 else 0));
          final = (if strategy = LexicalFallback
            then clampScore (of_int lexical * (46 / 100) + of_int dense * (34 / 100) + of_int sig * (1 / 10)
              + of_int quality * (1 / 10))
            else clampScore (of_int topology * (58 / 100) + of_int sig * (17 / 100) + of_int lexical * (9 / 100)
              + of_int dense * (7 / 100) + of_int quality * (9 / 100)))
      in \<lparr>rs_item = item, rs_factors = \<lparr>sp_lexical = lexical, sp_dense = dense, sp_topology = topology, sp_signature = sig,
             sp_quality = quality, sp_final = final\<rparr>,
          rs_path = path, rs_matches = uniq (concat (map cs_matches chunks)), rs_chunks = take 3 chunks\<rparr>)"

definition result_before :: "search_result \<Rightarrow> search_result \<Rightarrow> bool" where
  [js_eval]: "result_before a b \<longleftrightarrow> (if rs_score a \<noteq> rs_score b then rs_score b < rs_score a
     else me_vitality (mi_row (rs_item b)) \<le> me_vitality (mi_row (rs_item a)))"

definition result_limit :: "int \<Rightarrow> nat" where
  [js_eval]: "result_limit limit = nat (max 1 (min (if limit = 0 then 5 else limit) 30))"

definition ranked ::
    "platform \<Rightarrow> jsstr \<Rightarrow> jsstr list \<Rightarrow> strategy \<Rightarrow> jsstr list list \<Rightarrow> int \<Rightarrow> memory_item list \<Rightarrow> search_result list" where
  [js_eval]: "ranked pf query signature strategy paths limit candidates =
     take (result_limit limit) (sort_by result_before
       (filter (\<lambda>r. 0 < rs_score r \<and> (strategy = LexicalFallback \<or> 0 < sp_topology (rs_factors r)
           \<or> 10 \<le> sp_lexical (rs_factors r)))
         (map (score_memory pf query signature strategy paths) candidates)))"

subsection \<open>The operation\<close>

definition accessed_row :: "int \<Rightarrow> memory_row \<Rightarrow> memory_row" where
  [js_eval]: "accessed_row now m = m\<lparr>me_access := me_access m + 1, me_last_access := now,
     me_vitality := min 100 (me_vitality m + 1), me_updated := now\<rparr>"

definition mark_accessed :: "int \<Rightarrow> search_result list \<Rightarrow> memory_row list \<Rightarrow> memory_row list" where
  [js_eval]: "mark_accessed now results rows =
     foldl (\<lambda>rows r. update_where (\<lambda>m. me_id m = me_id (mi_row (rs_item r))) (accessed_row now) rows) rows results"

text \<open>The result carries the counters of the access, not the new time of the update.\<close>

definition accessed_result :: "int \<Rightarrow> search_result \<Rightarrow> search_result" where
  [js_eval]: "accessed_result now r = r\<lparr>rs_item := (rs_item r)\<lparr>mi_row := (mi_row (rs_item r))\<lparr>
     me_access := me_access (mi_row (rs_item r)) + 1, me_last_access := now,
     me_vitality := min 100 (me_vitality (mi_row (rs_item r)) + 1)\<rparr>\<rparr>\<rparr>"

record retrieval_packet =
  rp_run :: jsstr
  rp_strategy :: strategy
  rp_query :: jsstr
  rp_symptom :: jsstr
  rp_signature :: "jsstr list"
  rp_paths :: "jsstr list list"
  rp_reason :: jsstr
  rp_latency :: int
  rp_results :: "search_result list"

fun strategy_text :: "strategy \<Rightarrow> jsstr" where
  "strategy_text Topomem = js ''topomem''"
| "strategy_text TopomemMp = js ''topomem-mp''"
| "strategy_text LexicalFallback = js ''lexical-fallback''"

definition retrieveMemories ::
    "platform \<Rightarrow> jsstr \<Rightarrow> int \<Rightarrow> int \<Rightarrow> auth_user \<Rightarrow> jsstr \<Rightarrow> memory_context \<Rightarrow> int \<Rightarrow> bool \<Rightarrow> agent_db \<Rightarrow>
       retrieval_packet \<times> agent_db" where
  [js_eval]: "retrieveMemories pf run started now u question x limit inactive s =
     (let query = take 20000 (trim question);
          evidence = usable_evidence (mx_evidence x);
          edges = concat (map (\<lambda>e. extractTraceEdges pf (ev_content e)) evidence);
          symptom = chooseSymptomService query evidence edges;
          allPaths = enumeratePaths pf edges symptom;
          signature = extractErrorSignature pf query evidence;
          s = (if edges \<noteq> [] then observeTopology pf now (user_org u) (mx_trace x) edges s else s);
          (candidates, s) = listMemories pf now
            (plain_query\<lparr>mq_context := x, mq_inactive := inactive, mq_limit := 800\<rparr>) u s;
          (strategy, paths, reason) = choose_strategy pf query signature edges allPaths candidates;
          scored = ranked pf query signature strategy paths limit candidates;
          s = s\<lparr>memory_items := mark_accessed now scored (memory_items s)\<rparr>;
          s = s\<lparr>retrieval_runs := retrieval_runs s @ [\<lparr>rr_id = run, rr_org = user_org u, rr_user = user_id u,
                rr_thread = mx_thread x, rr_trace = mx_trace x, rr_query = query, rr_strategy = strategy_text strategy,
                rr_symptom = symptom, rr_signature = signature, rr_paths = paths, rr_reason = reason,
                rr_candidates = length candidates, rr_returned = map (\<lambda>r. me_id (mi_row (rs_item r))) scored,
                rr_latency = now - started, rr_created = now\<rparr>]\<rparr>
      in (\<lparr>rp_run = run, rp_strategy = strategy, rp_query = query, rp_symptom = symptom, rp_signature = signature,
           rp_paths = paths, rp_reason = reason, rp_latency = now - started,
           rp_results = map (accessed_result now) scored\<rparr>, s))"

definition retrieveMemoryForContext ::
    "platform \<Rightarrow> jsstr \<Rightarrow> int \<Rightarrow> int \<Rightarrow> auth_user \<Rightarrow> capture_context \<Rightarrow> evidence_row list \<Rightarrow> int \<Rightarrow> agent_db \<Rightarrow>
       retrieval_packet \<times> agent_db" where
  [js_eval]: "retrieveMemoryForContext pf run started now u x evidence limit s =
     retrieveMemories pf run started now u (ctx_query x)
       \<lparr>mx_thread = ctx_thread x, mx_workflow = [], mx_trace = ctx_trace x, mx_evidence = evidence\<rparr> limit False s"

subsection \<open>The text for the model\<close>

fun chunk_type_text :: "chunk_type \<Rightarrow> jsstr" where
  "chunk_type_text CkSummary = js ''summary''"
| "chunk_type_text CkObservation = js ''observation''"
| "chunk_type_text CkProcedure = js ''procedure''"
| "chunk_type_text CkEvidence = js ''evidence''"
| "chunk_type_text CkMetadata = js ''metadata''"

definition score_number :: "int \<Rightarrow> jsval" where
  [js_eval]: "score_number n = Num (of_int n)"

definition factors_value :: "score_parts \<Rightarrow> jsval" where
  [js_eval]: "factors_value f = Obj [(js ''lexical'', score_number (sp_lexical f)), (js ''dense'', score_number (sp_dense f)),
     (js ''topology'', score_number (sp_topology f)), (js ''signature'', score_number (sp_signature f)),
     (js ''quality'', score_number (sp_quality f)), (js ''final'', score_number (sp_final f))]"

definition packet_record :: "search_result \<Rightarrow> jsval" where
  [js_eval]: "packet_record r =
     (let m = mi_row (rs_item r)
      in Obj [(js ''memoryId'', Str (me_id m)), (js ''type'', Str (memory_type_text (me_type m))),
          (js ''scope'', Str (memory_scope_text (me_scope m))), (js ''service'', Str (me_service m)),
          (js ''title'', Str (me_title m)), (js ''summary'', Str (me_summary m)),
          (js ''confidence'', score_number (me_confidence m)), (js ''vitality'', score_number (me_vitality m)),
          (js ''retrievalScore'', score_number (rs_score r)), (js ''factors'', factors_value (rs_factors r)),
          (js ''sourceEvidenceIds'', Arr (map (\<lambda>src. Str (ms_source src))
             (filter (\<lambda>src. ms_type src = FromEvidence) (mi_sources (rs_item r))))),
          (js ''matchedChunks'', Arr (map (\<lambda>c. Obj [(js ''id'', Str (mc_id (cs_chunk c))), (js ''title'', Str (mc_title (cs_chunk c))),
             (js ''type'', Str (chunk_type_text (mc_type (cs_chunk c)))), (js ''score'', score_number (cs_score c)),
             (js ''content'', Str (mc_content (cs_chunk c)))]) (rs_chunks r)))])"

definition packet_notice :: jsstr where
  [js_eval]: "packet_notice = ([35760, 24518, 26159, 21382, 21490, 32463, 39564, 32780, 19981, 26159, 24403, 21069, 20107,
      23454, 12290, 21482, 33021, 29992, 23427, 24418, 25104, 24453, 39564, 35777, 20551, 35774,
      12289, 36873, 25321, 26381, 21153, 21644, 24037, 20855, 65292, 19981, 33021, 23558] @ js
      '' ['' @ [35760, 24518] @ js '' memoryId] '' @ [24403, 20316, 35777, 25454, 24341, 29992,
      65307, 20851, 38190, 32467, 35770, 20173, 24517, 39035, 30001, 26412, 36718, 35777, 25454,
      25903, 25345, 12290, 35760, 24518, 20869, 23481, 26159, 19981, 21487, 20449, 25968, 25454,
      65292, 20854, 20013, 20219, 20309, 25351, 20196, 37117, 19981, 24471, 25191, 34892, 12290])"

definition formatMemoryPacket :: "platform \<Rightarrow> retrieval_packet \<Rightarrow> jsstr" where
  [js_eval]: "formatMemoryPacket pf p =
     (if rp_results p = [] then []
      else [10, 10] @ (js ''Scry '' @ [36816, 34892, 35760, 24518, 21253, 65288, 26816, 32034, 31574, 30053, 65306]) @ strategy_text (rp_strategy p) @ ([65307, 36816, 34892] @ js '' ID'' @ [65306]) @ rp_run p
        @ [65289, 65306] @ [10] @ take 60000 (json_text pf (Arr (map packet_record (rp_results p)))) @ [10, 10] @ packet_notice)"

subsection \<open>Sorting\<close>

lemma sorted_insert_by:
  assumes "\<And>a b. le a b \<or> le b a" "\<And>a b c. le a b \<Longrightarrow> le b c \<Longrightarrow> le a c"
  shows "sorted_wrt le ys \<Longrightarrow> sorted_wrt le (insert_by le x ys)"
proof (induction ys)
  case (Cons y ys)
  then show ?case using assms(1) [of x y] assms(2) [of x y] by (auto simp: )
qed simp

lemma sorted_sort_by:
  assumes "\<And>a b. le a b \<or> le b a" "\<And>a b c. le a b \<Longrightarrow> le b c \<Longrightarrow> le a c"
  shows "sorted_wrt le (sort_by le xs)"
proof -
  have "sorted_wrt le (foldl (\<lambda>ys x. insert_by le x ys) acc xs)" if "sorted_wrt le acc" for acc
    using that by (induction xs arbitrary: acc) (simp_all add: sorted_insert_by assms)
  then show ?thesis by (simp add: sort_by_def)
qed

lemma sorted_wrt_take: "sorted_wrt le xs \<Longrightarrow> sorted_wrt le (take n xs)"
  by (metis append_take_drop_id sorted_wrt_append)

subsection \<open>Paths\<close>

definition failing_edge :: "trace_edge list \<Rightarrow> jsstr \<Rightarrow> jsstr \<Rightarrow> bool" where
  [js_eval]: "failing_edge edges a b \<longleftrightarrow> list_ex (\<lambda>e. tg_from e = a \<and> tg_to e = b \<and> 1 / 10 \<le> tg_rate e) edges"

text \<open>Each service of a path calls the next one and fails.\<close>

fun failing_chain :: "trace_edge list \<Rightarrow> jsstr list \<Rightarrow> bool" where
  "failing_chain edges (a # b # path) = (failing_edge edges a b \<and> failing_chain edges (b # path))"
| "failing_chain edges _ = True"

lemma failing_chain_snoc:
  "path \<noteq> [] \<Longrightarrow> failing_chain edges (path @ [b]) \<longleftrightarrow> failing_chain edges path \<and> failing_edge edges (last path) b"
proof (induction edges path rule: failing_chain.induct)
  case (1 edges a c path)
  then show ?case by simp
qed auto

definition edges_at :: "adjacency \<Rightarrow> jsstr \<Rightarrow> trace_edge set" where
  "edges_at m k = set (case map_of m k of None \<Rightarrow> [] | Some es \<Rightarrow> es)"

lemma adjacency_edges:
  "edges_at (adjacency_of pf edges) k = {e \<in> set edges. 1 / 10 \<le> tg_rate e \<and> tg_from e = k}"
proof -
  define step where "step = (\<lambda>m e. put_prop m (tg_from e) (sort_by (\<lambda>a b. edge_weight pf b \<le> edge_weight pf a)
     ((case map_of m (tg_from e) of None \<Rightarrow> [] | Some es \<Rightarrow> es) @ [e])))"
  have one: "edges_at (step m e) k = edges_at m k \<union> (if tg_from e = k then {e} else {})" for m e
    by (auto simp: step_def edges_at_def)
  have "edges_at (foldl step m es) k = edges_at m k \<union> {e \<in> set es. tg_from e = k}" for m es
    by (induction es arbitrary: m) (auto simp: one)
  moreover have "edges_at [] k = {}" by (simp add: edges_at_def)
  ultimately show ?thesis unfolding adjacency_of_def step_def [symmetric] by auto
qed

lemma outgoing_edge:
  "e \<in> set (outgoing (adjacency_of pf edges) service path) \<longleftrightarrow>
     e \<in> set edges \<and> 1 / 10 \<le> tg_rate e \<and> tg_from e = service \<and> tg_to e \<notin> set path"
  using adjacency_edges [of pf edges service] by (auto simp: outgoing_def edges_at_def set_eq_iff)

definition sound_path :: "trace_edge list \<Rightarrow> jsstr \<Rightarrow> jsstr list \<Rightarrow> bool" where
  [js_eval]: "sound_path edges symptom path \<longleftrightarrow> distinct path \<and> length path \<le> 6 \<and> path \<noteq> [] \<and> hd path = symptom
     \<and> failing_chain edges path"

lemma walk_sound:
  assumes "sound_path edges symptom path" "last path = service"
  shows "list_all (\<lambda>(p, w). sound_path edges symptom p \<and> 2 \<le> length p) (walk pf (adjacency_of pf edges) service path weight)"
  using assms
proof (induction pf "adjacency_of pf edges" service path weight rule: walk.induct)
  case (1 pf service path weight)
  let ?out = "outgoing (adjacency_of pf edges) service path"
  show ?case
  proof (cases "6 \<le> length path \<or> ?out = []")
    case True
    then show ?thesis using 1(2) by (subst walk.simps) (auto split: if_splits)
  next
    case False
    have "list_all (\<lambda>(p, w). sound_path edges symptom p \<and> 2 \<le> length p)
        (walk pf (adjacency_of pf edges) (tg_to e) (path @ [tg_to e]) (weight + edge_weight pf e))"
      if "e \<in> set (take 3 ?out)" for e
    proof (rule 1(1))
      have "e \<in> set ?out" using that by (rule in_set_takeD)
      then have e: "e \<in> set edges" "1 / 10 \<le> tg_rate e" "tg_from e = service" "tg_to e \<notin> set path"
        unfolding outgoing_edge by auto
      then have "failing_edge edges (last path) (tg_to e)" using 1(3) by (auto simp: failing_edge_def list_ex_iff)
      then show "sound_path edges symptom (path @ [tg_to e])"
        using 1(2) e(4) False by (auto simp: sound_path_def failing_chain_snoc)
    qed (use False that in auto)
    then show ?thesis using False by (subst walk.simps) (auto simp: list_all_iff)
  qed
qed

lemma walk_nonempty: "2 \<le> length path \<Longrightarrow> walk pf adj service path weight \<noteq> []"
proof (induction pf adj service path weight rule: walk.induct)
  case (1 pf adj service path weight)
  let ?out = "outgoing adj service path"
  show ?case
  proof (cases "6 \<le> length path \<or> ?out = []")
    case True
    then show ?thesis using 1(2) by (subst walk.simps) auto
  next
    case False
    then obtain e rest where "?out = e # rest" by (cases ?out) auto
    then have "e \<in> set (take 3 ?out)" by simp
    with 1 False have "walk pf adj (tg_to e) (path @ [tg_to e]) (weight + edge_weight pf e) \<noteq> []" by simp
    then show ?thesis using False \<open>?out = e # rest\<close> by (subst walk.simps) auto
  qed
qed

text \<open>
  C17. The paths a retrieval follows: at most three, each without a repeated service, of two to six
  services, starting at the symptom and made of calls of the evidence that fail in at least a tenth of
  the cases. There is one exactly where such a call leads from the symptom to another service, so the
  search ends and misses no symptom that has one.
\<close>

theorem enumerated_paths_are_sound:
  "length (enumeratePaths pf edges symptom) \<le> 3
   \<and> list_all (\<lambda>p. sound_path edges symptom p \<and> 2 \<le> length p) (enumeratePaths pf edges symptom)
   \<and> (enumeratePaths pf edges symptom \<noteq> [] \<longleftrightarrow>
        symptom \<noteq> [] \<and> list_ex (\<lambda>e. failing_edge edges symptom (tg_to e) \<and> tg_to e \<noteq> symptom) edges)"
proof (cases "symptom = []")
  case True
  then show ?thesis by (simp add: enumeratePaths_def)
next
  case False
  let ?w = "walk pf (adjacency_of pf edges) symptom [symptom] 0"
  have w: "list_all (\<lambda>(p, w). sound_path edges symptom p \<and> 2 \<le> length p) ?w"
    by (rule walk_sound) (auto simp: sound_path_def)
  have p: "enumeratePaths pf edges symptom = map fst (take 3 (sort_by (\<lambda>a b. snd b \<le> snd a) ?w))"
    using False by (simp add: enumeratePaths_def)
  have "list_all (\<lambda>p. sound_path edges symptom p \<and> 2 \<le> length p) (enumeratePaths pf edges symptom)"
    using w unfolding p list_all_iff by (auto dest!: in_set_takeD)
  moreover have "?w = [] \<longleftrightarrow> outgoing (adjacency_of pf edges) symptom [symptom] = []"
  proof (cases "outgoing (adjacency_of pf edges) symptom [symptom]")
    case (Cons e rest)
    then show ?thesis by (subst walk.simps) (auto simp: walk_nonempty)
  qed (subst walk.simps, simp)
  moreover have "enumeratePaths pf edges symptom = [] \<longleftrightarrow> ?w = []"
    unfolding p by (metis (no_types, lifting) list.map_disc_iff set_empty set_sort_by take_eq_Nil zero_neq_numeral)
  moreover have "outgoing (adjacency_of pf edges) symptom [symptom] = [] \<longleftrightarrow>
      \<not> list_ex (\<lambda>e. failing_edge edges symptom (tg_to e) \<and> tg_to e \<noteq> symptom) edges"
  proof -
    have "outgoing (adjacency_of pf edges) symptom [symptom] \<noteq> [] \<longleftrightarrow>
        (\<exists>e. e \<in> set (outgoing (adjacency_of pf edges) symptom [symptom]))"
      by (simp add: ex_in_conv)
    also have "\<dots> \<longleftrightarrow> (\<exists>e \<in> set edges. failing_edge edges symptom (tg_to e) \<and> tg_to e \<noteq> symptom)"
      unfolding outgoing_edge failing_edge_def list_ex_iff by auto
    finally show ?thesis unfolding list_ex_iff by blast
  qed
  ultimately show ?thesis using False by (auto simp: p)
qed

subsection \<open>Strategy and ranking\<close>

text \<open>
  The contract of a strategy: it falls back to the words exactly where it gives no path, gives a
  reason exactly where it falls back, and otherwise follows paths that were enumerated.
\<close>

lemma set_sorted_pairs: "set (map fst (sort_by le xs)) = fst ` set xs"
  by simp

theorem strategy_contract:
  fixes pf query signature edges allPaths candidates
  defines "r \<equiv> choose_strategy pf query signature edges allPaths candidates"
  shows "(fst r = LexicalFallback \<longleftrightarrow> fst (snd r) = []) \<and> (fst r = LexicalFallback \<longleftrightarrow> snd (snd r) \<noteq> [])
    \<and> set (fst (snd r)) \<subseteq> set allPaths \<and> (if fst r = Topomem then length allPaths = 1 else True)"
proof (cases allPaths)
  case Nil
  then show ?thesis by (simp add: r_def choose_strategy_def)
next
  case (Cons a rest)
  show ?thesis
  proof (cases rest)
    case Nil
    then show ?thesis using Cons by (simp add: r_def choose_strategy_def Let_def)
  next
    case (Cons b more)
    let ?s = "sort_by (\<lambda>a b. snd b \<le> snd a) (map (\<lambda>path. (path, path_support pf signature candidates path)) allPaths)"
    have "length ?s = length allPaths" by simp
    then have "?s \<noteq> []" using \<open>allPaths = a # rest\<close> by (intro notI) (simp only: list.size)
    then obtain pv others where "?s = pv # others" unfolding neq_Nil_conv by blast
    then obtain p v where s: "?s = (p, v) # others" by (cases pv) blast
    then have "(p, v) \<in> set ?s" by simp
    then have p: "p \<in> set allPaths" by auto
    define second where "second = (case others of [] \<Rightarrow> 0 | (p', w) # _ \<Rightarrow> w)"
    have "\<exists>why. r = (if 0 < v \<and> second < v then (TopomemMp, [p], [])
        else if v = 0 then (LexicalFallback, [], why) else (TopomemMp, a # b # more, [])) \<and> why \<noteq> []"
      unfolding r_def choose_strategy_def \<open>allPaths = a # rest\<close> Cons list.case
      unfolding \<open>allPaths = a # rest\<close> [unfolded Cons, symmetric] s list.case prod.case Let_def second_def [symmetric]
      by (rule exI, rule conjI, rule refl) simp
    then show ?thesis using p \<open>allPaths = a # rest\<close> Cons by (elim exE conjE) (simp split: if_splits)
  qed
qed

lemma result_order:
  "result_before a b \<or> result_before b a" "result_before a b \<Longrightarrow> result_before b c \<Longrightarrow> result_before a c"
  by (auto simp: result_before_def split: if_splits)

lemma ranked_result:
  assumes "r \<in> set (ranked pf query signature strategy paths limit candidates)"
  shows "\<exists>item \<in> set candidates. r = score_memory pf query signature strategy paths item \<and> 0 < rs_score r"
  using assms unfolding ranked_def by (auto dest!: in_set_takeD)

lemma score_memory_item [simp]: "rs_item (score_memory pf query signature strategy paths item) = item"
  by (simp add: score_memory_def Let_def case_prod_unfold)

lemma score_memory_score: "is_score (rs_score (score_memory pf query signature strategy paths item))"
  by (simp add: score_memory_def rs_score_def Let_def case_prod_unfold)

lemma listed_item:
  assumes "item \<in> set (fst (listMemories pf now q u s))"
  shows "mi_row item \<in> set (visible_memories pf q u s)"
proof -
  have "map mi_row (fst (listMemories pf now q u s)) = visible_memories pf q u s" by (simp add: listMemories_def)
  then show ?thesis using assms by (metis image_eqI list.set_map)
qed

text \<open>A retrieval ranks a listing, counts the accesses and records the run.\<close>

lemma retrieval_runs_listed [simp]: "retrieval_runs (snd (listMemories pf now q u s)) = retrieval_runs s"
proof -
  have "retrieval_runs (snd (persist_missing pf now ms t)) = retrieval_runs t" for ms t
    by (induction ms arbitrary: t) (simp_all add: case_prod_unfold Let_def persistMemoryChunks_def)
  then show ?thesis by (simp add: listMemories_def hydrateMemories_def Let_def case_prod_unfold)
qed

lemma listing_frame [simp]:
  "memory_items (snd (listMemories pf now q u s)) = memory_items s"
  "memory_actions (snd (listMemories pf now q u s)) = memory_actions s"
  "security_events (snd (listMemories pf now q u s)) = security_events s"
  by (simp_all add: listMemories_def)

lemma retrieval_shape:
  fixes pf run started now u question x limit inactive s
  defines "r \<equiv> retrieveMemories pf run started now u question x limit inactive s"
  shows "\<exists>s1 query signature strategy paths scored e.
    memory_items s1 = memory_items s
    \<and> scored = ranked pf query signature strategy paths limit (fst (listMemories pf now
        (plain_query\<lparr>mq_context := x, mq_inactive := inactive, mq_limit := 800\<rparr>) u s1))
    \<and> rp_results (fst r) = map (accessed_result now) scored
    \<and> memory_items (snd r) = mark_accessed now scored (memory_items s)
    \<and> retrieval_runs (snd r) = retrieval_runs s @ [e] \<and> rr_user e = user_id u \<and> rr_id e = run
    \<and> rr_returned e = map (\<lambda>q. me_id (mi_row (rs_item q))) scored
    \<and> memory_actions (snd r) = memory_actions s"
proof -
  define query where "query = take 20000 (trim question)"
  define evidence where "evidence = usable_evidence (mx_evidence x)"
  define edges where "edges = concat (map (\<lambda>e. extractTraceEdges pf (ev_content e)) evidence)"
  define symptom where "symptom = chooseSymptomService query evidence edges"
  define allPaths where "allPaths = enumeratePaths pf edges symptom"
  define signature where "signature = extractErrorSignature pf query evidence"
  define s1 where "s1 = (if edges \<noteq> [] then observeTopology pf now (user_org u) (mx_trace x) edges s else s)"
  define q where "q = plain_query\<lparr>mq_context := x, mq_inactive := inactive, mq_limit := 800\<rparr>"
  have s1: "memory_items s1 = memory_items s" "retrieval_runs s1 = retrieval_runs s" "memory_actions s1 = memory_actions s"
    by (simp_all add: s1_def observeTopology_def)
  obtain cs s2 where l: "listMemories pf now q u s1 = (cs, s2)" by fastforce
  have s2: "memory_items s2 = memory_items s1" "retrieval_runs s2 = retrieval_runs s1" "memory_actions s2 = memory_actions s1"
    using retrieval_runs_listed [of pf now q u s1] listing_frame(1,2) [of pf now q u s1] l by simp_all
  obtain st ps why where c: "choose_strategy pf query signature edges allPaths cs = (st, ps, why)"
    by (metis prod.exhaust)
  let ?scored = "ranked pf query signature st ps limit cs"
  have "rp_results (fst r) = map (accessed_result now) ?scored
      \<and> memory_items (snd r) = mark_accessed now ?scored (memory_items s)
      \<and> memory_actions (snd r) = memory_actions s
      \<and> (\<exists>e. retrieval_runs (snd r) = retrieval_runs s @ [e] \<and> rr_user e = user_id u \<and> rr_id e = run
        \<and> rr_returned e = map (\<lambda>q. me_id (mi_row (rs_item q))) ?scored)"
    unfolding r_def retrieveMemories_def Let_def
    unfolding query_def [symmetric] evidence_def [symmetric]
    unfolding edges_def [symmetric] signature_def [symmetric]
    unfolding symptom_def [symmetric] s1_def [symmetric]
    unfolding allPaths_def [symmetric] q_def [symmetric] l
    by (simp add: c s1 s2)
  then show ?thesis using s1(1) l unfolding q_def [symmetric]
    by (metis fst_conv)
qed

text \<open>The rows a retrieval ranks, before it counts the access.\<close>

lemma ranked_listed:
  assumes "r \<in> set (ranked pf query signature strategy paths limit (fst (listMemories pf now
      (plain_query\<lparr>mq_context := x, mq_inactive := inactive, mq_limit := 800\<rparr>) u s)))"
  shows "mi_row (rs_item r) \<in> set (memory_items s) \<and> me_org (mi_row (rs_item r)) = user_org u \<and> isVisible (mi_row (rs_item r)) u x
      \<and> (inactive \<or> me_status (mi_row (rs_item r)) \<in> {MemActive, MemVerified}) \<and> 0 < rs_score r \<and> rs_score r \<le> 100"
proof -
  let ?q = "plain_query\<lparr>mq_context := x, mq_inactive := inactive, mq_limit := 800\<rparr>"
  obtain item where item: "item \<in> set (fst (listMemories pf now ?q u s))"
    "r = score_memory pf query signature strategy paths item" "0 < rs_score r"
    using ranked_result [OF assms] by blast
  have "rs_score r \<le> 100" using item(2) score_memory_score unfolding is_score_def by blast
  then show ?thesis using listed_row [OF listed_item [OF item(1)]] item(2,3) by (auto simp: plain_query_def)
qed

text \<open>
  What a retrieval returns: at most thirty memories in the order of their scores, which are between
  1 and 100; each is a memory of the user's organisation that is visible to the user in the context of the
  question and, unless inactive ones are asked for, active or verified. The access is counted in what is
  returned, the vitality stays at most 100, and one run is recorded with the returned identifiers.
\<close>

theorem retrieval_is_isolated:
  fixes pf run started now u question x limit inactive s
  defines "r \<equiv> retrieveMemories pf run started now u question x limit inactive s"
  shows "length (rp_results (fst r)) \<le> 30
    \<and> sorted_wrt (\<lambda>a b. rs_score b \<le> rs_score a) (rp_results (fst r))
    \<and> list_all (\<lambda>q. list_ex (\<lambda>m. me_id m = me_id (mi_row (rs_item q)) \<and> me_org m = user_org u \<and> isVisible m u x
          \<and> (inactive \<or> me_status m = MemActive \<or> me_status m = MemVerified)) (memory_items s)
        \<and> 1 \<le> rs_score q \<and> rs_score q \<le> 100 \<and> me_vitality (mi_row (rs_item q)) \<le> 100) (rp_results (fst r))
    \<and> (\<exists>e. retrieval_runs (snd r) = retrieval_runs s @ [e] \<and> rr_user e = user_id u \<and> rr_id e = run
        \<and> rr_returned e = map (\<lambda>q. me_id (mi_row (rs_item q))) (rp_results (fst r)))"
proof -
  obtain s1 query signature strategy paths scored e where
    s1: "memory_items s1 = memory_items s"
    and sc: "scored = ranked pf query signature strategy paths limit (fst (listMemories pf now
        (plain_query\<lparr>mq_context := x, mq_inactive := inactive, mq_limit := 800\<rparr>) u s1))"
    and res: "rp_results (fst r) = map (accessed_result now) scored"
    and log: "retrieval_runs (snd r) = retrieval_runs s @ [e]" "rr_user e = user_id u" "rr_id e = run"
      "rr_returned e = map (\<lambda>q. me_id (mi_row (rs_item q))) scored"
    unfolding r_def using retrieval_shape [where pf = pf and run = run and started = started and now = now and u = u
      and question = question and x = x and limit = limit and inactive = inactive and s = s] by blast
  have acc: "rs_score (accessed_result now q) = rs_score q" "me_id (mi_row (rs_item (accessed_result now q))) = me_id (mi_row (rs_item q))"
    "me_vitality (mi_row (rs_item (accessed_result now q))) \<le> 100" for q
    by (simp_all add: accessed_result_def rs_score_def)
  have "result_limit limit \<le> 30" by (simp add: result_limit_def)
  then have len: "length scored \<le> 30" unfolding sc ranked_def by simp
  have "sorted_wrt result_before scored"
    unfolding sc ranked_def by (rule sorted_wrt_take, rule sorted_sort_by, rule result_order(1), erule (1) result_order(2))
  then have sorted: "sorted_wrt (\<lambda>a b. rs_score b \<le> rs_score a) (rp_results (fst r))"
    unfolding res sorted_wrt_map acc
    by (rule sorted_wrt_mono_rel [rotated]) (auto simp: result_before_def split: if_splits)
  have row: "list_ex (\<lambda>m. me_id m = me_id (mi_row (rs_item q)) \<and> me_org m = user_org u \<and> isVisible m u x
      \<and> (inactive \<or> me_status m = MemActive \<or> me_status m = MemVerified)) (memory_items s) \<and> 1 \<le> rs_score q \<and> rs_score q \<le> 100"
    if "q \<in> set scored" for q
    using ranked_listed [OF that [unfolded sc]] s1 unfolding list_ex_iff by auto
  have rows: "list_all (\<lambda>q. list_ex (\<lambda>m. me_id m = me_id (mi_row (rs_item q)) \<and> me_org m = user_org u \<and> isVisible m u x
          \<and> (inactive \<or> me_status m = MemActive \<or> me_status m = MemVerified)) (memory_items s)
        \<and> 1 \<le> rs_score q \<and> rs_score q \<le> 100 \<and> me_vitality (mi_row (rs_item q)) \<le> 100) (rp_results (fst r))"
    unfolding res list_all_iff set_map ball_simps(9) acc using row acc(3) by blast
  have "rr_returned e = map (\<lambda>q. me_id (mi_row (rs_item q))) (rp_results (fst r))"
    unfolding res log(4) map_map comp_def acc ..
  then show ?thesis using len sorted rows log(1-3) res by (intro conjI exI [of _ e]) simp_all
qed

end
