(* ===== verification/Memory_Maintenance.thy ===== *)
theory Memory_Maintenance
  imports Memory_Retrieval
begin

section \<open>Self-maintenance of memories (\<open>memory/index.ts\<close>)\<close>

text \<open>
  \<open>maintainMemories\<close>: memories past their date are archived, vitality decays with age, inactive ones are
  archived, near duplicates are merged and contradicting ones suspended. The loops run over the list that
  was read at the start, while the statements change the table.
\<close>

record maintenance_report =
  mm_scanned :: nat
  mm_decayed :: nat
  mm_reinforced :: nat
  mm_merged :: nat
  mm_conflicts :: nat
  mm_archived :: nat
  mm_expired :: nat
  mm_completed :: int

fun half_life_days :: "memory_type \<Rightarrow> rat" where
  "half_life_days Working = 1"
| "half_life_days Episodic = 90"
| "half_life_days Semantic = 365"
| "half_life_days Procedural = 540"

definition expired :: "int \<Rightarrow> memory_row \<Rightarrow> bool" where
  [js_eval]: "expired now m \<longleftrightarrow> 0 < me_expires m \<and> me_expires m \<le> now \<and> \<not> me_pinned m"

definition decayed_vitality :: "platform \<Rightarrow> int \<Rightarrow> memory_row \<Rightarrow> int" where
  [js_eval]: "decayed_vitality pf now m =
     (let age = max 0 (of_int (now - max (me_last_access m) (me_last_reinforced m)) / 86400000);
          recency = 100 * half_pow pf (age / half_life_days (me_type m));
          reinforcement = min 100 (of_int (me_reinforced m) * 12 + log1p pf (of_int (me_access m)) * 10)
      in clampScore (of_int (me_importance m) * (34 / 100) + of_int (me_confidence m) * (32 / 100)
           + recency * (24 / 100) + reinforcement * (1 / 10)))"

definition update_memory :: "memory_row \<Rightarrow> (memory_row \<Rightarrow> memory_row) \<Rightarrow> agent_db \<Rightarrow> agent_db" where
  [js_eval]: "update_memory item f s = s\<lparr>memory_items := update_where (\<lambda>m. me_id m = me_id item) f (memory_items s)\<rparr>"

definition expired_text :: jsstr where
  [js_eval]: "expired_text = [35760, 24518, 24050, 36229, 36807, 20445, 30041, 26399, 38480, 12290]"

definition inactive_text :: jsstr where
  [js_eval]: "inactive_text = ([27963, 24615, 20302, 20110] @ js '' 20'' @ [65292, 33258, 21160, 31227, 20986, 22312,
      32447, 26816, 32034, 12290])"

definition merged_text :: "jsstr \<Rightarrow> jsstr" where
  [js_eval]: "merged_text i = ([24050, 21512, 24182, 21040, 35760, 24518] @ js '' '') @ i"

definition conflict_text :: jsstr where
  [js_eval]: "conflict_text = [19982, 26356, 39640, 32622, 20449, 24230, 35760, 24518, 20914, 31361, 65292, 31561, 24453,
      20154, 24037, 22797, 26680, 12290]"

definition conflict_rationale :: jsstr where
  [js_eval]: "conflict_rationale = [32500, 25252, 20219, 21153, 26816, 27979, 21040, 21516, 19968, 20027, 39064, 30340, 30456,
      21453, 29366, 24577, 25551, 36848, 12290]"

text \<open>The first loop: one memory of the list.\<close>

definition age_memory ::
    "platform \<Rightarrow> int \<Rightarrow> auth_user \<Rightarrow> memory_row \<Rightarrow> maintenance_report \<times> agent_db \<Rightarrow> maintenance_report \<times> agent_db" where
  [js_eval]: "age_memory pf now u m x =
     (let (rep, s) = x in
      if me_status m = MemForgotten then (rep, s)
      else if expired now m then
        (rep\<lparr>mm_expired := mm_expired rep + 1\<rparr>,
         addMemoryAction u now (me_id m) (js ''expired'') (me_status m) MemArchived expired_text
           (update_memory m (\<lambda>r. r\<lparr>me_status := MemArchived, me_vitality := 0, me_updated := now\<rparr>) s))
      else if me_pinned m \<or> me_status m = MemVerified then (rep, s)
      else
        (let v = decayed_vitality pf now m;
             (rep, s) = (if v \<noteq> me_vitality m
               then (rep\<lparr>mm_decayed := mm_decayed rep + 1\<rparr>,
                     update_memory m (\<lambda>r. r\<lparr>me_vitality := v, me_updated := now\<rparr>) s)
               else (rep, s))
         in if v < 20 \<and> me_status m = MemActive
            then (rep\<lparr>mm_archived := mm_archived rep + 1\<rparr>,
                  addMemoryAction u now (me_id m) (js ''auto_archived'') (me_status m) MemArchived inactive_text
                    (update_memory m (\<lambda>r. r\<lparr>me_status := MemArchived, me_updated := now\<rparr>) s))
            else (rep, s)))"

text \<open>The second loop: every pair of the memories that were online when the list was read.\<close>

fun pairs_in_order :: "'a list \<Rightarrow> ('a \<times> 'a) list" where
  "pairs_in_order [] = []"
| "pairs_in_order (x # xs) = map (Pair x) xs @ pairs_in_order xs"

definition comparable :: "memory_row \<Rightarrow> memory_row \<Rightarrow> bool" where
  [js_eval]: "comparable l r \<longleftrightarrow> \<not> (me_type l \<noteq> me_type r
     \<or> me_service l \<noteq> [] \<and> me_service r \<noteq> [] \<and> me_service l \<noteq> me_service r)"

definition protected_memory :: "memory_row \<Rightarrow> bool" where
  [js_eval]: "protected_memory m \<longleftrightarrow> me_pinned m \<or> me_status m = MemVerified"

definition merge_memories ::
    "int \<Rightarrow> auth_user \<Rightarrow> memory_row \<Rightarrow> memory_row \<Rightarrow> maintenance_report \<times> agent_db \<Rightarrow> maintenance_report \<times> agent_db" where
  [js_eval]: "merge_memories now u l r x =
     (let (rep, s) = x in
      (rep\<lparr>mm_merged := mm_merged rep + 1, mm_reinforced := mm_reinforced rep + 1\<rparr>,
       addMemoryAction u now (me_id r) (js ''merged'') (me_status r) MemArchived (merged_text (me_id l))
         (update_memory r (\<lambda>m. m\<lparr>me_status := MemArchived, me_note := merged_text (me_id l), me_updated := now\<rparr>)
           (update_memory l (\<lambda>m. m\<lparr>me_reinforced := me_reinforced m + 1, me_vitality := min 100 (me_vitality m + 5),
              me_last_reinforced := now, me_updated := now\<rparr>) s))))"

definition mark_conflict ::
    "jsstr \<Rightarrow> int \<Rightarrow> auth_user \<Rightarrow> rat \<Rightarrow> memory_row \<Rightarrow> memory_row \<Rightarrow> maintenance_report \<times> agent_db \<Rightarrow> maintenance_report \<times> agent_db" where
  [js_eval]: "mark_conflict i now u similarity l r x =
     (let (rep, s) = x;
          s = s\<lparr>memory_relations := insert_or_ignore relation_conflict
                 \<lparr>mr_id = i, mr_org = user_org u, mr_from = me_id l, mr_to = me_id r, mr_type = MrConflicts,
                  mr_score = clampScore (similarity * 30 + 70), mr_rationale = conflict_rationale, mr_created = now\<rparr>
                 (memory_relations s)\<rparr>;
          weaker = (if me_confidence l \<le> me_confidence r then l else r);
          s = (if protected_memory weaker then s
               else addMemoryAction u now (me_id weaker) (js ''conflict_suspended'') (me_status weaker) MemSuspended conflict_text
                      (update_memory weaker (\<lambda>m. m\<lparr>me_status := MemSuspended, me_updated := now\<rparr>) s))
      in (rep\<lparr>mm_conflicts := mm_conflicts rep + 1\<rparr>, s))"

definition compare_pair ::
    "platform \<Rightarrow> jsstr \<Rightarrow> int \<Rightarrow> auth_user \<Rightarrow> memory_row \<times> memory_row \<Rightarrow> maintenance_report \<times> agent_db \<Rightarrow>
       maintenance_report \<times> agent_db" where
  [js_eval]: "compare_pair pf i now u p x =
     (let (l, r) = p; similarity = memory_similarity pf (textForMemory pf l) (textForMemory pf r)
      in if \<not> comparable l r then x
         else if 88 / 100 \<le> similarity \<and> \<not> protected_memory r then merge_memories now u l r x
         else if 12 / 100 \<le> similarity \<and> 1 / 2 \<le> contradictionScore (textForMemory pf l) (textForMemory pf r)
           then mark_conflict i now u similarity l r x
         else x)"

definition online :: "memory_row \<Rightarrow> bool" where
  [js_eval]: "online m \<longleftrightarrow> me_status m = MemActive \<or> me_status m = MemVerified"

definition report_value :: "maintenance_report \<Rightarrow> jsval" where
  [js_eval]: "report_value rep = Obj [(js ''scanned'', Num (of_nat (mm_scanned rep))), (js ''decayed'', Num (of_nat (mm_decayed rep))),
     (js ''reinforced'', Num (of_nat (mm_reinforced rep))), (js ''merged'', Num (of_nat (mm_merged rep))),
     (js ''conflicts'', Num (of_nat (mm_conflicts rep))), (js ''archived'', Num (of_nat (mm_archived rep))),
     (js ''expired'', Num (of_nat (mm_expired rep))), (js ''completedAt'', Num (of_int (mm_completed rep)))]"

definition maintained_items :: "auth_user \<Rightarrow> memory_item list \<Rightarrow> memory_row list" where
  [js_eval]: "maintained_items u visible =
     filter (\<lambda>m. user_role u = Admin \<or> me_scope m \<noteq> ScopeOrganization) (map mi_row visible)"

definition maintainMemories ::
    "platform \<Rightarrow> (nat \<Rightarrow> jsstr) \<Rightarrow> int \<Rightarrow> auth_user \<Rightarrow> int \<Rightarrow> agent_db \<Rightarrow> maintenance_report \<times> agent_db" where
  [js_eval]: "maintainMemories pf fresh now u limit s =
     (let (visible, s) = listMemories pf now (plain_query\<lparr>mq_inactive := True, mq_limit := min limit 500\<rparr>) u s;
          items = maintained_items u visible;
          rep = \<lparr>mm_scanned = length items, mm_decayed = 0, mm_reinforced = 0, mm_merged = 0, mm_conflicts = 0,
            mm_archived = 0, mm_expired = 0, mm_completed = now\<rparr>;
          x = fold (age_memory pf now u) items (rep, s);
          (rep, s) = fold (\<lambda>(k, p). compare_pair pf (fresh (Suc k)) now u p)
            (enumerate 0 (pairs_in_order (filter online items))) x;
          s = addSecurityAuditEvent (memory_event u now (fresh 0) (user_org u) ''memory.maintenance.completed'' Allow 0
                (report_value rep)) s
      in (rep, s))"

subsection \<open>What maintenance may do to a memory\<close>

text \<open>The fields maintenance never writes.\<close>

definition same_memory :: "memory_row \<Rightarrow> memory_row \<Rightarrow> bool" where
  [js_eval]: "same_memory m m' \<longleftrightarrow> m' = m\<lparr>me_status := me_status m', me_vitality := me_vitality m', me_note := me_note m',
     me_reinforced := me_reinforced m', me_last_reinforced := me_last_reinforced m', me_updated := me_updated m'\<rparr>"

definition foreign_to :: "auth_user \<Rightarrow> memory_row \<Rightarrow> bool" where
  [js_eval]: "foreign_to u m \<longleftrightarrow> me_org m \<noteq> user_org u \<or> me_scope m = ScopeOrganization \<and> user_role u \<noteq> Admin
     \<or> \<not> isVisible m u no_context"

definition kept :: "auth_user \<Rightarrow> int \<Rightarrow> memory_row \<Rightarrow> memory_row \<Rightarrow> bool" where
  [js_eval]: "kept u now m m' \<longleftrightarrow>
     (if foreign_to u m then m' = m
      else same_memory m m'
        \<and> (if me_pinned m \<or> me_status m = MemForgotten \<or> me_status m = MemVerified \<and> \<not> expired now m
           then me_status m' = me_status m \<and> me_note m' = me_note m
           else me_status m' \<in> {me_status m, MemArchived, MemSuspended})
        \<and> (me_status m = MemForgotten \<longrightarrow> m' = m))"

lemma same_memory_refl [simp]: "same_memory m m"
  by (simp add: same_memory_def)

lemma same_memory_set [simp]:
  "same_memory m m' \<Longrightarrow> same_memory m (m'\<lparr>me_status := st\<rparr>)"
  "same_memory m m' \<Longrightarrow> same_memory m (m'\<lparr>me_vitality := v\<rparr>)"
  "same_memory m m' \<Longrightarrow> same_memory m (m'\<lparr>me_note := n\<rparr>)"
  "same_memory m m' \<Longrightarrow> same_memory m (m'\<lparr>me_reinforced := k\<rparr>)"
  "same_memory m m' \<Longrightarrow> same_memory m (m'\<lparr>me_last_reinforced := t\<rparr>)"
  "same_memory m m' \<Longrightarrow> same_memory m (m'\<lparr>me_updated := t\<rparr>)"
  by (cases m, cases m', simp add: same_memory_def)+

lemma kept_refl [simp]: "kept u now m m"
  by (simp add: kept_def)

lemma kept_id: "kept u now m m' \<Longrightarrow> me_id m' = me_id m"
  by (cases m, cases m') (auto simp: kept_def same_memory_def split: if_splits)

lemma kept_update:
  assumes "list_all2 (kept u now) rows rows'" "distinct (map me_id rows)" "item \<in> set rows"
    "\<And>m'. kept u now item m' \<Longrightarrow> kept u now item (f m')"
  shows "list_all2 (kept u now) rows (update_where (\<lambda>m. me_id m = me_id item) f rows')"
  unfolding update_where_def list_all2_conv_all_nth length_map
proof (intro conjI allI impI)
  show "length rows = length rows'" using assms(1) by (rule list_all2_lengthD)
  fix k assume k: "k < length rows"
  then have kk: "kept u now (rows ! k) (rows' ! k)" using assms(1) by (rule_tac list_all2_nthD)
  have len: "k < length rows'" using k assms(1) list_all2_lengthD by fastforce
  have "rows ! k = item" if "me_id (rows' ! k) = me_id item"
    using that kept_id [OF kk] assms(2,3) k by (metis distinct_map inj_onD nth_mem)
  then show "kept u now (rows ! k) (map (\<lambda>m. if me_id m = me_id item then f m else m) rows' ! k)"
    using kk len assms(4) by (cases "me_id (rows' ! k) = me_id item") auto
qed

text \<open>A memory the loops work on: one of the table, maintainable by the user.\<close>

definition worked_on :: "auth_user \<Rightarrow> memory_row list \<Rightarrow> memory_row \<Rightarrow> bool" where
  "worked_on u rows m \<longleftrightarrow> m \<in> set rows \<and> \<not> foreign_to u m \<and> me_status m \<noteq> MemForgotten"

lemma kept_step:
  assumes "list_all2 (kept u now) rows (memory_items s)" "distinct (map me_id rows)" "worked_on u rows item"
    "\<And>m'. same_memory item m' \<Longrightarrow> same_memory item (f m')"
    "\<And>m'. (if protected_memory item \<and> \<not> expired now item then me_status (f m') = me_status m' \<and> me_note (f m') = me_note m'
       else me_status (f m') \<in> {me_status m', MemArchived, MemSuspended})"
  shows "list_all2 (kept u now) rows (memory_items (update_memory item f s))"
proof -
  have "kept u now item (f m')" if "kept u now item m'" for m'
    using that assms(3-4) assms(5) [of m'] by (auto simp: kept_def worked_on_def protected_memory_def expired_def split: if_splits)
  then show ?thesis
    using kept_update [OF assms(1,2)] assms(3) by (simp add: update_memory_def worked_on_def)
qed

lemma action_events [simp]: "security_events (addMemoryAction u now i a p n d s) = security_events s"
  by (simp add: addMemoryAction_def)

lemma enumerate_snd: "kp \<in> set (enumerate n xs) \<Longrightarrow> snd kp \<in> set xs"
  unfolding in_set_enumerate_eq by (metis add.commute less_diff_conv2 nth_mem)

lemma kept_age:
  assumes "list_all2 (kept u now) rows (memory_items (snd x))" "distinct (map me_id rows)"
    "item \<in> set rows" "\<not> foreign_to u item"
  shows "list_all2 (kept u now) rows (memory_items (snd (age_memory pf now u item x)))"
proof -
  obtain rep s where x: "x = (rep, s)" by (cases x)
  show ?thesis
  proof (cases "me_status item = MemForgotten")
    case True
    then show ?thesis using assms(1) x by (simp add: age_memory_def)
  next
    case False
    then have w: "worked_on u rows item" using assms(3,4) by (simp add: worked_on_def)
    note step = kept_step [OF _ assms(2) w]
    show ?thesis using assms(1) False x unfolding age_memory_def
      by (auto simp: Let_def protected_memory_def expired_def intro!: step)
  qed
qed

lemma kept_pair:
  assumes "list_all2 (kept u now) rows (memory_items (snd x))" "distinct (map me_id rows)"
    "worked_on u rows (fst p)" "worked_on u rows (snd p)"
  shows "list_all2 (kept u now) rows (memory_items (snd (compare_pair pf i now u p x)))"
proof -
  obtain rep s where x: "x = (rep, s)" by (cases x)
  obtain l r where p: "p = (l, r)" by (cases p)
  have l: "worked_on u rows l" and r: "worked_on u rows r" using assms(3,4) p by simp_all
  note step = kept_step [OF _ assms(2)]
  have merge: "list_all2 (kept u now) rows (memory_items (snd (merge_memories now u l r x)))" if "\<not> protected_memory r"
    unfolding merge_memories_def x using assms(1) x that
    by (auto simp: Let_def intro!: step [OF _ r] step [OF _ l])
  have conflict: "list_all2 (kept u now) rows (memory_items (snd (mark_conflict i now u q l r x)))" for q
    unfolding mark_conflict_def x using assms(1) x
    by (auto simp: Let_def update_memory_def [symmetric] intro!: step [OF _ l] step [OF _ r])
  show ?thesis using merge conflict assms(1) p by (auto simp: compare_pair_def Let_def)
qed

lemma pairs_in_order_set: "p \<in> set (pairs_in_order xs) \<Longrightarrow> fst p \<in> set xs \<and> snd p \<in> set xs"
  by (induction xs) auto

lemma kept_fold_age:
  assumes "distinct (map me_id rows)" "list_all (\<lambda>m. m \<in> set rows \<and> \<not> foreign_to u m) items"
    "list_all2 (kept u now) rows (memory_items (snd x))"
  shows "list_all2 (kept u now) rows (memory_items (snd (fold (age_memory pf now u) items x)))"
  using assms(2,3) by (induction items arbitrary: x) (simp_all add: kept_age assms(1))

lemma kept_fold_pairs:
  assumes "distinct (map me_id rows)" "list_all (\<lambda>(k, p). worked_on u rows (fst p) \<and> worked_on u rows (snd p)) ps"
    "list_all2 (kept u now) rows (memory_items (snd x))"
  shows "list_all2 (kept u now) rows (memory_items (snd
    (fold (\<lambda>(k, p). compare_pair pf (fresh (Suc k)) now u p) ps x)))"
  using assms(2,3)
proof (induction ps arbitrary: x)
  case (Cons kp ps)
  then show ?case using kept_pair [OF Cons.prems(2) assms(1), of "snd kp"] by (simp add: case_prod_unfold)
qed simp

lemma maintained_rows:
  assumes "m \<in> set (maintained_items u (fst (listMemories pf now (plain_query\<lparr>mq_inactive := True, mq_limit := l\<rparr>) u s)))"
  shows "m \<in> set (memory_items s) \<and> \<not> foreign_to u m"
proof -
  obtain item where "item \<in> set (fst (listMemories pf now (plain_query\<lparr>mq_inactive := True, mq_limit := l\<rparr>) u s))"
    "m = mi_row item" "user_role u = Admin \<or> me_scope m \<noteq> ScopeOrganization"
    using assms by (auto simp: maintained_items_def)
  moreover from this(1) have "m \<in> set (memory_items s) \<and> isVisible m u no_context \<and> me_org m = user_org u"
    using listed_row [OF listed_item] \<open>m = mi_row item\<close> by (fastforce simp: plain_query_def)
  ultimately show ?thesis by (auto simp: foreign_to_def)
qed

lemma maintain_kept:
  assumes "distinct (map me_id (memory_items s))"
  shows "list_all2 (kept u now) (memory_items s) (memory_items (snd (maintainMemories pf fresh now u limit s)))"
proof -
  let ?q = "plain_query\<lparr>mq_inactive := True, mq_limit := min limit 500\<rparr>"
  define items where "items = maintained_items u (fst (listMemories pf now ?q u s))"
  define rep where "rep = \<lparr>mm_scanned = length items, mm_decayed = 0, mm_reinforced = 0, mm_merged = 0, mm_conflicts = 0,
      mm_archived = 0, mm_expired = 0, mm_completed = now\<rparr>"
  have items: "list_all (\<lambda>m. m \<in> set (memory_items s) \<and> \<not> foreign_to u m) items"
    using maintained_rows unfolding items_def list_all_iff by blast
  have "list_all2 (kept u now) (memory_items s) (memory_items (snd (rep, snd (listMemories pf now ?q u s))))"
    by (simp add: listMemories_def list_all2_refl)
  from kept_fold_age [OF assms items this]
  have first: "list_all2 (kept u now) (memory_items s)
      (memory_items (snd (fold (age_memory pf now u) items (rep, snd (listMemories pf now ?q u s)))))" .
  have "worked_on u (memory_items s) m" if "m \<in> set (filter online items)" for m
    using that items by (auto simp: worked_on_def online_def list_all_iff)
  then have "list_all (\<lambda>(k, p). worked_on u (memory_items s) (fst p) \<and> worked_on u (memory_items s) (snd p))
      (enumerate 0 (pairs_in_order (filter online items)))"
    using pairs_in_order_set enumerate_snd unfolding list_all_iff case_prod_unfold by blast
  from kept_fold_pairs [OF assms this first]
  show ?thesis
    unfolding maintainMemories_def Let_def case_prod_unfold items_def rep_def by simp
qed


text \<open>Demonstration data.\<close>

definition chain_words :: "nat \<Rightarrow> jsstr" where
  [js_eval]: "chain_words k = str_join [32] (map (\<lambda>i. [97, 97 + i]) [k..<k + 15])"

text \<open>Three memories, each with 14 of the 15 words of the one before it.\<close>

definition chain_memory :: "jsstr \<Rightarrow> nat \<Rightarrow> memory_row" where
  [js_eval]: "chain_memory i k = (demo_memory i (js ''u1'') ScopeUser)\<lparr>me_title := chain_words k, me_summary := [], me_content := Null,
     me_importance := 90\<rparr>"

definition chain_store :: agent_db where
  [js_eval]: "chain_store = demo_store [chain_memory (js ''m1'') 0, chain_memory (js ''m2'') 1, chain_memory (js ''m3'') 2]"


lemma chain_facts:
  "88 / 100 \<le> memory_similarity demo_platform (textForMemory demo_platform (chain_memory (js ''m1'') 0))
     (textForMemory demo_platform (chain_memory (js ''m2'') 1))"
  "88 / 100 \<le> memory_similarity demo_platform (textForMemory demo_platform (chain_memory (js ''m2'') 1))
     (textForMemory demo_platform (chain_memory (js ''m3'') 2))"
  "memory_similarity demo_platform (textForMemory demo_platform (chain_memory (js ''m1'') 0))
     (textForMemory demo_platform (chain_memory (js ''m3'') 2)) < 88 / 100"
  "contradictionScore (textForMemory demo_platform (chain_memory (js ''m1'') 0))
     (textForMemory demo_platform (chain_memory (js ''m3'') 2)) = 0"
  by code_simp+

lemma chain_listed:
  "maintained_items demo_user (fst (listMemories demo_platform 5 (plain_query\<lparr>mq_inactive := True, mq_limit := 500\<rparr>)
     demo_user chain_store)) = [chain_memory (js ''m1'') 0, chain_memory (js ''m2'') 1, chain_memory (js ''m3'') 2]"
  by code_simp

lemma chain_items:
  "memory_items chain_store = [chain_memory (js ''m1'') 0, chain_memory (js ''m2'') 1, chain_memory (js ''m3'') 2]"
  by (simp add: chain_store_def demo_store_def)

lemma chain_row:
  "decayed_vitality demo_platform 5 (chain_memory i k) = 71" "\<not> expired 5 (chain_memory i k)" "comparable (chain_memory i k) (chain_memory j l)"
  "me_id (chain_memory i k) = i" "me_status (chain_memory i k) = MemActive" "me_vitality (chain_memory i k) = 50"
  "me_pinned (chain_memory i k) = False" "online (chain_memory i k)" "\<not> protected_memory (chain_memory i k)"
  by (simp_all add: decayed_vitality_def chain_memory_def demo_memory_def demo_platform_def clampScore_def js_round_def
      expired_def comparable_def online_def protected_memory_def floor_unique)

lemma chain_age:
  "memory_items (snd (age_memory demo_platform 5 demo_user (chain_memory i k) x)) =
     update_where (\<lambda>m. me_id m = i) (\<lambda>r. r\<lparr>me_vitality := 71, me_updated := 5\<rparr>) (memory_items (snd x))"
  by (cases x) (simp add: age_memory_def chain_row update_memory_def)

lemma merge_items:
  "memory_items (snd (merge_memories now u l r x)) =
     update_where (\<lambda>m. me_id m = me_id r) (\<lambda>m. m\<lparr>me_status := MemArchived, me_note := merged_text (me_id l), me_updated := now\<rparr>)
       (update_where (\<lambda>m. me_id m = me_id l) (\<lambda>m. m\<lparr>me_reinforced := me_reinforced m + 1,
          me_vitality := min 100 (me_vitality m + 5), me_last_reinforced := now, me_updated := now\<rparr>) (memory_items (snd x)))"
  by (cases x) (simp add: merge_memories_def update_memory_def)

lemma chain_pairs:
  "compare_pair demo_platform i 5 u (chain_memory (js ''m1'') 0, chain_memory (js ''m2'') 1) x =
     merge_memories 5 u (chain_memory (js ''m1'') 0) (chain_memory (js ''m2'') 1) x"
  "compare_pair demo_platform i 5 u (chain_memory (js ''m2'') 1, chain_memory (js ''m3'') 2) x =
     merge_memories 5 u (chain_memory (js ''m2'') 1) (chain_memory (js ''m3'') 2) x"
  "compare_pair demo_platform i 5 u (chain_memory (js ''m1'') 0, chain_memory (js ''m3'') 2) x = x"
  using chain_facts by (simp_all add: compare_pair_def chain_row)

lemma chain_enumerated:
  "enumerate 0 (pairs_in_order (filter online [chain_memory (js ''m1'') 0, chain_memory (js ''m2'') 1, chain_memory (js ''m3'') 2]))
     = [(0, chain_memory (js ''m1'') 0, chain_memory (js ''m2'') 1), (1, chain_memory (js ''m1'') 0, chain_memory (js ''m3'') 2),
        (2, chain_memory (js ''m2'') 1, chain_memory (js ''m3'') 2)]"
  by (simp add: chain_row)

text \<open>
  A merge can lose content: the second loop works on the memories as they were listed, so a memory
  that was merged into another one still takes part. Of three memories, each nearly the same as the next,
  the third is archived as merged into the second, which has just been archived itself, although it is
  not similar enough to the only one left.
\<close>

theorem merged_into_archived:
  fixes s'
  defines "s' \<equiv> snd (maintainMemories demo_platform demo_fresh 5 demo_user 500 chain_store)"
  shows "map me_status (memory_items s') = [MemActive, MemArchived, MemArchived]
   \<and> me_note (memory_items s' ! 2) = merged_text (js ''m2'')
   \<and> memory_similarity demo_platform (textForMemory demo_platform (chain_memory (js ''m1'') 0))
       (textForMemory demo_platform (chain_memory (js ''m3'') 2)) < 88 / 100"
proof -
  have limit: "min 500 (500 :: int) = 500" by simp
  show ?thesis
    unfolding s'_def maintainMemories_def Let_def case_prod_unfold limit chain_listed chain_enumerated
    unfolding fold_simps comp_def id_def fst_conv snd_conv chain_pairs audit_frame merge_items
    using chain_facts(3) by (simp add: chain_age chain_items update_where_def chain_row)
qed

end
