(* ===== verification/Frames.thy ===== *)
theory Frames
  imports Memory_Maintenance Workflow_Records Scry_Calls
begin

section \<open>What the operations leave alone\<close>

text \<open>
  The stores of memories and of evidence are used by the tools, the workflow steps and the server. Seen
  from there, what matters is that they leave the control plane alone (hosts, policies, workflows,
  runs and settings) and only ever append to the audit log. \<open>spares\<close> says so of one step.
\<close>

definition spares :: "agent_db \<Rightarrow> agent_db \<Rightarrow> bool" where
  "spares s s' \<longleftrightarrow> control_part s' = control_part s \<and> (\<exists>es. security_events s' = security_events s @ es)"

lemma spares_refl [simp]: "spares s s"
  by (simp add: spares_def)

lemma spares_trans: "spares s s' \<Longrightarrow> spares s' s'' \<Longrightarrow> spares s s''"
  by (auto simp: spares_def)

lemma spares_audit [simp]: "spares s (addSecurityAuditEvent e s)"
  by (simp add: spares_def)

lemma spares_record: "spares s (snd (recordEvidence pf fresh now u i s))"
  using record_log [of pf fresh now u i s] by (simp add: spares_def)

lemma spares_call: "spares s (snd (callScry pf g uuid fresh now u path init x label s))"
  using call_log [of pf g uuid fresh now u path init x label s] by (auto simp: spares_def)

text \<open>The operations on memories that write no audit event.\<close>

definition outer_part where
  "outer_part s = (control_part s, security_events s)"

lemma spares_outer: "outer_part s' = outer_part s \<Longrightarrow> spares s s'"
  by (simp add: outer_part_def spares_def)

lemma outer_writes [simp]:
  "outer_part (s\<lparr>memory_items := a\<rparr>) = outer_part s" "outer_part (s\<lparr>memory_chunks := b\<rparr>) = outer_part s"
  "outer_part (s\<lparr>memory_sources := c\<rparr>) = outer_part s" "outer_part (s\<lparr>memory_relations := d\<rparr>) = outer_part s"
  "outer_part (s\<lparr>memory_actions := e\<rparr>) = outer_part s" "outer_part (s\<lparr>topology_edges := f\<rparr>) = outer_part s"
  "outer_part (s\<lparr>retrieval_runs := g\<rparr>) = outer_part s" "outer_part (s\<lparr>ui_messages := h\<rparr>) = outer_part s"
  "outer_part (s\<lparr>threads := k\<rparr>) = outer_part s" "outer_part (s\<lparr>evidence_actions := l\<rparr>) = outer_part s"
  "outer_part (s\<lparr>evidence_items := m\<rparr>) = outer_part s" "outer_part (s\<lparr>evidence_revisions := n\<rparr>) = outer_part s"
  "outer_part (s\<lparr>evidence_relations := q\<rparr>) = outer_part s"
  by (simp_all add: outer_part_def control_part_def)

lemma outer_steps [simp]:
  "outer_part (addMemorySources i now srcs s) = outer_part s"
  "outer_part (addMemoryAction u now i a p n d s) = outer_part s"
  "outer_part (createMemoryRelations pf fresh now m s) = outer_part s"
  "outer_part (snd (persistMemoryChunks pf now ci s)) = outer_part s"
  by (simp_all add: addMemorySources_def addMemoryAction_def createMemoryRelations_def persistMemoryChunks_def Let_def)

lemma outer_missing [simp]: "outer_part (snd (persist_missing pf now ms s)) = outer_part s"
  by (induction ms arbitrary: s) (simp_all add: case_prod_unfold Let_def)

lemma outer_hydrate [simp]: "outer_part (snd (hydrateMemories pf now ms s)) = outer_part s"
  by (simp add: hydrateMemories_def Let_def case_prod_unfold)

lemma outer_getMemory [simp]: "outer_part (snd (getMemory pf now i u x s)) = outer_part s"
  by (simp add: getMemory_def Let_def case_prod_unfold split: option.splits)

lemma outer_listMemories [simp]: "outer_part (snd (listMemories pf now q u s)) = outer_part s"
  by (simp add: listMemories_def Let_def case_prod_unfold)

lemma outer_stats [simp]: "outer_part (snd (memoryStats pf now u s)) = outer_part s"
  by (simp add: memoryStats_def Let_def case_prod_unfold)

lemma outer_retrieve [simp]: "outer_part (snd (retrieveMemories pf run started now u question x limit inactive s)) = outer_part s"
  by (simp add: retrieveMemories_def observeTopology_def Let_def case_prod_unfold)

lemma outer_fold: "(\<And>a y. outer_part (snd (f a y)) = outer_part (snd y)) \<Longrightarrow> outer_part (snd (fold f xs y)) = outer_part (snd y)"
  by (induction xs arbitrary: y) simp_all

lemma outer_update [simp]: "outer_part (update_memory m f s) = outer_part s"
  by (simp add: update_memory_def)

lemma outer_age [simp]: "outer_part (snd (age_memory pf now u m x)) = outer_part (snd x)"
  by (simp add: age_memory_def Let_def case_prod_unfold)

lemma outer_pair [simp]: "outer_part (snd (compare_pair pf i now u p x)) = outer_part (snd x)"
  by (simp add: compare_pair_def merge_memories_def mark_conflict_def Let_def case_prod_unfold)

lemma spares_maintain: "spares s (snd (maintainMemories pf fresh now u limit s))"
proof -
  have "outer_part (snd (fold (age_memory pf now u) ms x)) = outer_part (snd x)" for ms x
    by (rule outer_fold) simp
  moreover have "outer_part (snd (fold (\<lambda>(k, p). compare_pair pf (fresh (Suc k)) now u p) ps x)) = outer_part (snd x)" for ps x
    by (rule outer_fold) (simp add: case_prod_unfold)
  ultimately have "\<exists>t e. outer_part t = outer_part s \<and> snd (maintainMemories pf fresh now u limit s) = addSecurityAuditEvent e t"
    unfolding maintainMemories_def Let_def case_prod_unfold snd_conv
    by (intro exI conjI) (simp_all (no_asm_simp) only: snd_conv outer_listMemories)
  then show ?thesis using spares_trans [OF spares_outer spares_audit] by metis
qed

lemma spares_insert: "spares s (snd (insert_memory pf fresh now u n s))"
proof -
  have a: "outer_part t = outer_part s \<Longrightarrow> spares s t" for t by (rule spares_outer)
  have b: "outer_part t = outer_part s \<Longrightarrow> spares s (snd (getMemory pf now i u x (addSecurityAuditEvent e t)))" for t i x e
    by (rule spares_trans [OF spares_trans [OF spares_outer spares_audit] spares_outer]) simp_all
  show ?thesis
    by (simp add: insert_memory_def Let_def case_prod_unfold a b split: option.splits)
qed

lemma spares_create: "spares s (snd (createMemory pf fresh now u n s))"
proof -
  have "outer_part (snd (reinforce_memory pf now u n m s)) = outer_part s" for m
    by (simp add: reinforce_memory_def Let_def)
  then show ?thesis
    by (simp add: createMemory_def Let_def case_prod_unfold spares_insert spares_outer split: option.splits)
qed

lemma spares_learn_outcome: "spares s (snd (learnMemoryFromWorkflowOutcome pf fresh now u w s))"
  by (simp add: learnMemoryFromWorkflowOutcome_def spares_create)

lemma spares_learn_evidence: "spares s (snd (learnMemoryFromEvidence pf fresh now u e s))"
  by (simp add: learnMemoryFromEvidence_def spares_create)

lemma spares_forget: "spares s (snd (forgetMemory pf now i u s))"
proof -
  have b: "outer_part t = outer_part s \<Longrightarrow> spares s (snd (getMemory pf now i u x (addSecurityAuditEvent e t)))" for t i x e
    by (rule spares_trans [OF spares_trans [OF spares_outer spares_audit] spares_outer]) simp_all
  obtain found t where g: "getMemory pf now i u no_context s = (found, t)" by (cases "getMemory pf now i u no_context s")
  then have t: "outer_part t = outer_part s" using outer_getMemory [of pf now i u no_context s] by simp
  show ?thesis
    by (simp add: forgetMemory_def g Let_def case_prod_unfold spares_outer t b split: option.splits)
qed

lemma spares_update: "spares s (snd (updateMemory pf now i u p s))"
proof -
  have b: "outer_part t = outer_part s \<Longrightarrow> spares s (snd (getMemory pf now i u x (addSecurityAuditEvent e t)))" for t i x e
    by (rule spares_trans [OF spares_trans [OF spares_outer spares_audit] spares_outer]) simp_all
  obtain found t where g: "getMemory pf now i u no_context s = (found, t)" by (cases "getMemory pf now i u no_context s")
  then have t: "outer_part t = outer_part s" using outer_getMemory [of pf now i u no_context s] by simp
  show ?thesis
    by (simp add: updateMemory_def g Let_def case_prod_unfold spares_outer t b split: option.splits)
qed

lemma spares_upsert: "spares s (upsertUIMessage pf fresh now thread message s)"
  by (rule spares_outer) (simp add: upsertUIMessage_def Let_def)

lemma spares_title: "spares s (updateThreadTitleFromMessage now thread content s)"
  by (rule spares_outer) (simp add: updateThreadTitleFromMessage_def Let_def split: option.splits)

lemma spares_ingest: "spares s (snd (ingest_parts pf fresh now u ps k s))"
proof (induction ps arbitrary: k s)
  case (Cons p ps)
  show ?case
  proof (cases p)
    case (CapturePart i)
    then show ?thesis using spares_trans [OF spares_record Cons.IH] by simp
  qed (use Cons.IH in simp_all)
qed simp

lemma spares_evaluate: "spares s (snd (evaluateInputSecurity pf uuid now x s))"
  by (simp add: evaluateInputSecurity_def Let_def spares_def split: prod.splits)

lemma spares_authorize: "spares s (snd (authorizeSSHExecution pf uuid now q s))"
  by (simp add: authorizeSSHExecution_def Let_def spares_def)

lemmas spares_steps = spares_record spares_call spares_maintain spares_create spares_learn_outcome
  spares_learn_evidence spares_forget spares_update spares_upsert spares_title spares_evaluate spares_authorize

end
