(* ===== verification/Ssh_Ops.thy ===== *)
theory Ssh_Ops
  imports Frames
begin

section \<open>Managed hosts (\<open>ssh/repository.ts\<close>, \<open>debug/simulation.ts\<close>, \<open>tools/ssh.ts\<close>, \<open>tools/ssh-tools.ts\<close>)\<close>

text \<open>
  The hosts and policies an administrator manages, the simulated host of the debug mode, the client
  that runs one command on a host, and the tools an agent reaches it with. The private key of a host is
  kept decrypted in the model. The network and the server on the other side are parameters.
\<close>

subsection \<open>The simulated host\<close>

definition SIMULATED_SSH_HOST_ID :: jsstr where
  [js_eval]: "SIMULATED_SSH_HOST_ID = js ''00000000-0000-4000-8000-000000000101''"

definition SIMULATED_SSH_COMMANDS :: "ssh_command list" where
  [js_eval]: "SIMULATED_SSH_COMMANDS =
     [\<lparr>sc_id = js ''rolling-restart-quote-service'', sc_name = [28378, 21160, 37325, 21551, 25253, 20215, 26381, 21153],
       sc_description = ([20165, 29992, 20110, 35843, 35797] @ js ''-'' @ [25253, 20215, 26381, 21153] @ js '' CPU ''
      @ [19982, 32447, 31243, 27744, 39281, 21644, 22330, 26223, 65307, 36880, 23454, 20363,
      37325, 21551, 24182, 31561, 24453, 20581, 24247, 26816, 26597, 36890, 36807, 12290]),
       sc_command = js ''/opt/scry-ops/bin/scry-restart-quote-service''\<rparr>,
      \<lparr>sc_id = js ''restart-order-service'', sc_name = [37325, 21551, 35746, 21333, 26381, 21153],
       sc_description = ([27169, 25311, 37325, 21551, 24322, 24120, 30340, 35746, 21333, 22788, 29702, 26381, 21153,
      65292, 24182, 36820, 22238] @ js '' systemd '' @ [26657, 39564, 32467, 26524, 12290]),
       sc_command = js ''/opt/scry-ops/bin/scry-restart-service''\<rparr>,
      \<lparr>sc_id = js ''cleanup-system-journal'', sc_name = [28165, 29702, 31995, 32479, 26085, 24535],
       sc_description = ([27169, 25311, 28165, 29702, 36807, 26399] @ js '' systemd journal'' @ [65292, 37322, 25918,
      26085, 24535, 21367, 31354, 38388, 12290]),
       sc_command = js ''/opt/scry-ops/bin/scry-clean-journal''\<rparr>]"

definition buildSimulatedSSHHost :: "int \<Rightarrow> ssh_host" where
  [js_eval]: "buildSimulatedSSHHost since = \<lparr>sh_id = SIMULATED_SSH_HOST_ID, sh_name = (js ''['' @ [27169, 25311] @ js ''] '' @ [40594, 40607, 19994, 21153, 33410, 28857] @ js
      ''-01''),
     sh_hostname = js ''192.0.2.24'', sh_port = 22, sh_username = js ''scry-ops'', sh_auth = PrivateKey,
     sh_fingerprint = js ''SHA256:ScryDebugKylinNode01LoongArch64'', sh_enabled = True,
     sh_private_key = js ''SCRY_DEBUG_SIMULATED_PRIVATE_KEY'', sh_passphrase = [], sh_simulated = True,
     sh_created = since, sh_updated = since\<rparr>"

definition getDebugSimulationSettings :: "jsstr \<Rightarrow> agent_db \<Rightarrow> bool \<times> int" where
  [js_eval]: "getDebugSimulationSettings org s =
     (case head_option (filter (\<lambda>r. sm_org r = org) (simulation_settings s)) of
        None \<Rightarrow> (False, 0)
      | Some r \<Rightarrow> (sm_enabled r, sm_updated r))"

definition updateDebugSimulationSettings :: "int \<Rightarrow> jsstr \<Rightarrow> bool \<Rightarrow> agent_db \<Rightarrow> (bool \<times> int) \<times> agent_db" where
  [js_eval]: "updateDebugSimulationSettings now org enabled s =
     (let rows = simulation_settings s;
          s = s\<lparr>simulation_settings :=
            (if list_ex (\<lambda>r. sm_org r = org) rows
             then update_where (\<lambda>r. sm_org r = org) (\<lambda>r. r\<lparr>sm_enabled := enabled, sm_updated := now\<rparr>) rows
             else rows @ [\<lparr>sm_org = org, sm_enabled = enabled, sm_updated = now\<rparr>])\<rparr>
      in (getDebugSimulationSettings org s, s))"

definition getSimulatedSSHHost :: "int \<Rightarrow> jsstr \<Rightarrow> agent_db \<Rightarrow> ssh_host option" where
  [js_eval]: "getSimulatedSSHHost now org s =
     (let (enabled, since) = getDebugSimulationSettings org s
      in if enabled then Some (buildSimulatedSSHHost (if since = 0 then now else since)) else None)"

definition isSimulatedSSHHost :: "int \<Rightarrow> jsstr \<Rightarrow> jsstr \<Rightarrow> agent_db \<Rightarrow> bool" where
  [js_eval]: "isSimulatedSSHHost now host org s \<longleftrightarrow> host = SIMULATED_SSH_HOST_ID \<and> getSimulatedSSHHost now org s \<noteq> None"

subsection \<open>Hosts\<close>

text \<open>\<open>hostFromRow\<close> leaves the secrets out.\<close>

definition hostFromRow :: "ssh_host \<Rightarrow> ssh_host" where
  [js_eval]: "hostFromRow h = h\<lparr>sh_private_key := [], sh_passphrase := [], sh_simulated := False\<rparr>"

definition simulated_for :: "int \<Rightarrow> jsstr \<Rightarrow> agent_db \<Rightarrow> ssh_host option" where
  [js_eval]: "simulated_for now org s = (if org = [] then None else getSimulatedSSHHost now org s)"

definition listSSHHosts :: "int \<Rightarrow> bool \<Rightarrow> jsstr \<Rightarrow> agent_db \<Rightarrow> ssh_host list" where
  [js_eval]: "listSSHHosts now only_enabled org s =
     (let hosts = map hostFromRow (sort_by (\<lambda>a b. text_le (sh_name a) (sh_name b)
              \<and> (sh_name a = sh_name b \<longrightarrow> sh_created a \<le> sh_created b))
            (filter (\<lambda>h. only_enabled \<longrightarrow> sh_enabled h) (ssh_hosts s)))
      in (case simulated_for now org s of None \<Rightarrow> hosts | Some h \<Rightarrow> h # hosts))"

definition stored_host :: "jsstr \<Rightarrow> agent_db \<Rightarrow> ssh_host option" where
  [js_eval]: "stored_host i s = head_option (filter (\<lambda>h. sh_id h = i) (ssh_hosts s))"

definition getSSHHost :: "int \<Rightarrow> jsstr \<Rightarrow> jsstr \<Rightarrow> agent_db \<Rightarrow> ssh_host option" where
  [js_eval]: "getSSHHost now i org s =
     (case simulated_for now org s of
        Some h \<Rightarrow> if sh_id h = i then Some h else map_option hostFromRow (stored_host i s)
      | None \<Rightarrow> map_option hostFromRow (stored_host i s))"

definition getSSHHostWithSecret :: "int \<Rightarrow> jsstr \<Rightarrow> jsstr \<Rightarrow> agent_db \<Rightarrow> ssh_host option" where
  [js_eval]: "getSSHHostWithSecret now i org s =
     (let found = map_option (\<lambda>h. h\<lparr>sh_simulated := False\<rparr>) (stored_host i s)
      in case simulated_for now org s of
           Some h \<Rightarrow> if sh_id h = i then Some h else found
         | None \<Rightarrow> found)"

datatype host_error = NotManagedUser | OnlyPublicKey | MissingPrivateKey

record host_form =
  hf_name :: jsstr
  hf_hostname :: jsstr
  hf_port :: int
  hf_username :: jsstr
  hf_auth :: ssh_auth_type
  hf_fingerprint :: jsstr
  hf_enabled :: bool
  hf_private_key :: jsstr
  hf_passphrase :: jsstr

definition validateManagedUsername :: "jsstr \<Rightarrow> bool" where
  [js_eval]: "validateManagedUsername name \<longleftrightarrow> to_lower (trim name) = js ''scry-ops''"

definition host_of_form :: "jsstr \<Rightarrow> int \<Rightarrow> int \<Rightarrow> host_form \<Rightarrow> ssh_host" where
  [js_eval]: "host_of_form i created now f = \<lparr>sh_id = i, sh_name = hf_name f, sh_hostname = hf_hostname f, sh_port = hf_port f,
     sh_username = hf_username f, sh_auth = hf_auth f, sh_fingerprint = hf_fingerprint f, sh_enabled = hf_enabled f,
     sh_private_key = hf_private_key f, sh_passphrase = hf_passphrase f, sh_simulated = False, sh_created = created, sh_updated = now\<rparr>"

text \<open>The checks of both operations; \<open>validateSecret\<close> for a key is all that is left of it after them.\<close>

definition createSSHHost :: "jsstr \<Rightarrow> int \<Rightarrow> host_form \<Rightarrow> agent_db \<Rightarrow> (host_error + ssh_host option) \<times> agent_db" where
  [js_eval]: "createSSHHost i now f s =
     (if \<not> validateManagedUsername (hf_username f) then (Inl NotManagedUser, s)
      else if hf_auth f \<noteq> PrivateKey then (Inl OnlyPublicKey, s)
      else if hf_private_key f = [] then (Inl MissingPrivateKey, s)
      else (let s = s\<lparr>ssh_hosts := ssh_hosts s @ [host_of_form i now now f]\<rparr> in (Inr (getSSHHost now i [] s), s)))"

definition updateSSHHost :: "int \<Rightarrow> jsstr \<Rightarrow> host_form \<Rightarrow> agent_db \<Rightarrow> (host_error + ssh_host option) \<times> agent_db" where
  [js_eval]: "updateSSHHost now i f s =
     (if \<not> validateManagedUsername (hf_username f) then (Inl NotManagedUser, s)
      else if hf_auth f \<noteq> PrivateKey then (Inl OnlyPublicKey, s)
      else case getSSHHostWithSecret now i [] s of
        None \<Rightarrow> (Inr None, s)
      | Some cur \<Rightarrow>
          (let f = f\<lparr>hf_private_key := or_default (hf_private_key f) (sh_private_key cur),
                     hf_passphrase := or_default (hf_passphrase f) (sh_passphrase cur)\<rparr>
           in if hf_private_key f = [] then (Inl MissingPrivateKey, s)
              else (let s = s\<lparr>ssh_hosts := update_where (\<lambda>h. sh_id h = i) (\<lambda>h. host_of_form i (sh_created h) now f) (ssh_hosts s)\<rparr>
                    in (Inr (getSSHHost now i [] s), s))))"

definition deleteSSHHost :: "jsstr \<Rightarrow> agent_db \<Rightarrow> agent_db" where
  [js_eval]: "deleteSSHHost i s = s\<lparr>ssh_hosts := delete_where (\<lambda>h. sh_id h = i) (ssh_hosts s)\<rparr>"

subsection \<open>Policies and the audit of commands\<close>

definition getSSHToolPolicy :: "ssh_tool \<Rightarrow> agent_db \<Rightarrow> ssh_policy option" where
  [js_eval]: "getSSHToolPolicy tool s = head_option (filter (\<lambda>p. sp_tool p = tool) (tool_policies s))"

definition listSSHToolPolicies :: "agent_db \<Rightarrow> ssh_policy list" where
  [js_eval]: "listSSHToolPolicies s = sort_by (\<lambda>a b. sp_risk a \<le> sp_risk b) (tool_policies s)"

definition updateSSHToolPolicy :: "int \<Rightarrow> ssh_policy \<Rightarrow> agent_db \<Rightarrow> ssh_policy option \<times> agent_db" where
  [js_eval]: "updateSSHToolPolicy now p s =
     (let approval = (if sp_tool p = ExecuteCommand then True else sp_approval p);
          s = s\<lparr>tool_policies := update_where (\<lambda>r. sp_tool r = sp_tool p)
                (\<lambda>r. r\<lparr>sp_enabled := sp_enabled p, sp_approval := approval, sp_seconds := sp_seconds p,
                   sp_command_ids := sp_command_ids p, sp_commands := sp_commands p, sp_updated := now\<rparr>) (tool_policies s)\<rparr>
      in (getSSHToolPolicy (sp_tool p) s, s))"

definition addSSHAudit :: "ssh_audit \<Rightarrow> agent_db \<Rightarrow> agent_db" where
  [js_eval]: "addSSHAudit a s = s\<lparr>ssh_audits := ssh_audits s @ [a]\<rparr>"

definition listSSHAudits :: "int \<Rightarrow> agent_db \<Rightarrow> ssh_audit list" where
  [js_eval]: "listSSHAudits limit s = take (nat (min (max limit 1) 200)) (rev (ssh_audits s))"

interpretation ssh_log: journal ssh_audits addSSHAudit
  by unfold_locales (simp add: addSSHAudit_def)

subsection \<open>Running one command\<close>

definition SSH_READONLY_COMMANDS :: "(jsstr \<times> jsstr) list" where
  [js_eval]: "SSH_READONLY_COMMANDS = map (\<lambda>(a, b). (js a, js b))
     [(''system_overview'', ''/opt/scry-ops/bin/scry-system-overview''), (''disk_usage'', ''/opt/scry-ops/bin/scry-disk-usage''),
      (''memory_usage'', ''/opt/scry-ops/bin/scry-memory-usage''), (''failed_services'', ''/opt/scry-ops/bin/scry-failed-services''),
      (''network_listeners'', ''/opt/scry-ops/bin/scry-network-listeners''), (''recent_errors'', ''/opt/scry-ops/bin/scry-recent-errors''),
      (''security_preflight'', ''/opt/scry-ops/bin/scry-security-preflight'')]"

definition SSH_READONLY_COMMAND_LABELS :: "(jsstr \<times> jsstr) list" where
  [js_eval]: "SSH_READONLY_COMMAND_LABELS = map (\<lambda>(a, b). (js a, b))
     [(''system_overview'', [31995, 32479, 27010, 35272]), (''disk_usage'', [30913, 30424, 20351, 29992, 24773, 20917]), (''memory_usage'', [20869, 23384, 20351, 29992, 24773, 20917]),
      (''failed_services'', [22833, 36133, 30340, 31995, 32479, 26381, 21153]), (''network_listeners'', [32593, 32476, 30417, 21548, 31471, 21475]),
      (''recent_errors'', [36817, 26399, 31995, 32479, 38169, 35823]), (''security_preflight'', [26368, 23567, 26435, 38480, 29615, 22659, 26657, 39564])]"

record ssh_result =
  xr_stdout :: jsstr
  xr_stderr :: jsstr
  xr_exit :: "int option"
  xr_signal :: "jsstr option"
  xr_duration :: int
  xr_stdout_bytes :: nat
  xr_stderr_bytes :: nat
  xr_truncated :: bool

definition sim_connection_test :: jsstr where
  [js_eval]: "sim_connection_test = str_join [10]
     [js ''SCRY_SSH_OK'']"

definition sim_system_overview :: jsstr where
  [js_eval]: "sim_system_overview = str_join [10]
     [js ''[Scry '' @ [27169, 25311, 25191, 34892] @ js '']'',
      js ''hostname: scry-debug-kylin-01'',
      js ''os: Kylin Advanced Server V11'',
      js ''kernel: 6.6.0-28.0.0.31.oe2403.loongarch64'',
      js ''architecture: loongarch64'',
      js ''uptime: 18 days, 07:42'',
      js ''load average: 4.82, 3.96, 2.71'']"

definition sim_disk_usage :: jsstr where
  [js_eval]: "sim_disk_usage = str_join [10]
     [js ''[Scry '' @ [27169, 25311, 25191, 34892] @ js '']'',
      js ''Filesystem              Size  Used Avail Use% Mounted on'',
      js ''/dev/mapper/kylin-root   80G   39G   41G  49% /'',
      js ''/dev/mapper/scry-data   120G  111G  9.0G  93% /var/lib/scry-data'',
      js ''/dev/mapper/scry-log     40G   34G  6.0G  85% /var/log'']"

definition sim_memory_usage :: jsstr where
  [js_eval]: "sim_memory_usage = str_join [10]
     [js ''[Scry '' @ [27169, 25311, 25191, 34892] @ js '']'',
      js ''MemTotal:       16384 MiB'',
      js ''MemUsed:        13792 MiB'',
      js ''MemAvailable:    2592 MiB'',
      js ''SwapTotal:       4096 MiB'',
      js ''SwapUsed:        1536 MiB'',
      js ''pressure: some avg10=12.41 avg60=9.88 avg300=6.32'']"

definition sim_failed_services :: jsstr where
  [js_eval]: "sim_failed_services = str_join [10]
     [js ''[Scry '' @ [27169, 25311, 25191, 34892] @ js '']'',
      js ''UNIT                         LOAD   ACTIVE SUB    DESCRIPTION'',
      js ''scry-order-worker.service    loaded failed failed Scry order worker'',
      js
      ''systemd-journal-flush.service loaded failed failed Flush Journal to Persistent Storage'']"

definition sim_network_listeners :: jsstr where
  [js_eval]: "sim_network_listeners = str_join [10]
     [js ''[Scry '' @ [27169, 25311, 25191, 34892] @ js '']'',
      js ''tcp LISTEN 0 4096 0.0.0.0:22    users:((sshd,pid=912,fd=3))'',
      js ''tcp LISTEN 0 2048 0.0.0.0:8080  users:((scry-order,pid=2816,fd=12))'',
      js ''tcp LISTEN 0 1024 127.0.0.1:9090 users:((scry-metrics,pid=1902,fd=8))'']"

definition sim_recent_errors :: jsstr where
  [js_eval]: "sim_recent_errors = str_join [10]
     [js ''[Scry '' @ [27169, 25311, 25191, 34892] @ js '']'',
      js
      ''Jul 20 10:21:44 scry-debug-kylin-01 order-worker[2816]: ERROR kafka consumer lag exceeded threshold topic=order-events lag=18432'',
      js
      ''Jul 20 10:21:46 scry-debug-kylin-01 order-worker[2816]: ERROR database timeout operation=reserve_inventory timeout_ms=3000'',
      js
      ''Jul 20 10:22:03 scry-debug-kylin-01 systemd[1]: scry-order-worker.service: Main process exited, status=1/FAILURE'']"

definition sim_security_preflight :: jsstr where
  [js_eval]: "sim_security_preflight = str_join [10]
     [js ''[Scry '' @ [27169, 25311, 25191, 34892] @ js '']'',
      js ''PASS user=scry-ops uid=995 shell=/usr/sbin/nologin'',
      js ''PASS group=scry-ops'',
      js ''PASS authorized_keys permissions=0600'',
      js ''PASS managed wrappers=9'',
      js ''PASS sudoers command allowlist verified'',
      js ''PASS root login disabled'']"

definition sim_restart_service :: jsstr where
  [js_eval]: "sim_restart_service = str_join [10]
     [js ''[Scry '' @ [27169, 25311, 25191, 34892] @ js '']'',
      js ''approval: verified'',
      js ''action: restart scry-order-worker.service'',
      js ''result: active (running)'',
      js ''health_check: passed'',
      js ''elapsed_ms: 842'']"

definition sim_restart_quote_service :: jsstr where
  [js_eval]: "sim_restart_quote_service = str_join [10]
     [js ''[Scry '' @ [27169, 25311, 25191, 34892] @ js '']'',
      js ''approval: verified'',
      js ''target: '' @ [35843, 35797] @ js ''-'' @ [25253, 20215, 26381, 21153],
      js ''strategy: rolling restart'',
      js ''instances: quote-01 healthy, quote-02 healthy, quote-03 healthy'',
      js ''active_threads: 18/64'',
      js ''queue_depth: 21/500'',
      js ''cpu_utilization: 0.46'',
      js ''health_check: passed'',
      js ''result: completed'']"

definition sim_clean_journal :: jsstr where
  [js_eval]: "sim_clean_journal = str_join [10]
     [js ''[Scry '' @ [27169, 25311, 25191, 34892] @ js '']'',
      js ''approval: verified'',
      js ''vacuum_before: 34.2G'',
      js ''vacuum_after: 9.8G'',
      js ''released: 24.4G'',
      js ''result: completed'']"

definition simulatedOutputByCommand :: "(jsstr \<times> jsstr) list" where
  [js_eval]: "simulatedOutputByCommand =
     [(js ''/opt/scry-ops/bin/scry-connection-test'', sim_connection_test),
      (js ''/opt/scry-ops/bin/scry-system-overview'', sim_system_overview),
      (js ''/opt/scry-ops/bin/scry-disk-usage'', sim_disk_usage),
      (js ''/opt/scry-ops/bin/scry-memory-usage'', sim_memory_usage),
      (js ''/opt/scry-ops/bin/scry-failed-services'', sim_failed_services),
      (js ''/opt/scry-ops/bin/scry-network-listeners'', sim_network_listeners),
      (js ''/opt/scry-ops/bin/scry-recent-errors'', sim_recent_errors),
      (js ''/opt/scry-ops/bin/scry-security-preflight'', sim_security_preflight),
      (js ''/opt/scry-ops/bin/scry-restart-service'', sim_restart_service),
      (js ''/opt/scry-ops/bin/scry-restart-quote-service'', sim_restart_quote_service),
      (js ''/opt/scry-ops/bin/scry-clean-journal'', sim_clean_journal)]"


definition simulateSSHCommand :: "jsstr \<Rightarrow> ssh_result" where
  [js_eval]: "simulateSSHCommand command =
     (let stdout = (case map_of simulatedOutputByCommand command of
            Some t \<Rightarrow> t
          | None \<Rightarrow> ((js ''[Scry '' @ [27169, 25311, 25191, 34892] @ js '']'') @ [10] @ js ''command: '' @ command @ [10] @ js ''result: completed''))
      in \<lparr>xr_stdout = stdout, xr_stderr = [], xr_exit = Some 0, xr_signal = None,
          xr_duration = (if str_includes command (js ''quote-service'') then 2480
            else if str_includes command (js ''restart'') then 842 else 126),
          xr_stdout_bytes = utf8_length stdout, xr_stderr_bytes = 0, xr_truncated = False\<rparr>)"

text \<open>
  The events of the client library in the order in which they arrive; the timer that the code starts
  fires after all of them, if the promise is not settled by then. Bytes are numbers below 256.
\<close>

datatype ssh_signal =
    ExecFailed jsstr | Stdout "nat list" | Stderr "nat list" | StreamClosed "int option" "jsstr option"
  | StreamFailed jsstr | ClientFailed jsstr | TimerFired

text \<open>How the promise is settled: with an error, or with the exit code, the signal and what was captured so far.\<close>

record capture =
  cp_stdout :: "nat list"
  cp_stderr :: "nat list"
  cp_stdout_bytes :: nat
  cp_stderr_bytes :: nat
  cp_truncated :: bool
  cp_settled :: "(jsstr + (int option \<times> jsstr option) \<times> nat list \<times> nat list \<times> nat \<times> nat \<times> bool) option"

definition no_capture :: capture where
  [js_eval]: "no_capture = \<lparr>cp_stdout = [], cp_stderr = [], cp_stdout_bytes = 0, cp_stderr_bytes = 0, cp_truncated = False,
     cp_settled = None\<rparr>"

text \<open>\<open>append\<close>: bytes are counted always and kept up to the limit, over both streams together.\<close>

definition append_chunk :: "nat \<Rightarrow> bool \<Rightarrow> nat list \<Rightarrow> capture \<Rightarrow> capture" where
  [js_eval]: "append_chunk limit to_stdout chunk c =
     (let c = (if to_stdout then c\<lparr>cp_stdout_bytes := cp_stdout_bytes c + length chunk\<rparr>
               else c\<lparr>cp_stderr_bytes := cp_stderr_bytes c + length chunk\<rparr>);
          remaining = limit - (length (cp_stdout c) + length (cp_stderr c))
      in if remaining = 0 then c\<lparr>cp_truncated := True\<rparr>
         else (let next = take remaining chunk;
                   c = (if length next < length chunk then c\<lparr>cp_truncated := True\<rparr> else c)
               in if to_stdout then c\<lparr>cp_stdout := cp_stdout c @ next\<rparr> else c\<lparr>cp_stderr := cp_stderr c @ next\<rparr>))"

text \<open>\<open>finish\<close>: only the first call settles the promise.\<close>

definition finish :: "jsstr + (int option \<times> jsstr option) \<Rightarrow> capture \<Rightarrow> capture" where
  [js_eval]: "finish r c =
     (case cp_settled c of
        Some _ \<Rightarrow> c
      | None \<Rightarrow> c\<lparr>cp_settled := Some (case r of Inl e \<Rightarrow> Inl e
          | Inr x \<Rightarrow> Inr (x, cp_stdout c, cp_stderr c, cp_stdout_bytes c, cp_stderr_bytes c, cp_truncated c))\<rparr>)"

definition on_signal :: "nat \<Rightarrow> int \<Rightarrow> ssh_signal \<Rightarrow> capture \<Rightarrow> capture" where
  [js_eval]: "on_signal limit seconds e c =
     (case e of
        ExecFailed m \<Rightarrow> finish (Inl ((js ''SSH '' @ [21629, 20196, 21551, 21160, 22833, 36133, 65306]) @ m)) c
      | Stdout b \<Rightarrow> append_chunk limit True b c
      | Stderr b \<Rightarrow> append_chunk limit False b c
      | StreamClosed code signal \<Rightarrow> finish (Inr (code, signal)) c
      | StreamFailed m \<Rightarrow> finish (Inl ((js ''SSH '' @ [25968, 25454, 27969, 38169, 35823, 65306]) @ m)) c
      | ClientFailed m \<Rightarrow> finish (Inl ((js ''SSH '' @ [36830, 25509, 22833, 36133, 65306]) @ m)) c
      | TimerFired \<Rightarrow> finish (Inl ((js ''SSH '' @ [21629, 20196, 25191, 34892, 36229, 36807] @ js '' '') @ int_text seconds @ (js '' '' @ [31186, 65292, 24050, 32456, 27490, 36830, 25509]))) c)"

text \<open>
  The other side: the key it presents, the events it causes once the key is accepted, and the error
  the client library reports when the verifier rejects the key. Times, the text of a key's digest in
  base 64 and the decoding of bytes belong to the platform.
\<close>

record ssh_network =
  nw_key :: "ssh_host \<Rightarrow> nat list"
  nw_signals :: "ssh_host \<Rightarrow> jsstr \<Rightarrow> ssh_signal list"
  nw_rejected :: jsstr
  nw_digest :: "nat list \<Rightarrow> jsstr"
  nw_decode :: "nat list \<Rightarrow> jsstr"
  nw_elapsed :: int

definition drop_padding :: "jsstr \<Rightarrow> jsstr" where
  [js_eval]: "drop_padding s = rev (dropWhile (\<lambda>u. u = 61) (rev s))"

definition fingerprint :: "ssh_network \<Rightarrow> nat list \<Rightarrow> jsstr" where
  [js_eval]: "fingerprint n key = js ''SHA256:'' @ drop_padding (nw_digest n key)"

definition normalizedFingerprint :: "jsstr \<Rightarrow> jsstr" where
  [js_eval]: "normalizedFingerprint v =
     (let t = trim v in drop_padding (if to_lower (take 7 t) = js ''sha256:'' then drop 7 t else t))"

definition key_accepted :: "ssh_network \<Rightarrow> ssh_host \<Rightarrow> bool" where
  [js_eval]: "key_accepted n h \<longleftrightarrow> normalizedFingerprint (fingerprint n (nw_key n h)) = normalizedFingerprint (sh_fingerprint h)"

definition executeSSHCommand :: "ssh_network \<Rightarrow> ssh_host \<Rightarrow> jsstr \<Rightarrow> int \<Rightarrow> nat \<Rightarrow> jsstr + ssh_result" where
  [js_eval]: "executeSSHCommand n h command seconds limit =
     (if sh_simulated h then Inr (simulateSSHCommand command)
      else (let events = (if key_accepted n h then nw_signals n h command else [ClientFailed (nw_rejected n)])
            in case cp_settled (fold (on_signal limit seconds) (events @ [TimerFired]) no_capture) of
                 Some (Inr ((code, signal), out, err, ob, eb, short)) \<Rightarrow> Inr \<lparr>xr_stdout = nw_decode n out, xr_stderr = nw_decode n err,
                   xr_exit = code, xr_signal = signal, xr_duration = nw_elapsed n, xr_stdout_bytes = ob, xr_stderr_bytes = eb,
                   xr_truncated = short\<rparr>
               | Some (Inl e) \<Rightarrow> Inl e
               | None \<Rightarrow> Inl []))"

definition testSSHConnection :: "ssh_network \<Rightarrow> ssh_host \<Rightarrow> jsstr + ssh_result" where
  [js_eval]: "testSSHConnection n h = executeSSHCommand n h (js ''/opt/scry-ops/bin/scry-connection-test'') 15 1024"

subsection \<open>Audited execution\<close>

record ssh_call =
  xc_user :: auth_user
  xc_host :: jsstr
  xc_tool :: ssh_tool
  xc_command_id :: jsstr
  xc_text :: jsstr
  xc_seconds :: int
  xc_context :: "capture_context option"
  xc_title :: jsstr

definition tool_details :: "ssh_call \<Rightarrow> ssh_host \<Rightarrow> (jsstr \<times> jsval) list" where
  [js_eval]: "tool_details q h = [(js ''toolId'', Str (ssh_tool_id (xc_tool q))), (js ''commandId'', Str (xc_command_id q)),
     (js ''hostId'', Str (sh_id h)), (js ''simulated'', JBool (sh_simulated h))]"

definition tool_event ::
    "ssh_call \<Rightarrow> ssh_host \<Rightarrow> decision_result \<Rightarrow> int \<Rightarrow> string \<Rightarrow> security_decision \<Rightarrow> (jsstr \<times> jsval) list \<Rightarrow> security_event" where
  [js_eval]: "tool_event q h r now ty decision rest =
     \<lparr>se_trace = dr_trace r, se_org = user_org (xc_user q), se_user = user_id (xc_user q), se_type = js ty,
      se_source = AuTool, se_target = sh_id h @ [58] @ xc_command_id q, se_decision = Some decision, se_risk = dr_risk r,
      se_hash = dr_hash r, se_details = Obj (tool_details q h @ rest), se_at = now\<rparr>"

definition exit_text :: "int option \<Rightarrow> jsstr" where
  [js_eval]: "exit_text code = (case code of None \<Rightarrow> [26410, 30693] | Some n \<Rightarrow> int_text n)"

definition exit_value :: "int option \<Rightarrow> jsval" where
  [js_eval]: "exit_value code = (case code of None \<Rightarrow> Null | Some n \<Rightarrow> Num (of_int n))"

definition result_audit :: "ssh_call \<Rightarrow> ssh_host \<Rightarrow> int \<Rightarrow> ssh_result \<Rightarrow> ssh_audit" where
  [js_eval]: "result_audit q h now x = \<lparr>sa_user = user_id (xc_user q), sa_host = sh_id h, sa_host_name = sh_name h,
     sa_tool = ssh_tool_id (xc_tool q), sa_command = xc_command_id q, sa_success = (xr_exit x = Some 0), sa_exit = xr_exit x,
     sa_duration = xr_duration x, sa_stdout = xr_stdout_bytes x, sa_stderr = xr_stderr_bytes x,
     sa_error = (if xr_exit x = Some 0 then [] else (([36828, 31243, 21629, 20196, 36864, 20986, 30721] @ js '' '') @ exit_text (xr_exit x))), sa_created = now\<rparr>"

definition error_audit :: "ssh_call \<Rightarrow> ssh_host \<Rightarrow> int \<Rightarrow> int \<Rightarrow> jsstr \<Rightarrow> ssh_audit" where
  [js_eval]: "error_audit q h now elapsed m = \<lparr>sa_user = user_id (xc_user q), sa_host = sh_id h, sa_host_name = sh_name h,
     sa_tool = ssh_tool_id (xc_tool q), sa_command = xc_command_id q, sa_success = False, sa_exit = None,
     sa_duration = elapsed, sa_stdout = 0, sa_stderr = 0, sa_error = take 500 m, sa_created = now\<rparr>"

definition ssh_evidence :: "ssh_call \<Rightarrow> ssh_host \<Rightarrow> ssh_result \<Rightarrow> capture_context \<Rightarrow> capture_input" where
  [js_eval]: "ssh_evidence q h x c = \<lparr>ci_context = c, ci_message = [], ci_type = SrcSsh,
     ci_name = js ''ssh:'' @ xc_command_id q, ci_heading = xc_title q,
     ci_given = sh_name h @ ((js '' '' @ [25191, 34892] @ js '' '')) @ xc_title q @ ([65292, 36864, 20986, 30721] @ js '' '') @ exit_text (xr_exit x)
       @ (([65292, 32791, 26102] @ js '' '')) @ int_text (xr_duration x) @ (js '' ms'' @ [12290]),
     ci_value = Obj [(js ''hostId'', Str (sh_id h)), (js ''hostName'', Str (sh_name h)), (js ''simulated'', JBool (sh_simulated h)),
       (js ''commandId'', Str (xc_command_id q)), (js ''stdout'', Str (xr_stdout x)), (js ''stderr'', Str (xr_stderr x)),
       (js ''exitCode'', exit_value (xr_exit x)), (js ''durationMs'', Num (of_int (xr_duration x))),
       (js ''truncated'', JBool (xr_truncated x))],
     ci_completed = (xr_exit x = Some 0)\<rparr>"

definition host_missing :: jsstr where
  [js_eval]: "host_missing = ((js ''SSH '' @ [20027, 26426, 19981, 23384, 22312, 25110, 24050, 20572, 29992]))"

text \<open>The part after the gate: the command runs, and its result or its error is recorded.\<close>

definition run_authorized ::
    "platform \<Rightarrow> ssh_network \<Rightarrow> (nat \<Rightarrow> jsstr) \<Rightarrow> int \<Rightarrow> ssh_call \<Rightarrow> ssh_host \<Rightarrow> decision_result \<Rightarrow> agent_db \<Rightarrow>
       (jsstr + ssh_result) \<times> agent_db" where
  [js_eval]: "run_authorized pf n fresh now q h r s =
     (let s = addSecurityAuditEvent (tool_event q h r now ''tool.execution.started'' (dr_decision r) []) s
      in case executeSSHCommand n h (xc_text q) (xc_seconds q) 200000 of
           Inr x \<Rightarrow>
             (let ok = (xr_exit x = Some 0);
                  s = addSSHAudit (result_audit q h now x) s;
                  s = addSecurityAuditEvent (tool_event q h r now (if ok then ''tool.execution.completed'' else ''tool.execution.failed'')
                        (if ok then Allow else Deny)
                        [(js ''exitCode'', exit_value (xr_exit x)), (js ''durationMs'', Num (of_int (xr_duration x))),
                         (js ''stdoutBytes'', Num (of_nat (xr_stdout_bytes x))), (js ''stderrBytes'', Num (of_nat (xr_stderr_bytes x)))]) s
              in (Inr x, case xc_context q of None \<Rightarrow> s | Some c \<Rightarrow> snd (recordEvidence pf fresh now (xc_user q) (ssh_evidence q h x c) s)))
         | Inl m \<Rightarrow>
             (let s = addSSHAudit (error_audit q h now (nw_elapsed n) m) s;
                  s = addSecurityAuditEvent (tool_event q h r now ''tool.execution.failed'' Deny [(js ''error'', Str (take 300 m))]) s
              in (Inl m, s)))"

definition gate_request :: "ssh_call \<Rightarrow> ssh_host \<Rightarrow> ssh_request" where
  [js_eval]: "gate_request q h = \<lparr>rq_user = xc_user q, rq_host = h, rq_tool = ssh_tool_id (xc_tool q), rq_command_id = xc_command_id q,
     rq_command = xc_text q, rq_trace = (case xc_context q of None \<Rightarrow> [] | Some c \<Rightarrow> ctx_trace c)\<rparr>"

definition auditedExecution ::
    "platform \<Rightarrow> ssh_network \<Rightarrow> jsstr \<Rightarrow> (nat \<Rightarrow> jsstr) \<Rightarrow> int \<Rightarrow> ssh_call \<Rightarrow> agent_db \<Rightarrow> (jsstr + ssh_result) \<times> agent_db" where
  [js_eval]: "auditedExecution pf n uuid fresh now q s =
     (case getSSHHostWithSecret now (xc_host q) (user_org (xc_user q)) s of
        None \<Rightarrow> (Inl host_missing, s)
      | Some h \<Rightarrow>
          if \<not> sh_enabled h then (Inl host_missing, s)
          else (let (r, s) = authorizeSSHExecution pf uuid now (gate_request q h) s
                in if dr_decision r = Deny then (Inl ([23433, 20840, 31574, 30053, 25298, 32477, 25191, 34892, 65306] @ str_join [65307] (dr_reasons r)), s)
                   else run_authorized pf n fresh now q h r s))"

subsection \<open>The tools\<close>

definition policy_missing :: "ssh_tool \<Rightarrow> jsstr" where
  [js_eval]: "policy_missing tool = ((js ''SSH '' @ [24037, 20855, 31574, 30053, 19981, 23384, 22312, 65306])) @ ssh_tool_id tool"

text \<open>\<open>ssh-list-hosts\<close>: hosts, and the identifiers and names of the commands, without their texts.\<close>

definition uniq_by :: "('a \<Rightarrow> 'b) \<Rightarrow> 'a list \<Rightarrow> 'a list" where
  [js_eval]: "uniq_by key xs = foldl (\<lambda>ys x. if key x \<in> set (map key ys) then ys else ys @ [x]) [] xs"

record host_listing =
  hl_hosts :: "(jsstr \<times> jsstr \<times> jsstr \<times> bool) list"
  hl_readonly :: "(jsstr \<times> jsstr) list"
  hl_configured :: "(jsstr \<times> jsstr \<times> jsstr) list"

definition listHosts_tool :: "int \<Rightarrow> auth_user \<Rightarrow> agent_db \<Rightarrow> jsstr + host_listing" where
  [js_eval]: "listHosts_tool now u s =
     (let hosts = listSSHHosts now True (user_org u) s; simulated = list_ex sh_simulated hosts
      in case (getSSHToolPolicy ReadonlyInspect s, getSSHToolPolicy ExecuteCommand s) of
           (None, _) \<Rightarrow> Inl (policy_missing ReadonlyInspect)
         | (_, None) \<Rightarrow> Inl (policy_missing ExecuteCommand)
         | (Some p, Some x) \<Rightarrow> Inr
             \<lparr>hl_hosts = map (\<lambda>h. (sh_id h, sh_name h, sh_hostname h, sh_simulated h)) hosts,
              hl_readonly = map (\<lambda>i. (i, case map_of SSH_READONLY_COMMAND_LABELS i of Some label \<Rightarrow> label | None \<Rightarrow> i))
                (uniq_by id ((if sp_enabled p then sp_command_ids p else []) @ (if simulated then map fst SSH_READONLY_COMMANDS else []))),
              hl_configured = map (\<lambda>c. (sc_id c, sc_name c, sc_description c))
                (uniq_by sc_id ((if sp_enabled x then sp_commands x else []) @ (if simulated then SIMULATED_SSH_COMMANDS else [])))\<rparr>)"

definition readonly_needs_approval :: "int \<Rightarrow> auth_user \<Rightarrow> jsstr \<Rightarrow> agent_db \<Rightarrow> bool" where
  [js_eval]: "readonly_needs_approval now u host s \<longleftrightarrow> isSimulatedSSHHost now host (user_org u) s
     \<or> (case getSSHToolPolicy ReadonlyInspect s of None \<Rightarrow> False | Some p \<Rightarrow> sp_approval p)"

definition readonlyInspect ::
    "platform \<Rightarrow> ssh_network \<Rightarrow> jsstr \<Rightarrow> (nat \<Rightarrow> jsstr) \<Rightarrow> int \<Rightarrow> auth_user \<Rightarrow> capture_context option \<Rightarrow> jsstr \<Rightarrow> jsstr \<Rightarrow>
       agent_db \<Rightarrow> (jsstr + ssh_result) \<times> agent_db" where
  [js_eval]: "readonlyInspect pf n uuid fresh now u x host command s =
     (case (getSSHToolPolicy ReadonlyInspect s, map_of SSH_READONLY_COMMANDS command, map_of SSH_READONLY_COMMAND_LABELS command) of
        (None, _, _) \<Rightarrow> (Inl (policy_missing ReadonlyInspect), s)
      | (Some p, Some line, Some label) \<Rightarrow>
          (let simulated = isSimulatedSSHHost now host (user_org u) s
           in if \<not> sp_enabled p \<and> \<not> simulated then (Inl ((js ''SSH '' @ [21482, 35835, 24033, 26816, 24037, 20855, 23578, 26410, 21551, 29992])), s)
              else if \<not> simulated \<and> command \<notin> set (sp_command_ids p) then (Inl ([35813, 21482, 35835, 24033, 26816, 21629, 20196, 26410, 33719, 31649, 29702, 21592, 25480,
      26435]), s)
              else auditedExecution pf n uuid fresh now \<lparr>xc_user = u, xc_host = host, xc_tool = ReadonlyInspect,
                     xc_command_id = command, xc_text = line, xc_seconds = sp_seconds p, xc_context = x, xc_title = label\<rparr> s)
      | _ \<Rightarrow> (Inl (js ''invalid command''), s))"

definition executeConfiguredCommand ::
    "platform \<Rightarrow> ssh_network \<Rightarrow> jsstr \<Rightarrow> (nat \<Rightarrow> jsstr) \<Rightarrow> int \<Rightarrow> auth_user \<Rightarrow> capture_context option \<Rightarrow> jsstr \<Rightarrow> jsstr \<Rightarrow>
       agent_db \<Rightarrow> (jsstr + ssh_result) \<times> agent_db" where
  [js_eval]: "executeConfiguredCommand pf n uuid fresh now u x host command s =
     (case getSSHToolPolicy ExecuteCommand s of
        None \<Rightarrow> (Inl (policy_missing ExecuteCommand), s)
      | Some p \<Rightarrow>
          (let simulated = isSimulatedSSHHost now host (user_org u) s
           in if \<not> sp_enabled p \<and> \<not> simulated then (Inl ((js ''SSH '' @ [25193, 23637, 21629, 20196, 24037, 20855, 23578, 26410, 21551, 29992])), s)
              else case head_option (filter (\<lambda>c. sc_id c = command) (if simulated then SIMULATED_SSH_COMMANDS else sp_commands p)) of
                     None \<Rightarrow> (Inl (([35813] @ js '' SSH '' @ [21629, 20196, 26410, 33719, 31649, 29702, 21592, 25480, 26435])), s)
                   | Some d \<Rightarrow> auditedExecution pf n uuid fresh now \<lparr>xc_user = u, xc_host = host, xc_tool = ExecuteCommand,
                       xc_command_id = command, xc_text = sc_command d, xc_seconds = sp_seconds p, xc_context = x,
                       xc_title = sc_name d\<rparr> s))"

subsection \<open>What the server accepts from an administrator (\<open>server.ts\<close>)\<close>

text \<open>The values after the schemas have trimmed the names and filled in the defaults.\<close>

definition trimmed_text :: "nat \<Rightarrow> nat \<Rightarrow> jsstr \<Rightarrow> bool" where
  [js_eval]: "trimmed_text lo hi s \<longleftrightarrow> trim s = s \<and> sized lo hi s"

definition valid_ssh_command :: "ssh_command \<Rightarrow> bool" where
  [js_eval]: "valid_ssh_command c \<longleftrightarrow> valid_id 80 (sc_id c) \<and> trimmed_text 1 100 (sc_name c) \<and> trimmed_text 0 500 (sc_description c)
     \<and> trimmed_text 1 4000 (sc_command c)
     \<and> (let a = analyzeCommandRisk (sc_command c)
        in cr_decision a \<noteq> Deny \<and> wrapper_path (token_at (cr_tokens a) (if cr_executable a = js ''sudo'' then 2 else 0)))"

definition valid_ssh_policy :: "ssh_policy \<Rightarrow> bool" where
  [js_eval]: "valid_ssh_policy p \<longleftrightarrow> 5 \<le> sp_seconds p \<and> sp_seconds p \<le> 120
     \<and> list_all (\<lambda>i. i \<in> fst ` set SSH_READONLY_COMMANDS) (sp_command_ids p) \<and> length (sp_command_ids p) \<le> 20
     \<and> list_all valid_ssh_command (sp_commands p) \<and> length (sp_commands p) \<le> 50
     \<and> distinct (sp_command_ids p) \<and> distinct (map sc_id (sp_commands p))"

definition valid_host_form :: "host_form \<Rightarrow> bool" where
  [js_eval]: "valid_host_form f \<longleftrightarrow> trimmed_text 1 100 (hf_name f) \<and> trimmed_text 1 253 (hf_hostname f)
     \<and> 1 \<le> hf_port f \<and> hf_port f \<le> 65535 \<and> hf_username f = js ''scry-ops'' \<and> hf_auth f = PrivateKey
     \<and> trimmed_text 16 200 (hf_fingerprint f) \<and> length (hf_private_key f) \<le> 100000 \<and> length (hf_passphrase f) \<le> 10000"

text \<open>\<open>PUT /api/ssh/policies/:toolId\<close>: each tool keeps only the commands of its kind.\<close>

definition put_policy :: "int \<Rightarrow> ssh_tool \<Rightarrow> ssh_policy \<Rightarrow> agent_db \<Rightarrow> ssh_policy option \<times> agent_db" where
  [js_eval]: "put_policy now tool input s =
     (case getSSHToolPolicy tool s of
        None \<Rightarrow> (None, s)
      | Some cur \<Rightarrow> updateSSHToolPolicy now (cur\<lparr>sp_tool := tool, sp_enabled := sp_enabled input,
            sp_approval := (if tool = ExecuteCommand then True else sp_approval input), sp_seconds := sp_seconds input,
            sp_command_ids := (if tool = ReadonlyInspect then sp_command_ids input else []),
            sp_commands := (if tool = ExecuteCommand then sp_commands input else [])\<rparr>) s)"

end
