(* ===== verification/Signal_Query.thy ===== *)
theory Signal_Query
  imports Json "HOL-Library.Monad_Syntax"
begin

section \<open>The telemetry query compiler (\<open>tools/signal-query.ts\<close>)\<close>

text \<open>
  One flat request for logs, traces or metrics is validated and compiled into the payload of the
  query service. \<open>parse_signal_query\<close> is the validation schema: it takes a JSON value, checks
  every field and fills in the defaults. \<open>buildSignalQueryPayload\<close> is the compiler. Where the
  source looks a field name up in an object literal, the names the object inherits are found too;
  the model keeps that behaviour (\<open>inherited_names\<close>).
\<close>

subsection \<open>Vocabulary\<close>

datatype signal = Logs | Traces | Metrics
datatype attribute_scope = AutoScope | ColumnScope | ResourceScope | AttributeScope
datatype data_type = StringType | Int64Type | Float64Type | BoolType
datatype result_mode = Records | Timeseries
datatype time_order = Asc | Desc

definition signals :: "(jsstr \<times> signal) list" where
  [js_eval]: "signals = [(js ''logs'', Logs), (js ''traces'', Traces), (js ''metrics'', Metrics)]"

definition scopes :: "(jsstr \<times> attribute_scope) list" where
  [js_eval]: "scopes = [(js ''auto'', AutoScope), (js ''column'', ColumnScope), (js ''resource'', ResourceScope),
     (js ''attribute'', AttributeScope)]"

definition data_types :: "(jsstr \<times> data_type) list" where
  [js_eval]: "data_types = [(js ''string'', StringType), (js ''int64'', Int64Type), (js ''float64'', Float64Type),
     (js ''bool'', BoolType)]"

definition result_modes :: "(jsstr \<times> result_mode) list" where
  [js_eval]: "result_modes = [(js ''records'', Records), (js ''timeseries'', Timeseries)]"

definition time_orders :: "(jsstr \<times> time_order) list" where
  [js_eval]: "time_orders = [(js ''asc'', Asc), (js ''desc'', Desc)]"

definition filter_operators :: "jsstr list" where
  [js_eval]: "filter_operators = [js ''='', js ''!='', js ''>'', js ''>='', js ''<'', js ''<='', js ''in'', js ''nin'',
     js ''contains'', js ''ncontains'', js ''like'', js ''nlike'', js ''regex'', js ''nregex'', js ''exists'',
     js ''nexists'', js ''has'', js ''nhas'']"

definition aggregations :: "jsstr list" where
  [js_eval]: "aggregations = [js ''count'', js ''avg'', js ''sum'', js ''min'', js ''max'', js ''p50'', js ''p90'',
     js ''p95'', js ''p99'', js ''rate'']"

definition severities_allowed :: "jsstr list" where
  [js_eval]: "severities_allowed = [js ''TRACE'', js ''DEBUG'', js ''INFO'', js ''WARN'', js ''ERROR'', js ''FATAL'']"

definition metric_types :: "jsstr list" where
  [js_eval]: "metric_types = [js ''Gauge'', js ''Sum'', js ''Histogram'', js ''ExponentialHistogram'']"

definition temporalities :: "jsstr list" where
  [js_eval]: "temporalities = [js ''Unspecified'', js ''Delta'', js ''Cumulative'']"

definition name_of :: "(jsstr \<times> 'a) list \<Rightarrow> 'a \<Rightarrow> jsstr" where
  [js_eval]: "name_of table a = (case head_option (filter (\<lambda>e. snd e = a) table) of None \<Rightarrow> [] | Some e \<Rightarrow> fst e)"

record signal_filter =
  sf_field :: jsstr
  sf_operator :: jsstr
  sf_value :: jsval
  sf_scope :: attribute_scope
  sf_type :: "data_type option"

record group_field =
  gf_field :: jsstr
  gf_scope :: attribute_scope
  gf_type :: data_type

record signal_query =
  sq_signal :: signal
  sq_lookback :: int
  sq_case :: "jsstr option"
  sq_services :: "jsstr list"
  sq_filters :: "signal_filter list"
  sq_mode :: result_mode
  sq_limit :: int
  sq_order :: time_order
  sq_aggregation :: "jsstr option"
  sq_group :: "group_field list"
  sq_step :: "int option"
  sq_search :: "jsstr option"
  sq_severities :: "jsstr list"
  sq_operation :: "jsstr option"
  sq_errors :: bool
  sq_min_duration :: "rat option"
  sq_metric :: "jsstr option"
  sq_metric_type :: jsstr
  sq_temporality :: "jsstr option"

subsection \<open>The validation schema\<close>

text \<open>Validators: \<open>None\<close> is a validation error.\<close>

definition v_string :: "nat \<Rightarrow> nat \<Rightarrow> jsval \<Rightarrow> jsstr option" where
  [js_eval]: "v_string lo hi v =
     (case v of Str s \<Rightarrow> if lo \<le> length s \<and> length s \<le> hi then Some s else None | _ \<Rightarrow> None)"

definition v_int :: "int \<Rightarrow> int \<Rightarrow> jsval \<Rightarrow> int option" where
  [js_eval]: "v_int lo hi v =
     (case v of Num q \<Rightarrow> if of_int (floor q) = q \<and> lo \<le> floor q \<and> floor q \<le> hi then Some (floor q) else None
      | _ \<Rightarrow> None)"

definition v_number :: "rat \<Rightarrow> rat \<Rightarrow> jsval \<Rightarrow> rat option" where
  [js_eval]: "v_number lo hi v = (case v of Num q \<Rightarrow> if lo \<le> q \<and> q \<le> hi then Some q else None | _ \<Rightarrow> None)"

definition v_bool :: "jsval \<Rightarrow> bool option" where
  [js_eval]: "v_bool v = (case v of JBool b \<Rightarrow> Some b | _ \<Rightarrow> None)"

definition v_enum :: "(jsstr \<times> 'a) list \<Rightarrow> jsval \<Rightarrow> 'a option" where
  [js_eval]: "v_enum table v = (case v of Str s \<Rightarrow> map_of table s | _ \<Rightarrow> None)"

definition v_word :: "jsstr list \<Rightarrow> jsval \<Rightarrow> jsstr option" where
  [js_eval]: "v_word ws v = (case v of Str s \<Rightarrow> if s \<in> set ws then Some s else None | _ \<Rightarrow> None)"

fun v_all :: "(jsval \<Rightarrow> 'a option) \<Rightarrow> jsval list \<Rightarrow> 'a list option" where
  "v_all p [] = Some []"
| "v_all p (v # vs) = do { a \<leftarrow> p v; as \<leftarrow> v_all p vs; Some (a # as) }"

definition v_array :: "nat \<Rightarrow> (jsval \<Rightarrow> 'a option) \<Rightarrow> jsval \<Rightarrow> 'a list option" where
  [js_eval]: "v_array hi p v =
     (case v of Arr vs \<Rightarrow> if length vs \<le> hi then v_all p vs else None | _ \<Rightarrow> None)"

text \<open>\<open>.optional()\<close> and \<open>.optional().default(d)\<close>.\<close>

definition v_optional :: "(jsval \<Rightarrow> 'a option) \<Rightarrow> jsval \<Rightarrow> 'a option option" where
  [js_eval]: "v_optional p v = (if v = Undef then Some None else map_option Some (p v))"

definition v_default :: "'a \<Rightarrow> (jsval \<Rightarrow> 'a option) \<Rightarrow> jsval \<Rightarrow> 'a option" where
  [js_eval]: "v_default d p v = (if v = Undef then Some d else p v)"

definition v_case_id :: "jsval \<Rightarrow> jsstr option" where
  [js_eval]: "v_case_id v =
     (case v of Str s \<Rightarrow>
        if length s = 8 \<and> take 5 s = js ''case-'' \<and> list_all is_digit (drop 5 s) then Some s else None
      | _ \<Rightarrow> None)"

fun is_str :: "jsval \<Rightarrow> bool" where "is_str (Str _) = True" | "is_str _ = False"
fun is_num :: "jsval \<Rightarrow> bool" where "is_num (Num _) = True" | "is_num _ = False"
fun is_bool :: "jsval \<Rightarrow> bool" where "is_bool (JBool _) = True" | "is_bool _ = False"
fun is_arr :: "jsval \<Rightarrow> bool" where "is_arr (Arr _) = True" | "is_arr _ = False"

definition v_filter_value :: "jsval \<Rightarrow> jsval option" where
  [js_eval]: "v_filter_value v =
     (if (case v of Arr vs \<Rightarrow> list_all is_str vs \<or> list_all is_num vs \<or> list_all is_bool vs
          | _ \<Rightarrow> is_str v \<or> is_num v \<or> is_bool v)
      then Some v else None)"

definition v_filter :: "jsval \<Rightarrow> signal_filter option" where
  [js_eval]: "v_filter v =
     (case v of
        Obj o' \<Rightarrow> do {
          field \<leftarrow> v_string 1 240 (get_prop o' (js ''field''));
          operator \<leftarrow> v_default (js ''='') (v_word filter_operators) (get_prop o' (js ''operator''));
          val \<leftarrow> v_default Undef v_filter_value (get_prop o' (js ''value''));
          scope \<leftarrow> v_default AutoScope (v_enum scopes) (get_prop o' (js ''scope''));
          type \<leftarrow> v_optional (v_enum data_types) (get_prop o' (js ''dataType''));
          if operator \<notin> {js ''exists'', js ''nexists''} \<and> val = Undef then None
          else if operator \<in> {js ''in'', js ''nin''} \<and> \<not> is_arr val then None
          else Some \<lparr>sf_field = field, sf_operator = operator, sf_value = val, sf_scope = scope, sf_type = type\<rparr> }
      | _ \<Rightarrow> None)"

definition v_group :: "jsval \<Rightarrow> group_field option" where
  [js_eval]: "v_group v =
     (case v of
        Obj o' \<Rightarrow> do {
          field \<leftarrow> v_string 1 240 (get_prop o' (js ''field''));
          scope \<leftarrow> v_default AutoScope (v_enum scopes) (get_prop o' (js ''scope''));
          type \<leftarrow> v_default StringType (v_enum data_types) (get_prop o' (js ''dataType''));
          Some \<lparr>gf_field = field, gf_scope = scope, gf_type = type\<rparr> }
      | _ \<Rightarrow> None)"

text \<open>The cross-field rules of the schema's \<open>superRefine\<close>.\<close>

definition refine_query :: "signal_query \<Rightarrow> signal_query option" where
  [js_eval]: "refine_query q =
     (if sq_signal q = Metrics \<and> sq_metric q = None then None
      else if sq_signal q \<noteq> Metrics \<and> sq_mode q = Timeseries
        \<and> (case sq_aggregation q of None \<Rightarrow> False | Some a \<Rightarrow> a \<notin> {js ''count'', js ''rate''}) then None
      else if sq_signal q = Metrics \<and> sq_aggregation q = Some (js ''count'') then None
      else Some q)"

definition parse_signal_query :: "jsval \<Rightarrow> signal_query option" where
  [js_eval]: "parse_signal_query v =
     (case v of
        Obj o' \<Rightarrow> (let f = (\<lambda>k. get_prop o' (js k)) in do {
          signal \<leftarrow> v_enum signals (f ''signal'');
          lookback \<leftarrow> v_default 15 (v_int 1 1440) (f ''lookbackMinutes'');
          caseid \<leftarrow> v_optional v_case_id (f ''caseId'');
          services \<leftarrow> v_default [] (v_array 50 (v_string 1 240)) (f ''serviceNames'');
          filters \<leftarrow> v_default [] (v_array 30 v_filter) (f ''filters'');
          mode \<leftarrow> v_default Records (v_enum result_modes) (f ''resultMode'');
          limit \<leftarrow> v_default 100 (v_int 1 500) (f ''limit'');
          order \<leftarrow> v_default Desc (v_enum time_orders) (f ''order'');
          aggregation \<leftarrow> v_optional (v_word aggregations) (f ''aggregation'');
          groups \<leftarrow> v_default [] (v_array 8 v_group) (f ''groupBy'');
          step \<leftarrow> v_optional (v_int 5 3600) (f ''stepSeconds'');
          search \<leftarrow> v_optional (v_string 1 2000) (f ''searchText'');
          severities \<leftarrow> v_default [] (v_array 6 (v_word severities_allowed)) (f ''severities'');
          operation \<leftarrow> v_optional (v_string 1 500) (f ''operation'');
          errors \<leftarrow> v_default False v_bool (f ''errorOnly'');
          duration \<leftarrow> v_optional (v_number 0 3600000) (f ''minDurationMs'');
          metric \<leftarrow> v_optional (v_string 1 500) (f ''metricName'');
          type \<leftarrow> v_default (js ''Gauge'') (v_word metric_types) (f ''metricType'');
          temporality \<leftarrow> v_optional (v_word temporalities) (f ''temporality'');
          refine_query \<lparr>sq_signal = signal, sq_lookback = lookback, sq_case = caseid, sq_services = services,
            sq_filters = filters, sq_mode = mode, sq_limit = limit, sq_order = order,
            sq_aggregation = aggregation, sq_group = groups, sq_step = step, sq_search = search,
            sq_severities = severities, sq_operation = operation, sq_errors = errors,
            sq_min_duration = duration, sq_metric = metric, sq_metric_type = type,
            sq_temporality = temporality\<rparr> })
      | _ \<Rightarrow> None)"

subsection \<open>Columns and aliases\<close>

fun columns :: "signal \<Rightarrow> jsstr list" where
  "columns Logs = map js [''timestamp'', ''id'', ''trace_id'', ''span_id'', ''trace_flags'', ''severity_text'',
     ''severity_number'', ''scope_name'', ''scope_version'', ''body'', ''serviceName'']"
| "columns Traces = map js [''timestamp'', ''traceID'', ''spanID'', ''parentSpanID'', ''serviceName'', ''name'',
     ''durationNano'', ''statusCode'', ''hasError'', ''kind'']"
| "columns Metrics = []"

fun fieldAliases :: "signal \<Rightarrow> (jsstr \<times> jsstr) list" where
  "fieldAliases Logs = map (\<lambda>(a, b). (js a, js b))
     [(''service.name'', ''service.name''), (''serviceName'', ''service.name''),
      (''service_name'', ''service.name''), (''service'', ''service.name''),
      (''trace.id'', ''trace_id''), (''traceId'', ''trace_id''), (''trace_id'', ''trace_id''),
      (''span.id'', ''span_id''), (''spanId'', ''span_id''), (''span_id'', ''span_id''),
      (''severity'', ''severity_text''), (''severityText'', ''severity_text''), (''message'', ''body'')]"
| "fieldAliases Traces = map (\<lambda>(a, b). (js a, js b))
     [(''service.name'', ''service.name''), (''serviceName'', ''service.name''),
      (''service_name'', ''service.name''), (''service'', ''service.name''),
      (''trace.id'', ''traceID''), (''traceId'', ''traceID''), (''trace_id'', ''traceID''),
      (''span.id'', ''spanID''), (''spanId'', ''spanID''), (''span_id'', ''spanID''),
      (''operation'', ''name''), (''duration'', ''durationNano''), (''durationMs'', ''durationNano''),
      (''error'', ''hasError'')]"
| "fieldAliases Metrics = []"

datatype alias_name = Name jsstr | Inherited jsstr

definition alias_of :: "signal \<Rightarrow> jsstr \<Rightarrow> alias_name" where
  [js_eval]: "alias_of sig field =
     (if sig = Metrics then Name field
      else case map_of (fieldAliases sig) field of
             Some a \<Rightarrow> Name a
           | None \<Rightarrow> if field \<in> set inherited_names then Inherited field else Name field)"

datatype query_error = InvalidInput | NotAString jsstr

subsection \<open>Attribute keys and filters\<close>

definition inferDataType :: "jsval \<Rightarrow> data_type" where
  [js_eval]: "inferDataType v =
     (case (case v of Arr [] \<Rightarrow> Undef | Arr (w # _) \<Rightarrow> w | _ \<Rightarrow> v) of
        JBool _ \<Rightarrow> BoolType
      | Num q \<Rightarrow> if of_int (floor q) = q then Int64Type else Float64Type
      | _ \<Rightarrow> StringType)"

text \<open>\<open>startsWith\<close> on an inherited alias raises a type error.\<close>

definition resolve_scope :: "signal \<Rightarrow> alias_name \<Rightarrow> attribute_scope \<Rightarrow> query_error + attribute_scope" where
  [js_eval]: "resolve_scope sig al scope =
     (if scope \<noteq> AutoScope then Inr scope
      else case al of
        Inherited n \<Rightarrow> Inl (NotAString n)
      | Name a \<Rightarrow>
          Inr (if a \<in> set (columns sig) then ColumnScope
               else if a = js ''service.name'' then ResourceScope
               else if a = js ''scry.debug.case_id'' \<or> starts_with a (js ''deployment.'')
                 \<or> starts_with a (js ''host.'') then ResourceScope
               else AttributeScope))"

text \<open>A function as the value of a property vanishes from the JSON text; the prototype is empty.\<close>

fun alias_value :: "alias_name \<Rightarrow> jsval" where
  "alias_value (Name a) = Str a"
| "alias_value (Inherited n) = (if n = js ''__proto__'' then Obj [] else Undef)"

definition attributeKey ::
    "signal \<Rightarrow> jsstr \<Rightarrow> attribute_scope \<Rightarrow> data_type option \<Rightarrow> jsval \<Rightarrow> query_error + jsval" where
  [js_eval]: "attributeKey sig field scope type v =
     (case resolve_scope sig (alias_of sig field) scope of
        Inl e \<Rightarrow> Inl e
      | Inr sc \<Rightarrow> Inr (Obj
          [(js ''key'', alias_value (alias_of sig field)),
           (js ''dataType'', Str (name_of data_types (case type of Some t \<Rightarrow> t | None \<Rightarrow> inferDataType v))),
           (js ''type'', Str (if sc = ResourceScope then js ''resource''
                              else if sc = AttributeScope then js ''tag'' else [])),
           (js ''isColumn'', JBool (sc = ColumnScope)),
           (js ''isJSON'', JBool False)]))"

definition filterItem ::
    "signal \<Rightarrow> jsstr \<Rightarrow> jsval \<Rightarrow> jsstr \<Rightarrow> attribute_scope \<Rightarrow> data_type option \<Rightarrow> query_error + jsval" where
  [js_eval]: "filterItem sig field v op scope type =
     (case attributeKey sig field scope type v of
        Inl e \<Rightarrow> Inl e
      | Inr key \<Rightarrow> Inr (Obj [(js ''key'', key), (js ''value'', v), (js ''op'', Str op)]))"

text \<open>The items in order; the first that raises ends the construction.\<close>

fun collect :: "('e + 'a) list \<Rightarrow> 'e + 'a list" where
  "collect [] = Inr []"
| "collect (Inl e # rs) = Inl e"
| "collect (Inr a # rs) = (case collect rs of Inl e \<Rightarrow> Inl e | Inr as \<Rightarrow> Inr (a # as))"

definition autoStepSeconds :: "int \<Rightarrow> int" where
  [js_eval]: "autoStepSeconds lookback = max 5 (min 3600 (ceiling ((of_int (lookback * 60) :: rat) / 120)))"

text \<open>The filter constructions of \<open>baseFilters\<close>, \<open>logFilters\<close> and \<open>traceFilters\<close>, in their order.\<close>

definition item_if :: "bool \<Rightarrow> 'a \<Rightarrow> 'a list" where
  [js_eval]: "item_if b a = (if b then [a] else [])"

definition base_items :: "signal_query \<Rightarrow> (query_error + jsval) list" where
  [js_eval]: "base_items q =
     (case sq_case q of None \<Rightarrow> [] | Some c \<Rightarrow>
        [filterItem (sq_signal q) (js ''scry.debug.case_id'') (Str c) (js ''='') ResourceScope (Some StringType)]) @
     item_if (sq_services q \<noteq> [])
       (filterItem (sq_signal q) (js ''service.name'') (Arr (map Str (sq_services q))) (js ''in'')
         (if sq_signal q = Metrics then AttributeScope else ResourceScope) (Some StringType)) @
     map (\<lambda>f. filterItem (sq_signal q) (sf_field f)
           (if sf_value f = Undef \<or> sf_value f = Null then Str [] else sf_value f)
           (sf_operator f) (sf_scope f) (sf_type f)) (sq_filters q)"

definition baseFilters :: "signal_query \<Rightarrow> query_error + jsval list" where
  [js_eval]: "baseFilters q = collect (base_items q)"

definition logFilters :: "signal_query \<Rightarrow> query_error + jsval list" where
  [js_eval]: "logFilters q = collect (base_items q @
     (case sq_search q of None \<Rightarrow> [] | Some t \<Rightarrow>
        [filterItem Logs (js ''body'') (Str t) (js ''contains'') ColumnScope (Some StringType)]) @
     item_if (sq_severities q \<noteq> [])
       (filterItem Logs (js ''severity_text'') (Arr (map Str (sq_severities q))) (js ''in'') ColumnScope
         (Some StringType)))"

definition traceFilters :: "signal_query \<Rightarrow> query_error + jsval list" where
  [js_eval]: "traceFilters q = collect (base_items q @
     (case sq_operation q of None \<Rightarrow> [] | Some t \<Rightarrow>
        [filterItem Traces (js ''name'') (Str t) (js ''contains'') ColumnScope (Some StringType)]) @
     item_if (sq_errors q)
       (filterItem Traces (js ''hasError'') (JBool True) (js ''='') ColumnScope (Some BoolType)) @
     (case sq_min_duration q of None \<Rightarrow> [] | Some d \<Rightarrow>
        [filterItem Traces (js ''durationNano'') (Num (of_int (js_round (d * 1000000)))) (js ''>='') ColumnScope
          (Some Int64Type)]))"

definition groupByFields :: "signal \<Rightarrow> group_field list \<Rightarrow> query_error + jsval list" where
  [js_eval]: "groupByFields sig gs =
     collect (map (\<lambda>g. attributeKey sig (gf_field g) (gf_scope g) (Some (gf_type g)) Undef) gs)"

subsection \<open>The payload\<close>

definition and_filters :: "jsval list \<Rightarrow> jsval" where
  [js_eval]: "and_filters items = Obj [(js ''op'', Str (js ''AND'')), (js ''items'', Arr items)]"

definition step_of :: "signal_query \<Rightarrow> int" where
  [js_eval]: "step_of q = (case sq_step q of Some n \<Rightarrow> n | None \<Rightarrow> autoStepSeconds (sq_lookback q))"

definition int_val :: "int \<Rightarrow> jsval" where
  [js_eval]: "int_val n = Num (of_int n)"

text \<open>Each query is its panel type, its step and its builder.\<close>

definition recordsQuery :: "signal_query \<Rightarrow> query_error + (jsstr \<times> int \<times> jsval)" where
  [js_eval]: "recordsQuery q =
     (case (if sq_signal q = Logs then logFilters q else traceFilters q) of
        Inl e \<Rightarrow> Inl e
      | Inr filters \<Rightarrow> Inr
          (if sq_signal q = Logs then js ''list'' else js ''trace'', autoStepSeconds (sq_lookback q), Obj
          [(js ''queryName'', Str (js ''A'')),
           (js ''stepInterval'', int_val (autoStepSeconds (sq_lookback q))),
           (js ''dataSource'', Str (name_of signals (sq_signal q))),
           (js ''aggregateOperator'', Str (js ''noop'')),
           (js ''aggregateAttribute'', Obj []),
           (js ''filters'', and_filters filters),
           (js ''groupBy'', Arr []),
           (js ''expression'', Str (js ''A'')),
           (js ''disabled'', JBool False),
           (js ''limit'', int_val (sq_limit q)),
           (js ''offset'', int_val 0),
           (js ''pageSize'', int_val (sq_limit q)),
           (js ''orderBy'', Arr [Obj [(js ''columnName'', Str (js ''timestamp'')),
             (js ''order'', Str (name_of time_orders (sq_order q)))]]),
           (js ''reduceTo'', Str (js ''last''))]))"

definition signalTimeseriesQuery :: "signal_query \<Rightarrow> query_error + (jsstr \<times> int \<times> jsval)" where
  [js_eval]: "signalTimeseriesQuery q =
     (case (if sq_signal q = Logs then logFilters q else traceFilters q) of
        Inl e \<Rightarrow> Inl e
      | Inr filters \<Rightarrow> (case groupByFields (sq_signal q) (sq_group q) of
          Inl e \<Rightarrow> Inl e
        | Inr groups \<Rightarrow> Inr (js ''graph'', step_of q, Obj
          [(js ''queryName'', Str (js ''A'')),
           (js ''stepInterval'', int_val (step_of q)),
           (js ''dataSource'', Str (name_of signals (sq_signal q))),
           (js ''aggregateOperator'', Str (case sq_aggregation q of None \<Rightarrow> js ''count'' | Some a \<Rightarrow> a)),
           (js ''aggregateAttribute'', Obj []),
           (js ''filters'', and_filters filters),
           (js ''groupBy'', Arr groups),
           (js ''expression'', Str (js ''A'')),
           (js ''disabled'', JBool False),
           (js ''limit'', int_val 0),
           (js ''offset'', int_val 0),
           (js ''pageSize'', int_val 0),
           (js ''orderBy'', Arr []),
           (js ''reduceTo'', Str (js ''sum''))])))"

definition metricQuery :: "signal_query \<Rightarrow> query_error + (jsstr \<times> int \<times> jsval)" where
  [js_eval]: "metricQuery q =
     (let aggregation = (case sq_aggregation q of None \<Rightarrow> js ''avg'' | Some a \<Rightarrow> a);
          percentile = starts_with aggregation (js ''p'');
          rate = (aggregation = js ''rate'')
      in case baseFilters q of
        Inl e \<Rightarrow> Inl e
      | Inr filters \<Rightarrow> (case groupByFields Metrics (sq_group q) of
          Inl e \<Rightarrow> Inl e
        | Inr groups \<Rightarrow> Inr (js ''graph'', step_of q, Obj (
          [(js ''queryName'', Str (js ''A'')),
           (js ''stepInterval'', int_val (step_of q)),
           (js ''dataSource'', Str (js ''metrics'')),
           (js ''aggregateOperator'', Str aggregation),
           (js ''aggregateAttribute'', Obj
             [(js ''key'', case sq_metric q of None \<Rightarrow> Undef | Some m \<Rightarrow> Str m),
              (js ''dataType'', Str (js ''float64'')), (js ''type'', Str (sq_metric_type q)),
              (js ''isColumn'', JBool True), (js ''isJSON'', JBool False)])] @
          (case sq_temporality q of None \<Rightarrow> [] | Some t \<Rightarrow> [(js ''temporality'', Str t)]) @
          [(js ''filters'', and_filters filters),
           (js ''groupBy'', Arr groups),
           (js ''expression'', Str (js ''A'')),
           (js ''disabled'', JBool False),
           (js ''limit'', int_val 0),
           (js ''offset'', int_val 0),
           (js ''pageSize'', int_val 0),
           (js ''orderBy'', Arr []),
           (js ''reduceTo'', Str (js ''avg'')),
           (js ''timeAggregation'', Str (if rate then js ''rate'' else js ''avg'')),
           (js ''spaceAggregation'', Str (if percentile then aggregation else if rate then js ''sum''
             else aggregation))]))))"

definition compile_query :: "signal_query \<Rightarrow> query_error + (jsstr \<times> int \<times> jsval)" where
  [js_eval]: "compile_query q =
     (if sq_signal q = Metrics then metricQuery q
      else if sq_mode q = Timeseries then signalTimeseriesQuery q else recordsQuery q)"

definition buildSignalQueryPayload :: "jsval \<Rightarrow> int \<Rightarrow> query_error + jsval" where
  [js_eval]: "buildSignalQueryPayload input now =
     (case parse_signal_query input of
        None \<Rightarrow> Inl InvalidInput
      | Some q \<Rightarrow> (case compile_query q of
          Inl e \<Rightarrow> Inl e
        | Inr (panel, step, builder) \<Rightarrow> Inr (Obj
          [(js ''start'', int_val (now - sq_lookback q * 60000)),
           (js ''end'', int_val now),
           (js ''step'', int_val step),
           (js ''noCache'', JBool True),
           (js ''compositeQuery'', Obj [(js ''queryType'', Str (js ''builder'')), (js ''panelType'', Str panel),
             (js ''builderQueries'', Obj [(js ''A'', builder)])])])))"

subsection \<open>What the schema accepts\<close>

lemma v_string_bounds: "v_string lo hi v = Some s \<Longrightarrow> lo \<le> length s \<and> length s \<le> hi"
  by (auto simp: v_string_def split: jsval.splits if_splits)

lemma v_int_bounds: "v_int lo hi v = Some n \<Longrightarrow> lo \<le> n \<and> n \<le> hi"
  by (auto simp: v_int_def split: jsval.splits if_splits)

lemma v_number_bounds: "v_number lo hi v = Some n \<Longrightarrow> lo \<le> n \<and> n \<le> hi"
  by (auto simp: v_number_def split: jsval.splits if_splits)

lemma v_word_member: "v_word ws v = Some s \<Longrightarrow> s \<in> set ws"
  by (auto simp: v_word_def split: jsval.splits if_splits)

lemma v_all_length: "v_all p vs = Some as \<Longrightarrow> length as = length vs"
  by (induction vs arbitrary: as) (auto split: bind_splits)

lemma v_all_each: "v_all p vs = Some as \<Longrightarrow> (\<And>v a. p v = Some a \<Longrightarrow> Q a) \<Longrightarrow> list_all Q as"
  by (induction vs arbitrary: as) (auto split: bind_splits)

lemma v_array_each:
  "v_array hi p v = Some as \<Longrightarrow> (\<And>v a. p v = Some a \<Longrightarrow> Q a) \<Longrightarrow> length as \<le> hi \<and> list_all Q as"
proof -
  assume "v_array hi p v = Some as" and Q: "\<And>v a. p v = Some a \<Longrightarrow> Q a"
  then obtain vs where "v_all p vs = Some as" "length vs \<le> hi"
    by (auto simp: v_array_def split: jsval.splits if_splits)
  then show ?thesis using v_all_length v_all_each [OF _ Q] by fastforce
qed

lemma v_default_cases: "v_default d p v = Some a \<Longrightarrow> Q d \<Longrightarrow> (\<And>v. p v = Some a \<Longrightarrow> Q a) \<Longrightarrow> Q a"
  by (auto simp: v_default_def split: if_splits)

lemma v_optional_cases: "v_optional p v = Some a \<Longrightarrow> (\<And>v b. p v = Some b \<Longrightarrow> Q b) \<Longrightarrow> pred_option Q a"
  by (auto simp: v_optional_def split: if_splits)

definition valid_filter :: "signal_filter \<Rightarrow> bool" where
  "valid_filter f \<longleftrightarrow> 1 \<le> length (sf_field f) \<and> length (sf_field f) \<le> 240 \<and> sf_operator f \<in> set filter_operators
     \<and> (sf_value f = Undef \<longrightarrow> sf_operator f \<in> {js ''exists'', js ''nexists''})
     \<and> (sf_operator f \<in> {js ''in'', js ''nin''} \<longrightarrow> is_arr (sf_value f))"

definition valid_query :: "signal_query \<Rightarrow> bool" where
  "valid_query q \<longleftrightarrow> 1 \<le> sq_lookback q \<and> sq_lookback q \<le> 1440 \<and> 1 \<le> sq_limit q \<and> sq_limit q \<le> 500
     \<and> pred_option (\<lambda>n. 5 \<le> n \<and> n \<le> 3600) (sq_step q)
     \<and> length (sq_services q) \<le> 50 \<and> length (sq_filters q) \<le> 30 \<and> length (sq_group q) \<le> 8
     \<and> list_all valid_filter (sq_filters q)
     \<and> pred_option (\<lambda>d. 0 \<le> d \<and> d \<le> 3600000) (sq_min_duration q)
     \<and> pred_option (\<lambda>a. a \<in> set aggregations) (sq_aggregation q)
     \<and> (sq_signal q = Metrics \<longrightarrow> sq_metric q \<noteq> None \<and> sq_aggregation q \<noteq> Some (js ''count''))
     \<and> (sq_signal q \<noteq> Metrics \<and> sq_mode q = Timeseries \<longrightarrow>
          sq_aggregation q \<in> {None, Some (js ''count''), Some (js ''rate'')})"

lemma v_filter_valid: "v_filter v = Some f \<Longrightarrow> valid_filter f"
proof (cases v)
  case (Obj o')
  assume "v_filter v = Some f"
  with Obj obtain op where
    "v_string 1 240 (get_prop o' (js ''field'')) = Some (sf_field f)"
    and op: "v_default (js ''='') (v_word filter_operators) (get_prop o' (js ''operator'')) = Some op"
      "op = sf_operator f"
    and r: "\<not> (op \<notin> {js ''exists'', js ''nexists''} \<and> sf_value f = Undef)"
      "\<not> (op \<in> {js ''in'', js ''nin''} \<and> \<not> is_arr (sf_value f))"
    by (auto simp: v_filter_def split: bind_splits if_splits)
  moreover have "sf_operator f \<in> set filter_operators"
    unfolding op(2) [symmetric]
    using op(1) by (rule v_default_cases) (simp add: filter_operators_def, erule v_word_member)
  ultimately show ?thesis
    unfolding valid_filter_def using v_string_bounds op(2) by blast
qed (auto simp: v_filter_def)

lemma refine_query_SomeD: "refine_query r = Some q \<Longrightarrow> q = r"
  by (auto simp: refine_query_def split: if_splits option.splits)

lemma accepted_query_valid: "parse_signal_query v = Some q \<Longrightarrow> valid_query q"
proof (cases v)
  case (Obj o')
  assume "parse_signal_query v = Some q"
  then obtain signal lookback caseid services filters mode limit order aggregation groups step search
      severities operation errors duration metric type temporality where
    fields: "v_default 15 (v_int 1 1440) (get_prop o' (js ''lookbackMinutes'')) = Some lookback"
      "v_default [] (v_array 50 (v_string 1 240)) (get_prop o' (js ''serviceNames'')) = Some services"
      "v_default [] (v_array 30 v_filter) (get_prop o' (js ''filters'')) = Some filters"
      "v_default 100 (v_int 1 500) (get_prop o' (js ''limit'')) = Some limit"
      "v_optional (v_word aggregations) (get_prop o' (js ''aggregation'')) = Some aggregation"
      "v_default [] (v_array 8 v_group) (get_prop o' (js ''groupBy'')) = Some groups"
      "v_optional (v_int 5 3600) (get_prop o' (js ''stepSeconds'')) = Some step"
      "v_optional (v_number 0 3600000) (get_prop o' (js ''minDurationMs'')) = Some duration"
    and refined: "refine_query \<lparr>sq_signal = signal, sq_lookback = lookback, sq_case = caseid, sq_services = services,
            sq_filters = filters, sq_mode = mode, sq_limit = limit, sq_order = order,
            sq_aggregation = aggregation, sq_group = groups, sq_step = step, sq_search = search,
            sq_severities = severities, sq_operation = operation, sq_errors = errors,
            sq_min_duration = duration, sq_metric = metric, sq_metric_type = type,
            sq_temporality = temporality\<rparr> = Some q"
    unfolding parse_signal_query_def Obj jsval.case Let_def bind_eq_Some_conv
    by (elim exE conjE) (rule that, assumption+)
  have q: "sq_lookback q = lookback" "sq_services q = services" "sq_filters q = filters" "sq_limit q = limit"
    "sq_aggregation q = aggregation" "sq_group q = groups" "sq_step q = step" "sq_min_duration q = duration"
    using refine_query_SomeD [OF refined] by auto
  note fields = fields [folded q]
  have refined: "refine_query q = Some q" using refine_query_SomeD [OF refined] refined by simp
  then have refined: "sq_signal q = Metrics \<longrightarrow> sq_metric q \<noteq> None \<and> sq_aggregation q \<noteq> Some (js ''count'')"
    "sq_signal q \<noteq> Metrics \<and> sq_mode q = Timeseries \<longrightarrow>
       sq_aggregation q \<in> {None, Some (js ''count''), Some (js ''rate'')}"
    by (auto simp: refine_query_def split: if_splits option.splits)
  have "1 \<le> sq_lookback q \<and> sq_lookback q \<le> 1440"
    using fields(1) by (rule v_default_cases) (auto dest: v_int_bounds)
  moreover have "1 \<le> sq_limit q \<and> sq_limit q \<le> 500"
    using fields(4) by (rule v_default_cases) (auto dest: v_int_bounds)
  moreover have "length (sq_services q) \<le> 50"
    using fields(2) by (rule v_default_cases) (auto dest: v_array_each [where Q = "\<lambda>_. True"])
  moreover have "length (sq_filters q) \<le> 30 \<and> list_all valid_filter (sq_filters q)"
    using fields(3) by (rule v_default_cases) (auto dest: v_array_each [where Q = valid_filter] v_filter_valid)
  moreover have "length (sq_group q) \<le> 8"
    using fields(6) by (rule v_default_cases) (auto dest: v_array_each [where Q = "\<lambda>_. True"])
  moreover have "pred_option (\<lambda>n. 5 \<le> n \<and> n \<le> 3600) (sq_step q)"
    using fields(7) by (rule v_optional_cases) (rule v_int_bounds)
  moreover have "pred_option (\<lambda>d. 0 \<le> d \<and> d \<le> 3600000) (sq_min_duration q)"
    using fields(8) by (rule v_optional_cases) (rule v_number_bounds)
  moreover have "pred_option (\<lambda>a. a \<in> set aggregations) (sq_aggregation q)"
    using fields(5) by (rule v_optional_cases) (rule v_word_member)
  ultimately show ?thesis using refined by (simp add: valid_query_def)
qed (auto simp: parse_signal_query_def)


definition demo_query :: jsval where
  [js_eval]: "demo_query = Obj [(js ''signal'', Str (js ''logs'')), (js ''caseId'', Str (js ''case-013'')),
     (js ''serviceNames'', Arr [Str (js ''audit'')]), (js ''searchText'', Str (js ''ENOSPC''))]"


subsection \<open>The time buckets\<close>

lemma auto_step_minutes: "1 \<le> m \<Longrightarrow> m \<le> 1440 \<Longrightarrow> autoStepSeconds m = max 5 ((m + 1) div 2)"
proof -
  assume "1 \<le> m" "m \<le> 1440"
  have "ceiling ((of_int (m * 60) :: rat) / 120) = ceiling (of_int m / 2 :: rat)" by simp
  also have "\<dots> = (m + 1) div 2"
  proof (rule ceiling_unique)
    have "2 * ((m + 1) div 2) - 2 < m" "m \<le> 2 * ((m + 1) div 2)" by presburger+
    then have "(of_int (2 * ((m + 1) div 2) - 2) :: rat) < of_int m" "(of_int m :: rat) \<le> of_int (2 * ((m + 1) div 2))"
      by (simp_all only: of_int_le_iff of_int_less_iff)
    then show "(of_int ((m + 1) div 2) :: rat) - 1 < of_int m / 2" "(of_int m :: rat) / 2 \<le> of_int ((m + 1) div 2)"
      by simp_all
  qed
  finally show ?thesis using \<open>m \<le> 1440\<close> by (simp add: autoStepSeconds_def)
qed

lemma step_of_bounds: "valid_query q \<Longrightarrow> 5 \<le> step_of q \<and> step_of q \<le> 3600"
  by (auto simp: step_of_def valid_query_def auto_step_minutes split: option.splits)

lemma auto_step_buckets: "1 \<le> m \<Longrightarrow> m \<le> 1440 \<Longrightarrow> m * 60 \<le> 120 * autoStepSeconds m"
  by (simp add: auto_step_minutes)

lemma signal_names [simp]: "name_of signals s = (case s of Logs \<Rightarrow> js ''logs'' | Traces \<Rightarrow> js ''traces'' | Metrics \<Rightarrow> js ''metrics'')"
  by (cases s) (simp_all add: name_of_def signals_def)

lemma compile_query_shape:
  assumes "compile_query q = Inr (panel, step, builder)"
  shows "step = (if sq_signal q \<noteq> Metrics \<and> sq_mode q = Records then autoStepSeconds (sq_lookback q) else step_of q)
    \<and> (\<exists>kvs. builder = Obj kvs \<and> get_prop kvs (js ''stepInterval'') = int_val step
        \<and> get_prop kvs (js ''dataSource'') = Str (name_of signals (sq_signal q))
        \<and> (\<exists>items. get_prop kvs (js ''filters'') = and_filters items
             \<and> (case sq_signal q of Logs \<Rightarrow> logFilters q | Traces \<Rightarrow> traceFilters q | Metrics \<Rightarrow> baseFilters q) = Inr items)
        \<and> (\<exists>a. get_prop kvs (js ''aggregateOperator'') = Str a
             \<and> (if sq_signal q = Metrics then a = (case sq_aggregation q of None \<Rightarrow> js ''avg'' | Some b \<Rightarrow> b)
                else if sq_mode q = Records then a = js ''noop''
                else a = (case sq_aggregation q of None \<Rightarrow> js ''count'' | Some b \<Rightarrow> b))))"
  using assms
  by (cases "sq_signal q"; cases "sq_mode q")
     (auto simp: compile_query_def metricQuery_def signalTimeseriesQuery_def recordsQuery_def Let_def
       split: sum.splits option.splits)


definition query_filters :: "signal_query \<Rightarrow> query_error + jsval list" where
  "query_filters q = (case sq_signal q of Logs \<Rightarrow> logFilters q | Traces \<Rightarrow> traceFilters q | Metrics \<Rightarrow> baseFilters q)"

fun prop_of :: "jsval \<Rightarrow> string \<Rightarrow> jsval" where
  "prop_of (Obj kvs) k = get_prop kvs (js k)"
| "prop_of _ k = Undef"

definition payload_builder :: "jsval \<Rightarrow> jsval" where
  "payload_builder p = prop_of (prop_of (prop_of p ''compositeQuery'') ''builderQueries'') ''A''"

lemma payload_cases:
  assumes "buildSignalQueryPayload v now = Inr p"
  obtains q step items where "parse_signal_query v = Some q" "valid_query q"
    "prop_of p ''start'' = int_val (now - sq_lookback q * 60000)" "prop_of p ''end'' = int_val now"
    "prop_of p ''step'' = int_val step" "prop_of (payload_builder p) ''stepInterval'' = int_val step"
    "step = (if sq_signal q \<noteq> Metrics \<and> sq_mode q = Records then autoStepSeconds (sq_lookback q) else step_of q)"
    "prop_of (payload_builder p) ''filters'' = and_filters items" "query_filters q = Inr items"
proof -
  from assms obtain q panel step builder where q: "parse_signal_query v = Some q"
    and c: "compile_query q = Inr (panel, step, builder)"
    and p: "p = Obj
          [(js ''start'', int_val (now - sq_lookback q * 60000)),
           (js ''end'', int_val now),
           (js ''step'', int_val step),
           (js ''noCache'', JBool True),
           (js ''compositeQuery'', Obj [(js ''queryType'', Str (js ''builder'')), (js ''panelType'', Str panel),
             (js ''builderQueries'', Obj [(js ''A'', builder)])])]"
    by (auto simp: buildSignalQueryPayload_def split: option.splits sum.splits)
  then have b: "payload_builder p = builder" by (simp add: payload_builder_def)
  from compile_query_shape [OF c] obtain kvs items where k: "builder = Obj kvs"
    "get_prop kvs (js ''stepInterval'') = int_val step"
    "get_prop kvs (js ''filters'') = and_filters items" "query_filters q = Inr items"
    "step = (if sq_signal q \<noteq> Metrics \<and> sq_mode q = Records then autoStepSeconds (sq_lookback q) else step_of q)"
    unfolding query_filters_def by blast
  show thesis
  proof (rule that)
    show "step = (if sq_signal q \<noteq> Metrics \<and> sq_mode q = Records then autoStepSeconds (sq_lookback q) else step_of q)"
      by (rule k(5))
    show "query_filters q = Inr items" by (rule k(4))
    show "prop_of (payload_builder p) ''stepInterval'' = int_val step"
      "prop_of (payload_builder p) ''filters'' = and_filters items"
      by (simp_all add: b k(1-3))
  qed (use q accepted_query_valid [OF q] in \<open>simp_all add: p\<close>)
qed

text \<open>
  C10. The window and the buckets of every payload: it ends now and starts the requested minutes
  before; the step is the one of the builder and lies between 5 and 3600 seconds; and unless the
  request gives its own step, it is at least a 120th of the window, so that a series has at most
  120 buckets.
\<close>

theorem payload_window:
  assumes "buildSignalQueryPayload v now = Inr p"
  shows "\<exists>q step. parse_signal_query v = Some q
    \<and> prop_of p ''end'' = int_val now \<and> prop_of p ''start'' = int_val (now - sq_lookback q * 60000)
    \<and> 1 \<le> sq_lookback q \<and> sq_lookback q \<le> 1440
    \<and> prop_of p ''step'' = int_val step \<and> prop_of (payload_builder p) ''stepInterval'' = int_val step
    \<and> 5 \<le> step \<and> step \<le> 3600 \<and> (sq_step q = None \<longrightarrow> sq_lookback q * 60 \<le> 120 * step)"
proof (rule payload_cases [OF assms])
  fix q step items
  assume q: "parse_signal_query v = Some q" and valid: "valid_query q"
    and s: "step = (if sq_signal q \<noteq> Metrics \<and> sq_mode q = Records then autoStepSeconds (sq_lookback q) else step_of q)"
    and p: "prop_of p ''start'' = int_val (now - sq_lookback q * 60000)" "prop_of p ''end'' = int_val now"
    "prop_of p ''step'' = int_val step" "prop_of (payload_builder p) ''stepInterval'' = int_val step"
  have m: "1 \<le> sq_lookback q" "sq_lookback q \<le> 1440" using valid by (simp_all add: valid_query_def)
  then have a: "5 \<le> autoStepSeconds (sq_lookback q)" "autoStepSeconds (sq_lookback q) \<le> 3600"
    by (simp_all add: auto_step_minutes)
  have "sq_step q = None \<longrightarrow> sq_lookback q * 60 \<le> 120 * step"
    using auto_step_buckets [OF m] by (simp add: s step_of_def)
  moreover have "5 \<le> step \<and> step \<le> 3600" using a step_of_bounds [OF valid] by (simp add: s)
  ultimately show ?thesis
    using q p m by (intro exI [of _ q] exI [of _ step] conjI) simp_all
qed

theorem payload_window_witness:
  "\<exists>p. buildSignalQueryPayload demo_query 1000000 = Inr p \<and> prop_of p ''end'' = int_val 1000000"
proof -
  have "\<not> (case buildSignalQueryPayload demo_query 1000000 of Inl _ \<Rightarrow> True | Inr _ \<Rightarrow> False)" by code_simp
  then obtain p where p: "buildSignalQueryPayload demo_query 1000000 = Inr p" by (auto split: sum.splits)
  from payload_window [OF p] p show ?thesis by blast
qed

subsection \<open>The filters\<close>

lemma collect_Inr_iff: "collect rs = Inr as \<longleftrightarrow> rs = map Inr as"
proof (induction rs arbitrary: as)
  case (Cons r rs)
  show ?case
  proof (cases r)
    case (Inr a)
    show ?thesis
    proof (cases "collect rs")
      case (Inl e)
      then have "rs \<noteq> map Inr bs" for bs using Cons.IH [of bs] by simp
      then show ?thesis using Inr Inl by (auto simp: Cons_eq_map_conv)
    next
      case (Inr bs)
      then show ?thesis using \<open>r = Sum_Type.Inr a\<close> Cons.IH [of bs] by auto
    qed
  qed auto
qed auto

lemma query_filters_base: "query_filters q = Inr items \<Longrightarrow> set (base_items q) \<subseteq> Inr ` set items"
  by (cases "sq_signal q")
     (auto simp: query_filters_def logFilters_def traceFilters_def baseFilters_def collect_Inr_iff,
      (metis (no_types, lifting) Un_iff image_eqI list.set_map set_append)+)

definition scoped_key :: "string \<Rightarrow> string \<Rightarrow> jsval" where
  [js_eval]: "scoped_key name type = Obj [(js ''key'', Str (js name)), (js ''dataType'', Str (js ''string'')),
     (js ''type'', Str (js type)), (js ''isColumn'', JBool False), (js ''isJSON'', JBool False)]"

definition filter_entry :: "jsval \<Rightarrow> jsval \<Rightarrow> string \<Rightarrow> jsval" where
  [js_eval]: "filter_entry key v op = Obj [(js ''key'', key), (js ''value'', v), (js ''op'', Str (js op))]"

lemma name_of_string: "name_of data_types StringType = js ''string''"
  by (simp add: name_of_def data_types_def)

lemma case_filter:
  "filterItem sig (js ''scry.debug.case_id'') v (js ''='') ResourceScope (Some StringType)
     = Inr (filter_entry (scoped_key ''scry.debug.case_id'' ''resource'') v ''='')"
  by (cases sig) (simp_all add: filterItem_def attributeKey_def resolve_scope_def alias_of_def
      inherited_names_def filter_entry_def scoped_key_def name_of_string)

lemma service_filter:
  "filterItem sig (js ''service.name'') v (js ''in'') (if sig = Metrics then AttributeScope else ResourceScope)
       (Some StringType)
     = Inr (filter_entry (scoped_key ''service.name'' (if sig = Metrics then ''tag'' else ''resource'')) v ''in'')"
  by (cases sig) (simp_all add: filterItem_def attributeKey_def resolve_scope_def alias_of_def
      inherited_names_def filter_entry_def scoped_key_def name_of_string)

text \<open>
  The restrictions a request names are never lost: the filters of the payload are a
  conjunction, and if the request names a case or services, the conjunction holds the resource
  filter for exactly that case and the membership filter for exactly those services, whatever
  other filters the request carries.
\<close>

theorem payload_restricts_case_and_services:
  assumes "buildSignalQueryPayload v now = Inr p" "parse_signal_query v = Some q"
  shows "\<exists>items. prop_of (payload_builder p) ''filters'' = and_filters items
    \<and> (\<forall>c. sq_case q = Some c \<longrightarrow>
          filter_entry (scoped_key ''scry.debug.case_id'' ''resource'') (Str c) ''='' \<in> set items)
    \<and> (sq_services q \<noteq> [] \<longrightarrow>
          filter_entry (scoped_key ''service.name'' (if sq_signal q = Metrics then ''tag'' else ''resource''))
            (Arr (map Str (sq_services q))) ''in'' \<in> set items)"
proof (rule payload_cases [OF assms(1)])
  fix r step items
  assume "parse_signal_query v = Some r" and f: "prop_of (payload_builder p) ''filters'' = and_filters items"
    and i: "query_filters r = Inr items"
  with assms(2) have "r = q" by simp
  with i have sub: "set (base_items q) \<subseteq> Inr ` set items" using query_filters_base by blast
  have "sq_case q = Some c \<Longrightarrow>
      Inr (filter_entry (scoped_key ''scry.debug.case_id'' ''resource'') (Str c) ''='') \<in> set (base_items q)" for c
    by (simp add: base_items_def case_filter)
  moreover have "sq_services q \<noteq> [] \<Longrightarrow>
      Inr (filter_entry (scoped_key ''service.name'' (if sq_signal q = Metrics then ''tag'' else ''resource''))
        (Arr (map Str (sq_services q))) ''in'') \<in> set (base_items q)"
    by (simp add: base_items_def service_filter item_if_def del: if_image_distrib)
  ultimately show ?thesis using sub f by (intro exI [of _ items]) blast
qed

theorem payload_restricts_case_and_services_witness:
  "\<exists>p items. buildSignalQueryPayload demo_query 1000000 = Inr p
    \<and> prop_of (payload_builder p) ''filters'' = and_filters items
    \<and> filter_entry (scoped_key ''scry.debug.case_id'' ''resource'') (Str (js ''case-013'')) ''='' \<in> set items"
proof -
  have "\<not> (case buildSignalQueryPayload demo_query 1000000 of Inl _ \<Rightarrow> True | Inr _ \<Rightarrow> False)" by code_simp
  then obtain p where p: "buildSignalQueryPayload demo_query 1000000 = Inr p" by (auto split: sum.splits)
  have "map_option sq_case (parse_signal_query demo_query) = Some (Some (js ''case-013''))" by code_simp
  then obtain q where "parse_signal_query demo_query = Some q" "sq_case q = Some (js ''case-013'')" by blast
  with payload_restricts_case_and_services [OF p] p show ?thesis by blast
qed

subsection \<open>Field names\<close>

lemma alias_targets:
  "map_of (fieldAliases sig) field = Some a \<Longrightarrow>
     a \<in> set (map js [''service.name'', ''trace_id'', ''span_id'', ''severity_text'', ''body'', ''traceID'', ''spanID'',
       ''name'', ''durationNano'', ''hasError''])"
  by (cases sig) (auto split: if_splits)

text \<open>
  Resolving a field name is idempotent: the name an alias stands for is never an alias of
  something else and never an inherited one.
\<close>

theorem alias_resolved_once: "alias_of sig field = Name a \<Longrightarrow> alias_of sig a = Name a"
proof (cases sig)
  case Metrics
  assume "alias_of sig field = Name a"
  with Metrics show ?thesis by (simp add: alias_of_def)
next
  case Logs
  assume "alias_of sig field = Name a"
  with Logs consider "map_of (fieldAliases Logs) field = Some a"
    | "map_of (fieldAliases Logs) field = None" "a = field" "field \<notin> set inherited_names"
    unfolding alias_of_def by (auto split: option.splits if_splits)
  then show ?thesis
  proof cases
    case 1
    then have "a \<in> set (map js [''service.name'', ''trace_id'', ''span_id'', ''severity_text'', ''body''])"
      by (auto split: if_splits)
    then show ?thesis using Logs by (auto simp: alias_of_def inherited_names_def)
  qed (simp add: alias_of_def Logs)
next
  case Traces
  assume "alias_of sig field = Name a"
  with Traces consider "map_of (fieldAliases Traces) field = Some a"
    | "map_of (fieldAliases Traces) field = None" "a = field" "field \<notin> set inherited_names"
    unfolding alias_of_def by (auto split: option.splits if_splits)
  then show ?thesis
  proof cases
    case 1
    then have "a \<in> set (map js [''service.name'', ''traceID'', ''spanID'', ''name'', ''durationNano'', ''hasError''])"
      by (auto split: if_splits)
    then show ?thesis using Traces by (auto simp: alias_of_def inherited_names_def)
  qed (simp add: alias_of_def Traces)
qed

theorem alias_resolved_once_witness: "alias_of Traces (js ''durationNano'') = Name (js ''durationNano'')"
proof -
  have "alias_of Traces (js ''durationMs'') = Name (js ''durationNano'')" by code_simp
  then show ?thesis by (rule alias_resolved_once)
qed

definition raises :: "signal \<Rightarrow> jsstr \<Rightarrow> attribute_scope \<Rightarrow> bool" where
  [js_eval]: "raises sig field scope \<longleftrightarrow> sig \<noteq> Metrics \<and> scope = AutoScope \<and> field \<in> set inherited_names"

lemma alias_of_inherited: "sig \<noteq> Metrics \<Longrightarrow> alias_of sig n = Inherited m \<longleftrightarrow> n \<in> set inherited_names \<and> m = n"
  by (cases sig) (auto simp: alias_of_def inherited_names_def split: option.splits if_splits)

lemma isl_resolve: "isl (resolve_scope sig (alias_of sig field) scope) \<longleftrightarrow> raises sig field scope"
proof (cases "sig = Metrics")
  case True
  then show ?thesis by (simp add: resolve_scope_def alias_of_def raises_def)
next
  case False
  then show ?thesis
    using alias_of_inherited [OF False, of field]
    by (cases "alias_of sig field") (auto simp: resolve_scope_def raises_def)
qed

lemma isl_attributeKey [simp]: "isl (attributeKey sig field scope type v) \<longleftrightarrow> raises sig field scope"
  unfolding isl_resolve [symmetric] attributeKey_def by (auto split: sum.splits)

lemma isl_filterItem [simp]: "isl (filterItem sig field v op scope type) \<longleftrightarrow> raises sig field scope"
  using isl_attributeKey [of sig field scope type v]
  by (cases "attributeKey sig field scope type v") (simp_all add: filterItem_def)

lemma isl_collect [simp]: "isl (collect rs) \<longleftrightarrow> list_ex isl rs"
  by (induction rs rule: collect.induct) (auto split: sum.splits)

lemma raises_fixed [simp]: "\<not> raises sig field ColumnScope" "\<not> raises sig field ResourceScope"
  "\<not> raises sig field AttributeScope" "\<not> raises Metrics field scope"
  by (simp_all add: raises_def)

lemma list_ex_map: "list_ex P (map f xs) = list_ex (\<lambda>x. P (f x)) xs"
  by (induction xs) simp_all

lemma isl_base_items:
  "list_ex isl (base_items q) \<longleftrightarrow> list_ex (\<lambda>f. raises (sq_signal q) (sf_field f) (sf_scope f)) (sq_filters q)"
  by (simp add: base_items_def item_if_def list_ex_map split: option.splits)

lemma isl_filters:
  "isl (baseFilters q) \<longleftrightarrow> list_ex (\<lambda>f. raises (sq_signal q) (sf_field f) (sf_scope f)) (sq_filters q)"
  "isl (logFilters q) \<longleftrightarrow> list_ex (\<lambda>f. raises (sq_signal q) (sf_field f) (sf_scope f)) (sq_filters q)"
  "isl (traceFilters q) \<longleftrightarrow> list_ex (\<lambda>f. raises (sq_signal q) (sf_field f) (sf_scope f)) (sq_filters q)"
  by (simp_all add: baseFilters_def logFilters_def traceFilters_def isl_base_items item_if_def split: option.splits)

lemma isl_groups: "isl (groupByFields sig gs) \<longleftrightarrow> list_ex (\<lambda>g. raises sig (gf_field g) (gf_scope g)) gs"
  by (simp add: groupByFields_def list_ex_map)

lemma isl_case_sum:
  "isl (case r of Inl e \<Rightarrow> Inl e | Inr a \<Rightarrow> k a) \<longleftrightarrow> isl r \<or> (\<exists>a. r = Inr a \<and> isl (k a))"
  by (cases r) simp_all

text \<open>
  What a valid request can still fail on: compiling it raises exactly if a filter, or for a
  log or trace series a group, names a property that every object inherits and leaves its scope
  to be found.
\<close>

theorem compile_raises_iff:
  "isl (compile_query q) \<longleftrightarrow>
     list_ex (\<lambda>f. raises (sq_signal q) (sf_field f) (sf_scope f)) (sq_filters q)
     \<or> sq_mode q = Timeseries \<and> list_ex (\<lambda>g. raises (sq_signal q) (gf_field g) (gf_scope g)) (sq_group q)"
proof -
  have e: "(\<exists>a. r = Inr a) \<longleftrightarrow> \<not> isl r" for r :: "query_error + jsval list"
    by (cases r) simp_all
  have m: "sq_signal q = Metrics \<Longrightarrow> \<not> list_ex (\<lambda>g. raises (sq_signal q) (gf_field g) (gf_scope g)) (sq_group q)"
    by (auto simp: list_ex_iff)
  show ?thesis
    using m
    by (cases "sq_signal q"; cases "sq_mode q")
       (simp_all add: compile_query_def metricQuery_def signalTimeseriesQuery_def recordsQuery_def Let_def
         isl_case_sum e isl_filters isl_groups, blast+)
qed

text \<open>
  A field named \<open>constructor\<close> passes the schema and makes the compiler raise a type error:
  the alias table is read with the names it inherits.
\<close>

theorem inherited_field_raises:
  "buildSignalQueryPayload (Obj [(js ''signal'', Str (js ''logs'')),
     (js ''filters'', Arr [Obj [(js ''field'', Str (js ''constructor'')), (js ''value'', Str (js ''x''))]])]) 0
   = Inl (NotAString (js ''constructor''))"
proof -
  let ?v = "Obj [(js ''signal'', Str (js ''logs'')),
     (js ''filters'', Arr [Obj [(js ''field'', Str (js ''constructor'')), (js ''value'', Str (js ''x''))]])]"
  have "(case buildSignalQueryPayload ?v 0 of Inl (NotAString n) \<Rightarrow> n = js ''constructor'' | _ \<Rightarrow> False)"
    by code_simp
  then show ?thesis by (auto split: sum.splits query_error.splits)
qed

end
