(* ===== verification/Agent_Tools.thy ===== *)
theory Agent_Tools
  imports Workflow_Run Ssh_Ops Signal_Query
begin

section \<open>The tools of an agent (\<open>tools/scry.ts\<close>, \<open>tools/a2ui.ts\<close>)\<close>

text \<open>
  Every tool an agent can call, as one definition each, and the call of any of them (\<open>run_tool\<close>).
  The library that runs the agent parses the input of a tool with its schema first, so the
  definitions take parsed inputs with the defaults filled in. A tool returns its data or throws;
  most tools add the same data once more as a surface for the screen (\<open>a2ui\<close>), which the model only
  keeps for the plan, whose surface is all it returns.
\<close>

record tool_env =
  tv_user :: auth_user
  tv_context :: "capture_context option"
  tv_gateway :: gateway
  tv_network :: ssh_network

definition tool_thread :: "tool_env \<Rightarrow> jsstr" where
  [js_eval]: "tool_thread e = (case tv_context e of None \<Rightarrow> [] | Some c \<Rightarrow> ctx_thread c)"

datatype tool_error = ToolMessage jsstr | ToolQuery query_error | ToolMemory memory_error

subsection \<open>The plan\<close>

record 'd surface =
  su_version :: jsstr
  su_id :: jsstr
  su_operation :: jsstr
  su_type :: jsstr
  su_title :: jsstr
  su_data :: 'd

definition a2ui :: "jsstr \<Rightarrow> jsstr \<Rightarrow> jsstr \<Rightarrow> 'd \<Rightarrow> 'd surface" where
  [js_eval]: "a2ui i ty title d = \<lparr>su_version = js ''0.1'', su_id = i, su_operation = js ''replace'', su_type = ty, su_title = title, su_data = d\<rparr>"

record plan_step =
  ps_id :: jsstr
  ps_title :: jsstr
  ps_description :: "jsstr option"

definition publishPlan :: "jsstr \<Rightarrow> plan_step list \<Rightarrow> plan_step list surface" where
  [js_eval]: "publishPlan title steps = a2ui (js ''diagnostic-plan'') (js ''plan'') title steps"

subsection \<open>Reading\<close>

definition read_tool ::
    "platform \<Rightarrow> tool_env \<Rightarrow> moment \<Rightarrow> read_operation \<Rightarrow> agent_db \<Rightarrow> (tool_error + jsval) \<times> agent_db" where
  [js_eval]: "read_tool pf e t op s =
     (let (r, s) = executeScryReadOperation pf (tv_gateway e) (mm_uuid t) (mm_fresh t) (mm_now t) (tv_user e) (Some op) (tv_context e) s
      in (map_sum ToolMessage id r, s))"

definition query_label :: evidence_label where
  [js_eval]: "query_label = \<lparr>el_type = SrcTelemetry, el_name = js ''query-signals'', el_title = [21487, 35266, 27979, 20449, 21495, 35777, 25454]\<rparr>"

definition querySignals ::
    "platform \<Rightarrow> tool_env \<Rightarrow> moment \<Rightarrow> jsval \<Rightarrow> agent_db \<Rightarrow> (tool_error + jsval) \<times> agent_db" where
  [js_eval]: "querySignals pf e t input s =
     (case buildSignalQueryPayload input (mm_now t) of
        Inl bad \<Rightarrow> (Inl (ToolQuery bad), s)
      | Inr query \<Rightarrow>
          (let (r, s) = callScry pf (tv_gateway e) (mm_uuid t) (mm_fresh t) (mm_now t) (tv_user e) (Some (js ''/api/v3/query_range''))
                 (Some \<lparr>hi_method = js ''POST'', hi_body = json_text pf query\<rparr>) (tv_context e) (Some query_label) s
           in (map_sum ToolMessage id r, s)))"

definition evaluateSecurityIntent ::
    "platform \<Rightarrow> tool_env \<Rightarrow> moment \<Rightarrow> jsstr \<Rightarrow> agent_mode \<Rightarrow> agent_db \<Rightarrow> decision_result \<times> agent_db" where
  [js_eval]: "evaluateSecurityIntent pf e t text mode s =
     evaluateInputSecurity pf (mm_uuid t) (mm_now t) \<lparr>sx_user = tv_user e, sx_text = text, sx_mode = mode,
       sx_source = AuMcp, sx_thread = [], sx_trace = []\<rparr> s"

subsection \<open>Evidence\<close>

definition unusable :: "evidence_item \<Rightarrow> bool" where
  [js_eval]: "unusable i \<longleftrightarrow> ev_status (ei_row i) = EvRejected \<or> ev_status (ei_row i) = EvSuspended"

definition no_evidence_context :: jsstr where
  [js_eval]: "no_evidence_context = [24403, 21069, 24037, 20855, 35843, 29992, 27809, 26377, 23545, 35805, 35777, 25454, 19978,
      19979, 25991]"

record evidence_view =
  vw_id :: jsstr
  vw_title :: jsstr
  vw_summary :: jsstr
  vw_type :: evidence_source
  vw_source :: jsstr
  vw_confidence :: int
  vw_relevance :: int
  vw_status :: evidence_status
  vw_selected :: bool
  vw_note :: jsstr

definition view_of :: "evidence_item \<Rightarrow> evidence_view" where
  [js_eval]: "view_of i = (let r = ei_row i in \<lparr>vw_id = ev_id r, vw_title = ev_title r, vw_summary = ev_summary r,
     vw_type = ev_source r, vw_source = ev_source_name r, vw_confidence = ev_confidence r, vw_relevance = ev_relevance r,
     vw_status = ev_status r, vw_selected = ev_selected r, vw_note = ev_note r\<rparr>)"

definition listEvidenceTool :: "tool_env \<Rightarrow> bool \<Rightarrow> agent_db \<Rightarrow> tool_error + evidence_view list" where
  [js_eval]: "listEvidenceTool e inactive s =
     (if tool_thread e = [] then Inl (ToolMessage no_evidence_context)
      else Inr (map view_of (filter (\<lambda>i. inactive \<or> \<not> unusable i) (listEvidence (tool_thread e) (user_org (tv_user e)) s))))"

record chain_node =
  cn_id :: jsstr
  cn_title :: jsstr
  cn_status :: evidence_status
  cn_confidence :: int
  cn_relevance :: int
  cn_type :: evidence_source

definition node_of :: "evidence_item \<Rightarrow> chain_node" where
  [js_eval]: "node_of i = (let r = ei_row i in \<lparr>cn_id = ev_id r, cn_title = ev_title r, cn_status = ev_status r,
     cn_confidence = ev_confidence r, cn_relevance = ev_relevance r, cn_type = ev_source r\<rparr>)"

text \<open>\<open>new Map(...)\<close> keeps the place of the first entry of a key and the value of the last.\<close>

definition getEvidenceChain :: "tool_env \<Rightarrow> agent_db \<Rightarrow> tool_error + (chain_node list \<times> evidence_relation list)" where
  [js_eval]: "getEvidenceChain e s =
     (if tool_thread e = [] then Inl (ToolMessage no_evidence_context)
      else (let evidence = listEvidence (tool_thread e) (user_org (tv_user e)) s
            in Inr (map node_of evidence,
                 map snd (put_all [] (map (\<lambda>r. (er_id r, r)) (concat (map ei_relations evidence)))))))"

subsection \<open>Memories\<close>

definition searchMemory ::
    "platform \<Rightarrow> tool_env \<Rightarrow> moment \<Rightarrow> int \<Rightarrow> jsstr option \<Rightarrow> int \<Rightarrow> agent_db \<Rightarrow> retrieval_packet \<times> agent_db" where
  [js_eval]: "searchMemory pf e t started question limit s =
     (let evidence = (if tool_thread e = [] then [] else map ei_row (listEvidence (tool_thread e) (user_org (tv_user e)) s));
          asked = or_default (trim (or_else question [])) (case tv_context e of None \<Rightarrow> [] | Some c \<Rightarrow> ctx_query c)
      in retrieveMemories pf (mm_uuid t) started (mm_now t) (tv_user e) asked
           \<lparr>mx_thread = tool_thread e, mx_workflow = [], mx_trace = (case tv_context e of None \<Rightarrow> [] | Some c \<Rightarrow> ctx_trace c),
            mx_evidence = evidence\<rparr> limit False s)"

record remember_form =
  rf_type :: memory_type
  rf_scope :: memory_scope
  rf_title :: jsstr
  rf_summary :: jsstr
  rf_content :: jsstr
  rf_evidence :: "jsstr list"
  rf_service :: "jsstr option"
  rf_tags :: "jsstr list"
  rf_importance :: int

text \<open>The confidence is the rounded mean of the evidence; there is at least one item, as the schema asks.\<close>

definition mean_confidence :: "evidence_row list \<Rightarrow> int" where
  [js_eval]: "mean_confidence es = js_round (of_int (sum_list (map ev_confidence es)) / of_nat (length es))"

definition remembered :: "tool_env \<Rightarrow> remember_form \<Rightarrow> evidence_row list \<Rightarrow> memory_input" where
  [js_eval]: "remembered e f es =
     \<lparr>mn_type = rf_type f, mn_scope = rf_scope f, mn_title = rf_title f, mn_summary = rf_summary f,
      mn_content = Str (rf_content f), mn_thread = tool_thread e, mn_workflow = [],
      mn_service = or_default (or_else (rf_service f) [])
        (or_else (head_option (concat (map (\<lambda>r. extractServiceNames (ev_content r)) es))) []),
      mn_tags = rf_tags f, mn_confidence = Some (mean_confidence es), mn_importance = Some (rf_importance f),
      mn_status = Some (if list_all (\<lambda>r. ev_status r = EvAccepted) es then MemVerified else MemActive),
      mn_pinned = False, mn_note = [], mn_expires = 0,
      mn_sources = map (\<lambda>r. \<lparr>so_type = FromEvidence, so_source = ev_id r, so_trace = ev_trace r,
        so_relation = js ''grounded_in'', so_weight = Some (ev_confidence r)\<rparr>) es\<rparr>"

text \<open>
  \<open>remember\<close>: with no memory returned, reading \<open>memory.id\<close> for the screen throws although the known
  memory was reinforced.
\<close>

definition remember ::
    "platform \<Rightarrow> tool_env \<Rightarrow> moment \<Rightarrow> remember_form \<Rightarrow> agent_db \<Rightarrow> (tool_error + memory_item) \<times> agent_db" where
  [js_eval]: "remember pf e t f s =
     (if tool_thread e = [] then (Inl (ToolMessage no_evidence_context), s)
      else (let evidence = getEvidenceByIds (tool_thread e) (user_org (tv_user e)) (rf_evidence f) s
            in if length evidence \<noteq> length (remdups (rf_evidence f))
               then (Inl (ToolMessage [37096, 20998, 26469, 28304, 35777, 25454, 19981, 23384, 22312, 25110, 19981, 23646, 20110,
      24403, 21069, 23545, 35805]), s)
               else if list_ex unusable evidence
               then (Inl (ToolMessage [24050, 39539, 22238, 25110, 25346, 36215, 30340, 35777, 25454, 19981, 33021, 29992, 20110,
      20889, 20837, 35760, 24518]), s)
               else (let (r, s) = createMemory pf (mm_fresh t) (mm_now t) (tv_user e) (remembered e f (map ei_row evidence)) s
                     in (case r of
                           Inl m \<Rightarrow> Inl (ToolMemory m)
                         | Inr None \<Rightarrow> Inl (ToolMessage (js ''Cannot read properties of null (reading 'id')''))
                         | Inr (Some item) \<Rightarrow> Inr item, s))))"

definition missing_memory :: jsstr where
  [js_eval]: "missing_memory = [35760, 24518, 19981, 23384, 22312, 25110, 24403, 21069, 29992, 25143, 19981, 21487, 35265]"

definition inspectMemory ::
    "platform \<Rightarrow> tool_env \<Rightarrow> moment \<Rightarrow> jsstr \<Rightarrow> agent_db \<Rightarrow> (tool_error + memory_item) \<times> agent_db" where
  [js_eval]: "inspectMemory pf e t i s =
     (let (found, s) = getMemory pf (mm_now t) i (tv_user e) (no_context\<lparr>mx_thread := tool_thread e\<rparr>) s
      in (case found of None \<Rightarrow> Inl (ToolMessage missing_memory) | Some item \<Rightarrow> Inr item, s))"

definition forgetMemoryTool ::
    "platform \<Rightarrow> tool_env \<Rightarrow> moment \<Rightarrow> jsstr \<Rightarrow> agent_db \<Rightarrow> (tool_error + memory_item) \<times> agent_db" where
  [js_eval]: "forgetMemoryTool pf e t i s =
     (let (r, s) = forgetMemory pf (mm_now t) i (tv_user e) s
      in (case r of Inl m \<Rightarrow> Inl (ToolMemory m) | Inr None \<Rightarrow> Inl (ToolMessage missing_memory) | Inr (Some item) \<Rightarrow> Inr item, s))"

subsection \<open>Any tool\<close>

datatype tool_call =
    PublishPlan jsstr "plan_step list"
  | ReadData read_operation
  | QuerySignals jsval
  | EvaluateIntent jsstr agent_mode
  | ListEvidence bool
  | EvidenceChain
  | SearchMemory "jsstr option" int
  | Remember remember_form
  | InspectMemory jsstr
  | MaintainMemory int
  | ForgetMemory jsstr
  | ListHosts
  | InspectHost jsstr jsstr
  | ExecuteOnHost jsstr jsstr

datatype tool_output =
    PlanOutput "plan_step list surface"
  | DataOutput jsval
  | DecisionOutput decision_result
  | EvidenceOutput "evidence_view list"
  | ChainOutput "chain_node list" "evidence_relation list"
  | PacketOutput retrieval_packet
  | MemoryOutput memory_item
  | ReportOutput maintenance_report
  | HostsOutput host_listing
  | CommandOutput ssh_result

fun run_tool :: "platform \<Rightarrow> tool_env \<Rightarrow> moment \<Rightarrow> tool_call \<Rightarrow> agent_db \<Rightarrow> (tool_error + tool_output) \<times> agent_db" where
  "run_tool pf e t (PublishPlan title steps) s = (Inr (PlanOutput (publishPlan title steps)), s)"
| "run_tool pf e t (ReadData op) s = map_prod (map_sum id DataOutput) id (read_tool pf e t op s)"
| "run_tool pf e t (QuerySignals input) s = map_prod (map_sum id DataOutput) id (querySignals pf e t input s)"
| "run_tool pf e t (EvaluateIntent text mode) s =
     map_prod (\<lambda>r. Inr (DecisionOutput r)) id (evaluateSecurityIntent pf e t text mode s)"
| "run_tool pf e t (ListEvidence inactive) s = (map_sum id EvidenceOutput (listEvidenceTool e inactive s), s)"
| "run_tool pf e t EvidenceChain s = (map_sum id (\<lambda>(ns, rs). ChainOutput ns rs) (getEvidenceChain e s), s)"
| "run_tool pf e t (SearchMemory question limit) s =
     map_prod (\<lambda>r. Inr (PacketOutput r)) id (searchMemory pf e t (mm_now t) question limit s)"
| "run_tool pf e t (Remember f) s = map_prod (map_sum id MemoryOutput) id (remember pf e t f s)"
| "run_tool pf e t (InspectMemory i) s = map_prod (map_sum id MemoryOutput) id (inspectMemory pf e t i s)"
| "run_tool pf e t (MaintainMemory limit) s =
     map_prod (\<lambda>r. Inr (ReportOutput r)) id (maintainMemories pf (mm_fresh t) (mm_now t) (tv_user e) limit s)"
| "run_tool pf e t (ForgetMemory i) s = map_prod (map_sum id MemoryOutput) id (forgetMemoryTool pf e t i s)"
| "run_tool pf e t ListHosts s = (map_sum ToolMessage HostsOutput (listHosts_tool (mm_now t) (tv_user e) s), s)"
| "run_tool pf e t (InspectHost host command) s = map_prod (map_sum ToolMessage CommandOutput) id
     (readonlyInspect pf (tv_network e) (mm_uuid t) (mm_fresh t) (mm_now t) (tv_user e) (tv_context e) host command s)"
| "run_tool pf e t (ExecuteOnHost host command) s = map_prod (map_sum ToolMessage CommandOutput) id
     (executeConfiguredCommand pf (tv_network e) (mm_uuid t) (mm_fresh t) (mm_now t) (tv_user e) (tv_context e) host command s)"

end
