(* ===== verification/Run_Laws.thy ===== *)
theory Run_Laws
  imports Workflow_Run Frames
begin

section \<open>What the runs of workflows keep\<close>

text \<open>
  The outcome of executing a step, the invariant of the row of a run under every order in which the
  engine may execute steps, and what the decisions of an administrator do to a waiting run.
\<close>

subsection \<open>The rows of a run\<close>

definition own :: "run_env \<Rightarrow> agent_db \<Rightarrow> run_row list" where
  "own e s = filter (\<lambda>r. rn_id r = re_run e) (workflow_runs s)"

definition foreign :: "run_env \<Rightarrow> agent_db \<Rightarrow> run_row list" where
  "foreign e s = filter (\<lambda>r. rn_id r \<noteq> re_run e) (workflow_runs s)"

text \<open>Agents and tools may write anything but the table of runs, and only append to the audit log.\<close>

definition quiet :: "agent_db \<Rightarrow> agent_db \<Rightarrow> bool" where
  "quiet s s' \<longleftrightarrow> workflow_runs s' = workflow_runs s \<and> (\<exists>es. security_events s' = security_events s @ es)"

definition tame_world :: "run_world \<Rightarrow> bool" where
  "tame_world w \<longleftrightarrow> (\<forall>mode prompt s. quiet s (snd (rw_agent w mode prompt s)))
     \<and> (\<forall>tool v s. quiet s (snd (rw_tool w tool v s)))"

lemma quiet_refl [simp]: "quiet s s"
  by (simp add: quiet_def)

lemma quiet_trans: "quiet s s' \<Longrightarrow> quiet s' s'' \<Longrightarrow> quiet s s''"
  by (auto simp: quiet_def)

lemma quiet_audit [simp]: "quiet s (addSecurityAuditEvent ev s)"
  by (simp add: quiet_def)

lemma quiet_own: "quiet s s' \<Longrightarrow> own e s' = own e s \<and> foreign e s' = foreign e s"
  by (simp add: quiet_def own_def foreign_def)

lemma quiet_agent: "tame_world w \<Longrightarrow> quiet s (snd (rw_agent w mode prompt s))"
  and quiet_tool: "tame_world w \<Longrightarrow> quiet s (snd (rw_tool w tool v s))"
  by (simp_all add: tame_world_def)

lemma quiet_spares: "spares s s' \<Longrightarrow> quiet s s'"
  by (simp add: quiet_def spares_def control_part_def)

lemmas quiet_call = quiet_spares [OF spares_call]
  and quiet_evaluate = quiet_spares [OF spares_evaluate]

lemma own_on_db: "quiet (snd x) (f (snd x)) \<Longrightarrow> own e (snd (on_db f x)) = own e (snd x) \<and> foreign e (snd (on_db f x)) = foreign e (snd x)"
  by (simp add: on_db_def quiet_own)

lemma patched_id [simp]: "rn_id (patched_run now p r) = rn_id r"
  by (simp add: patched_run_def)

lemma rows_track [simp]:
  "own e (snd (track e t p x)) = map (patched_run (mm_now t) p) (own e (snd x))"
  "foreign e (snd (track e t p x)) = foreign e (snd x)"
  "fst (track e t p x) = fst x"
proof -
  have "filter (\<lambda>r. rn_id r = k) (update_where (\<lambda>r. rn_id r = k) (patched_run now p) rows) =
      map (patched_run now p) (filter (\<lambda>r. rn_id r = k) rows)"
    "filter (\<lambda>r. rn_id r \<noteq> k) (update_where (\<lambda>r. rn_id r = k) (patched_run now p) rows) = filter (\<lambda>r. rn_id r \<noteq> k) rows"
    for k now p and rows :: "run_row list"
    by (induction rows) (simp_all add: update_where_def)
  then show "own e (snd (track e t p x)) = map (patched_run (mm_now t) p) (own e (snd x))"
    "foreign e (snd (track e t p x)) = foreign e (snd x)" "fst (track e t p x) = fst x"
    by (simp_all add: track_def on_db_def updateWorkflowRunRecord_def own_def foreign_def)
qed

lemma events_track [simp]: "security_events (snd (track e t p x)) = security_events (snd x)"
  by (simp add: track_def on_db_def updateWorkflowRunRecord_def)

lemma publish_simps [simp]:
  "fst (publishStep run i st d x) = fst x @ [StepNotice run (si_id i) (si_name i) (si_type i) st d]"
  "snd (publishStep run i st d x) = snd x"
  by (simp_all add: publishStep_def)

lemma patched_step [simp]:
  "rn_status (patched_run now (step_patch st i word rest sus) r) = st"
  "rn_suspended (patched_run now (step_patch st i word rest sus) r) = or_else sus (rn_suspended r)"
  by (simp_all add: patched_run_def step_patch_def or_else_def)

subsection \<open>One execution of a step\<close>

text \<open>What the body of a step tells the stream and the row of its run.\<close>

definition reports :: "run_env \<Rightarrow> step_info \<Rightarrow> notice_status list \<Rightarrow> run_status option \<Rightarrow> run_io \<Rightarrow> run_io \<Rightarrow> bool" where
  "reports e i sts st x y \<longleftrightarrow>
     (\<exists>ns. fst y = fst x @ ns \<and> map nt_status ns = sts \<and> list_all (\<lambda>n. nt_step n = si_id i \<and> nt_run n = re_run e) ns)
     \<and> map rn_id (own e (snd y)) = map rn_id (own e (snd x)) \<and> foreign e (snd y) = foreign e (snd x)
     \<and> (case st of None \<Rightarrow> True
        | Some v \<Rightarrow> list_all (\<lambda>r. rn_status r = v) (own e (snd y)))"

lemma reports_complete: "quiet (snd x) s \<Longrightarrow> reports e i [NoticeCompleted] (Some RunRunning) x (complete_step e t i d rest sus (fst x, s))"
  using quiet_own [of "snd x" s e]
  by (simp add: reports_def complete_step_def list.pred_map o_def) (simp add: list_all_iff)

lemma reports_nothing: "quiet (snd x) s \<Longrightarrow> reports e i [] None x (fst x, s)"
  using quiet_own [of "snd x" s e] by (simp add: reports_def)

definition result_reports :: "run_env \<Rightarrow> step_info \<Rightarrow> step_result \<Rightarrow> run_io \<Rightarrow> run_io \<Rightarrow> bool" where
  "result_reports e i r x y \<longleftrightarrow>
     (case r of
        Finished _ \<Rightarrow> reports e i [NoticeCompleted] (Some RunRunning) x y
      | Suspended _ _ \<Rightarrow> reports e i [NoticeSuspended] (Some RunSuspended) x y
          \<and> list_all (\<lambda>r. rn_suspended r = si_id i) (own e (snd y))
      | Broken _ \<Rightarrow> reports e i [] None x y)"

lemma result_answer: "tame_world w \<Longrightarrow> result_reports e i (fst (answer_step pf w e t i mode p rest c x)) x (snd (answer_step pf w e t i mode p rest c x))"
  using quiet_agent [of w "snd x" mode p]
  by (cases "rw_agent w mode p (snd x)")
     (simp add: answer_step_def Let_def result_reports_def reports_complete reports_nothing split: sum.splits)

lemma result_tool: "tame_world w \<Longrightarrow> result_reports e i (fst (tool_step w e t i c x)) x (snd (tool_step w e t i c x))"
  using quiet_tool [of w "snd x" "or_else (si_tool i) []" "or_else (si_input i) (Obj [])"]
  by (cases "rw_tool w (or_else (si_tool i) []) (or_else (si_input i) (Obj [])) (snd x)")
     (simp add: tool_step_def Let_def result_reports_def reports_complete reports_nothing split: tool_answer.splits)

lemma result_security: "result_reports e i (fst (security_step pf e t i c x)) x (snd (security_step pf e t i c x))"
  unfolding security_step_def Let_def result_reports_def
  by (auto simp: reports_complete reports_nothing split: prod.splits)
     (metis quiet_evaluate snd_conv reports_complete reports_nothing)+

lemma result_read: "result_reports e i (fst (read_step pf w e t i c x)) x (snd (read_step pf w e t i c x))"
  using quiet_call [of "snd x" pf "rw_gateway w" "mm_uuid t" "mm_fresh t" "mm_now t" "re_user e"
      "map_option read_path (read_operation_of (si_type i))" None "Some (run_capture e c)"
      "map_option read_label (read_operation_of (si_type i))"]
  by (cases "executeScryReadOperation pf (rw_gateway w) (mm_uuid t) (mm_fresh t) (mm_now t) (re_user e)
        (read_operation_of (si_type i)) (Some (run_capture e c)) (snd x)")
     (simp add: read_step_def Let_def result_reports_def reports_complete reports_nothing
       executeScryReadOperation_def split: sum.splits)

lemma result_approval: "result_reports e i (fst (approval_step pf e t i d c x)) x (snd (approval_step pf e t i d c x))"
proof (cases d)
  case None
  then show ?thesis
    by (simp add: approval_step_def Let_def result_reports_def reports_def on_db_def quiet_own [OF quiet_audit]
        list.pred_map o_def or_else_def) (simp add: list_all_iff)
next
  case (Some a)
  obtain approved remark where a: "a = (approved, remark)" by (cases a)
  show ?thesis using Some a
    by (simp add: approval_step_def Let_def result_reports_def on_db_def reports_complete reports_nothing)
qed

lemma result_body: "tame_world w \<Longrightarrow> result_reports e i (fst (leaf_body pf w e t i d c x)) x (snd (leaf_body pf w e t i d c x))"
  by (simp add: leaf_body_def result_answer result_tool result_security result_read result_approval split: step_type.splits)


lemma leaf_result: "fst (execute_leaf pf w e t i d c x) =
    fst (leaf_body pf w e t i d c (track e t (step_patch RunRunning i ''running'' [(js ''startedAt'', int_num (mm_now t)),
      (js ''retries'', Num (of_nat (or_else (si_retries i) 0)))] None)
      (publishStep (re_run e) i NoticeRunning (Obj [(js ''retries'', Num (of_nat (or_else (si_retries i) 0)))]) x)))"
  by (simp add: execute_leaf_def Let_def split: prod.splits step_result.splits)

text \<open>What a finished step hands on.\<close>

definition hands_on :: "step_info \<Rightarrow> (bool \<times> jsstr option) option \<Rightarrow> wf_context \<Rightarrow> wf_context \<Rightarrow> bool" where
  "hands_on i d c c' \<longleftrightarrow> cx_message c' = cx_message c \<and> (\<exists>v. cx_results c' = put_prop (cx_results c) (si_id i) v)
     \<and> (if si_type i = ApprovalStep then map_option fst d = Some True else True)
     \<and> (if si_type i \<in> {AgentStep, OperationStep, VerifyStep} then True else cx_text c' = cx_text c)"

lemma body_hands_on: "fst (leaf_body pf w e t i d c x) = Finished c' \<Longrightarrow> hands_on i d c c'"
  by (cases "si_type i")
     (auto simp: leaf_body_def answer_step_def security_step_def tool_step_def read_step_def approval_step_def Let_def
       hands_on_def with_result_def split: prod.splits sum.splits tool_answer.splits option.splits if_splits)

lemma body_suspends: "fst (leaf_body pf w e t i d c x) = Suspended m k \<Longrightarrow> si_type i = ApprovalStep \<and> d = None \<and> k = si_id i"
  by (cases "si_type i")
     (auto simp: leaf_body_def answer_step_def security_step_def tool_step_def read_step_def approval_step_def Let_def
       split: prod.splits sum.splits tool_answer.splits option.splits if_splits)

text \<open>The status a result leaves the run in, and the last notice it sends.\<close>

definition result_status :: "step_result \<Rightarrow> run_status" where
  "result_status r = (case r of Finished _ \<Rightarrow> RunRunning | Suspended _ _ \<Rightarrow> RunSuspended | Broken _ \<Rightarrow> RunFailed)"

definition result_notice :: "step_result \<Rightarrow> notice_status" where
  "result_notice r = (case r of Finished _ \<Rightarrow> NoticeCompleted | Suspended _ _ \<Rightarrow> NoticeSuspended | Broken _ \<Rightarrow> NoticeFailed)"

lemma reports_trans:
  assumes "reports e i as st1 x y" "reports e i bs st y z"
  shows "reports e i (as @ bs) st x z"
proof -
  obtain ns ms where "fst y = fst x @ ns" "map nt_status ns = as" "fst z = fst y @ ms" "map nt_status ms = bs"
    "list_all (\<lambda>n. nt_step n = si_id i \<and> nt_run n = re_run e) (ns @ ms)"
    using assms unfolding reports_def by auto
  then have "\<exists>ks. fst z = fst x @ ks \<and> map nt_status ks = as @ bs \<and> list_all (\<lambda>n. nt_step n = si_id i \<and> nt_run n = re_run e) ks"
    by (intro exI [of _ "ns @ ms"]) simp
  then show ?thesis using assms by (simp add: reports_def)
qed

lemma reports_started: "reports e i [NoticeRunning] (Some RunRunning) x
    (track e t (step_patch RunRunning i word rest sus) (publishStep (re_run e) i NoticeRunning d x))"
  by (simp add: reports_def list.pred_map o_def) (simp add: list_all_iff)

lemma reports_failed: "reports e i [NoticeFailed] (Some RunFailed) x (fail_step e t i m x)"
  by (simp add: reports_def fail_step_def list.pred_map o_def) (simp add: list_all_iff)

lemma leaf_reports:
  assumes "tame_world w"
  shows "reports e i [NoticeRunning, result_notice (fst (execute_leaf pf w e t i d c x))]
    (Some (result_status (fst (execute_leaf pf w e t i d c x)))) x (snd (execute_leaf pf w e t i d c x))"
proof -
  define y where "y = track e t (step_patch RunRunning i ''running'' [(js ''startedAt'', int_num (mm_now t)),
      (js ''retries'', Num (of_nat (or_else (si_retries i) 0)))] None)
      (publishStep (re_run e) i NoticeRunning (Obj [(js ''retries'', Num (of_nat (or_else (si_retries i) 0)))]) x)"
  have s: "reports e i [NoticeRunning] (Some RunRunning) x y" unfolding y_def by (rule reports_started)
  obtain r z where b: "leaf_body pf w e t i d c y = (r, z)" by (cases "leaf_body pf w e t i d c y")
  have rr: "result_reports e i r y z" using result_body [OF assms, of e i pf t d c y] b by simp
  have ex: "execute_leaf pf w e t i d c x = (case r of Broken m \<Rightarrow> (r, fail_step e t i m z) | _ \<Rightarrow> (r, z))"
    using b by (simp add: execute_leaf_def Let_def y_def)
  show ?thesis
  proof (cases r)
    case (Broken m)
    have "reports e i [] None y z" using rr Broken by (simp add: result_reports_def)
    from reports_trans [OF reports_trans [OF s this] reports_failed] show ?thesis
      using Broken by (simp add: ex result_notice_def result_status_def)
  next
    case (Finished c')
    then have "reports e i [NoticeCompleted] (Some RunRunning) y z" using rr by (simp add: result_reports_def)
    from reports_trans [OF s this] show ?thesis using Finished by (simp add: ex result_notice_def result_status_def)
  next
    case (Suspended m k)
    then have "reports e i [NoticeSuspended] (Some RunSuspended) y z" using rr by (simp add: result_reports_def)
    from reports_trans [OF s this] show ?thesis using Suspended by (simp add: ex result_notice_def result_status_def)
  qed
qed

lemma reports_told:
  assumes "reports e i [a, b] st x y"
  shows "\<exists>n m. fst y = fst x @ [n, m] \<and> nt_status n = a \<and> nt_status m = b
    \<and> nt_step n = si_id i \<and> nt_step m = si_id i \<and> nt_run n = re_run e \<and> nt_run m = re_run e"
proof -
  obtain ns where "fst y = fst x @ ns" "map nt_status ns = [a, b]" "list_all (\<lambda>n. nt_step n = si_id i \<and> nt_run n = re_run e) ns"
    using assms unfolding reports_def by (elim conjE exE)
  moreover from this(2) obtain n m where "ns = [n, m]" "nt_status n = a" "nt_status m = b"
    by (cases ns; cases "tl ns") auto
  ultimately show ?thesis by simp
qed

text \<open>
  C24. Executing a step of a workflow, whatever its kind and however agents, tools and the query service
  answer, sends exactly two notices of that step, the first that it runs and the second how it
  ended, and leaves the row of the run in the matching status; the rows of other runs stay as they
  were. A step that finishes hands its context on with one more result, under its own identifier,
  and changes the text only if it asks an agent. Only an approval suspends, and only if no decision
  was given; it then names itself as the suspended step. It only finishes on a decision that
  approves.
\<close>

theorem leaf_outcome:
  fixes pf w e t i d c x
  defines "r \<equiv> execute_leaf pf w e t i d c x"
  assumes "tame_world w"
  shows "(\<exists>n m. fst (snd r) = fst x @ [n, m] \<and> nt_status n = NoticeRunning \<and> nt_status m = result_notice (fst r)
        \<and> nt_step n = si_id i \<and> nt_step m = si_id i \<and> nt_run n = re_run e \<and> nt_run m = re_run e)
    \<and> list_all (\<lambda>row. rn_status row = result_status (fst r)) (own e (snd (snd r)))
    \<and> foreign e (snd (snd r)) = foreign e (snd x)
    \<and> (case fst r of
         Finished c' \<Rightarrow> hands_on i d c c'
       | Suspended m k \<Rightarrow> si_type i = ApprovalStep \<and> d = None \<and> k = si_id i
       | Broken m \<Rightarrow> True)"
proof -
  have rep: "reports e i [NoticeRunning, result_notice (fst r)] (Some (result_status (fst r))) x (snd r)"
    unfolding r_def by (rule leaf_reports [OF assms(2)])
  note reports_told [OF rep]
  moreover have "case fst r of Finished c' \<Rightarrow> hands_on i d c c'
       | Suspended m k \<Rightarrow> si_type i = ApprovalStep \<and> d = None \<and> k = si_id i | Broken m \<Rightarrow> True"
  proof -
    obtain y where y: "fst r = fst (leaf_body pf w e t i d c y)" unfolding r_def leaf_result by blast
    show ?thesis unfolding y
      by (cases "fst (leaf_body pf w e t i d c y)") (simp_all add: body_hands_on body_suspends)
  qed
  ultimately show ?thesis using rep by (simp add: reports_def)
qed

definition demo_gateway :: gateway where
  [js_eval]: "demo_gateway = \<lparr>gw_fetch = (\<lambda>_ _ _. Inr (200, [])), gw_parse = (\<lambda>b. Inl b), gw_limit = 1000, gw_elapsed = 0\<rparr>"

definition demo_world :: run_world where
  [js_eval]: "demo_world = \<lparr>rw_agent = (\<lambda>_ _ s. (Inr (js ''done''), s)), rw_tool = (\<lambda>_ _ s. (NoSuchTool, s)),
     rw_gateway = demo_gateway\<rparr>"

definition demo_env :: run_env where
  [js_eval]: "demo_env = \<lparr>re_workflow = demo_workflow [], re_user = demo_user, re_thread = js ''t1'', re_run = js ''r1''\<rparr>"

definition demo_moment :: moment where
  [js_eval]: "demo_moment = \<lparr>mm_now = 9, mm_uuid = js ''u1'', mm_fresh = demo_fresh\<rparr>"

definition start_run :: agent_db where
  [js_eval]: "start_run = createWorkflowRunRecord 1 (js ''r1'') (js ''w1'') (js ''t1'') (js ''u'') (Obj []) empty_db"

lemma tame_demo: "tame_world demo_world"
  by (simp add: tame_world_def demo_world_def)

theorem leaf_outcome_witness:
  "map rn_status (own demo_env (snd (snd (execute_leaf demo_platform demo_world demo_env demo_moment
     (plain_info (js ''ok'') (js ''ok'') ApprovalStep) None (demo_context ''m'') ([], start_run))))) = [RunSuspended]"
proof -
  let ?r = "execute_leaf demo_platform demo_world demo_env demo_moment
     (plain_info (js ''ok'') (js ''ok'') ApprovalStep) None (demo_context ''m'') ([], start_run)"
  have "result_status (fst ?r) = RunSuspended \<and> length (own demo_env (snd (snd ?r))) = 1" unfolding own_def by code_simp
  moreover have "list_all (\<lambda>row. rn_status row = result_status (fst ?r)) (own demo_env (snd (snd ?r)))"
    using leaf_outcome [OF tame_demo] by blast
  ultimately show ?thesis by (cases "own demo_env (snd (snd ?r))") auto
qed

subsection \<open>The invariant of a run\<close>

text \<open>
  The engine may execute any step of the workflow at any time, with any context and any decision; in
  between, other operations of the service run, which leave the table of runs alone.
\<close>

inductive engine_step :: "platform \<Rightarrow> run_world \<Rightarrow> run_env \<Rightarrow> run_io \<Rightarrow> run_io \<Rightarrow> bool" for pf w e where
  mark: "valid_info i \<Longrightarrow> engine_step pf w e x (snd (controlMarker e t i suffix c x))"
| normalize: "valid_info i \<Longrightarrow> engine_step pf w e x (snd (normalizeControlOutput e t i m v x))"
| leaf: "valid_info i \<Longrightarrow> engine_step pf w e x (snd (execute_leaf pf w e t i d c x))"
| final: "engine_step pf w e x (snd (finalize pf e t c x))"
| elsewhere: "quiet s s' \<Longrightarrow> engine_step pf w e (ns, s) (ns, s')"

inductive_cases engine_stepE [elim]: "engine_step pf w e x y"

inductive run_reaches :: "platform \<Rightarrow> run_world \<Rightarrow> run_env \<Rightarrow> run_io \<Rightarrow> run_io \<Rightarrow> bool" for pf w e where
  start: "run_reaches pf w e x x"
| step: "run_reaches pf w e x y \<Longrightarrow> engine_step pf w e y z \<Longrightarrow> run_reaches pf w e x z"

definition asked_for :: "run_env \<Rightarrow> jsstr \<Rightarrow> security_event list \<Rightarrow> bool" where
  "asked_for e k es \<longleftrightarrow> list_ex (\<lambda>a. se_type a = js ''approval.requested'' \<and> se_trace a = re_run e \<and> se_target a = k) es"

definition good_run :: "run_env \<Rightarrow> security_event list \<Rightarrow> run_row \<Rightarrow> bool" where
  "good_run e es r \<longleftrightarrow> (rn_status r = RunSuspended \<longrightarrow> rn_suspended r \<noteq> [])
     \<and> (rn_status r = RunCompleted \<longrightarrow> rn_suspended r = [])
     \<and> (rn_suspended r \<noteq> [] \<longrightarrow> asked_for e (rn_suspended r) es) \<and> distinct (map fst (rn_steps r))"

definition good_runs :: "run_env \<Rightarrow> agent_db \<Rightarrow> bool" where
  "good_runs e s \<longleftrightarrow> list_all (good_run e (security_events s)) (own e s)"

lemma asked_later: "asked_for e k es \<Longrightarrow> asked_for e k (es @ es')"
  by (simp add: asked_for_def)

lemma good_run_later: "good_run e es r \<Longrightarrow> good_run e (es @ es') r"
  by (auto simp: good_run_def asked_later)

lemma good_quiet: "good_runs e s \<Longrightarrow> quiet s s' \<Longrightarrow> good_runs e s'"
  unfolding good_runs_def quiet_def own_def by (auto simp: list_all_iff good_run_later)

lemma distinct_set_step: "distinct (map fst m) \<Longrightarrow> distinct (map fst (set_step m k v))"
  by (simp add: set_step_def)

lemma good_patched_run:
  assumes "good_run e es r" "st = RunRunning \<or> st = RunFailed" "sus = None \<or> sus = Some []"
  shows "good_run e es (patched_run now (step_patch st i word rest sus) r)"
  using assms by (auto simp: good_run_def patched_run_def step_patch_def or_else_def distinct_set_step)

lemma good_track: "good_runs e (snd x) \<Longrightarrow> st = RunRunning \<or> st = RunFailed \<Longrightarrow> sus = None \<or> sus = Some [] \<Longrightarrow>
    good_runs e (snd (track e t (step_patch st i word rest sus) x))"
  unfolding good_runs_def by (simp add: list.pred_map o_def) (auto simp: list_all_iff intro: good_patched_run)

lemma good_complete: "good_runs e (snd x) \<Longrightarrow> sus = None \<or> sus = Some [] \<Longrightarrow> good_runs e (snd (complete_step e t i d rest sus x))"
  unfolding complete_step_def by (rule good_track) simp_all

lemma good_approval:
  assumes "good_runs e (snd x)" "si_id i \<noteq> []"
  shows "good_runs e (snd (snd (approval_step pf e t i d c x)))"
proof (cases d)
  case None
  let ?a = "approval_event pf e t i c ''approval.requested'' RequireApproval []"
  have "asked_for e (si_id i) (security_events (snd x) @ [?a])"
    by (simp add: asked_for_def approval_event_def)
  moreover have "list_all (good_run e (security_events (snd x) @ [?a])) (own e (snd x))"
    using assms(1) by (auto simp: good_runs_def list_all_iff good_run_later)
  ultimately show ?thesis using None assms(2) quiet_own [OF quiet_audit, of e ?a "snd x"]
    by (simp add: approval_step_def Let_def good_runs_def on_db_def list.pred_map o_def)
       (auto simp: list_all_iff good_run_def patched_run_def step_patch_def or_else_def distinct_set_step)
next
  case (Some a)
  obtain approved remark where a: "a = (approved, remark)" by (cases a)
  show ?thesis using Some a good_quiet [OF assms(1) quiet_audit]
    by (simp add: approval_step_def Let_def on_db_def good_complete)
qed

lemma good_body:
  assumes "tame_world w" "good_runs e (snd x)" "si_id i \<noteq> []"
  shows "good_runs e (snd (snd (leaf_body pf w e t i d c x)))"
proof -
  have c: "quiet (snd x) s \<Longrightarrow> good_runs e (snd (complete_step e t i dt rest None (fst x, s)))" for s dt rest
    using good_quiet [OF assms(2)] by (simp add: good_complete)
  have q: "quiet (snd x) s \<Longrightarrow> good_runs e s" for s using good_quiet [OF assms(2)] .
  have "good_runs e (snd (snd (answer_step pf w e t i mode p rest c x)))" for mode p rest
    using quiet_agent [OF assms(1), of "snd x" mode p]
    by (cases "rw_agent w mode p (snd x)") (simp add: answer_step_def Let_def c q split: sum.splits)
  moreover have "good_runs e (snd (snd (tool_step w e t i c x)))"
    using quiet_tool [OF assms(1), of "snd x" "or_else (si_tool i) []" "or_else (si_input i) (Obj [])"]
    by (cases "rw_tool w (or_else (si_tool i) []) (or_else (si_input i) (Obj [])) (snd x)")
       (simp add: tool_step_def Let_def c q split: tool_answer.splits)
  moreover have "good_runs e (snd (snd (security_step pf e t i c x)))"
  proof -
    let ?r = "evaluateInputSecurity pf (mm_uuid t) (mm_now t) \<lparr>sx_user = re_user e, sx_text = cx_message c,
            sx_mode = Operate, sx_source = AuWorkflow, sx_thread = [], sx_trace = []\<rparr> (snd x)"
    have "quiet (snd x) (snd ?r)" by (rule quiet_evaluate)
    then show ?thesis by (cases ?r) (simp add: security_step_def Let_def c q)
  qed
  moreover have "good_runs e (snd (snd (read_step pf w e t i c x)))"
  proof -
    let ?r = "executeScryReadOperation pf (rw_gateway w) (mm_uuid t) (mm_fresh t) (mm_now t) (re_user e)
        (read_operation_of (si_type i)) (Some (run_capture e c)) (snd x)"
    have "quiet (snd x) (snd ?r)" unfolding executeScryReadOperation_def by (rule quiet_call)
    then show ?thesis by (cases ?r) (simp add: read_step_def Let_def c q split: sum.splits)
  qed
  ultimately show ?thesis
    using good_approval [OF assms(2,3)] by (simp add: leaf_body_def split: step_type.splits)
qed

lemma good_leaf:
  assumes "tame_world w" "good_runs e (snd x)" "si_id i \<noteq> []"
  shows "good_runs e (snd (snd (execute_leaf pf w e t i d c x)))"
proof -
  define y where "y = track e t (step_patch RunRunning i ''running'' [(js ''startedAt'', int_num (mm_now t)),
      (js ''retries'', Num (of_nat (or_else (si_retries i) 0)))] None)
      (publishStep (re_run e) i NoticeRunning (Obj [(js ''retries'', Num (of_nat (or_else (si_retries i) 0)))]) x)"
  have "good_runs e (snd y)" unfolding y_def using assms(2) by (intro good_track) simp_all
  then have b: "good_runs e (snd (snd (leaf_body pf w e t i d c y)))" by (rule good_body [OF assms(1) _ assms(3)])
  obtain r z where rz: "leaf_body pf w e t i d c y = (r, z)" by (cases "leaf_body pf w e t i d c y")
  have "execute_leaf pf w e t i d c x = (case r of Broken m \<Rightarrow> (r, fail_step e t i m z) | _ \<Rightarrow> (r, z))"
    using rz by (simp add: execute_leaf_def Let_def y_def)
  moreover have "good_runs e (snd (fail_step e t i m z))" for m
    unfolding fail_step_def using b rz by (intro good_track) simp_all
  ultimately show ?thesis using b rz by (simp split: step_result.split)
qed

lemma on_db_simps [simp]: "fst (on_db f x) = fst x" "snd (on_db f x) = f (snd x)"
  by (simp_all add: on_db_def)

definition completed_patch :: "wf_context \<Rightarrow> run_patch" where
  "completed_patch c = \<lparr>pp_status = Some RunCompleted, pp_output = Some (context_value c), pp_step = [], pp_state = Undef,
     pp_suspended = Some []\<rparr>"

lemma finalize_shape:
  "\<exists>s. snd (snd (finalize pf e t c x)) = s \<and> quiet (snd (track e t (completed_patch c) x)) s"
proof -
  let ?y = "track e t (completed_patch c) (fst x @ [ResultNotice (re_run e) (or_default (cx_text c) finished_text)], snd x)"
  have y: "snd ?y = snd (track e t (completed_patch c) x)" by (simp add: track_def)
  have q: "quiet (snd ?y) s \<Longrightarrow> quiet (snd ?y) (snd (learnMemoryFromWorkflowOutcome pf f n u o' s))" for s f n u o'
    by (rule quiet_trans [OF _ quiet_spares [OF spares_learn_outcome]])
  have u: "quiet (snd ?y) (upsertUIMessage pf f n th m (snd ?y))" for f n th m
    by (rule quiet_spares [OF spares_upsert])
  show ?thesis
    unfolding y [symmetric]
    by (simp add: finalize_def Let_def completed_patch_def [symmetric] q u)
qed

lemma good_final: "good_runs e (snd x) \<Longrightarrow> good_runs e (snd (snd (finalize pf e t c x)))"
proof -
  assume g: "good_runs e (snd x)"
  have "good_runs e (snd (track e t (completed_patch c) x))"
    using g unfolding good_runs_def
    by (simp add: list.pred_map o_def) (auto simp: list_all_iff good_run_def patched_run_def completed_patch_def or_else_def)
  then show ?thesis using finalize_shape [of pf e t c x] good_quiet by blast
qed

lemma good_engine_step:
  assumes "tame_world w" "engine_step pf w e x y" "good_runs e (snd x)"
  shows "good_runs e (snd y)"
  using assms(2,3)
proof (induction rule: engine_step.induct)
  case (mark i x t suffix c)
  then show ?case by (simp add: controlMarker_def Let_def good_track)
next
  case (normalize i x t m v)
  then show ?case
    by (simp add: normalizeControlOutput_def Let_def good_track split: option.splits)
next
  case (leaf i x t d c)
  moreover have "si_id i \<noteq> []" using leaf.hyps by (auto simp: valid_info_def valid_id_def)
  ultimately show ?case by (simp add: good_leaf [OF assms(1)])
next
  case (final x t c)
  then show ?case by (simp add: good_final)
next
  case (elsewhere s s' ns)
  then show ?case by (simp add: good_quiet)
qed

text \<open>
  C25. In whatever order the engine executes the steps of a workflow, with whatever contexts and
  decisions, the row of a run stays consistent: a suspended run names the step it waits for, a
  completed run waits for none, and if a step is named, the audit log holds the request for its
  approval under the trace of the run.
\<close>

theorem run_invariant:
  assumes "tame_world w" "run_reaches pf w e x y" "good_runs e (snd x)"
  shows "good_runs e (snd y)"
  using assms(2,3) by (induction rule: run_reaches.induct) (auto intro: good_engine_step [OF assms(1)])

theorem run_invariant_witness:
  "good_runs demo_env (snd (snd (execute_leaf demo_platform demo_world demo_env demo_moment
     (plain_info (js ''ok'') (js ''ok'') ApprovalStep) None (demo_context ''m'') ([], start_run))))"
proof -
  have "valid_info (plain_info (js ''ok'') (js ''ok'') ApprovalStep)" by code_simp
  from run_reaches.step [OF run_reaches.start engine_step.leaf [OF this]]
  have "run_reaches demo_platform demo_world demo_env ([], start_run) (snd (execute_leaf demo_platform demo_world demo_env
      demo_moment (plain_info (js ''ok'') (js ''ok'') ApprovalStep) None (demo_context ''m'') ([], start_run)))" .
  moreover have "good_runs demo_env (snd ([] :: notice list, start_run))"
    by (simp add: good_runs_def own_def start_run_def createWorkflowRunRecord_def empty_db_def good_run_def)
  ultimately show ?thesis by (rule run_invariant [OF tame_demo])
qed

end
