(* ===== verification/Ssh_Laws.thy ===== *)
theory Ssh_Laws
  imports Ssh_Ops
begin

section \<open>What the execution of commands guarantees\<close>

text \<open>
  The capture of output against its specification, the settling of a command, the audit trail of an
  execution, what the tools may run, and the invariant of the hosts and policies an administrator
  can create.
\<close>

subsection \<open>Capturing output\<close>

text \<open>The bytes of both streams in the order of their arrival, each with its stream.\<close>

definition streamed :: "ssh_signal list \<Rightarrow> (bool \<times> nat) list" where
  "streamed es = concat (map (\<lambda>e. case e of Stdout b \<Rightarrow> map (Pair True) b | Stderr b \<Rightarrow> map (Pair False) b | _ \<Rightarrow> []) es)"

definition bytes_of :: "bool \<Rightarrow> (bool \<times> nat) list \<Rightarrow> nat list" where
  "bytes_of k xs = map snd (filter (\<lambda>p. fst p = k) xs)"

definition captures :: "nat \<Rightarrow> (bool \<times> nat) list \<Rightarrow> capture \<Rightarrow> bool" where
  "captures limit xs c \<longleftrightarrow> cp_stdout c = bytes_of True (take limit xs) \<and> cp_stderr c = bytes_of False (take limit xs)
     \<and> cp_stdout_bytes c = length (bytes_of True xs) \<and> cp_stderr_bytes c = length (bytes_of False xs)
     \<and> (cp_truncated c \<longleftrightarrow> limit < length xs)"

lemma bytes_of_append [simp]: "bytes_of k (xs @ ys) = bytes_of k xs @ bytes_of k ys"
  by (simp add: bytes_of_def)

lemma bytes_of_chunk [simp]: "bytes_of k (map (Pair j) b) = (if k = j then b else [])"
  by (induction b) (auto simp: bytes_of_def)

lemma bytes_of_take: "bytes_of k (take n (map (Pair j) b)) = (if k = j then take n b else [])"
  by (simp add: take_map)

lemma bytes_of_lengths: "length (bytes_of True xs) + length (bytes_of False xs) = length xs"
  by (induction xs) (auto simp: bytes_of_def)

lemma captures_chunk:
  assumes "captures limit xs c" "b \<noteq> []"
  shows "captures limit (xs @ map (Pair k) b) (append_chunk limit k b c)"
proof -
  have n: "length (cp_stdout c) + length (cp_stderr c) = min (length xs) limit"
    using assms(1) bytes_of_lengths [of "take limit xs"] by (simp add: captures_def min.commute)
  show ?thesis
  proof (cases "limit \<le> length xs")
    case True
    then show ?thesis using assms n
      by (cases k) (auto simp: captures_def append_chunk_def Let_def)
  next
    case False
    then show ?thesis using assms n
      by (cases k) (auto simp: captures_def append_chunk_def Let_def bytes_of_take)
  qed
qed

lemma captures_finish: "captures limit xs c \<Longrightarrow> captures limit xs (finish r c)"
  by (simp add: captures_def finish_def split: option.splits)

lemma captures_signal:
  assumes "captures limit (streamed es) c" "e \<noteq> Stdout []" "e \<noteq> Stderr []"
  shows "captures limit (streamed (es @ [e])) (on_signal limit seconds e c)"
  using assms captures_chunk [of limit "streamed es" c] captures_finish [of limit "streamed es" c]
  by (cases e) (simp_all add: streamed_def on_signal_def)

lemma captures_all:
  assumes "list_all (\<lambda>e. e \<noteq> Stdout [] \<and> e \<noteq> Stderr []) es"
  shows "captures limit (streamed es) (fold (on_signal limit seconds) es no_capture)"
  using assms
proof (induction es rule: rev_induct)
  case Nil
  then show ?case by (simp add: captures_def streamed_def no_capture_def bytes_of_def)
next
  case (snoc e es)
  then show ?case by (simp add: captures_signal)
qed

subsection \<open>Settling\<close>

fun settles :: "ssh_signal \<Rightarrow> bool" where
  "settles (Stdout b) = False"
| "settles (Stderr b) = False"
| "settles e = True"

lemma settled_stays: "cp_settled c = Some r \<Longrightarrow> cp_settled (fold (on_signal limit seconds) es c) = Some r"
proof (induction es arbitrary: c)
  case (Cons e es)
  have "cp_settled (on_signal limit seconds e c) = Some r"
    using Cons.prems by (cases e) (simp_all add: on_signal_def finish_def append_chunk_def Let_def)
  then show ?case using Cons.IH by simp
qed simp

lemma unsettled_data: "list_all (\<lambda>e. \<not> settles e) es \<Longrightarrow> cp_settled c = None \<Longrightarrow>
    cp_settled (fold (on_signal limit seconds) es c) = None"
proof (induction es arbitrary: c)
  case (Cons e es)
  then have "cp_settled (on_signal limit seconds e c) = None"
    by (cases e) (simp_all add: on_signal_def append_chunk_def Let_def)
  then show ?case using Cons by simp
qed simp

lemma settled_at:
  assumes "list_all (\<lambda>e. \<not> settles e) es"
  shows "cp_settled (fold (on_signal limit seconds) (es @ e # rest) no_capture) =
    cp_settled (on_signal limit seconds e (fold (on_signal limit seconds) es no_capture)) \<or> \<not> settles e"
proof (cases "settles e")
  case True
  let ?c = "fold (on_signal limit seconds) es no_capture"
  have "cp_settled ?c = None" by (rule unsettled_data [OF assms]) (simp add: no_capture_def)
  then obtain r where "cp_settled (on_signal limit seconds e ?c) = Some r"
    using True by (cases e) (simp_all add: on_signal_def finish_def)
  then show ?thesis using settled_stays by (simp del: fold_append) simp
qed simp


definition demo_network :: "ssh_signal list \<Rightarrow> ssh_network" where
  [js_eval]: "demo_network es = \<lparr>nw_key = (\<lambda>_. [1]), nw_signals = (\<lambda>_ _. es), nw_rejected = js ''key'', nw_digest = (\<lambda>_. js ''abc=''),
     nw_decode = id, nw_elapsed = 3\<rparr>"

definition pinned_host :: ssh_host where
  [js_eval]: "pinned_host = (demo_host ''scry-ops'' False)\<lparr>sh_auth := PrivateKey, sh_fingerprint := js ''SHA256:abc'', sh_private_key := js ''k''\<rparr>"


subsection \<open>Audited execution\<close>

text \<open>What stands behind a command that reaches a host.\<close>

definition gate_refuses :: "ssh_host \<Rightarrow> jsstr \<Rightarrow> bool" where
  "gate_refuses h line \<longleftrightarrow> is_root_login (sh_username h) \<or> cr_decision (analyzeCommandRisk line) = Deny"

lemma gate_decision:
  "dr_decision (fst (authorizeSSHExecution pf uuid now q s)) = Deny \<longleftrightarrow> gate_refuses (rq_host q) (rq_command q)"
  by (simp add: authorizeSSHExecution_def Let_def gate_refuses_def)

lemma gate_events:
  "\<exists>a b. security_events (snd (authorizeSSHExecution pf uuid now q s)) = security_events s @ [a, b]
     \<and> (se_type b = js ''policy.denied'' \<longleftrightarrow> gate_refuses (rq_host q) (rq_command q)) \<and> se_type a = js ''command.risk_evaluated''"
  by (simp add: authorizeSSHExecution_def Let_def ssh_event_def gate_refuses_def)

lemma gate_frame: "ssh_audits (snd (authorizeSSHExecution pf uuid now q s)) = ssh_audits s"
  using spares_authorize [of s pf uuid now q] by (simp add: spares_def control_part_def)

lemma audits_spared: "spares s s' \<Longrightarrow> ssh_audits s' = ssh_audits s"
  by (simp add: spares_def control_part_def)

definition succeeded :: "jsstr + ssh_result \<Rightarrow> bool" where
  "succeeded r = (case r of Inl _ \<Rightarrow> False | Inr x \<Rightarrow> xr_exit x = Some 0)"

lemma authorized_run:
  "\<exists>a c d es. fst (run_authorized pf n fresh now q h r s) = executeSSHCommand n h (xc_text q) (xc_seconds q) 200000
     \<and> ssh_audits (snd (run_authorized pf n fresh now q h r s)) = ssh_audits s @ [a]
     \<and> sa_success a = succeeded (executeSSHCommand n h (xc_text q) (xc_seconds q) 200000)
     \<and> sa_host a = sh_id h \<and> sa_command a = xc_command_id q \<and> sa_user a = user_id (xc_user q)
     \<and> security_events (snd (run_authorized pf n fresh now q h r s)) = security_events s @ [c, d] @ es
     \<and> se_type c = js ''tool.execution.started''
     \<and> se_type d = js (if succeeded (executeSSHCommand n h (xc_text q) (xc_seconds q) 200000)
         then ''tool.execution.completed'' else ''tool.execution.failed'')"
proof (cases "executeSSHCommand n h (xc_text q) (xc_seconds q) 200000")
  case (Inl m)
  then show ?thesis
    by (simp add: run_authorized_def Let_def addSSHAudit_def error_audit_def tool_event_def succeeded_def)
next
  case (Inr x)
  define t where "t = addSecurityAuditEvent (tool_event q h r now
      (if xr_exit x = Some 0 then ''tool.execution.completed'' else ''tool.execution.failed'') (if xr_exit x = Some 0 then Allow else Deny)
      [(js ''exitCode'', exit_value (xr_exit x)), (js ''durationMs'', Num (of_int (xr_duration x))),
       (js ''stdoutBytes'', Num (of_nat (xr_stdout_bytes x))), (js ''stderrBytes'', Num (of_nat (xr_stderr_bytes x)))])
      (addSSHAudit (result_audit q h now x)
        (addSecurityAuditEvent (tool_event q h r now ''tool.execution.started'' (dr_decision r) []) s))"
  define u where "u = (case xc_context q of None \<Rightarrow> t | Some c \<Rightarrow> snd (recordEvidence pf fresh now (xc_user q) (ssh_evidence q h x c) t))"
  have run: "run_authorized pf n fresh now q h r s = (Inr x, u)"
    unfolding t_def u_def by (cases "xc_context q") (simp_all add: run_authorized_def Inr Let_def)
  have "spares t u" by (simp add: u_def spares_record split: option.splits)
  then obtain es where es: "security_events u = security_events t @ es" "ssh_audits u = ssh_audits t"
    using audits_spared [of t u] by (auto simp: spares_def)
  have t: "ssh_audits t = ssh_audits s @ [result_audit q h now x]"
    "\<exists>c d. security_events t = security_events s @ [c, d] \<and> se_type c = js ''tool.execution.started''
       \<and> se_type d = js (if xr_exit x = Some 0 then ''tool.execution.completed'' else ''tool.execution.failed'')"
    by (simp_all add: t_def addSSHAudit_def tool_event_def)
  then obtain c d where "security_events t = security_events s @ [c, d]" "se_type c = js ''tool.execution.started''"
    "se_type d = js (if xr_exit x = Some 0 then ''tool.execution.completed'' else ''tool.execution.failed'')" by blast
  with es t(1) show ?thesis unfolding run Inr
    by (intro exI [of _ "result_audit q h now x"] exI [of _ c] exI [of _ d] exI [of _ es])
       (simp add: result_audit_def succeeded_def)
qed

text \<open>
  C27. The audited execution of a command. A missing or disabled host gives an error and changes nothing.
  If the gate refuses the command, because of the login or of the screens of commands, nothing reaches
  the host: the audit log of commands stays as it was, and two security events end in the denial.
  Otherwise the command runs on that host, exactly one row is added to the audit log of commands, it
  says success exactly if the exit code is zero, and the security log goes on with the two events of
  the gate, the start, and the completion or the failure.
\<close>

theorem audited_execution:
  fixes pf n uuid fresh now q s
  defines "r \<equiv> auditedExecution pf n uuid fresh now q s"
  shows "case getSSHHostWithSecret now (xc_host q) (user_org (xc_user q)) s of
      None \<Rightarrow> r = (Inl host_missing, s)
    | Some h \<Rightarrow>
        if \<not> sh_enabled h then r = (Inl host_missing, s)
        else if gate_refuses h (xc_text q) then (\<exists>m. fst r = Inl m) \<and> ssh_audits (snd r) = ssh_audits s
          \<and> (\<exists>a b. security_events (snd r) = security_events s @ [a, b] \<and> se_type b = js ''policy.denied'')
        else fst r = executeSSHCommand n h (xc_text q) (xc_seconds q) 200000
          \<and> (\<exists>a. ssh_audits (snd r) = ssh_audits s @ [a] \<and> sa_success a = succeeded (fst r)
               \<and> sa_host a = sh_id h \<and> sa_command a = xc_command_id q \<and> sa_user a = user_id (xc_user q))
          \<and> (\<exists>a b c d es. security_events (snd r) = security_events s @ [a, b, c, d] @ es
               \<and> se_type a = js ''command.risk_evaluated'' \<and> se_type b \<noteq> js ''policy.denied''
               \<and> se_type c = js ''tool.execution.started''
               \<and> se_type d = js (if succeeded (fst r) then ''tool.execution.completed'' else ''tool.execution.failed''))"
proof (cases "getSSHHostWithSecret now (xc_host q) (user_org (xc_user q)) s")
  case None
  then show ?thesis by (simp add: r_def auditedExecution_def)
next
  case (Some h)
  obtain d t where g: "authorizeSSHExecution pf uuid now (gate_request q h) s = (d, t)"
    by (cases "authorizeSSHExecution pf uuid now (gate_request q h) s")
  have rq: "rq_host (gate_request q h) = h" "rq_command (gate_request q h) = xc_text q" by (simp_all add: gate_request_def)
  have dec: "dr_decision d = Deny \<longleftrightarrow> gate_refuses h (xc_text q)"
    using gate_decision [of pf uuid now "gate_request q h" s] by (simp add: g rq)
  obtain a b where ev: "security_events t = security_events s @ [a, b]" "se_type b = js ''policy.denied'' \<longleftrightarrow> gate_refuses h (xc_text q)"
    "se_type a = js ''command.risk_evaluated''"
    using gate_events [of pf uuid now "gate_request q h" s] by (auto simp: g rq)
  have au: "ssh_audits t = ssh_audits s" using gate_frame [of pf uuid now "gate_request q h" s] by (simp add: g)
  have r: "r = (if \<not> sh_enabled h then (Inl host_missing, s)
      else if dr_decision d = Deny then (Inl ([23433, 20840, 31574, 30053, 25298, 32477, 25191, 34892, 65306] @ str_join [65307] (dr_reasons d)), t)
      else run_authorized pf n fresh now q h d t)"
    by (simp add: r_def auditedExecution_def Some g)
  consider "\<not> sh_enabled h" | "sh_enabled h" "gate_refuses h (xc_text q)" | "sh_enabled h" "\<not> gate_refuses h (xc_text q)" by blast
  then show ?thesis
  proof cases
    case 3
    then have run: "r = run_authorized pf n fresh now q h d t" by (simp add: r dec)
    obtain row c e es where x: "fst r = executeSSHCommand n h (xc_text q) (xc_seconds q) 200000"
        "ssh_audits (snd r) = ssh_audits s @ [row]" "sa_success row = succeeded (fst r)" "sa_host row = sh_id h"
        "sa_command row = xc_command_id q" "sa_user row = user_id (xc_user q)"
        "security_events (snd r) = security_events s @ [a, b, c, e] @ es" "se_type c = js ''tool.execution.started''"
        "se_type e = js (if succeeded (fst r) then ''tool.execution.completed'' else ''tool.execution.failed'')"
      using authorized_run [of pf n fresh now q h d t] unfolding run au ev(1) by auto
    have "se_type b \<noteq> js ''policy.denied''" using ev(2) 3 by simp
    then have "\<exists>a b c d es. security_events (snd r) = security_events s @ [a, b, c, d] @ es
        \<and> se_type a = js ''command.risk_evaluated'' \<and> se_type b \<noteq> js ''policy.denied'' \<and> se_type c = js ''tool.execution.started''
        \<and> se_type d = js (if succeeded (fst r) then ''tool.execution.completed'' else ''tool.execution.failed'')"
      using x(7-9) ev(3) by blast
    moreover have "\<exists>row. ssh_audits (snd r) = ssh_audits s @ [row] \<and> sa_success row = succeeded (fst r)
        \<and> sa_host row = sh_id h \<and> sa_command row = xc_command_id q \<and> sa_user row = user_id (xc_user q)"
      using x(2-6) by blast
    ultimately show ?thesis using x(1) 3 by (simp only: Some option.case if_not_P not_not simp_thms if_False)
  qed (use ev au in \<open>simp_all add: Some r dec\<close>)
qed

subsection \<open>What the tools may run\<close>

lemma audited_needs:
  assumes "ssh_audits (snd (auditedExecution pf n uuid fresh now q s)) \<noteq> ssh_audits s"
  shows "\<exists>h. getSSHHostWithSecret now (xc_host q) (user_org (xc_user q)) s = Some h \<and> sh_enabled h \<and> \<not> gate_refuses h (xc_text q)"
proof (cases "getSSHHostWithSecret now (xc_host q) (user_org (xc_user q)) s")
  case None
  then show ?thesis using assms by (simp add: auditedExecution_def)
next
  case (Some h)
  have "rq_host (gate_request q h) = h" "rq_command (gate_request q h) = xc_text q" by (simp_all add: gate_request_def)
  then show ?thesis
    using assms Some gate_decision [of pf uuid now "gate_request q h" s] gate_frame [of pf uuid now "gate_request q h" s]
    by (cases "authorizeSSHExecution pf uuid now (gate_request q h) s")
       (auto simp: auditedExecution_def split: if_splits)
qed

definition may_run :: "int \<Rightarrow> auth_user \<Rightarrow> jsstr \<Rightarrow> jsstr \<Rightarrow> agent_db \<Rightarrow> bool" where
  "may_run now u host line s \<longleftrightarrow> (\<exists>h. getSSHHostWithSecret now host (user_org u) s = Some h \<and> sh_enabled h \<and> \<not> gate_refuses h line)"

text \<open>
  C28. The two tools that reach a host. If the built-in inspection leaves a trace in the audit log of
  commands, then the identifier is one of the seven built-in commands, and either the host is the
  simulated one or the administrator has enabled the tool and this identifier. If the configured
  command does, then its line is the stored one of that identifier and the tool is enabled, or the host
  is the simulated one and the line one of its three. In both cases the host exists and is enabled and
  the gate accepts the line for it; an agent never chooses the text of a command.
\<close>

theorem tools_need_authorization:
  fixes pf n uuid fresh now u x host command s
  defines "r \<equiv> readonlyInspect pf n uuid fresh now u x host command s"
    and "e \<equiv> executeConfiguredCommand pf n uuid fresh now u x host command s"
  shows "(if ssh_audits (snd r) = ssh_audits s then True
      else \<exists>p line. getSSHToolPolicy ReadonlyInspect s = Some p \<and> map_of SSH_READONLY_COMMANDS command = Some line
        \<and> (if isSimulatedSSHHost now host (user_org u) s then True else sp_enabled p \<and> command \<in> set (sp_command_ids p))
        \<and> may_run now u host line s)
    \<and> (if ssh_audits (snd e) = ssh_audits s then True
      else \<exists>p d. getSSHToolPolicy ExecuteCommand s = Some p
        \<and> d \<in> set (if isSimulatedSSHHost now host (user_org u) s then SIMULATED_SSH_COMMANDS else sp_commands p) \<and> sc_id d = command
        \<and> (if isSimulatedSSHHost now host (user_org u) s then True else sp_enabled p) \<and> may_run now u host (sc_command d) s)"
proof -
  have "ssh_audits (snd r) \<noteq> ssh_audits s \<Longrightarrow> \<exists>p line. getSSHToolPolicy ReadonlyInspect s = Some p
      \<and> map_of SSH_READONLY_COMMANDS command = Some line
      \<and> (if isSimulatedSSHHost now host (user_org u) s then True else sp_enabled p \<and> command \<in> set (sp_command_ids p))
      \<and> may_run now u host line s"
    unfolding r_def readonlyInspect_def Let_def
    by (auto split: option.splits if_splits simp: may_run_def dest!: audited_needs)
  moreover have "ssh_audits (snd e) \<noteq> ssh_audits s \<Longrightarrow> \<exists>p d. getSSHToolPolicy ExecuteCommand s = Some p
      \<and> d \<in> set (if isSimulatedSSHHost now host (user_org u) s then SIMULATED_SSH_COMMANDS else sp_commands p) \<and> sc_id d = command
      \<and> (if isSimulatedSSHHost now host (user_org u) s then True else sp_enabled p) \<and> may_run now u host (sc_command d) s"
    unfolding e_def executeConfiguredCommand_def Let_def
    by (auto split: option.splits if_splits simp: may_run_def dest!: audited_needs head_option_filterD)
  ultimately show ?thesis by presburger
qed

subsection \<open>The hosts and policies of an administrator\<close>

definition managed_host :: "ssh_host \<Rightarrow> bool" where
  "managed_host h \<longleftrightarrow> validateManagedUsername (sh_username h) \<and> sh_auth h = PrivateKey \<and> sh_private_key h \<noteq> []"

definition managed_policy :: "ssh_policy \<Rightarrow> bool" where
  "managed_policy p \<longleftrightarrow> list_all valid_ssh_command (sp_commands p) \<and> (sp_tool p = ExecuteCommand \<longrightarrow> sp_approval p)"

definition managed :: "agent_db \<Rightarrow> bool" where
  "managed s \<longleftrightarrow> list_all managed_host (ssh_hosts s) \<and> list_all managed_policy (tool_policies s)"

datatype ssh_edit =
    AddHost jsstr int host_form | ChangeHost jsstr int host_form | DropHost jsstr | SetPolicy int ssh_tool ssh_policy
  | SwitchSimulation int jsstr bool | StartService int

fun apply_ssh_edit :: "ssh_edit \<Rightarrow> agent_db \<Rightarrow> agent_db" where
  "apply_ssh_edit (AddHost i now f) s = snd (createSSHHost i now f s)"
| "apply_ssh_edit (ChangeHost i now f) s = snd (updateSSHHost now i f s)"
| "apply_ssh_edit (DropHost i) s = deleteSSHHost i s"
| "apply_ssh_edit (SetPolicy now tool p) s = snd (put_policy now tool p s)"
| "apply_ssh_edit (SwitchSimulation now org b) s = snd (updateDebugSimulationSettings now org b s)"
| "apply_ssh_edit (StartService now) s = initializeDatabase now s"

fun valid_ssh_edit :: "ssh_edit \<Rightarrow> bool" where
  "valid_ssh_edit (SetPolicy now tool p) = valid_ssh_policy p"
| "valid_ssh_edit _ = True"

lemma initialized_ssh:
  "ssh_hosts (initializeDatabase now s) = ssh_hosts s"
  "tool_policies (initializeDatabase now s) = insert_or_ignore (\<lambda>a b. sp_tool a = sp_tool b) (seed_policy now ExecuteCommand)
     (insert_or_ignore (\<lambda>a b. sp_tool a = sp_tool b) (seed_policy now ReadonlyInspect) (tool_policies s))"
proof -
  have "ssh_hosts (fold add_seed ws t) = ssh_hosts t" "tool_policies (fold add_seed ws t) = tool_policies t" for ws t
    by (induction ws arbitrary: t) (simp_all add: add_seed_def)
  then show "ssh_hosts (initializeDatabase now s) = ssh_hosts s"
    "tool_policies (initializeDatabase now s) = insert_or_ignore (\<lambda>a b. sp_tool a = sp_tool b) (seed_policy now ExecuteCommand)
       (insert_or_ignore (\<lambda>a b. sp_tool a = sp_tool b) (seed_policy now ReadonlyInspect) (tool_policies s))"
    by (simp_all add: initializeDatabase_def Let_def)
qed

lemma managed_seed: "managed_policy (seed_policy now tool)"
  by (simp add: managed_policy_def seed_policy_def)

lemma managed_edit:
  assumes "managed s" "valid_ssh_edit x"
  shows "managed (apply_ssh_edit x s)"
proof (cases x)
  case (AddHost i now f)
  then show ?thesis using assms
    by (simp add: managed_def createSSHHost_def Let_def managed_host_def host_of_form_def)
next
  case (ChangeHost i now f)
  then show ?thesis using assms
    by (auto simp: managed_def updateSSHHost_def Let_def managed_host_def host_of_form_def split: option.splits
        intro!: list_all_update_where)
next
  case (SetPolicy now tool p)
  then have "list_all valid_ssh_command (sp_commands p)" using assms(2) by (simp add: valid_ssh_policy_def)
  then show ?thesis using assms(1) SetPolicy
    by (auto simp: managed_def put_policy_def updateSSHToolPolicy_def Let_def managed_policy_def split: option.splits
        intro!: list_all_update_where)
qed (use assms in \<open>simp_all add: managed_def deleteSSHHost_def list_all_delete_where updateDebugSimulationSettings_def
    Let_def initialized_ssh list_all_insert_or_ignore managed_seed\<close>)

lemma managed_login: "validateManagedUsername name \<Longrightarrow> \<not> is_root_login name"
proof
  assume m: "validateManagedUsername name" "is_root_login name"
  have "to_lower (js ''0'') \<noteq> js ''scry-ops''" "js ''root'' \<noteq> js ''scry-ops''" by code_simp+
  then show False using m by (auto simp: validateManagedUsername_def is_root_login_def)
qed

lemma readonly_accepted: "list_all (\<lambda>c. cr_decision (analyzeCommandRisk (snd c)) \<noteq> Deny) SSH_READONLY_COMMANDS"
  unfolding SSH_READONLY_COMMANDS_def list.map prod.case list.pred_inject snd_conv
  by (intro conjI TrueI; code_simp)

text \<open>
  C29. Whatever an administrator does to hosts, policies and the debug mode, every stored host has the
  login of the least privileged account and a private key, the tool for configured commands always asks
  for an approval, and the gate accepts every built-in and every configured command on every stored
  host, so a command that could be saved is not refused when it runs.
\<close>

theorem managed_hosts:
  assumes "list_all valid_ssh_edit edits"
  defines "s \<equiv> fold apply_ssh_edit edits empty_db"
  shows "list_all managed_host (ssh_hosts s) \<and> list_all managed_policy (tool_policies s)
    \<and> list_all (\<lambda>h. list_all (\<lambda>line. \<not> gate_refuses h line)
          (map snd SSH_READONLY_COMMANDS @ concat (map (\<lambda>p. map sc_command (sp_commands p)) (tool_policies s)))) (ssh_hosts s)"
proof -
  have "managed t \<Longrightarrow> managed (fold apply_ssh_edit edits t)" for t
    using assms(1) by (induction edits arbitrary: t) (simp_all add: managed_edit)
  then have m: "managed s" unfolding s_def by (simp add: managed_def empty_db_def)
  have "\<not> gate_refuses h line" if "h \<in> set (ssh_hosts s)" "cr_decision (analyzeCommandRisk line) \<noteq> Deny" for h line
    using m that managed_login by (auto simp: managed_def list_all_iff managed_host_def gate_refuses_def)
  moreover have "cr_decision (analyzeCommandRisk (sc_command c)) \<noteq> Deny" if "p \<in> set (tool_policies s)" "c \<in> set (sp_commands p)" for p c
  proof -
    have "valid_ssh_command c" using m that by (auto simp: managed_def list_all_iff managed_policy_def)
    then show ?thesis by (simp add: valid_ssh_command_def Let_def)
  qed
  ultimately show ?thesis
    using m readonly_accepted by (auto simp: managed_def list_all_iff)
qed

definition demo_host_form :: host_form where
  [js_eval]: "demo_host_form = \<lparr>hf_name = js ''n'', hf_hostname = js ''10.0.0.1'', hf_port = 22, hf_username = js ''scry-ops'',
     hf_auth = PrivateKey, hf_fingerprint = js ''SHA256:abcdefghijklmnop'', hf_enabled = True, hf_private_key = js ''k'', hf_passphrase = []\<rparr>"

definition demo_policy :: ssh_policy where
  [js_eval]: "demo_policy = (seed_policy 1 ExecuteCommand)\<lparr>sp_enabled := True, sp_commands := [\<lparr>sc_id = js ''d'', sc_name = js ''disk'',
     sc_description = [], sc_command = js ''/opt/scry-ops/bin/scry-disk-usage''\<rparr>]\<rparr>"

theorem managed_hosts_witness:
  "list_all managed_host (ssh_hosts (fold apply_ssh_edit [StartService 1, AddHost (js ''h'') 2 demo_host_form,
     SetPolicy 3 ExecuteCommand (demo_policy\<lparr>sp_command_ids := []\<rparr>)] empty_db))
   \<and> length (ssh_hosts (fold apply_ssh_edit [StartService 1, AddHost (js ''h'') 2 demo_host_form] empty_db)) = 1"
proof -
  have "valid_ssh_policy (demo_policy\<lparr>sp_command_ids := []\<rparr>)" by code_simp
  then have "list_all valid_ssh_edit [StartService 1, AddHost (js ''h'') 2 demo_host_form,
      SetPolicy 3 ExecuteCommand (demo_policy\<lparr>sp_command_ids := []\<rparr>)]" by simp
  from managed_hosts [OF this] have "list_all managed_host (ssh_hosts (fold apply_ssh_edit [StartService 1,
      AddHost (js ''h'') 2 demo_host_form, SetPolicy 3 ExecuteCommand (demo_policy\<lparr>sp_command_ids := []\<rparr>)] empty_db))" by blast
  moreover have "length (ssh_hosts (fold apply_ssh_edit [StartService 1, AddHost (js ''h'') 2 demo_host_form] empty_db)) = 1"
    by (simp add: createSSHHost_def Let_def initialized_ssh empty_db_def demo_host_form_def validateManagedUsername_def) code_simp
  ultimately show ?thesis by blast
qed

end
