(* ===== verification/Agent_Laws.thy ===== *)
theory Agent_Laws
  imports Agent_Tools Run_Laws Ssh_Laws Memory_Laws Evidence_Laws
begin

section \<open>What the tools of an agent keep\<close>

text \<open>
  Whatever an agent does, it does through its tools. The lemmas show what no sequence of tool calls can
  change, so that the runs of workflows may take agents as given, that the tools stay within the
  organisation of their user, and what \<open>remember\<close> asks of its evidence.
\<close>

subsection \<open>Supervision\<close>

text \<open>
  The configuration (hosts, policies, workflows, runs, servers, settings) stays as it was, and the two
  audit logs only grow.
\<close>

definition configuration where
  "configuration s = (ssh_hosts s, tool_policies s, simulation_settings s, workflows s, workflow_runs s, mcp_servers s, model_settings s)"

definition supervised :: "agent_db \<Rightarrow> agent_db \<Rightarrow> bool" where
  "supervised s s' \<longleftrightarrow> configuration s' = configuration s
     \<and> take (length (ssh_audits s)) (ssh_audits s') = ssh_audits s
     \<and> take (length (security_events s)) (security_events s') = security_events s"

lemma supervised_refl [simp]: "supervised s s"
  by (simp add: supervised_def)

lemma prefix_trans: "take (length xs) ys = xs \<Longrightarrow> take (length ys) zs = ys \<Longrightarrow> take (length xs) zs = xs"
  by (metis take_all_iff take_take min.absorb1 nat_le_linear length_take)

lemma supervised_trans: "supervised s s' \<Longrightarrow> supervised s' s'' \<Longrightarrow> supervised s s''"
  unfolding supervised_def by (metis prefix_trans)

lemma supervised_spares: "spares s s' \<Longrightarrow> supervised s s'"
  by (auto simp: spares_def supervised_def control_part_def configuration_def)

lemma supervised_quiet: "supervised s s' \<Longrightarrow> quiet s s'"
  by (auto simp: supervised_def quiet_def configuration_def) (metis append_take_drop_id)

lemma supervised_audit: "supervised s (addSSHAudit a s)"
  by (simp add: supervised_def addSSHAudit_def configuration_def)

lemma supervised_run: "supervised s (snd (run_authorized pf n fresh now q h r s))"
proof -
  have b: "supervised s (addSecurityAuditEvent e' (addSSHAudit a (addSecurityAuditEvent e s)))" for e e' a
    by (rule supervised_trans [OF supervised_spares [OF spares_audit]
          supervised_trans [OF supervised_audit supervised_spares [OF spares_audit]]])
  have "supervised s (snd (recordEvidence pf fresh now u i (addSecurityAuditEvent e' (addSSHAudit a (addSecurityAuditEvent e s)))))"
    for e e' a u i by (rule supervised_trans [OF b supervised_spares [OF spares_record]])
  with b show ?thesis by (simp add: run_authorized_def Let_def split: sum.splits option.splits)
qed

lemma supervised_execution: "supervised s (snd (auditedExecution pf n uuid fresh now q s))"
  using supervised_trans [OF supervised_spares [OF spares_authorize] supervised_run]
    supervised_spares [OF spares_authorize]
  by (auto simp: auditedExecution_def split: option.splits prod.splits if_splits) (metis snd_conv)+

lemma supervised_hosts:
  "supervised s (snd (readonlyInspect pf n uuid fresh now u x host command s))"
  "supervised s (snd (executeConfiguredCommand pf n uuid fresh now u x host command s))"
  by (auto simp: readonlyInspect_def executeConfiguredCommand_def Let_def supervised_execution split: option.splits if_splits)

lemma supervised_memory:
  "supervised s (snd (retrieveMemories pf run started now u question x limit inactive s))"
  "supervised s (snd (getMemory pf now i u x s))"
  "supervised s (snd (createMemory pf fresh now u n s))"
  "supervised s (snd (forgetMemory pf now i u s))"
  "supervised s (snd (maintainMemories pf fresh now u limit s))"
  by (rule supervised_spares; simp add: spares_outer spares_steps)+

lemmas supervised_steps = supervised_hosts supervised_memory
  spares_call [THEN supervised_spares] spares_evaluate [THEN supervised_spares]

lemma supervised_tool: "supervised s (snd (run_tool pf e t c s))"
proof (cases c)
  case (Remember f)
  then show ?thesis
    using supervised_memory(3) [of s pf "mm_fresh t" "mm_now t" "tv_user e"]
    by (simp add: remember_def Let_def case_prod_unfold)
qed (simp_all add: read_tool_def executeScryReadOperation_def querySignals_def evaluateSecurityIntent_def searchMemory_def
    inspectMemory_def forgetMemoryTool_def Let_def case_prod_unfold supervised_steps split: sum.splits)

definition run_tools :: "platform \<Rightarrow> tool_env \<Rightarrow> (moment \<times> tool_call) list \<Rightarrow> agent_db \<Rightarrow> agent_db" where
  [js_eval]: "run_tools pf e calls s = fold (\<lambda>(t, c) s. snd (run_tool pf e t c s)) calls s"

lemma run_tools_simps [simp]:
  "run_tools pf e [] s = s"
  "run_tools pf e ((t, c) # calls) s = run_tools pf e calls (snd (run_tool pf e t c s))"
  by (simp_all add: run_tools_def)

lemma supervised_tools: "supervised s (run_tools pf e calls s)"
proof (induction calls arbitrary: s)
  case (Cons x calls)
  show ?case using supervised_trans [OF supervised_tool Cons.IH] by (cases x) simp
qed simp

text \<open>
  Agents that act through the tools: an agent chooses a sequence of calls and an answer from its mode,
  its prompt and what it sees.
\<close>

definition agent_world :: "platform \<Rightarrow> tool_env \<Rightarrow> gateway \<Rightarrow>
    (agent_mode \<Rightarrow> jsstr \<Rightarrow> agent_db \<Rightarrow> (jsstr + jsstr) \<times> (moment \<times> tool_call) list) \<Rightarrow>
    (jsstr \<Rightarrow> jsval \<Rightarrow> agent_db \<Rightarrow> tool_answer \<times> (moment \<times> tool_call) list) \<Rightarrow> run_world" where
  [js_eval]: "agent_world pf e g think use =
     \<lparr>rw_agent = (\<lambda>mode prompt s. map_prod id (\<lambda>calls. run_tools pf e calls s) (think mode prompt s)),
      rw_tool = (\<lambda>tool v s. map_prod id (\<lambda>calls. run_tools pf e calls s) (use tool v s)), rw_gateway = g\<rparr>"

text \<open>
  C30. Whatever sequence of tools an agent calls, with whatever inputs, hosts, policies, the simulation
  mode, workflows, runs, MCP servers and model settings stay as they were, and the two audit logs only
  grow. So every world whose agents and tools act through these tools is one the theorems on runs of
  workflows speak about.
\<close>

theorem tools_are_supervised:
  "supervised s (run_tools pf e calls s) \<and> tame_world (agent_world pf e g think use)"
  using supervised_quiet [OF supervised_tools] supervised_tools
  by (simp add: tame_world_def agent_world_def)

subsection \<open>Isolation\<close>

text \<open>Memories do not touch evidence, and capturing evidence does not touch memories.\<close>

lemma evidence_part_memory [simp]:
  "evidence_part (s\<lparr>topology_edges := a\<rparr>) = evidence_part s"
  "evidence_part (s\<lparr>retrieval_runs := b\<rparr>) = evidence_part s"
  by (simp_all add: evidence_part_def)

lemma evidence_part_hydrate [simp]: "evidence_part (snd (hydrateMemories pf now ms s)) = evidence_part s"
  by (simp add: hydrateMemories_def Let_def case_prod_unfold)

lemma evidence_part_list [simp]: "evidence_part (snd (listMemories pf now q u s)) = evidence_part s"
  by (simp add: listMemories_def)

lemma evidence_part_forget [simp]: "evidence_part (snd (forgetMemory pf now i u s)) = evidence_part s"
proof -
  obtain found t where g: "getMemory pf now i u no_context s = (found, t)" by (cases "getMemory pf now i u no_context s")
  then have t: "evidence_part t = evidence_part s" using evidence_part_getMemory [of pf now i u no_context s] by simp
  show ?thesis by (simp add: forgetMemory_def g Let_def case_prod_unfold t split: option.splits)
qed

lemma evidence_part_retrieve [simp]:
  "evidence_part (snd (retrieveMemories pf run started now u question x limit inactive s)) = evidence_part s"
  by (simp add: retrieveMemories_def observeTopology_def Let_def case_prod_unfold)

lemma evidence_part_update [simp]: "evidence_part (update_memory m f s) = evidence_part s"
  by (simp add: update_memory_def)

lemma evidence_part_age [simp]: "evidence_part (snd (age_memory pf now u m x)) = evidence_part (snd x)"
  by (simp add: age_memory_def Let_def case_prod_unfold)

lemma evidence_part_pair [simp]: "evidence_part (snd (compare_pair pf i now u p x)) = evidence_part (snd x)"
  by (simp add: compare_pair_def merge_memories_def mark_conflict_def Let_def case_prod_unfold)

lemma evidence_part_fold: "(\<And>a y. evidence_part (snd (f a y)) = evidence_part (snd y)) \<Longrightarrow> evidence_part (snd (fold f xs y)) = evidence_part (snd y)"
  by (induction xs arbitrary: y) simp_all

lemma evidence_part_maintain [simp]: "evidence_part (snd (maintainMemories pf fresh now u limit s)) = evidence_part s"
proof -
  have "evidence_part (snd (fold (age_memory pf now u) ms x)) = evidence_part (snd x)" for ms x
    by (rule evidence_part_fold) simp
  moreover have "evidence_part (snd (fold (\<lambda>(k, p). compare_pair pf (fresh (Suc k)) now u p) ps x)) = evidence_part (snd x)" for ps x
    by (rule evidence_part_fold) (simp add: case_prod_unfold)
  ultimately show ?thesis unfolding maintainMemories_def Let_def case_prod_unfold snd_conv by simp
qed

lemma record_memories [simp]: "memory_items (snd (recordEvidence pf fresh now u i s)) = memory_items s"
  by (simp add: recordEvidence_def Let_def createRelations_def addEvidenceAction_def split: option.splits)

definition isolated :: "platform \<Rightarrow> auth_user \<Rightarrow> agent_db \<Rightarrow> agent_db \<Rightarrow> bool" where
  "isolated pf u s s' \<longleftrightarrow> good_store s' \<and> good_ledger pf s'
     \<and> foreign_memories (user_org u) s' = foreign_memories (user_org u) s
     \<and> other_evidence (user_org u) s' = other_evidence (user_org u) s"

lemma isolated_trans: "isolated pf u s s' \<Longrightarrow> isolated pf u s' s'' \<Longrightarrow> isolated pf u s s''"
  by (simp add: isolated_def)

lemma isolated_same:
  "good_store s \<Longrightarrow> good_ledger pf s \<Longrightarrow> memory_items s' = memory_items s \<Longrightarrow> evidence_part s' = evidence_part s \<Longrightarrow> isolated pf u s s'"
  by (simp add: isolated_def good_store_def good_ledger_def foreign_memories_def other_evidence_def evidence_part_def)

lemma isolated_memory:
  "good_store s \<Longrightarrow> good_ledger pf s \<Longrightarrow> memory_step pf u s s' \<Longrightarrow> evidence_part s' = evidence_part s \<Longrightarrow> isolated pf u s s'"
  by (simp add: isolated_def good_step foreign_step good_ledger_def other_evidence_def evidence_part_def)

lemma isolated_record:
  "good_store s \<Longrightarrow> good_ledger pf s \<Longrightarrow> isolated pf u s (snd (recordEvidence pf fresh now u i s))"
  using keeps_record [of pf s u fresh now i]
  by (simp add: isolated_def keeps_def good_store_def foreign_memories_def)

lemma isolated_audits:
  assumes "good_store s" "good_ledger pf s"
  shows "isolated pf u s (addSecurityAuditEvent ev s)" "isolated pf u s (addSSHAudit a s)"
  using assms by (auto intro!: isolated_same simp: addSSHAudit_def evidence_part_def)

lemma isolated_chain:
  "isolated pf u s s' \<Longrightarrow> (good_store s' \<Longrightarrow> good_ledger pf s' \<Longrightarrow> isolated pf u s' s'') \<Longrightarrow> isolated pf u s s''"
  using isolated_trans [of pf u s s' s''] by (simp add: isolated_def)

lemma isolated_call:
  assumes "good_store s" "good_ledger pf s"
  shows "isolated pf u s (snd (callScry pf g uuid fresh now u path init x label s))"
proof -
  have b: "isolated pf u s (addSecurityAuditEvent e' (addSecurityAuditEvent e s))" for e e'
    by (rule isolated_chain [OF isolated_audits(1) [OF assms]]) (rule isolated_audits)
  have "isolated pf u s (record_answer pf fresh now u x label v (addSecurityAuditEvent e' (addSecurityAuditEvent e s)))" for e e' v
    unfolding record_answer_def
    by (rule isolated_chain [OF b]) (auto split: option.splits intro: isolated_record isolated_same)
  with b show ?thesis by (simp add: callScry_def Let_def split: sum.splits)
qed

lemma isolated_run:
  assumes "good_store s" "good_ledger pf s" "xc_user q = u"
  shows "isolated pf u s (snd (run_authorized pf n fresh now q h r s))"
proof -
  have b: "isolated pf u s (addSecurityAuditEvent e' (addSSHAudit a (addSecurityAuditEvent e s)))" for e e' a
    by (rule isolated_chain [OF isolated_audits(1) [OF assms(1,2)]], rule isolated_chain [OF isolated_audits(2)])
       (rule isolated_audits | assumption)+
  have "isolated pf u s (snd (recordEvidence pf fresh now u i (addSecurityAuditEvent e' (addSSHAudit a (addSecurityAuditEvent e s)))))"
    for e e' a i by (rule isolated_chain [OF b]) (rule isolated_record)
  with b show ?thesis by (simp add: run_authorized_def Let_def assms(3) split: sum.splits option.splits)
qed

lemma isolated_gate:
  "good_store s \<Longrightarrow> good_ledger pf s \<Longrightarrow> isolated pf u s (snd (authorizeSSHExecution pf uuid now q s))"
  "good_store s \<Longrightarrow> good_ledger pf s \<Longrightarrow> isolated pf u s (snd (evaluateInputSecurity pf uuid now x s))"
  by (rule isolated_same; simp add: authorizeSSHExecution_def evaluateInputSecurity_def Let_def evidence_part_def split: prod.splits)+

lemma isolated_execution:
  assumes "good_store s" "good_ledger pf s" "xc_user q = u"
  shows "isolated pf u s (snd (auditedExecution pf n uuid fresh now q s))"
proof (cases "getSSHHostWithSecret now (xc_host q) (user_org (xc_user q)) s")
  case None
  then show ?thesis using assms by (simp add: auditedExecution_def isolated_same)
next
  case (Some h)
  obtain d t where g: "authorizeSSHExecution pf uuid now (gate_request q h) s = (d, t)" by fastforce
  then have t: "isolated pf u s t" using isolated_gate(1) [OF assms(1,2), of u uuid now "gate_request q h"] by simp
  have "isolated pf u s (snd (run_authorized pf n fresh now q h d t))"
    by (rule isolated_chain [OF t]) (rule isolated_run [OF _ _ assms(3)])
  with t Some g show ?thesis using assms by (simp add: auditedExecution_def isolated_same)
qed

lemma isolated_hosts:
  assumes "good_store s" "good_ledger pf s"
  shows "isolated pf u s (snd (readonlyInspect pf n uuid fresh now u x host command s))"
    and "isolated pf u s (snd (executeConfiguredCommand pf n uuid fresh now u x host command s))"
  using assms
  by (auto simp: readonlyInspect_def executeConfiguredCommand_def Let_def isolated_execution isolated_same split: option.splits if_splits)

text \<open>The evidence a tool uses is evidence of the thread and of the organisation.\<close>

lemma evidence_by_ids: "i \<in> set (getEvidenceByIds thread org ids s) \<Longrightarrow>
    ei_row i \<in> set (evidence_items s) \<and> ev_thread (ei_row i) = thread \<and> ev_org (ei_row i) = org \<and> ev_id (ei_row i) \<in> set ids"
proof -
  assume "i \<in> set (getEvidenceByIds thread org ids s)"
  then have "i \<in> set (listEvidence thread org s)" "ev_id (ei_row i) \<in> set ids"
    by (auto simp: getEvidenceByIds_def split: if_splits)
  moreover from this(1) have "ei_row i \<in> set (map ei_row (listEvidence thread org s))" by simp
  ultimately show ?thesis by (simp add: listEvidence_def)
qed

lemma mean_bounds:
  assumes "list_all (\<lambda>r. lo \<le> ev_confidence r \<and> ev_confidence r \<le> hi) es" "es \<noteq> []"
  shows "lo \<le> mean_confidence es \<and> mean_confidence es \<le> hi"
proof -
  have l: "0 < (of_nat (length es) :: rat)" using assms(2) by simp
  have s: "int (length es) * lo \<le> sum_list (map ev_confidence es)" "sum_list (map ev_confidence es) \<le> int (length es) * hi"
    using assms(1) by (induction es) (auto simp: algebra_simps)
  have "of_int lo * of_nat (length es) \<le> (of_int (sum_list (map ev_confidence es)) :: rat)"
    using s(1) by (metis mult.commute of_int_le_iff of_int_mult of_int_of_nat_eq)
  then have "of_int lo \<le> (of_int (sum_list (map ev_confidence es)) / of_nat (length es) :: rat)"
    using l by (simp add: pos_le_divide_eq)
  moreover have "(of_int (sum_list (map ev_confidence es)) :: rat) \<le> of_int hi * of_nat (length es)"
    using s(2) by (metis mult.commute of_int_le_iff of_int_mult of_int_of_nat_eq)
  then have "(of_int (sum_list (map ev_confidence es)) / of_nat (length es) :: rat) \<le> of_int hi"
    using l by (simp add: pos_divide_le_eq)
  ultimately show ?thesis unfolding mean_confidence_def by (metis js_round_mono js_round_of_int)
qed

lemma remembered_admissible:
  assumes "good_ledger pf s"
  shows "admissible_input (remembered e f (map ei_row (getEvidenceByIds thread org ids s)))"
proof (cases "getEvidenceByIds thread org ids s = []")
  case True
  then show ?thesis by (simp add: admissible_input_def remembered_def mean_confidence_def js_round_def)
next
  case False
  have "list_all (\<lambda>r. 0 \<le> ev_confidence r \<and> ev_confidence r \<le> 100) (map ei_row (getEvidenceByIds thread org ids s))"
    using assms by (auto simp: list_all_iff good_ledger_def good_evidence_def dest: evidence_by_ids)
  from mean_bounds [OF this] False show ?thesis by (simp add: admissible_input_def remembered_def)
qed

text \<open>A call draws an identifier for a new memory that is fresh, as \<open>randomUUID\<close> gives it.\<close>

definition fresh_moment :: "moment \<Rightarrow> agent_db \<Rightarrow> bool" where
  [js_eval]: "fresh_moment t s \<longleftrightarrow> length (mm_fresh t 0) \<le> 36 \<and> mm_fresh t 0 \<notin> me_id ` set (memory_items s)"

lemma isolated_remember:
  assumes "good_store s" "good_ledger pf s" "fresh_moment t s"
  shows "isolated pf (tv_user e) s (snd (remember pf e t f s))"
proof -
  have "isolated pf (tv_user e) s (snd (createMemory pf (mm_fresh t) (mm_now t) (tv_user e)
      (remembered e f (map ei_row (getEvidenceByIds thread org ids s))) s))" for thread org ids
    using assms by (intro isolated_memory memory_step.Create remembered_admissible) (auto simp: fresh_moment_def)
  then show ?thesis using assms by (simp add: remember_def Let_def case_prod_unfold isolated_same)
qed

lemma isolated_tool:
  assumes "good_store s" "good_ledger pf s" "fresh_moment t s"
  shows "isolated pf (tv_user e) s (snd (run_tool pf e t c s))"
  using assms
  by (cases c)
     (simp_all add: isolated_remember isolated_same isolated_hosts isolated_call isolated_gate read_tool_def executeScryReadOperation_def
      querySignals_def evaluateSecurityIntent_def searchMemory_def inspectMemory_def forgetMemoryTool_def Let_def case_prod_unfold
      isolated_memory [OF _ _ memory_step.Retrieve] isolated_memory [OF _ _ memory_step.Read]
      isolated_memory [OF _ _ memory_step.Forget] isolated_memory [OF _ _ memory_step.Maintain] split: sum.splits)

primrec fresh_calls :: "platform \<Rightarrow> tool_env \<Rightarrow> (moment \<times> tool_call) list \<Rightarrow> agent_db \<Rightarrow> bool" where
  "fresh_calls pf e [] s = True"
| "fresh_calls pf e (x # calls) s = (fresh_moment (fst x) s \<and> fresh_calls pf e calls (snd (run_tool pf e (fst x) (snd x) s)))"

lemma isolated_calls:
  assumes "good_store s" "good_ledger pf s" "fresh_calls pf e calls s"
  shows "isolated pf (tv_user e) s (run_tools pf e calls s)"
  using assms
proof (induction calls arbitrary: s)
  case (Cons x calls)
  have "isolated pf (tv_user e) s (snd (run_tool pf e (fst x) (snd x) s))"
    using Cons.prems by (intro isolated_tool) simp_all
  then have "isolated pf (tv_user e) s (run_tools pf e calls (snd (run_tool pf e (fst x) (snd x) s)))"
    by (rule isolated_chain) (use Cons in simp)
  then show ?case by (cases x) simp
qed (simp add: isolated_same)

text \<open>
  From a well-formed database, any sequence of tool calls of an agent leads to a well-formed database,
  and the memories and the evidence of every other organisation are exactly as they were: no tool of an
  agent writes across organisations, whatever identifiers the agent passes.
\<close>

theorem tools_stay_in_organisation:
  assumes "good_store s" "good_ledger pf s" "fresh_calls pf e calls s"
  shows "isolated pf (tv_user e) s (run_tools pf e calls s)"
  by (rule isolated_calls [OF assms])

subsection \<open>What is remembered\<close>

text \<open>Every requested identifier is one of evidence of the thread that was neither rejected nor suspended.\<close>

definition grounded :: "tool_env \<Rightarrow> jsstr list \<Rightarrow> agent_db \<Rightarrow> bool" where
  [js_eval]: "grounded e ids s \<longleftrightarrow> tool_thread e \<noteq> [] \<and> list_all (\<lambda>i. list_ex (\<lambda>r. ev_id r = i \<and> ev_thread r = tool_thread e
     \<and> ev_org r = user_org (tv_user e) \<and> ev_status r \<noteq> EvRejected \<and> ev_status r \<noteq> EvSuspended) (evidence_items s)) ids"

definition evidence_used :: "tool_env \<Rightarrow> jsstr list \<Rightarrow> agent_db \<Rightarrow> evidence_row list" where
  [js_eval]: "evidence_used e ids s = map ei_row (getEvidenceByIds (tool_thread e) (user_org (tv_user e)) ids s)"

lemma used_rows:
  "evidence_used e ids s = (if ids = [] then [] else filter (\<lambda>r. ev_id r \<in> set ids)
     (sort_by (\<lambda>a b. ev_captured b \<le> ev_captured a)
       (filter (\<lambda>r. ev_thread r = tool_thread e \<and> ev_org r = user_org (tv_user e)) (evidence_items s))))"
proof (cases "ids = []")
  case False
  then show ?thesis
    unfolding evidence_used_def getEvidenceByIds_def listEvidence_def
    by (simp only: if_False filtered_rows [of "\<lambda>r. ev_id r \<in> set ids"] hydrate_evidence_rows)
qed (simp add: evidence_used_def getEvidenceByIds_def)

lemma used_set:
  "set (evidence_used e ids s) = {r \<in> set (evidence_items s). ev_thread r = tool_thread e \<and> ev_org r = user_org (tv_user e) \<and> ev_id r \<in> set ids}"
  by (auto simp: used_rows)

lemma distinct_sort_by: "distinct (map f (sort_by le xs)) = distinct (map f xs)"
  by (metis card_distinct distinct_card length_map length_sort_by list.set_map set_sort_by)

lemma used_distinct: "good_ledger pf s \<Longrightarrow> distinct (map ev_id (evidence_used e ids s))"
  by (simp add: used_rows good_ledger_def distinct_sort_by distinct_map_filter)

lemma grounded_iff:
  assumes "good_ledger pf s"
  shows "grounded e ids s \<longleftrightarrow> tool_thread e \<noteq> [] \<and> length (evidence_used e ids s) = length (remdups ids)
     \<and> list_all (\<lambda>r. ev_status r \<noteq> EvRejected \<and> ev_status r \<noteq> EvSuspended) (evidence_used e ids s)"
proof -
  let ?u = "evidence_used e ids s"
  have n: "length ?u = card (ev_id ` set ?u)" using distinct_card [OF used_distinct [OF assms]] by simp
  have sub: "ev_id ` set ?u \<subseteq> set ids" by (auto simp: used_set)
  have one: "r = r'" if "r \<in> set (evidence_items s)" "r' \<in> set (evidence_items s)" "ev_id r = ev_id r'" for r r'
    using assms that by (auto simp: good_ledger_def distinct_map dest: inj_onD)
  have "length ?u = length (remdups ids) \<longleftrightarrow> ev_id ` set ?u = set ids"
    using sub card_subset_eq [of "set ids" "ev_id ` set ?u"] by (auto simp: n length_remdups_card_conv)
  also have "\<dots> \<longleftrightarrow> list_all (\<lambda>i. list_ex (\<lambda>r. ev_id r = i \<and> ev_thread r = tool_thread e \<and> ev_org r = user_org (tv_user e)) (evidence_items s)) ids"
  proof
    assume a: "ev_id ` set ?u = set ids"
    have "\<exists>r\<in>set ?u. ev_id r = i" if "i \<in> set ids" for i using a that by (metis imageE)
    then show "list_all (\<lambda>i. list_ex (\<lambda>r. ev_id r = i \<and> ev_thread r = tool_thread e \<and> ev_org r = user_org (tv_user e)) (evidence_items s)) ids"
      by (fastforce simp: list_all_iff list_ex_iff used_set)
  next
    assume a: "list_all (\<lambda>i. list_ex (\<lambda>r. ev_id r = i \<and> ev_thread r = tool_thread e \<and> ev_org r = user_org (tv_user e)) (evidence_items s)) ids"
    have "i \<in> ev_id ` set ?u" if "i \<in> set ids" for i
      using a that by (fastforce simp: list_all_iff list_ex_iff used_set image_iff)
    with sub show "ev_id ` set ?u = set ids" by blast
  qed
  finally show ?thesis
    unfolding grounded_def using one by (auto simp: list_all_iff list_ex_iff used_set) metis+
qed


lemma sources_kept [simp]:
  "memory_sources (addMemoryAction u now i a p n d s) = memory_sources s"
  "memory_sources (createMemoryRelations pf fresh now m s) = memory_sources s"
  by (simp_all add: addMemoryAction_def createMemoryRelations_def)

lemma insert_sources:
  "memory_sources (snd (insert_memory pf fresh now u n s)) = foldl (\<lambda>rows i. insert_or_ignore source_conflict
     (source_row (fresh 0) now i) rows) (memory_sources s) (mn_sources n)"
proof -
  have "me_id (new_memory_row pf i now u n) = i" for i by (simp add: new_memory_row_def Let_def)
  then show ?thesis
    by (simp add: insert_memory_def Let_def case_prod_unfold addMemorySources_def split: option.splits)
qed

definition cites :: "jsstr \<Rightarrow> memory_source list \<Rightarrow> evidence_row \<Rightarrow> bool" where
  [js_eval]: "cites i sources r \<longleftrightarrow> list_ex (\<lambda>m. ms_memory m = i \<and> ms_type m = FromEvidence \<and> ms_source m = ev_id r) sources"

lemma cites_kept: "cites i rows r \<Longrightarrow> cites i (foldl (\<lambda>rows x. insert_or_ignore source_conflict (source_row j now x) rows) rows xs) r"
  by (induction xs arbitrary: rows) (auto simp: cites_def insert_or_ignore_def list_ex_iff)

lemma cites_new:
  "list_all (cites i (foldl (\<lambda>rows x. insert_or_ignore source_conflict (source_row i now x) rows) rows
     (map (\<lambda>r. \<lparr>so_type = FromEvidence, so_source = ev_id r, so_trace = ev_trace r, so_relation = rel, so_weight = w r\<rparr>) es))) es"
proof (induction es arbitrary: rows)
  case (Cons r es)
  let ?x = "\<lparr>so_type = FromEvidence, so_source = ev_id r, so_trace = ev_trace r, so_relation = rel, so_weight = w r\<rparr>"
  have "cites i (insert_or_ignore source_conflict (source_row i now ?x) rows) r"
    by (auto simp: cites_def insert_or_ignore_def list_ex_iff source_conflict_def source_row_def)
  then show ?case using Cons.IH by (simp add: cites_kept)
qed simp

lemma remembered_row:
  assumes "good_ledger pf s" "used = evidence_used e ids s" "used \<noteq> []"
    and "row = new_memory_row pf i now u (remembered e f used)"
  shows "me_confidence row \<le> Max (ev_confidence ` set used)"
    and "me_status row = (if in_detected (dm_scan (derive_memory pf (remembered e f used))) then MemSuspended
      else if list_all (\<lambda>r. ev_status r = EvAccepted) used then MemVerified else MemActive)"
proof -
  let ?c = "mean_confidence used"
  have "list_all (\<lambda>r. 0 \<le> ev_confidence r \<and> ev_confidence r \<le> Max (ev_confidence ` set used)) used"
    using assms(1,2) by (auto simp: list_all_iff used_set good_ledger_def good_evidence_def)
  from mean_bounds [OF this assms(3)] have c: "0 \<le> ?c" "?c \<le> Max (ev_confidence ` set used)" by simp_all
  have "list_all (\<lambda>r. 0 \<le> ev_confidence r \<and> ev_confidence r \<le> 100) used"
    using assms(1,2) by (auto simp: list_all_iff used_set good_ledger_def good_evidence_def)
  from mean_bounds [OF this assms(3)] have "?c \<le> 100" by simp
  with c(1) have "clampScore (of_int ?c) = ?c" by (simp add: clampScore_def)
  with c show "me_confidence row \<le> Max (ev_confidence ` set used)"
    by (simp add: assms(4) new_memory_row_def derive_memory_def remembered_def Let_def min.coboundedI2)
  show "me_status row = (if in_detected (dm_scan (derive_memory pf (remembered e f used))) then MemSuspended
      else if list_all (\<lambda>r. ev_status r = EvAccepted) used then MemVerified else MemActive)"
    using quarantined requested_status by (simp add: assms(4)) (simp add: remembered_def)
qed

text \<open>
  C31. Remembering. If the tool has no conversation, or if one of the requested identifiers is unknown,
  belongs to another conversation or organisation, or names evidence that a user rejected or the
  service suspended, nothing is written. Otherwise a new content is stored once, for the user of the
  agent; it cites every piece of its evidence, its confidence is at most that of the best of them, it is
  verified exactly if all of them were accepted, and suspended if it holds an injection. Without the
  role of an administrator an agent cannot write for the whole organisation.
\<close>

theorem remembering_is_grounded:
  fixes pf e t f s
  defines "r \<equiv> remember pf e t f s" and "used \<equiv> evidence_used e (rf_evidence f) s"
    and "row \<equiv> new_memory_row pf (mm_fresh t 0) (mm_now t) (tv_user e) (remembered e f (evidence_used e (rf_evidence f) s))"
  assumes "good_ledger pf s" "fresh_moment t s" "rf_evidence f \<noteq> []"
  shows "if \<not> grounded e (rf_evidence f) s then (\<exists>m. r = (Inl (ToolMessage m), s))
    else if \<not> may_create (tv_user e) (remembered e f used) then (\<exists>m. r = (Inl (ToolMemory m), s))
    else case same_content (tv_user e) (dm_hash (derive_memory pf (remembered e f used))) s of
        Some m \<Rightarrow> length (memory_items (snd r)) = length (memory_items s)
      | None \<Rightarrow> (\<exists>item. fst r = Inr item \<and> mi_row item = row) \<and> memory_items (snd r) = memory_items s @ [row]
          \<and> list_all (cites (me_id row) (memory_sources (snd r))) used \<and> me_user row = user_id (tv_user e)
          \<and> me_confidence row \<le> Max (ev_confidence ` set used)
          \<and> me_status row = (if in_detected (dm_scan (derive_memory pf (remembered e f used))) then MemSuspended
              else if list_all (\<lambda>x. ev_status x = EvAccepted) used then MemVerified else MemActive)"
proof (cases "grounded e (rf_evidence f) s")
  case False
  then show ?thesis
    unfolding grounded_iff [OF assms(4)] r_def used_def remember_def evidence_used_def
    by (auto simp: list_all_iff list_ex_iff unusable_def Let_def)
next
  case True
  let ?n = "remembered e f used"
  have n: "used \<noteq> []"
    using True assms(6) unfolding grounded_iff [OF assms(4)] used_def by (metis length_0_conv remdups_eq_nil_iff)
  have go: "r = (case fst (createMemory pf (mm_fresh t) (mm_now t) (tv_user e) ?n s) of
      Inl m \<Rightarrow> Inl (ToolMemory m) | Inr None \<Rightarrow> Inl (ToolMessage (js ''Cannot read properties of null (reading 'id')''))
    | Inr (Some item) \<Rightarrow> Inr item, snd (createMemory pf (mm_fresh t) (mm_now t) (tv_user e) ?n s))"
    using True unfolding grounded_iff [OF assms(4)]
    by (auto simp: r_def used_def remember_def evidence_used_def Let_def case_prod_unfold list_all_iff list_ex_iff unusable_def)
  show ?thesis
  proof (cases "may_create (tv_user e) ?n")
    case False
    then have "\<exists>m. createMemory pf (mm_fresh t) (mm_now t) (tv_user e) ?n s = (Inl m, s)"
      by (auto simp: createMemory_def may_create_def)
    then show ?thesis using True False go by auto
  next
    case may: True
    show ?thesis
    proof (cases "same_content (tv_user e) (dm_hash (derive_memory pf ?n)) s")
      case None
      have fr: "mm_fresh t 0 \<notin> me_id ` set (memory_items s)" using assms(5) by (simp add: fresh_moment_def)
      note ins = createMemory_new [OF may None]
      obtain item where it: "fst (insert_memory pf (mm_fresh t) (mm_now t) (tv_user e) ?n s) = Inr (Some item)" "mi_row item = row"
        using insert_result [where fresh = "mm_fresh t" and s = s, OF may fr] by (auto simp: row_def used_def)
      have src: "mn_sources ?n = map (\<lambda>r. \<lparr>so_type = FromEvidence, so_source = ev_id r, so_trace = ev_trace r,
          so_relation = js ''grounded_in'', so_weight = Some (ev_confidence r)\<rparr>) used"
        by (simp add: remembered_def)
      have "me_id row = mm_fresh t 0" "me_user row = user_id (tv_user e)" by (simp_all add: row_def new_memory_row_def Let_def)
      moreover have "list_all (cites (mm_fresh t 0) (memory_sources (snd r))) used"
        unfolding go ins snd_conv insert_sources src by (rule cites_new)
      moreover have "memory_items (snd r) = memory_items s @ [row]"
        unfolding go ins snd_conv by (simp add: insert_items row_def used_def)
      ultimately show ?thesis
        using True may None it remembered_row [OF assms(4) used_def [THEN meta_eq_to_obj_eq] n row_def [THEN meta_eq_to_obj_eq, folded used_def]]
        by (simp add: go ins)
    next
      case (Some m)
      then show ?thesis using True may by (simp add: go createMemory_known [OF may Some] reinforce_items)
    qed
  qed
qed

text \<open>A conversation with one accepted and one rejected piece of evidence, and its agent.\<close>

definition demo_evidence :: "string \<Rightarrow> evidence_status \<Rightarrow> evidence_row" where
  [js_eval]: "demo_evidence i st = \<lparr>ev_id = js i, ev_thread = js ''t1'', ev_org = user_org demo_user, ev_user = user_id demo_user,
     ev_trace = js ''r1'', ev_message = [], ev_source = SrcAlert, ev_source_name = js ''alerts'', ev_title = js i, ev_summary = [],
     ev_content = Str (js i), ev_hash = 34 # js i @ [34], ev_confidence = 80, ev_relevance = 50,
     ev_factors = \<lparr>sf_reliability = 0, sf_quality = 0, sf_freshness = 0, sf_integrity = 0, sf_directness = 0, sf_lexical = 0\<rparr>,
     ev_status = st, ev_selected = False, ev_note = [], ev_captured = 1, ev_updated = 1\<rparr>"

definition demo_store :: agent_db where
  [js_eval]: "demo_store = empty_db\<lparr>evidence_items := [demo_evidence ''good'' EvAccepted, demo_evidence ''bad'' EvRejected]\<rparr>"

definition demo_tools :: tool_env where
  [js_eval]: "demo_tools = \<lparr>tv_user = demo_user, tv_context = Some \<lparr>ctx_thread = js ''t1'', ctx_trace = js ''r1'', ctx_query = []\<rparr>,
     tv_gateway = demo_gateway, tv_network = demo_network []\<rparr>"

definition demo_lesson :: "string \<Rightarrow> remember_form" where
  [js_eval]: "demo_lesson i = \<lparr>rf_type = Episodic, rf_scope = ScopeUser, rf_title = js ''lesson'', rf_summary = js ''restart'',
     rf_content = js ''restart helps'', rf_evidence = [js i], rf_service = Some (js ''api''), rf_tags = [], rf_importance = 70\<rparr>"

lemma demo_store_good: "good_store demo_store" "good_ledger demo_platform demo_store"
  by (simp add: good_store_def demo_store_def empty_db_def) code_simp

lemma demo_moment_fresh: "fresh_moment demo_moment demo_store"
  by (simp add: fresh_moment_def demo_store_def empty_db_def demo_moment_def demo_fresh_def js_def)

theorem tools_stay_in_organisation_witness:
  "isolated demo_platform demo_user demo_store
     (run_tools demo_platform demo_tools [(demo_moment, ListEvidence False), (demo_moment, Remember (demo_lesson ''good''))] demo_store)"
proof -
  have "fresh_calls demo_platform demo_tools [(demo_moment, ListEvidence False), (demo_moment, Remember (demo_lesson ''good''))] demo_store"
    using demo_moment_fresh by simp
  from tools_stay_in_organisation [OF demo_store_good this] show ?thesis by (simp add: demo_tools_def)
qed

theorem remembering_is_grounded_witness:
  "(\<exists>m. remember demo_platform demo_tools demo_moment (demo_lesson ''bad'') demo_store = (Inl (ToolMessage m), demo_store))
   \<and> map me_status (memory_items (snd (remember demo_platform demo_tools demo_moment (demo_lesson ''good'') demo_store))) = [MemVerified]"
proof
  have b: "\<not> grounded demo_tools (rf_evidence (demo_lesson ''bad'')) demo_store" by code_simp
  have "rf_evidence (demo_lesson i) \<noteq> []" for i by (simp add: demo_lesson_def)
  note law = remembering_is_grounded [OF demo_store_good(2) demo_moment_fresh this]
  show "\<exists>m. remember demo_platform demo_tools demo_moment (demo_lesson ''bad'') demo_store = (Inl (ToolMessage m), demo_store)"
    using law [of demo_tools "''bad''"] b by simp
  have g: "grounded demo_tools (rf_evidence (demo_lesson ''good'')) demo_store"
    "may_create (tv_user demo_tools) (remembered demo_tools (demo_lesson ''good'') (evidence_used demo_tools (rf_evidence (demo_lesson ''good'')) demo_store))"
    by code_simp+
  have n: "same_content u h demo_store = None" for u h by (simp add: same_content_def demo_store_def empty_db_def sort_by_def)
  have d: "\<not> in_detected (dm_scan (derive_memory demo_platform (remembered demo_tools (demo_lesson ''good'')
      (evidence_used demo_tools (rf_evidence (demo_lesson ''good'')) demo_store))))"
    "list_all (\<lambda>x. ev_status x = EvAccepted) (evidence_used demo_tools (rf_evidence (demo_lesson ''good'')) demo_store)"
    by code_simp+
  have e: "memory_items demo_store = []" by (simp add: demo_store_def empty_db_def)
  show "map me_status (memory_items (snd (remember demo_platform demo_tools demo_moment (demo_lesson ''good'') demo_store))) = [MemVerified]"
    using law [of demo_tools "''good''"] g n d e by (simp split: option.splits)
qed

end
