(* ===== verification/Bytes.thy ===== *)
theory Bytes
  imports Prelude
begin

section \<open>Bytes of texts\<close>

text \<open>
  The conversions of the platform's \<open>Buffer\<close> that the service relies on: UTF-8 in both directions and
  the alphabet of \<open>base64url\<close>. A byte is a number below 256. Encoding loses nothing but lone
  surrogates, which become the replacement character, and decoding inverts encoding.
\<close>

subsection \<open>UTF-8\<close>

definition high_surrogate :: "nat \<Rightarrow> bool" where
  [js_eval]: "high_surrogate u \<longleftrightarrow> 55296 \<le> u \<and> u < 56320"

definition low_surrogate :: "nat \<Rightarrow> bool" where
  [js_eval]: "low_surrogate u \<longleftrightarrow> 56320 \<le> u \<and> u < 57344"

text \<open>\<open>toWellFormed\<close>: lone surrogates become the replacement character.\<close>

fun well_formed :: "jsstr \<Rightarrow> jsstr" where
  "well_formed [] = []"
| "well_formed (u # s) =
     (if high_surrogate u then (case s of
          v # r \<Rightarrow> if low_surrogate v then u # v # well_formed r else 65533 # well_formed s
        | [] \<Rightarrow> [65533])
      else if low_surrogate u then 65533 # well_formed s else u # well_formed s)"

definition unit_bytes :: "nat \<Rightarrow> nat list" where
  [js_eval]: "unit_bytes u =
     (if u < 128 then [u]
      else if u < 2048 then [192 + u div 64, 128 + u mod 64]
      else [224 + u div 4096, 128 + u div 64 mod 64, 128 + u mod 64])"

definition pair_bytes :: "nat \<Rightarrow> nat \<Rightarrow> nat list" where
  [js_eval]: "pair_bytes u v = (let c = 65536 + (u - 55296) * 1024 + (v - 56320)
     in [240 + c div 262144, 128 + c div 4096 mod 64, 128 + c div 64 mod 64, 128 + c mod 64])"

fun utf8_bytes :: "jsstr \<Rightarrow> nat list" where
  "utf8_bytes [] = []"
| "utf8_bytes (u # s) =
     (if high_surrogate u then (case s of
          v # r \<Rightarrow> if low_surrogate v then pair_bytes u v @ utf8_bytes r else unit_bytes 65533 @ utf8_bytes s
        | [] \<Rightarrow> unit_bytes 65533)
      else if low_surrogate u then unit_bytes 65533 @ utf8_bytes s else unit_bytes u @ utf8_bytes s)"

text \<open>
  Decoding: an ill-formed sequence gives one replacement character for each maximal part of a
  well-formed one.
\<close>

definition follows :: "nat \<Rightarrow> nat \<Rightarrow> bool" where
  [js_eval]: "follows a b \<longleftrightarrow>
     (if a = 224 then 160 \<le> b \<and> b < 192 else if a = 237 then 128 \<le> b \<and> b < 160
      else if a = 240 then 144 \<le> b \<and> b < 192 else if a = 244 then 128 \<le> b \<and> b < 144 else 128 \<le> b \<and> b < 192)"

definition continues :: "nat \<Rightarrow> bool" where
  [js_eval]: "continues b \<longleftrightarrow> 128 \<le> b \<and> b < 192"

definition code_point_units :: "nat \<Rightarrow> jsstr" where
  [js_eval]: "code_point_units c = [55296 + (c - 65536) div 1024, 56320 + (c - 65536) mod 1024]"

fun utf8_text :: "nat list \<Rightarrow> jsstr" where
  "utf8_text [] = []"
| "utf8_text (a # s) =
     (if a < 128 then a # utf8_text s
      else if 194 \<le> a \<and> a < 224 then (case s of
          b # r \<Rightarrow> if continues b then ((a - 192) * 64 + (b - 128)) # utf8_text r else 65533 # utf8_text s
        | [] \<Rightarrow> [65533])
      else if 224 \<le> a \<and> a < 240 then (case s of
          [] \<Rightarrow> [65533]
        | b # r \<Rightarrow> if \<not> follows a b then 65533 # utf8_text s
            else (case r of
                [] \<Rightarrow> [65533]
              | c # r' \<Rightarrow> if continues c then ((a - 224) * 4096 + (b - 128) * 64 + (c - 128)) # utf8_text r' else 65533 # utf8_text r))
      else if 240 \<le> a \<and> a < 245 then (case s of
          [] \<Rightarrow> [65533]
        | b # r \<Rightarrow> if \<not> follows a b then 65533 # utf8_text s
            else (case r of
                [] \<Rightarrow> [65533]
              | c # r' \<Rightarrow> if \<not> continues c then 65533 # utf8_text r
                  else (case r' of
                      [] \<Rightarrow> [65533]
                    | d # q \<Rightarrow> if continues d
                        then code_point_units ((a - 240) * 262144 + (b - 128) * 4096 + (c - 128) * 64 + (d - 128)) @ utf8_text q
                        else 65533 # utf8_text r')))
      else 65533 # utf8_text s)"

definition is_text :: "jsstr \<Rightarrow> bool" where
  [js_eval]: "is_text s \<longleftrightarrow> list_all (\<lambda>u. u < 65536) s"

text \<open>The equations of the decoder on well-formed sequences.\<close>

lemma decode_sequence:
  "a < 128 \<Longrightarrow> utf8_text (a # s) = a # utf8_text s"
  "194 \<le> a \<Longrightarrow> a < 224 \<Longrightarrow> continues b \<Longrightarrow> utf8_text (a # b # s) = ((a - 192) * 64 + (b - 128)) # utf8_text s"
  "224 \<le> a \<Longrightarrow> a < 240 \<Longrightarrow> follows a b \<Longrightarrow> continues c \<Longrightarrow>
     utf8_text (a # b # c # s) = ((a - 224) * 4096 + (b - 128) * 64 + (c - 128)) # utf8_text s"
  "240 \<le> a \<Longrightarrow> a < 245 \<Longrightarrow> follows a b \<Longrightarrow> continues c \<Longrightarrow> continues d \<Longrightarrow>
     utf8_text (a # b # c # d # s) =
       code_point_units ((a - 240) * 262144 + (b - 128) * 4096 + (c - 128) * 64 + (d - 128)) @ utf8_text s"
  by simp_all

declare utf8_text.simps(2) [simp del]

text \<open>The base-64 digits of a number.\<close>

lemma sextets:
  fixes c :: nat
  obtains a b d m where "c = a * 262144 + b * 4096 + d * 64 + m" "b < 64" "d < 64" "m < 64"
    "c div 262144 = a" "c div 4096 mod 64 = b" "c div 64 mod 64 = d" "c mod 64 = m" "c div 4096 = a * 64 + b" "c div 64 = (a * 64 + b) * 64 + d"
proof -
  define x where "x = c div 64"
  define y where "y = x div 64"
  have e: "c = x * 64 + c mod 64" "x = y * 64 + x mod 64" "y = y div 64 * 64 + y mod 64" by (simp_all add: x_def y_def)
  have d: "c div 4096 = y" "c div 262144 = y div 64" by (simp_all add: x_def y_def div_mult2_eq [symmetric])
  have k: "c = y div 64 * 262144 + y mod 64 * 4096 + x mod 64 * 64 + c mod 64" using e by linarith
  have x: "c div 64 = (y div 64 * 64 + y mod 64) * 64 + x mod 64" using e(2,3) by (simp add: x_def [symmetric])
  show ?thesis by (rule that [OF k]) (use x in \<open>simp_all add: d x_def\<close>)
qed

lemma utf8_unit:
  assumes "u < 65536" "\<not> high_surrogate u" "\<not> low_surrogate u"
  shows "utf8_text (unit_bytes u @ s) = u # utf8_text s"
proof -
  obtain a b d m where u: "u = a * 262144 + b * 4096 + d * 64 + m" "b < 64" "d < 64" "m < 64"
      "u div 4096 = a * 64 + b" "u div 64 mod 64 = d" "u mod 64 = m" "u div 64 = (a * 64 + b) * 64 + d"
    using sextets [of u] by metis
  have a: "a = 0" "b < 16" using u(1) assms(1) by linarith+
  consider "u < 128" | "128 \<le> u" "u < 2048" | "2048 \<le> u" by linarith
  then show ?thesis
  proof cases
    case 2
    then have b: "b = 0" using u(1) a by linarith
    with 2 have "2 \<le> d" "d < 32" using u(1,4) a by linarith+
    then have "utf8_text ((192 + d) # (128 + m) # s) = ((192 + d - 192) * 64 + (128 + m - 128)) # utf8_text s"
      using u(4) by (intro decode_sequence) (simp_all add: continues_def)
    with 2 u a b show ?thesis by (simp add: unit_bytes_def)
  next
    case 3
    have "b = 0 \<Longrightarrow> 32 \<le> d" "b = 13 \<Longrightarrow> d < 32"
      using 3 u(1,3,4) a assms(2,3) unfolding high_surrogate_def low_surrogate_def by linarith+
    then have "follows (224 + b) (128 + d)" using u(3) a(2) by (auto simp: follows_def)
    then have "utf8_text ((224 + b) # (128 + d) # (128 + m) # s) =
        ((224 + b - 224) * 4096 + (128 + d - 128) * 64 + (128 + m - 128)) # utf8_text s"
      using u(4) a by (intro decode_sequence) (simp_all add: continues_def)
    with 3 u a show ?thesis by (simp add: unit_bytes_def)
  qed (simp add: unit_bytes_def decode_sequence)
qed

lemma utf8_pair:
  assumes "high_surrogate u" "low_surrogate v"
  shows "utf8_text (pair_bytes u v @ s) = u # v # utf8_text s"
proof -
  define c where "c = 65536 + (u - 55296) * 1024 + (v - 56320)"
  have r: "55296 \<le> u" "u < 56320" "56320 \<le> v" "v < 57344" using assms by (simp_all add: high_surrogate_def low_surrogate_def)
  then have c: "65536 \<le> c" "c < 1114112" by (simp_all add: c_def)
  obtain a b d m where k: "c = a * 262144 + b * 4096 + d * 64 + m" "b < 64" "d < 64" "m < 64"
      "c div 262144 = a" "c div 4096 mod 64 = b" "c div 64 mod 64 = d" "c mod 64 = m"
    using sextets [of c] by metis
  have "a < 5" "a = 0 \<Longrightarrow> 16 \<le> b" "a = 4 \<Longrightarrow> b < 16" using c k(1,2,3,4) by linarith+
  then have "follows (240 + a) (128 + b)" using k(2) by (auto simp: follows_def)
  then have "utf8_text ((240 + a) # (128 + b) # (128 + d) # (128 + m) # s) =
      code_point_units ((240 + a - 240) * 262144 + (128 + b - 128) * 4096 + (128 + d - 128) * 64 + (128 + m - 128)) @ utf8_text s"
    using k(3,4) \<open>a < 5\<close> by (intro decode_sequence) (simp_all add: continues_def)
  moreover have "code_point_units c = [u, v]"
  proof -
    have e: "c - 65536 = (u - 55296) * 1024 + (v - 56320)" "v - 56320 < 1024" using r by (simp_all add: c_def)
    have "(c - 65536) div 1024 = u - 55296" "(c - 65536) mod 1024 = v - 56320" unfolding e(1) using e(2) by simp_all
    then show ?thesis using r by (simp add: code_point_units_def)
  qed
  ultimately show ?thesis
    using k by (simp add: pair_bytes_def Let_def c_def [symmetric])
qed

lemma utf8_replacement:
  "utf8_text (unit_bytes 65533 @ s) = 65533 # utf8_text s" "utf8_text (unit_bytes 65533) = [65533]"
  using utf8_unit [of 65533 s] utf8_unit [of 65533 "[]"] by (simp_all add: high_surrogate_def low_surrogate_def)

lemma utf8_round_trip: "is_text s \<Longrightarrow> utf8_text (utf8_bytes s) = well_formed s"
proof (induction s rule: well_formed.induct)
  case (2 u s)
  show ?case
  proof (cases "high_surrogate u")
    case True
    then show ?thesis using 2 by (cases s) (auto simp: is_text_def utf8_pair utf8_replacement)
  next
    case False
    then show ?thesis using 2 by (auto simp: is_text_def utf8_unit utf8_replacement)
  qed
qed simp

text \<open>A text without surrogates survives as it is.\<close>

lemma well_formed_plain: "list_all (\<lambda>u. u < 55296) s \<Longrightarrow> well_formed s = s"
  by (induction s rule: well_formed.induct) (simp_all add: high_surrogate_def low_surrogate_def)

lemma unit_bytes_below: "u < 65536 \<Longrightarrow> list_all (\<lambda>b. b < 256) (unit_bytes u)"
proof -
  assume u: "u < 65536"
  then have "u div 4096 < 16" by (simp add: div_less_iff_less_mult)
  moreover have "u < 2048 \<Longrightarrow> u div 64 < 32" by (simp add: div_less_iff_less_mult)
  moreover have "u mod 64 < 64" "u div 64 mod 64 < 64" by simp_all
  ultimately show ?thesis by (auto simp: unit_bytes_def simp del: mod_less_divisor)
qed

lemma pair_bytes_below:
  assumes "high_surrogate u" "low_surrogate v"
  shows "list_all (\<lambda>b. b < 256) (pair_bytes u v)"
proof -
  define c where "c = 65536 + (u - 55296) * 1024 + (v - 56320)"
  have "u - 55296 \<le> 1023" "v - 56320 \<le> 1023" using assms by (auto simp: high_surrogate_def low_surrogate_def)
  then have "c < 1114112" unfolding c_def by linarith
  then have "c div 262144 < 5" by (simp add: div_less_iff_less_mult)
  moreover have "c mod 64 < 64" "c div 64 mod 64 < 64" "c div 4096 mod 64 < 64" by simp_all
  ultimately have "240 + c div 262144 < 256" "128 + c div 4096 mod 64 < 256" "128 + c div 64 mod 64 < 256" "128 + c mod 64 < 256"
    by linarith+
  then show ?thesis unfolding pair_bytes_def Let_def c_def [symmetric] by simp
qed

lemma utf8_below: "is_text s \<Longrightarrow> list_all (\<lambda>b. b < 256) (utf8_bytes s)"
proof (induction s rule: utf8_bytes.induct)
  case (2 u s)
  show ?case
  proof (cases "high_surrogate u")
    case True
    then show ?thesis using 2 unit_bytes_below [of 65533] by (cases s) (auto simp: is_text_def pair_bytes_below)
  next
    case False
    then show ?thesis using 2 unit_bytes_below [of 65533] unit_bytes_below [of u] by (auto simp: is_text_def)
  qed
qed simp

subsection \<open>The alphabet of \<open>base64url\<close>\<close>

definition sextet_char :: "nat \<Rightarrow> nat" where
  [js_eval]: "sextet_char k = (if k < 26 then 65 + k else if k < 52 then 71 + k else if k < 62 then k - 4 else if k = 62 then 45 else 95)"

text \<open>The decoder takes the characters of both alphabets and skips all others.\<close>

definition char_sextet :: "nat \<Rightarrow> nat option" where
  [js_eval]: "char_sextet c =
     (if 65 \<le> c \<and> c \<le> 90 then Some (c - 65) else if 97 \<le> c \<and> c \<le> 122 then Some (c - 71)
      else if 48 \<le> c \<and> c \<le> 57 then Some (c + 4) else if c = 43 \<or> c = 45 then Some 62
      else if c = 47 \<or> c = 95 then Some 63 else None)"

fun to_sextets :: "nat list \<Rightarrow> nat list" where
  "to_sextets [] = []"
| "to_sextets [a] = [a div 4, a mod 4 * 16]"
| "to_sextets [a, b] = [a div 4, a mod 4 * 16 + b div 16, b mod 16 * 4]"
| "to_sextets (a # b # c # s) = [a div 4, a mod 4 * 16 + b div 16, b mod 16 * 4 + c div 64, c mod 64] @ to_sextets s"

fun from_sextets :: "nat list \<Rightarrow> nat list" where
  "from_sextets (p # q # r # t # s) = [p * 4 + q div 16, q mod 16 * 16 + r div 4, r mod 4 * 64 + t] @ from_sextets s"
| "from_sextets [p, q, r] = [p * 4 + q div 16, q mod 16 * 16 + r div 4]"
| "from_sextets [p, q] = [p * 4 + q div 16]"
| "from_sextets _ = []"

definition base64url :: "nat list \<Rightarrow> jsstr" where
  [js_eval]: "base64url bs = map sextet_char (to_sextets bs)"

definition from_base64url :: "jsstr \<Rightarrow> nat list" where
  [js_eval]: "from_base64url s = from_sextets (concat (map (\<lambda>c. case char_sextet c of None \<Rightarrow> [] | Some k \<Rightarrow> [k]) s))"

lemma char_sextet_char: "k < 64 \<Longrightarrow> char_sextet (sextet_char k) = Some k"
  by (auto simp: char_sextet_def sextet_char_def)

lemma to_sextets_below: "list_all (\<lambda>b. b < 256) bs \<Longrightarrow> list_all (\<lambda>k. k < 64) (to_sextets bs)"
proof (induction bs rule: to_sextets.induct)
  case (2 a)
  have "a mod 4 < 4" by simp
  then have "a mod 4 * 16 < 64" by linarith
  then show ?case using 2 by (simp add: div_less_iff_less_mult)
next
  case (3 a b)
  have "a mod 4 < 4" "b mod 16 < 16" by simp_all
  moreover have "b div 16 < 16" using 3 by (simp add: div_less_iff_less_mult)
  ultimately have "a mod 4 * 16 + b div 16 < 64" "b mod 16 * 4 < 64" by linarith+
  then show ?case using 3 by (simp add: div_less_iff_less_mult)
next
  case (4 a b c s)
  have "a mod 4 < 4" "b mod 16 < 16" by simp_all
  moreover have "b div 16 < 16" "c div 64 < 4" using 4 by (simp_all add: div_less_iff_less_mult)
  ultimately have "a mod 4 * 16 + b div 16 < 64" "b mod 16 * 4 + c div 64 < 64" by linarith+
  then show ?case using 4 by (simp add: div_less_iff_less_mult)
qed simp

lemma from_to_sextets: "list_all (\<lambda>b. b < 256) bs \<Longrightarrow> from_sextets (to_sextets bs) = bs"
proof (induction bs rule: to_sextets.induct)
  case (3 a b)
  then have "b div 16 < 16" by (simp add: div_less_iff_less_mult)
  then show ?case by simp
next
  case (4 a b c s)
  then have "b div 16 < 16" "c div 64 < 4" by (simp_all add: div_less_iff_less_mult)
  then show ?case using 4 by simp
qed simp_all

lemma base64url_round_trip:
  assumes "list_all (\<lambda>b. b < 256) bs"
  shows "from_base64url (base64url bs) = bs"
proof -
  have "concat (map (\<lambda>c. case char_sextet c of None \<Rightarrow> [] | Some k \<Rightarrow> [k]) (map sextet_char ks)) = ks"
    if "list_all (\<lambda>k. k < 64) ks" for ks
    using that by (induction ks) (simp_all add: char_sextet_char)
  then show ?thesis
    using to_sextets_below [OF assms] from_to_sextets [OF assms] by (simp add: from_base64url_def base64url_def)
qed

text \<open>A dot never occurs in an encoding, so it can separate several.\<close>

lemma base64url_no_dot: "list_all (\<lambda>b. b < 256) bs \<Longrightarrow> 46 \<notin> set (base64url bs)"
proof -
  assume "list_all (\<lambda>b. b < 256) bs"
  then have "list_all (\<lambda>k. sextet_char k \<noteq> 46) (to_sextets bs)"
    using to_sextets_below [of bs] by (auto simp: list_all_iff sextet_char_def)
  then show ?thesis by (auto simp: base64url_def list_all_iff)
qed

end
