(* ===== verification/Settings.thy ===== *)
theory Settings
  imports Bytes Workflow_Records
begin

section \<open>Stored secrets, model settings and MCP servers (\<open>crypto.ts\<close>, \<open>db.ts\<close>, \<open>model.ts\<close>)\<close>

text \<open>
  Secrets are stored encrypted with AES-256-GCM under a key derived from the master key. The cipher, the
  digest and the parser of JSON are the platform's: they are the fields of a \<open>vault\<close>, and \<open>lawful_vault\<close>
  states what the code relies on. Everything else, from the bytes of the text to the three dotted parts
  of the stored value, is the code's and is modelled as it is.
\<close>

record vault =
  va_master :: jsstr
  va_digest :: "nat list \<Rightarrow> nat list"
  va_seal :: "nat list \<Rightarrow> nat list \<Rightarrow> nat list \<Rightarrow> nat list \<times> nat list"
  va_open :: "nat list \<Rightarrow> nat list \<Rightarrow> nat list \<Rightarrow> nat list \<Rightarrow> nat list option"
  va_parse :: "jsstr \<Rightarrow> jsval option"

definition is_bytes :: "nat list \<Rightarrow> bool" where
  [js_eval]: "is_bytes bs \<longleftrightarrow> list_all (\<lambda>b. b < 256) bs"

text \<open>Sealing gives the tag and the encrypted bytes; opening with the same key and vector gives the message back.\<close>

definition lawful_vault :: "vault \<Rightarrow> bool" where
  "lawful_vault v \<longleftrightarrow> (\<forall>k iv m. is_bytes m \<longrightarrow> (case va_seal v k iv m of (tag, body) \<Rightarrow>
     is_bytes tag \<and> is_bytes body \<and> va_open v k iv tag body = Some m))"

subsection \<open>Secrets\<close>

definition keyFromSecret :: "vault \<Rightarrow> nat list" where
  [js_eval]: "keyFromSecret v = va_digest v (utf8_bytes (va_master v))"

definition encryptSecret :: "vault \<Rightarrow> nat list \<Rightarrow> jsstr \<Rightarrow> jsstr" where
  [js_eval]: "encryptSecret v iv s =
     (let (tag, encrypted) = va_seal v (keyFromSecret v) iv (utf8_bytes s)
      in str_join [46] (map base64url [iv, tag, encrypted]))"

definition decryptSecret :: "vault \<Rightarrow> jsstr \<Rightarrow> jsstr option" where
  [js_eval]: "decryptSecret v s =
     (case map from_base64url (str_split 46 s) of
        iv # tag # encrypted # _ \<Rightarrow> map_option utf8_text (va_open v (keyFromSecret v) iv tag encrypted)
      | _ \<Rightarrow> None)"

subsection \<open>Model settings\<close>

record model_view =
  md_provider :: model_provider
  md_mode :: endpoint_mode
  md_model :: jsstr
  md_base :: jsstr
  md_key :: jsstr
  md_has_key :: bool
  md_temperature :: "rat option"
  md_tokens :: int
  md_steps :: int
  md_timeout :: int
  md_retries :: int
  md_choice :: tool_choice
  md_instructions :: jsstr
  md_memory :: int

definition nonzero_or :: "int \<Rightarrow> int \<Rightarrow> int" where
  [js_eval]: "nonzero_or n d = (if n = 0 then d else n)"

definition default_settings :: model_view where
  [js_eval]: "default_settings = \<lparr>md_provider = OpenAI, md_mode = OfficialEndpoint, md_model = js ''gpt-4o-mini'', md_base = [],
     md_key = [], md_has_key = False, md_temperature = None, md_tokens = 8192, md_steps = 8, md_timeout = 120, md_retries = 1,
     md_choice = AutoTools, md_instructions = [], md_memory = 30\<rparr>"

text \<open>\<open>None\<close> is the exception of a key that does not decrypt.\<close>

definition getModelSettings :: "vault \<Rightarrow> bool \<Rightarrow> agent_db \<Rightarrow> model_view option" where
  [js_eval]: "getModelSettings v secret s =
     (case head_option (model_settings s) of
        None \<Rightarrow> Some default_settings
      | Some r \<Rightarrow>
          (let view = \<lparr>md_provider = mo_provider r, md_mode = mo_mode r, md_model = or_default (mo_model r) (js ''gpt-4o-mini''),
                 md_base = mo_base r, md_key = [], md_has_key = (mo_key r \<noteq> []), md_temperature = mo_temperature r,
                 md_tokens = nonzero_or (mo_tokens r) 8192, md_steps = nonzero_or (mo_steps r) 8,
                 md_timeout = nonzero_or (mo_timeout r) 120, md_retries = mo_retries r, md_choice = mo_choice r,
                 md_instructions = mo_instructions r, md_memory = nonzero_or (mo_memory r) 30\<rparr>
           in if secret \<and> mo_key r \<noteq> [] then map_option (\<lambda>k. view\<lparr>md_key := k\<rparr>) (decryptSecret v (mo_key r)) else Some view))"

record model_form =
  mf_provider :: model_provider
  mf_mode :: endpoint_mode
  mf_model :: jsstr
  mf_base :: jsstr
  mf_key :: jsstr
  mf_temperature :: "rat option"
  mf_tokens :: int
  mf_steps :: int
  mf_timeout :: int
  mf_retries :: int
  mf_choice :: tool_choice
  mf_instructions :: jsstr
  mf_memory :: int

definition valid_model_form :: "model_form \<Rightarrow> bool" where
  [js_eval]: "valid_model_form f \<longleftrightarrow> 1 \<le> length (mf_model f) \<and> length (mf_model f) \<le> 200 \<and> length (mf_base f) \<le> 500
     \<and> length (mf_key f) \<le> 1000 \<and> (case mf_temperature f of None \<Rightarrow> True | Some t \<Rightarrow> 0 \<le> t \<and> t \<le> 2)
     \<and> 64 \<le> mf_tokens f \<and> mf_tokens f \<le> 128000 \<and> 1 \<le> mf_steps f \<and> mf_steps f \<le> 50 \<and> 10 \<le> mf_timeout f \<and> mf_timeout f \<le> 1800
     \<and> 0 \<le> mf_retries f \<and> mf_retries f \<le> 10 \<and> length (mf_instructions f) \<le> 20000 \<and> 1 \<le> mf_memory f \<and> mf_memory f \<le> 200"

definition changed_settings :: "vault \<Rightarrow> nat list \<Rightarrow> int \<Rightarrow> model_form \<Rightarrow> model_row \<Rightarrow> model_row" where
  [js_eval]: "changed_settings v iv now f r =
     \<lparr>mo_provider = mf_provider f, mo_mode = mf_mode f, mo_model = mf_model f, mo_base = mf_base f,
      mo_key = (if mf_key f \<noteq> [] then encryptSecret v iv (mf_key f) else mo_key r),
      mo_temperature = mf_temperature f, mo_tokens = mf_tokens f, mo_steps = mf_steps f, mo_timeout = mf_timeout f,
      mo_retries = mf_retries f, mo_choice = mf_choice f, mo_instructions = mf_instructions f, mo_memory = mf_memory f,
      mo_updated = now\<rparr>"

definition updateModelSettings :: "vault \<Rightarrow> nat list \<Rightarrow> int \<Rightarrow> model_form \<Rightarrow> agent_db \<Rightarrow> model_view option \<times> agent_db" where
  [js_eval]: "updateModelSettings v iv now f s =
     (let s = s\<lparr>model_settings := map (changed_settings v iv now f) (model_settings s)\<rparr> in (getModelSettings v False s, s))"

subsection \<open>The endpoint of the model\<close>

fun official_base_url :: "model_provider \<Rightarrow> jsstr" where
  "official_base_url OpenAI = js ''https://api.openai.com/v1''"
| "official_base_url Anthropic = js ''https://api.anthropic.com/v1''"

fun endpoint_path :: "model_provider \<Rightarrow> jsstr" where
  "endpoint_path OpenAI = js ''/responses''"
| "endpoint_path Anthropic = js ''/messages''"

text \<open>\<open>replace(/\/+$/, '')\<close> and \<open>replace(/\/responses$/, '')\<close>: the dollar sign is the end of the text.\<close>

definition drop_slashes :: "jsstr \<Rightarrow> jsstr" where
  [js_eval]: "drop_slashes s = rev (dropWhile (\<lambda>u. u = 47) (rev s))"

definition drop_suffix :: "jsstr \<Rightarrow> jsstr \<Rightarrow> jsstr" where
  [js_eval]: "drop_suffix p s = (if p \<noteq> [] \<and> starts_with (rev s) (rev p) then take (length s - length p) s else s)"

definition resolveBaseUrl :: "model_view \<Rightarrow> jsstr + jsstr" where
  [js_eval]: "resolveBaseUrl m =
     (case md_mode m of
        OfficialEndpoint \<Rightarrow> Inr (official_base_url (md_provider m))
      | CustomEndpoint \<Rightarrow>
          (let base = drop_slashes (trim (md_base m))
           in if base = [] then Inl ([33258, 23450, 20041, 31471, 28857, 27169, 24335, 24517, 39035, 22635, 20889] @ js
      '' Base URL'')
              else Inr (drop_suffix (endpoint_path (md_provider m)) base)))"

definition resolvedRequestEndpoint :: "model_view \<Rightarrow> jsstr + jsstr" where
  [js_eval]: "resolvedRequestEndpoint m = map_sum id (\<lambda>base. base @ endpoint_path (md_provider m)) (resolveBaseUrl m)"

definition safeEndpoint :: "model_view \<Rightarrow> jsstr" where
  [js_eval]: "safeEndpoint m = (case resolvedRequestEndpoint m of Inr e \<Rightarrow> e | Inl _ \<Rightarrow> or_default (md_base m) [26410, 37197, 32622])"

subsection \<open>MCP servers\<close>

type_synonym headers = "(jsstr \<times> jsstr) list"

record mcp_view =
  mw_id :: jsstr
  mw_org :: jsstr
  mw_name :: jsstr
  mw_description :: jsstr
  mw_url :: jsstr
  mw_enabled :: bool
  mw_headers :: jsval
  mw_has_headers :: bool
  mw_timeout :: int
  mw_created :: int
  mw_updated :: int

definition headers_value :: "headers \<Rightarrow> jsval" where
  [js_eval]: "headers_value h = Obj (map (\<lambda>(k, t). (k, Str t)) h)"

text \<open>Headers that do not decrypt or parse are the empty object.\<close>

definition open_headers :: "vault \<Rightarrow> jsstr \<Rightarrow> jsval" where
  [js_eval]: "open_headers v s = (case decryptSecret v s of
     None \<Rightarrow> Obj [] | Some t \<Rightarrow> (case va_parse v t of None \<Rightarrow> Obj [] | Some h \<Rightarrow> h))"

definition mcpServerFromRow :: "vault \<Rightarrow> bool \<Rightarrow> mcp_row \<Rightarrow> mcp_view" where
  [js_eval]: "mcpServerFromRow v secret r =
     \<lparr>mw_id = mv_id r, mw_org = mv_org r, mw_name = mv_name r, mw_description = mv_description r, mw_url = mv_url r,
      mw_enabled = mv_enabled r, mw_headers = (if secret \<and> mv_headers r \<noteq> [] then open_headers v (mv_headers r) else Obj []),
      mw_has_headers = (mv_headers r \<noteq> []), mw_timeout = nonzero_or (mv_timeout r) 30000, mw_created = mv_created r,
      mw_updated = mv_updated r\<rparr>"

definition listMCPServers :: "vault \<Rightarrow> jsstr \<Rightarrow> bool \<Rightarrow> bool \<Rightarrow> agent_db \<Rightarrow> mcp_view list" where
  [js_eval]: "listMCPServers v org enabled secret s = map (mcpServerFromRow v secret)
     (sort_by (\<lambda>a b. mv_updated b \<le> mv_updated a) (filter (\<lambda>r. mv_org r = org \<and> (enabled \<longrightarrow> mv_enabled r)) (mcp_servers s)))"

definition getMCPServer :: "vault \<Rightarrow> jsstr \<Rightarrow> jsstr \<Rightarrow> bool \<Rightarrow> agent_db \<Rightarrow> mcp_view option" where
  [js_eval]: "getMCPServer v i org secret s =
     map_option (mcpServerFromRow v secret) (head_option (filter (\<lambda>r. mv_id r = i \<and> mv_org r = org) (mcp_servers s)))"

record mcp_form =
  cf_name :: jsstr
  cf_description :: jsstr
  cf_url :: jsstr
  cf_enabled :: bool
  cf_headers :: "headers option"
  cf_timeout :: int

text \<open>\<open>JSON.stringify(headers)\<close> encrypted, or the empty text for no headers.\<close>

definition seal_headers :: "vault \<Rightarrow> platform \<Rightarrow> nat list \<Rightarrow> headers \<Rightarrow> jsstr" where
  [js_eval]: "seal_headers v pf iv h = (if h = [] then [] else encryptSecret v iv (json_text pf (headers_value h)))"

definition createMCPServerRecord ::
    "vault \<Rightarrow> platform \<Rightarrow> nat list \<Rightarrow> jsstr \<Rightarrow> int \<Rightarrow> jsstr \<Rightarrow> mcp_form \<Rightarrow> agent_db \<Rightarrow> mcp_view option \<times> agent_db" where
  [js_eval]: "createMCPServerRecord v pf iv i now org f s =
     (let s = s\<lparr>mcp_servers := mcp_servers s @ [\<lparr>mv_id = i, mv_org = org, mv_name = cf_name f, mv_description = cf_description f,
            mv_url = cf_url f, mv_enabled = cf_enabled f, mv_headers = seal_headers v pf iv (or_else (cf_headers f) []),
            mv_timeout = cf_timeout f, mv_created = now, mv_updated = now\<rparr>]\<rparr>
      in (getMCPServer v i org False s, s))"

definition changed_server :: "vault \<Rightarrow> platform \<Rightarrow> nat list \<Rightarrow> int \<Rightarrow> mcp_form \<Rightarrow> mcp_row \<Rightarrow> mcp_row" where
  [js_eval]: "changed_server v pf iv now f r = r\<lparr>mv_name := cf_name f, mv_description := cf_description f, mv_url := cf_url f,
     mv_enabled := cf_enabled f, mv_headers := (case cf_headers f of None \<Rightarrow> mv_headers r | Some h \<Rightarrow> seal_headers v pf iv h),
     mv_timeout := cf_timeout f, mv_updated := now\<rparr>"

definition updateMCPServerRecord ::
    "vault \<Rightarrow> platform \<Rightarrow> nat list \<Rightarrow> int \<Rightarrow> jsstr \<Rightarrow> jsstr \<Rightarrow> mcp_form \<Rightarrow> agent_db \<Rightarrow> mcp_view option \<times> agent_db" where
  [js_eval]: "updateMCPServerRecord v pf iv now i org f s =
     (case getMCPServer v i org True s of
        None \<Rightarrow> (None, s)
      | Some _ \<Rightarrow>
          (let s = s\<lparr>mcp_servers := update_where (\<lambda>r. mv_id r = i \<and> mv_org r = org) (changed_server v pf iv now f) (mcp_servers s)\<rparr>
           in (getMCPServer v i org False s, s)))"

definition deleteMCPServerRecord :: "jsstr \<Rightarrow> jsstr \<Rightarrow> agent_db \<Rightarrow> agent_db" where
  [js_eval]: "deleteMCPServerRecord i org s = s\<lparr>mcp_servers := delete_where (\<lambda>r. mv_id r = i \<and> mv_org r = org) (mcp_servers s)\<rparr>"

text \<open>\<open>mcpHeadersSchema\<close>: names and values are bounded, and four headers cannot be overridden.\<close>

definition prohibited_headers :: "jsstr list" where
  [js_eval]: "prohibited_headers = map js [''host'', ''content-length'', ''connection'', ''transfer-encoding'']"

definition valid_headers :: "headers \<Rightarrow> bool" where
  [js_eval]: "valid_headers h \<longleftrightarrow> length h \<le> 30 \<and> distinct (map fst h)
     \<and> list_all (\<lambda>(k, t). 1 \<le> length k \<and> length k \<le> 100 \<and> length t \<le> 4000 \<and> to_lower k \<notin> set prohibited_headers) h"

end
