(* ===== verification/Settings_Laws.thy ===== *)
theory Settings_Laws
  imports Settings
begin

section \<open>What the settings keep\<close>

text \<open>
  Secrets come back as they were stored, views without the secret flag hold none, an update changes
  exactly what its form says, and the endpoint of a model is stable under being entered again.
\<close>

subsection \<open>Secrets\<close>

lemma split_word: "d \<notin> set w \<Longrightarrow> str_split d w = [w]"
  by (induction w) auto

lemma split_append: "d \<notin> set w \<Longrightarrow> str_split d (w @ d # s) = w # str_split d s"
  by (induction w) auto

lemma split_join: "list_all (\<lambda>w. d \<notin> set w) ws \<Longrightarrow> ws \<noteq> [] \<Longrightarrow> str_split d (str_join [d] ws) = ws"
  by (induction "[d]" ws rule: str_join.induct) (simp_all add: split_word split_append)

lemma sealed_parts:
  assumes "lawful_vault v" "is_bytes iv" "is_text s"
  shows "\<exists>tag body. encryptSecret v iv s = str_join [46] (map base64url [iv, tag, body])
    \<and> str_split 46 (encryptSecret v iv s) = map base64url [iv, tag, body]
    \<and> is_bytes tag \<and> is_bytes body \<and> va_open v (keyFromSecret v) iv tag body = Some (utf8_bytes s)"
proof -
  obtain tag body where e: "va_seal v (keyFromSecret v) iv (utf8_bytes s) = (tag, body)" by fastforce
  have "is_bytes (utf8_bytes s)" using utf8_below [OF assms(3)] by (simp add: is_bytes_def)
  then have "case va_seal v (keyFromSecret v) iv (utf8_bytes s) of (tag, body) \<Rightarrow>
      is_bytes tag \<and> is_bytes body \<and> va_open v (keyFromSecret v) iv tag body = Some (utf8_bytes s)"
    by (rule assms(1) [unfolded lawful_vault_def, rule_format])
  then have o: "is_bytes tag" "is_bytes body" "va_open v (keyFromSecret v) iv tag body = Some (utf8_bytes s)"
    by (simp_all add: e)
  have "str_split 46 (str_join [46] (map base64url [iv, tag, body])) = map base64url [iv, tag, body]"
    using assms(2) o(1,2) by (intro split_join) (simp_all add: base64url_no_dot is_bytes_def)
  with o show ?thesis by (intro exI [of _ tag] exI [of _ body]) (simp add: encryptSecret_def e)
qed

lemma decrypt_encrypt:
  assumes "lawful_vault v" "is_bytes iv" "is_text s"
  shows "decryptSecret v (encryptSecret v iv s) = Some (well_formed s)"
proof -
  obtain tag body where p: "str_split 46 (encryptSecret v iv s) = map base64url [iv, tag, body]"
      "is_bytes tag" "is_bytes body" "va_open v (keyFromSecret v) iv tag body = Some (utf8_bytes s)"
    using sealed_parts [OF assms] by blast
  show ?thesis
    using p(2,3) assms(2) by (simp add: decryptSecret_def p(1,4) base64url_round_trip is_bytes_def utf8_round_trip assms(3))
qed

lemma encrypt_nonempty: "lawful_vault v \<Longrightarrow> is_bytes iv \<Longrightarrow> is_text s \<Longrightarrow> encryptSecret v iv s \<noteq> []"
  using decrypt_encrypt [of v iv s] by (auto simp: decryptSecret_def)

text \<open>
  A stored secret comes back: decrypting what was encrypted under the same master key gives the text
  with lone surrogates replaced, so every text that is well formed comes back unchanged. The stored
  value is three parts in the alphabet of \<open>base64url\<close>, separated by the only two dots it holds.
\<close>

theorem secret_round_trip:
  assumes "lawful_vault v" "is_bytes iv" "is_text s"
  shows "decryptSecret v (encryptSecret v iv s) = Some (well_formed s) \<and> length (str_split 46 (encryptSecret v iv s)) = 3
    \<and> hd (str_split 46 (encryptSecret v iv s)) = base64url iv"
  using decrypt_encrypt [OF assms] sealed_parts [OF assms] by auto

text \<open>A vault that shifts bytes, and a digest that is the text.\<close>

definition demo_vault :: vault where
  [js_eval]: "demo_vault = \<lparr>va_master = js ''master'', va_digest = id, va_seal = (\<lambda>k iv m. ([1, 2], rev m)),
     va_open = (\<lambda>k iv tag m. if tag = [1, 2] then Some (rev m) else None), va_parse = (\<lambda>_. None)\<rparr>"

lemma lawful_demo: "lawful_vault demo_vault"
  by (simp add: lawful_vault_def demo_vault_def is_bytes_def)

theorem secret_round_trip_witness:
  "decryptSecret demo_vault (encryptSecret demo_vault [7, 255] [115, 30721, 55357, 56832]) = Some [115, 30721, 55357, 56832]"
proof -
  have "is_bytes [7, 255]" "is_text [115, 30721, 55357, 56832]" "well_formed [115, 30721, 55357, 56832] = [115, 30721, 55357, 56832]"
    by code_simp+
  then show ?thesis using secret_round_trip [OF lawful_demo] by simp
qed

subsection \<open>Model settings\<close>

text \<open>
  Updating the model settings: what an administrator enters within the limits of the schema is what
  is read afterwards. An entered key replaces the stored one and decrypts to itself; without one the
  stored key stays readable as before. What the update answers, and what everybody may read, never
  holds the key, only whether there is one.
\<close>

theorem settings_update:
  fixes v iv now f s
  defines "u \<equiv> updateModelSettings v iv now f s"
  assumes "lawful_vault v" "is_bytes iv" "is_text (mf_key f)" "valid_model_form f" "model_settings s = [r]"
  shows "getModelSettings v True (snd u) = map_option (\<lambda>old.
      \<lparr>md_provider = mf_provider f, md_mode = mf_mode f, md_model = mf_model f, md_base = mf_base f,
       md_key = (if mf_key f = [] then md_key old else well_formed (mf_key f)), md_has_key = (mf_key f \<noteq> [] \<or> md_has_key old),
       md_temperature = mf_temperature f, md_tokens = mf_tokens f, md_steps = mf_steps f, md_timeout = mf_timeout f,
       md_retries = mf_retries f, md_choice = mf_choice f, md_instructions = mf_instructions f, md_memory = mf_memory f\<rparr>)
      (getModelSettings v (mf_key f = []) s)
    \<and> fst u = getModelSettings v False (snd u)
    \<and> map_option md_key (fst u) = Some [] \<and> map_option md_has_key (fst u) = Some (mf_key f \<noteq> [] \<or> mo_key r \<noteq> [])"
proof -
  have f: "mf_model f \<noteq> []" "mf_tokens f \<noteq> 0" "mf_steps f \<noteq> 0" "mf_timeout f \<noteq> 0" "mf_memory f \<noteq> 0"
    using assms(5) by (auto simp: valid_model_form_def)
  show ?thesis
  proof (cases "mf_key f = []")
    case True
    then show ?thesis using f
      by (simp add: u_def updateModelSettings_def Let_def getModelSettings_def assms(6) changed_settings_def nonzero_or_def
          or_default_def option.map_comp comp_def)
  next
    case False
    then show ?thesis using f decrypt_encrypt [OF assms(2-4)] encrypt_nonempty [OF assms(2-4)]
      by (simp add: u_def updateModelSettings_def Let_def getModelSettings_def assms(6) changed_settings_def nonzero_or_def or_default_def)
  qed
qed

definition demo_model_form :: "string \<Rightarrow> model_form" where
  [js_eval]: "demo_model_form key = \<lparr>mf_provider = Anthropic, mf_mode = CustomEndpoint, mf_model = js ''m'', mf_base = js ''https://x/'',
     mf_key = js key, mf_temperature = None, mf_tokens = 100, mf_steps = 5, mf_timeout = 30, mf_retries = 0,
     mf_choice = AutoTools, mf_instructions = [], mf_memory = 10\<rparr>"

theorem settings_update_witness:
  "map_option md_key (getModelSettings demo_vault True (snd (updateModelSettings demo_vault [9] 2 (demo_model_form ''sk-1'')
     (initializeDatabase 1 empty_db)))) = Some (js ''sk-1'')"
proof -
  have "model_settings (fold add_seed ws s) = model_settings s" for ws s
    by (induction ws arbitrary: s) (simp_all add: add_seed_def)
  then have m: "model_settings (initializeDatabase 1 empty_db) = [seed_model 1]"
    by (simp add: initializeDatabase_def Let_def insert_or_ignore_def empty_db_def)
  have "is_bytes [9]" "is_text (mf_key (demo_model_form ''sk-1''))" "valid_model_form (demo_model_form ''sk-1'')"
    "mf_key (demo_model_form ''sk-1'') \<noteq> []" "well_formed (mf_key (demo_model_form ''sk-1'')) = js ''sk-1''"
    by code_simp+
  moreover have "getModelSettings demo_vault False (initializeDatabase 1 empty_db) \<noteq> None"
    by (simp add: getModelSettings_def m Let_def)
  ultimately show ?thesis
    using settings_update [where now = 2, OF lawful_demo _ _ _ m] by auto
qed

subsection \<open>The endpoint\<close>

lemma drop_slashes_end: "drop_slashes s = [] \<or> last (drop_slashes s) \<noteq> 47"
proof (cases "dropWhile (\<lambda>u. u = 47) (rev s)")
  case (Cons x xs)
  then have "x \<noteq> 47" by (metis (mono_tags) dropWhile_eq_Cons_conv)
  then show ?thesis using Cons by (simp add: drop_slashes_def)
qed (simp add: drop_slashes_def)

lemma drop_slashes_id: "s = [] \<or> last s \<noteq> 47 \<Longrightarrow> drop_slashes s = s"
  by (cases s rule: rev_cases) (auto simp: drop_slashes_def)

lemma drop_suffix_append: "p \<noteq> [] \<Longrightarrow> drop_suffix p (s @ p) = s"
  by (simp add: drop_suffix_def starts_with_iff)

lemma drop_suffix_cases: "drop_suffix p s = s \<or> s = drop_suffix p s @ p"
  by (auto simp: drop_suffix_def starts_with_iff rev_eq_append_conv)

lemma endpoint_path_ends [simp]:
  "endpoint_path p \<noteq> []" "last (endpoint_path p) \<noteq> 47" "\<not> is_space (last (endpoint_path p))" "hd (endpoint_path p) = 47"
  by (cases p; simp add: js_def is_space_def)+

lemma drop_slashes_hd: "drop_slashes s \<noteq> [] \<Longrightarrow> hd (drop_slashes s) = hd s"
proof -
  assume a: "drop_slashes s \<noteq> []"
  have "rev s = takeWhile (\<lambda>u. u = 47) (rev s) @ dropWhile (\<lambda>u. u = 47) (rev s)" by simp
  then have "s = drop_slashes s @ rev (takeWhile (\<lambda>u. u = 47) (rev s))"
    unfolding drop_slashes_def by (metis rev_append rev_rev_ident)
  then show ?thesis using a by (metis hd_append2)
qed

text \<open>
  The endpoint of a custom model is a fixed point: entering as the base address the endpoint that
  was resolved resolves to the same endpoint, so it does not matter whether an administrator enters the
  base or the full address. An official endpoint never depends on the entered address, and an empty one
  is an error exactly for custom endpoints.
\<close>

theorem endpoint_is_stable:
  "(case resolvedRequestEndpoint m of
      Inr e \<Rightarrow> resolvedRequestEndpoint (m\<lparr>md_base := e\<rparr>) = Inr e
    | Inl _ \<Rightarrow> md_mode m = CustomEndpoint \<and> drop_slashes (trim (md_base m)) = [])
   \<and> (if md_mode m = OfficialEndpoint
      then resolvedRequestEndpoint m = Inr (official_base_url (md_provider m) @ endpoint_path (md_provider m)) else True)"
proof (cases "md_mode m")
  case CustomEndpoint
  let ?p = "endpoint_path (md_provider m)" and ?b = "drop_slashes (trim (md_base m))"
  show ?thesis
  proof (cases "?b = []")
    case False
    let ?c = "drop_suffix ?p ?b"
    have t: "trim (md_base m) \<noteq> []" using False by (auto simp: drop_slashes_def)
    have "\<not> is_space (hd ?b)" using trim_ends [OF t] drop_slashes_hd [OF False] by simp
    then have "?c = [] \<or> \<not> is_space (hd ?c)"
      using drop_suffix_cases [of ?p ?b] by (metis hd_append2)
    moreover have "\<not> is_space (47 :: nat)" by (simp add: is_space_def)
    ultimately have "\<not> is_space (hd (?c @ ?p))" by (auto simp: hd_append)
    then have "trim (?c @ ?p) = ?c @ ?p" by (intro trim_fix) simp_all
    then show ?thesis using CustomEndpoint False
      by (simp add: resolvedRequestEndpoint_def resolveBaseUrl_def Let_def drop_slashes_id drop_suffix_append)
  qed (use CustomEndpoint in \<open>simp add: resolvedRequestEndpoint_def resolveBaseUrl_def Let_def\<close>)
qed (simp add: resolvedRequestEndpoint_def resolveBaseUrl_def)

subsection \<open>MCP servers\<close>

definition foreign_servers :: "jsstr \<Rightarrow> agent_db \<Rightarrow> mcp_row list" where
  "foreign_servers org s = filter (\<lambda>r. mv_org r \<noteq> org) (mcp_servers s)"

datatype server_edit = AddServer "nat list" jsstr int mcp_form | ChangeServer "nat list" int jsstr mcp_form | DropServer jsstr

fun apply_server_edit :: "vault \<Rightarrow> platform \<Rightarrow> jsstr \<Rightarrow> server_edit \<Rightarrow> agent_db \<Rightarrow> agent_db" where
  "apply_server_edit v pf org (AddServer iv i now f) s = snd (createMCPServerRecord v pf iv i now org f s)"
| "apply_server_edit v pf org (ChangeServer iv now i f) s = snd (updateMCPServerRecord v pf iv now i org f s)"
| "apply_server_edit v pf org (DropServer i) s = deleteMCPServerRecord i org s"

lemma foreign_edit: "foreign_servers org (apply_server_edit v pf org x s) = foreign_servers org s"
proof (cases x)
  case (ChangeServer iv now i f)
  have "mv_org (changed_server v pf iv now f r) = mv_org r" for r by (simp add: changed_server_def)
  then have "filter (\<lambda>r. mv_org r \<noteq> org) (update_where (\<lambda>r. mv_id r = i \<and> mv_org r = org) (changed_server v pf iv now f) rows)
      = filter (\<lambda>r. mv_org r \<noteq> org) rows" for rows
    by (intro filter_update_where) auto
  then show ?thesis by (simp add: ChangeServer updateMCPServerRecord_def Let_def foreign_servers_def split: option.splits)
next
  case (DropServer i)
  have "filter (\<lambda>r. mv_org r \<noteq> org) (delete_where (\<lambda>r. mv_id r = i \<and> mv_org r = org) rows) = filter (\<lambda>r. mv_org r \<noteq> org) rows"
    for rows by (induction rows) (auto simp: delete_where_def)
  then show ?thesis by (simp add: DropServer deleteMCPServerRecord_def foreign_servers_def)
qed (simp add: createMCPServerRecord_def Let_def foreign_servers_def)

lemma seal_open:
  assumes "lawful_vault v" "is_bytes iv" "is_text (json_text pf (headers_value h))" "h \<noteq> []"
    and "va_parse v (well_formed (json_text pf (headers_value h))) = Some (headers_value h)"
  shows "seal_headers v pf iv h \<noteq> [] \<and> open_headers v (seal_headers v pf iv h) = headers_value h"
  using decrypt_encrypt [OF assms(1-3)] encrypt_nonempty [OF assms(1-3)] assms(4,5)
  by (simp add: seal_headers_def open_headers_def)

text \<open>
  MCP servers belong to organisations: whatever sequence of changes one organisation makes, the rows of all others stay
  as they were; a listing and a single reading show servers of the organisation only, and without the
  secret flag no header, only whether there are any.
\<close>

theorem mcp_servers_are_separate:
  "foreign_servers org (fold (apply_server_edit v pf org) edits s) = foreign_servers org s
   \<and> list_all (\<lambda>w. mw_org w = org \<and> mw_headers w = Obj []) (listMCPServers v org enabled False s)
   \<and> (case getMCPServer v i org secret s of None \<Rightarrow> True
      | Some w \<Rightarrow> mw_org w = org \<and> mw_id w = i \<and> (if secret then True else mw_headers w = Obj []))"
proof -
  have "foreign_servers org (fold (apply_server_edit v pf org) edits t) = foreign_servers org t" for t
    by (induction edits arbitrary: t) (simp_all add: foreign_edit)
  moreover have "list_all (\<lambda>w. mw_org w = org \<and> mw_headers w = Obj []) (listMCPServers v org enabled False s)"
    by (simp add: listMCPServers_def list_all_iff mcpServerFromRow_def)
  moreover have "case getMCPServer v i org secret s of None \<Rightarrow> True
      | Some w \<Rightarrow> mw_org w = org \<and> mw_id w = i \<and> (if secret then True else mw_headers w = Obj [])"
    by (auto simp: getMCPServer_def mcpServerFromRow_def split: option.splits dest!: head_option_filterD)
  ultimately show ?thesis by blast
qed

end
