(* ===== verification/Samples.thy ===== *)
theory Samples
  imports Memory_Laws Workflow_Records
begin

section \<open>Sample memories (\<open>memory/samples.ts\<close>, \<open>memory/sample-catalog.ts\<close>)\<close>

text \<open>
  The catalogue of sample memories, which of them a user has generated, their generation and their
  deletion, which unlike forgetting removes the rows. The laws say what generation and deletion do to
  the store of memories.
\<close>

subsection \<open>The catalogue\<close>

datatype sample_category = DatabaseStorage | CacheCapacity | MessagingAsync | ConfigContract | SecurityExternal

fun category_text :: "sample_category \<Rightarrow> jsstr" where
  "category_text DatabaseStorage = js ''database-storage''"
| "category_text CacheCapacity = js ''cache-capacity''"
| "category_text MessagingAsync = js ''messaging-async''"
| "category_text ConfigContract = js ''config-contract''"
| "category_text SecurityExternal = js ''security-external''"

record sample_document =
  dc_id :: jsstr
  dc_path :: jsstr
  dc_date :: jsstr

record sample_content =
  sk_path :: "jsstr list"
  sk_symptom :: jsstr
  sk_cause :: jsstr
  sk_signals :: "jsstr list"
  sk_diagnosis :: "jsstr list"
  sk_remediation :: "jsstr list"
  sk_verification :: "jsstr list"
  sk_excerpt :: jsstr

record memory_sample =
  sl_id :: jsstr
  sl_category :: sample_category
  sl_label :: jsstr
  sl_type :: memory_type
  sl_title :: jsstr
  sl_summary :: jsstr
  sl_service :: jsstr
  sl_confidence :: int
  sl_importance :: int
  sl_document :: sample_document
  sl_content :: sample_content

definition sample_postgres_autovacuum_table_bloat :: memory_sample where
  "sample_postgres_autovacuum_table_bloat = \<lparr>sl_id = js ''postgres-autovacuum-table-bloat'',
     sl_category = DatabaseStorage,
     sl_label = [25968, 25454, 24211, 19982, 23384, 20648],
     sl_type = Procedural,
     sl_title = js ''PostgreSQL '' @ [33258, 21160, 28165, 29702, 28382, 21518, 19982, 34920, 33192, 32960, 22788,
      32622],
     sl_summary = [25512, 33616, 20301, 21464, 24930, 25110, 20026, 31354, 26102, 65292, 27839] @ js
      '' frontend -> recommendation -> product-catalog -> postgres '' @ [26816, 26597] @ js '' autovacuum '' @ [28382,
      21518, 12289] @ js ''dead tuples '' @ [19982, 34920, 33192, 32960, 12290],
     sl_service = js ''postgres'',
     sl_confidence = 91,
     sl_importance = 86,
     sl_document = \<lparr>dc_id = js ''rec-rail-deep-postgres-autovacuum-causal-chain-01'', dc_path = js
      ''experiments/multihop_corpus/docs_naturalistic_24/rec_rail_deep_postgres__autovacuum/rec-rail-deep-postgres-autovacuum-causal-chain-01.md'',
      dc_date = js ''2026-07-03''\<rparr>,
     sl_content = \<lparr>sk_path = [js ''frontend'', js ''recommendation'', js ''product-catalog'', js ''postgres''],
      sk_symptom = [21830, 21697, 39029, 20027, 20307, 27491, 24120, 65292, 20294, 25512, 33616, 20301, 22312, 36127,
      36733, 21319, 39640, 26102, 25345, 32493, 31354, 30333, 25110, 22635, 20805, 32531, 24930, 12290], sk_cause = js
      ''PostgreSQL autovacuum '' @ [28382, 21518, 36896, 25104] @ js '' dead tuples '' @ [19982] @ js '' table bloat''
      @ [65292, 26597, 35810, 31561, 24453, 20174] @ js '' product-catalog '' @ [21521, 19978, 20256, 25773, 12290],
      sk_signals = [js ''autovacuum'', js ''dead tuples'', js ''table bloat'', js ''vacuum'', js
      ''transaction wraparound''], sk_diagnosis = [[20248, 20808, 26816, 26597] @ js '' product-catalog -> postgres ''
      @ [36793, 30340, 24310, 36831, 12289, 38169, 35823, 29575, 21644, 31561, 24453, 26102, 38388, 12290], [26680,
      23545] @ js '' pg_stat_user_tables '' @ [20013] @ js '' dead tuple '' @ [25968, 37327, 12289, 26368, 36817] @ js
      '' vacuum '' @ [26102, 38388, 21644, 38271, 20107, 21153, 12290], [21482, 26377, 26681, 26381, 21153, 32570,
      23569] @ js '' autovacuum '' @ [25110] @ js '' dead tuples '' @ [20449, 21495, 26102, 65292, 25165, 25226,
      35843, 26597, 36864, 22238] @ js '' recommendation'' @ [12290]], sk_remediation = [[32456, 27490, 38459, 22622,
      33258, 21160, 28165, 29702, 30340, 24322, 24120, 38271, 20107, 21153, 65292, 24182, 30830, 35748, 19994, 21153,
      20801, 35768, 12290], [25353, 34920, 35780, 20272] @ js '' VACUUM ANALYZE'' @ [65292, 36991, 20813, 30452,
      25509, 25191, 34892, 39640, 39118, 38505, 20840, 24211, 25805, 20316, 12290], [35843, 25972] @ js
      '' autovacuum '' @ [38408, 20540, 21069, 20808, 35760, 24405, 34920, 22686, 38271, 29575, 12289, 20889, 20837,
      37327, 21644, 32500, 25252, 31383, 21475, 12290]], sk_verification = [js ''dead tuples '' @ [25345, 32493,
      19979, 38477], js ''product-catalog '' @ [25968, 25454, 24211, 31561, 24453, 24674, 22797], [25512, 33616,
      20301, 24310, 36831, 19982, 31354, 32467, 26524, 29575, 22238, 33853]], sk_excerpt = js ''postgres '' @ [20808,
      20986, 29616] @ js '' autovacuum lag / table bloat'' @ [65292, 28982, 21518] @ js '' product-catalog '' @
      [30340, 35843, 29992, 31561, 24453, 21464, 38271, 65292, 20877, 27839] @ js
      '' frontend -> recommendation -> product-catalog -> postgres '' @ [20256, 25773, 25104, 29992, 25143, 21487,
      35265, 30151, 29366, 12290]\<rparr>\<rparr>"

definition sample_valkey_maxclients_saturation :: memory_sample where
  "sample_valkey_maxclients_saturation = \<lparr>sl_id = js ''valkey-maxclients-saturation'',
     sl_category = CacheCapacity,
     sl_label = [32531, 23384, 19982, 23481, 37327],
     sl_type = Procedural,
     sl_title = js ''Valkey '' @ [26368, 22823, 36830, 25509, 25968, 32791, 23613, 25490, 26597],
     sl_summary = [32467, 36134, 38454, 27573, 36141, 29289, 31726, 28165, 31354, 25110, 38388, 27463, 24615] @ js
      '' 500 '' @ [26102, 65292, 20248, 20808, 26816, 26597] @ js '' valkey-cart '' @ [30340] @ js '' maxclients '' @
      [39281, 21644, 19982] @ js '' cart '' @ [23458, 25143, 31471, 36830, 25509, 34892, 20026, 12290],
     sl_service = js ''valkey-cart'',
     sl_confidence = 91,
     sl_importance = 90,
     sl_document = \<lparr>dc_id = js ''cart-500-deep-valkey-maxclients-causal-chain-01'', dc_path = js
      ''experiments/multihop_corpus/docs_naturalistic_24/cart_500_deep_valkey__maxclients/cart-500-deep-valkey-maxclients-causal-chain-01.md'',
      dc_date = js ''2026-07-03''\<rparr>,
     sl_content = \<lparr>sk_path = [js ''frontend'', js ''checkout'', js ''cart'', js ''valkey-cart''], sk_symptom =
      [36141, 29289, 31726, 22312, 21830, 21697, 39029, 27491, 24120, 65292, 20294, 36827, 20837, 32467, 36134, 21518,
      26174, 31034, 20026, 31354, 12289, 34987, 37325, 32622, 25110, 36820, 22238, 38388, 27463, 24615] @ js '' 500''
      @ [12290], sk_cause = js ''valkey-cart '' @ [36798, 21040, 26368, 22823, 23458, 25143, 31471, 36830, 25509,
      25968, 65292] @ js ''cart '' @ [35843, 29992, 31561, 24453, 12289, 37325, 35797, 24182, 21521] @ js
      '' checkout '' @ [20256, 25773, 27867, 21270, 38169, 35823, 12290], sk_signals = [js ''maxclients'', js
      ''max number of clients reached'', js ''connection refused'', js ''cart timeout''], sk_diagnosis = [[20808,
      26597, 30475] @ js '' cart -> valkey-cart '' @ [36793, 26159, 21542, 26368, 26089, 20986, 29616, 38169, 35823,
      25110, 24310, 36831, 12290], [23545, 29031, 24403, 21069] @ js '' connected_clients'' @ [12289] @ js
      ''maxclients'' @ [12289] @ js ''blocked_clients '' @ [21644, 36830, 25509, 21019, 24314, 36895, 29575, 12290],
      [26816, 26597] @ js '' cart '' @ [26159, 21542, 23384, 22312, 36830, 25509, 27844, 28431, 12289, 36807, 22823,
      30340, 36830, 25509, 27744, 25110, 37325, 35797, 39118, 26292, 12290]], sk_remediation = [[20248, 20808, 20462,
      22797, 36830, 25509, 22797, 29992, 25110, 27844, 28431, 65292, 20877, 35780, 20272, 20020, 26102, 25552, 39640]
      @ js '' maxclients'' @ [12290], [38480, 21046, 26080, 36864, 36991, 37325, 35797, 24182, 26657, 20934, 23458,
      25143, 31471] @ js '' deadline'' @ [65292, 36991, 20813, 25918, 22823, 36830, 25509, 21387, 21147, 12290],
      [25193, 23481, 21069, 30830, 35748, 25991, 20214, 25551, 36848, 31526, 12289, 20869, 23384, 21644, 20195, 29702,
      36830, 25509, 19978, 38480, 21516, 27493, 28385, 36275, 12290]], sk_verification = [[25298, 32477, 36830, 25509,
      26085, 24535, 20572, 27490, 22686, 38271], [36830, 25509, 20351, 29992, 29575, 22238, 21040, 23433, 20840,
      27700, 20301], [36141, 29289, 31726, 35835, 21462, 19982, 32467, 36134, 25104, 21151, 29575, 24674, 22797]],
      sk_excerpt = js ''valkey-cart '' @ [20808, 20986, 29616] @ js '' valkey maxclients connection saturation'' @
      [65292, 28982, 21518] @ js '' cart '' @ [30340, 35843, 29992, 31561, 24453, 21464, 38271, 65292, 24182, 27839] @
      js '' frontend -> checkout -> cart -> valkey-cart '' @ [20256, 25773, 25104, 29992, 25143, 21487, 35265, 30151,
      29366, 12290]\<rparr>\<rparr>"

definition sample_redis_background_persistence_jitter :: memory_sample where
  "sample_redis_background_persistence_jitter = \<lparr>sl_id = js ''redis-background-persistence-jitter'',
     sl_category = CacheCapacity,
     sl_label = [32531, 23384, 19982, 23481, 37327],
     sl_type = Semantic,
     sl_title = js ''Redis '' @ [21518, 21488, 25345, 20037, 21270, 31454, 20105, 23548, 33268, 26597, 35810, 25238,
      21160],
     sl_summary = [21830, 21697, 21015, 34920, 21464, 24930, 19988, 26597, 35810, 36229, 26102, 26102, 65292, 24212,
      21516, 26102, 26816, 26597, 32531, 23384, 21629, 20013, 29575, 12289, 22238, 28304, 21387, 21147, 20197, 21450,
      21518, 21488, 25345, 20037, 21270, 26159, 21542, 21344, 29992, 24555, 36895, 35835, 21462, 36335, 24452, 12290],
     sl_service = js ''redis-cache'',
     sl_confidence = 88,
     sl_importance = 80,
     sl_document = \<lparr>dc_id = js ''semantic-case-035-semantic-root-01'', dc_path = js
      ''experiments/multihop_corpus/docs_semantic/productcatalog_cache_redis__persistence/semantic-case-035-semantic-root-01.md'',
      dc_date = js ''2026-07-04''\<rparr>,
     sl_content = \<lparr>sk_path = [js ''frontend'', js ''product-catalog-service'', js ''redis-cache''], sk_symptom
      = [21830, 21697, 21015, 34920, 19982, 26597, 25214, 35831, 27714, 20986, 29616, 25238, 21160, 65292, 37096,
      20998, 35831, 27714, 22312, 36820, 22238, 26377, 25928, 20869, 23481, 21069, 36229, 26102, 12290], sk_cause = js
      ''redis-cache '' @ [21518, 21488, 20445, 23384, 19982, 24555, 36895, 35835, 21462, 36335, 24452, 31454, 20105,
      36164, 28304, 65292, 21629, 20013, 31283, 23450, 24615, 19979, 38477, 24182, 35302, 21457, 26356, 22810, 24930,
      36895, 22238, 28304, 12290], sk_signals = [js ''background save'', js ''fork latency'', js ''cache miss'', js
      ''origin load'', js ''latency jitter''], sk_diagnosis = [[21516, 26102, 35266, 23519, 32531, 23384, 21629,
      20013, 29575, 12289, 22238, 28304] @ js '' QPS'' @ [12289, 25345, 20037, 21270, 29366, 24577, 21644, 23454,
      20363, 24310, 36831, 12290], [21306, 20998, 35835, 21462, 26412, 36523, 21464, 24930, 19982, 25345, 20037,
      21270, 26399, 38388, 30340, 21608, 26399, 24615, 24310, 36831, 23792, 20540, 12290], [26816, 26597, 30913,
      30424, 21534, 21520, 12289, 20889, 26102, 22797, 21046, 20869, 23384, 21644, 23454, 20363, 20869, 23384, 30862,
      29255, 12290]], sk_remediation = [[35843, 25972, 25345, 20037, 21270, 31383, 21475, 25110, 31574, 30053],
      [38477, 20302, 28909, 28857, 38190, 20889, 25918, 22823], [24517, 35201, 26102, 25286, 20998, 35835, 20889,
      21387, 21147, 25110, 36801, 31227, 25345, 20037, 21270, 36127, 36733]], sk_verification = [[24310, 36831, 23792,
      20540, 19981, 20877, 19982, 21518, 21488, 20445, 23384, 37325, 21512], [21629, 20013, 29575, 31283, 23450], js
      ''product-catalog '' @ [22238, 28304, 21387, 21147, 24674, 22797, 22522, 32447]], sk_excerpt = [21518, 21488,
      25345, 20037, 21270, 19968, 26086, 25302, 20303, 20027, 36335, 24452, 65292] @ js ''redis-cache '' @ [20250,
      25226, 21387, 21147, 21521, 19978, 28216, 20256, 25773, 65307, 24212, 20808, 30475, 21629, 20013, 29575, 21644,
      22238, 28304, 21387, 21147, 65292, 20877, 21028, 26029, 26159, 21542, 38656, 35201, 20462, 25913, 21830, 21697,
      21015, 34920, 36923, 36753, 12290]\<rparr>\<rparr>"

definition sample_kafka_consumer_rebalance_lag :: memory_sample where
  "sample_kafka_consumer_rebalance_lag = \<lparr>sl_id = js ''kafka-consumer-rebalance-lag'',
     sl_category = MessagingAsync,
     sl_label = [28040, 24687, 19982, 24322, 27493],
     sl_type = Semantic,
     sl_title = js ''Kafka '' @ [28040, 36153, 32452, 37325, 24179, 34913, 23548, 33268, 21382, 21490, 35270, 22270,
      28382, 21518],
     sl_summary = [35746, 21333, 21382, 21490, 25345, 32493, 33853, 21518, 26102, 65292, 19981, 24212, 21482, 26816,
      26597, 39029, 38754, 32531, 23384, 65292, 36824, 35201, 26816, 26597, 28040, 36153, 31215, 21387, 25193, 22823,
      21644, 28040, 36153, 32452, 25152, 26377, 26435, 39057, 32321, 36801, 31227, 12290],
     sl_service = js ''kafka-broker'',
     sl_confidence = 88,
     sl_importance = 84,
     sl_document = \<lparr>dc_id = js ''semantic-case-032-semantic-root-01'', dc_path = js
      ''experiments/multihop_corpus/docs_semantic/orderhistory_kafka_accounting__rebalance/semantic-case-032-semantic-root-01.md'',
      dc_date = js ''2026-07-04''\<rparr>,
     sl_content = \<lparr>sk_path = [js ''order-history-service'', js ''accounting-service'', js ''kafka-broker''],
      sk_symptom = [20132, 26131, 21382, 21490, 35270, 22270, 25345, 32493, 36807, 26399, 65292, 26032, 27963, 21160,
      19981, 33021, 21450, 26102, 21453, 26144, 65292, 34920, 29616, 31867, 20284, 39029, 38754, 32531, 23384, 26410,
      21047, 26032, 12290], sk_cause = [28040, 36153, 32452, 39057, 32321, 37325, 24179, 34913, 23548, 33268, 20998,
      21306, 25152, 26377, 26435, 21453, 22797, 36801, 31227, 65292, 22788, 29702, 33410, 22863, 19981, 22343, 24182,
      24418, 25104, 25345, 32493, 31215, 21387, 12290], sk_signals = [js ''consumer lag'', js ''rebalance'', js
      ''partition revoke'', js ''partition assign'', js ''group instability''], sk_diagnosis = [[20808, 30830, 35748,
      28040, 36153, 31215, 21387, 26159, 21542, 25345, 32493, 25193, 22823, 65292, 32780, 19981, 26159, 30701, 26242,
      23574, 23792, 12290], [26816, 26597, 25104, 21592, 21152, 20837, 36864, 20986, 12289] @ js ''session timeout'' @
      [12289, 22788, 29702, 26102, 38271, 21644, 20998, 21306, 37325, 26032, 20998, 37197, 39057, 29575, 12290],
      [23558, 39029, 38754, 25968, 25454, 26102, 38388, 25139, 19982, 28040, 24687, 28040, 36153, 36827, 24230, 23545,
      40784, 65292, 36991, 20813, 35823, 21028, 20026, 23637, 31034, 23618, 32531, 23384, 12290]], sk_remediation =
      [[31283, 23450, 28040, 36153, 32773, 23454, 20363, 25968, 37327], [32553, 30701, 21333, 25209, 22788, 29702,
      38459, 22622, 26102, 38388], [26657, 20934, 20250, 35805, 19982, 26368, 22823, 22788, 29702, 38388, 38548],
      [20943, 23569, 26080, 24517, 35201, 30340, 39057, 32321, 21457, 24067]], sk_verification = [[37325, 24179,
      34913, 39057, 29575, 19979, 38477], [28040, 36153] @ js '' lag '' @ [36830, 32493, 25910, 25947], [21382, 21490,
      35270, 22270, 26102, 38388, 24046, 24674, 22797, 21040, 30446, 26631, 33539, 22260]], sk_excerpt = [28040,
      36153, 36827, 24230, 36861, 19981, 19978, 26032, 20107, 20214, 26102, 65292, 21382, 21490, 35270, 22270, 20250,
      34987, 25302, 20986, 26126, 26174, 26102, 38388, 24046, 65307, 28040, 36153, 32452, 39057, 32321, 36801, 31227,
      20250, 35753, 22788, 29702, 33410, 22863, 21453, 22797, 25238, 21160, 24182, 34920, 29616, 20026, 25345, 32493,
      19981, 31283, 23450, 12290]\<rparr>\<rparr>"

definition sample_smtp_starttls_handshake_failure :: memory_sample where
  "sample_smtp_starttls_handshake_failure = \<lparr>sl_id = js ''smtp-starttls-handshake-failure'',
     sl_category = MessagingAsync,
     sl_label = [28040, 24687, 19982, 24322, 27493],
     sl_type = Procedural,
     sl_title = js ''SMTP STARTTLS '' @ [25569, 25163, 22833, 36133, 22788, 32622],
     sl_summary = [35746, 21333, 24050, 25104, 21151, 20294, 30830, 35748, 37038, 20214, 26410, 36865, 36798, 26102,
      65292, 27839] @ js '' checkout -> email -> smtp-relay '' @ [26816, 26597] @ js '' STARTTLS'' @ [12289, 35777,
      20070, 21644, 20013, 32487, 31574, 30053, 12290],
     sl_service = js ''smtp-relay'',
     sl_confidence = 91,
     sl_importance = 82,
     sl_document = \<lparr>dc_id = js ''order-confirm-deep-smtp-starttls-causal-chain-01'', dc_path = js
      ''experiments/multihop_corpus/docs_naturalistic_24/order_confirm_deep_smtp__starttls/order-confirm-deep-smtp-starttls-causal-chain-01.md'',
      dc_date = js ''2026-07-03''\<rparr>,
     sl_content = \<lparr>sk_path = [js ''frontend'', js ''checkout'', js ''email'', js ''smtp-relay''], sk_symptom =
      [35746, 21333, 21644, 25187, 27454, 22343, 25104, 21151, 65292, 20294, 29992, 25143, 27809, 26377, 25910, 21040,
      30830, 35748, 37038, 20214, 12290], sk_cause = js ''smtp-relay STARTTLS '' @ [25569, 25163, 22833, 36133, 65292]
      @ js ''email '' @ [26381, 21153, 37325, 35797, 25110, 36229, 26102, 65292, 20294, 19981, 24433, 21709, 24050,
      23436, 25104, 30340, 20132, 26131, 20027, 36335, 24452, 12290], sk_signals = [js ''starttls'', js
      ''tls handshake'', js ''certificate'', js ''530 5.7.0'', js ''relay rejected''], sk_diagnosis = [[26816, 26597]
      @ js '' email -> smtp-relay '' @ [36793, 30340, 22833, 36133, 26102, 38388], [39564, 35777, 20013, 32487, 31471,
      21475, 21644] @ js '' STARTTLS '' @ [33021, 21147], [26680, 23545, 35777, 20070, 38142, 12289, 20027, 26426,
      21517, 19982, 20013, 32487, 31574, 30053]], sk_remediation = [[26356, 26032, 25110, 34917, 40784, 35777, 20070,
      38142], [20462, 27491, 20013, 32487] @ js '' TLS '' @ [31574, 30053], [20445, 30041, 22833, 36133, 37038, 20214,
      24182, 22312, 38142, 36335, 24674, 22797, 21518, 21463, 25511, 37325, 25237]], sk_verification = [js
      ''STARTTLS '' @ [25569, 25163, 25104, 21151], [24453, 21457, 36865, 38431, 21015, 25345, 32493, 19979, 38477],
      [26032, 35746, 21333, 30830, 35748, 37038, 20214, 25353, 30446, 26631, 26102, 24310, 36865, 36798]], sk_excerpt
      = js ''smtp-relay '' @ [20808, 20986, 29616] @ js '' STARTTLS handshake failure'' @ [65292, 28982, 21518] @ js
      '' email '' @ [30340, 35843, 29992, 31561, 24453, 21464, 38271, 65307, 19978, 28216, 35746, 21333, 27969, 31243,
      21487, 33021, 25104, 21151, 65292, 22240, 27492, 24517, 39035, 25226, 36890, 30693, 22833, 36133, 19982, 20132,
      26131, 22833, 36133, 20998, 24320, 21028, 26029, 12290]\<rparr>\<rparr>"

definition sample_feature_flag_config_drift :: memory_sample where
  "sample_feature_flag_config_drift = \<lparr>sl_id = js ''feature-flag-config-drift'',
     sl_category = ConfigContract,
     sl_label = [37197, 32622, 19982, 22865, 32422],
     sl_type = Semantic,
     sl_title = [29305, 24615, 24320, 20851, 37197, 32622, 28418, 31227, 23548, 33268, 20998, 27969, 22238, 36864],
     sl_summary = [20010, 24615, 21270, 25512, 33616, 22823, 38754, 31215, 22238, 36864, 21040, 40664, 35748, 20998,
      32452, 26102, 65292, 24212, 26816, 26597, 35268, 21017, 29256, 26412, 12289, 20998, 21457, 29366, 24577, 19982,
      26412, 22320, 32531, 23384, 26159, 21542, 19968, 33268, 12290],
     sl_service = js ''feature-flag-service'',
     sl_confidence = 88,
     sl_importance = 82,
     sl_document = \<lparr>dc_id = js ''semantic-case-040-semantic-root-01'', dc_path = js
      ''experiments/multihop_corpus/docs_semantic/frontend_recommendation_featureflag__config_drift/semantic-case-040-semantic-root-01.md'',
      dc_date = js ''2026-07-04''\<rparr>,
     sl_content = \<lparr>sk_path = [js ''frontend'', js ''recommendation-service'', js ''feature-flag-service''],
      sk_symptom = [22823, 37327, 35775, 38382, 32773, 36827, 20837, 30456, 21516, 30340, 40664, 35748, 25512, 33616,
      20998, 32452, 65292, 21516, 19968, 36335, 24452, 21487, 33021, 20986, 29616, 20004, 31181, 19981, 19968, 33268,
      32467, 26524, 12290], sk_cause = [29305, 24615, 24320, 20851, 20998, 21457, 29256, 26412, 19982, 26412, 22320,
      32531, 23384, 28418, 31227, 65292, 37197, 32622, 32467, 26500, 25110, 35268, 21017, 29256, 26412, 20998, 21449,
      21518, 35302, 21457, 40664, 35748, 22238, 36864, 12290], sk_signals = [js ''rule version'', js ''config drift'',
      js ''stale cache'', js ''fallback cohort'', js ''distribution lag''], sk_diagnosis = [[23545, 27604, 25511,
      21046, 38754, 29256, 26412, 19982, 21508, 23454, 20363, 24050, 21152, 36733, 29256, 26412], [26816, 26597,
      35268, 21017, 32467, 26500, 20860, 23481, 24615], [30830, 35748, 40664, 35748, 22238, 36864, 29575, 26159,
      21542, 19982, 21457, 24067, 25110, 32531, 23384, 21047, 26032, 26102, 38388, 37325, 21512]], sk_remediation =
      [[37325, 26032, 21516, 27493, 35268, 21017, 29256, 26412], [28165, 29702, 22833, 25928, 32531, 23384], [20026,
      37197, 32622, 32467, 26500, 24341, 20837, 20860, 23481, 26657, 39564, 21644, 28176, 36827, 21457, 24067]],
      sk_verification = [[23454, 20363, 29256, 26412, 19968, 33268], [40664, 35748, 22238, 36864, 29575, 24674, 22797,
      22522, 32447], [21516, 19968, 29992, 25143, 30340, 20998, 27969, 32467, 26524, 20445, 25345, 31283, 23450]],
      sk_excerpt = [37197, 32622, 32467, 26500, 21644, 32447, 19978, 29256, 26412, 19968, 26086, 20998, 21449, 65292,
      20998, 27969, 21028, 26029, 20250, 19981, 19968, 33268, 65307, 24212, 20808, 30830, 35748, 35268, 21017, 29256,
      26412, 23545, 40784, 65292, 20877, 35843, 26597, 21069, 21488, 20026, 20160, 20040, 20840, 37096, 33853, 22238,
      40664, 35748, 12290]\<rparr>\<rparr>"

definition sample_quote_provider_schema_mismatch :: memory_sample where
  "sample_quote_provider_schema_mismatch = \<lparr>sl_id = js ''quote-provider-schema-mismatch'',
     sl_category = ConfigContract,
     sl_label = [37197, 32622, 19982, 22865, 32422],
     sl_type = Episodic,
     sl_title = [36816, 36153, 25253, 20215, 21709, 24212, 22865, 32422, 19981, 20860, 23481, 20107, 20214],
     sl_summary = [37096, 20998, 22320, 22336, 22312, 32467, 36134, 36816, 36153, 27493, 39588, 36820, 22238] @ js
      '' 500 '' @ [26102, 65292, 24212, 26816, 26597] @ js '' quote '' @ [25552, 20379, 26041, 21709, 24212, 23383,
      27573, 19982] @ js '' shipping '' @ [21453, 24207, 21015, 21270, 22865, 32422, 12290],
     sl_service = js ''quote'',
     sl_confidence = 91,
     sl_importance = 86,
     sl_document = \<lparr>dc_id = js ''shipping-deep-quote-schemamismatch-causal-chain-01'', dc_path = js
      ''experiments/multihop_corpus/docs_naturalistic_24/shipping_deep_quote__schemamismatch/shipping-deep-quote-schemamismatch-causal-chain-01.md'',
      dc_date = js ''2026-07-03''\<rparr>,
     sl_content = \<lparr>sk_path = [js ''frontend'', js ''checkout'', js ''shipping'', js ''quote''], sk_symptom =
      [37096, 20998, 22320, 22336, 26080, 27861, 33719, 24471, 36816, 36153, 20272, 31639, 65292, 32467, 36134, 22312]
      @ js '' shipping '' @ [27493, 39588, 36820, 22238] @ js '' 500'' @ [12290], sk_cause = js ''quote '' @ [25552,
      20379, 26041, 21709, 24212, 32467, 26500, 21464, 21270, 65292] @ js ''shipping '' @ [20351, 29992, 26087, 22865,
      32422, 21453, 24207, 21015, 21270, 24182, 20135, 29983, 35299, 26512, 38169, 35823, 12290], sk_signals = [js
      ''schema'', js ''unexpected field'', js ''deserialization'', js ''contract'', js ''parse error''], sk_diagnosis
      = [[20248, 20808, 26597, 30475] @ js '' shipping -> quote '' @ [30340, 21407, 22987, 21709, 24212, 19982, 29366,
      24577, 30721], [23545, 27604, 25104, 21151, 21644, 22833, 36133, 22320, 22336, 30340, 21709, 24212, 32467,
      26500], [26680, 23545, 25552, 20379, 26041, 29256, 26412, 19982, 26412, 22320, 22865, 32422, 21457, 24067,
      26102, 38388]], sk_remediation = [[22686, 21152, 21521, 21518, 20860, 23481, 35299, 26512], [20026, 26410,
      30693, 23383, 27573, 25552, 20379, 23481, 38169], [36890, 36807, 22865, 32422, 27979, 35797, 21644, 28784,
      24230, 21457, 24067, 39564, 35777, 25552, 20379, 26041, 21464, 26356]], sk_verification = [[22833, 36133, 26679,
      26412, 21487, 25104, 21151, 35299, 26512], js ''shipping 500 '' @ [28040, 22833], [19981, 21516, 22320, 22336,
      31867, 22411, 22343, 33021, 36820, 22238, 36816, 36153, 20272, 31639]], sk_excerpt = js ''quote '' @ [20808,
      20986, 29616] @ js '' response schema mismatch'' @ [65292, 28982, 21518] @ js '' shipping '' @ [35843, 29992,
      22833, 36133, 65292, 24182, 27839] @ js '' frontend -> checkout -> shipping -> quote '' @ [20256, 25773, 20026,
      32467, 36134] @ js '' 500'' @ [12290]\<rparr>\<rparr>"

definition sample_rates_api_tls_certificate_expiry :: memory_sample where
  "sample_rates_api_tls_certificate_expiry = \<lparr>sl_id = js ''rates-api-tls-certificate-expiry'',
     sl_category = SecurityExternal,
     sl_label = [23433, 20840, 19982, 22806, 37096, 20381, 36182],
     sl_type = Procedural,
     sl_title = [27719, 29575, 26381, 21153] @ js '' TLS '' @ [35777, 20070, 36807, 26399, 25490, 26597],
     sl_summary = [38750, 40664, 35748, 24065, 31181, 22312, 35746, 21333, 24635, 39069, 35745, 31639, 38454, 27573,
      22833, 36133, 26102, 65292, 24212, 26816, 26597] @ js '' currency -> ecb-rates-api '' @ [30340, 35777, 20070,
      26377, 25928, 26399, 12289, 20027, 26426, 21517, 21644, 23436, 25972, 35777, 20070, 38142, 12290],
     sl_service = js ''ecb-rates-api'',
     sl_confidence = 91,
     sl_importance = 90,
     sl_document = \<lparr>dc_id = js ''checkout-deep-ecb-rates-tlscert-causal-chain-01'', dc_path = js
      ''experiments/multihop_corpus/docs_naturalistic_24/checkout_deep_ecb_rates__tlscert/checkout-deep-ecb-rates-tlscert-causal-chain-01.md'',
      dc_date = js ''2026-07-03''\<rparr>,
     sl_content = \<lparr>sk_path = [js ''frontend'', js ''checkout'', js ''currency'', js ''ecb-rates-api''],
      sk_symptom = [36141, 29289, 36710, 21644, 37197, 36865, 27491, 24120, 65292, 20294, 37096, 20998, 38750, 40664,
      35748, 24065, 31181, 22312, 35745, 31639, 24635, 39069, 25110, 26368, 32456, 19979, 21333, 26102, 22833, 36133,
      12290], sk_cause = js ''ecb-rates-api TLS '' @ [35777, 20070, 36807, 26399, 25110, 35777, 20070, 38142, 26657,
      39564, 22833, 36133, 65292] @ js ''currency '' @ [26080, 27861, 33719, 21462, 27719, 29575, 12290], sk_signals =
      [js ''certificate expired'', js ''x509'', js ''tls handshake failed'', js ''ssl'', js ''hostname mismatch''],
      sk_diagnosis = [[20174] @ js '' currency '' @ [36816, 34892, 29615, 22659, 39564, 35777, 35777, 20070, 38142],
      [30830, 35748, 31995, 32479, 26102, 38388, 19982, 20449, 20219, 24211], [23545, 29031, 22833, 36133, 24065,
      31181, 26159, 21542, 35843, 29992, 21516, 19968, 22806, 37096, 31471, 28857]], sk_remediation = [[26356, 26032,
      22806, 37096, 31471, 28857, 35777, 20070, 25110, 20449, 20219, 38142], [37197, 32622, 35777, 20070, 21040,
      26399, 30417, 27979], [22312, 19981, 38477, 20302] @ js '' TLS '' @ [26657, 39564, 30340, 21069, 25552, 19979,
      20934, 22791, 21463, 25511, 38477, 32423, 36335, 24452]], sk_verification = [js ''TLS '' @ [25569, 25163, 19982,
      20027, 26426, 21517, 26657, 39564, 36890, 36807], [27719, 29575, 35831, 27714, 24674, 22797], [38750, 40664,
      35748, 24065, 31181, 35746, 21333, 25104, 21151, 29575, 22238, 21040, 22522, 32447]], sk_excerpt = js
      ''ecb-rates-api '' @ [20808, 20986, 29616] @ js '' rates API TLS certificate expiry'' @ [65292, 28982, 21518] @
      js '' currency '' @ [35843, 29992, 31561, 24453, 21464, 38271, 65292, 20877, 27839] @ js '' checkout '' @
      [38142, 36335, 20256, 25773, 20026, 29305, 23450, 24065, 31181, 19979, 21333, 22833, 36133, 12290]\<rparr>\<rparr>"

definition sample_payment_fraud_review_hold :: memory_sample where
  "sample_payment_fraud_review_hold = \<lparr>sl_id = js ''payment-fraud-review-hold'',
     sl_category = SecurityExternal,
     sl_label = [23433, 20840, 19982, 22806, 37096, 20381, 36182],
     sl_type = Semantic,
     sl_title = [25903, 20184, 39118, 25511, 25346, 36215, 19982, 22833, 36133, 29366, 24577, 21306, 20998],
     sl_summary = [25903, 20184, 25480, 26435, 20572, 22312, 20013, 38388, 24577, 26102, 65292, 24212, 20808, 21306,
      20998, 39118, 25511, 25346, 36215, 12289, 26126, 30830, 25298, 32477, 21644, 32593, 32476, 36229, 26102, 65292,
      20877, 21028, 26029, 26159, 21542, 23646, 20110, 32467, 36134, 36923, 36753, 25925, 38556, 12290],
     sl_service = js ''payment-gateway-api'',
     sl_confidence = 87,
     sl_importance = 88,
     sl_document = \<lparr>dc_id = js ''semantic-case-027-semantic-root-01'', dc_path = js
      ''experiments/multihop_corpus/docs_semantic/checkout_payment_gateway__fraud_hold/semantic-case-027-semantic-root-01.md'',
      dc_date = js ''2026-07-04''\<rparr>,
     sl_content = \<lparr>sk_path = [js ''checkout-service'', js ''payment-service'', js ''payment-gateway-api''],
      sk_symptom = [26368, 32456, 25903, 20184, 20132, 25509, 26080, 27861, 23436, 25104, 65292, 29992, 25143, 30475,
      21040, 26410, 20915, 12289, 31561, 24453, 25110, 27867, 21270, 22833, 36133, 29366, 24577, 12290], sk_cause =
      [20132, 26131, 34987, 22806, 37096, 25903, 20184, 32593, 20851, 36865, 20837, 39118, 25511, 22797, 26680, 38431,
      21015, 65307, 25346, 36215, 24182, 19981, 31561, 20110, 22833, 36133, 65292, 20294, 20250, 35753, 32467, 31639,
      20572, 30041, 22312, 20013, 38388, 24577, 12290], sk_signals = [js ''fraud hold'', js ''risk review'', js
      ''pending authorization'', js ''gateway decision'', js ''manual review''], sk_diagnosis = [[26816, 26597, 32593,
      20851, 21407, 22987, 29366, 24577, 21644, 21407, 22240, 30721], [21306, 20998] @ js '' pending'' @ [12289] @ js
      ''declined '' @ [19982] @ js '' timeout'', [30830, 35748, 26412, 22320, 29366, 24577, 26426, 26159, 21542,
      27491, 30830, 20445, 30041, 26410, 20915, 20132, 26131]], sk_remediation = [[20026, 25346, 36215, 29366, 24577,
      37197, 32622, 26126, 30830, 30340, 36718, 35810, 25110, 22238, 35843, 22788, 29702], [36991, 20813, 25226,
      26410, 20915, 20132, 26131, 31435, 21363, 37325, 35797, 20026, 37325, 22797, 25187, 27454], [21521, 29992,
      25143, 23637, 31034, 21487, 24674, 22797, 30340, 22788, 29702, 20013, 29366, 24577]], sk_verification = [[32593,
      20851, 22238, 35843, 21487, 25512, 36827, 26412, 22320, 29366, 24577], [19981, 23384, 22312, 37325, 22797,
      25480, 26435], [25346, 36215, 20132, 26131, 22312, 30446, 26631, 26102, 38388, 20869, 23436, 25104, 25110,
      26126, 30830, 20851, 38381]], sk_excerpt = [39118, 25511, 25346, 36215, 24182, 19981, 31561, 20110, 25903,
      20184, 22833, 36133, 65292, 20294, 20250, 25226, 25972, 26465, 38142, 36335, 20572, 22312, 31561, 24453, 30340,
      20013, 38388, 24577, 65307, 24212, 20808, 30475, 32593, 20851, 36820, 22238, 33410, 22863, 21644, 25298, 32477,
      21407, 22240, 65292, 20877, 21028, 26029, 32467, 36134, 27969, 31243, 12290]\<rparr>\<rparr>"

definition memorySampleCatalog :: "memory_sample list" where
  "memorySampleCatalog = [sample_postgres_autovacuum_table_bloat,
     sample_valkey_maxclients_saturation,
     sample_redis_background_persistence_jitter,
     sample_kafka_consumer_rebalance_lag,
     sample_smtp_starttls_handshake_failure,
     sample_feature_flag_config_drift,
     sample_quote_provider_schema_mismatch,
     sample_rates_api_tls_certificate_expiry,
     sample_payment_fraud_review_hold]"

lemma catalog_ids: "map sl_id memorySampleCatalog = map js [''postgres-autovacuum-table-bloat'',
     ''valkey-maxclients-saturation'',
     ''redis-background-persistence-jitter'',
     ''kafka-consumer-rebalance-lag'',
     ''smtp-starttls-handshake-failure'',
     ''feature-flag-config-drift'',
     ''quote-provider-schema-mismatch'',
     ''rates-api-tls-certificate-expiry'',
     ''payment-fraud-review-hold'']"
  by (simp add: memorySampleCatalog_def sample_postgres_autovacuum_table_bloat_def sample_valkey_maxclients_saturation_def sample_redis_background_persistence_jitter_def sample_kafka_consumer_rebalance_lag_def sample_smtp_starttls_handshake_failure_def sample_feature_flag_config_drift_def sample_quote_provider_schema_mismatch_def sample_rates_api_tls_certificate_expiry_def sample_payment_fraud_review_hold_def)

lemma catalog_ids_distinct: "distinct (map sl_id memorySampleCatalog)"
  unfolding catalog_ids by code_simp

lemma catalog_scores: "list_all (\<lambda>d. 0 \<le> sl_confidence d \<and> sl_confidence d \<le> 100 \<and> 0 \<le> sl_importance d \<and> sl_importance d \<le> 100
    \<and> sl_id d \<noteq> []) memorySampleCatalog"
  by (simp add: memorySampleCatalog_def js_def sample_postgres_autovacuum_table_bloat_def sample_valkey_maxclients_saturation_def sample_redis_background_persistence_jitter_def sample_kafka_consumer_rebalance_lag_def sample_smtp_starttls_handshake_failure_def sample_feature_flag_config_drift_def sample_quote_provider_schema_mismatch_def sample_rates_api_tls_certificate_expiry_def sample_payment_fraud_review_hold_def)

subsection \<open>Which samples a user has\<close>

definition sample_tag :: jsstr where
  [js_eval]: "sample_tag = js ''sample''"

definition sample_id_prefix :: jsstr where
  [js_eval]: "sample_id_prefix = js ''sample:''"

definition sampleIdTag :: "jsstr \<Rightarrow> jsstr" where
  [js_eval]: "sampleIdTag i = sample_id_prefix @ i"

definition sampleIdFromTags :: "jsstr list \<Rightarrow> jsstr" where
  [js_eval]: "sampleIdFromTags tags =
     (case head_option (filter (\<lambda>t. starts_with t sample_id_prefix) tags) of None \<Rightarrow> [] | Some t \<Rightarrow> drop 7 t)"

text \<open>\<open>LIKE '%"sample"%'\<close> on the JSON text of the tags, without regard to the case of ASCII letters.\<close>

definition ascii_lower :: "nat \<Rightarrow> nat" where
  [js_eval]: "ascii_lower u = (if 65 \<le> u \<and> u \<le> 90 then u + 32 else u)"

definition tagged_like_sample :: "platform \<Rightarrow> jsstr list \<Rightarrow> bool" where
  [js_eval]: "tagged_like_sample pf tags \<longleftrightarrow>
     str_includes (map ascii_lower (json_text pf (Arr (map Str tags)))) (34 # sample_tag @ [34])"

definition generatedSamples :: "platform \<Rightarrow> auth_user \<Rightarrow> agent_db \<Rightarrow> (jsstr \<times> jsstr) list" where
  [js_eval]: "generatedSamples pf u s =
     foldl (\<lambda>found m. let i = sampleIdFromTags (me_tags m)
         in if i \<noteq> [] \<and> map_of found i = None then found @ [(i, me_id m)] else found) []
       (sort_by (\<lambda>a b. me_updated b \<le> me_updated a)
         (filter (\<lambda>m. me_org m = user_org u \<and> me_user m = user_id u \<and> me_scope m = ScopeUser \<and> me_status m \<noteq> MemForgotten
            \<and> tagged_like_sample pf (me_tags m)) (memory_items s)))"

text \<open>A sample of the catalogue with the memory generated from it, or the empty identifier.\<close>

definition listMemorySamples :: "platform \<Rightarrow> auth_user \<Rightarrow> agent_db \<Rightarrow> (memory_sample \<times> jsstr) list" where
  [js_eval]: "listMemorySamples pf u s =
     (let generated = generatedSamples pf u s in map (\<lambda>d. (d, or_else (map_of generated (sl_id d)) [])) memorySampleCatalog)"

subsection \<open>Generating\<close>

definition texts_value :: "jsstr list \<Rightarrow> jsval" where
  [js_eval]: "texts_value ws = Arr (map Str ws)"

definition sample_value :: "auth_user \<Rightarrow> memory_sample \<Rightarrow> jsval" where
  [js_eval]: "sample_value u d =
     (let doc = sl_document d; c = sl_content d
      in Obj [(js ''sample'', JBool True),
          (js ''catalog'', Obj [(js ''id'', Str (sl_id d)), (js ''category'', Str (category_text (sl_category d))),
             (js ''categoryLabel'', Str (sl_label d)), (js ''generatedFor'', Str (user_id u))]),
          (js ''sourceDocument'', Obj [(js ''id'', Str (dc_id doc)), (js ''path'', Str (dc_path doc)), (js ''updatedAt'', Str (dc_date doc))]),
          (js ''servicePath'', texts_value (sk_path c)), (js ''symptom'', Str (sk_symptom c)), (js ''rootCause'', Str (sk_cause c)),
          (js ''signals'', texts_value (sk_signals c)), (js ''diagnosis'', texts_value (sk_diagnosis c)),
          (js ''remediation'', texts_value (sk_remediation c)), (js ''verification'', texts_value (sk_verification c)),
          (js ''sourceExcerpt'', Str (sk_excerpt c))])"

definition sample_input :: "auth_user \<Rightarrow> memory_sample \<Rightarrow> memory_input" where
  [js_eval]: "sample_input u d =
     \<lparr>mn_type = sl_type d, mn_scope = ScopeUser, mn_title = sl_title d, mn_summary = sl_summary d, mn_content = sample_value u d,
      mn_thread = [], mn_workflow = [], mn_service = sl_service d,
      mn_tags = [sample_tag, js ''paper-derived'', sampleIdTag (sl_id d), js ''category:'' @ category_text (sl_category d)],
      mn_confidence = Some (sl_confidence d), mn_importance = Some (sl_importance d), mn_status = None, mn_pinned = False,
      mn_note = [31034, 20363, 35760, 24518, 26469, 28304, 20110, 35770, 25991, 35821, 26009, 65292, 29992,
      20316, 21487, 26816, 32034, 30340, 21382, 21490, 32463, 39564, 65307, 23427, 19981, 33021,
      26367, 20195, 24403, 21069, 36816, 34892, 35777, 25454, 12290],
      mn_expires = 0,
      mn_sources = [\<lparr>so_type = FromDocument, so_source = js ''paper-workspace:'' @ dc_path (sl_document d), so_trace = [],
        so_relation = js ''derived_from'', so_weight = Some (sl_confidence d)\<rparr>]\<rparr>"

record sample_progress =
  sg_generated :: "(jsstr \<times> jsstr) list"
  sg_memories :: "memory_item list"
  sg_created :: nat
  sg_existing :: nat

text \<open>
  One sample: the memory it was generated into is kept if it can be read, otherwise one is created. A
  creation that returns no memory (content another user holds privately) throws when its identifier is
  read. \<open>Inl\<close> ends the loop; what was created before stays.
\<close>

definition generate_one ::
    "platform \<Rightarrow> (nat \<Rightarrow> jsstr) \<Rightarrow> int \<Rightarrow> auth_user \<Rightarrow> memory_sample \<Rightarrow> sample_progress \<Rightarrow> agent_db \<Rightarrow>
       (jsstr + sample_progress) \<times> agent_db" where
  [js_eval]: "generate_one pf fresh now u d p s =
     (let known = or_else (map_of (sg_generated p) (sl_id d)) [];
          (existing, s) = (if known = [] then (None, s) else getMemory pf now known u no_context s)
      in case existing of
           Some m \<Rightarrow> (Inr (p\<lparr>sg_memories := sg_memories p @ [m], sg_existing := sg_existing p + 1\<rparr>), s)
         | None \<Rightarrow>
             (let (r, s) = createMemory pf fresh now u (sample_input u d) s
              in (case r of
                    Inl _ \<Rightarrow> Inl ([31034, 20363, 35760, 24518, 29983, 25104, 22833, 36133])
                  | Inr None \<Rightarrow> Inl (js ''Cannot read properties of null (reading '' @ [39] @ js ''id'' @ [39, 41])
                  | Inr (Some m) \<Rightarrow> Inr (p\<lparr>sg_generated := put_prop (sg_generated p) (sl_id d) (me_id (mi_row m)),
                      sg_memories := sg_memories p @ [m], sg_created := sg_created p + 1\<rparr>), s)))"

fun generate_all ::
    "platform \<Rightarrow> (nat \<Rightarrow> nat \<Rightarrow> jsstr) \<Rightarrow> int \<Rightarrow> auth_user \<Rightarrow> memory_sample list \<Rightarrow> sample_progress \<Rightarrow> agent_db \<Rightarrow>
       (jsstr + sample_progress) \<times> agent_db" where
  "generate_all pf fresh now u [] p s = (Inr p, s)"
| "generate_all pf fresh now u (d # ds) p s =
     (let (r, s) = generate_one pf (fresh (length ds)) now u d p s
      in case r of Inl m \<Rightarrow> (Inl m, s) | Inr p \<Rightarrow> generate_all pf fresh now u ds p s)"

definition generateMemorySamples ::
    "platform \<Rightarrow> (nat \<Rightarrow> nat \<Rightarrow> jsstr) \<Rightarrow> int \<Rightarrow> auth_user \<Rightarrow> jsstr list \<Rightarrow> agent_db \<Rightarrow> (jsstr + sample_progress) \<times> agent_db" where
  [js_eval]: "generateMemorySamples pf fresh now u ids s =
     (let found = map (\<lambda>i. head_option (filter (\<lambda>d. sl_id d = i) memorySampleCatalog)) (uniq ids)
      in if None \<in> set found then (Inl ([21253, 21547, 26410, 30693, 30340, 31034, 20363, 35760, 24518]), s)
         else generate_all pf fresh now u (map the found)
                \<lparr>sg_generated = generatedSamples pf u s, sg_memories = [], sg_created = 0, sg_existing = 0\<rparr> s)"

subsection \<open>Deleting\<close>

definition sample_event :: "auth_user \<Rightarrow> int \<Rightarrow> jsstr \<Rightarrow> jsstr \<Rightarrow> jsstr \<Rightarrow> security_event" where
  [js_eval]: "sample_event u now i sample title = memory_event u now i i ''memory.sample_deleted'' Allow 0
     (Obj [(js ''sampleId'', Str sample), (js ''title'', Str title)])"

definition drop_sample_rows :: "jsstr \<Rightarrow> auth_user \<Rightarrow> agent_db \<Rightarrow> agent_db" where
  [js_eval]: "drop_sample_rows i u s =
     s\<lparr>memory_chunks := delete_where (\<lambda>c. mc_memory c = i) (memory_chunks s),
       memory_sources := delete_where (\<lambda>r. ms_memory r = i) (memory_sources s),
       memory_relations := delete_where (\<lambda>r. mr_from r = i \<or> mr_to r = i) (memory_relations s),
       memory_actions := delete_where (\<lambda>a. ma_memory a = i) (memory_actions s),
       memory_items := delete_where (\<lambda>m. me_id m = i \<and> me_org m = user_org u \<and> me_user m = user_id u) (memory_items s)\<rparr>"

definition deleteSampleMemory ::
    "platform \<Rightarrow> int \<Rightarrow> jsstr \<Rightarrow> auth_user \<Rightarrow> agent_db \<Rightarrow> (jsstr + (jsstr \<times> jsstr) option) \<times> agent_db" where
  [js_eval]: "deleteSampleMemory pf now i u s =
     (let (found, s) = getMemory pf now i u no_context s
      in case found of
           None \<Rightarrow> (Inr None, s)
         | Some m \<Rightarrow>
             if sample_tag \<notin> set (me_tags (mi_row m)) then (Inl ([21482, 26377, 31034, 20363, 35760, 24518, 21487, 20197, 20351, 29992, 24443, 24213, 21024,
      38500]), s)
             else (let sample = sampleIdFromTags (me_tags (mi_row m));
                       s = addSecurityAuditEvent (sample_event u now i sample (me_title (mi_row m))) (drop_sample_rows i u s)
                   in (Inr (Some (i, sample)), s)))"

end
