(* ===== verification/Samples_Laws.thy ===== *)
theory Samples_Laws
  imports Samples
begin

section \<open>What samples do to the store of memories\<close>

text \<open>
  Deleting a sample by its identifier, generating samples, and generating them again. The proofs follow
  which rows a store has: a row is kept if a row with the same identity, owner, scope, tags and
  content is still there and still not forgotten.
\<close>

subsection \<open>Deletion\<close>

lemma delete_where_all: "list_all (\<lambda>x. \<not> P x) (delete_where P xs)"
  by (simp add: delete_where_def list_all_iff)

text \<open>
  Deleting a sample. A memory the user may not read, or one without the tag, leaves all memories as
  they were. Otherwise the chunks, the sources, the relations and the log entries of the memory are all
  gone, whoever owns it; the row itself is only gone if it belongs to the user. So a memory of
  another user that carries the tag and that one may read stays behind, stripped of what it rests on
  and of its history.
\<close>

theorem sample_deletion:
  fixes pf now i u s
  defines "r \<equiv> deleteSampleMemory pf now i u s"
  shows "case fst r of
      Inr (Some (j, sample)) \<Rightarrow> j = i
        \<and> list_all (\<lambda>c. mc_memory c \<noteq> i) (memory_chunks (snd r)) \<and> list_all (\<lambda>x. ms_memory x \<noteq> i) (memory_sources (snd r))
        \<and> list_all (\<lambda>x. mr_from x \<noteq> i \<and> mr_to x \<noteq> i) (memory_relations (snd r))
        \<and> list_all (\<lambda>a. ma_memory a \<noteq> i) (memory_actions (snd r))
        \<and> filter (\<lambda>m. me_user m \<noteq> user_id u) (memory_items (snd r)) = filter (\<lambda>m. me_user m \<noteq> user_id u) (memory_items s)
        \<and> filter (\<lambda>m. me_user m = user_id u \<and> me_org m = user_org u) (memory_items (snd r))
            = filter (\<lambda>m. me_user m = user_id u \<and> me_org m = user_org u \<and> me_id m \<noteq> i) (memory_items s)
    | _ \<Rightarrow> memory_items (snd r) = memory_items s \<and> memory_actions (snd r) = memory_actions s"
proof -
  obtain found t where g: "getMemory pf now i u no_context s = (found, t)" by (cases "getMemory pf now i u no_context s")
  have t: "memory_items t = memory_items s" "memory_actions t = memory_actions s"
    using g getMemory_frame by (metis snd_conv)+
  have f: "filter Q (delete_where P xs) = filter (\<lambda>m. Q m \<and> \<not> P m) xs" for P Q :: "memory_row \<Rightarrow> bool" and xs
    by (induction xs) (auto simp: delete_where_def)
  have d: "list_all (\<lambda>c. mc_memory c \<noteq> i) (delete_where (\<lambda>c. mc_memory c = i) cs)"
    "list_all (\<lambda>x. ms_memory x \<noteq> i) (delete_where (\<lambda>x. ms_memory x = i) xs)"
    "list_all (\<lambda>x. mr_from x \<noteq> i \<and> mr_to x \<noteq> i) (delete_where (\<lambda>x. mr_from x = i \<or> mr_to x = i) rs)"
    "list_all (\<lambda>a. ma_memory a \<noteq> i) (delete_where (\<lambda>a. ma_memory a = i) as)" for cs xs rs as
    by (simp_all add: delete_where_def list_all_iff)
  show ?thesis
  proof (cases found)
    case None
    then show ?thesis by (simp add: r_def deleteSampleMemory_def g t)
  next
    case (Some m)
    show ?thesis
      by (simp add: r_def deleteSampleMemory_def g Some t drop_sample_rows_def Let_def f d)
         (auto intro!: filter_cong)
  qed
qed

lemma good_deletion: "good_store s \<Longrightarrow> good_store (snd (deleteSampleMemory pf now i u s))"
proof -
  assume g: "good_store s"
  obtain found t where r: "getMemory pf now i u no_context s = (found, t)" by (cases "getMemory pf now i u no_context s")
  then have "memory_items t = memory_items s" by (metis snd_conv getMemory_frame(1))
  then show ?thesis using g
    by (simp add: deleteSampleMemory_def r drop_sample_rows_def Let_def good_store_def split: option.splits)
       (auto simp: delete_where_def list_all_iff intro!: distinct_map_filter)
qed

lemma foreign_deletion: "foreign_memories (user_org u) (snd (deleteSampleMemory pf now i u s)) = foreign_memories (user_org u) s"
proof -
  obtain found t where r: "getMemory pf now i u no_context s = (found, t)" by (cases "getMemory pf now i u no_context s")
  then have "memory_items t = memory_items s" by (metis snd_conv getMemory_frame(1))
  then show ?thesis
    by (simp add: deleteSampleMemory_def r drop_sample_rows_def Let_def foreign_memories_def delete_where_def split: option.splits)
       (auto intro!: filter_cong)
qed

subsection \<open>Rows that are kept\<close>

definition survives :: "memory_row \<Rightarrow> memory_row \<Rightarrow> bool" where
  "survives m m' \<longleftrightarrow> me_id m' = me_id m \<and> me_org m' = me_org m \<and> me_user m' = me_user m \<and> me_scope m' = me_scope m
     \<and> me_tags m' = me_tags m \<and> me_hash m' = me_hash m \<and> me_status m' \<noteq> MemForgotten"

lemma survives_trans: "survives a b \<Longrightarrow> survives b c \<Longrightarrow> survives a c"
  by (simp add: survives_def)

definition kept :: "agent_db \<Rightarrow> agent_db \<Rightarrow> bool" where
  "kept s s' \<longleftrightarrow> (\<forall>m \<in> set (memory_items s). me_status m \<noteq> MemForgotten \<longrightarrow> (\<exists>m' \<in> set (memory_items s'). survives m m'))"

lemma kept_same: "memory_items s' = memory_items s \<Longrightarrow> kept s s'"
  by (auto simp: kept_def survives_def)

lemma kept_trans:
  assumes "kept s s'" "kept s' s''"
  shows "kept s s''"
  unfolding kept_def
proof (intro ballI impI)
  fix m assume "m \<in> set (memory_items s)" "me_status m \<noteq> MemForgotten"
  then obtain a where a: "a \<in> set (memory_items s')" "survives m a" using assms(1) by (auto simp: kept_def)
  then have "me_status a \<noteq> MemForgotten" by (simp add: survives_def)
  then obtain b where "b \<in> set (memory_items s'')" "survives a b" using a(1) assms(2) by (auto simp: kept_def)
  then show "\<exists>m' \<in> set (memory_items s''). survives m m'" using survives_trans [OF a(2)] by blast
qed

lemma kept_reinforced: "memory_items s' = update_where P (reinforce_row now d) (memory_items s) \<Longrightarrow> kept s s'"
  unfolding kept_def
proof (intro ballI impI)
  fix m assume s': "memory_items s' = update_where P (reinforce_row now d) (memory_items s)"
    and m: "m \<in> set (memory_items s)" "me_status m \<noteq> MemForgotten"
  have "(if P m then reinforce_row now d m else m) \<in> set (memory_items s')" using m(1) by (simp add: s' update_where_def)
  moreover have "survives m (if P m then reinforce_row now d m else m)" using m(2) by (simp add: survives_def reinforce_row_def)
  ultimately show "\<exists>m' \<in> set (memory_items s'). survives m m'" by blast
qed

lemma kept_create: "kept s (snd (createMemory pf fresh now u n s))"
  using createMemory_items [of pf fresh now u n s]
  by (elim disjE exE conjE) (auto simp: kept_same kept_reinforced, auto simp: kept_def survives_def)

text \<open>A content is known if a row of the organisation holds it; then creating it again adds no row.\<close>

definition known_content :: "platform \<Rightarrow> auth_user \<Rightarrow> memory_input \<Rightarrow> agent_db \<Rightarrow> bool" where
  "known_content pf u n s \<longleftrightarrow> (\<exists>m \<in> set (memory_items s). me_org m = user_org u
     \<and> me_hash m = dm_hash (derive_memory pf n) \<and> me_status m \<noteq> MemForgotten)"

lemma known_same_content: "known_content pf u n s \<longleftrightarrow> same_content u (dm_hash (derive_memory pf n)) s \<noteq> None"
proof -
  have h: "head_option xs = None \<longleftrightarrow> xs = []" for xs :: "memory_row list" by (cases xs) simp_all
  have e: "sort_by le xs = [] \<longleftrightarrow> xs = []" for le and xs :: "memory_row list" by (metis length_0_conv length_sort_by)
  show ?thesis by (auto simp: known_content_def same_content_def h e filter_empty_conv)
qed

lemma known_kept: "known_content pf u n s \<Longrightarrow> kept s s' \<Longrightarrow> known_content pf u n s'"
  by (fastforce simp: known_content_def kept_def survives_def)

lemma known_after_create:
  assumes "fst (createMemory pf fresh now u n s) = Inr r" "mn_status n = None"
  shows "known_content pf u n (snd (createMemory pf fresh now u n s))"
proof (cases "known_content pf u n s")
  case True
  then show ?thesis using known_kept kept_create by blast
next
  case False
  then have n: "same_content u (dm_hash (derive_memory pf n)) s = None" by (simp add: known_same_content)
  have "may_create u n" using assms by (auto simp: createMemory_def may_create_def split: if_splits)
  then have "memory_items (snd (createMemory pf fresh now u n s)) = memory_items s @ [new_memory_row pf (fresh 0) now u n]"
    using createMemory_new [of u n pf s fresh now] n insert_items by simp
  moreover have "me_status (new_memory_row pf (fresh 0) now u n) \<noteq> MemForgotten"
    "me_org (new_memory_row pf (fresh 0) now u n) = user_org u"
    "me_hash (new_memory_row pf (fresh 0) now u n) = dm_hash (derive_memory pf n)"
    using assms(2) by (simp_all add: new_memory_row_def derive_memory_def Let_def)
  ultimately show ?thesis unfolding known_content_def by (intro bexI [of _ "new_memory_row pf (fresh 0) now u n"]) simp_all
qed

subsection \<open>Which samples are generated\<close>

definition sample_row :: "platform \<Rightarrow> auth_user \<Rightarrow> jsstr \<Rightarrow> memory_row \<Rightarrow> bool" where
  "sample_row pf u i m \<longleftrightarrow> me_org m = user_org u \<and> me_user m = user_id u \<and> me_scope m = ScopeUser \<and> me_status m \<noteq> MemForgotten
     \<and> tagged_like_sample pf (me_tags m) \<and> sampleIdFromTags (me_tags m) = i"

lemma map_of_collect:
  assumes "i \<noteq> []"
  shows "map_of (foldl (\<lambda>found m. let k = f m in if k \<noteq> [] \<and> map_of found k = None then found @ [(k, g m)] else found) acc ms) i =
    (case map_of acc i of Some v \<Rightarrow> Some v | None \<Rightarrow> map_option g (head_option (filter (\<lambda>m. f m = i) ms)))"
proof (induction ms arbitrary: acc)
  case (Cons m ms)
  show ?case using assms by (auto simp: Cons.IH [unfolded Let_def] Let_def map_add_def split: option.splits)
qed (simp split: option.splits)

lemma generated_row:
  assumes "i \<noteq> []"
  shows "map_of (generatedSamples pf u s) i = None \<longleftrightarrow> \<not> (\<exists>m \<in> set (memory_items s). sample_row pf u i m)"
    and "map_of (generatedSamples pf u s) i = Some k \<Longrightarrow> \<exists>m \<in> set (memory_items s). sample_row pf u i m \<and> me_id m = k"
proof -
  let ?rows = "sort_by (\<lambda>a b. me_updated b \<le> me_updated a)
         (filter (\<lambda>m. me_org m = user_org u \<and> me_user m = user_id u \<and> me_scope m = ScopeUser \<and> me_status m \<noteq> MemForgotten
            \<and> tagged_like_sample pf (me_tags m)) (memory_items s))"
  have e: "map_of (generatedSamples pf u s) i = map_option me_id (head_option (filter (\<lambda>m. sampleIdFromTags (me_tags m) = i) ?rows))"
    unfolding generatedSamples_def using map_of_collect [OF assms, of "\<lambda>m. sampleIdFromTags (me_tags m)" me_id "[]" ?rows] by simp
  have h: "head_option xs = None \<longleftrightarrow> xs = []" for xs :: "memory_row list" by (cases xs) simp_all
  show "map_of (generatedSamples pf u s) i = None \<longleftrightarrow> \<not> (\<exists>m \<in> set (memory_items s). sample_row pf u i m)"
    by (auto simp: e h filter_empty_conv sample_row_def)
  show "map_of (generatedSamples pf u s) i = Some k \<Longrightarrow> \<exists>m \<in> set (memory_items s). sample_row pf u i m \<and> me_id m = k"
    by (auto simp: e sample_row_def dest!: head_option_filterD)
qed

lemma sample_row_kept: "sample_row pf u i m \<Longrightarrow> survives m m' \<Longrightarrow> sample_row pf u i m'"
  by (simp add: sample_row_def survives_def)

lemma sample_row_survivor:
  assumes "kept s s'" "m \<in> set (memory_items s)" "sample_row pf u i m"
  shows "\<exists>m' \<in> set (memory_items s'). sample_row pf u i m' \<and> me_id m' = me_id m"
proof -
  obtain m' where "m' \<in> set (memory_items s')" "survives m m'" using assms by (auto simp: kept_def sample_row_def)
  then show ?thesis using sample_row_kept [OF assms(3)] by (auto simp: survives_def)
qed

lemma sample_row_readable:
  assumes "m \<in> set (memory_items s)" "sample_row pf u i m" "distinct (map me_id (memory_items s))"
  shows "fst (getMemory pf now (me_id m) u no_context s) \<noteq> None"
proof -
  have "find_memory (me_id m) u s \<noteq> None"
    using assms(1,2) by (auto simp: find_memory_def sample_row_def head_option_def filter_empty_conv split: list.splits)
  then obtain m' where m': "find_memory (me_id m) u s = Some m'" by blast
  then have "m' = m" using find_memoryD [OF m'] assms(1,3) distinct_id by blast
  then show ?thesis using getMemory_found [OF m'] assms(2) by (fastforce simp: sample_row_def isVisible_def)
qed

subsection \<open>Generating\<close>

definition covered :: "platform \<Rightarrow> auth_user \<Rightarrow> memory_sample \<Rightarrow> agent_db \<Rightarrow> bool" where
  "covered pf u d s \<longleftrightarrow> (\<exists>m \<in> set (memory_items s). sample_row pf u (sl_id d) m) \<or> known_content pf u (sample_input u d) s"

lemma covered_kept: "covered pf u d s \<Longrightarrow> kept s s' \<Longrightarrow> covered pf u d s'"
  unfolding covered_def
  using sample_row_survivor known_kept by metis

lemma sample_input_status [simp]: "mn_status (sample_input u d) = None"
  by (simp add: sample_input_def)

lemma generate_one_kept: "kept s (snd (generate_one pf fresh now u d p s))"
proof -
  have g: "kept s (snd (getMemory pf now k u x s))" for k x by (rule kept_same) simp
  have c: "kept s (snd (createMemory pf fresh now u n (snd (getMemory pf now k u x s))))" for n k x
    by (rule kept_trans [OF g kept_create])
  show ?thesis using g c kept_create
    by (auto simp: generate_one_def Let_def case_prod_unfold split: option.splits)
qed

lemma generate_all_kept: "kept s (snd (generate_all pf fresh now u ds p s))"
proof (induction ds arbitrary: p s)
  case (Cons d ds)
  obtain r t where g: "generate_one pf (fresh (length ds)) now u d p s = (r, t)" by fastforce
  then have "kept s t" using generate_one_kept by (metis snd_conv)
  then show ?case using Cons kept_trans by (fastforce simp: g split: sum.splits)
qed (simp add: kept_same)

text \<open>What a successful step gives: one more memory, and a store that covers the sample.\<close>

lemma generate_one_result:
  assumes "fst (generate_one pf fresh now u d p s) = Inr q"
    and "map_of (sg_generated p) (sl_id d) = None \<or> map_of (sg_generated p) (sl_id d) = Some []
      \<or> (\<exists>m \<in> set (memory_items s). sample_row pf u (sl_id d) m)"
  shows "covered pf u d (snd (generate_one pf fresh now u d p s))"
    "length (sg_memories q) = Suc (length (sg_memories p))"
    "sg_created q + sg_existing q = Suc (sg_created p + sg_existing p)"
    "\<And>k. k \<noteq> sl_id d \<Longrightarrow> map_of (sg_generated q) k = map_of (sg_generated p) k"
proof -
  define known where "known = or_else (map_of (sg_generated p) (sl_id d)) []"
  obtain found t where g: "(if known = [] then (None, s) else getMemory pf now known u no_context s) = (found, t)" by fastforce
  then have t: "memory_items t = memory_items s" by (auto split: if_splits dest!: arg_cong [of _ _ snd])
  have "covered pf u d (snd (generate_one pf fresh now u d p s)) \<and> length (sg_memories q) = Suc (length (sg_memories p))
      \<and> sg_created q + sg_existing q = Suc (sg_created p + sg_existing p)
      \<and> (\<forall>k. k \<noteq> sl_id d \<longrightarrow> map_of (sg_generated q) k = map_of (sg_generated p) k)"
  proof (cases found)
    case (Some m)
    then have "known \<noteq> []" using g by (auto split: if_splits)
    then have "\<exists>m \<in> set (memory_items s). sample_row pf u (sl_id d) m"
      using assms(2) by (auto simp: known_def or_else_def)
    then have "covered pf u d t" by (simp add: covered_def t)
    then show ?thesis using assms(1) Some g by (auto simp: generate_one_def known_def [symmetric])
  next
    case None
    obtain r v where c: "createMemory pf fresh now u (sample_input u d) t = (r, v)" by fastforce
    then obtain m where m: "r = Inr (Some m)" using assms(1) None g
      by (auto simp: generate_one_def known_def [symmetric] split: sum.splits option.splits)
    then have "known_content pf u (sample_input u d) v"
      using known_after_create [of pf fresh now u "sample_input u d" t] c by simp
    then show ?thesis using assms(1) None g c m by (auto simp: generate_one_def known_def [symmetric] covered_def)
  qed
  then show "covered pf u d (snd (generate_one pf fresh now u d p s))"
    "length (sg_memories q) = Suc (length (sg_memories p))"
    "sg_created q + sg_existing q = Suc (sg_created p + sg_existing p)"
    "\<And>k. k \<noteq> sl_id d \<Longrightarrow> map_of (sg_generated q) k = map_of (sg_generated p) k" by blast+
qed

definition linked :: "platform \<Rightarrow> auth_user \<Rightarrow> sample_progress \<Rightarrow> memory_sample \<Rightarrow> agent_db \<Rightarrow> bool" where
  "linked pf u p d s \<longleftrightarrow> map_of (sg_generated p) (sl_id d) = None \<or> map_of (sg_generated p) (sl_id d) = Some []
     \<or> (\<exists>m \<in> set (memory_items s). sample_row pf u (sl_id d) m)"

lemma linked_kept:
  assumes "linked pf u p d s" "kept s s'" "map_of (sg_generated q) (sl_id d) = map_of (sg_generated p) (sl_id d)"
  shows "linked pf u q d s'"
  using assms sample_row_survivor unfolding linked_def by metis

lemma generate_all_result:
  assumes "fst (generate_all pf fresh now u ds p s) = Inr q" "distinct (map sl_id ds)" "\<And>d. d \<in> set ds \<Longrightarrow> linked pf u p d s"
  shows "(\<forall>d \<in> set ds. covered pf u d (snd (generate_all pf fresh now u ds p s)))
    \<and> length (sg_memories q) = length (sg_memories p) + length ds
    \<and> sg_created q + sg_existing q = sg_created p + sg_existing p + length ds"
  using assms
proof (induction ds arbitrary: p s)
  case (Cons d ds)
  obtain r t where g: "generate_one pf (fresh (length ds)) now u d p s = (r, t)" by fastforce
  obtain o1 where r: "r = Inr o1" using Cons.prems(1) by (cases r) (simp_all add: g)
  have l: "linked pf u p d s" using Cons.prems(3) by simp
  have res: "covered pf u d t" "length (sg_memories o1) = Suc (length (sg_memories p))"
    "sg_created o1 + sg_existing o1 = Suc (sg_created p + sg_existing p)"
    "\<And>k. k \<noteq> sl_id d \<Longrightarrow> map_of (sg_generated o1) k = map_of (sg_generated p) k"
    using generate_one_result [of pf "fresh (length ds)" now u d p s o1] l by (simp_all add: g r linked_def)
  have k: "kept s t" using generate_one_kept [of s pf "fresh (length ds)" now u d p] by (simp add: g)
  have "linked pf u o1 d' t" if "d' \<in> set ds" for d'
  proof -
    have "sl_id d' \<noteq> sl_id d" using Cons.prems(2) that by (auto simp: image_iff)
    then show ?thesis using linked_kept [OF _ k] res(4) Cons.prems(3) [of d'] that by simp
  qed
  moreover have "fst (generate_all pf fresh now u ds o1 t) = Inr q" using Cons.prems(1) by (simp add: g r)
  ultimately have "(\<forall>d \<in> set ds. covered pf u d (snd (generate_all pf fresh now u ds o1 t)))
    \<and> length (sg_memories q) = length (sg_memories o1) + length ds
    \<and> sg_created q + sg_existing q = sg_created o1 + sg_existing o1 + length ds"
    using Cons.IH [of o1 t] Cons.prems(2) by simp
  moreover have "covered pf u d (snd (generate_all pf fresh now u ds o1 t))" by (rule covered_kept [OF res(1) generate_all_kept])
  ultimately show ?case using res(2,3) by (simp add: g r)
qed simp

text \<open>A sample is settled if generating it finds its memory or its content.\<close>

definition settled :: "platform \<Rightarrow> auth_user \<Rightarrow> sample_progress \<Rightarrow> memory_sample \<Rightarrow> agent_db \<Rightarrow> bool" where
  "settled pf u p d s \<longleftrightarrow> map_of (sg_generated p) (sl_id d) = None \<and> known_content pf u (sample_input u d) s
     \<or> (\<exists>m \<in> set (memory_items s). sample_row pf u (sl_id d) m \<and> map_of (sg_generated p) (sl_id d) = Some (me_id m) \<and> me_id m \<noteq> [])"

lemma settled_linked: "settled pf u p d s \<Longrightarrow> linked pf u p d s"
  by (auto simp: settled_def linked_def)

lemma settled_kept:
  assumes "settled pf u p d s" "kept s s'" "map_of (sg_generated q) (sl_id d) = map_of (sg_generated p) (sl_id d)"
  shows "settled pf u q d s'"
  using assms(1) unfolding settled_def
proof (elim disjE bexE conjE)
  fix m assume "m \<in> set (memory_items s)" "sample_row pf u (sl_id d) m" and m: "map_of (sg_generated p) (sl_id d) = Some (me_id m)" "me_id m \<noteq> []"
  then obtain m' where "m' \<in> set (memory_items s')" "sample_row pf u (sl_id d) m'" "me_id m' = me_id m"
    using sample_row_survivor [OF assms(2)] by blast
  then show "map_of (sg_generated q) (sl_id d) = None \<and> known_content pf u (sample_input u d) s' \<or>
      (\<exists>m \<in> set (memory_items s'). sample_row pf u (sl_id d) m \<and> map_of (sg_generated q) (sl_id d) = Some (me_id m) \<and> me_id m \<noteq> [])"
    using m assms(3) by auto
qed (use assms(2,3) known_kept in auto)

lemma known_create_ids:
  "known_content pf u n s \<Longrightarrow> map me_id (memory_items (snd (createMemory pf fresh now u n s))) = map me_id (memory_items s)"
proof -
  assume "known_content pf u n s"
  then obtain e where e: "same_content u (dm_hash (derive_memory pf n)) s = Some e" by (auto simp: known_same_content)
  show ?thesis using createMemory_known [OF _ e] e
    by (cases "may_create u n") (auto simp: reinforce_items reinforce_row_def createMemory_def may_create_def)
qed

lemma generate_one_settled:
  assumes "settled pf u p d s" "distinct (map me_id (memory_items s))"
  shows "map me_id (memory_items (snd (generate_one pf fresh now u d p s))) = map me_id (memory_items s)"
  using assms(1) unfolding settled_def
proof (elim disjE bexE conjE)
  assume "map_of (sg_generated p) (sl_id d) = None" and k: "known_content pf u (sample_input u d) s"
  then show ?thesis using known_create_ids [OF k, of fresh now]
    by (simp add: generate_one_def or_else_def Let_def case_prod_unfold)
next
  fix m assume m: "m \<in> set (memory_items s)" "sample_row pf u (sl_id d) m" "map_of (sg_generated p) (sl_id d) = Some (me_id m)" "me_id m \<noteq> []"
  obtain item where "fst (getMemory pf now (me_id m) u no_context s) = Some item"
    using sample_row_readable [OF m(1,2) assms(2), of now] by blast
  then show ?thesis using m(3,4) by (simp add: generate_one_def or_else_def Let_def case_prod_unfold)
qed

lemma generate_all_settled:
  assumes "\<And>d. d \<in> set ds \<Longrightarrow> settled pf u p d s" "distinct (map sl_id ds)" "distinct (map me_id (memory_items s))"
  shows "map me_id (memory_items (snd (generate_all pf fresh now u ds p s))) = map me_id (memory_items s)"
  using assms
proof (induction ds arbitrary: p s)
  case (Cons d ds)
  obtain r t where g: "generate_one pf (fresh (length ds)) now u d p s = (r, t)" by fastforce
  have st: "settled pf u p d s" using Cons.prems(1) by simp
  have ids: "map me_id (memory_items t) = map me_id (memory_items s)"
    using generate_one_settled [OF st Cons.prems(3), of "fresh (length ds)" now] by (simp add: g)
  show ?case
  proof (cases r)
    case (Inr o1)
    have k: "kept s t" using generate_one_kept [of s pf "fresh (length ds)" now u d p] by (simp add: g)
    have res: "\<And>k. k \<noteq> sl_id d \<Longrightarrow> map_of (sg_generated o1) k = map_of (sg_generated p) k"
      using generate_one_result(4) [of pf "fresh (length ds)" now u d p s o1] settled_linked [OF st] by (simp add: g Inr linked_def)
    have "settled pf u o1 d' t" if "d' \<in> set ds" for d'
    proof -
      have "sl_id d' \<noteq> sl_id d" using Cons.prems(2) that by (auto simp: image_iff)
      then show ?thesis using settled_kept [OF _ k] res Cons.prems(1) [of d'] that by simp
    qed
    then show ?thesis using Cons.IH [of o1 t] Cons.prems(2,3) ids by (simp add: g Inr)
  qed (simp add: g ids)
qed simp

definition requested_samples :: "jsstr list \<Rightarrow> memory_sample option list" where
  "requested_samples ids = map (\<lambda>i. head_option (filter (\<lambda>d. sl_id d = i) memorySampleCatalog)) (uniq ids)"

lemma requested_sample:
  assumes "None \<notin> set (requested_samples ids)" "i \<in> set (uniq ids)"
  obtains d where "head_option (filter (\<lambda>d. sl_id d = i) memorySampleCatalog) = Some d" "sl_id d = i" "i \<noteq> []"
proof -
  have "head_option (filter (\<lambda>d. sl_id d = i) memorySampleCatalog) \<in> set (requested_samples ids)"
    using assms(2) by (simp add: requested_samples_def)
  then obtain d where d: "head_option (filter (\<lambda>d. sl_id d = i) memorySampleCatalog) = Some d" using assms(1) by fastforce
  then have "d \<in> set memorySampleCatalog" "sl_id d = i" by (auto dest: head_option_filterD)
  moreover from this have "i \<noteq> []" using catalog_scores by (auto simp: list_all_iff)
  ultimately show thesis using d by (intro that)
qed

lemma requested_ids: "None \<notin> set (requested_samples ids) \<Longrightarrow> map sl_id (map the (requested_samples ids)) = uniq ids"
proof -
  assume n: "None \<notin> set (requested_samples ids)"
  have "sl_id (the (head_option (filter (\<lambda>d. sl_id d = i) memorySampleCatalog))) = i" if "i \<in> set (uniq ids)" for i
    using requested_sample [OF n that] by (metis option.sel)
  then show ?thesis unfolding requested_samples_def map_map by (intro map_idI) (simp add: o_def)
qed

lemma requested_named: "d \<in> set (map the (requested_samples ids)) \<Longrightarrow> None \<notin> set (requested_samples ids) \<Longrightarrow> sl_id d \<noteq> []"
proof -
  assume d: "d \<in> set (map the (requested_samples ids))" and n: "None \<notin> set (requested_samples ids)"
  have "sl_id d \<in> set (uniq ids)" using d requested_ids [OF n] by (metis imageI list.set_map)
  then show ?thesis using requested_sample [OF n] by metis
qed

text \<open>
  Generating samples. An unknown identifier changes nothing. If generation succeeds, it gives one
  memory for each sample asked for, however often it was named, and counts each as new or as existing.
  Generating the same samples again then adds no memory.
\<close>

theorem generation_is_idempotent:
  fixes pf fresh now u ids s again later
  defines "r \<equiv> generateMemorySamples pf fresh now u ids s"
  assumes "distinct (map me_id (memory_items (snd r)))" "[] \<notin> me_id ` set (memory_items (snd r))"
  shows "case fst r of
      Inl _ \<Rightarrow> None \<notin> set (requested_samples ids) \<or> snd r = s
    | Inr p \<Rightarrow> length (sg_memories p) = length (uniq ids) \<and> sg_created p + sg_existing p = length (uniq ids)
        \<and> map me_id (memory_items (snd (generateMemorySamples pf again later u ids (snd r)))) = map me_id (memory_items (snd r))"
proof (cases "None \<in> set (requested_samples ids)")
  case True
  then show ?thesis by (simp add: r_def generateMemorySamples_def requested_samples_def)
next
  case False
  define ds where "ds = map the (requested_samples ids)"
  define start where "start s = \<lparr>sg_generated = generatedSamples pf u s, sg_memories = [], sg_created = 0, sg_existing = 0\<rparr>" for s
  have run: "generateMemorySamples pf f n u ids t = generate_all pf f n u ds (start t) t" for f n t
    using False by (simp add: generateMemorySamples_def requested_samples_def [symmetric] ds_def start_def Let_def)
  have dist: "distinct (map sl_id ds)" "length ds = length (uniq ids)"
    unfolding ds_def using requested_ids [OF False] by (simp add: uniq_def del: map_map) (simp add: requested_samples_def)
  have named: "sl_id d \<noteq> []" if "d \<in> set ds" for d using that requested_named False by (simp add: ds_def)
  have linked: "linked pf u (start t) d t" if "d \<in> set ds" for d t
    using generated_row(1) [OF named [OF that], of pf u t] by (auto simp: linked_def start_def)
  show ?thesis
  proof (cases "fst r")
    case (Inr p)
    then have p: "fst (generate_all pf fresh now u ds (start s) s) = Inr p" by (simp add: r_def run)
    note res = generate_all_result [OF p dist(1) linked]
    have "settled pf u (start (snd r)) d (snd r)" if d: "d \<in> set ds" for d
    proof (cases "map_of (generatedSamples pf u (snd r)) (sl_id d)")
      case None
      moreover have "covered pf u d (snd r)" using res d by (simp add: r_def run)
      ultimately show ?thesis using generated_row(1) [OF named [OF d], of pf u "snd r"]
        by (auto simp: settled_def covered_def start_def)
    next
      case (Some k)
      then obtain m where "m \<in> set (memory_items (snd r))" "sample_row pf u (sl_id d) m" "me_id m = k"
        using generated_row(2) [OF named [OF d]] by blast
      moreover from this have "me_id m \<noteq> []" using assms(3) by (metis imageI)
      ultimately show ?thesis using Some by (auto simp: settled_def start_def)
    qed
    from generate_all_settled [OF this dist(1) assms(2)] show ?thesis
      using res dist(2) Inr by (simp add: run start_def)
  qed (use False in simp)
qed

text \<open>A sample generated by a new user.\<close>

definition drift :: "jsstr list" where
  [js_eval]: "drift = [js ''feature-flag-config-drift'', js ''feature-flag-config-drift'']"

lemma drift_requested: "requested_samples drift = [Some sample_feature_flag_config_drift]"
proof -
  have u: "uniq drift = [js ''feature-flag-config-drift'']" by (simp add: uniq_def drift_def)
  have i: "map (\<lambda>d. sl_id d = js ''feature-flag-config-drift'') memorySampleCatalog
      = [False, False, False, False, False, True, False, False, False]"
    using arg_cong [OF catalog_ids, of "map (\<lambda>i. i = js ''feature-flag-config-drift'')"] by (simp add: o_def)
  show ?thesis using i by (simp add: requested_samples_def u memorySampleCatalog_def)
qed

lemma drift_ids:
  "map me_id (memory_items (snd (generateMemorySamples demo_platform (\<lambda>_. demo_fresh) 1 demo_user drift empty_db))) = [demo_fresh 0]"
proof -
  let ?n = "sample_input demo_user sample_feature_flag_config_drift"
  have "same_content demo_user h empty_db = None" for h by (simp add: same_content_def empty_db_def sort_by_def)
  moreover have "may_create demo_user ?n" by (simp add: may_create_def sample_input_def)
  ultimately have "memory_items (snd (createMemory demo_platform demo_fresh 1 demo_user ?n empty_db))
      = [new_memory_row demo_platform (demo_fresh 0) 1 demo_user ?n]"
    by (simp add: createMemory_new insert_items) (simp add: empty_db_def)
  moreover have "generatedSamples demo_platform demo_user empty_db = []" by (simp add: generatedSamples_def empty_db_def sort_by_def)
  ultimately show ?thesis
    unfolding generateMemorySamples_def requested_samples_def [symmetric] drift_requested
    by (simp add: generate_one_def or_else_def Let_def case_prod_unfold new_memory_row_def split: sum.splits)
qed

theorem generation_is_idempotent_witness:
  "case fst (generateMemorySamples demo_platform (\<lambda>_. demo_fresh) 1 demo_user drift empty_db) of
      Inl _ \<Rightarrow> True
    | Inr p \<Rightarrow> length (sg_memories p) = 1
        \<and> map me_id (memory_items (snd (generateMemorySamples demo_platform (\<lambda>_. demo_fresh) 2 demo_user drift
            (snd (generateMemorySamples demo_platform (\<lambda>_. demo_fresh) 1 demo_user drift empty_db))))) = [demo_fresh 0]"
proof -
  have u: "length (uniq drift) = 1" by (simp add: uniq_def drift_def)
  let ?s = "snd (generateMemorySamples demo_platform (\<lambda>_. demo_fresh) 1 demo_user drift empty_db)"
  have i: "me_id ` set (memory_items ?s) = {demo_fresh 0}" using drift_ids by (metis list.set_map list.set(1) list.simps(15))
  have "demo_fresh 0 \<noteq> []" by (simp add: demo_fresh_def js_def)
  then show ?thesis
    using generation_is_idempotent [of demo_platform "\<lambda>_. demo_fresh" 1 demo_user drift empty_db "\<lambda>_. demo_fresh" 2]
    unfolding i drift_ids u by (simp split: sum.splits)
qed

end
