(* ===== verification/Approval_Laws.thy ===== *)
theory Approval_Laws
  imports Run_Laws
begin

section \<open>Approvals of a run\<close>

text \<open>
  An approval step is executed twice: first without a decision, which suspends the run and writes the
  request to the audit log, then with the decision of a user. This theory follows a run through both.
\<close>

text \<open>The rows of the run after a step wrote its state.\<close>

lemma own_publish [simp]: "own e (snd (publishStep r i st d x)) = own e (snd x)"
  by simp

lemma own_audit [simp]: "own e (addSecurityAuditEvent ev s) = own e s"
  using quiet_own [OF quiet_audit] by simp

definition approval_run ::
    "platform \<Rightarrow> run_world \<Rightarrow> run_env \<Rightarrow> step_info \<Rightarrow> moment \<Rightarrow> moment \<Rightarrow> bool \<times> jsstr option \<Rightarrow> wf_context \<Rightarrow> run_io \<Rightarrow>
       (step_result \<times> run_io) \<times> (step_result \<times> run_io)" where
  [js_eval]: "approval_run pf w e i t t' d c x =
     (let asked = execute_leaf pf w e t i None c x in (asked, execute_leaf pf w e t' i (Some d) c (snd asked)))"

definition waits_at :: "step_info \<Rightarrow> run_row \<Rightarrow> bool" where
  [js_eval]: "waits_at i r \<longleftrightarrow> rn_status r = RunSuspended \<and> rn_suspended r = si_id i"

lemma asked_step:
  assumes "si_type i = ApprovalStep"
  shows "fst (execute_leaf pf w e t i None c x) = Suspended (approval_message e i) (si_id i)"
    and "list_all (waits_at i) (own e (snd (snd (execute_leaf pf w e t i None c x))))"
    and "security_events (snd (snd (execute_leaf pf w e t i None c x))) =
      security_events (snd x) @ [approval_event pf e t i c ''approval.requested'' RequireApproval []]"
  using assms
  by (simp_all add: execute_leaf_def leaf_body_def approval_step_def Let_def list.pred_map o_def waits_at_def or_else_def)
     (simp add: list_all_iff)

lemma decided_step:
  assumes "si_type i = ApprovalStep" "list_all (waits_at i) (own e (snd x))"
  shows "case fst (execute_leaf pf w e t i (Some (yes, remark)) c x) of
      Finished c' \<Rightarrow> yes \<and> c' = with_result i (Obj [(js ''approved'', JBool True), (js ''comment'', Str (or_else remark []))]) c
    | Suspended _ _ \<Rightarrow> False
    | Broken m \<Rightarrow> \<not> yes \<and> (remark = None \<or> remark = Some [] \<or> remark = Some m)"
    and "list_all (\<lambda>r. if yes then rn_status r = RunRunning \<and> rn_suspended r = [] else rn_status r = RunFailed \<and> rn_suspended r = si_id i)
      (own e (snd (snd (execute_leaf pf w e t i (Some (yes, remark)) c x))))"
    and "security_events (snd (snd (execute_leaf pf w e t i (Some (yes, remark)) c x))) = security_events (snd x)
      @ [approval_event pf e t i c (if yes then ''approval.approved'' else ''approval.denied'') (if yes then Allow else Deny)
          [(js ''hasComment'', JBool (or_else remark [] \<noteq> []))]]"
  using assms
  by (simp_all add: execute_leaf_def leaf_body_def approval_step_def Let_def complete_step_def fail_step_def list.pred_map o_def or_else_def
      or_default_def split: option.splits)
     (auto simp: list_all_iff waits_at_def)

text \<open>
  C6. Asking always leads to an answerable question: executing an approval suspends the run and names the
  step, so that the run can be resumed, and the decision of the user always settles it. If the user
  approves, the step finishes with the decision as its result, the run goes on and cannot be resumed a
  second time. If the user refuses, the step breaks and the run fails; but it keeps the name of
  the suspended step, so the service still accepts a decision for it. The audit log gets the request and
  the decision, in this order and nothing else, under the name of the user.
\<close>

theorem approval_cycle:
  fixes pf w e i t t' yes remark c x
  defines "r \<equiv> approval_run pf w e i t t' (yes, remark) c x"
  assumes "si_type i = ApprovalStep" "si_id i \<noteq> []"
  shows "fst (fst r) = Suspended (approval_message e i) (si_id i)
    \<and> list_all (\<lambda>row. rn_status row = RunSuspended \<and> rn_suspended row \<noteq> []) (own e (snd (snd (fst r))))
    \<and> (case fst (snd r) of
         Finished c' \<Rightarrow> yes \<and> c' = with_result i (Obj [(js ''approved'', JBool True), (js ''comment'', Str (or_else remark []))]) c
       | Suspended _ _ \<Rightarrow> False
       | Broken m \<Rightarrow> \<not> yes)
    \<and> list_all (\<lambda>row. if yes then rn_status row = RunRunning \<and> rn_suspended row = []
                       else rn_status row = RunFailed \<and> rn_suspended row \<noteq> []) (own e (snd (snd (snd r))))
    \<and> map (\<lambda>a. (se_type a, se_user a, se_target a)) (drop (length (security_events (snd x))) (security_events (snd (snd (snd r))))) =
        [(js ''approval.requested'', user_id (re_user e), si_id i),
         (js (if yes then ''approval.approved'' else ''approval.denied''), user_id (re_user e), si_id i)]"
proof -
  let ?x = "snd (execute_leaf pf w e t i None c x)"
  note asked = asked_step [OF assms(2), where pf = pf and w = w and e = e and t = t and c = c and x = x]
  note decided = decided_step [OF assms(2) asked(2), where pf = pf and w = w and t = t' and yes = yes and remark = remark and c = c]
  have r: "r = (execute_leaf pf w e t i None c x, execute_leaf pf w e t' i (Some (yes, remark)) c ?x)"
    by (simp add: r_def approval_run_def Let_def)
  have "list_all (\<lambda>row. rn_status row = RunSuspended \<and> rn_suspended row \<noteq> []) (own e (snd ?x))"
    using asked(2) assms(3) by (simp add: list_all_iff waits_at_def)
  moreover have "list_all (\<lambda>row. if yes then rn_status row = RunRunning \<and> rn_suspended row = []
      else rn_status row = RunFailed \<and> rn_suspended row \<noteq> []) (own e (snd (snd (snd r))))"
    using decided(2) assms(3) unfolding r by (auto simp: list_all_iff)
  moreover have "case fst (snd r) of
         Finished c' \<Rightarrow> yes \<and> c' = with_result i (Obj [(js ''approved'', JBool True), (js ''comment'', Str (or_else remark []))]) c
       | Suspended _ _ \<Rightarrow> False | Broken m \<Rightarrow> \<not> yes"
    using decided(1) unfolding r by (simp split: step_result.splits)
  ultimately show ?thesis using asked(1,3) decided(3) unfolding r by (simp add: approval_event_def)
qed

theorem approval_cycle_witness:
  "map (\<lambda>row. (rn_status row, rn_suspended row)) (own demo_env (snd (snd (snd (approval_run demo_platform demo_world demo_env
     (plain_info (js ''ok'') (js ''ok'') ApprovalStep) demo_moment demo_moment (False, None) (demo_context ''m'') ([], start_run))))))
   = [(RunFailed, js ''ok'')]"
proof -
  let ?i = "plain_info (js ''ok'') (js ''ok'') ApprovalStep"
  let ?r = "approval_run demo_platform demo_world demo_env ?i demo_moment demo_moment (False, None) (demo_context ''m'') ([], start_run)"
  have "si_type ?i = ApprovalStep" "si_id ?i \<noteq> []" by (simp_all add: plain_info_def js_def)
  from approval_cycle [OF this, where pf = demo_platform and w = demo_world and e = demo_env and t = demo_moment and t' = demo_moment
      and yes = False and remark = None and c = "demo_context ''m''" and x = "([], start_run)"]
  have "list_all (\<lambda>row. rn_status row = RunFailed \<and> rn_suspended row \<noteq> []) (own demo_env (snd (snd (snd ?r))))" by simp
  moreover have "map (\<lambda>row. rn_suspended row) (own demo_env (snd (snd (snd ?r)))) = [js ''ok'']" unfolding own_def by code_simp
  ultimately show ?thesis by (cases "own demo_env (snd (snd (snd ?r)))") auto
qed

subsection \<open>The security check asks always\<close>

text \<open>
  The check judges the message as if it were to be operated on, so its decision is never to allow.
\<close>

lemma operating_is_not_allowed:
  "sx_mode y = Operate \<Longrightarrow> dr_decision (fst (evaluateInputSecurity pf uuid now y s)) \<noteq> Allow"
  by (simp add: evaluateInputSecurity_def decide_input_def Let_def case_prod_unfold)

lemma security_path: "filter (\<lambda>w. w \<noteq> []) (str_split 46 (js ''results.security.decision'')) = [js ''results'', js ''security'', js ''decision'']"
  by code_simp

lemma security_names: "js ''message'' \<noteq> js ''results''" "js ''results'' \<noteq> js ''message''" "js ''traceId'' \<noteq> js ''decision''"
  "js ''require-approval'' \<noteq> []" "js (decision_text RequireApproval) = js ''require-approval''"
  by (simp_all add: js_def)

text \<open>
  So in the built-in workflow of security decisions the branch for harmless requests, which only plans a
  diagnosis, is never taken: whatever the request, it goes to the approval if it is not refused.
\<close>

theorem security_check_leads_to_approval:
  "case fst (security_step pf e t ((plain_info (js ''security'') name SecurityCheckStep)) c x) of
     Finished c' \<Rightarrow> compareRule pf c' security_rule
   | Suspended _ _ \<Rightarrow> False
   | Broken _ \<Rightarrow> True"
proof -
  let ?y = "\<lparr>sx_user = re_user e, sx_text = cx_message c, sx_mode = Operate, sx_source = AuWorkflow, sx_thread = [], sx_trace = []\<rparr>"
  obtain r s where r: "evaluateInputSecurity pf (mm_uuid t) (mm_now t) ?y (snd x) = (r, s)" by fastforce
  have n: "dr_decision r \<noteq> Allow" using operating_is_not_allowed [of ?y pf "mm_uuid t" "mm_now t" "snd x"] by (simp add: r)
  show ?thesis
  proof (cases "dr_decision r = Deny")
    case True
    then show ?thesis by (simp add: security_step_def r Let_def)
  next
    case False
    then have d: "dr_decision r = RequireApproval" using n by (cases "dr_decision r") simp_all
    have "compareRule pf (with_result (plain_info (js ''security'') name SecurityCheckStep) (Obj (decision_fields r)) c) security_rule"
      by (simp add: compareRule_def security_rule_def readPath_def security_path context_value_def with_result_def plain_info_def
          read_segment_def decision_fields_def d security_names reached_text_def)
    then show ?thesis using d by (simp add: security_step_def r Let_def)
  qed
qed

end
