(* ===== verification/Url_Text.thy ===== *)
theory Url_Text
  imports Bytes
begin

section \<open>Percent encoding\<close>

text \<open>
  \<open>encodeURIComponent\<close> and \<open>decodeURIComponent\<close>, by which the agent hands the question of a
  conversation to the MCP server in a header, and by which attachments are read. A text with a lone
  surrogate has no encoding: the function throws, here \<open>None\<close>. Decoding inverts encoding.
\<close>

definition unreserved :: "nat \<Rightarrow> bool" where
  [js_eval]: "unreserved u \<longleftrightarrow> 65 \<le> u \<and> u \<le> 90 \<or> 97 \<le> u \<and> u \<le> 122 \<or> 48 \<le> u \<and> u \<le> 57
     \<or> u \<in> {45, 95, 46, 33, 126, 42, 39, 40, 41}"

definition hex_upper :: "nat \<Rightarrow> nat" where
  [js_eval]: "hex_upper k = (if k < 10 then 48 + k else 55 + k)"

definition percent_byte :: "nat \<Rightarrow> jsstr" where
  [js_eval]: "percent_byte b = (if unreserved b then [b] else [37, hex_upper (b div 16), hex_upper (b mod 16)])"

definition encodeURIComponent :: "jsstr \<Rightarrow> jsstr option" where
  [js_eval]: "encodeURIComponent s = (if well_formed s = s then Some (concat (map percent_byte (utf8_bytes s))) else None)"

definition hex_value :: "nat \<Rightarrow> nat option" where
  [js_eval]: "hex_value c = (if 48 \<le> c \<and> c \<le> 57 then Some (c - 48) else if 65 \<le> c \<and> c \<le> 70 then Some (c - 55)
     else if 97 \<le> c \<and> c \<le> 102 then Some (c - 87) else None)"

text \<open>
  The text cut into units that stand for themselves and bytes behind a percent sign; \<open>None\<close> for a
  percent sign without two hexadecimal digits.
\<close>

datatype mark = Plain nat | Escaped nat

fun marks :: "jsstr \<Rightarrow> mark list option" where
  "marks [] = Some []"
| "marks (u # s) =
     (if u \<noteq> 37 then map_option ((#) (Plain u)) (marks s)
      else (case s of
          h # l # r \<Rightarrow> (case (hex_value h, hex_value l) of
              (Some a, Some b) \<Rightarrow> map_option ((#) (Escaped (a * 16 + b))) (marks r)
            | _ \<Rightarrow> None)
        | _ \<Rightarrow> None))"

text \<open>
  A run of escaped bytes is decoded if it is UTF-8 throughout, that is, if encoding what it decodes
  to gives it back.
\<close>

definition strict_text :: "nat list \<Rightarrow> jsstr option" where
  [js_eval]: "strict_text bs = (let t = utf8_text bs in if utf8_bytes t = bs then Some t else None)"

fun decode_marks :: "nat list \<Rightarrow> mark list \<Rightarrow> jsstr option" where
  "decode_marks run [] = strict_text run"
| "decode_marks run (Escaped b # ms) = decode_marks (run @ [b]) ms"
| "decode_marks run (Plain u # ms) =
     (case strict_text run of None \<Rightarrow> None | Some t \<Rightarrow> map_option (\<lambda>r. t @ u # r) (decode_marks [] ms))"

definition decodeURIComponent :: "jsstr \<Rightarrow> jsstr option" where
  [js_eval]: "decodeURIComponent s = (case marks s of None \<Rightarrow> None | Some ms \<Rightarrow> decode_marks [] ms)"

subsection \<open>Decoding inverts encoding\<close>

lemma hex_value_upper: "k < 16 \<Longrightarrow> hex_value (hex_upper k) = Some k"
  by (auto simp: hex_value_def hex_upper_def)

lemma unreserved_not_percent: "unreserved u \<Longrightarrow> u \<noteq> 37"
  by (auto simp: unreserved_def)

lemma unreserved_below: "unreserved u \<Longrightarrow> u < 128"
  by (auto simp: unreserved_def)

lemma marks_byte: "b < 256 \<Longrightarrow> marks (percent_byte b @ s) =
    map_option ((#) (if unreserved b then Plain b else Escaped b)) (marks s)"
proof -
  assume "b < 256"
  then have "b div 16 < 16" by (simp add: div_less_iff_less_mult)
  then show ?thesis
    by (simp add: percent_byte_def hex_value_upper unreserved_not_percent)
qed

definition mark_of :: "nat \<Rightarrow> mark" where
  "mark_of b = (if unreserved b then Plain b else Escaped b)"

lemma marks_bytes: "list_all (\<lambda>b. b < 256) bs \<Longrightarrow> marks (concat (map percent_byte bs)) = Some (map mark_of bs)"
  by (induction bs) (simp_all add: marks_byte mark_of_def)

text \<open>A well-formed text is a sequence of code points: single units and surrogate pairs.\<close>

lemma well_formed_cases:
  assumes "well_formed (u # s) = u # s" "is_text (u # s)"
  obtains "\<not> high_surrogate u" "\<not> low_surrogate u" "well_formed s = s" "u < 65536"
  | v r where "s = v # r" "high_surrogate u" "low_surrogate v" "well_formed r = r"
proof (cases "high_surrogate u")
  case True
  then have u: "u \<noteq> 65533" by (auto simp: high_surrogate_def)
  then obtain v r where "s = v # r" "low_surrogate v" "well_formed r = r"
    using True assms(1) by (cases s) (auto split: if_splits)
  then show thesis using that(2) True by blast
next
  case False
  then have "\<not> low_surrogate u" using assms(1) by (auto simp: low_surrogate_def split: if_splits)
  then show thesis using that(1) False assms by (auto simp: is_text_def)
qed

lemma utf8_bytes_append:
  assumes "well_formed p = p" "is_text p"
  shows "utf8_bytes (p @ q) = utf8_bytes p @ utf8_bytes q"
  using assms
proof (induction p rule: well_formed.induct)
  case (2 u s)
  from "2.prems" show ?case
  proof (cases rule: well_formed_cases)
    case 1
    then show ?thesis using 2 by (simp add: is_text_def)
  next
    case (2 v r)
    then show ?thesis using "2.IH"(1) "2.prems" by (simp add: is_text_def)
  qed
qed simp

lemma well_formed_append: "well_formed p = p \<Longrightarrow> is_text p \<Longrightarrow> well_formed q = q \<Longrightarrow> well_formed (p @ q) = p @ q"
proof (induction p rule: well_formed.induct)
  case (2 u s)
  from "2.prems"(1,2) show ?case
  proof (cases rule: well_formed_cases)
    case 1
    then show ?thesis using 2 by (simp add: is_text_def)
  next
    case (2 v r)
    then show ?thesis using "2.IH"(1) "2.prems" by (simp add: is_text_def)
  qed
qed simp

lemma strict_text_utf8: "well_formed p = p \<Longrightarrow> is_text p \<Longrightarrow> strict_text (utf8_bytes p) = Some p"
  by (simp add: strict_text_def utf8_round_trip)

text \<open>Bytes of a code point above the ASCII range are all escaped.\<close>

lemma escaped_run: "list_all (\<lambda>b. \<not> unreserved b) bs \<Longrightarrow> decode_marks run (map mark_of bs @ ms) = decode_marks (run @ bs) ms"
  by (induction bs arbitrary: run) (simp_all add: mark_of_def)

lemma high_bytes: "list_all (\<lambda>b. 128 \<le> b) bs \<Longrightarrow> list_all (\<lambda>b. \<not> unreserved b) bs"
  by (meson list_all_iff not_less unreserved_below)

lemma unit_bytes_plain: "unreserved u \<Longrightarrow> unit_bytes u = [u]"
  using unreserved_below [of u] by (simp add: unit_bytes_def)

lemma unit_bytes_escaped: "\<not> unreserved u \<Longrightarrow> list_all (\<lambda>b. \<not> unreserved b) (unit_bytes u)"
proof (cases "u < 128")
  case False
  then have "list_all (\<lambda>b. 128 \<le> b) (unit_bytes u)" by (auto simp: unit_bytes_def)
  then show ?thesis by (rule high_bytes)
qed (simp add: unit_bytes_def)

lemma pair_bytes_escaped: "list_all (\<lambda>b. \<not> unreserved b) (pair_bytes u v)"
  by (rule high_bytes) (simp add: pair_bytes_def Let_def)

lemma decode_utf8:
  assumes "well_formed p = p" "is_text p" "well_formed q = q" "is_text q"
  shows "decode_marks (utf8_bytes p) (map mark_of (utf8_bytes q)) = Some (p @ q)"
  using assms
proof (induction "length q" arbitrary: p q rule: less_induct)
  case less
  show ?case
  proof (cases q)
    case Nil
    then show ?thesis using less.prems by (simp add: strict_text_utf8)
  next
    case (Cons u s)
    have "well_formed (u # s) = u # s" "is_text (u # s)" using less.prems Cons by simp_all
    then show ?thesis
    proof (cases rule: well_formed_cases)
      case 1
      have s: "is_text s" using less.prems(4) Cons by (simp add: is_text_def)
      have b: "utf8_bytes (u # s) = unit_bytes u @ utf8_bytes s" using 1 by simp
      have pu: "well_formed (p @ [u]) = p @ [u]" "is_text (p @ [u])"
        using 1 less.prems by (simp_all add: well_formed_append is_text_def)
      show ?thesis
      proof (cases "unreserved u")
        case True
        have "decode_marks (utf8_bytes []) (map mark_of (utf8_bytes s)) = Some ([] @ s)"
          using less.hyps [of s "[]"] 1 s Cons by (simp add: is_text_def)
        then show ?thesis unfolding Cons b using True less.prems
          by (simp add: unit_bytes_plain mark_of_def strict_text_utf8)
      next
        case False
        have "decode_marks (utf8_bytes (p @ [u])) (map mark_of (utf8_bytes s)) = Some ((p @ [u]) @ s)"
          using less.hyps [of s "p @ [u]"] 1 s pu Cons by simp
        then show ?thesis unfolding Cons b using False 1 less.prems
          by (simp add: escaped_run unit_bytes_escaped utf8_bytes_append)
      qed
    next
      case (2 v r)
      have r: "is_text r" using less.prems(4) Cons 2 by (simp add: is_text_def)
      have b: "utf8_bytes (u # s) = pair_bytes u v @ utf8_bytes r" using 2 by simp
      have w: "well_formed [u, v] = [u, v]" using 2 by simp
      have pu: "well_formed (p @ [u, v]) = p @ [u, v]" "is_text (p @ [u, v])"
        using well_formed_append [OF less.prems(1,2) w] less.prems(2,4) Cons 2 by (simp_all add: is_text_def)
      have "decode_marks (utf8_bytes (p @ [u, v])) (map mark_of (utf8_bytes r)) = Some ((p @ [u, v]) @ r)"
        using less.hyps [of r "p @ [u, v]"] 2 r pu Cons by simp
      then show ?thesis unfolding Cons b using 2 less.prems
        by (simp add: escaped_run pair_bytes_escaped utf8_bytes_append)
    qed
  qed
qed

lemma percent_round_trip:
  assumes "is_text s" "encodeURIComponent s = Some t"
  shows "decodeURIComponent t = Some s"
proof -
  have w: "well_formed s = s" and t: "t = concat (map percent_byte (utf8_bytes s))"
    using assms(2) by (simp_all add: encodeURIComponent_def split: if_splits)
  have "marks t = Some (map mark_of (utf8_bytes s))" unfolding t using assms(1) by (intro marks_bytes utf8_below)
  then show ?thesis using decode_utf8 [of "[]" s] w assms(1) by (simp add: decodeURIComponent_def is_text_def)
qed

text \<open>An encoded text is printable ASCII, so it passes through a header.\<close>

lemma percent_byte_ascii: "b < 256 \<Longrightarrow> list_all (\<lambda>u. 33 \<le> u \<and> u < 127) (percent_byte b)"
proof -
  assume b: "b < 256"
  have hex: "k < 16 \<Longrightarrow> 33 \<le> hex_upper k \<and> hex_upper k < 127" for k by (simp add: hex_upper_def)
  have plain: "unreserved b \<Longrightarrow> 33 \<le> b \<and> b < 127" by (auto simp: unreserved_def)
  from b have "b div 16 < 16" "b mod 16 < 16" by (simp_all add: div_less_iff_less_mult)
  then show ?thesis using hex plain by (simp add: percent_byte_def)
qed

lemma encoded_ascii:
  assumes "is_text s" "encodeURIComponent s = Some t"
  shows "list_all (\<lambda>u. 33 \<le> u \<and> u < 127) t"
proof -
  have t: "t = concat (map percent_byte (utf8_bytes s))"
    using assms(2) by (simp add: encodeURIComponent_def split: if_splits)
  have "list_all (\<lambda>u. 33 \<le> u \<and> u < 127) (concat (map percent_byte bs))" if "list_all (\<lambda>b. b < 256) bs" for bs
    using that by (induction bs) (simp_all add: percent_byte_ascii)
  then show ?thesis unfolding t using utf8_below [OF assms(1)] by blast
qed

lemma encode_empty: "encodeURIComponent s = Some t \<Longrightarrow> t = [] \<longleftrightarrow> s = []"
proof -
  assume "encodeURIComponent s = Some t"
  then have t: "t = concat (map percent_byte (utf8_bytes s))" by (simp add: encodeURIComponent_def split: if_splits)
  have "utf8_bytes s \<noteq> []" if "s \<noteq> []" using that
    by (cases s) (auto simp: unit_bytes_def pair_bytes_def Let_def split: list.splits)
  moreover have "percent_byte b \<noteq> []" for b by (simp add: percent_byte_def)
  ultimately show ?thesis unfolding t by (cases s; cases "utf8_bytes s") auto
qed

end
