(* ===== verification/Server_Auth.thy ===== *)
theory Server_Auth
  imports Settings Url_Text
begin

section \<open>Who is asking (\<open>auth.ts\<close>, \<open>mcp/client.ts\<close>, \<open>mcp/server.ts\<close>)\<close>

text \<open>
  Authentication of the HTTP interface and of the MCP interface, and the headers by which the agent
  passes its user and its conversation on to the MCP server of the same service. The service that
  knows the roles and \<open>JSON.parse\<close> are parameters; a message of an error is \<open>Inl\<close>.
\<close>

subsection \<open>Tokens\<close>

text \<open>
  \<open>/^Bearer\s+(.+)$/i\<close>: the spaces are taken greedily, so the token starts with none; only if nothing
  else follows, one of several spaces is left to it. A dot matches no line break.
\<close>

definition bearerToken :: "jsstr \<Rightarrow> jsstr" where
  [js_eval]: "bearerToken h =
     (let word = take 6 h; rest = drop 6 h; token = trim_left rest
      in if \<not> (length word = 6 \<and> list_all2 ci_eq (js ''bearer'') word) \<or> rest = [] \<or> \<not> is_space (hd rest) then []
         else if token \<noteq> [] then (if list_ex line_break token then [] else token)
         else if length rest < 2 \<or> line_break (last rest) then [] else [last rest])"

text \<open>What the service of roles answers for a token and an encoded user identifier.\<close>

datatype role_answer = RoleUnreachable jsstr | RoleRefused | RoleAnswer jsval

record identity_service =
  id_parse :: "jsstr \<Rightarrow> jsstr + jsval"
  id_role :: "jsstr \<Rightarrow> jsstr \<Rightarrow> role_answer"

text \<open>Reading a property; of \<open>null\<close> and \<open>undefined\<close> there is none to read.\<close>

definition read_prop :: "jsval \<Rightarrow> string \<Rightarrow> jsstr + jsval" where
  [js_eval]: "read_prop v k = (case v of
     Obj kvs \<Rightarrow> Inr (get_prop kvs (js k))
   | Null \<Rightarrow> Inl (js ''Cannot read properties of null (reading '' @ [39] @ js k @ [39, 41])
   | Undef \<Rightarrow> Inl (js ''Cannot read properties of undefined (reading '' @ [39] @ js k @ [39, 41])
   | _ \<Rightarrow> Inr Undef)"

definition decodeClaims :: "identity_service \<Rightarrow> jsstr \<Rightarrow> jsstr + jsval" where
  [js_eval]: "decodeClaims d token =
     (let parts = str_split 46 token; payload = (if 1 < length parts then parts ! 1 else [])
      in if payload = [] then Inl ([26080, 25928, 30340, 35775, 38382, 20196, 29260])
         else id_parse d (utf8_text (from_base64url payload)))"

text \<open>\<open>toUpperCase\<close> on the letters that can become one of the letters of a role.\<close>

definition upper_unit :: "nat \<Rightarrow> nat" where
  [js_eval]: "upper_unit u = (if 97 \<le> u \<and> u \<le> 122 then u - 32 else if u = 305 then 73 else if u = 383 then 83 else u)"

definition role_of :: "jsstr \<Rightarrow> user_role" where
  [js_eval]: "role_of s = (let t = map upper_unit s
     in if t = js ''ADMIN'' then Admin else if t = js ''EDITOR'' then Editor else Viewer)"

definition first_present :: "jsval list \<Rightarrow> jsval" where
  [js_eval]: "first_present vs = or_else (head_option (filter truthy vs)) (Str (js ''VIEWER''))"

text \<open>\<open>rolePayload.data?.x\<close> is \<open>undefined\<close> without data; the payload itself must not be \<open>null\<close>.\<close>

definition role_text :: "platform \<Rightarrow> jsval \<Rightarrow> jsstr + jsstr" where
  [js_eval]: "role_text pf payload =
     (case read_prop payload ''data'' of
        Inl m \<Rightarrow> Inl m
      | Inr d \<Rightarrow>
          (let inner = (\<lambda>k. case d of Obj kvs \<Rightarrow> get_prop kvs (js k) | _ \<Rightarrow> Undef);
               outer = (\<lambda>k. case payload of Obj kvs \<Rightarrow> get_prop kvs (js k) | _ \<Rightarrow> Undef)
           in Inr (text_of pf (first_present [inner ''group_name'', inner ''groupName'', outer ''group_name'', outer ''groupName'']))))"

definition claim :: "platform \<Rightarrow> jsval \<Rightarrow> string \<Rightarrow> jsstr \<Rightarrow> jsstr" where
  [js_eval]: "claim pf claims k d = (case read_prop claims k of Inl _ \<Rightarrow> d | Inr v \<Rightarrow> text_or pf v d)"

definition authenticateToken :: "platform \<Rightarrow> identity_service \<Rightarrow> jsstr \<Rightarrow> jsstr + auth_user" where
  [js_eval]: "authenticateToken pf d token =
     (case decodeClaims d token of
        Inl m \<Rightarrow> Inl m
      | Inr claims \<Rightarrow>
          (case read_prop claims ''id'' of
             Inl m \<Rightarrow> Inl m
           | Inr v \<Rightarrow>
               (let i = text_or pf v []
                in if i = [] then Inl ([20196, 29260, 32570, 23569, 29992, 25143, 26631, 35782])
                   else (case encodeURIComponent i of
                       None \<Rightarrow> Inl (js ''URI malformed'')
                     | Some segment \<Rightarrow>
                         (case id_role d token segment of
                            RoleUnreachable m \<Rightarrow> Inl m
                          | RoleRefused \<Rightarrow> Inl ([30331, 24405, 29366, 24577, 24050, 22833, 25928])
                          | RoleAnswer payload \<Rightarrow>
                              (case role_text pf payload of
                                 Inl m \<Rightarrow> Inl m
                               | Inr r \<Rightarrow> Inr \<lparr>user_id = i, user_org = claim pf claims ''orgId'' (js ''default''),
                                   user_email = claim pf claims ''email'' [], user_role = role_of r, user_token = token\<rparr>))))))"

text \<open>The middleware of every path but \<open>/health\<close>; \<open>Inl\<close> is answered with status 401.\<close>

definition authenticate :: "platform \<Rightarrow> identity_service \<Rightarrow> jsstr option \<Rightarrow> jsstr + auth_user" where
  [js_eval]: "authenticate pf d header =
     (let token = bearerToken (or_else header [])
      in if token = [] then Inl ([38656, 35201, 30331, 24405]) else authenticateToken pf d token)"

definition requireAdmin :: "auth_user \<Rightarrow> bool" where
  [js_eval]: "requireAdmin u \<longleftrightarrow> user_role u = Admin"

subsection \<open>The tools behind MCP\<close>

record server_definition =
  sd_url :: jsstr
  sd_headers :: jsval
  sd_connect :: int

definition externalDefinition :: "mcp_view \<Rightarrow> server_definition" where
  [js_eval]: "externalDefinition w = \<lparr>sd_url = mw_url w, sd_headers = mw_headers w, sd_connect = min (mw_timeout w) 10000\<rparr>"

definition externalServerKey :: "mcp_view \<Rightarrow> jsstr" where
  [js_eval]: "externalServerKey w = js ''plugin_'' @ map (\<lambda>u. if u = 45 then 95 else u) (mw_id w)"

text \<open>The headers for the service's own server; \<open>None\<close> is the exception of \<open>encodeURIComponent\<close>.\<close>

definition context_headers :: "capture_context option \<Rightarrow> headers option" where
  [js_eval]: "context_headers x = (case x of
     None \<Rightarrow> Some []
   | Some c \<Rightarrow> map_option (\<lambda>q. [(js ''X-Scry-Thread-Id'', ctx_thread c), (js ''X-Scry-Trace-Id'', ctx_trace c),
         (js ''X-Scry-Evidence-Query'', q)]) (encodeURIComponent (take 8000 (ctx_query c))))"

definition own_headers :: "auth_user \<Rightarrow> capture_context option \<Rightarrow> headers option" where
  [js_eval]: "own_headers u x = map_option (\<lambda>hs. [(js ''Authorization'', js ''Bearer '' @ user_token u),
     (js ''X-Scry-Organization'', user_org u)] @ hs) (context_headers x)"

text \<open>The servers an agent is connected to: the service itself and the enabled servers of its organisation.\<close>

definition toolset_servers ::
    "vault \<Rightarrow> jsstr \<Rightarrow> int \<Rightarrow> auth_user \<Rightarrow> capture_context option \<Rightarrow> agent_db \<Rightarrow> (jsstr \<times> server_definition) list option" where
  [js_eval]: "toolset_servers v url timeout u x s =
     map_option (\<lambda>hs. fold (\<lambda>w m. put_prop m (externalServerKey w) (externalDefinition w)) (listMCPServers v (user_org u) True True s)
       [(js ''scry'', \<lparr>sd_url = url, sd_headers = headers_value hs, sd_connect = min timeout 10000\<rparr>)]) (own_headers u x)"

text \<open>The library lists the tools of all servers; only the own server is indispensable.\<close>

definition createScryMCPToolset ::
    "vault \<Rightarrow> jsstr \<Rightarrow> int \<Rightarrow> ((jsstr \<times> server_definition) list \<Rightarrow> 't \<times> (jsstr \<times> jsstr) list) \<Rightarrow>
       auth_user \<Rightarrow> capture_context option \<Rightarrow> agent_db \<Rightarrow> jsstr + 't" where
  [js_eval]: "createScryMCPToolset v url timeout connect u x s =
     (case toolset_servers v url timeout u x s of
        None \<Rightarrow> Inl (js ''URI malformed'')
      | Some servers \<Rightarrow>
          (let (tools, errors) = connect servers
           in case map_of errors (js ''scry'') of
                Some m \<Rightarrow> if m = [] then Inr tools else Inl (js ''Scry MCP Server '' @ ([19981, 21487, 29992, 65306]) @ m)
              | None \<Rightarrow> Inr tools))"

definition inspectMCPServer ::
    "((jsstr \<times> server_definition) list \<Rightarrow> (jsstr \<times> jsstr option) list \<times> (jsstr \<times> jsstr) list) \<Rightarrow> mcp_view \<Rightarrow>
       (jsstr \<times> jsstr) list \<times> jsstr" where
  [js_eval]: "inspectMCPServer connect w =
     (let key = externalServerKey w; (tools, errors) = connect [(key, externalDefinition w)]
      in (map (map_prod id (\<lambda>d. or_else d [])) tools, or_else (map_of errors key) []))"

text \<open>Names of headers are read without regard to case.\<close>

definition header :: "headers \<Rightarrow> string \<Rightarrow> jsstr" where
  [js_eval]: "header hs name = or_else (map_of (map (map_prod to_lower id) hs) (js name)) []"

definition read_context :: "headers \<Rightarrow> capture_context option" where
  [js_eval]: "read_context hs =
     (let thread = header hs ''x-scry-thread-id''; trace = header hs ''x-scry-trace-id''; q = header hs ''x-scry-evidence-query''
      in if thread \<noteq> [] \<and> trace \<noteq> []
         then Some \<lparr>ctx_thread = thread, ctx_trace = trace, ctx_query = or_else (decodeURIComponent q) []\<rparr> else None)"

text \<open>\<open>handleScryMCPRequest\<close>: whose tools a request uses, and for which conversation; \<open>Inl\<close> is status 401.\<close>

definition mcp_session :: "platform \<Rightarrow> identity_service \<Rightarrow> headers \<Rightarrow> jsstr + auth_user \<times> capture_context option" where
  [js_eval]: "mcp_session pf d hs =
     (let token = bearerToken (header hs ''authorization'')
      in if token = [] then Inl (js ''MCP '' @ ([35831, 27714, 38656, 35201]) @ js '' Scry '' @ ([35775, 38382, 20196, 29260]))
         else map_sum id (\<lambda>u. (u, read_context hs)) (authenticateToken pf d token))"

subsection \<open>Facts\<close>

text \<open>A token survives being sent on as a header.\<close>

lemma trim_left_token: "t \<noteq> [] \<Longrightarrow> \<not> is_space (hd t) \<Longrightarrow> trim_left t = t"
  by (cases t) (simp_all add: trim_left_def)

lemma bearer_again:
  assumes "t \<noteq> []" "\<not> is_space (hd t)" "\<not> list_ex line_break t"
  shows "bearerToken (js ''Bearer '' @ t) = t"
proof -
  have b: "js ''Bearer '' @ t = [66, 101, 97, 114, 101, 114] @ 32 # t" by (simp add: js_def)
  have "list_all2 ci_eq (js ''bearer'') [66, 101, 97, 114, 101, 114]" by code_simp
  moreover have "is_space 32" by code_simp
  moreover have "trim_left (32 # t) = t" using \<open>is_space 32\<close> trim_left_token [OF assms(1,2)] by (simp add: trim_left_def)
  ultimately show ?thesis using assms unfolding b by (simp add: bearerToken_def Let_def)
qed

lemma bearer_token:
  assumes "bearerToken h = t" "46 \<in> set t"
  shows "t \<noteq> [] \<and> \<not> is_space (hd t) \<and> \<not> list_ex line_break t"
proof -
  have no: "\<not> is_space 46" by code_simp
  consider "t = []" | "t = trim_left (drop 6 h)" "\<not> list_ex line_break t" "t \<noteq> []" | "t = [last (drop 6 h)]" "trim_left (drop 6 h) = []" "drop 6 h \<noteq> []"
    using assms(1) by (auto simp: bearerToken_def Let_def split: if_splits)
  then show ?thesis
  proof cases
    case 2
    then show ?thesis using hd_dropWhile [of is_space "drop 6 h"] by (simp add: trim_left_def)
  next
    case 3
    then have "is_space (last (drop 6 h))" using last_in_set [OF 3(3)] by (simp add: trim_left_def dropWhile_eq_Nil_conv del: last_drop)
    then show ?thesis using 3 no assms(2) by auto
  qed (use assms(2) in simp)
qed

lemma str_split_single: "x \<notin> set s \<Longrightarrow> str_split x s = [s]"
  by (induction s) simp_all

lemma authenticated_token:
  assumes "authenticateToken pf d t = Inr u"
  shows "46 \<in> set t" "user_token u = t"
proof -
  show "46 \<in> set t"
  proof (rule ccontr)
    assume "46 \<notin> set t"
    then have "decodeClaims d t = Inl [26080, 25928, 30340, 35775, 38382, 20196, 29260]"
      by (simp add: decodeClaims_def str_split_single)
    then show False using assms by (simp add: authenticateToken_def)
  qed
  show "user_token u = t"
    using assms by (auto simp: authenticateToken_def Let_def split: sum.splits if_splits option.splits role_answer.splits)
qed

end
