(* ===== verification/Agent_Prompt.thy ===== *)
theory Agent_Prompt
  imports Settings
begin

section \<open>What an agent is told (\<open>agent.ts\<close>, \<open>mcp/protocol.ts\<close>)\<close>

text \<open>
  The instructions of an agent: the rules, the protocols of the tools, what its mode means, the
  instructions of the administrator and the memories retrieved for the question. The texts are lists of
  lines.
\<close>

definition MCP_TOOL_CALL_PROTOCOL :: jsstr where
  "MCP_TOOL_CALL_PROTOCOL = str_join [10]
    [(js ''MCP '' @ [24037, 20855, 35843, 29992, 21327, 35758, 65306]),
     (js ''1. '' @ [24037, 20855, 21517, 31216, 21644, 21442, 25968, 21482, 20197, 24403, 21069,
      24037, 20855, 30446, 24405, 21450] @ js '' inputSchema '' @ [20026, 20934, 65292, 19981,
      24471, 26681, 25454, 24213, 23618] @ js '' HTTP '' @ [25509, 21475, 12289, 26087, 26085,
      24535, 25110, 30456, 20284, 24037, 20855, 29468, 27979, 26684, 24335, 12290]),
     (js ''2. '' @ [27599, 27425, 35843, 29992, 30452, 25509, 25552, 20132, 19968, 20010, 19982] @
      js '' inputSchema '' @ [21305, 37197, 30340] @ js '' JSON '' @ [23545, 35937, 65307, 19981,
      24471, 39069, 22806, 28155, 21152] @ js '' args'' @ [12289] @ js ''arguments'' @ [12289] @
      js ''input'' @ [12289] @ js ''payload'' @ [12289] @ js ''request'' @ [12289] @ js ''body ''
      @ [25110] @ js '' query '' @ [21253, 35013, 23618, 12290]),
     (js ''3. '' @ [26080, 21442, 25968, 24037, 20855, 24517, 39035, 25552, 20132, 31354, 23545,
      35937] @ js '' {}'' @ [12290, 19981, 24471, 25552, 20132] @ js '' null'' @ [12289, 31354,
      23383, 31526, 20018, 25110, 30465, 30053, 25972, 20010, 21442, 25968, 23545, 35937, 12290]),
     (js ''4. UUID'' @ [12289] @ js ''commandId'' @ [12289] @ js ''memoryId'' @ [12289] @ js
      ''evidenceId '' @ [31561, 24341, 29992, 20540, 24517, 39035, 26469, 33258, 21069, 32622,
      24037, 20855, 30340, 30495, 23454, 36755, 20986, 65292, 19981, 24471, 20351, 29992, 21517,
      31216, 20195, 26367] @ js '' ID'' @ [65292, 20063, 19981, 24471, 33258, 34892, 32534, 36896,
      12290]),
     (js ''5. '' @ [21442, 25968, 26657, 39564, 22833, 36133, 26102, 65292, 21482, 25353, 38169,
      35823, 20013, 25351, 20986, 30340, 23383, 27573, 21644] @ js '' inputSchema '' @ [20462,
      27491, 65307, 19981, 24471, 20999, 25442, 20026, 24213, 23618, 21327, 35758, 25110, 36830,
      32493, 23581, 35797, 19981, 21516, 23884, 22871, 24418, 29366, 12290]),
     (js ''6. '' @ [24037, 20855, 25191, 34892, 22833, 36133, 21482, 34920, 31034, 35813, 27425,
      24037, 20855, 35843, 29992, 22833, 36133, 12290, 24517, 39035, 21306, 20998, 8220, 21442,
      25968, 26080, 25928, 8221, 8220, 24037, 20855, 19981, 21487, 29992, 8221, 8220, 26080,
      25968, 25454, 8221, 21644, 8220, 35266, 27979, 21040, 25925, 38556, 8221, 65292, 19981,
      24471, 25226, 25509, 21475, 38169, 35823, 35823, 25253, 20026, 26381, 21153, 22120, 25925,
      38556, 12290])]"

definition SCRY_AGENT_TOOL_NAME_GUIDE :: jsstr where
  "SCRY_AGENT_TOOL_NAME_GUIDE = str_join [10]
    [(js ''Agent '' @ [20013, 30340, 20869, 32622, 24037, 20855, 24102, 26377] @ js '' scry_ '' @
      [21069, 32512, 65292, 20363, 22914, 65306]),
     (js ''- scry_publishPlan'' @ [65306, 21457, 24067, 35786, 26029, 35745, 21010, 12290]),
     (js ''- scry_querySignals'' @ [65306, 26597, 35810, 26085, 24535, 12289, 38142, 36335, 25110,
      25351, 26631, 12290]),
     (js ''- scry_listEvidence / scry_getEvidenceChain'' @ [65306, 35835, 21462, 35777, 25454,
      19982, 35777, 25454, 38142, 12290]),
     (js ''- scry_searchMemory / scry_remember / scry_inspectMemory'' @ [65306, 26816, 32034,
      12289, 20889, 20837, 21644, 26816, 26597, 35760, 24518, 12290]),
     (js ''- scry_sshListHosts / scry_sshReadonlyInspect / scry_sshExecuteCommand'' @ [65306,
      21015, 20986, 25480, 26435, 30446, 26631, 24182, 25191, 34892, 21463, 25511] @ js '' SSH ''
      @ [24037, 20855, 12290])]"

definition SCRY_QUERY_SIGNALS_PROTOCOL :: jsstr where
  "SCRY_QUERY_SIGNALS_PROTOCOL = str_join [10]
    [(js ''querySignals'' @ [65288] @ js ''Agent '' @ [20013, 20026] @ js '' scry_querySignals'' @
      [65289, 21482, 25509, 21463, 25153, 24179, 39640, 23618, 21442, 25968, 65306, 39030, 23618,
      24517, 39035, 22768, 26126] @ js '' signal=logs'' @ [12289] @ js ''traces '' @ [25110] @ js
      '' metrics'' @ [65292, 24182, 25353] @ js '' Schema '' @ [36873, 29992, 36807, 28388, 23383,
      27573, 12290, 31105, 27490, 20256] @ js '' query'' @ [12289] @ js ''compositeQuery'' @
      [12289] @ js ''logQueries'' @ [12289] @ js ''builderQueries'' @ [12289] @ js ''queryType'' @
      [12289] @ js ''start '' @ [25110] @ js '' end'' @ [65307] @ js ''Query Range V3 '' @ [30001,
      24037, 20855, 20869, 37096, 30830, 23450, 24615, 29983, 25104, 12290])]"

fun modeInstructions :: "agent_mode \<Rightarrow> jsstr" where
  "modeInstructions Diagnose = [24403, 21069, 26159, 35786, 26029, 27169, 24335, 12290, 20248, 20808, 29992, 26368, 23569,
      30340, 21482, 35835, 26597, 35810, 23450, 20301, 26681, 22240, 65292, 24182, 32473, 20986,
      35777, 25454, 12290]"
| "modeInstructions Plan = [24403, 21069, 26159, 35268, 21010, 27169, 24335, 12290, 20808, 28548, 28165, 30446, 26631,
      24182, 24418, 25104, 35745, 21010, 65292, 19981, 25191, 34892, 20250, 20135, 29983, 22806,
      37096, 21464, 26356, 30340, 21160, 20316, 12290]"
| "modeInstructions Operate = [24403, 21069, 26159, 25805, 20316, 27169, 24335, 12290, 21487, 20197, 35843, 29992, 31649,
      29702, 21592, 39044, 20808, 25480, 26435, 30340, 21463, 25511, 21464, 26356, 24037, 20855,
      65307, 24037, 20855, 36816, 34892, 26102, 20250, 22312, 25191, 34892, 21069, 26242, 20572,
      24182, 29983, 25104, 30028, 38754, 23457, 25209, 21345, 65292, 21482, 26377, 29992, 25143,
      25209, 20934, 21518, 25165, 20250, 32487, 32493, 12290]"

definition agent_rules :: jsstr where
  "agent_rules = str_join [10]
    [([20320, 26159] @ js '' Scry '' @ [20869, 32622, 30340, 21487, 35266, 27979, 24615, 35786,
      26029, 19982, 36816, 32500, 21161, 25163, 12290, 25152, 26377, 22238, 31572, 20351, 29992,
      31616, 20307, 20013, 25991, 12290]),
     [],
     [35268, 21017, 65306],
     (js ''1. '' @ [38656, 35201, 35786, 26029, 22810, 20010, 20449, 21495, 26102, 65292, 20808,
      35843, 29992] @ js '' scry_publishPlan '' @ [21457, 24067] @ js '' 2 '' @ [21040] @ js
      '' 6 '' @ [20010, 31616, 30701, 27493, 39588, 12290]),
     (js ''2. '' @ [21482, 20381, 25454, 24037, 20855, 36820, 22238, 30340, 25968, 25454, 20316,
      32467, 35770, 65292, 28165, 26970, 21306, 20998, 20107, 23454, 12289, 25512, 26029, 21644,
      24314, 35758, 12290]),
     (js ''3. '' @ [26597, 35810, 24517, 39035, 38480, 21046, 26102, 38388, 33539, 22260, 21644,
      32467, 26524, 35268, 27169, 65292, 19981, 24471, 23581, 35797, 32469, 36807] @ js '' Scry ''
      @ [26435, 38480, 12290]),
     (js ''4. SSH '' @ [24037, 20855, 21482, 33021, 20351, 29992, 31649, 29702, 21592, 24050,
      37197, 32622, 30340, 20027, 26426, 21644, 21629, 20196] @ js '' ID'' @ [12290, 26410, 33719,
      24471, 24037, 20855, 23457, 25209, 21069, 19981, 24471, 22768, 31216, 24050, 32463, 25191,
      34892, 26381, 21153, 22120, 21629, 20196, 12290]),
     (js ''5. '' @ [24037, 20855, 36820, 22238, 30340] @ js '' a2ui '' @ [23383, 27573, 20379,
      30028, 38754, 28210, 26579, 65292, 19981, 38656, 35201, 22312, 27491, 25991, 20013, 37325,
      22797, 20840, 37096, 21407, 22987, 25968, 25454, 12290]),
     (js ''6. '' @ [32467, 35770, 24517, 39035, 24341, 29992, 26412, 36718, 24037, 20855, 33719,
      24471, 30340, 35777, 25454, 65307, 35777, 25454] @ js '' ID '' @ [21487, 36890, 36807,
      35777, 25454, 24037, 20855, 26597, 35810, 12290, 29992, 25143, 39539, 22238, 25110, 25346,
      36215, 30340, 35777, 25454, 19981, 24471, 20316, 20026, 20107, 23454, 20381, 25454, 12290]),
     (js ''7. '' @ [36755, 20986, 24212, 20808, 32473, 32467, 35770, 65292, 20877, 32473, 20851,
      38190, 35777, 25454, 21644, 19979, 19968, 27493, 34892, 21160, 12290]),
     (js ''8. '' @ [31995, 32479, 25552, 20379, 30340, 36816, 34892, 35760, 24518, 21482, 29992,
      20110, 24418, 25104, 21382, 21490, 20551, 35774, 21644, 36873, 25321, 39318, 20010, 24037,
      20855, 30446, 26631, 12290, 35760, 24518, 19981, 26159, 24403, 21069, 35777, 25454, 65292,
      24517, 39035, 29992, 26412, 36718, 36965, 27979, 12289, 26085, 24535, 12289, 38142, 36335,
      25110, 21463, 25511, 24037, 20855, 32467, 26524, 39564, 35777, 21518, 25165, 33021, 24418,
      25104, 20107, 23454, 32467, 35770, 12290]),
     (js ''9. '' @ [21457, 29616, 21487, 22797, 29992, 19988, 24050, 32463, 39564, 35777, 30340,
      32463, 39564, 26102, 65292, 21487, 35843, 29992] @ js '' scry_remember '' @ [20889, 22238,
      35760, 24518, 65307, 20889, 20837, 21069, 20808, 29992] @ js '' scry_listEvidence '' @
      [33719, 21462, 30495, 23454, 35777, 25454] @ js '' ID'' @ [65292, 19981, 24471, 20889,
      20837, 23494, 38053, 12289, 20973, 35777, 12289, 23436, 25972, 20010, 20154, 20449, 24687,
      25110, 26410, 32463, 39564, 35777, 30340, 29468, 27979, 12290]),
     (js ''10. '' @ [35843, 29992, 22522, 20110] @ js '' ID '' @ [30340, 24037, 20855, 21069,
      65292, 20808, 35843, 29992, 30456, 24212, 30340, 21015, 34920, 25110, 26816, 32034, 24037,
      20855, 21462, 24471, 30495, 23454] @ js '' ID'' @ [12290] @ js ''SSH '' @ [24037, 20855,
      24517, 39035, 20808, 35843, 29992] @ js '' scry_sshListHosts'' @ [65292, 35760, 24518,
      26816, 26597, 24517, 39035, 20808, 35843, 29992] @ js '' scry_searchMemory'' @ [12290]),
     (js ''11. '' @ [24037, 20855, 21442, 25968, 26657, 39564, 25110, 25191, 34892, 22833, 36133,
      21518, 65292, 20808, 21028, 26029, 22833, 36133, 31867, 21035, 24182, 20462, 27491] @ js
      '' Schema '' @ [23383, 27573, 65307, 19981, 24471, 25226, 8220, 24403, 21069, 26080, 27861,
      21462, 24471, 36965, 27979, 8221, 20889, 25104, 24050, 32463, 30830, 35748, 30340, 26381,
      21153, 25925, 38556, 12290]),
     (js ''12. '' @ [25805, 20316, 27169, 24335, 19979, 65292, 22914, 26524] @ js
      '' scry_sshListHosts '' @ [36820, 22238, 20102, 19982, 24050, 30830, 35748, 25925, 38556,
      23545, 35937, 21644, 24674, 22797, 21160, 20316, 31934, 30830, 21305, 37197, 30340] @ js
      '' configuredCommands[].id'' @ [65292, 24212, 30452, 25509, 35843, 29992] @ js
      '' scry_sshExecuteCommand '' @ [21457, 36215, 24037, 20855, 23457, 25209, 65292, 19981,
      35201, 20808, 29992, 27491, 25991, 35810, 38382, 29992, 25143, 26159, 21542, 25209, 20934,
      12290, 23457, 25209, 21345, 30001, 24037, 20855, 36816, 34892, 26102, 29983, 25104, 12290]),
     (js ''13. '' @ [23433, 20840, 20915, 31574, 20013, 30340] @ js '' require-approval '' @
      [21482, 26159, 31574, 30053, 35009, 20915, 65292, 19981, 31561, 20110, 23457, 25209, 35831,
      27714, 24050, 32463, 21019, 24314, 12290, 21482, 26377, 24037, 20855, 36827, 20837] @ js
      '' approval-requested '' @ [29366, 24577, 21518, 65292, 25165, 33021, 35828, 8220, 24050,
      21457, 36215, 23457, 25209, 8221, 65307, 22914, 26524, 32570, 23569, 21305, 37197, 30340,
      25480, 26435, 21629, 20196, 65292, 24517, 39035, 26126, 30830, 35828, 26126, 8220, 23578,
      26410, 21019, 24314, 23457, 25209, 35831, 27714, 8221, 12290])]"

definition administrator_note :: "jsstr \<Rightarrow> jsstr" where
  [js_eval]: "administrator_note note = (if note = [] then [] else [10] @ [31649, 29702, 21592, 34917, 20805, 25351, 20196, 65306] @ [10] @ note)"

definition agent_instructions :: "agent_mode \<Rightarrow> jsstr \<Rightarrow> jsstr \<Rightarrow> jsstr" where
  [js_eval]: "agent_instructions mode note packet =
     [10] @ agent_rules @ [10, 10] @ MCP_TOOL_CALL_PROTOCOL @ [10] @ SCRY_AGENT_TOOL_NAME_GUIDE @ [10] @ SCRY_QUERY_SIGNALS_PROTOCOL @ [10, 10]
     @ modeInstructions mode @ [10] @ administrator_note note @ [10] @ packet @ [10]"

text \<open>How an agent is set up besides its tools: the options the library takes from the stored settings.\<close>

record agent_setup =
  as_agent :: jsstr
  as_history :: int
  as_retries :: int
  as_steps :: int
  as_choice :: tool_choice
  as_tokens :: int
  as_temperature :: "rat option"
  as_instructions :: jsstr

definition agent_setup_of :: "auth_user \<Rightarrow> model_view \<Rightarrow> agent_mode \<Rightarrow> jsstr \<Rightarrow> agent_setup" where
  [js_eval]: "agent_setup_of u m mode packet =
     \<lparr>as_agent = js ''scry-operator-'' @ user_id u, as_history = md_memory m, as_retries = md_retries m, as_steps = md_steps m,
      as_choice = md_choice m, as_tokens = md_tokens m, as_temperature = md_temperature m,
      as_instructions = agent_instructions mode (md_instructions m) packet\<rparr>"

end
