(* ===== verification/Server_Base.thy ===== *)
theory Server_Base
  imports Agent_Laws Samples Server_Auth Agent_Prompt
begin

section \<open>Requests, replies and what the server rests on (\<open>server.ts\<close>)\<close>

text \<open>
  The parts the handlers of the HTTP interface share: the outside world they use (\<open>service\<close>), bodies of
  requests as the schemas see them, replies, the texts and attachments of messages, and the diagnosis
  of errors of the model provider.
\<close>

subsection \<open>The outside world\<close>

text \<open>An error a library throws: whether it is an \<open>Error\<close>, its name, its text and its status fields.\<close>

record thrown =
  tw_error :: bool
  tw_name :: jsstr
  tw_text :: jsstr
  tw_code :: jsval
  tw_status :: jsval

text \<open>
  What a turn of an agent does: it throws at once, or it calls tools and ends with a message. The agent
  sees how it was set up, what it is asked and the database.
\<close>

record agent_question =
  aq_messages :: "jsval list"
  aq_run :: "jsstr option"
  aq_resume :: "(jsstr \<times> jsval) list option"
  aq_regenerate :: bool

record agent_turn =
  at_error :: "jsstr option"
  at_calls :: "(moment \<times> tool_call) list"
  at_message :: "(jsstr \<times> jsval) list option"

text \<open>
  What the engine does when it runs or resumes a workflow: which steps it executes, in which order and on
  which inputs. A step may be executed with the decision of the request that resumed the run, never
  with another one.
\<close>

datatype engine_action =
    MarkAction moment step_info jsstr wf_context
  | NormalizeAction moment step_info control_mode jsval
  | LeafAction moment step_info bool wf_context
  | FinalAction moment wf_context

record engine_turn =
  et_error :: "jsstr option"
  et_actions :: "engine_action list"
  et_message :: "(jsstr \<times> jsval) list option"

record language_model =
  lm_provider :: model_provider
  lm_model :: jsstr
  lm_key :: jsstr
  lm_base :: jsstr
  lm_name :: jsstr

type_synonym 't connector = "(jsstr \<times> server_definition) list \<Rightarrow> 't \<times> (jsstr \<times> jsstr) list"

record service =
  sv_platform :: platform
  sv_vault :: vault
  sv_identity :: identity_service
  sv_gateway :: gateway
  sv_network :: ssh_network
  sv_fingerprint :: "jsstr \<Rightarrow> int \<Rightarrow> jsstr + jsstr"
  sv_parse_url :: "jsstr \<Rightarrow> (jsstr \<times> jsstr \<times> jsstr) option"
  sv_mcp_url :: jsstr
  sv_mcp_timeout :: int
  sv_connect :: "(jsstr \<times> jsstr option) list connector"
  sv_model :: "model_view \<Rightarrow> language_model \<Rightarrow> jsstr \<Rightarrow> jsstr \<Rightarrow> thrown + jsstr"
  sv_agent :: "agent_setup \<Rightarrow> language_model \<Rightarrow> agent_question \<Rightarrow> agent_db \<Rightarrow> agent_turn"
  sv_engine :: "run_env \<Rightarrow> model_view \<Rightarrow> jsval \<Rightarrow> (bool \<times> jsstr option) option \<Rightarrow> agent_db \<Rightarrow> engine_turn"
  sv_think :: "agent_mode \<Rightarrow> jsstr \<Rightarrow> agent_db \<Rightarrow> (jsstr + jsstr) \<times> (moment \<times> tool_call) list"
  sv_use :: "jsstr \<Rightarrow> jsval \<Rightarrow> agent_db \<Rightarrow> tool_answer \<times> (moment \<times> tool_call) list"

text \<open>What a request draws when it arrives: the clock, identifiers and the nonce of a cipher.\<close>

record arrival =
  ar_moment :: moment
  ar_ids :: "nat \<Rightarrow> nat \<Rightarrow> nat \<Rightarrow> jsstr"
  ar_nonce :: "nat list"

definition ar_now :: "arrival \<Rightarrow> int" where
  [js_eval]: "ar_now a = mm_now (ar_moment a)"

subsection \<open>Replies\<close>

datatype test_category =
    TestSuccess | TestTimeout | TestConfiguration | TestAuthentication | TestProvider | TestRateLimit | TestModel | TestNetwork

record model_test =
  mt_ok :: bool
  mt_provider :: model_provider
  mt_protocol :: jsstr
  mt_name :: jsstr
  mt_endpoint :: jsstr
  mt_category :: test_category
  mt_message :: jsstr
  mt_response :: jsstr

datatype content =
    Failure jsstr
  | InvalidRequest
  | Empty
  | Denied jsstr "jsstr list"
  | Health
  | SettingsContent "model_view option"
  | TestContent model_test
  | ServersContent "mcp_view list"
  | ServerContent "mcp_view option"
  | ToolsContent "(jsstr \<times> jsstr) list" jsstr
  | SimulationContent "bool \<times> int"
  | HostsContent "ssh_host list"
  | HostContent "ssh_host option"
  | FingerprintContent jsstr
  | ConnectionContent bool int
  | PoliciesContent "ssh_policy list"
  | PolicyContent "ssh_policy option"
  | SshAuditsContent "ssh_audit list"
  | SecurityAuditsContent "security_event list"
  | ThreadsContent "thread_row list"
  | CreatedContent jsstr
  | ThreadContent thread_row "jsval list"
  | SamplesContent "(memory_sample \<times> jsstr) list"
  | GeneratedContent sample_progress
  | DroppedSampleContent jsstr jsstr
  | StatsContent memory_stats
  | MemoriesContent "memory_item list"
  | MemoryContent "memory_item option"
  | PacketContent retrieval_packet
  | ReportContent maintenance_report
  | EvidenceListContent "evidence_item list"
  | EvidenceContent evidence_item
  | RevisionContent jsstr "(jsstr \<times> jsval) list"
  | StreamContent "(jsstr \<times> jsval) list option"
  | WorkflowsContent "workflow_row list"
  | WorkflowContent "workflow_row option"
  | RunsContent "run_row list"

datatype reply = Reply (reply_status: nat) (reply_content: content)

definition failed :: "jsstr \<Rightarrow> reply" where
  [js_eval]: "failed m = Reply 500 (Failure (or_default m ([26381, 21153, 22120, 20869, 37096, 38169, 35823])))"

definition forbidden :: reply where
  [js_eval]: "forbidden = Reply 403 (Failure ([20165, 31649, 29702, 21592, 21487, 25191, 34892, 27492, 25805, 20316]))"

definition no_thread :: reply where
  [js_eval]: "no_thread = Reply 404 (Failure ([23545, 35805, 19981, 23384, 22312]))"

definition no_memory :: reply where
  [js_eval]: "no_memory = Reply 404 (Failure ([35760, 24518, 19981, 23384, 22312]))"

definition no_workflow :: reply where
  [js_eval]: "no_workflow = Reply 404 (Failure (js ''Loop '' @ ([19981, 23384, 22312])))"

text \<open>
  The body of a request: not JSON at all, of a shape the schema refuses, or what the schema makes of it
  (defaults filled in, texts trimmed), whose rules are the predicate given with it.
\<close>

datatype 'a body = NotJson jsstr | Unfit | Fit 'a

definition with_body :: "('a \<Rightarrow> bool) \<Rightarrow> 'a body \<Rightarrow> ('a \<Rightarrow> agent_db \<Rightarrow> reply \<times> agent_db) \<Rightarrow> agent_db \<Rightarrow> reply \<times> agent_db" where
  [js_eval]: "with_body valid b k s =
     (case b of
        NotJson m \<Rightarrow> (failed m, s)
      | Unfit \<Rightarrow> (Reply 400 InvalidRequest, s)
      | Fit f \<Rightarrow> if valid f then k f s else (Reply 400 InvalidRequest, s))"

text \<open>\<open>await c.req.json().catch(() => ({}))\<close>: what is not JSON is the empty object, whose reading is \<open>d\<close>.\<close>

definition or_empty :: "'a body \<Rightarrow> 'a body \<Rightarrow> 'a body" where
  [js_eval]: "or_empty b d = (case b of NotJson _ \<Rightarrow> d | _ \<Rightarrow> b)"

definition as_admin :: "auth_user \<Rightarrow> (agent_db \<Rightarrow> reply \<times> agent_db) \<Rightarrow> agent_db \<Rightarrow> reply \<times> agent_db" where
  [js_eval]: "as_admin u k s = (if requireAdmin u then k s else (forbidden, s))"

fun memory_error_text :: "memory_error \<Rightarrow> jsstr" where
  "memory_error_text OrganizationNeedsAdmin = [21482, 26377, 31649, 29702, 21592, 21487, 20197, 20889, 20837, 32452, 32455, 32423, 35760,
      24518]"
| "memory_error_text ThreadMissing = ([32447, 31243, 32423, 35760, 24518, 24517, 39035, 25351, 23450] @ js '' threadId'')"
| "memory_error_text WorkflowMissing = (js ''Loop '' @ [32423, 35760, 24518, 24517, 39035, 25351, 23450] @ js '' workflowId'')"
| "memory_error_text NullMemory = js ''Cannot read properties of null''"

fun host_error_text :: "host_error \<Rightarrow> jsstr" where
  "host_error_text NotManagedUser = ([21463, 31649] @ js '' SSH '' @ [20027, 26426, 24517, 39035, 20351, 29992, 26368, 23567,
      26435, 38480, 36134, 25143] @ js '' scry-ops'')"
| "host_error_text OnlyPublicKey = (js ''scry-ops '' @ [36134, 25143, 21482, 20801, 35768, 20844, 38053, 35748, 35777])"
| "host_error_text MissingPrivateKey = [23494, 38053, 35748, 35777, 24517, 39035, 22635, 20889, 31169, 38053]"

subsection \<open>Messages\<close>

text \<open>A message of a conversation is an object with at least these fields; the others pass through.\<close>

definition valid_ui_message :: "jsval \<Rightarrow> bool" where
  [js_eval]: "valid_ui_message v =
     (case v of
        Obj m \<Rightarrow>
          (case get_prop m (js ''id'') of Str i \<Rightarrow> 1 \<le> length i \<and> length i \<le> 200 | _ \<Rightarrow> False)
          \<and> get_prop m (js ''role'') \<in> {Str (js ''user''), Str (js ''assistant''), Str (js ''system'')}
          \<and> (case get_prop m (js ''parts'') of
               Arr ps \<Rightarrow> length ps \<le> 500 \<and> list_all (\<lambda>p. case p of Obj _ \<Rightarrow> True | _ \<Rightarrow> False) ps
             | _ \<Rightarrow> False)
      | _ \<Rightarrow> False)"

definition fields_of :: "jsval \<Rightarrow> (jsstr \<times> jsval) list" where
  [js_eval]: "fields_of v = (case v of Obj m \<Rightarrow> m | _ \<Rightarrow> [])"

definition parts_of :: "jsval \<Rightarrow> (jsstr \<times> jsval) list list" where
  [js_eval]: "parts_of v = (case get_prop (fields_of v) (js ''parts'') of Arr ps \<Rightarrow> map fields_of ps | _ \<Rightarrow> [])"

definition is_part :: "string \<Rightarrow> (jsstr \<times> jsval) list \<Rightarrow> bool" where
  [js_eval]: "is_part k p \<longleftrightarrow> get_prop p (js ''type'') = Str (js k)"

definition has_role :: "string \<Rightarrow> jsval \<Rightarrow> bool" where
  [js_eval]: "has_role r m \<longleftrightarrow> get_prop (fields_of m) (js ''role'') = Str (js r)"

definition last_with :: "('a \<Rightarrow> bool) \<Rightarrow> 'a list \<Rightarrow> 'a option" where
  [js_eval]: "last_with P xs = head_option (filter P (rev xs))"

definition messageText :: "platform \<Rightarrow> jsval \<Rightarrow> jsstr" where
  [js_eval]: "messageText pf m =
     trim (str_join [10] (map (\<lambda>p. text_or pf (get_prop p (js ''text'')) []) (filter (is_part ''text'') (parts_of m))))"

subsection \<open>Attachments\<close>

definition text_extension :: regex where
  [js_eval]: "text_extension = (cats [lit_ci (js ''.''), alts [lit_ci (js ''txt''), lit_ci (js ''md''), lit_ci (js
      ''markdown''), lit_ci (js ''json''), lit_ci (js ''log''), lit_ci (js ''csv'')], AtEnd])"

definition isTextAttachment :: "platform \<Rightarrow> (jsstr \<times> jsval) list \<Rightarrow> bool" where
  [js_eval]: "isTextAttachment pf p \<longleftrightarrow>
     (let media = to_lower (text_or pf (get_prop p (js ''mediaType'')) []); filename = text_or pf (get_prop p (js ''filename'')) []
      in starts_with media (js ''text/'') \<or> media = js ''application/json'' \<or> media = js ''application/csv''
         \<or> re_test text_extension filename)"

definition not_embedded :: jsstr where
  [js_eval]: "not_embedded = ([38468, 20214, 24517, 39035, 20351, 29992, 20869, 23884] @ js '' data URL'')"

text \<open>The bytes of an attachment; the comma separates the header from the payload.\<close>

definition decodeDataAttachment :: "platform \<Rightarrow> (jsstr \<times> jsval) list \<Rightarrow> jsstr + nat list" where
  [js_eval]: "decodeDataAttachment pf p =
     (let url = text_or pf (get_prop p (js ''url'')) []; head = takeWhile (\<lambda>c. c \<noteq> 44) url; payload = drop (length head + 1) url
      in if \<not> starts_with url (js ''data:'') \<or> 44 \<notin> set url then Inl not_embedded
         else if str_includes head (js '';base64'') then Inr (from_base64url payload)
         else (case decodeURIComponent payload of None \<Rightarrow> Inl (js ''URI malformed'') | Some t \<Rightarrow> Inr (utf8_bytes t)))"

definition attachment_text :: "platform \<Rightarrow> (jsstr \<times> jsval) list \<Rightarrow> nat list \<Rightarrow> (jsstr \<times> jsval) list" where
  [js_eval]: "attachment_text pf p content =
     (let name = map (\<lambda>c. if c \<in> {13, 10, 91, 93} then 95 else c) (text_or pf (get_prop p (js ''filename'')) ([25991, 26412, 38468, 20214]))
      in [(js ''type'', Str (js ''text'')), (js ''text'', Str ([10] @ ((js ''['' @ [38468, 20214, 24320, 22987, 65306])) @ name @
            (([65307, 20197, 19979, 20869, 23481, 26159, 29992, 25143, 25552, 20379, 30340, 25968, 25454]
      @ js '']'')) @ [10] @ utf8_text content @ [10] @ ((js ''['' @ [38468, 20214, 32467, 26463, 65306])) @ name @ [93, 10]))])"

definition normalize_part :: "platform \<Rightarrow> (jsstr \<times> jsval) list \<Rightarrow> jsstr + (jsstr \<times> jsval) list" where
  [js_eval]: "normalize_part pf p =
     (if \<not> is_part ''file'' p then Inr p
      else case decodeDataAttachment pf p of
        Inl m \<Rightarrow> Inl m
      | Inr content \<Rightarrow>
          if 10 * 1024 * 1024 < length content then Inl (([21333, 20010, 38468, 20214, 19981, 33021, 36229, 36807] @ js '' 10 MB''))
          else if \<not> isTextAttachment pf p then Inr p
          else if 512 * 1024 < length content then Inl (([25991, 26412, 38468, 20214, 19981, 33021, 36229, 36807] @ js '' 512 KB''))
          else Inr (attachment_text pf p content))"

fun collect :: "('a \<Rightarrow> 'e + 'b) \<Rightarrow> 'a list \<Rightarrow> 'e + 'b list" where
  "collect f [] = Inr []"
| "collect f (x # xs) = (case f x of Inl e \<Rightarrow> Inl e | Inr y \<Rightarrow> map_sum id ((#) y) (collect f xs))"

definition normalize_message :: "platform \<Rightarrow> jsval \<Rightarrow> jsstr + jsval" where
  [js_eval]: "normalize_message pf m =
     (if 5 < length (filter (is_part ''file'') (parts_of m)) then Inl (([27599, 26465, 28040, 24687, 26368, 22810, 21253, 21547] @ js '' 5 '' @ [20010, 38468,
      20214]))
      else map_sum id (\<lambda>ps. Obj (put_prop (fields_of m) (js ''parts'') (Arr (map Obj ps)))) (collect (normalize_part pf) (parts_of m)))"

definition normalizeModelAttachments :: "platform \<Rightarrow> jsval list \<Rightarrow> jsstr + jsval list" where
  [js_eval]: "normalizeModelAttachments pf ms = collect (normalize_message pf) ms"

subsection \<open>The model\<close>

definition no_key :: jsstr where
  [js_eval]: "no_key = ([35831, 20808, 22312, 8220, 35774, 32622] @ js '' > AI '' @ [35774, 32622, 8221, 20013,
      20445, 23384, 27169, 22411] @ js '' API Key'')"

definition createLanguageModel :: "model_view \<Rightarrow> jsstr + language_model" where
  [js_eval]: "createLanguageModel m =
     (if md_key m = [] then Inl no_key
      else map_sum id (\<lambda>base. \<lparr>lm_provider = md_provider m, lm_model = md_model m, lm_key = md_key m, lm_base = base,
             lm_name = (case md_provider m of Anthropic \<Rightarrow> js ''anthropic''
                | OpenAI \<Rightarrow> (case md_mode m of CustomEndpoint \<Rightarrow> js ''openai-compatible'' | OfficialEndpoint \<Rightarrow> js ''openai''))\<rparr>)
             (resolveBaseUrl m))"

text \<open>An error the service throws itself.\<close>

definition plain_error :: "jsstr \<Rightarrow> thrown" where
  [js_eval]: "plain_error m = \<lparr>tw_error = True, tw_name = js ''Error'', tw_text = m, tw_code = Undef, tw_status = Undef\<rparr>"

text \<open>\<open>generateText\<close> with the model of the settings.\<close>

definition generate_text :: "service \<Rightarrow> model_view \<Rightarrow> jsstr \<Rightarrow> jsstr \<Rightarrow> thrown + jsstr" where
  [js_eval]: "generate_text sv m system prompt =
     (case createLanguageModel m of Inl e \<Rightarrow> Inl (plain_error e) | Inr lm \<Rightarrow> sv_model sv m lm system prompt)"

subsection \<open>Errors of the provider\<close>

definition key_pattern :: regex where
  [js_eval]: "key_pattern = (cats [lit (js ''sk-''), some (Chr (\<lambda>u. 65 \<le> u \<and> u \<le> 90 \<or> 97 \<le> u
      \<and> u \<le> 122 \<or> 48 \<le> u \<and> u \<le> 57 \<or> u = 95 \<or> u = 42 \<or> u = 46
      \<or> u = 45))])"

definition link_pattern :: regex where
  [js_eval]: "link_pattern = (cats [lit (js ''http''), opt (lit (js ''s'')), lit (js ''://''), some (Chr (\<lambda>u.
      \<not> (is_space u \<or> u = 41)))])"

definition sanitizeProviderMessage :: "jsstr \<Rightarrow> jsstr" where
  [js_eval]: "sanitizeProviderMessage m =
     take 500 (trim (re_replace (some space) [32] (re_replace link_pattern ((js ''['' @ [22806, 37096, 38142, 25509, 24050, 38544, 34255] @ js '']''))
       (re_replace key_pattern ((js ''['' @ [23494, 38053, 24050, 38544, 34255] @ js '']'')) m))))"

definition configuration_words :: regex where
  [js_eval]: "configuration_words = (alts [lit [33258, 23450, 20041, 31471, 28857], lit (js ''Invalid URL''), lit (js
      ''API Key'')])"

definition authentication_words :: regex where
  [js_eval]: "authentication_words = (alts [cats [lit_ci (js ''api''), opt dot, lit_ci (js ''key'')], lit_ci (js ''unauthor''),
      lit_ci (js ''authenticat''), lit_ci (js ''credential'')])"

definition missing_words :: regex where
  [js_eval]: "missing_words = (alts [lit_ci (js ''not found''), lit_ci (js ''unknown endpoint'')])"

definition quota_words :: regex where
  [js_eval]: "quota_words = (alts [cats [lit_ci (js ''rate''), opt dot, lit_ci (js ''limit'')], lit_ci (js ''quota'')])"

definition model_words :: regex where
  [js_eval]: "model_words = (alts [cats [lit_ci (js ''model''), Many dot, lit_ci (js ''not'')], lit_ci (js
      ''unknown model''), lit_ci (js ''does not exist'')])"

definition network_words :: regex where
  [js_eval]: "network_words = (alts [lit_ci (js ''fetch failed''), lit_ci (js ''ECONN''), lit_ci (js ''ENOTFOUND''), lit_ci
      (js ''network''), lit_ci (js ''socket'')])"

definition diagnoseModelError :: "platform \<Rightarrow> thrown \<Rightarrow> test_category \<times> jsstr" where
  [js_eval]: "diagnoseModelError pf e =
     (let status = number_of pf (if truthy (tw_code e) then tw_code e else if truthy (tw_status e) then tw_status e else Num 0);
          raw = sanitizeProviderMessage (tw_text e)
      in if tw_error e \<and> tw_name e = js ''AbortError'' then (TestTimeout, [35831, 27714, 36229, 26102, 65292, 35831, 26816, 26597, 31471, 28857, 21487, 36798, 24615,
      25110, 22686, 22823, 36229, 26102, 26102, 38388])
         else if re_test configuration_words raw \<and> (status = None \<or> status = Some 0) then (TestConfiguration, raw)
         else if status = Some 401 \<or> status = Some 403 \<or> re_test authentication_words raw then
           (TestAuthentication, (js ''API Key '' @ [34987, 30446, 26631, 31471, 28857, 25298, 32477, 12290, 35831, 30830,
      35748, 23494, 38053, 23646, 20110, 24403, 21069, 31471, 28857, 65307, 33509, 20351, 29992,
      20860, 23481, 26381, 21153, 65292, 35831, 20999, 25442, 21040, 8220, 20860, 23481, 31471,
      28857, 8221, 24182, 22635, 20889, 20854] @ js '' Base URL'' @ [12290]))
         else if status = Some 404 \<or> re_test missing_words raw then
           (TestProvider, ([30446, 26631, 31471, 28857, 26410, 25552, 20379, 25152, 38656, 25509, 21475, 12290] @ js
      ''OpenAI '' @ [20860, 23481, 26381, 21153, 24517, 39035, 23454, 29616] @ js
      '' Responses API'' @ [12290]))
         else if status = Some 429 \<or> re_test quota_words raw then
           (TestRateLimit, [27169, 22411, 26381, 21153, 36820, 22238, 38480, 27969, 25110, 39069, 24230, 19981, 36275,
      65292, 35831, 31245, 21518, 37325, 35797, 25110, 26816, 26597, 36134, 25143, 39069, 24230,
      12290])
         else if re_test model_words raw then (TestModel, ([30446, 26631, 31471, 28857, 19981, 25903, 25345, 24403, 21069, 27169, 22411] @ js '' ID'' @
      [65292, 35831, 26816, 26597, 27169, 22411, 21517, 31216, 12290]))
         else if re_test network_words raw then (TestNetwork, ([26080, 27861, 36830, 25509, 30446, 26631, 31471, 28857, 65292, 35831, 26816, 26597] @ js
      '' Base URL'' @ [12289, 20195, 29702, 21644, 32593, 32476, 36830, 36890, 24615, 12290]))
         else (TestProvider, or_default raw ([27169, 22411, 26381, 21153, 36820, 22238, 26410, 30693, 38169, 35823])))"

end
