(* ===== verification/Server_Chat.thy ===== *)
theory Server_Chat
  imports Server_Base
begin

section \<open>Conversations, memories, evidence and runs over HTTP (\<open>server.ts\<close>, \<open>agent.ts\<close>)\<close>

text \<open>
  The routes of users: what they do to the database and what they answer. Handlers take the service, what
  the request draws, the authenticated user, their parameters and the database. The stream of an
  agent or of a workflow is stored in the background; the model stores it before it answers.
\<close>

subsection \<open>Agents\<close>

definition tools_for :: "service \<Rightarrow> auth_user \<Rightarrow> capture_context option \<Rightarrow> tool_env" where
  [js_eval]: "tools_for sv u x = \<lparr>tv_user = u, tv_context = x, tv_gateway = sv_gateway sv, tv_network = sv_network sv\<rparr>"

text \<open>
  \<open>createScryAgent\<close>: connecting to the tools may fail; then the memories for the question are retrieved,
  if there is one. The text of the memories goes into the instructions.
\<close>

definition prepare_memories :: "service \<Rightarrow> arrival \<Rightarrow> auth_user \<Rightarrow> capture_context \<Rightarrow> agent_db \<Rightarrow> jsstr \<times> agent_db" where
  [js_eval]: "prepare_memories sv a u x s =
     (if ctx_thread x = [] \<or> trim (ctx_query x) = [] then ([], s)
      else (let evidence = map ei_row (listEvidence (ctx_thread x) (user_org u) s);
                (packet, s) = retrieveMemoryForContext (sv_platform sv) (mm_fresh (ar_moment a) 3) (ar_now a) (ar_now a) u x evidence 5 s
            in (formatMemoryPacket (sv_platform sv) packet, s)))"

definition createScryAgent :: "service \<Rightarrow> arrival \<Rightarrow> auth_user \<Rightarrow> model_view \<Rightarrow> agent_mode \<Rightarrow> capture_context \<Rightarrow> agent_db \<Rightarrow>
    (jsstr + language_model \<times> agent_setup) \<times> agent_db" where
  [js_eval]: "createScryAgent sv a u m mode x s =
     (case createScryMCPToolset (sv_vault sv) (sv_mcp_url sv) (sv_mcp_timeout sv) (sv_connect sv) u (Some x) s of
        Inl e \<Rightarrow> (Inl e, s)
      | Inr tools \<Rightarrow> (let (packet, s) = prepare_memories sv a u x s in (map_sum id (\<lambda>lm. (lm, agent_setup_of u m mode packet)) (createLanguageModel m), s)))"

text \<open>
  \<open>persistAssistantUIStream\<close>: the last message of the stream, if there is one, with the time it was
  stored; the evidence its tools gave is captured. The metadata of a message is an object, or none.
\<close>

definition persisted_message :: "int \<Rightarrow> jsstr option \<Rightarrow> (jsstr \<times> jsval) list \<Rightarrow> (jsstr \<times> jsval) list" where
  [js_eval]: "persisted_message now i m =
     (let m = (case i of None \<Rightarrow> m | Some k \<Rightarrow> put_prop m (js ''id'') (Str k))
      in put_prop m (js ''metadata'') (Obj (put_prop (fields_of (get_prop m (js ''metadata''))) (js ''createdAt'') (int_num now))))"

definition persistAssistantUIStream ::
    "service \<Rightarrow> arrival \<Rightarrow> auth_user \<Rightarrow> capture_context \<Rightarrow> jsstr option \<Rightarrow> (jsstr \<times> jsval) list option \<Rightarrow> agent_db \<Rightarrow> agent_db" where
  [js_eval]: "persistAssistantUIStream sv a u x i final s =
     (case final of
        None \<Rightarrow> s
      | Some m \<Rightarrow>
          (let m = persisted_message (ar_now a) i m;
               s = upsertUIMessage (sv_platform sv) (mm_fresh (ar_moment a) 1) (ar_now a) (ctx_thread x) m s
           in snd (ingestEvidenceFromUIMessage (sv_platform sv) (ar_ids a 0) (ar_now a) u x m False s)))"

subsection \<open>Chat\<close>

record chat_form =
  ch_thread :: jsstr
  ch_mode :: agent_mode
  ch_messages :: "jsval list"
  ch_run :: "jsstr option"
  ch_resume :: "(jsstr \<times> jsval) list option"
  ch_regenerate :: bool

definition valid_chat :: "chat_form \<Rightarrow> bool" where
  [js_eval]: "valid_chat f \<longleftrightarrow> ch_thread f \<noteq> [] \<and> 1 \<le> length (ch_messages f) \<and> length (ch_messages f) \<le> 500
     \<and> list_all valid_ui_message (ch_messages f) \<and> ch_run f \<noteq> Some []"

definition chat_context :: "service \<Rightarrow> arrival \<Rightarrow> chat_form \<Rightarrow> jsval list \<Rightarrow> capture_context" where
  [js_eval]: "chat_context sv a f ms =
     \<lparr>ctx_thread = ch_thread f, ctx_trace = or_else (ch_run f) (mm_uuid (ar_moment a)),
      ctx_query = (case last_with (has_role ''user'') ms of None \<Rightarrow> [] | Some m \<Rightarrow> messageText (sv_platform sv) m)\<rparr>"

text \<open>
  What stands before the agent: a new message must say something, pass the input policy, and is then
  stored, unless it is asked again. A request that resumes a suspended tool skips all of this.
\<close>

definition chat_gate ::
    "service \<Rightarrow> arrival \<Rightarrow> auth_user \<Rightarrow> chat_form \<Rightarrow> jsval list \<Rightarrow> capture_context \<Rightarrow> agent_db \<Rightarrow> reply option \<times> agent_db" where
  [js_eval]: "chat_gate sv a u f ms x s =
     (if ch_resume f \<noteq> None then (None, s)
      else case last_with (has_role ''user'') (ch_messages f) of
        None \<Rightarrow> (Some (Reply 400 (Failure ([32570, 23569, 29992, 25143, 28040, 24687]))), s)
      | Some latest \<Rightarrow>
          (let pf = sv_platform sv; said = messageText pf latest
           in if said = [] \<and> \<not> list_ex (is_part ''file'') (parts_of latest) then (Some (Reply 400 (Failure ([28040, 24687, 20869, 23481, 19981, 33021, 20026, 31354]))), s)
              else (let normal = last_with (\<lambda>m. get_prop (fields_of m) (js ''id'') = get_prop (fields_of latest) (js ''id'')) ms;
                        (security, s) = evaluateInputSecurity pf (mm_uuid (ar_moment a)) (ar_now a)
                          \<lparr>sx_user = u, sx_text = (case normal of None \<Rightarrow> said | Some m \<Rightarrow> messageText pf m), sx_mode = ch_mode f,
                           sx_source = AuChat, sx_thread = ch_thread f, sx_trace = ctx_trace x\<rparr> s
                    in if dr_decision security = Deny then (Some (Reply 403 (Denied (dr_trace security) (dr_reasons security))), s)
                       else if ch_regenerate f then (None, s)
                       else (let s = upsertUIMessage pf (mm_fresh (ar_moment a) 2) (ar_now a) (ch_thread f) (fields_of latest) s
                             in (None, updateThreadTitleFromMessage (ar_now a) (ch_thread f) (or_default said ((js ''['' @ [38468, 20214, 28040, 24687] @ js '']''))) s)))))"

text \<open>The key of the stored settings does not decrypt: the exception of the cipher.\<close>

definition unreadable_key :: jsstr where
  [js_eval]: "unreadable_key = js ''Unsupported state or unable to authenticate data''"

definition chat_question :: "chat_form \<Rightarrow> jsval list \<Rightarrow> agent_question" where
  [js_eval]: "chat_question f ms = \<lparr>aq_messages = ms, aq_run = ch_run f, aq_resume = ch_resume f, aq_regenerate = ch_regenerate f\<rparr>"

definition run_agent ::
    "service \<Rightarrow> arrival \<Rightarrow> auth_user \<Rightarrow> chat_form \<Rightarrow> capture_context \<Rightarrow> jsval list \<Rightarrow> agent_db \<Rightarrow> reply \<times> agent_db" where
  [js_eval]: "run_agent sv a u f x ms s =
     (case getModelSettings (sv_vault sv) True s of
        None \<Rightarrow> (failed unreadable_key, s)
      | Some settings \<Rightarrow>
          (let (started, s) = createScryAgent sv a u settings (ch_mode f) x s
           in case started of
                Inl m \<Rightarrow> (failed m, s)
              | Inr (lm, setup) \<Rightarrow>
                  (let turn = sv_agent sv setup lm (chat_question f ms) s
                   in case at_error turn of
                        Some m \<Rightarrow> (failed m, s)
                      | None \<Rightarrow>
                          (let s = run_tools (sv_platform sv) (tools_for sv u (Some x)) (at_calls turn) s;
                               s = persistAssistantUIStream sv a u x None (at_message turn) s
                           in (Reply 200 (StreamContent (at_message turn)), s)))))"

definition chat :: "service \<Rightarrow> arrival \<Rightarrow> auth_user \<Rightarrow> chat_form \<Rightarrow> agent_db \<Rightarrow> reply \<times> agent_db" where
  [js_eval]: "chat sv a u f s =
     (if \<not> ownsThread (ch_thread f) (user_id u) (user_org u) s then (no_thread, s)
      else case normalizeModelAttachments (sv_platform sv) (ch_messages f) of
        Inl m \<Rightarrow> (Reply 400 (Failure m), s)
      | Inr ms \<Rightarrow>
          (let x = chat_context sv a f ms; (refused, s) = chat_gate sv a u f ms x s
           in case refused of Some r \<Rightarrow> (r, s) | None \<Rightarrow> run_agent sv a u f x ms s))"

subsection \<open>Threads\<close>

definition listThreads :: "auth_user \<Rightarrow> agent_db \<Rightarrow> thread_row list" where
  [js_eval]: "listThreads u s = sort_by (\<lambda>a b. th_updated b \<le> th_updated a)
     (filter (\<lambda>t. th_user t = user_id u \<and> th_org t = user_org u) (threads s))"

text \<open>The title of a new thread: \<open>body.title?.trim() || ...\<close>; a title that is no text has no \<open>trim\<close>.\<close>

definition title_of :: "jsval \<Rightarrow> jsstr option" where
  [js_eval]: "title_of v =
     (case v of
        Obj m \<Rightarrow> (case get_prop m (js ''title'') of
            Undef \<Rightarrow> Some new_thread_title | Null \<Rightarrow> Some new_thread_title
          | Str t \<Rightarrow> Some (or_default (trim t) new_thread_title) | _ \<Rightarrow> None)
      | Null \<Rightarrow> None
      | _ \<Rightarrow> Some new_thread_title)"

definition addThread :: "arrival \<Rightarrow> auth_user \<Rightarrow> jsval \<Rightarrow> agent_db \<Rightarrow> reply \<times> agent_db" where
  [js_eval]: "addThread a u v s =
     (case title_of v of
        None \<Rightarrow> (failed (js ''body.title?.trim is not a function''), s)
      | Some title \<Rightarrow>
          (let (i, s) = createThread (mm_uuid (ar_moment a)) (ar_now a) (user_id u) (user_org u) title s
           in (Reply 201 (CreatedContent i), s)))"

definition owned_thread :: "auth_user \<Rightarrow> jsstr \<Rightarrow> agent_db \<Rightarrow> thread_row option" where
  [js_eval]: "owned_thread u i s =
     head_option (filter (\<lambda>t. th_id t = i \<and> th_user t = user_id u \<and> th_org t = user_org u) (threads s))"

definition readThread :: "auth_user \<Rightarrow> jsstr \<Rightarrow> agent_db \<Rightarrow> reply \<times> agent_db" where
  [js_eval]: "readThread u i s =
     (case owned_thread u i s of
        None \<Rightarrow> (no_thread, s)
      | Some t \<Rightarrow> (Reply 200 (ThreadContent t (getThreadUIMessages i s)), s))"

definition dropThread :: "auth_user \<Rightarrow> jsstr \<Rightarrow> agent_db \<Rightarrow> reply \<times> agent_db" where
  [js_eval]: "dropThread u i s =
     (case owned_thread u i s of
        None \<Rightarrow> (Reply 204 Empty, s)
      | Some _ \<Rightarrow> (Reply 204 Empty, s\<lparr>
          workflow_runs := delete_where (\<lambda>r. rn_thread r = i) (workflow_runs s),
          evidence_revisions := delete_where (\<lambda>r. rv_thread r = i) (evidence_revisions s),
          evidence_actions := delete_where (\<lambda>r. ea_thread r = i) (evidence_actions s),
          evidence_relations := delete_where (\<lambda>r. er_thread r = i) (evidence_relations s),
          evidence_items := delete_where (\<lambda>r. ev_thread r = i) (evidence_items s),
          ui_messages := delete_where (\<lambda>r. um_thread r = i) (ui_messages s),
          threads := delete_where (\<lambda>t. th_id t = i) (threads s)\<rparr>))"

subsection \<open>Evidence\<close>

text \<open>
  The evidence of a thread. If none was captured yet, the stored messages are read again, each answer
  with the question before it.
\<close>

definition history_trace :: "platform \<Rightarrow> jsstr \<Rightarrow> (jsstr \<times> jsval) list \<Rightarrow> jsstr" where
  [js_eval]: "history_trace pf fresh m =
     text_or pf (get_prop (fields_of (get_prop m (js ''metadata''))) (js ''runId'')) (js ''history-'' @ text_or pf (get_prop m (js ''id'')) fresh)"

definition ingest_history ::
    "service \<Rightarrow> arrival \<Rightarrow> auth_user \<Rightarrow> jsstr \<Rightarrow> nat \<times> jsval \<Rightarrow> jsstr \<times> agent_db \<Rightarrow> jsstr \<times> agent_db" where
  [js_eval]: "ingest_history sv a u thread km y =
     (let (k, m) = km; (query, s) = y; pf = sv_platform sv
      in if has_role ''user'' m then (messageText pf m, s)
         else if \<not> has_role ''assistant'' m then (query, s)
         else (query, snd (ingestEvidenceFromUIMessage pf (ar_ids a k) (ar_now a) u
                \<lparr>ctx_thread = thread, ctx_trace = history_trace pf (mm_fresh (ar_moment a) k) (fields_of m), ctx_query = query\<rparr>
                (fields_of m) True s)))"

definition threadEvidence :: "service \<Rightarrow> arrival \<Rightarrow> auth_user \<Rightarrow> jsstr \<Rightarrow> agent_db \<Rightarrow> reply \<times> agent_db" where
  [js_eval]: "threadEvidence sv a u thread s =
     (if \<not> ownsThread thread (user_id u) (user_org u) s then (no_thread, s)
      else if listEvidence thread (user_org u) s \<noteq> [] then (Reply 200 (EvidenceListContent (listEvidence thread (user_org u) s)), s)
      else (let (query, s) = fold (ingest_history sv a u thread) (enumerate 0 (getThreadUIMessages thread s)) ([], s)
            in (Reply 200 (EvidenceListContent (listEvidence thread (user_org u) s)), s)))"

definition valid_evidence_patch :: "evidence_patch \<Rightarrow> bool" where
  [js_eval]: "valid_evidence_patch p \<longleftrightarrow> (case ep_note p of None \<Rightarrow> True | Some n \<Rightarrow> length n \<le> 4000)
     \<and> (ep_status p \<noteq> None \<or> ep_selected p \<noteq> None \<or> ep_note p \<noteq> None)"

definition patchEvidence :: "service \<Rightarrow> arrival \<Rightarrow> auth_user \<Rightarrow> jsstr \<Rightarrow> evidence_patch \<Rightarrow> agent_db \<Rightarrow> reply \<times> agent_db" where
  [js_eval]: "patchEvidence sv a u i p s =
     (let (found, s) = updateEvidence (sv_platform sv) (mm_fresh (ar_moment a)) (ar_now a) i u p s
      in (case found of None \<Rightarrow> Reply 404 (Failure ([35777, 25454, 19981, 23384, 22312])) | Some e \<Rightarrow> Reply 200 (EvidenceContent e), s))"

definition is_hex :: "nat \<Rightarrow> bool" where
  [js_eval]: "is_hex u \<longleftrightarrow> hex_value u \<noteq> None"

definition is_uuid :: "jsstr \<Rightarrow> bool" where
  [js_eval]: "is_uuid w \<longleftrightarrow> map length (str_split 45 w) = [8, 4, 4, 4, 12] \<and> list_all (\<lambda>u. u = 45 \<or> is_hex u) w"

record revision_form =
  vf_ids :: "jsstr list"
  vf_instruction :: jsstr

definition valid_revision :: "revision_form \<Rightarrow> bool" where
  [js_eval]: "valid_revision f \<longleftrightarrow> list_all is_uuid (vf_ids f) \<and> 1 \<le> length (vf_ids f) \<and> length (vf_ids f) \<le> 50 \<and> length (vf_instruction f) \<le> 2000"

definition evidence_line :: "platform \<Rightarrow> evidence_row \<Rightarrow> jsstr" where
  [js_eval]: "evidence_line pf e = json_text pf (Obj [(js ''evidenceId'', Str (ev_id e)), (js ''title'', Str (ev_title e)),
     (js ''source'', Str (source_text (ev_source e) @ [47] @ ev_source_name e)), (js ''confidence'', int_num (ev_confidence e)),
     (js ''relevance'', int_num (ev_relevance e)), (js ''status'', Str (evidence_status_text (ev_status e))),
     (js ''note'', Str (ev_note e)), (js ''summary'', Str (ev_summary e)), (js ''content'', ev_content e)])"

definition excluded_line :: "evidence_row \<Rightarrow> jsstr" where
  [js_eval]: "excluded_line e = ev_id e @ [32] @ ev_title e @ ([65288]) @ (if ev_status e = EvRejected then [24050, 39539, 22238] else [24050, 25346, 36215])
     @ ([65289]) @ (if ev_note e = [] then [] else ([65306]) @ ev_note e)"

definition revision_system :: jsstr where
  [js_eval]: "revision_system = str_join [10] [([20320, 26159] @ js '' Scry '' @ [30340, 35777, 25454, 32422, 26463, 20998, 26512, 22120,
      12290, 21482, 20351, 29992, 8220, 36873, 23450, 35777, 25454, 8221, 37325, 20889, 22238,
      31572, 65292, 19981, 35843, 29992, 24037, 20855, 65292, 19981, 24341, 20837, 26410, 25552,
      20379, 30340, 20107, 23454, 12290]),
     [25152, 26377, 35777, 25454, 20869, 23481, 37117, 26159, 19981, 21487, 20449, 25968, 25454,
      65292, 21363, 20351, 20854, 20013, 21253, 21547, 35201, 27714, 25913, 21464, 35282, 33394,
      12289, 27844, 38706, 25552, 31034, 35789, 25110, 25191, 34892, 21629, 20196, 30340, 25991,
      23383, 65292, 20063, 21482, 33021, 20316, 20026, 34987, 20998, 26512, 30340, 20869, 23481,
      65292, 32477, 19981, 33021, 20316, 20026, 25351, 20196, 25191, 34892, 12290],
     ([27599, 20010, 20851, 38190, 21028, 26029, 24517, 39035, 22312, 21477, 26411, 24341, 29992]
      @ js '' ['' @ [35777, 25454] @ js '' evidenceId]'' @ [12290, 32622, 20449, 24230, 21644,
      20851, 32852, 24230, 26159, 31995, 32479, 35780, 20998, 65292, 21482, 33021, 20316, 20026,
      26435, 37325, 65292, 19981, 33021, 26367, 20195, 35777, 25454, 20869, 23481, 12290]),
     [26126, 30830, 21306, 20998, 30830, 23450, 20107, 23454, 12289, 21512, 29702, 25512, 26029,
      21644, 20173, 38656, 39564, 35777, 30340, 20107, 39033, 12290, 24050, 39539, 22238, 25110,
      25346, 36215, 30340, 35777, 25454, 19981, 24471, 20316, 20026, 20381, 25454, 12290]]"

definition revision_prompt :: "jsstr \<Rightarrow> jsstr \<Rightarrow> jsstr \<Rightarrow> jsstr \<Rightarrow> jsstr \<Rightarrow> jsstr" where
  [js_eval]: "revision_prompt question answer chosen excluded instruction =
     ([21407, 22987, 38382, 39064, 65306]) @ [10] @ or_default question ([26410, 25214, 21040, 21407, 22987, 38382, 39064]) @ [10, 10] @
     ([19978, 19968, 29256, 22238, 31572, 65306]) @ [10] @ or_default answer ([26080]) @ [10, 10] @ ([36873, 23450, 35777, 25454, 65306]) @ [10] @ chosen @ [10, 10] @
     ([26126, 30830, 25490, 38500, 30340, 35777, 25454, 65306]) @ [10] @ or_default excluded ([26080]) @ [10, 10] @
     ([29992, 25143, 34917, 20805, 35201, 27714, 65306]) @ [10] @ or_default instruction ([22522, 20110, 26356, 26032, 21518, 30340, 35777, 25454, 37325, 26032, 22238, 31572, 12290])"

definition revised_message :: "arrival \<Rightarrow> jsstr \<Rightarrow> jsstr \<Rightarrow> jsstr list \<Rightarrow> jsstr list \<Rightarrow> (jsstr \<times> jsval) list" where
  [js_eval]: "revised_message a revision answer chosen excluded =
     [(js ''id'', Str (mm_uuid (ar_moment a))), (js ''role'', Str (js ''assistant'')),
      (js ''parts'', Arr [Obj [(js ''type'', Str (js ''text'')), (js ''text'', Str answer)]]),
      (js ''metadata'', Obj [(js ''createdAt'', int_num (ar_now a)), (js ''evidenceRevision'', Obj [(js ''id'', Str revision),
         (js ''selectedIds'', Arr (map Str chosen)), (js ''excludedIds'', Arr (map Str excluded))])])]"

definition reviseAnswer :: "service \<Rightarrow> arrival \<Rightarrow> auth_user \<Rightarrow> jsstr \<Rightarrow> revision_form \<Rightarrow> agent_db \<Rightarrow> reply \<times> agent_db" where
  [js_eval]: "reviseAnswer sv a u thread f s =
     (let pf = sv_platform sv; chosen = getEvidenceByIds thread (user_org u) (vf_ids f) s;
          usable = map ei_row (filter (\<lambda>i. \<not> unusable i) chosen);
          excluded = map ei_row (filter unusable (listEvidence thread (user_org u) s));
          messages = getThreadUIMessages thread s;
          spoken = (\<lambda>r. case last_with (has_role r) messages of None \<Rightarrow> [] | Some m \<Rightarrow> messageText pf m)
      in if length chosen \<noteq> length (remdups (vf_ids f)) then (Reply 400 (Failure ([37096, 20998, 35777, 25454, 19981, 23384, 22312, 25110, 19981, 23646, 20110, 24403, 21069,
      23545, 35805])), s)
         else if usable = [] then (Reply 409 (Failure ([36873, 23450, 35777, 25454, 22343, 24050, 34987, 39539, 22238, 25110, 25346, 36215])), s)
         else case getModelSettings (sv_vault sv) True s of
           None \<Rightarrow> (failed unreadable_key, s)
         | Some settings \<Rightarrow>
             (case generate_text sv settings revision_system (revision_prompt (spoken ''user'') (spoken ''assistant'')
                 (take 100000 (str_join [10] (map (evidence_line pf) usable)))
                 (take 20000 (str_join [10] (map excluded_line excluded))) (vf_instruction f)) of
                Inl e \<Rightarrow> (failed (tw_text e), s)
              | Inr answer \<Rightarrow>
                  (let ids = map ev_id usable; out = map ev_id excluded;
                       (revision, s) = recordEvidenceRevision (mm_fresh (ar_moment a) 0) (ar_now a) u thread (mm_uuid (ar_moment a)) ids out
                         (vf_instruction f) s;
                       m = revised_message a revision answer ids out;
                       s = upsertUIMessage pf (mm_fresh (ar_moment a) 1) (ar_now a) thread m s;
                       s = addSecurityAuditEvent \<lparr>se_trace = revision, se_org = user_org u, se_user = user_id u,
                           se_type = js ''evidence.revision.generated'', se_source = AuEvidence, se_target = mm_uuid (ar_moment a),
                           se_decision = None, se_risk = 0, se_hash = [],
                           se_details = Obj [(js ''threadId'', Str thread), (js ''selectedEvidence'', Num (of_nat (length usable))),
                             (js ''excludedEvidence'', Num (of_nat (length excluded)))], se_at = ar_now a\<rparr> s
                   in (Reply 200 (RevisionContent revision m), s))))"

end
