(* ===== verification/Server_Runs.thy ===== *)
theory Server_Runs
  imports Server_Chat
begin

section \<open>Running workflows over HTTP (\<open>server.ts\<close>, \<open>runtime.ts\<close>)\<close>

text \<open>
  Starting a workflow and resuming a suspended run. The engine chooses which steps it executes; every
  step it executes does what \<open>Workflow_Run\<close> says, and an approval sees the decision of the request, if
  the engine resumes it with one.
\<close>

subsection \<open>The engine\<close>

definition run_tools_for :: "service \<Rightarrow> run_env \<Rightarrow> jsstr \<Rightarrow> tool_env" where
  [js_eval]: "run_tools_for sv e message =
     tools_for sv (re_user e) (Some \<lparr>ctx_thread = re_thread e, ctx_trace = re_run e, ctx_query = message\<rparr>)"

definition engine_world :: "service \<Rightarrow> run_env \<Rightarrow> jsstr \<Rightarrow> run_world" where
  [js_eval]: "engine_world sv e message =
     agent_world (sv_platform sv) (run_tools_for sv e message) (sv_gateway sv) (sv_think sv) (sv_use sv)"

fun act :: "platform \<Rightarrow> run_world \<Rightarrow> run_env \<Rightarrow> (bool \<times> jsstr option) option \<Rightarrow> engine_action \<Rightarrow> run_io \<Rightarrow> run_io" where
  "act pf w e decision (MarkAction t i suffix c) x = snd (controlMarker e t i suffix c x)"
| "act pf w e decision (NormalizeAction t i m v) x = snd (normalizeControlOutput e t i m v x)"
| "act pf w e decision (LeafAction t i resumed c) x = snd (execute_leaf pf w e t i (if resumed then decision else None) c x)"
| "act pf w e decision (FinalAction t c) x = snd (finalize pf e t c x)"

definition run_engine ::
    "service \<Rightarrow> run_env \<Rightarrow> jsstr \<Rightarrow> (bool \<times> jsstr option) option \<Rightarrow> engine_action list \<Rightarrow> agent_db \<Rightarrow> agent_db" where
  [js_eval]: "run_engine sv e message decision actions s =
     snd (fold (act (sv_platform sv) (engine_world sv e message) e decision) actions ([], s))"

subsection \<open>Starting and resuming\<close>

record start_form =
  sf_thread :: jsstr
  sf_message :: jsstr

definition valid_start :: "start_form \<Rightarrow> bool" where
  [js_eval]: "valid_start f \<longleftrightarrow> sf_thread f \<noteq> [] \<and> 1 \<le> length (sf_message f) \<and> length (sf_message f) \<le> 50000"

definition start_message :: "arrival \<Rightarrow> jsstr \<Rightarrow> (jsstr \<times> jsval) list" where
  [js_eval]: "start_message a said = [(js ''id'', Str (mm_fresh (ar_moment a) 0)), (js ''role'', Str (js ''user'')),
     (js ''parts'', Arr [Obj [(js ''type'', Str (js ''text'')), (js ''text'', Str said)]]),
     (js ''metadata'', Obj [(js ''createdAt'', int_num (ar_now a))])]"

definition run_input :: "jsstr \<Rightarrow> jsval" where
  [js_eval]: "run_input said = Obj [(js ''message'', Str said)]"

definition result_id :: "jsstr \<Rightarrow> jsstr" where
  [js_eval]: "result_id run = run @ js ''-result''"

text \<open>Compiling and running, or resuming: what both routes do with a run.\<close>

definition drive_run ::
    "service \<Rightarrow> arrival \<Rightarrow> run_env \<Rightarrow> jsval \<Rightarrow> jsstr \<Rightarrow> (bool \<times> jsstr option) option \<Rightarrow> agent_db \<Rightarrow> reply \<times> agent_db" where
  [js_eval]: "drive_run sv a e input message decision s =
     (case getModelSettings (sv_vault sv) True s of
        None \<Rightarrow> (failed unreadable_key, s)
      | Some settings \<Rightarrow>
          (let turn = sv_engine sv e settings input decision s
           in case et_error turn of
                Some m \<Rightarrow> (failed m, s)
              | None \<Rightarrow>
                  (let s = run_engine sv e message decision (et_actions turn) s;
                       s = persistAssistantUIStream sv a (re_user e) \<lparr>ctx_thread = re_thread e, ctx_trace = re_run e, ctx_query = message\<rparr>
                             (Some (result_id (re_run e))) (et_message turn) s
                   in (Reply 200 (StreamContent (et_message turn)), s))))"

definition startWorkflow :: "service \<Rightarrow> arrival \<Rightarrow> auth_user \<Rightarrow> workflow_row \<Rightarrow> start_form \<Rightarrow> agent_db \<Rightarrow> reply \<times> agent_db" where
  [js_eval]: "startWorkflow sv a u w f s =
     (if \<not> ownsThread (sf_thread f) (user_id u) (user_org u) s then (no_thread, s)
      else (let run = mm_uuid (ar_moment a); now = ar_now a;
                s = upsertUIMessage (sv_platform sv) (mm_fresh (ar_moment a) 0) now (sf_thread f) (start_message a (sf_message f)) s;
                s = updateThreadTitleFromMessage now (sf_thread f) (sf_message f) s;
                s = createWorkflowRunRecord now run (wf_id w) (sf_thread f) (user_id u) (run_input (sf_message f)) s
            in drive_run sv a \<lparr>re_workflow = w, re_user = u, re_thread = sf_thread f, re_run = run\<rparr>
                 (run_input (sf_message f)) (sf_message f) None s))"

definition streamWorkflow :: "service \<Rightarrow> arrival \<Rightarrow> auth_user \<Rightarrow> jsstr \<Rightarrow> start_form body \<Rightarrow> agent_db \<Rightarrow> reply \<times> agent_db" where
  [js_eval]: "streamWorkflow sv a u i b s =
     (case getWorkflow i s of
        None \<Rightarrow> (Reply 404 (Failure (js ''Loop '' @ ([19981, 23384, 22312, 25110, 24050, 20572, 29992]))), s)
      | Some w \<Rightarrow> if \<not> wf_enabled w then (Reply 404 (Failure (js ''Loop '' @ ([19981, 23384, 22312, 25110, 24050, 20572, 29992]))), s)
          else with_body valid_start b (startWorkflow sv a u w) s)"

record resume_form =
  rs_approved :: bool
  rs_comment :: "jsstr option"

definition valid_resume :: "resume_form \<Rightarrow> bool" where
  [js_eval]: "valid_resume f \<longleftrightarrow> (case rs_comment f of None \<Rightarrow> True | Some c \<Rightarrow> length c \<le> 2000)"

text \<open>The question of a run is the message of its input, if that is an object.\<close>

definition asked_in :: "platform \<Rightarrow> run_row \<Rightarrow> jsstr" where
  [js_eval]: "asked_in pf r = text_or pf (get_prop (fields_of (rn_input r)) (js ''message'')) []"

definition resumeRow :: "service \<Rightarrow> arrival \<Rightarrow> auth_user \<Rightarrow> run_row \<Rightarrow> resume_form \<Rightarrow> agent_db \<Rightarrow> reply \<times> agent_db" where
  [js_eval]: "resumeRow sv a u r f s =
     (if rn_suspended r = [] then (Reply 409 (Failure (js ''Loop '' @ ([24403, 21069, 19981, 22312, 31561, 24453, 23457, 25209]))), s)
      else case getWorkflow (rn_workflow r) s of
        None \<Rightarrow> (no_workflow, s)
      | Some w \<Rightarrow> drive_run sv a \<lparr>re_workflow = w, re_user = u, re_thread = rn_thread r, re_run = rn_id r\<rparr>
          (rn_input r) (asked_in (sv_platform sv) r) (Some (rs_approved f, rs_comment f)) s)"

definition resumeRun :: "service \<Rightarrow> arrival \<Rightarrow> auth_user \<Rightarrow> jsstr \<Rightarrow> resume_form body \<Rightarrow> agent_db \<Rightarrow> reply \<times> agent_db" where
  [js_eval]: "resumeRun sv a u i b s =
     (case getWorkflowRun i (user_id u) s of
        None \<Rightarrow> (Reply 404 (Failure (js ''Loop '' @ ([36816, 34892, 19981, 23384, 22312]))), s)
      | Some r \<Rightarrow> with_body valid_resume b (resumeRow sv a u r) s)"

end
