(* ===== verification/Server_Memory.thy ===== *)
theory Server_Memory
  imports Server_Chat
begin

section \<open>Memories over HTTP (\<open>server.ts\<close>)\<close>

text \<open>The routes of the memories and of their samples.\<close>

text \<open>\<open>z.coerce.boolean()\<close>: every text but the empty one is true, also \<open>false\<close>; without one, the default.\<close>

definition coerce_boolean :: "jsstr option \<Rightarrow> bool" where
  [js_eval]: "coerce_boolean v = (case v of None \<Rightarrow> True | Some w \<Rightarrow> w \<noteq> [])"

record list_form =
  lf_query :: "jsstr option"
  lf_type :: "memory_type option"
  lf_scope :: "memory_scope option"
  lf_status :: "memory_status option"
  lf_service :: "jsstr option"
  lf_inactive :: "jsstr option"
  lf_limit :: int

definition short :: "nat \<Rightarrow> jsstr option \<Rightarrow> bool" where
  [js_eval]: "short n v \<longleftrightarrow> (case v of None \<Rightarrow> True | Some w \<Rightarrow> length w \<le> n)"

definition valid_listing :: "list_form \<Rightarrow> bool" where
  [js_eval]: "valid_listing f \<longleftrightarrow> short 500 (lf_query f) \<and> short 160 (lf_service f) \<and> 1 \<le> lf_limit f \<and> lf_limit f \<le> 500"

definition listMemoriesRoute :: "service \<Rightarrow> arrival \<Rightarrow> auth_user \<Rightarrow> list_form \<Rightarrow> agent_db \<Rightarrow> reply \<times> agent_db" where
  [js_eval]: "listMemoriesRoute sv a u f s =
     (let (items, s) = listMemories (sv_platform sv) (ar_now a)
        \<lparr>mq_context = no_context, mq_query = or_else (lf_query f) [], mq_type = lf_type f, mq_scope = lf_scope f,
         mq_status = lf_status f, mq_service = or_else (lf_service f) [], mq_inactive = coerce_boolean (lf_inactive f),
         mq_limit = lf_limit f\<rparr> u s
      in (Reply 200 (MemoriesContent items), s))"

record memory_form =
  nf_type :: memory_type
  nf_scope :: memory_scope
  nf_title :: jsstr
  nf_summary :: jsstr
  nf_content :: jsval
  nf_thread :: "jsstr option"
  nf_workflow :: "jsstr option"
  nf_service :: "jsstr option"
  nf_tags :: "jsstr list option"
  nf_confidence :: "int option"
  nf_importance :: "int option"
  nf_pinned :: "bool option"
  nf_note :: "jsstr option"
  nf_expires :: "int option"
  nf_evidence :: "jsstr list"

definition score_if :: "int option \<Rightarrow> bool" where
  [js_eval]: "score_if v \<longleftrightarrow> (case v of None \<Rightarrow> True | Some n \<Rightarrow> 0 \<le> n \<and> n \<le> 100)"

definition valid_memory_form :: "memory_form \<Rightarrow> bool" where
  [js_eval]: "valid_memory_form f \<longleftrightarrow> trimmed_text 1 240 (nf_title f) \<and> trimmed_text 1 4000 (nf_summary f)
     \<and> short 200 (nf_thread f) \<and> short 200 (nf_workflow f) \<and> short 160 (nf_service f)
     \<and> (case nf_tags f of None \<Rightarrow> True | Some ts \<Rightarrow> length ts \<le> 40 \<and> list_all (\<lambda>t. length t \<le> 80) ts)
     \<and> score_if (nf_confidence f) \<and> score_if (nf_importance f) \<and> short 4000 (nf_note f)
     \<and> (case nf_expires f of None \<Rightarrow> True | Some n \<Rightarrow> 0 \<le> n) \<and> list_all is_uuid (nf_evidence f) \<and> length (nf_evidence f) \<le> 50"

definition memory_input_of :: "memory_form \<Rightarrow> evidence_row list \<Rightarrow> memory_input" where
  [js_eval]: "memory_input_of f es =
     \<lparr>mn_type = nf_type f, mn_scope = nf_scope f, mn_title = nf_title f, mn_summary = nf_summary f,
      mn_content = (if nf_content f = Undef then Null else nf_content f), mn_thread = or_else (nf_thread f) [],
      mn_workflow = or_else (nf_workflow f) [], mn_service = or_else (nf_service f) [], mn_tags = or_else (nf_tags f) [],
      mn_confidence = nf_confidence f, mn_importance = nf_importance f, mn_status = None, mn_pinned = or_else (nf_pinned f) False,
      mn_note = or_else (nf_note f) [], mn_expires = or_else (nf_expires f) 0,
      mn_sources = map (\<lambda>e. \<lparr>so_type = FromEvidence, so_source = ev_id e, so_trace = ev_trace e,
        so_relation = js ''grounded_in'', so_weight = Some (ev_confidence e)\<rparr>) es\<rparr>"

text \<open>A new memory cites evidence of the thread it names; the identifiers are counted with repetitions.\<close>

definition addMemory :: "service \<Rightarrow> arrival \<Rightarrow> auth_user \<Rightarrow> memory_form \<Rightarrow> agent_db \<Rightarrow> reply \<times> agent_db" where
  [js_eval]: "addMemory sv a u f s =
     (let thread = or_else (nf_thread f) [];
          evidence = (if thread \<noteq> [] \<and> nf_evidence f \<noteq> [] then getEvidenceByIds thread (user_org u) (nf_evidence f) s else [])
      in if thread \<noteq> [] \<and> \<not> ownsThread thread (user_id u) (user_org u) s then (no_thread, s)
         else if length evidence \<noteq> length (nf_evidence f) then (Reply 400 (Failure ([37096, 20998, 26469, 28304, 35777, 25454, 19981, 23384, 22312, 25110, 19981, 23646, 20110,
      24403, 21069, 23545, 35805])), s)
         else if list_ex unusable evidence then (Reply 409 (Failure ([24050, 39539, 22238, 25110, 25346, 36215, 30340, 35777, 25454, 19981, 33021, 20316, 20026,
      35760, 24518, 26469, 28304])), s)
         else (let (r, s) = createMemory (sv_platform sv) (mm_fresh (ar_moment a)) (ar_now a) u (memory_input_of f (map ei_row evidence)) s
               in (case r of Inl e \<Rightarrow> failed (memory_error_text e) | Inr m \<Rightarrow> Reply 201 (MemoryContent m), s)))"

definition readMemory :: "service \<Rightarrow> arrival \<Rightarrow> auth_user \<Rightarrow> jsstr \<Rightarrow> agent_db \<Rightarrow> reply \<times> agent_db" where
  [js_eval]: "readMemory sv a u i s =
     (let (found, s) = getMemory (sv_platform sv) (ar_now a) i u no_context s
      in (case found of None \<Rightarrow> no_memory | Some m \<Rightarrow> Reply 200 (MemoryContent (Some m)), s))"

definition valid_memory_patch :: "memory_patch \<Rightarrow> bool" where
  [js_eval]: "valid_memory_patch p \<longleftrightarrow> short 4000 (mp_note p) \<and> score_if (mp_confidence p) \<and> score_if (mp_importance p)
     \<and> (mp_status p \<noteq> None \<or> mp_pinned p \<noteq> None \<or> mp_note p \<noteq> None \<or> mp_confidence p \<noteq> None \<or> mp_importance p \<noteq> None)"

definition memory_reply :: "(memory_error + memory_item option) \<Rightarrow> reply" where
  [js_eval]: "memory_reply r = (case r of
     Inl e \<Rightarrow> failed (memory_error_text e) | Inr None \<Rightarrow> no_memory | Inr (Some m) \<Rightarrow> Reply 200 (MemoryContent (Some m)))"

definition patchMemory :: "service \<Rightarrow> arrival \<Rightarrow> auth_user \<Rightarrow> jsstr \<Rightarrow> memory_patch \<Rightarrow> agent_db \<Rightarrow> reply \<times> agent_db" where
  [js_eval]: "patchMemory sv a u i p s =
     (let (r, s) = updateMemory (sv_platform sv) (ar_now a) i u p s in (memory_reply r, s))"

definition dropMemory :: "service \<Rightarrow> arrival \<Rightarrow> auth_user \<Rightarrow> jsstr \<Rightarrow> agent_db \<Rightarrow> reply \<times> agent_db" where
  [js_eval]: "dropMemory sv a u i s = (let (r, s) = forgetMemory (sv_platform sv) (ar_now a) i u s in (memory_reply r, s))"

record search_form =
  hq_query :: jsstr
  hq_thread :: "jsstr option"
  hq_trace :: "jsstr option"
  hq_limit :: int

definition valid_search :: "search_form \<Rightarrow> bool" where
  [js_eval]: "valid_search f \<longleftrightarrow> 1 \<le> length (hq_query f) \<and> length (hq_query f) \<le> 20000 \<and> short 200 (hq_thread f)
     \<and> short 200 (hq_trace f) \<and> 1 \<le> hq_limit f \<and> hq_limit f \<le> 30"

definition retrieve_in_thread ::
    "service \<Rightarrow> arrival \<Rightarrow> auth_user \<Rightarrow> jsstr \<Rightarrow> jsstr \<Rightarrow> jsstr \<Rightarrow> int \<Rightarrow> agent_db \<Rightarrow> reply \<times> agent_db" where
  [js_eval]: "retrieve_in_thread sv a u question thread trace limit s =
     (let (packet, s) = retrieveMemories (sv_platform sv) (mm_uuid (ar_moment a)) (ar_now a) (ar_now a) u question
        \<lparr>mx_thread = thread, mx_workflow = [], mx_trace = trace,
         mx_evidence = (if thread = [] then [] else map ei_row (listEvidence thread (user_org u) s))\<rparr> limit False s
      in (Reply 200 (PacketContent packet), s))"

definition searchMemories :: "service \<Rightarrow> arrival \<Rightarrow> auth_user \<Rightarrow> search_form \<Rightarrow> agent_db \<Rightarrow> reply \<times> agent_db" where
  [js_eval]: "searchMemories sv a u f s =
     (let thread = or_else (hq_thread f) []
      in if thread \<noteq> [] \<and> \<not> ownsThread thread (user_id u) (user_org u) s then (no_thread, s)
         else retrieve_in_thread sv a u (hq_query f) thread (or_else (hq_trace f) []) (hq_limit f) s)"

definition usual_question :: jsstr where
  [js_eval]: "usual_question = [24403, 21069, 23545, 35805, 30456, 20851, 36816, 34892, 32463, 39564]"

definition threadMemories :: "service \<Rightarrow> arrival \<Rightarrow> auth_user \<Rightarrow> jsstr \<Rightarrow> agent_db \<Rightarrow> reply \<times> agent_db" where
  [js_eval]: "threadMemories sv a u thread s =
     (if \<not> ownsThread thread (user_id u) (user_org u) s then (no_thread, s)
      else (let question = (case last_with (has_role ''user'') (getThreadUIMessages thread s) of
                  None \<Rightarrow> [] | Some m \<Rightarrow> messageText (sv_platform sv) m)
            in retrieve_in_thread sv a u (or_default question usual_question) thread [] 10 s))"

definition maintainRoute :: "service \<Rightarrow> arrival \<Rightarrow> auth_user \<Rightarrow> int \<Rightarrow> agent_db \<Rightarrow> reply \<times> agent_db" where
  [js_eval]: "maintainRoute sv a u limit s =
     (let (report, s) = maintainMemories (sv_platform sv) (mm_fresh (ar_moment a)) (ar_now a) u limit s
      in (Reply 200 (ReportContent report), s))"

definition statsRoute :: "service \<Rightarrow> arrival \<Rightarrow> auth_user \<Rightarrow> agent_db \<Rightarrow> reply \<times> agent_db" where
  [js_eval]: "statsRoute sv a u s = (let (stats, s) = memoryStats (sv_platform sv) (ar_now a) u s in (Reply 200 (StatsContent stats), s))"

definition valid_samples :: "jsstr list \<Rightarrow> bool" where
  [js_eval]: "valid_samples ids \<longleftrightarrow> 1 \<le> length ids \<and> length ids \<le> 50 \<and> list_all (\<lambda>i. i \<noteq> []) ids"

definition generateSamples :: "service \<Rightarrow> arrival \<Rightarrow> auth_user \<Rightarrow> jsstr list \<Rightarrow> agent_db \<Rightarrow> reply \<times> agent_db" where
  [js_eval]: "generateSamples sv a u ids s =
     (let (r, s) = generateMemorySamples (sv_platform sv) (ar_ids a 0) (ar_now a) u ids s
      in (case r of Inl m \<Rightarrow> Reply 400 (Failure m) | Inr p \<Rightarrow> Reply 201 (GeneratedContent p), s))"

definition dropSample :: "service \<Rightarrow> arrival \<Rightarrow> auth_user \<Rightarrow> jsstr \<Rightarrow> agent_db \<Rightarrow> reply \<times> agent_db" where
  [js_eval]: "dropSample sv a u i s =
     (let (r, s) = deleteSampleMemory (sv_platform sv) (ar_now a) i u s
      in (case r of
            Inl m \<Rightarrow> Reply 400 (Failure m)
          | Inr None \<Rightarrow> Reply 404 (Failure ([31034, 20363, 35760, 24518, 19981, 23384, 22312]))
          | Inr (Some (memory, sample)) \<Rightarrow> Reply 200 (DroppedSampleContent memory sample), s))"

end
