(* ===== verification/Server_Api.thy ===== *)
theory Server_Api
  imports Server_Runs Server_Memory
begin

section \<open>The HTTP interface (\<open>server.ts\<close>)\<close>

text \<open>
  The routes of administrators, the type of all requests and the handler of any of them: authentication,
  the guard of administrators, the check of the body, the operation, the reply.
\<close>

subsection \<open>MCP servers\<close>

definition valid_mcp_form :: "service \<Rightarrow> mcp_form \<Rightarrow> bool" where
  [js_eval]: "valid_mcp_form sv f \<longleftrightarrow> trimmed_text 1 100 (cf_name f) \<and> trimmed_text 0 500 (cf_description f)
     \<and> length (cf_url f) \<le> 1000
     \<and> (case sv_parse_url sv (cf_url f) of
          None \<Rightarrow> False
        | Some (scheme, user, password) \<Rightarrow> (scheme = js ''https:'' \<or> scheme = js ''http:'') \<and> user = [] \<and> password = [])
     \<and> (case cf_headers f of None \<Rightarrow> True | Some h \<Rightarrow> valid_headers h) \<and> 1000 \<le> cf_timeout f \<and> cf_timeout f \<le> 120000"

definition no_server :: reply where
  [js_eval]: "no_server = Reply 404 (Failure (js ''MCP '' @ ([26381, 21153, 19981, 23384, 22312])))"

definition addServer :: "service \<Rightarrow> arrival \<Rightarrow> auth_user \<Rightarrow> mcp_form \<Rightarrow> agent_db \<Rightarrow> reply \<times> agent_db" where
  [js_eval]: "addServer sv a u f s =
     (let (w, s) = createMCPServerRecord (sv_vault sv) (sv_platform sv) (ar_nonce a) (mm_uuid (ar_moment a)) (ar_now a) (user_org u) f s
      in (Reply 201 (ServerContent w), s))"

definition changeServer :: "service \<Rightarrow> arrival \<Rightarrow> auth_user \<Rightarrow> jsstr \<Rightarrow> mcp_form \<Rightarrow> agent_db \<Rightarrow> reply \<times> agent_db" where
  [js_eval]: "changeServer sv a u i f s =
     (let (w, s) = updateMCPServerRecord (sv_vault sv) (sv_platform sv) (ar_nonce a) (ar_now a) i (user_org u) f s
      in (case w of None \<Rightarrow> no_server | Some _ \<Rightarrow> Reply 200 (ServerContent w), s))"

definition dropServer :: "auth_user \<Rightarrow> jsstr \<Rightarrow> agent_db \<Rightarrow> reply \<times> agent_db" where
  [js_eval]: "dropServer u i s = (Reply 204 Empty, deleteMCPServerRecord i (user_org u) s)"

definition testServer :: "service \<Rightarrow> auth_user \<Rightarrow> jsstr \<Rightarrow> agent_db \<Rightarrow> reply \<times> agent_db" where
  [js_eval]: "testServer sv u i s =
     (case getMCPServer (sv_vault sv) i (user_org u) True s of
        None \<Rightarrow> (no_server, s)
      | Some w \<Rightarrow> (let (tools, e) = inspectMCPServer (sv_connect sv) w in (Reply 200 (ToolsContent tools e), s)))"

subsection \<open>The model\<close>

definition settings_reply :: "model_view option \<Rightarrow> reply" where
  [js_eval]: "settings_reply m = (case m of None \<Rightarrow> failed unreadable_key | Some _ \<Rightarrow> Reply 200 (SettingsContent m))"

definition changeSettings :: "service \<Rightarrow> arrival \<Rightarrow> model_form \<Rightarrow> agent_db \<Rightarrow> reply \<times> agent_db" where
  [js_eval]: "changeSettings sv a f s =
     (let (m, s) = updateModelSettings (sv_vault sv) (ar_nonce a) (ar_now a) f s in (settings_reply m, s))"

text \<open>A test may replace any of the stored settings; an empty key stands for the stored one.\<close>

record test_form =
  tf_provider :: "model_provider option"
  tf_mode :: "endpoint_mode option"
  tf_model :: "jsstr option"
  tf_base :: "jsstr option"
  tf_key :: "jsstr option"
  tf_temperature :: "rat option option"
  tf_tokens :: "int option"
  tf_steps :: "int option"
  tf_timeout :: "int option"
  tf_retries :: "int option"
  tf_choice :: "tool_choice option"
  tf_instructions :: "jsstr option"
  tf_memory :: "int option"

definition empty_test :: test_form where
  [js_eval]: "empty_test = \<lparr>tf_provider = None, tf_mode = None, tf_model = None, tf_base = None, tf_key = None, tf_temperature = None,
     tf_tokens = None, tf_steps = None, tf_timeout = None, tf_retries = None, tf_choice = None, tf_instructions = None, tf_memory = None\<rparr>"

definition between :: "int \<Rightarrow> int \<Rightarrow> int option \<Rightarrow> bool" where
  [js_eval]: "between lo hi v \<longleftrightarrow> (case v of None \<Rightarrow> True | Some n \<Rightarrow> lo \<le> n \<and> n \<le> hi)"

definition valid_test :: "test_form \<Rightarrow> bool" where
  [js_eval]: "valid_test f \<longleftrightarrow> short 200 (tf_model f) \<and> tf_model f \<noteq> Some [] \<and> short 500 (tf_base f) \<and> short 1000 (tf_key f)
     \<and> (case tf_temperature f of Some (Some t) \<Rightarrow> 0 \<le> t \<and> t \<le> 2 | _ \<Rightarrow> True) \<and> between 64 128000 (tf_tokens f)
     \<and> between 1 50 (tf_steps f) \<and> between 10 1800 (tf_timeout f) \<and> between 0 10 (tf_retries f) \<and> short 20000 (tf_instructions f)
     \<and> between 1 200 (tf_memory f)"

definition tested_settings :: "test_form \<Rightarrow> model_view \<Rightarrow> model_view" where
  [js_eval]: "tested_settings f m =
     (let key = or_default (trim (or_else (tf_key f) [])) (md_key m)
      in \<lparr>md_provider = or_else (tf_provider f) (md_provider m), md_mode = or_else (tf_mode f) (md_mode m),
          md_model = or_else (tf_model f) (md_model m), md_base = or_else (tf_base f) (md_base m), md_key = key, md_has_key = (key \<noteq> []),
          md_temperature = or_else (tf_temperature f) (md_temperature m), md_tokens = or_else (tf_tokens f) (md_tokens m),
          md_steps = or_else (tf_steps f) (md_steps m), md_timeout = or_else (tf_timeout f) (md_timeout m),
          md_retries = or_else (tf_retries f) (md_retries m), md_choice = or_else (tf_choice f) (md_choice m),
          md_instructions = or_else (tf_instructions f) (md_instructions m), md_memory = or_else (tf_memory f) (md_memory m)\<rparr>)"

fun protocol_text :: "model_provider \<Rightarrow> jsstr" where
  "protocol_text OpenAI = js ''OpenAI Responses API''"
| "protocol_text Anthropic = js ''Anthropic Messages API''"

definition test_result :: "model_view \<Rightarrow> bool \<Rightarrow> jsstr \<Rightarrow> test_category \<Rightarrow> jsstr \<Rightarrow> jsstr \<Rightarrow> reply" where
  [js_eval]: "test_result m fine endpoint category message answer = Reply 200 (TestContent \<lparr>mt_ok = fine, mt_provider = md_provider m,
     mt_protocol = protocol_text (md_provider m), mt_name = md_model m, mt_endpoint = endpoint, mt_category = category,
     mt_message = message, mt_response = answer\<rparr>)"

definition failed_test :: "platform \<Rightarrow> model_view \<Rightarrow> jsstr \<Rightarrow> thrown \<Rightarrow> reply" where
  [js_eval]: "failed_test pf m endpoint e =
     (let (category, message) = diagnoseModelError pf e in test_result m False (or_default endpoint (safeEndpoint m)) category message [])"

definition run_test :: "service \<Rightarrow> model_view \<Rightarrow> reply" where
  [js_eval]: "run_test sv m =
     (case resolvedRequestEndpoint m of
        Inl e \<Rightarrow> failed_test (sv_platform sv) m [] (plain_error e)
      | Inr endpoint \<Rightarrow>
          (case generate_text sv m [] ([21482, 22238, 22797, 8220, 36830, 25509, 25104, 21151, 8221, 12290]) of
             Inl e \<Rightarrow> failed_test (sv_platform sv) m endpoint e
           | Inr answer \<Rightarrow> test_result m True endpoint TestSuccess ([27169, 22411, 36830, 25509, 25104, 21151]) answer))"

definition testSettings :: "service \<Rightarrow> test_form \<Rightarrow> agent_db \<Rightarrow> reply \<times> agent_db" where
  [js_eval]: "testSettings sv f s =
     (case getModelSettings (sv_vault sv) True s of
        None \<Rightarrow> (failed unreadable_key, s)
      | Some saved \<Rightarrow> (run_test sv (tested_settings f saved), s))"

subsection \<open>Hosts\<close>

definition probeHost :: "service \<Rightarrow> jsstr \<times> int \<Rightarrow> agent_db \<Rightarrow> reply \<times> agent_db" where
  [js_eval]: "probeHost sv hp s =
     (case sv_fingerprint sv (fst hp) (snd hp) of Inl m \<Rightarrow> (failed m, s) | Inr k \<Rightarrow> (Reply 200 (FingerprintContent k), s))"

definition valid_probe :: "jsstr \<times> int \<Rightarrow> bool" where
  [js_eval]: "valid_probe hp \<longleftrightarrow> trimmed_text 1 253 (fst hp) \<and> 1 \<le> snd hp \<and> snd hp \<le> 65535"

definition host_reply :: "nat \<Rightarrow> host_error + ssh_host option \<Rightarrow> reply" where
  [js_eval]: "host_reply st r = (case r of Inl e \<Rightarrow> failed (host_error_text e) | Inr h \<Rightarrow> Reply st (HostContent h))"

definition addHost :: "arrival \<Rightarrow> host_form \<Rightarrow> agent_db \<Rightarrow> reply \<times> agent_db" where
  [js_eval]: "addHost a f s = (let (r, s) = createSSHHost (mm_uuid (ar_moment a)) (ar_now a) f s in (host_reply 201 r, s))"

definition is_simulated :: "ssh_host option \<Rightarrow> bool" where
  [js_eval]: "is_simulated h \<longleftrightarrow> (case h of None \<Rightarrow> False | Some h \<Rightarrow> sh_simulated h)"

definition changeHost :: "arrival \<Rightarrow> auth_user \<Rightarrow> jsstr \<Rightarrow> host_form body \<Rightarrow> agent_db \<Rightarrow> reply \<times> agent_db" where
  [js_eval]: "changeHost a u i b s =
     (if is_simulated (getSSHHost (ar_now a) i (user_org u) s) then (Reply 409 (Failure (([27169, 25311] @ js '' SSH '' @ [20027, 26426, 21482, 33021, 22312, 35843, 35797, 27169,
      24335, 20013, 31649, 29702]))), s)
      else with_body valid_host_form b (\<lambda>f s.
        (let (r, s) = updateSSHHost (ar_now a) i f s
         in (case r of Inr None \<Rightarrow> Reply 404 (Failure (js ''SSH '' @ ([20027, 26426, 19981, 23384, 22312]))) | _ \<Rightarrow> host_reply 200 r, s))) s)"

definition dropHost :: "arrival \<Rightarrow> auth_user \<Rightarrow> jsstr \<Rightarrow> agent_db \<Rightarrow> reply \<times> agent_db" where
  [js_eval]: "dropHost a u i s =
     (case getSSHHost (ar_now a) i (user_org u) s of
        None \<Rightarrow> (Reply 204 Empty, s)
      | Some h \<Rightarrow> if sh_simulated h then (Reply 409 (Failure (([35831, 22312, 35843, 35797, 27169, 24335, 20013, 20851, 38381, 27169, 25311] @ js '' SSH ''
      @ [20027, 26426]))), s)
          else (Reply 204 Empty, deleteSSHHost i s))"

definition connection_audit :: "arrival \<Rightarrow> auth_user \<Rightarrow> ssh_host \<Rightarrow> bool \<Rightarrow> int option \<Rightarrow> int \<Rightarrow> nat \<Rightarrow> nat \<Rightarrow> jsstr \<Rightarrow> ssh_audit" where
  [js_eval]: "connection_audit a u h fine code took out err m = \<lparr>sa_user = user_id u, sa_host = sh_id h, sa_host_name = sh_name h,
     sa_tool = js ''ssh-connection-test'', sa_command = js ''connection_test'', sa_success = fine, sa_exit = code, sa_duration = took,
     sa_stdout = out, sa_stderr = err, sa_error = m, sa_created = ar_now a\<rparr>"

definition testHost :: "service \<Rightarrow> arrival \<Rightarrow> auth_user \<Rightarrow> jsstr \<Rightarrow> agent_db \<Rightarrow> reply \<times> agent_db" where
  [js_eval]: "testHost sv a u i s =
     (case getSSHHostWithSecret (ar_now a) i (user_org u) s of
        None \<Rightarrow> (Reply 404 (Failure (js ''SSH '' @ ([20027, 26426, 19981, 23384, 22312]))), s)
      | Some h \<Rightarrow>
          (case testSSHConnection (sv_network sv) h of
             Inr r \<Rightarrow>
               (let fine = (xr_exit r = Some 0 \<and> xr_stdout r = js ''SCRY_SSH_OK'')
                in (Reply 200 (ConnectionContent fine (xr_duration r)),
                    addSSHAudit (connection_audit a u h fine (xr_exit r) (xr_duration r) (xr_stdout_bytes r) (xr_stderr_bytes r)
                      (if fine then [] else [36830, 25509, 26657, 39564, 26410, 36820, 22238, 39044, 26399, 32467, 26524])) s))
           | Inl m \<Rightarrow> (failed m, addSSHAudit (connection_audit a u h False None 0 0 0 (take 500 m)) s)))"

definition changePolicy :: "arrival \<Rightarrow> ssh_tool \<Rightarrow> ssh_policy \<Rightarrow> agent_db \<Rightarrow> reply \<times> agent_db" where
  [js_eval]: "changePolicy a tool p s =
     (let (r, s) = put_policy (ar_now a) tool p s
      in (case r of None \<Rightarrow> Reply 404 (Failure (js ''SSH '' @ ([24037, 20855, 31574, 30053, 19981, 23384, 22312]))) | Some _ \<Rightarrow> Reply 200 (PolicyContent r), s))"

definition changeSimulation :: "arrival \<Rightarrow> auth_user \<Rightarrow> bool \<Rightarrow> agent_db \<Rightarrow> reply \<times> agent_db" where
  [js_eval]: "changeSimulation a u enabled s =
     (let (r, s) = updateDebugSimulationSettings (ar_now a) (user_org u) enabled s in (Reply 200 (SimulationContent r), s))"

subsection \<open>Workflows\<close>

definition valid_trigger :: "event_trigger \<Rightarrow> bool" where
  [js_eval]: "valid_trigger e \<longleftrightarrow> valid_id 80 (et_id e) \<and> 1 \<le> length (et_type e) \<and> length (et_type e) \<le> 100 \<and> length (et_filter e) \<le> 2000"

definition valid_input_field :: "input_field \<Rightarrow> bool" where
  [js_eval]: "valid_input_field i \<longleftrightarrow> valid_id 80 (if_id i) \<and> 1 \<le> length (if_label i) \<and> length (if_label i) \<le> 100
     \<and> short 500 (if_description i) \<and> short 4000 (if_default i)"

definition all_if :: "nat \<Rightarrow> ('a \<Rightarrow> bool) \<Rightarrow> 'a list option \<Rightarrow> bool" where
  [js_eval]: "all_if n P v \<longleftrightarrow> (case v of None \<Rightarrow> True | Some xs \<Rightarrow> length xs \<le> n \<and> list_all P xs)"

definition valid_workflow_form :: "workflow_form \<Rightarrow> bool" where
  [js_eval]: "valid_workflow_form f \<longleftrightarrow> 1 \<le> length (wi_name f) \<and> length (wi_name f) \<le> 100 \<and> short 2000 (wi_description f)
     \<and> all_if 20 (trimmed_text 1 40) (wi_tags f)
     \<and> (case wi_schedule f of None \<Rightarrow> True | Some c \<Rightarrow> length (sd_cron c) \<le> 200 \<and> 1 \<le> length (sd_timezone c) \<and> length (sd_timezone c) \<le> 80)
     \<and> all_if 20 valid_trigger (wi_triggers f) \<and> all_if 30 valid_input_field (wi_inputs f) \<and> valid_definition (wi_definition f)"

definition readWorkflow :: "jsstr \<Rightarrow> agent_db \<Rightarrow> reply \<times> agent_db" where
  [js_eval]: "readWorkflow i s = (case getWorkflow i s of None \<Rightarrow> (no_workflow, s) | Some w \<Rightarrow> (Reply 200 (WorkflowContent (Some w)), s))"

definition addWorkflow :: "arrival \<Rightarrow> workflow_form \<Rightarrow> agent_db \<Rightarrow> reply \<times> agent_db" where
  [js_eval]: "addWorkflow a f s = (let (w, s) = createWorkflowRecord (mm_uuid (ar_moment a)) (ar_now a) f s in (Reply 201 (WorkflowContent w), s))"

definition system_prefix :: jsstr where
  [js_eval]: "system_prefix = js ''system-''"

definition changeWorkflow :: "arrival \<Rightarrow> jsstr \<Rightarrow> workflow_form body \<Rightarrow> agent_db \<Rightarrow> reply \<times> agent_db" where
  [js_eval]: "changeWorkflow a i b s =
     (if starts_with i system_prefix then (Reply 403 (Failure (([31995, 32479] @ js '' Loop '' @ [24050, 38145, 23450, 65292, 19981, 33021, 20462, 25913]))), s)
      else with_body valid_workflow_form b (\<lambda>f s.
        (let (w, s) = updateWorkflowRecord (ar_now a) i f s
         in (case w of None \<Rightarrow> no_workflow | Some _ \<Rightarrow> Reply 200 (WorkflowContent w), s))) s)"

definition dropWorkflow :: "jsstr \<Rightarrow> agent_db \<Rightarrow> reply \<times> agent_db" where
  [js_eval]: "dropWorkflow i s =
     (if starts_with i system_prefix then (Reply 403 (Failure (([31995, 32479] @ js '' Loop '' @ [24050, 38145, 23450, 65292, 19981, 33021, 21024, 38500]))), s)
      else case getWorkflow i s of None \<Rightarrow> (Reply 204 Empty, s) | Some _ \<Rightarrow> (Reply 204 Empty, deleteWorkflowRecord i s))"

subsection \<open>All routes\<close>

datatype route =
    GetServers | PostServer "mcp_form body" | PutServer jsstr "mcp_form body" | DeleteServer jsstr | PostServerTest jsstr
  | GetSettings | PutSettings "model_form body" | PostSettingsTest "test_form body"
  | GetSimulation | PutSimulation "bool body"
  | GetHosts | PostProbe "(jsstr \<times> int) body" | PostHost "host_form body" | PutHost jsstr "host_form body" | DeleteHost jsstr | PostHostTest jsstr
  | GetPolicies | PutPolicy "ssh_tool option" "ssh_policy body" | GetSshAudits "int body" | GetSecurityAudits "int body"
  | GetThreads | PostThread "jsval body" | GetThread jsstr | DeleteThread jsstr
  | GetSamples | PostSamples "jsstr list body" | DeleteSample jsstr
  | GetStats | GetMemories "list_form body" | PostMemory "memory_form body" | GetMemory jsstr | PatchMemory jsstr "memory_patch body"
  | DeleteMemory jsstr | PostSearch "search_form body" | GetThreadMemories jsstr | PostMaintenance "int body"
  | GetEvidence jsstr | PatchEvidence jsstr "evidence_patch body" | PostRevision jsstr "revision_form body"
  | PostChat "chat_form body"
  | GetWorkflows bool | GetWorkflow jsstr | PostWorkflow "workflow_form body" | PutWorkflow jsstr "workflow_form body" | DeleteWorkflow jsstr
  | GetRuns jsstr | PostStream jsstr "start_form body" | PostResume jsstr "resume_form body"

text \<open>The routes whose handler starts with \<open>requireAdmin\<close>.\<close>

fun admin_only :: "route \<Rightarrow> bool" where
  "admin_only GetServers = True"
| "admin_only (PostServer _) = True"
| "admin_only (PutServer _ _) = True"
| "admin_only (DeleteServer _) = True"
| "admin_only (PostServerTest _) = True"
| "admin_only (PutSettings _) = True"
| "admin_only (PostSettingsTest _) = True"
| "admin_only GetSimulation = True"
| "admin_only (PutSimulation _) = True"
| "admin_only GetHosts = True"
| "admin_only (PostProbe _) = True"
| "admin_only (PostHost _) = True"
| "admin_only (PutHost _ _) = True"
| "admin_only (DeleteHost _) = True"
| "admin_only (PostHostTest _) = True"
| "admin_only GetPolicies = True"
| "admin_only (PutPolicy _ _) = True"
| "admin_only (GetSshAudits _) = True"
| "admin_only (GetSecurityAudits _) = True"
| "admin_only (PostWorkflow _) = True"
| "admin_only (PutWorkflow _ _) = True"
| "admin_only (DeleteWorkflow _) = True"
| "admin_only _ = False"

definition limit_between :: "int \<Rightarrow> int \<Rightarrow> bool" where
  [js_eval]: "limit_between hi n \<longleftrightarrow> 1 \<le> n \<and> n \<le> hi"

fun serve :: "service \<Rightarrow> arrival \<Rightarrow> auth_user \<Rightarrow> route \<Rightarrow> agent_db \<Rightarrow> reply \<times> agent_db" where
  "serve sv a u GetServers s = (Reply 200 (ServersContent (listMCPServers (sv_vault sv) (user_org u) False False s)), s)"
| "serve sv a u (PostServer b) s = with_body (valid_mcp_form sv) b (addServer sv a u) s"
| "serve sv a u (PutServer i b) s = with_body (valid_mcp_form sv) b (changeServer sv a u i) s"
| "serve sv a u (DeleteServer i) s = dropServer u i s"
| "serve sv a u (PostServerTest i) s = testServer sv u i s"
| "serve sv a u GetSettings s = (settings_reply (getModelSettings (sv_vault sv) False s), s)"
| "serve sv a u (PutSettings b) s = with_body valid_model_form b (changeSettings sv a) s"
| "serve sv a u (PostSettingsTest b) s = with_body valid_test (or_empty b (Fit empty_test)) (testSettings sv) s"
| "serve sv a u GetSimulation s = (Reply 200 (SimulationContent (getDebugSimulationSettings (user_org u) s)), s)"
| "serve sv a u (PutSimulation b) s = with_body (\<lambda>_. True) b (changeSimulation a u) s"
| "serve sv a u GetHosts s = (Reply 200 (HostsContent (listSSHHosts (ar_now a) False (user_org u) s)), s)"
| "serve sv a u (PostProbe b) s = with_body valid_probe b (probeHost sv) s"
| "serve sv a u (PostHost b) s = with_body valid_host_form b (addHost a) s"
| "serve sv a u (PutHost i b) s = changeHost a u i b s"
| "serve sv a u (DeleteHost i) s = dropHost a u i s"
| "serve sv a u (PostHostTest i) s = testHost sv a u i s"
| "serve sv a u GetPolicies s = (Reply 200 (PoliciesContent (listSSHToolPolicies s)), s)"
| "serve sv a u (PutPolicy tool b) s = (case tool of
     None \<Rightarrow> (Reply 400 InvalidRequest, s) | Some k \<Rightarrow> with_body valid_ssh_policy b (changePolicy a k) s)"
| "serve sv a u (GetSshAudits b) s = with_body (limit_between 200) b (\<lambda>n s. (Reply 200 (SshAuditsContent (listSSHAudits n s)), s)) s"
| "serve sv a u (GetSecurityAudits b) s =
     with_body (limit_between 500) b (\<lambda>n s. (Reply 200 (SecurityAuditsContent (listSecurityAuditEvents (user_org u) n s)), s)) s"
| "serve sv a u GetThreads s = (Reply 200 (ThreadsContent (listThreads u s)), s)"
| "serve sv a u (PostThread b) s = with_body (\<lambda>_. True) (or_empty b (Fit (Obj []))) (addThread a u) s"
| "serve sv a u (GetThread i) s = readThread u i s"
| "serve sv a u (DeleteThread i) s = dropThread u i s"
| "serve sv a u GetSamples s = (Reply 200 (SamplesContent (listMemorySamples (sv_platform sv) u s)), s)"
| "serve sv a u (PostSamples b) s = with_body valid_samples b (generateSamples sv a u) s"
| "serve sv a u (DeleteSample i) s = dropSample sv a u i s"
| "serve sv a u GetStats s = statsRoute sv a u s"
| "serve sv a u (GetMemories b) s = with_body valid_listing b (listMemoriesRoute sv a u) s"
| "serve sv a u (PostMemory b) s = with_body valid_memory_form b (addMemory sv a u) s"
| "serve sv a u (GetMemory i) s = readMemory sv a u i s"
| "serve sv a u (PatchMemory i b) s = with_body valid_memory_patch b (patchMemory sv a u i) s"
| "serve sv a u (DeleteMemory i) s = dropMemory sv a u i s"
| "serve sv a u (PostSearch b) s = with_body valid_search b (searchMemories sv a u) s"
| "serve sv a u (GetThreadMemories i) s = threadMemories sv a u i s"
| "serve sv a u (PostMaintenance b) s = with_body (limit_between 500) (or_empty b (Fit 500)) (maintainRoute sv a u) s"
| "serve sv a u (GetEvidence i) s = threadEvidence sv a u i s"
| "serve sv a u (PatchEvidence i b) s = with_body valid_evidence_patch b (patchEvidence sv a u i) s"
| "serve sv a u (PostRevision i b) s =
     (if ownsThread i (user_id u) (user_org u) s then with_body valid_revision b (reviseAnswer sv a u i) s else (no_thread, s))"
| "serve sv a u (PostChat b) s = with_body valid_chat b (chat sv a u) s"
| "serve sv a u (GetWorkflows only) s = (Reply 200 (WorkflowsContent (listWorkflows only s)), s)"
| "serve sv a u (GetWorkflow i) s = readWorkflow i s"
| "serve sv a u (PostWorkflow b) s = with_body valid_workflow_form b (addWorkflow a) s"
| "serve sv a u (PutWorkflow i b) s = changeWorkflow a i b s"
| "serve sv a u (DeleteWorkflow i) s = dropWorkflow i s"
| "serve sv a u (GetRuns i) s = (Reply 200 (RunsContent (listWorkflowRuns i (user_id u) s)), s)"
| "serve sv a u (PostStream i b) s = streamWorkflow sv a u i b s"
| "serve sv a u (PostResume i b) s = resumeRun sv a u i b s"

text \<open>A request with its header; \<open>None\<close> as route is \<open>/health\<close>, the one path that needs no user.\<close>

definition handle :: "service \<Rightarrow> arrival \<Rightarrow> jsstr option \<Rightarrow> route option \<Rightarrow> agent_db \<Rightarrow> reply \<times> agent_db" where
  [js_eval]: "handle sv a bearer r s =
     (case r of
        None \<Rightarrow> (Reply 200 Health, s)
      | Some r \<Rightarrow>
          (case authenticate (sv_platform sv) (sv_identity sv) bearer of
             Inl m \<Rightarrow> (Reply 401 (Failure m), s)
           | Inr u \<Rightarrow> if admin_only r then as_admin u (serve sv a u r) s else serve sv a u r s))"

text \<open>
  A tool called over MCP: the tools are those of the user of the token, in the conversation the headers
  name, which nobody compares with the threads of the user. \<open>Inl\<close> is status 401.
\<close>

definition serve_mcp ::
    "service \<Rightarrow> moment \<Rightarrow> headers \<Rightarrow> tool_call \<Rightarrow> agent_db \<Rightarrow> (jsstr + (tool_error + tool_output)) \<times> agent_db" where
  [js_eval]: "serve_mcp sv t hs call s =
     (case mcp_session (sv_platform sv) (sv_identity sv) hs of
        Inl m \<Rightarrow> (Inl m, s)
      | Inr (u, x) \<Rightarrow> map_prod Inr id (run_tool (sv_platform sv) (tools_for sv u x) t call s))"

end
