(* ===== verification/Server_Frame.thy ===== *)
theory Server_Frame
  imports Server_Api
begin

section \<open>What the requests of users have in common\<close>

text \<open>
  Every request of a user is a chain of steps on a few groups of tables. The locale names these steps; a
  property of databases that each of them keeps is kept by every request, by every turn of an agent and by
  every execution of a workflow. It is interpreted for the rights of users and for the separation of
  organisations.
\<close>

subsection \<open>Fresh identifiers\<close>

text \<open>
  Some properties hold only if the identifiers drawn for new memories are new. \<open>fresh\<close> says so of one
  moment, \<open>calm\<close> of a sequence of tool calls; a service is steady if all turns of its agents and all
  executions of its engine draw such identifiers.
\<close>

type_synonym calls = "(moment \<times> tool_call) list"

primrec steady ::
    "(moment \<Rightarrow> agent_db \<Rightarrow> bool) \<Rightarrow> platform \<Rightarrow> run_world \<Rightarrow> run_env \<Rightarrow> (bool \<times> jsstr option) option \<Rightarrow> engine_action list \<Rightarrow>
       run_io \<Rightarrow> bool" where
  "steady fresh pf w e d [] x = True"
| "steady fresh pf w e d (a # as) x =
     ((case a of FinalAction t c \<Rightarrow> fresh t (snd x) | _ \<Rightarrow> True) \<and> steady fresh pf w e d as (act pf w e d a x))"

definition steady_service ::
    "(moment \<Rightarrow> agent_db \<Rightarrow> bool) \<Rightarrow> (tool_env \<Rightarrow> calls \<Rightarrow> agent_db \<Rightarrow> bool) \<Rightarrow> service \<Rightarrow> bool" where
  "steady_service fresh calm sv \<longleftrightarrow>
     (\<forall>e setup lm q t. calm e (at_calls (sv_agent sv setup lm q t)) t)
     \<and> (\<forall>e mode prompt t. calm e (snd (sv_think sv mode prompt t)) t)
     \<and> (\<forall>e tool v t. calm e (snd (sv_use sv tool v t)) t)
     \<and> (\<forall>e message d settings input t. steady fresh (sv_platform sv) (engine_world sv e message) e d
          (et_actions (sv_engine sv e settings input d t)) ([], t))"

lemma steady_anyhow: "steady_service (\<lambda>_ _. True) (\<lambda>_ _ _. True) sv"
proof -
  have "steady (\<lambda>_ _. True) pf w e d as x" for pf w e d as x
    by (induction as arbitrary: x) (simp_all split: engine_action.split)
  then show ?thesis by (simp add: steady_service_def)
qed

subsection \<open>The steps\<close>

locale user_frame =
  fixes ok :: "agent_db \<Rightarrow> bool"
    and fresh :: "moment \<Rightarrow> agent_db \<Rightarrow> bool"
    and calm :: "tool_env \<Rightarrow> calls \<Rightarrow> agent_db \<Rightarrow> bool"
    and sv :: service
    and u :: auth_user
  assumes ok_messages: "ok t \<Longrightarrow> ok (t\<lparr>ui_messages := ms\<rparr>)"
    and ok_threads: "ok t \<Longrightarrow> ok (t\<lparr>threads := hs\<rparr>)"
    and ok_runs: "ok t \<Longrightarrow> ok (t\<lparr>workflow_runs := rs\<rparr>)"
    and ok_revisions: "ok t \<Longrightarrow> ok (t\<lparr>evidence_revisions := vs\<rparr>)"
    and ok_trail: "ok t \<Longrightarrow> ok (t\<lparr>evidence_actions := ls\<rparr>)"
    and ok_audit: "ok t \<Longrightarrow> ok (addSecurityAuditEvent ev t)"
    and ok_call: "ok t \<Longrightarrow> ok (snd (callScry (sv_platform sv) g uuid k now u path init x label t))"
    and ok_ingest: "ok t \<Longrightarrow> ok (snd (ingestEvidenceFromUIMessage (sv_platform sv) ids now u y message b t))"
    and ok_curate: "ok t \<Longrightarrow> fresh m t \<Longrightarrow> ok (snd (updateEvidence (sv_platform sv) (mm_fresh m) now i u p t))"
    and ok_create: "ok t \<Longrightarrow> fresh m t \<Longrightarrow> admissible_input n \<Longrightarrow> ok (snd (createMemory (sv_platform sv) (mm_fresh m) now u n t))"
    and ok_learn: "ok t \<Longrightarrow> fresh m t \<Longrightarrow> ok (snd (learnMemoryFromWorkflowOutcome (sv_platform sv) (mm_fresh m) now u out t))"
    and ok_update: "ok t \<Longrightarrow> ok (snd (updateMemory (sv_platform sv) now i u mp t))"
    and ok_forget: "ok t \<Longrightarrow> ok (snd (forgetMemory (sv_platform sv) now i u t))"
    and ok_read: "ok t \<Longrightarrow> ok (snd (getMemory (sv_platform sv) now i u mx t))"
    and ok_list: "ok t \<Longrightarrow> ok (snd (listMemories (sv_platform sv) now mq u t))"
    and ok_retrieve: "ok t \<Longrightarrow> ok (snd (retrieveMemories (sv_platform sv) run now now' u question mx limit inactive t))"
    and ok_maintain: "ok t \<Longrightarrow> ok (snd (maintainMemories (sv_platform sv) k now u limit t))"
    and ok_tools: "ok t \<Longrightarrow> tv_user v = u \<Longrightarrow> calm v calls t \<Longrightarrow> ok (run_tools (sv_platform sv) v calls t)"
    and fresh_messages: "fresh m t \<Longrightarrow> fresh m (t\<lparr>ui_messages := ms\<rparr>)"
    and fresh_threads: "fresh m t \<Longrightarrow> fresh m (t\<lparr>threads := hs\<rparr>)"
    and fresh_runs: "fresh m t \<Longrightarrow> fresh m (t\<lparr>workflow_runs := rs\<rparr>)"
begin

lemma ok_upsert: "ok t \<Longrightarrow> ok (upsertUIMessage pf k now i message t)"
  by (simp add: upsertUIMessage_def Let_def ok_messages ok_threads)

lemma fresh_upsert: "fresh m t \<Longrightarrow> fresh m (upsertUIMessage pf k now i message t)"
  by (simp add: upsertUIMessage_def Let_def fresh_messages fresh_threads)

lemma ok_title: "ok t \<Longrightarrow> ok (updateThreadTitleFromMessage now i w t)"
  by (simp add: updateThreadTitleFromMessage_def Let_def ok_threads split: option.splits)

lemma ok_evaluate: "ok t \<Longrightarrow> ok (snd (evaluateInputSecurity pf uuid now x t))"
  by (simp add: evaluateInputSecurity_def Let_def ok_audit split: prod.splits)

lemma ok_stats: "ok t \<Longrightarrow> ok (snd (memoryStats (sv_platform sv) now u t))"
  by (simp add: memoryStats_def Let_def case_prod_unfold ok_list)

lemma ok_revise: "ok t \<Longrightarrow> ok (snd (recordEvidenceRevision i now u' thread message chosen excluded note t))"
proof -
  assume t: "ok t"
  have action: "ok t \<Longrightarrow> ok (addEvidenceAction r w now a f g note t)" for t r w a f g
    by (simp add: addEvidenceAction_def ok_trail)
  have folds: "ok (fold f xs t)" if "\<And>y t. ok t \<Longrightarrow> ok (f y t)" "ok t" for f :: "'x \<Rightarrow> agent_db \<Rightarrow> agent_db" and xs t
    using that by (induction xs arbitrary: t) simp_all
  have outer: "ok (fold f xs t)" if "\<And>y t. ok t \<Longrightarrow> ok (f y t)" "ok t" for f :: "jsstr \<Rightarrow> agent_db \<Rightarrow> agent_db" and xs t
    using that by (induction xs arbitrary: t) simp_all
  show ?thesis unfolding recordEvidenceRevision_def Let_def snd_conv
    by (intro outer folds action ok_revisions t)
qed

subsection \<open>Executions of workflows\<close>

lemma ok_track: "ok (snd x) \<Longrightarrow> ok (snd (track e t p x))"
  by (simp add: track_def on_db_def updateWorkflowRunRecord_def ok_runs)

lemma fresh_track: "fresh m (snd x) \<Longrightarrow> fresh m (snd (track e t p x))"
  by (simp add: track_def on_db_def updateWorkflowRunRecord_def fresh_runs)

lemma ok_complete: "ok (snd x) \<Longrightarrow> ok (snd (complete_step e t i d rest sus x))"
  by (simp add: complete_step_def ok_track)

lemma ok_fail: "ok (snd x) \<Longrightarrow> ok (snd (fail_step e t i m x))"
  by (simp add: fail_step_def ok_track)

lemma ok_agent: "steady_service fresh calm sv \<Longrightarrow> re_user e = u \<Longrightarrow> ok t \<Longrightarrow> ok (snd (rw_agent (engine_world sv e q) mode prompt t))"
  by (simp add: steady_service_def engine_world_def agent_world_def run_tools_for_def tools_for_def ok_tools)

lemma ok_tool: "steady_service fresh calm sv \<Longrightarrow> re_user e = u \<Longrightarrow> ok t \<Longrightarrow> ok (snd (rw_tool (engine_world sv e q) tool v t))"
  by (simp add: steady_service_def engine_world_def agent_world_def run_tools_for_def tools_for_def ok_tools)

lemma ok_leaf:
  assumes "steady_service fresh calm sv" "re_user e = u" "ok (snd x)"
  shows "ok (snd (snd (execute_leaf (sv_platform sv) (engine_world sv e q) e t i d c x)))"
proof -
  let ?w = "engine_world sv e q"
  note world = ok_agent [OF assms(1,2)] ok_tool [OF assms(1,2)]
  have "ok (snd (snd (leaf_body (sv_platform sv) ?w e t i d c y)))" if y: "ok (snd y)" for y
  proof -
    have "ok (snd (snd (answer_step (sv_platform sv) ?w e t i mode prompt rest c y)))" for mode prompt rest
      using world(1) [OF y] by (simp add: answer_step_def Let_def case_prod_unfold ok_complete split: sum.splits)
    moreover have "ok (snd (snd (tool_step ?w e t i c y)))"
      using world(2) [OF y] by (simp add: tool_step_def Let_def case_prod_unfold ok_complete split: tool_answer.splits)
    moreover have "ok (snd (snd (security_step (sv_platform sv) e t i c y)))"
      using y by (simp add: security_step_def Let_def case_prod_unfold ok_complete ok_evaluate)
    moreover have "ok (snd (snd (read_step (sv_platform sv) ?w e t i c y)))"
      using y by (simp add: read_step_def executeScryReadOperation_def assms(2) Let_def case_prod_unfold ok_complete ok_call split: sum.splits)
    moreover have "ok (snd (snd (approval_step (sv_platform sv) e t i d c y)))"
      using y by (auto simp: approval_step_def Let_def on_db_def ok_audit ok_track ok_complete split: option.splits prod.splits)
    ultimately show ?thesis by (simp add: leaf_body_def split: step_type.splits)
  qed
  then show ?thesis using assms(3)
    by (simp add: execute_leaf_def Let_def case_prod_unfold ok_track ok_fail split: step_result.splits)
qed

lemma ok_final:
  assumes "re_user e = u" "ok (snd x)" "fresh t (snd x)"
  shows "ok (snd (snd (finalize (sv_platform sv) e t c x)))"
  using assms by (simp add: finalize_def Let_def on_db_def ok_track fresh_track ok_upsert fresh_upsert ok_learn)

lemma ok_act:
  assumes "steady_service fresh calm sv" "re_user e = u" "ok (snd x)" "case a of FinalAction t c \<Rightarrow> fresh t (snd x) | _ \<Rightarrow> True"
  shows "ok (snd (act (sv_platform sv) (engine_world sv e q) e d a x))"
  using assms by (cases a) (simp_all add: controlMarker_def normalizeControlOutput_def Let_def ok_track ok_leaf ok_final split: option.splits)

lemma ok_engine:
  assumes sv: "steady_service fresh calm sv" and e: "re_user e = u" and t: "ok t"
  shows "ok (run_engine sv e q d (et_actions (sv_engine sv e settings input d t)) t)"
proof -
  have "ok (snd (fold (act (sv_platform sv) (engine_world sv e q) e d) as x))"
    if "ok (snd x)" "steady fresh (sv_platform sv) (engine_world sv e q) e d as x" for as x
    using that by (induction as arbitrary: x) (simp_all add: ok_act [OF sv e])
  then show ?thesis using sv t by (simp add: run_engine_def steady_service_def)
qed

end

subsection \<open>The requests of users\<close>

text \<open>
  The identifiers a request itself draws for a memory. Deleting a conversation and the samples are left
  to the properties themselves.
\<close>

definition draws_fresh :: "(moment \<Rightarrow> agent_db \<Rightarrow> bool) \<Rightarrow> arrival \<Rightarrow> route \<Rightarrow> agent_db \<Rightarrow> bool" where
  "draws_fresh fresh a r s \<longleftrightarrow> (case r of PostMemory _ \<Rightarrow> fresh (ar_moment a) s | PatchEvidence _ _ \<Rightarrow> fresh (ar_moment a) s | _ \<Rightarrow> True)"

fun special :: "route \<Rightarrow> bool" where
  "special (DeleteThread _) = True"
| "special (PostSamples _) = True"
| "special (DeleteSample _) = True"
| "special _ = False"

lemma form_admissible: "valid_memory_form f \<Longrightarrow> admissible_input (memory_input_of f es)"
  by (auto simp: valid_memory_form_def score_if_def admissible_input_def memory_input_of_def split: option.splits)

context user_frame
begin

lemma ok_body: "ok t \<Longrightarrow> (\<And>f. valid f \<Longrightarrow> ok (snd (k f t))) \<Longrightarrow> ok (snd (with_body valid b k t))"
  by (simp add: with_body_def split: body.splits)

lemma ok_persist: "ok t \<Longrightarrow> ok (persistAssistantUIStream sv a u x i m t)"
  by (simp add: persistAssistantUIStream_def Let_def ok_upsert ok_ingest split: option.splits)

lemma ok_create_agent: "ok t \<Longrightarrow> ok (snd (createScryAgent sv a u m mode x t))"
  by (simp add: createScryAgent_def prepare_memories_def retrieveMemoryForContext_def Let_def case_prod_unfold ok_retrieve split: sum.splits)

lemma ok_run_agent: "steady_service fresh calm sv \<Longrightarrow> ok t \<Longrightarrow> ok (snd (run_agent sv a u f x ms t))"
  using ok_create_agent [of t a _ "ch_mode f" x]
  by (simp add: run_agent_def Let_def case_prod_unfold steady_service_def tools_for_def ok_tools ok_persist split: option.splits sum.splits)

lemma ok_gate: "ok t \<Longrightarrow> ok (snd (chat_gate sv a u f ms x t))"
  by (simp add: chat_gate_def Let_def case_prod_unfold ok_evaluate ok_upsert ok_title split: option.splits)

lemma ok_chat: "steady_service fresh calm sv \<Longrightarrow> ok t \<Longrightarrow> ok (snd (chat sv a u f t))"
  using ok_gate by (simp add: chat_def Let_def case_prod_unfold ok_run_agent split: sum.splits option.splits)

lemma ok_drive: "steady_service fresh calm sv \<Longrightarrow> re_user e = u \<Longrightarrow> ok t \<Longrightarrow> ok (snd (drive_run sv a e input q d t))"
  by (simp add: drive_run_def Let_def ok_engine ok_persist split: option.splits)

lemma ok_start: "steady_service fresh calm sv \<Longrightarrow> ok t \<Longrightarrow> ok (snd (startWorkflow sv a u w f t))"
  by (simp add: startWorkflow_def Let_def createWorkflowRunRecord_def ok_drive ok_runs ok_title ok_upsert)

lemma ok_workflows:
  assumes "steady_service fresh calm sv" "ok t"
  shows "ok (snd (streamWorkflow sv a u i b t))" "ok (snd (resumeRun sv a u i b' t))"
  using assms ok_start ok_drive
  by (simp_all add: streamWorkflow_def resumeRun_def resumeRow_def with_body_def split: option.splits body.splits)

lemma ok_history: "ok t \<Longrightarrow> ok (snd (fold (ingest_history sv a u i) xs (q, t)))"
proof -
  assume t: "ok t"
  have "ok (snd y) \<Longrightarrow> ok (snd (ingest_history sv a u i x y))" for x y
    by (simp add: ingest_history_def Let_def case_prod_unfold ok_ingest)
  then have "ok (snd y) \<Longrightarrow> ok (snd (fold (ingest_history sv a u i) xs y))" for y
    by (induction xs arbitrary: y) simp_all
  with t show ?thesis by simp
qed

lemma ok_conversations:
  assumes "ok t"
  shows "ok (snd (addThread a u v t))" "ok (snd (readThread u i t))" "ok (snd (threadEvidence sv a u i t))"
  using assms ok_history
  by (simp_all add: addThread_def readThread_def threadEvidence_def createThread_def Let_def case_prod_unfold ok_threads split: option.splits)

lemma ok_evidence:
  assumes "ok t"
  shows "fresh (ar_moment a) t \<Longrightarrow> ok (snd (patchEvidence sv a u i p t))" "ok (snd (reviseAnswer sv a u i f t))"
  using assms
  by (simp_all add: patchEvidence_def reviseAnswer_def Let_def case_prod_unfold ok_curate ok_audit ok_upsert ok_revise
      split: option.splits sum.splits)

lemma ok_memories:
  assumes "ok t"
  shows "ok (snd (listMemoriesRoute sv a u lf t))" "ok (snd (readMemory sv a u i t))" "ok (snd (patchMemory sv a u i mp t))"
    "ok (snd (dropMemory sv a u i t))" "ok (snd (searchMemories sv a u hf t))" "ok (snd (threadMemories sv a u i t))"
    "ok (snd (maintainRoute sv a u n t))" "ok (snd (statsRoute sv a u t))"
    "fresh (ar_moment a) t \<Longrightarrow> valid_memory_form nf \<Longrightarrow> ok (snd (addMemory sv a u nf t))"
  using assms
  by (simp_all add: listMemoriesRoute_def addMemory_def readMemory_def patchMemory_def dropMemory_def searchMemories_def
      threadMemories_def maintainRoute_def statsRoute_def retrieve_in_thread_def Let_def case_prod_unfold
      ok_list ok_create form_admissible ok_read ok_update ok_forget ok_retrieve ok_maintain ok_stats)

text \<open>What every step keeps, every request of a user keeps.\<close>

lemma ok_route:
  assumes "steady_service fresh calm sv" "ok s" "\<not> admin_only r" "\<not> special r" "draws_fresh fresh a r s"
  shows "ok (snd (serve sv a u r s))"
  using assms
  by (cases r) (simp_all add: ok_body ok_chat ok_workflows ok_conversations ok_evidence ok_memories settings_reply_def
      readWorkflow_def draws_fresh_def split: option.splits)

end

end
