(* ===== verification/Server_Laws.thy ===== *)
theory Server_Laws
  imports Server_Frame Samples_Laws
begin

section \<open>What no request can do\<close>

text \<open>
  The rights of users and administrators, the separation of organisations and the invariants of the
  database, for every request the server answers. Agents, the engine of workflows, the query service and
  the network are arbitrary.
\<close>

subsection \<open>The configuration\<close>

text \<open>What only administrators may change, and the two audit logs nobody may shorten.\<close>

definition admin_part where
  "admin_part s = (ssh_hosts s, tool_policies s, simulation_settings s, workflows s, mcp_servers s, model_settings s)"

definition logs_grow :: "agent_db \<Rightarrow> agent_db \<Rightarrow> bool" where
  "logs_grow s s' \<longleftrightarrow> take (length (ssh_audits s)) (ssh_audits s') = ssh_audits s
     \<and> take (length (security_events s)) (security_events s') = security_events s"

definition modest :: "agent_db \<Rightarrow> agent_db \<Rightarrow> bool" where
  "modest s s' \<longleftrightarrow> admin_part s' = admin_part s \<and> logs_grow s s'"

lemma logs_refl [simp]: "logs_grow s s"
  by (simp add: logs_grow_def)

lemma modest_refl [simp]: "modest s s"
  by (simp add: modest_def)

lemma modest_trans: "modest s s' \<Longrightarrow> modest s' s'' \<Longrightarrow> modest s s''"
  unfolding modest_def logs_grow_def by (metis prefix_trans)

lemma modest_supervised: "supervised s s' \<Longrightarrow> modest s s'"
  by (simp add: supervised_def modest_def logs_grow_def configuration_def admin_part_def)

lemma modest_spares: "spares s s' \<Longrightarrow> modest s s'"
  by (rule modest_supervised [OF supervised_spares])

lemma modest_logs: "modest s s' \<Longrightarrow> logs_grow s s'"
  by (simp add: modest_def)

lemma spares_whole_ingest: "spares s (snd (ingestEvidenceFromUIMessage pf ids now u x m b s))"
  by (simp add: ingestEvidenceFromUIMessage_def Let_def spares_ingest)

lemma spares_context: "spares s (snd (retrieveMemoryForContext pf run started now u x es limit s))"
  by (simp add: retrieveMemoryForContext_def spares_outer)

lemma outer_folds: "(\<And>a y. outer_part (f a y) = outer_part y) \<Longrightarrow> outer_part (fold f xs y) = outer_part y"
  by (induction xs arbitrary: y) simp_all

lemma outer_evidence_action [simp]: "outer_part (addEvidenceAction e u now a f g n s) = outer_part s"
  by (simp add: addEvidenceAction_def)

lemma spares_revision: "spares s (snd (recordEvidenceRevision i now u thread m chosen excluded note s))"
  by (rule spares_outer) (simp add: recordEvidenceRevision_def Let_def outer_folds)

lemma spares_curate: "spares s (snd (updateEvidence pf fresh now i u p s))"
proof -
  have one: "spares t (log_patch u now cur p x t)" for cur x t
    unfolding log_patch_def by (rule spares_trans [OF spares_outer spares_audit]) simp
  have "spares t (fold (log_patch u now cur p) as t)" for cur as t
    by (induction as arbitrary: t) (auto intro: spares_trans [OF one])
  then have log: "outer_part t = outer_part s \<Longrightarrow> spares s (fold (log_patch u now cur p) as t)" for cur as t
    using spares_trans spares_outer by blast
  then have "outer_part t = outer_part s \<Longrightarrow>
      spares s (snd (learnMemoryFromEvidence pf fresh now u e (fold (log_patch u now cur p) as t)))" for cur as t e
    using spares_trans spares_learn_evidence by blast
  with log show ?thesis by (simp add: updateEvidence_def Let_def split: option.splits)
qed

lemma spares_reads:
  "spares s (snd (getMemory pf now i u x s))" "spares s (snd (listMemories pf now q u s))"
  "spares s (snd (memoryStats pf now u s))" "spares s (snd (retrieveMemories pf run started now u question x limit inactive s))"
  by (rule spares_outer; simp)+

lemmas modest_steps = spares_steps [THEN modest_spares] spares_reads [THEN modest_spares]
  spares_whole_ingest [THEN modest_spares] spares_context [THEN modest_spares] spares_revision [THEN modest_spares]
  spares_curate [THEN modest_spares] supervised_tools [THEN modest_supervised]

lemma modest_writes:
  "modest s t \<Longrightarrow> modest s (t\<lparr>ui_messages := a\<rparr>)" "modest s t \<Longrightarrow> modest s (t\<lparr>threads := b\<rparr>)"
  "modest s t \<Longrightarrow> modest s (t\<lparr>workflow_runs := c\<rparr>)" "modest s t \<Longrightarrow> modest s (t\<lparr>evidence_revisions := d\<rparr>)"
  "modest s t \<Longrightarrow> modest s (t\<lparr>evidence_actions := e\<rparr>)"
  by (simp_all add: modest_def logs_grow_def admin_part_def)

interpretation rights: user_frame "modest s" "\<lambda>_ _. True" "\<lambda>_ _ _. True" sv u
  for s sv u
  by unfold_locales (auto intro: modest_writes modest_trans modest_spares [OF spares_audit] modest_steps)

lemma modest_generation: "modest s (snd (generateMemorySamples pf fresh now u ids s))"
proof -
  have o: "modest s (snd (generate_one pf fresh now u d p s))" for fresh d p s
    using modest_trans [OF modest_steps(13) modest_steps(4)] modest_steps(4,13)
    by (simp add: generate_one_def Let_def case_prod_unfold split: option.splits)
  have "modest s (snd (generate_all pf fresh now u ds p s))" for ds p
  proof (induction ds arbitrary: p s)
    case (Cons d ds)
    show ?case using o [of s "fresh (length ds)" d p] modest_trans [OF o [of s "fresh (length ds)" d p] Cons.IH]
      by (simp add: Let_def case_prod_unfold split: sum.splits)
  qed simp
  then show ?thesis by (simp add: generateMemorySamples_def Let_def)
qed

lemma modest_deletion: "modest s (snd (deleteSampleMemory pf now i u s))"
proof -
  have d: "modest t (addSecurityAuditEvent ev (drop_sample_rows i u t))" for t ev
    by (simp add: modest_def logs_grow_def admin_part_def drop_sample_rows_def)
  have g: "modest s (snd (getMemory pf now i u no_context s))" by (rule modest_steps)
  show ?thesis using g modest_trans [OF g d] by (simp add: deleteSampleMemory_def Let_def case_prod_unfold split: option.splits)
qed

lemma modest_drop: "modest s (snd (dropThread u i s))"
  by (simp add: dropThread_def modest_def logs_grow_def admin_part_def split: option.splits)

lemma modest_special: "special r \<Longrightarrow> modest s (snd (serve sv a u r s))"
  by (cases r) (simp_all add: rights.ok_body modest_generation modest_deletion modest_drop generateSamples_def dropSample_def
      Let_def case_prod_unfold split: option.splits)

lemma modest_route: "\<not> admin_only r \<Longrightarrow> modest s (snd (serve sv a u r s))"
  using rights.ok_route [OF steady_anyhow modest_refl, of r a s sv u] modest_special
  by (cases "special r") (simp_all add: draws_fresh_def split: route.splits)

subsection \<open>The requests of administrators\<close>

text \<open>These requests touch neither memories nor evidence.\<close>

definition plain :: "agent_db \<Rightarrow> agent_db \<Rightarrow> bool" where
  "plain s s' \<longleftrightarrow> logs_grow s s' \<and> memory_items s' = memory_items s \<and> evidence_items s' = evidence_items s"

lemma plain_refl [simp]: "plain s s"
  by (simp add: plain_def)

lemma plain_body: "(\<And>f. plain s (snd (k f s))) \<Longrightarrow> plain s (snd (with_body valid b k s))"
  by (simp add: with_body_def split: body.splits)

lemma plain_servers:
  "plain s (snd (addServer sv a u mf s))" "plain s (snd (changeServer sv a u i mf s))" "plain s (snd (dropServer u i s))"
  "plain s (snd (testServer sv u i s))" "plain s (snd (changeSettings sv a sf s))" "plain s (snd (testSettings sv tf s))"
  by (simp_all add: addServer_def changeServer_def dropServer_def testServer_def changeSettings_def testSettings_def plain_def logs_grow_def
      createMCPServerRecord_def updateMCPServerRecord_def deleteMCPServerRecord_def updateModelSettings_def Let_def case_prod_unfold
      split: option.splits)

lemma plain_hosts:
  "plain s (snd (probeHost sv hp s))" "plain s (snd (addHost a hf s))" "plain s (snd (changeHost a u i b s))"
  "plain s (snd (dropHost a u i s))" "plain s (snd (testHost sv a u i s))" "plain s (snd (changePolicy a tool p s))"
  "plain s (snd (changeSimulation a u on s))"
  by (simp_all add: probeHost_def addHost_def changeHost_def dropHost_def testHost_def changePolicy_def changeSimulation_def
      plain_def logs_grow_def createSSHHost_def updateSSHHost_def deleteSSHHost_def addSSHAudit_def put_policy_def updateSSHToolPolicy_def
      updateDebugSimulationSettings_def with_body_def Let_def case_prod_unfold split: option.splits sum.splits body.splits)

lemma plain_workflows:
  "plain s (snd (addWorkflow a f s))" "plain s (snd (changeWorkflow a i b s))" "plain s (snd (dropWorkflow i s))"
  by (simp_all add: addWorkflow_def changeWorkflow_def dropWorkflow_def createWorkflowRecord_def updateWorkflowRecord_def
      deleteWorkflowRecord_def plain_def logs_grow_def with_body_def Let_def case_prod_unfold split: option.splits body.splits)

lemma plain_route: "admin_only r \<Longrightarrow> plain s (snd (serve sv a u r s))"
  by (cases r) (simp_all add: plain_body plain_servers plain_hosts plain_workflows split: option.splits)

lemma logs_route: "logs_grow s (snd (serve sv a u r s))"
  using plain_route modest_logs [OF modest_route] by (cases "admin_only r") (simp_all add: plain_def)

text \<open>
  C3. Whatever a request asks for: without a valid login nothing happens and the answer is 401. The
  routes that configure the service answer 403 to anybody who is not an administrator, and change
  nothing. All other routes, whatever agents, tools and workflows they set to work, leave hosts,
  policies, the simulation mode, workflows, MCP servers and model settings as they were. No request of
  anybody removes or changes an entry of the two audit logs.
\<close>

theorem only_admins_configure:
  "logs_grow s (snd (handle sv a bearer (Some r) s))
   \<and> (case authenticate (sv_platform sv) (sv_identity sv) bearer of
        Inl m \<Rightarrow> handle sv a bearer (Some r) s = (Reply 401 (Failure m), s)
      | Inr u \<Rightarrow>
          if \<not> admin_only r then admin_part (snd (handle sv a bearer (Some r) s)) = admin_part s
          else if user_role u = Admin then handle sv a bearer (Some r) s = serve sv a u r s
          else handle sv a bearer (Some r) s = (forbidden, s))"
  using logs_route modest_route
  by (auto simp: handle_def as_admin_def requireAdmin_def modest_def split: sum.splits)

subsection \<open>Messages are found by identifier alone\<close>

text \<open>
  Storing a message of a conversation replaces the message that has its identifier, in whatever
  conversation that is: the identifier comes from the client, and nothing compares the conversations.
\<close>

theorem message_of_another_thread:
  assumes "m \<in> set (ui_messages s)" "get_prop message (js ''id'') = Str (um_id m)" "um_id m \<noteq> []"
  shows "\<exists>m' \<in> set (ui_messages (upsertUIMessage pf k now thread message s)).
    um_id m' = um_id m \<and> um_thread m' = um_thread m \<and> um_message m' = Obj (put_prop message (js ''id'') (Str (um_id m)))"
proof -
  let ?g = "\<lambda>r. r\<lparr>um_message := Obj (put_prop message (js ''id'') (Str (um_id m))),
    um_role := text_or pf (get_prop message (js ''role'')) (js ''assistant''), um_updated := now\<rparr>"
  have "text_or pf (get_prop message (js ''id'')) k = um_id m" using assms(2,3) by (simp add: text_or_def)
  moreover have "list_ex (\<lambda>r. um_id r = um_id m) (ui_messages s)" using assms(1) by (auto simp: list_ex_iff)
  ultimately have "ui_messages (upsertUIMessage pf k now thread message s) = update_where (\<lambda>r. um_id r = um_id m) ?g (ui_messages s)"
    by (simp add: upsertUIMessage_def Let_def)
  moreover have "?g m \<in> set (update_where (\<lambda>r. um_id r = um_id m) ?g (ui_messages s))"
    unfolding update_where_def set_map using assms(1) by (intro image_eqI [of _ _ m]) simp_all
  ultimately show ?thesis by (intro bexI [of _ "?g m"]) simp_all
qed

end
