(* ===== verification/Auth_Laws.thy ===== *)
theory Auth_Laws
  imports Server_Auth
begin

section \<open>What authentication promises\<close>

text \<open>
  Nobody is authenticated but by the service of roles; the session of the MCP server is that of the
  user the agent acts for; and a user's token goes to the service's own server only.
\<close>

text \<open>
  Authentication. Whoever is authenticated has an identifier, and the service of roles has answered
  for exactly this token and this identifier; the role is the one it gave, where everything but an
  administrator or an editor is a viewer. The organisation is never empty.
\<close>

theorem authenticated_by_role_service:
  "case authenticate pf d h of
     Inl m \<Rightarrow> True
   | Inr u \<Rightarrow> user_id u \<noteq> [] \<and> user_token u = bearerToken (or_else h []) \<and> user_token u \<noteq> []
       \<and> (\<exists>segment payload r. encodeURIComponent (user_id u) = Some segment
           \<and> id_role d (user_token u) segment = RoleAnswer payload \<and> role_text pf payload = Inr r \<and> user_role u = role_of r)"
  by (auto simp: authenticate_def authenticateToken_def Let_def
      split: sum.splits if_splits option.splits role_answer.splits)

text \<open>Reading a header that was sent.\<close>

lemma header_read:
  "header [(js ''Authorization'', a), (js ''X-Scry-Organization'', b)] ''authorization'' = a"
  "header ((js ''Authorization'', a) # hs) ''authorization'' = a"
  "header [(js ''Authorization'', a), (js ''X-Scry-Organization'', b)] ''x-scry-thread-id'' = []"
  "header [(js ''Authorization'', a), (js ''X-Scry-Organization'', b), (js ''X-Scry-Thread-Id'', t), (js ''X-Scry-Trace-Id'', r),
     (js ''X-Scry-Evidence-Query'', q)] ''x-scry-thread-id'' = t"
  "header [(js ''Authorization'', a), (js ''X-Scry-Organization'', b), (js ''X-Scry-Thread-Id'', t), (js ''X-Scry-Trace-Id'', r),
     (js ''X-Scry-Evidence-Query'', q)] ''x-scry-trace-id'' = r"
  "header [(js ''Authorization'', a), (js ''X-Scry-Organization'', b), (js ''X-Scry-Thread-Id'', t), (js ''X-Scry-Trace-Id'', r),
     (js ''X-Scry-Evidence-Query'', q)] ''x-scry-evidence-query'' = q"
proof -
  have l: "to_lower (js ''Authorization'') = js ''authorization''" "to_lower (js ''X-Scry-Organization'') = js ''x-scry-organization''"
    "to_lower (js ''X-Scry-Thread-Id'') = js ''x-scry-thread-id''" "to_lower (js ''X-Scry-Trace-Id'') = js ''x-scry-trace-id''"
    "to_lower (js ''X-Scry-Evidence-Query'') = js ''x-scry-evidence-query''" by code_simp+
  show "header [(js ''Authorization'', a), (js ''X-Scry-Organization'', b)] ''authorization'' = a"
    "header ((js ''Authorization'', a) # hs) ''authorization'' = a"
    "header [(js ''Authorization'', a), (js ''X-Scry-Organization'', b)] ''x-scry-thread-id'' = []"
    "header [(js ''Authorization'', a), (js ''X-Scry-Organization'', b), (js ''X-Scry-Thread-Id'', t), (js ''X-Scry-Trace-Id'', r),
     (js ''X-Scry-Evidence-Query'', q)] ''x-scry-thread-id'' = t"
    "header [(js ''Authorization'', a), (js ''X-Scry-Organization'', b), (js ''X-Scry-Thread-Id'', t), (js ''X-Scry-Trace-Id'', r),
     (js ''X-Scry-Evidence-Query'', q)] ''x-scry-trace-id'' = r"
    "header [(js ''Authorization'', a), (js ''X-Scry-Organization'', b), (js ''X-Scry-Thread-Id'', t), (js ''X-Scry-Trace-Id'', r),
     (js ''X-Scry-Evidence-Query'', q)] ''x-scry-evidence-query'' = q"
    by (simp_all add: header_def or_else_def l)
qed

text \<open>
  C7. The session of a user passes through MCP. The headers an agent sends for an authenticated user are
  accepted by the MCP server, which acts for the same user, in the same thread and trace, with the
  question of the conversation cut to 8000 units; without a thread or a trace it captures no evidence.
\<close>

theorem session_is_the_users:
  assumes "authenticate pf d h = Inr u" "own_headers u x = Some hs"
    and "case x of None \<Rightarrow> True | Some c \<Rightarrow> is_text (ctx_query c)"
  shows "mcp_session pf d hs = Inr (u, case x of
      None \<Rightarrow> None
    | Some c \<Rightarrow> if ctx_thread c = [] \<or> ctx_trace c = [] then None else Some (c\<lparr>ctx_query := take 8000 (ctx_query c)\<rparr>))"
proof -
  have a: "authenticateToken pf d (bearerToken (or_else h [])) = Inr u"
    using assms(1) by (simp add: authenticate_def Let_def split: if_splits)
  have t: "user_token u = bearerToken (or_else h [])" "46 \<in> set (user_token u)"
    using authenticated_token [OF a] by simp_all
  have b: "user_token u \<noteq> []" "bearerToken (js ''Bearer '' @ user_token u) = user_token u"
    using bearer_token [OF t(1) [symmetric] t(2)] bearer_again by blast+
  obtain rest where hs: "hs = (js ''Authorization'', js ''Bearer '' @ user_token u) # (js ''X-Scry-Organization'', user_org u) # rest"
    and r: "context_headers x = Some rest" using assms(2) by (auto simp: own_headers_def)
  have "mcp_session pf d hs = Inr (u, read_context hs)"
    using a b t(1) by (simp add: mcp_session_def hs header_read Let_def)
  moreover have "read_context hs = (case x of
      None \<Rightarrow> None
    | Some c \<Rightarrow> if ctx_thread c = [] \<or> ctx_trace c = [] then None else Some (c\<lparr>ctx_query := take 8000 (ctx_query c)\<rparr>))"
  proof (cases x)
    case None
    then show ?thesis using r by (simp add: context_headers_def hs read_context_def header_read Let_def)
  next
    case (Some c)
    then obtain q where q: "encodeURIComponent (take 8000 (ctx_query c)) = Some q"
      and rest: "rest = [(js ''X-Scry-Thread-Id'', ctx_thread c), (js ''X-Scry-Trace-Id'', ctx_trace c), (js ''X-Scry-Evidence-Query'', q)]"
      using r by (auto simp: context_headers_def)
    have "is_text (take 8000 (ctx_query c))" using assms(3) Some by (auto simp: is_text_def list_all_iff dest: in_set_takeD)
    from percent_round_trip [OF this q] show ?thesis
      by (simp add: Some hs rest read_context_def header_read or_else_def Let_def)
  qed
  ultimately show ?thesis by simp
qed

text \<open>
  The cut of the question can split a surrogate pair, and then it has no encoding: an agent whose
  conversation asks a well-formed question of 8001 units with such a pair at the cut cannot be started.
\<close>

definition long_question :: jsstr where
  "long_question = replicate 7999 97 @ [55357, 56832]"

theorem split_pair_stops_agent:
  "well_formed long_question = long_question
   \<and> createScryMCPToolset v url timeout connect u (Some \<lparr>ctx_thread = t, ctx_trace = r, ctx_query = long_question\<rparr>) s
      = Inl (js ''URI malformed'')"
proof -
  have w: "well_formed (replicate n 97 @ xs) = replicate n 97 @ well_formed xs" for n xs
    by (induction n) (simp_all add: high_surrogate_def low_surrogate_def)
  have "take 8000 long_question = replicate 7999 97 @ [55357]" by (simp add: long_question_def)
  then have "encodeURIComponent (take 8000 long_question) = None"
    by (simp add: encodeURIComponent_def w high_surrogate_def)
  then show ?thesis
    by (simp add: long_question_def [symmetric] createScryMCPToolset_def toolset_servers_def own_headers_def context_headers_def)
       (simp add: long_question_def w high_surrogate_def low_surrogate_def)
qed

subsection \<open>Where the token goes\<close>

lemma plugin_key: "externalServerKey w \<noteq> js ''scry''"
  by (simp add: externalServerKey_def js_def)

lemma plugins_added:
  "\<forall>kd \<in> set m. fst kd = js ''scry'' \<or> (\<exists>w \<in> W. kd = (externalServerKey w, externalDefinition w)) \<Longrightarrow> set ws \<subseteq> W \<Longrightarrow>
   \<forall>kd \<in> set (fold (\<lambda>w m. put_prop m (externalServerKey w) (externalDefinition w)) ws m).
     fst kd = js ''scry'' \<or> (\<exists>w \<in> W. kd = (externalServerKey w, externalDefinition w))"
proof (induction ws arbitrary: m)
  case (Cons w ws)
  have p: "set (put_prop m k v) \<subseteq> insert (k, v) (set m)" for m :: "(jsstr \<times> server_definition) list" and k v
    by (induction m) (auto split: if_splits)
  show ?case using Cons.prems p [of m "externalServerKey w" "externalDefinition w"]
    by (simp, intro Cons.IH) auto
qed simp

lemma own_kept: "map_of (fold (\<lambda>w m. put_prop m (externalServerKey w) (externalDefinition w)) ws m) (js ''scry'') = map_of m (js ''scry'')"
  by (induction ws arbitrary: m) (simp_all add: plugin_key [THEN not_sym])

text \<open>
  C8. The token of a user goes to the service's own server only. The servers an agent is connected to
  have distinct names; the own server cannot be replaced; every other one is an enabled server of the
  user's organisation, with the headers stored for it and nothing of the user.
\<close>

theorem token_stays_home:
  "case toolset_servers v url timeout u x s of
     None \<Rightarrow> True
   | Some m \<Rightarrow> distinct (map fst m)
       \<and> (case map_of m (js ''scry'') of None \<Rightarrow> False | Some d \<Rightarrow> sd_url d = url \<and> Some (sd_headers d) = map_option headers_value (own_headers u x))
       \<and> list_all (\<lambda>(k, d). k = js ''scry'' \<or> list_ex (\<lambda>w. mw_enabled w \<and> mw_org w = user_org u \<and> d = externalDefinition w)
            (listMCPServers v (user_org u) True True s)) m"
proof (cases "own_headers u x")
  case (Some hs)
  let ?ws = "listMCPServers v (user_org u) True True s"
  let ?own = "[(js ''scry'', \<lparr>sd_url = url, sd_headers = headers_value hs, sd_connect = min timeout 10000\<rparr>)]"
  let ?m = "fold (\<lambda>w m. put_prop m (externalServerKey w) (externalDefinition w)) ?ws ?own"
  have "distinct (map fst (fold (\<lambda>w m. put_prop m (externalServerKey w) (externalDefinition w)) ws m))"
    if "distinct (map fst m)" for ws m using that by (induction ws arbitrary: m) simp_all
  then have "distinct (map fst ?m)" by simp
  moreover have "list_all (\<lambda>w. mw_enabled w \<and> mw_org w = user_org u) ?ws"
    by (simp add: listMCPServers_def list_all_iff mcpServerFromRow_def)
  then have "list_all (\<lambda>(k, d). k = js ''scry'' \<or> list_ex (\<lambda>w. mw_enabled w \<and> mw_org w = user_org u \<and> d = externalDefinition w) ?ws) ?m"
    using plugins_added [of ?own "set ?ws" ?ws] unfolding list_all_iff list_ex_iff by fastforce
  ultimately show ?thesis using Some by (simp add: toolset_servers_def own_kept)
qed (simp add: toolset_servers_def)

text \<open>A role service that knows one administrator, and a token.\<close>

definition demo_identity :: identity_service where
  [js_eval]: "demo_identity = \<lparr>id_parse = (\<lambda>t. Inr (Obj [(js ''id'', Str t), (js ''orgId'', Str (js ''o''))])),
     id_role = (\<lambda>_ segment. if segment = js ''root'' then RoleAnswer (Obj [(js ''group_name'', Str (js ''admin''))]) else RoleRefused)\<rparr>"

definition demo_token :: jsstr where
  [js_eval]: "demo_token = js ''h.'' @ base64url (js ''root'') @ js ''.s''"

definition demo_admin :: auth_user where
  [js_eval]: "demo_admin = \<lparr>user_id = js ''root'', user_org = js ''o'', user_email = [], user_role = Admin, user_token = demo_token\<rparr>"

lemma demo_authenticated: "authenticate demo_platform demo_identity (Some (js ''Bearer '' @ demo_token)) = Inr demo_admin"
  by code_simp

theorem session_is_the_users_witness:
  "mcp_session demo_platform demo_identity (the (own_headers demo_admin (Some \<lparr>ctx_thread = js ''t'', ctx_trace = js ''r'',
     ctx_query = [55357, 56832, 63]\<rparr>))) = Inr (demo_admin, Some \<lparr>ctx_thread = js ''t'', ctx_trace = js ''r'', ctx_query = [55357, 56832, 63]\<rparr>)"
proof -
  let ?c = "\<lparr>ctx_thread = js ''t'', ctx_trace = js ''r'', ctx_query = [55357, 56832, 63]\<rparr>"
  have "encodeURIComponent [55357, 56832, 63] \<noteq> None" by code_simp
  then obtain hs where hs: "own_headers demo_admin (Some ?c) = Some hs" by (auto simp: own_headers_def context_headers_def)
  show ?thesis using session_is_the_users [OF demo_authenticated hs] by (simp add: hs is_text_def)
qed

end
