(* ===== verification/Server_Isolation.thy ===== *)
theory Server_Isolation
  imports Server_Laws Auth_Laws Settings_Laws
begin

section \<open>The organisations and the invariant of the database\<close>

text \<open>
  Every request keeps the database well formed and leaves the memories and the evidence of other
  organisations alone; the one exception is the deletion of a conversation, which takes its evidence
  along.
\<close>

subsection \<open>The steps\<close>

lemma isolated_writes:
  "isolated pf u s t \<Longrightarrow> isolated pf u s (t\<lparr>ui_messages := a\<rparr>)" "isolated pf u s t \<Longrightarrow> isolated pf u s (t\<lparr>threads := b\<rparr>)"
  "isolated pf u s t \<Longrightarrow> isolated pf u s (t\<lparr>workflow_runs := c\<rparr>)" "isolated pf u s t \<Longrightarrow> isolated pf u s (t\<lparr>evidence_revisions := d\<rparr>)"
  "isolated pf u s t \<Longrightarrow> isolated pf u s (t\<lparr>evidence_actions := e\<rparr>)"
  by (simp_all add: isolated_def good_store_def good_ledger_def foreign_memories_def other_evidence_def)

lemma isolated_ingest:
  assumes "good_store s" "good_ledger pf s"
  shows "isolated pf u s (snd (ingestEvidenceFromUIMessage pf ids now u x message b s))"
proof -
  have "memory_items (snd (ingest_parts pf ids now u ps k t)) = memory_items t" for ps k t
    by (induction ps arbitrary: k t) (simp_all split: part_plan.splits)
  then have "memory_items (snd (ingestEvidenceFromUIMessage pf ids now u x message b s)) = memory_items s"
    by (simp add: ingestEvidenceFromUIMessage_def)
  then show ?thesis
    using assms keeps_step [OF evidence_step.Ingest assms(2), of u ids now x message b]
    by (simp add: isolated_def keeps_def good_store_def foreign_memories_def)
qed

lemma creation_step:
  "fresh_moment m t \<Longrightarrow> admissible_input n \<Longrightarrow> memory_step pf u t (snd (createMemory pf (mm_fresh m) now u n t))"
  by (rule memory_step.Create) (simp_all add: fresh_moment_def)

lemma isolated_create:
  "good_store s \<Longrightarrow> good_ledger pf s \<Longrightarrow> fresh_moment m s \<Longrightarrow> admissible_input n \<Longrightarrow>
     isolated pf u s (snd (createMemory pf (mm_fresh m) now u n s))"
  by (rule isolated_memory [OF _ _ creation_step]) simp_all

lemma isolated_learn:
  "good_store s \<Longrightarrow> good_ledger pf s \<Longrightarrow> fresh_moment m s \<Longrightarrow>
     isolated pf u s (snd (learnMemoryFromWorkflowOutcome pf (mm_fresh m) now u out s))"
proof -
  have "admissible_input (memory_of_outcome out)"
    by (simp add: admissible_input_def memory_of_outcome_def Let_def)
  then show "good_store s \<Longrightarrow> good_ledger pf s \<Longrightarrow> fresh_moment m s \<Longrightarrow> ?thesis"
    by (simp add: learnMemoryFromWorkflowOutcome_def isolated_create isolated_same)
qed

text \<open>Accepting evidence may create a memory from it; its scores come from the ledger.\<close>

lemma curation_memories:
  assumes "good_store s" "good_ledger pf s" "fresh_moment m s"
  shows "good_store (snd (updateEvidence pf (mm_fresh m) now i u p s))
    \<and> foreign_memories (user_org u) (snd (updateEvidence pf (mm_fresh m) now i u p s)) = foreign_memories (user_org u) s"
proof -
  let ?f = "updateEvidence pf (mm_fresh m) now i u p s"
  have led: "good_ledger pf (snd ?f)" using keeps_update [OF assms(2)] by (simp add: keeps_def)
  show ?thesis
  proof (cases "head_option (filter (\<lambda>e. ev_id e = i \<and> ev_org e = user_org u) (evidence_items s))")
    case None
    then show ?thesis using assms(1) by (simp add: updateEvidence_def)
  next
    case (Some cur)
    define t where "t = fold (log_patch u now cur p) (logged_actions p cur)
      (s\<lparr>evidence_items := update_where (\<lambda>e. ev_id e = ev_id cur) (patch_evidence now p cur) (evidence_items s)\<rparr>)"
    have items: "memory_items (fold (log_patch u now cur p) as r) = memory_items r" for as r
      by (induction as arbitrary: r) (simp_all add: log_patch_def addEvidenceAction_def)
    have mt: "memory_items t = memory_items s" unfolding t_def by (simp add: items)
    have g: "good_store t" "foreign_memories (user_org u) t = foreign_memories (user_org u) s" "fresh_moment m t"
      using assms mt by (simp_all add: good_store_def foreign_memories_def fresh_moment_def)
    show ?thesis
    proof (cases "head_option (getEvidenceByIds (ev_thread cur) (user_org u) [ev_id cur] t)")
      case None
      then have "snd ?f = t" using Some by (simp add: updateEvidence_def Let_def t_def)
      then show ?thesis using g by simp
    next
      case item: (Some item)
      have f: "snd ?f = (if ev_status cur \<noteq> EvAccepted \<and> ev_status (ei_row item) = EvAccepted
          then snd (learnMemoryFromEvidence pf (mm_fresh m) now u (ei_row item) t) else t)"
        using Some item by (simp add: updateEvidence_def Let_def t_def)
      have "evidence_part (snd (learnMemoryFromEvidence pf (mm_fresh m) now u (ei_row item) t)) = evidence_part t"
        by (simp add: learnMemoryFromEvidence_def)
      then have "evidence_items (snd ?f) = evidence_items t" unfolding f by (simp add: evidence_part_def)
      moreover have "ei_row item \<in> set (evidence_items t)"
        using item evidence_by_ids head_option_SomeD by metis
      ultimately have "admissible_input (memory_of_evidence u (ei_row item))"
        using led by (auto simp: good_ledger_def list_all_iff good_evidence_def admissible_input_def memory_of_evidence_def Let_def)
      from creation_step [OF g(3) this, of pf u now] show ?thesis
        using g(1,2) good_step foreign_step unfolding f learnMemoryFromEvidence_def by auto
    qed
  qed
qed

lemma isolated_curate:
  "good_store s \<Longrightarrow> good_ledger pf s \<Longrightarrow> fresh_moment m s \<Longrightarrow> isolated pf u s (snd (updateEvidence pf (mm_fresh m) now i u p s))"
  using curation_memories [of s pf m now i u p] keeps_update [of pf s u "mm_fresh m" now i p] by (simp add: isolated_def keeps_def)

lemma evidence_part_patch [simp]: "evidence_part (snd (updateMemory pf now i u p s)) = evidence_part s"
proof -
  obtain found t where g: "getMemory pf now i u no_context s = (found, t)" by (cases "getMemory pf now i u no_context s")
  then have "evidence_part t = evidence_part s" using evidence_part_getMemory [of pf now i u no_context s] by simp
  then show ?thesis by (simp add: updateMemory_def g Let_def case_prod_unfold split: option.splits)
qed

lemma isolated_reads:
  assumes "good_store s" "good_ledger pf s"
  shows "isolated pf u s (snd (updateMemory pf now i u p s))" "isolated pf u s (snd (forgetMemory pf now i u s))"
    "isolated pf u s (snd (getMemory pf now i u x s))" "isolated pf u s (snd (listMemories pf now q u s))"
    "isolated pf u s (snd (retrieveMemories pf run started now u question x limit inactive s))"
    "isolated pf u s (snd (maintainMemories pf fresh now u limit s))"
  using assms
  by (simp_all add: isolated_memory [OF _ _ memory_step.Update] isolated_memory [OF _ _ memory_step.Forget]
      isolated_memory [OF _ _ memory_step.Read] isolated_memory [OF _ _ memory_step.List]
      isolated_memory [OF _ _ memory_step.Retrieve] isolated_memory [OF _ _ memory_step.Maintain])

lemmas isolated_steps = isolated_audits(1) isolated_call isolated_ingest isolated_curate isolated_create isolated_learn isolated_reads

lemma fresh_writes:
  "fresh_moment m t \<Longrightarrow> fresh_moment m (t\<lparr>ui_messages := a\<rparr>)" "fresh_moment m t \<Longrightarrow> fresh_moment m (t\<lparr>threads := b\<rparr>)"
  "fresh_moment m t \<Longrightarrow> fresh_moment m (t\<lparr>workflow_runs := c\<rparr>)"
  by (simp_all add: fresh_moment_def)

interpretation separation: user_frame "isolated (sv_platform sv) u s" fresh_moment "fresh_calls (sv_platform sv)" sv u
  for s sv u
  by unfold_locales
    (auto intro: isolated_writes fresh_writes isolated_chain isolated_steps isolated_calls [where pf = "sv_platform sv"])

subsection \<open>Samples\<close>

lemma kept_evidence_deletion: "evidence_items (snd (deleteSampleMemory pf now i u s)) = evidence_items s"
proof -
  have "evidence_items (snd (getMemory pf now i u no_context s)) = evidence_items s"
    using evidence_part_getMemory [of pf now i u no_context s] by (simp add: evidence_part_def)
  then show ?thesis by (simp add: deleteSampleMemory_def drop_sample_rows_def Let_def case_prod_unfold split: option.splits)
qed

text \<open>
  The identifiers drawn for samples are new and different from each other: the sample with \<open>k\<close> more
  behind it draws \<open>ids k 0\<close>.
\<close>

definition fresh_series :: "(nat \<Rightarrow> nat \<Rightarrow> jsstr) \<Rightarrow> nat \<Rightarrow> agent_db \<Rightarrow> bool" where
  "fresh_series ids n s \<longleftrightarrow> list_all (\<lambda>k. length (ids k 0) \<le> 36 \<and> ids k 0 \<notin> me_id ` set (memory_items s)) [0..<n]
     \<and> distinct (map (\<lambda>k. ids k 0) [0..<n])"

lemma sample_admissible: "d \<in> set memorySampleCatalog \<Longrightarrow> admissible_input (sample_input u d)"
  using catalog_scores by (auto simp: list_all_iff admissible_input_def sample_input_def)

lemma isolated_one:
  assumes "good_store s" "good_ledger pf s" "d \<in> set memorySampleCatalog" "length (ids 0) \<le> 36" "ids 0 \<notin> me_id ` set (memory_items s)"
  shows "isolated pf u s (snd (generate_one pf ids now u d p s))"
    and "set (map me_id (memory_items (snd (generate_one pf ids now u d p s)))) \<subseteq> insert (ids 0) (set (map me_id (memory_items s)))"
proof -
  have c: "isolated pf u t (snd (createMemory pf ids now u (sample_input u d) t))"
    "set (map me_id (memory_items (snd (createMemory pf ids now u (sample_input u d) t)))) \<subseteq> insert (ids 0) (set (map me_id (memory_items s)))"
    if "memory_items t = memory_items s" "good_store t" "good_ledger pf t" for t
  proof -
    show "isolated pf u t (snd (createMemory pf ids now u (sample_input u d) t))"
      using assms that by (intro isolated_memory memory_step.Create sample_admissible) simp_all
    have "map me_id (memory_items (snd (createMemory pf ids now u (sample_input u d) t))) \<in>
        {map me_id (memory_items s), map me_id (memory_items s) @ [ids 0]}"
      using createMemory_items [of pf ids now u "sample_input u d" t] that(1) by (elim disjE exE conjE) simp_all
    then show "set (map me_id (memory_items (snd (createMemory pf ids now u (sample_input u d) t)))) \<subseteq>
        insert (ids 0) (set (map me_id (memory_items s)))"
      by (elim insertE) (simp_all del: set_map, auto)
  qed
  define t where "t k = snd (getMemory pf now k u no_context s)" for k
  have t: "memory_items (t k) = memory_items s" "isolated pf u s (t k)" for k
    using isolated_reads(3) [OF assms(1,2)] by (simp_all add: t_def)
  then have g: "good_store (t k)" "good_ledger pf (t k)" for k by (simp_all add: isolated_def)
  have two: "isolated pf u s (snd (createMemory pf ids now u (sample_input u d) (t k)))" for k
    by (rule isolated_trans [OF t(2) c(1) [OF t(1) g]])
  show "isolated pf u s (snd (generate_one pf ids now u d p s))"
    using c(1) [OF refl assms(1,2)] two t(2)
    by (simp add: generate_one_def Let_def case_prod_unfold t_def [symmetric] split: option.splits)
  show "set (map me_id (memory_items (snd (generate_one pf ids now u d p s)))) \<subseteq> insert (ids 0) (set (map me_id (memory_items s)))"
    using c(2) [OF refl assms(1,2)] c(2) [OF t(1) g] t(1)
    by (auto simp: generate_one_def Let_def case_prod_unfold t_def [symmetric] split: option.splits)
qed

lemma fresh_series_split:
  assumes "fresh_series ids (Suc n) s"
  shows "length (ids n 0) \<le> 36" "ids n 0 \<notin> me_id ` set (memory_items s)" "fresh_series ids n s"
    "j < n \<Longrightarrow> ids j 0 \<noteq> ids n 0"
proof -
  have "ids n 0 \<notin> (\<lambda>k. ids k 0) ` {0..<n}" using assms by (simp add: fresh_series_def)
  then show "j < n \<Longrightarrow> ids j 0 \<noteq> ids n 0" by (metis atLeastLessThan_iff imageI le0)
qed (use assms in \<open>simp_all add: fresh_series_def\<close>)

lemma fresh_series_later:
  assumes "fresh_series ids n s" "\<And>j. j < n \<Longrightarrow> ids j 0 \<noteq> i"
    and "set (map me_id (memory_items t)) \<subseteq> insert i (set (map me_id (memory_items s)))"
  shows "fresh_series ids n t"
proof -
  have "length (ids j 0) \<le> 36 \<and> ids j 0 \<notin> me_id ` set (memory_items t)" if "j < n" for j
  proof -
    have "length (ids j 0) \<le> 36" "ids j 0 \<notin> insert i (set (map me_id (memory_items s)))"
      using assms(1,2) that by (auto simp: fresh_series_def list_all_iff)
    then show ?thesis using assms(3) by (metis list.set_map subsetD)
  qed
  then show ?thesis using assms(1) by (simp add: fresh_series_def list_all_iff)
qed

lemma isolated_all:
  assumes "good_store s" "good_ledger pf s" "set ds \<subseteq> set memorySampleCatalog" "fresh_series ids (length ds) s"
  shows "isolated pf u s (snd (generate_all pf ids now u ds p s))"
  using assms
proof (induction ds arbitrary: p s)
  case (Cons d ds)
  obtain r t where g: "generate_one pf (ids (length ds)) now u d p s = (r, t)" by fastforce
  have one: "isolated pf u s t" "set (map me_id (memory_items t)) \<subseteq> insert (ids (length ds) 0) (set (map me_id (memory_items s)))"
    using isolated_one [where s = s and pf = pf and d = d and ids = "ids (length ds)" and u = u and now = now and p = p]
      Cons.prems fresh_series_split [of ids "length ds" s] by (simp_all add: g)
  have f: "fresh_series ids (Suc (length ds)) s" using Cons.prems(4) by simp
  have "fresh_series ids (length ds) t"
    by (rule fresh_series_later [OF fresh_series_split(3) [OF f] _ one(2)]) (rule fresh_series_split(4) [OF f])
  then have "isolated pf u t (snd (generate_all pf ids now u ds q t))" for q
    using one(1) Cons.prems(3) by (intro Cons.IH) (simp_all add: isolated_def)
  then show ?case using one(1) isolated_trans by (auto simp: g split: sum.splits)
qed (simp add: isolated_same)

lemma isolated_samples:
  assumes "good_store s" "good_ledger pf s" "fresh_series ids 9 s"
  shows "isolated pf u s (snd (generateMemorySamples pf ids now u ws s))"
proof (cases "None \<in> set (requested_samples ws)")
  case True
  then show ?thesis using assms by (simp add: generateMemorySamples_def requested_samples_def isolated_same)
next
  case False
  let ?ds = "map the (requested_samples ws)"
  have sub: "set ?ds \<subseteq> set memorySampleCatalog"
  proof
    fix d assume "d \<in> set ?ds"
    then obtain x where x: "x \<in> set (requested_samples ws)" "d = the x" by auto
    then obtain i where "x = head_option (filter (\<lambda>d. sl_id d = i) memorySampleCatalog)" by (auto simp: requested_samples_def)
    moreover have "x \<noteq> None" using x(1) False by metis
    then obtain y where y: "x = Some y" by (cases x) auto
    ultimately have "head_option (filter (\<lambda>d. sl_id d = i) memorySampleCatalog) = Some y" by simp
    then show "d \<in> set memorySampleCatalog" using x(2) y by (auto dest: head_option_filterD)
  qed
  have "distinct (map sl_id ?ds)" unfolding requested_ids [OF False] by (simp add: uniq_def)
  then have "length ?ds = card (set ?ds)" using distinct_map distinct_card by metis
  also have "\<dots> \<le> length memorySampleCatalog" using sub card_mono [of "set memorySampleCatalog" "set ?ds"] card_length order_trans by blast
  also have "\<dots> = 9" by (simp add: memorySampleCatalog_def)
  finally have "fresh_series ids (length ?ds) s" using assms(3) by (auto simp: fresh_series_def list_all_iff distinct_map inj_on_def)
  from isolated_all [OF assms(1,2) sub this] False show ?thesis
    by (simp add: generateMemorySamples_def requested_samples_def [symmetric] Let_def)
qed

subsection \<open>The invariant\<close>

definition good_server :: "platform \<Rightarrow> agent_db \<Rightarrow> bool" where
  "good_server pf s \<longleftrightarrow> good_store s \<and> good_ledger pf s \<and> managed s \<and> list_all good_workflow (workflows s)"

lemma managed_body: "managed s \<Longrightarrow> (\<And>f. valid f \<Longrightarrow> managed (snd (k f s))) \<Longrightarrow> managed (snd (with_body valid b k s))"
  by (simp add: with_body_def split: body.splits)

lemma same_managed: "ssh_hosts s' = ssh_hosts s \<Longrightarrow> tool_policies s' = tool_policies s \<Longrightarrow> managed s \<Longrightarrow> managed s'"
  by (simp add: managed_def)

lemma managed_hosts_kept:
  assumes "managed s"
  shows "managed (snd (addHost a hf s))" "managed (snd (changeHost a u i b s))" "managed (snd (dropHost a u i s))"
    "valid_ssh_policy p \<Longrightarrow> managed (snd (changePolicy a tool p s))" "managed (snd (changeSimulation a u on s))"
  using managed_edit [OF assms, of "AddHost i now f" for i now f] managed_edit [OF assms, of "ChangeHost i now f" for i now f]
    managed_edit [OF assms, of "DropHost i" for i] managed_edit [OF assms, of "SetPolicy now tool p" for now]
    managed_edit [OF assms, of "SwitchSimulation now org x" for now org x] assms
  by (simp_all add: addHost_def changeHost_def dropHost_def changePolicy_def changeSimulation_def with_body_def Let_def case_prod_unfold
      split: option.splits body.splits)

lemma managed_others:
  assumes "managed s"
  shows "managed (snd (addServer sv a u mf s))" "managed (snd (changeServer sv a u i mf s))" "managed (snd (dropServer u i s))"
    "managed (snd (testServer sv u i s))" "managed (snd (changeSettings sv a sf s))" "managed (snd (testSettings sv tf s))"
    "managed (snd (probeHost sv hp s))" "managed (snd (testHost sv a u i s))" "managed (snd (addWorkflow a f s))"
    "managed (snd (changeWorkflow a i b s))" "managed (snd (dropWorkflow i s))"
  using assms
  by (simp_all add: managed_def addServer_def changeServer_def dropServer_def testServer_def changeSettings_def testSettings_def
      createMCPServerRecord_def updateMCPServerRecord_def deleteMCPServerRecord_def updateModelSettings_def probeHost_def testHost_def
      addSSHAudit_def addWorkflow_def changeWorkflow_def dropWorkflow_def createWorkflowRecord_def updateWorkflowRecord_def
      deleteWorkflowRecord_def with_body_def Let_def case_prod_unfold split: option.splits sum.splits body.splits)

lemma managed_route: "managed s \<Longrightarrow> managed (snd (serve sv a u r s))"
proof (cases "admin_only r")
  case True
  then show "managed s \<Longrightarrow> ?thesis"
    by (cases r) (simp_all add: managed_body managed_hosts_kept managed_others split: option.splits)
next
  case False
  then show "managed s \<Longrightarrow> ?thesis"
    using modest_route [of r s sv a u] by (simp add: modest_def admin_part_def managed_def)
qed

abbreviation good_workflows :: "agent_db \<Rightarrow> bool" where
  "good_workflows s \<equiv> list_all good_workflow (workflows s)"

lemma workflows_body: "good_workflows s \<Longrightarrow> (\<And>f. valid f \<Longrightarrow> good_workflows (snd (k f s))) \<Longrightarrow> good_workflows (snd (with_body valid b k s))"
  by (simp add: with_body_def split: body.splits)

lemma form_definition: "valid_workflow_form f \<Longrightarrow> valid_definition (wi_definition f)"
  by (simp add: valid_workflow_form_def)

lemma workflows_edited:
  assumes "good_workflows s"
  shows "valid_workflow_form f \<Longrightarrow> good_workflows (snd (addWorkflow a f s))" "good_workflows (snd (changeWorkflow a i b s))"
    "good_workflows (snd (dropWorkflow i s))"
  using good_edit [OF assms, of "AddWorkflow j now f" for j now] good_edit [OF assms, of "ChangeWorkflow j now f" for j now f]
    good_edit [OF assms, of "DropWorkflow j" for j] assms
  by (simp_all add: addWorkflow_def changeWorkflow_def dropWorkflow_def with_body_def Let_def case_prod_unfold form_definition
      split: option.splits body.splits)

lemma workflows_others:
  "workflows (snd (addServer sv a u mf s)) = workflows s" "workflows (snd (changeServer sv a u i mf s)) = workflows s"
  "workflows (snd (dropServer u i s)) = workflows s" "workflows (snd (testServer sv u i s)) = workflows s"
  "workflows (snd (changeSettings sv a sf s)) = workflows s" "workflows (snd (testSettings sv tf s)) = workflows s"
  "workflows (snd (probeHost sv hp s)) = workflows s" "workflows (snd (testHost sv a u i s)) = workflows s"
  "workflows (snd (addHost a hf s)) = workflows s" "workflows (snd (changeHost a u i b s)) = workflows s"
  "workflows (snd (dropHost a u i s)) = workflows s" "workflows (snd (changePolicy a tool p s)) = workflows s"
  "workflows (snd (changeSimulation a u on s)) = workflows s"
  by (simp_all add: addServer_def changeServer_def dropServer_def testServer_def changeSettings_def testSettings_def
      createMCPServerRecord_def updateMCPServerRecord_def deleteMCPServerRecord_def updateModelSettings_def probeHost_def testHost_def
      addSSHAudit_def addHost_def changeHost_def dropHost_def changePolicy_def changeSimulation_def createSSHHost_def updateSSHHost_def
      deleteSSHHost_def put_policy_def updateSSHToolPolicy_def updateDebugSimulationSettings_def with_body_def Let_def case_prod_unfold
      split: option.splits sum.splits body.splits)

lemma workflows_route: "good_workflows s \<Longrightarrow> good_workflows (snd (serve sv a u r s))"
proof (cases "admin_only r")
  case True
  then show "good_workflows s \<Longrightarrow> ?thesis"
    by (cases r) (simp_all add: workflows_body workflows_edited workflows_others split: option.splits)
next
  case False
  then show "good_workflows s \<Longrightarrow> ?thesis"
    using modest_route [of r s sv a u] by (simp add: modest_def admin_part_def)
qed

text \<open>The identifiers a request and its agents draw are new.\<close>

definition new_ids :: "service \<Rightarrow> arrival \<Rightarrow> route \<Rightarrow> agent_db \<Rightarrow> bool" where
  "new_ids sv a r s \<longleftrightarrow> steady_service fresh_moment (fresh_calls (sv_platform sv)) sv \<and> draws_fresh fresh_moment a r s
     \<and> (case r of PostSamples _ \<Rightarrow> fresh_series (ar_ids a 0) 9 s | _ \<Rightarrow> True)"

definition dropped_thread :: "route \<Rightarrow> jsstr option" where
  "dropped_thread r = (case r of DeleteThread i \<Rightarrow> Some i | _ \<Rightarrow> None)"

lemma isolated_route:
  assumes "good_store s" "good_ledger (sv_platform sv) s" "new_ids sv a r s" "dropped_thread r = None"
  shows "isolated (sv_platform sv) u s (snd (serve sv a u r s))"
proof -
  have s: "isolated (sv_platform sv) u s s" using assms by (simp add: isolated_same)
  have body: "isolated (sv_platform sv) u s (snd (with_body valid b k s))" if "\<And>f. isolated (sv_platform sv) u s (snd (k f s))"
    for valid b and k :: "jsstr list \<Rightarrow> agent_db \<Rightarrow> reply \<times> agent_db"
    using that s by (simp add: with_body_def split: body.splits)
  have samples: "isolated (sv_platform sv) u s (snd (generateSamples sv a u ids s))" if "r = PostSamples b" for ids b
    using isolated_samples [OF assms(1,2), of "ar_ids a 0"] assms(3) that
    by (simp add: new_ids_def generateSamples_def Let_def case_prod_unfold)
  have drop: "isolated (sv_platform sv) u s (snd (dropSample sv a u i s))" for i
    using assms(1,2) good_deletion foreign_deletion kept_evidence_deletion
    by (simp add: dropSample_def Let_def case_prod_unfold isolated_def good_ledger_def other_evidence_def)
  show ?thesis
  proof (cases "special r")
    case True
    then show ?thesis using assms(4) samples drop by (cases r) (simp_all add: body dropped_thread_def)
  next
    case False
    show ?thesis
    proof (cases "admin_only r")
      case True
      then show ?thesis using plain_route [of r s sv a u] assms(1,2)
        by (simp add: plain_def isolated_def good_store_def good_ledger_def foreign_memories_def other_evidence_def)
    next
      case False
      then show ?thesis using separation.ok_route [OF _ s, of r a] assms(3) \<open>\<not> special r\<close> by (simp add: new_ids_def)
    qed
  qed
qed

text \<open>
  C4. From a well-formed database every request leads to a well-formed one: memories and evidence keep
  their invariants, stored hosts and policies stay within what the service manages, and stored workflows
  pass the schema. A request changes memories and evidence of the user's own organisation only. The
  deletion of a conversation is the exception: it removes the evidence captured under the identifier of
  the conversation, whatever organisation captured it, and nothing else. The identifiers the
  request and its agents draw are new.
\<close>

theorem requests_keep_the_database:
  fixes sv a bearer r s
  defines "t \<equiv> snd (handle sv a bearer (Some r) s)"
  assumes "good_server (sv_platform sv) s" "new_ids sv a r s"
  shows "good_server (sv_platform sv) t
    \<and> (case authenticate (sv_platform sv) (sv_identity sv) bearer of
         Inl _ \<Rightarrow> t = s
       | Inr u \<Rightarrow> foreign_memories (user_org u) t = foreign_memories (user_org u) s
           \<and> (case dropped_thread r of
                None \<Rightarrow> other_evidence (user_org u) t = other_evidence (user_org u) s
              | Some i \<Rightarrow> memory_items t = memory_items s
                  \<and> filter (\<lambda>e. ev_thread e \<noteq> i) (evidence_items t) = filter (\<lambda>e. ev_thread e \<noteq> i) (evidence_items s)))"
proof -
  have s: "good_store s" "good_ledger (sv_platform sv) s" "managed s" "good_workflows s"
    using assms(2) by (simp_all add: good_server_def)
  have served: "good_server (sv_platform sv) t'
      \<and> foreign_memories (user_org u) t' = foreign_memories (user_org u) s
      \<and> (case dropped_thread r of
            None \<Rightarrow> other_evidence (user_org u) t' = other_evidence (user_org u) s
          | Some i \<Rightarrow> memory_items t' = memory_items s
              \<and> filter (\<lambda>e. ev_thread e \<noteq> i) (evidence_items t') = filter (\<lambda>e. ev_thread e \<noteq> i) (evidence_items s))"
    if t': "t' = snd (serve sv a u r s)" for u t'
  proof (cases "dropped_thread r")
    case None
    have "isolated (sv_platform sv) u s t'" unfolding t' by (rule isolated_route [OF s(1,2) assms(3) None])
    then show ?thesis using None managed_route [OF s(3)] workflows_route [OF s(4)]
      by (simp add: t' isolated_def good_server_def)
  next
    case (Some i)
    then have r: "r = DeleteThread i" by (simp add: dropped_thread_def split: route.splits)
    have "good_ledger (sv_platform sv) t' \<and> memory_items t' = memory_items s
        \<and> filter (\<lambda>e. ev_thread e \<noteq> i) (evidence_items t') = filter (\<lambda>e. ev_thread e \<noteq> i) (evidence_items s)"
      using s(2) unfolding t' r
      by (auto simp: dropThread_def good_ledger_def delete_where_def list_all_iff intro!: distinct_map_filter split: option.splits)
    then show ?thesis using Some s(1) managed_route [OF s(3)] workflows_route [OF s(4)]
      by (simp add: t' good_server_def good_store_def foreign_memories_def)
  qed
  show ?thesis
    using assms(2) served unfolding t_def
    by (auto simp: handle_def as_admin_def split: sum.splits option.splits)
qed

text \<open>A service whose agents remember what they find, and whose engine finishes every run at once.\<close>

definition fresh_at :: "agent_db \<Rightarrow> moment" where
  [js_eval]: "fresh_at s = \<lparr>mm_now = 9, mm_uuid = js ''u1'', mm_fresh = (\<lambda>_. [Suc (sum_list (concat (map me_id (memory_items s))))])\<rparr>"

definition demo_service :: service where
  [js_eval]: "demo_service = \<lparr>sv_platform = demo_platform, sv_vault = demo_vault, sv_identity = demo_identity, sv_gateway = demo_gateway,
     sv_network = demo_network [], sv_fingerprint = (\<lambda>_ _. Inr (js ''key'')), sv_parse_url = (\<lambda>_. None), sv_mcp_url = js ''mcp'',
     sv_mcp_timeout = 1000, sv_connect = (\<lambda>_. ([], [])), sv_model = (\<lambda>_ _ _ _. Inr (js ''ok'')),
     sv_agent = (\<lambda>_ _ _ s. \<lparr>at_error = None, at_calls = [(fresh_at s, Remember (demo_lesson ''good''))], at_message = None\<rparr>),
     sv_engine = (\<lambda>_ _ _ _ s. \<lparr>et_error = None, et_actions = [FinalAction (fresh_at s) (demo_context ''m'')], et_message = None\<rparr>),
     sv_think = (\<lambda>_ _ s. (Inr (js ''done''), [(fresh_at s, Remember (demo_lesson ''good''))])),
     sv_use = (\<lambda>_ _ _. (NoSuchTool, []))\<rparr>"

definition demo_arrival :: arrival where
  [js_eval]: "demo_arrival = \<lparr>ar_moment = demo_moment, ar_ids = (\<lambda>_ k _. js ''id'' @ [k]), ar_nonce = []\<rparr>"

lemma fresh_at_fresh: "fresh_moment (fresh_at s) s"
proof -
  let ?n = "sum_list (concat (map me_id (memory_items s)))"
  have "[Suc ?n] \<noteq> me_id m" if "m \<in> set (memory_items s)" for m
  proof
    assume "[Suc ?n] = me_id m"
    then have "Suc ?n \<in> set (me_id m)" by (metis list.set_intros(1))
    then have "Suc ?n \<in> set (concat (map me_id (memory_items s)))" using that by (simp only: set_concat set_map UN_iff image_iff) blast
    from member_le_sum_list [OF this] show False by simp
  qed
  then show ?thesis by (auto simp: fresh_moment_def fresh_at_def)
qed

lemma demo_steady: "steady_service fresh_moment (fresh_calls demo_platform) demo_service"
  by (simp add: steady_service_def demo_service_def fresh_at_fresh)

theorem requests_keep_the_database_witness:
  "good_server demo_platform (snd (handle demo_service demo_arrival (Some (js ''Bearer '' @ demo_token))
     (Some (PostSamples (Fit [js ''postgres-autovacuum-table-bloat'']))) demo_store))"
proof -
  let ?r = "PostSamples (Fit [js ''postgres-autovacuum-table-bloat''])"
  have pf: "sv_platform demo_service = demo_platform" by (simp add: demo_service_def)
  have "fresh_series (ar_ids demo_arrival 0) 9 demo_store"
    by (simp add: fresh_series_def demo_arrival_def demo_store_def empty_db_def js_def upt_conv_Cons numeral_eq_Suc)
  then have ids: "new_ids demo_service demo_arrival ?r demo_store"
    using demo_steady by (simp add: new_ids_def draws_fresh_def pf)
  have "good_server (sv_platform demo_service) demo_store"
    using demo_store_good by (simp add: pf good_server_def managed_def demo_store_def empty_db_def)
  from requests_keep_the_database [OF this ids] show ?thesis by (simp add: pf)
qed

end
