(* ===== verification/Server_Replies.thy ===== *)
theory Server_Replies
  imports Server_Api
begin

section \<open>What replies show\<close>

text \<open>
  Every reply of the service, over all routes: it shows conversations and runs of the user only,
  evidence, memories and audit events of the user's organisation only, private memories of others to
  administrators only, and no key, header or password at all.
\<close>

definition may_read :: "auth_user \<Rightarrow> memory_row \<Rightarrow> bool" where
  "may_read u m \<longleftrightarrow> me_org m = user_org u
     \<and> (if me_scope m = ScopeUser \<or> me_scope m = ScopeAgent then me_user m = user_id u \<or> user_role u = Admin else True)"

definition no_secrets :: "ssh_host \<Rightarrow> bool" where
  "no_secrets h \<longleftrightarrow> sh_simulated h \<or> sh_private_key h = [] \<and> sh_passphrase h = []"

definition hides_headers :: "auth_user \<Rightarrow> mcp_view \<Rightarrow> bool" where
  "hides_headers u w \<longleftrightarrow> mw_headers w = Obj [] \<and> mw_org w = user_org u"

fun discreet :: "auth_user \<Rightarrow> content \<Rightarrow> bool" where
  "discreet u (SettingsContent v) = list_all (\<lambda>m. md_key m = []) (case v of None \<Rightarrow> [] | Some m \<Rightarrow> [m])"
| "discreet u (ServersContent ws) = list_all (hides_headers u) ws"
| "discreet u (ServerContent v) = list_all (hides_headers u) (case v of None \<Rightarrow> [] | Some w \<Rightarrow> [w])"
| "discreet u (HostsContent hs) = list_all no_secrets hs"
| "discreet u (HostContent v) = list_all no_secrets (case v of None \<Rightarrow> [] | Some h \<Rightarrow> [h])"
| "discreet u (SecurityAuditsContent es) = list_all (\<lambda>e. se_org e = user_org u) es"
| "discreet u (ThreadsContent ts) = list_all (\<lambda>t. th_user t = user_id u \<and> th_org t = user_org u) ts"
| "discreet u (ThreadContent t ms) = (th_user t = user_id u \<and> th_org t = user_org u)"
| "discreet u (RunsContent rs) = list_all (\<lambda>r. rn_user r = user_id u) rs"
| "discreet u (GeneratedContent p) = list_all (\<lambda>m. may_read u (mi_row m)) (sg_memories p)"
| "discreet u (MemoriesContent ms) = list_all (\<lambda>m. may_read u (mi_row m)) ms"
| "discreet u (MemoryContent v) = list_all (\<lambda>m. may_read u (mi_row m)) (case v of None \<Rightarrow> [] | Some m \<Rightarrow> [m])"
| "discreet u (PacketContent p) = list_all (\<lambda>r. may_read u (mi_row (rs_item r))) (rp_results p)"
| "discreet u (EvidenceListContent es) = list_all (\<lambda>i. ev_org (ei_row i) = user_org u) es"
| "discreet u (EvidenceContent i) = (ev_org (ei_row i) = user_org u)"
| "discreet u _ = True"

abbreviation fine :: "auth_user \<Rightarrow> reply \<times> agent_db \<Rightarrow> bool" where
  "fine u y \<equiv> discreet u (reply_content (fst y))"

lemma fine_body: "(\<And>f. fine u (k f s)) \<Longrightarrow> fine u (with_body valid b k s)"
  by (simp add: with_body_def failed_def split: body.splits)

lemma fine_errors [simp]:
  "discreet u (reply_content (failed m))" "discreet u (reply_content no_thread)" "discreet u (reply_content no_memory)"
  "discreet u (reply_content no_workflow)" "discreet u (reply_content no_server)" "discreet u (reply_content forbidden)"
  by (simp_all add: failed_def no_thread_def no_memory_def no_workflow_def no_server_def forbidden_def)

subsection \<open>Settings, servers and hosts\<close>

lemma settings_hidden: "getModelSettings v False s = Some m \<Longrightarrow> md_key m = []"
  by (auto simp: getModelSettings_def default_settings_def Let_def split: option.splits list.splits if_splits)

lemma fine_settings: "discreet u (reply_content (settings_reply (getModelSettings v False s)))"
  using settings_hidden by (auto simp: settings_reply_def split: option.splits)

lemma fine_configuration: "fine u (changeSettings sv a f s)" "fine u (testSettings sv tf s)"
  using fine_settings
  by (simp_all add: changeSettings_def updateModelSettings_def testSettings_def run_test_def failed_test_def test_result_def Let_def
      case_prod_unfold split: option.splits sum.splits)

lemma servers_hidden: "list_all (hides_headers u) (listMCPServers v (user_org u) enabled False s)"
  "getMCPServer v i (user_org u) False s = Some w \<Longrightarrow> hides_headers u w"
  by (auto simp: listMCPServers_def getMCPServer_def hides_headers_def mcpServerFromRow_def list_all_iff dest: head_option_filterD)

lemma fine_servers: "fine u (addServer sv a u f s)" "fine u (changeServer sv a u i f s)" "fine u (dropServer u i s)" "fine u (testServer sv u i s)"
  using servers_hidden(2)
  by (auto simp: addServer_def changeServer_def createMCPServerRecord_def updateMCPServerRecord_def dropServer_def testServer_def
      Let_def case_prod_unfold split: option.splits)

lemma simulated_plain: "simulated_for now org s = Some h \<Longrightarrow> no_secrets h"
  by (auto simp: simulated_for_def getSimulatedSSHHost_def buildSimulatedSSHHost_def no_secrets_def Let_def case_prod_unfold split: if_splits option.splits)

lemma hosts_hidden: "list_all no_secrets (listSSHHosts now only org s)" "getSSHHost now i org s = Some h \<Longrightarrow> no_secrets h"
  using simulated_plain
  by (auto simp: listSSHHosts_def getSSHHost_def hostFromRow_def no_secrets_def list_all_iff Let_def split: option.splits if_splits)

lemma fine_hosts: "fine u (probeHost sv hp s)" "fine u (addHost a hf s)" "fine u (changeHost a u i b s)" "fine u (dropHost a u i s)"
  "fine u (testHost sv a u i s)" "fine u (changePolicy a tool p s)" "fine u (changeSimulation a u on s)"
  using hosts_hidden(2)
  by (auto simp: probeHost_def addHost_def changeHost_def dropHost_def testHost_def changePolicy_def changeSimulation_def host_reply_def
      createSSHHost_def updateSSHHost_def with_body_def Let_def case_prod_unfold split: option.splits sum.splits body.splits if_splits)

lemma fine_workflows: "fine u (addWorkflow a f s)" "fine u (changeWorkflow a i b s)" "fine u (dropWorkflow i s)" "fine u (readWorkflow i s)"
  by (simp_all add: addWorkflow_def changeWorkflow_def dropWorkflow_def readWorkflow_def with_body_def Let_def case_prod_unfold
      split: option.splits body.splits)

subsection \<open>Memories\<close>

lemma visible_readable: "me_org m = user_org u \<Longrightarrow> isVisible m u x \<or> user_role u = Admin \<Longrightarrow> may_read u m"
  by (auto simp: may_read_def isVisible_def split: memory_scope.splits if_splits)

lemma read_readable: "fst (getMemory pf now i u x s) = Some m \<Longrightarrow> may_read u (mi_row m)"
  using getMemory_Some find_memoryD visible_readable by metis

lemma listed_readable: "list_all (\<lambda>m. may_read u (mi_row m)) (fst (listMemories pf now q u s))"
  using listed_item listed_row visible_readable by (fastforce simp: list_all_iff)

lemma retrieved_readable:
  "list_all (\<lambda>r. may_read u (mi_row (rs_item r))) (rp_results (fst (retrieveMemories pf run started now u question x limit inactive s)))"
proof -
  have same: "may_read u (mi_row (rs_item (accessed_result now q))) = may_read u (mi_row (rs_item q))" for q
    by (simp add: accessed_result_def may_read_def)
  obtain s1 query signature strategy paths scored where
    sc: "scored = ranked pf query signature strategy paths limit (fst (listMemories pf now
        (plain_query\<lparr>mq_context := x, mq_inactive := inactive, mq_limit := 800\<rparr>) u s1))"
    and res: "rp_results (fst (retrieveMemories pf run started now u question x limit inactive s)) = map (accessed_result now) scored"
    using retrieval_shape [where pf = pf and run = run and started = started and now = now and u = u
      and question = question and x = x and limit = limit and inactive = inactive and s = s] by blast
  have "may_read u (mi_row (rs_item q))" if "q \<in> set scored" for q
    using ranked_listed [OF that [unfolded sc]] visible_readable by blast
  then show ?thesis unfolding res by (simp add: list_all_iff same)
qed

lemma created_readable: "fst (createMemory pf fresh now u n s) = Inr (Some m) \<Longrightarrow> may_read u (mi_row m)"
  using read_readable
  by (auto simp: createMemory_def insert_memory_def reinforce_memory_def Let_def case_prod_unfold split: if_splits option.splits)

lemma updated_readable: "fst (updateMemory pf now i u p s) = Inr (Some m) \<Longrightarrow> may_read u (mi_row m)"
  "fst (forgetMemory pf now i u s) = Inr (Some m) \<Longrightarrow> may_read u (mi_row m)"
  using read_readable
  by (auto simp: updateMemory_def forgetMemory_def Let_def case_prod_unfold split: if_splits option.splits prod.splits)

lemma fine_memories:
  "fine u (listMemoriesRoute sv a u lf s)" "fine u (addMemory sv a u nf s)" "fine u (readMemory sv a u i s)"
  "fine u (patchMemory sv a u i mp s)" "fine u (dropMemory sv a u i s)" "fine u (maintainRoute sv a u n s)" "fine u (statsRoute sv a u s)"
  using listed_readable created_readable read_readable updated_readable
  by (auto simp: listMemoriesRoute_def addMemory_def readMemory_def patchMemory_def dropMemory_def maintainRoute_def statsRoute_def
      memory_reply_def Let_def case_prod_unfold split: sum.splits option.splits)

lemma fine_searches: "fine u (searchMemories sv a u hf s)" "fine u (threadMemories sv a u i s)"
  using retrieved_readable by (simp_all add: searchMemories_def threadMemories_def retrieve_in_thread_def Let_def case_prod_unfold)

lemma generated_readable:
  assumes "list_all (\<lambda>m. may_read u (mi_row m)) (sg_memories p)"
  shows "case fst (generate_all pf ids now u ds p s) of Inl _ \<Rightarrow> True | Inr q \<Rightarrow> list_all (\<lambda>m. may_read u (mi_row m)) (sg_memories q)"
  using assms
proof (induction ds arbitrary: p s)
  case (Cons d ds)
  obtain r t where g: "generate_one pf (ids (length ds)) now u d p s = (r, t)" by fastforce
  have "list_all (\<lambda>m. may_read u (mi_row m)) (sg_memories q)" if "r = Inr q" for q
    using g that Cons.prems read_readable created_readable
    by (auto simp: generate_one_def Let_def case_prod_unfold split: option.splits sum.splits if_splits)
  then show ?case using Cons.IH by (cases r) (simp_all add: g)
qed simp

lemma fine_samples: "fine u (generateSamples sv a u ids s)" "fine u (dropSample sv a u i s)"
proof -
  show "fine u (generateSamples sv a u ids s)"
    using generated_readable [where u = u and pf = "sv_platform sv" and ids = "ar_ids a 0" and now = "ar_now a" and s = s and
        p = "\<lparr>sg_generated = generatedSamples (sv_platform sv) u s, sg_memories = [], sg_created = 0, sg_existing = 0\<rparr>"]
    by (simp add: generateSamples_def generateMemorySamples_def Let_def case_prod_unfold split: sum.split) (metis sum.simps(6))
qed (simp add: dropSample_def Let_def case_prod_unfold split: sum.splits option.splits)

subsection \<open>Conversations and evidence\<close>

lemma listed_evidence: "list_all (\<lambda>i. ev_org (ei_row i) = org) (listEvidence thread org s)"
proof -
  have "list_all (\<lambda>e. ev_org e = org) (map ei_row (listEvidence thread org s))" by (simp add: listEvidence_def list_all_iff)
  then show ?thesis by (simp add: list.pred_map comp_def)
qed

lemma curated_evidence: "fst (updateEvidence pf fresh now i u p s) = Some e \<Longrightarrow> ev_org (ei_row e) = user_org u"
  by (auto simp: updateEvidence_def Let_def dest!: head_option_SomeD evidence_by_ids split: option.splits if_splits)

lemma fine_evidence: "fine u (threadEvidence sv a u i s)" "fine u (patchEvidence sv a u i p s)" "fine u (reviseAnswer sv a u i f s)"
  using listed_evidence curated_evidence
  by (auto simp: threadEvidence_def patchEvidence_def reviseAnswer_def Let_def case_prod_unfold split: option.splits sum.splits)

lemma fine_threads: "fine u (addThread a u v s)" "fine u (readThread u i s)" "fine u (dropThread u i s)"
  by (auto simp: addThread_def readThread_def dropThread_def owned_thread_def Let_def case_prod_unfold
      dest: head_option_filterD split: option.splits)

lemma fine_chat: "fine u (chat sv a u f s)"
proof -
  have run: "fine u (run_agent sv a u f x ms t)" for x ms t
    by (simp add: run_agent_def Let_def case_prod_unfold split: option.splits sum.splits)
  have gate: "fst (chat_gate sv a u f ms x t) = Some r \<Longrightarrow> discreet u (reply_content r)" for ms x t r
    by (auto simp: chat_gate_def Let_def case_prod_unfold split: option.splits if_splits)
  show ?thesis using run gate by (simp add: chat_def Let_def case_prod_unfold split: sum.split option.split)
qed

lemma fine_runs: "fine u (streamWorkflow sv a u i b s)" "fine u (resumeRun sv a u i b' s)"
proof -
  have drive: "fine u (drive_run sv a e input q d t)" for e input q d t
    by (simp add: drive_run_def Let_def split: option.split)
  show "fine u (streamWorkflow sv a u i b s)"
    using drive by (simp add: streamWorkflow_def startWorkflow_def with_body_def Let_def split: option.split body.split)
  show "fine u (resumeRun sv a u i b' s)"
    using drive by (simp add: resumeRun_def resumeRow_def with_body_def split: option.split body.split)
qed

lemma own_rows:
  "list_all (\<lambda>e. se_org e = org) (listSecurityAuditEvents org n s)"
  "list_all (\<lambda>t. th_user t = user_id u \<and> th_org t = user_org u) (listThreads u s)"
  "list_all (\<lambda>r. rn_user r = who) (listWorkflowRuns i who s)"
  by (auto simp: listSecurityAuditEvents_def listThreads_def listWorkflowRuns_def list_all_iff dest: in_set_takeD)

lemma fine_route: "fine u (serve sv a u r s)"
  by (cases r) (simp_all add: fine_body fine_settings fine_configuration fine_servers servers_hidden fine_hosts hosts_hidden fine_workflows
      fine_memories fine_searches fine_samples fine_evidence fine_threads fine_chat fine_runs own_rows split: option.splits)


end
