(* ===== verification/Web_Logql.thy ===== *)
theory Web_Logql
  imports Prelude
begin

section \<open>The log query language of the web client (\<open>frontend/src/lib/logql\<close>)\<close>

text \<open>
  The search box of the log pages: \<open>splitter.ts\<close> cuts a query into tokens, \<open>parser.ts\<close> makes typed
  items of them, \<open>reverseParser.ts\<close> writes items back as a query, \<open>tokens.ts\<close> holds the operators and
  the checks of an edited item. The scans are the loops of the source over positions; reading before
  the first position gives \<open>undefined\<close>, which is no backslash.
\<close>

subsection \<open>Tokens\<close>

datatype query_type = QueryKey | QueryOperator | QueryValue | ConditionalOperator

datatype query_text = One jsstr | Several "jsstr list"

record parsed_item =
  pi_type :: query_type
  pi_value :: query_text

definition queryOperatorsSingleVal :: "jsstr list" where
  [js_eval]: "queryOperatorsSingleVal = map js [''GTE'', ''GT'', ''LTE'', ''LT'', ''CONTAINS'', ''NCONTAINS'']"

definition numTypeQueryOperators :: "jsstr list" where
  [js_eval]: "numTypeQueryOperators = map js [''GTE'', ''GT'', ''LTE'', ''LT'']"

definition stringTypeQueryOperators :: "jsstr list" where
  [js_eval]: "stringTypeQueryOperators = map js [''CONTAINS'', ''NCONTAINS'']"

definition queryOperatorsMultiVal :: "jsstr list" where
  [js_eval]: "queryOperatorsMultiVal = map js [''IN'', ''NIN'']"

definition conditionalOperators :: "jsstr list" where
  [js_eval]: "conditionalOperators = map js [''AND'', ''OR'']"

text \<open>Is a word one of a list of operators, whatever its case?\<close>

definition is_operator :: "jsstr list \<Rightarrow> jsstr \<Rightarrow> bool" where
  [js_eval]: "is_operator ops w \<longleftrightarrow> list_ex (\<lambda>op. to_lower op = to_lower w) ops"

text \<open>\<open>ValidTypeSequence\<close>: may the current item stand between these neighbours?\<close>

fun validTypeSequence :: "query_type option \<Rightarrow> query_type option \<Rightarrow> query_type option \<Rightarrow> bool" where
  "validTypeSequence prior (Some QueryKey) following = (prior = None \<or> prior = Some ConditionalOperator)"
| "validTypeSequence prior (Some QueryOperator) following = (prior = Some QueryKey \<and> following = Some QueryValue)"
| "validTypeSequence prior (Some QueryValue) following = (prior = Some QueryOperator)"
| "validTypeSequence prior (Some ConditionalOperator) following = (following = Some QueryKey)"
| "validTypeSequence prior None following = False"

subsection \<open>Splitting\<close>

text \<open>\<open>slice(a, b)\<close> of a string, empty where \<open>b\<close> does not come after \<open>a\<close>.\<close>

definition slice_of :: "jsstr \<Rightarrow> nat \<Rightarrow> nat \<Rightarrow> jsstr" where
  [js_eval]: "slice_of q a b = take (b - a) (drop a q)"

definition escaped_at :: "jsstr \<Rightarrow> nat \<Rightarrow> bool" where
  [js_eval]: "escaped_at q i \<longleftrightarrow> 0 < i \<and> q ! (i - 1) = 92"

record split_state =
  sp_parts :: "jsstr list"
  sp_start :: nat
  sp_bracket :: bool
  sp_quote :: bool

definition push_part :: "jsstr \<Rightarrow> nat \<Rightarrow> split_state \<Rightarrow> split_state" where
  [js_eval]: "push_part q i st = st\<lparr>sp_parts := sp_parts st @ [slice_of q (sp_start st) i], sp_start := i + 1\<rparr>"

definition split_char :: "jsstr \<Rightarrow> split_state \<Rightarrow> nat \<Rightarrow> split_state" where
  [js_eval]: "split_char q st i =
     (if q ! i = 32 then
        (if \<not> sp_bracket st \<and> \<not> sp_quote st then push_part q i st else st)
      else if q ! i = 40 then st\<lparr>sp_bracket := True\<rparr>
      else if q ! i = 41 then
        (let st = (if \<not> escaped_at q i then (push_part q (i + 1) st)\<lparr>sp_bracket := False\<rparr> else st)
         in if sp_quote st then st\<lparr>sp_quote := False\<rparr> else st)
      else if q ! i = 39 then
        (if sp_quote st then
           (if \<not> escaped_at q i \<and> \<not> sp_bracket st then (push_part q (i + 1) st)\<lparr>sp_quote := False\<rparr> else st)
         else st\<lparr>sp_quote := True\<rparr>)
      else st)"

definition split_end :: "jsstr \<Rightarrow> split_state \<Rightarrow> jsstr list" where
  [js_eval]: "split_end q st =
     filter (\<lambda>p. p \<noteq> []) (sp_parts (if sp_start st < length q then push_part q (length q) st else st))"

definition split_begin :: split_state where
  [js_eval]: "split_begin = \<lparr>sp_parts = [], sp_start = 0, sp_bracket = False, sp_quote = False\<rparr>"

definition splitter :: "jsstr \<Rightarrow> jsstr list" where
  [js_eval]: "splitter q = split_end q (foldl (split_char q) split_begin [0..<length q])"

subsection \<open>Parsing\<close>

text \<open>\<open>validateMultiValue\<close>: the quoted texts between parentheses; \<open>None\<close> where there are no parentheses.\<close>

record value_scan =
  vs_values :: "jsstr list"
  vs_start :: nat
  vs_quote :: bool

definition value_char :: "jsstr \<Rightarrow> value_scan \<Rightarrow> nat \<Rightarrow> value_scan" where
  [js_eval]: "value_char q st i =
     (if q ! i \<noteq> 39 then st
      else if q ! (i - 1) = 92 then st
      else if vs_quote st then st\<lparr>vs_quote := False, vs_values := vs_values st @ [slice_of q (vs_start st) i]\<rparr>
      else st\<lparr>vs_quote := True, vs_start := i + 1\<rparr>)"

definition validateMultiValue :: "jsstr \<Rightarrow> jsstr list option" where
  [js_eval]: "validateMultiValue q =
     (if q \<noteq> [] \<and> hd q = 40 \<and> last q = 41
      then Some (vs_values (foldl (value_char q) \<lparr>vs_values = [], vs_start = 0, vs_quote = False\<rparr> [1..<length q - 1]))
      else None)"

datatype parse_error = InvalidQueryPair | ConvertToFullText

text \<open>The text of an item; an operator is always one word.\<close>

fun word_of :: "query_text \<Rightarrow> jsstr" where
  "word_of (One w) = w"
| "word_of (Several ws) = []"

definition generateQuery :: "parsed_item list \<Rightarrow> jsstr \<Rightarrow> parse_error + parsed_item list" where
  [js_eval]: "generateQuery items w =
     (let add = (\<lambda>ty v. Inr (items @ [\<lparr>pi_type = ty, pi_value = v\<rparr>]));
          prev = (if items = [] then ConditionalOperator else pi_type (last items))
      in case prev of
           ConditionalOperator \<Rightarrow> add QueryKey (One w)
         | QueryKey \<Rightarrow>
             if is_operator (queryOperatorsMultiVal @ queryOperatorsSingleVal) w then add QueryOperator (One w)
             else Inl InvalidQueryPair
         | QueryOperator \<Rightarrow>
             if is_operator queryOperatorsMultiVal (word_of (pi_value (last items))) then
               (case validateMultiValue w of None \<Rightarrow> Inl ConvertToFullText | Some vs \<Rightarrow> add QueryValue (Several vs))
             else add QueryValue (One w)
         | QueryValue \<Rightarrow>
             if is_operator conditionalOperators w then add ConditionalOperator (One w) else Inl InvalidQueryPair)"

text \<open>The items read before an error are kept with it.\<close>

fun generate_items :: "parsed_item list \<Rightarrow> jsstr list \<Rightarrow> parse_error option \<times> parsed_item list" where
  "generate_items items [] = (None, items)"
| "generate_items items (w # ws) =
     (case generateQuery items w of Inl e \<Rightarrow> (Some e, items) | Inr items' \<Rightarrow> generate_items items' ws)"

definition full_text :: "jsstr \<Rightarrow> parsed_item list" where
  [js_eval]: "full_text q =
     [\<lparr>pi_type = QueryKey, pi_value = One (js ''FULLTEXT'')\<rparr>,
      \<lparr>pi_type = QueryOperator, pi_value = One (js ''CONTAINS'')\<rparr>,
      \<lparr>pi_type = QueryValue, pi_value = One q\<rparr>]"

definition parseQuery :: "jsstr \<Rightarrow> parsed_item list" where
  [js_eval]: "parseQuery q =
     (case generate_items [] (splitter q) of
        (Some ConvertToFullText, items) \<Rightarrow> full_text q
      | (_, items) \<Rightarrow> items)"

subsection \<open>Writing\<close>

definition quoted :: "jsstr \<Rightarrow> jsstr" where
  [js_eval]: "quoted w = [39] @ w @ [39]"

text \<open>
  The text of an item after the one before it. \<open>None\<close> is the \<open>TypeError\<close> of a value with nothing
  before it, and of an empty list where a text is wanted.
\<close>

definition item_text :: "parsed_item option \<Rightarrow> parsed_item \<Rightarrow> jsstr option" where
  [js_eval]: "item_text before it =
     (case pi_value it of
        Several (v # vs) \<Rightarrow> Some ([40] @ str_join [44] (map quoted (v # vs)) @ [41])
      | value \<Rightarrow>
          if pi_type it = QueryValue then
            (case before of
               None \<Rightarrow> None
             | Some b \<Rightarrow>
                 if pi_type b = QueryOperator \<and> pi_value b \<in> set (map One stringTypeQueryOperators) then
                   (case value of One w \<Rightarrow> Some (quoted (filter (\<lambda>u. u \<noteq> 39) w)) | Several _ \<Rightarrow> None)
                 else Some (word_of value))
          else Some (word_of value))"

fun reverse_from :: "jsstr \<Rightarrow> parsed_item option \<Rightarrow> parsed_item list \<Rightarrow> jsstr option" where
  "reverse_from out before [] = Some out"
| "reverse_from out before (it # items) =
     (case item_text before it of
        None \<Rightarrow> None
      | Some t \<Rightarrow> reverse_from ((if out = [] then [] else out @ [32]) @ t) (Some it) items)"

definition reverseParser :: "parsed_item list \<Rightarrow> jsstr option" where
  [js_eval]: "reverseParser items = reverse_from [] None items"

subsection \<open>What the writer writes, the parser reads\<close>

text \<open>
  Three shapes of token: a word without spaces, quotes and parentheses; a quoted text; a list in
  parentheses. The last unit before a closing quote or parenthesis is no backslash.
\<close>

definition plain_word :: "jsstr \<Rightarrow> bool" where
  [js_eval]: "plain_word w \<longleftrightarrow> w \<noteq> [] \<and> list_all (\<lambda>u. u \<noteq> 32 \<and> u \<noteq> 39 \<and> u \<noteq> 40 \<and> u \<noteq> 41) w"

definition closable :: "nat list \<Rightarrow> jsstr \<Rightarrow> bool" where
  [js_eval]: "closable bad b \<longleftrightarrow> list_all (\<lambda>u. u \<notin> set bad) b \<and> (b = [] \<or> last b \<noteq> 92)"

definition quoted_text :: "jsstr \<Rightarrow> bool" where
  [js_eval]: "quoted_text w \<longleftrightarrow> 2 \<le> length w \<and> w = quoted (butlast (tl w)) \<and> closable [39, 40, 41] (butlast (tl w))"

lemma quoted_textE:
  assumes "quoted_text w"
  obtains b where "w = quoted b" "closable [39, 40, 41] b"
  using assms unfolding quoted_text_def by blast

lemma nth_inside:
  "q = p @ t @ r \<Longrightarrow> length p \<le> i \<Longrightarrow> i < length p + length t \<Longrightarrow> q ! i = t ! (i - length p)"
  by (auto simp: nth_append)

lemma slice_inside: "q = p @ t @ r \<Longrightarrow> slice_of q (length p) (length p + length t) = t"
  by (simp add: slice_of_def)

lemma fold_upt_split:
  "a \<le> b \<Longrightarrow> b \<le> c \<Longrightarrow> foldl f st [a..<c] = foldl f (foldl f st [a..<b]) [b..<c]"
  by (metis foldl_append upt_add_eq_append le_Suc_ex)

lemma upt_ends: "[n..<n + (m + 2)] = n # [n + 1..<n + 1 + m] @ [n + 1 + m]"
  by (subst upt_conv_Cons) simp_all

lemma fold_quiet:
  "(\<And>i. a \<le> i \<Longrightarrow> i < b \<Longrightarrow> f st i = st) \<Longrightarrow> foldl f st [a..<b] = st"
  by (induction b) auto

lemma fold_in_brackets:
  assumes "sp_bracket st" "\<And>i. a \<le> i \<Longrightarrow> i < b \<Longrightarrow> q ! i \<noteq> 41"
  shows "\<exists>x. foldl (split_char q) st [a..<b] = st\<lparr>sp_quote := x\<rparr>"
  using assms
proof (induction b)
  case 0
  then show ?case by (auto intro: exI [of _ "sp_quote st"])
next
  case (Suc b)
  then obtain x where x: "foldl (split_char q) st [a..<b] = st\<lparr>sp_quote := x\<rparr>" by force
  show ?case
  proof (cases "a \<le> b")
    case True
    then have "q ! b \<noteq> 41" using Suc.prems(2) by simp
    then have "split_char q (st\<lparr>sp_quote := x\<rparr>) b \<in> {st\<lparr>sp_quote := x\<rparr>, st\<lparr>sp_quote := True\<rparr>}"
      using Suc.prems(1) by (simp add: split_char_def)
    then show ?thesis using True x by auto
  next
    case False
    then show ?thesis by (auto intro: exI [of _ "sp_quote st"])
  qed
qed

lemma split_plain:
  assumes q: "q = p @ t @ r" and t: "plain_word t"
  shows "foldl (split_char q) st [length p..<length p + length t] = st"
proof (rule fold_quiet)
  fix i assume i: "length p \<le> i" "i < length p + length t"
  then have "q ! i \<in> set t" by (simp add: nth_inside [OF q])
  with t show "split_char q st i = st" by (auto simp: plain_word_def list_all_iff split_char_def)
qed

lemma split_quoted:
  assumes q: "q = p @ quoted b @ r" and b: "closable [39, 40, 41] b"
    and st: "\<not> sp_bracket st" "\<not> sp_quote st" "sp_start st = length p"
  shows "foldl (split_char q) st [length p..<length p + length (quoted b)]
    = st\<lparr>sp_parts := sp_parts st @ [quoted b], sp_start := length p + length (quoted b) + 1\<rparr>"
proof -
  let ?e = "length p + 1 + length b"
  have at: "\<And>i. length p \<le> i \<Longrightarrow> i \<le> ?e \<Longrightarrow> q ! i = quoted b ! (i - length p)"
    by (simp add: nth_inside [OF q] quoted_def)
  have "q ! length p = 39" "q ! ?e = 39" by (simp_all add: at quoted_def nth_append)
  have before: "b \<noteq> [] \<Longrightarrow> q ! (?e - 1) = last b"
    by (simp add: at quoted_def nth_append last_conv_nth)
  have free: "\<not> escaped_at q ?e"
    using b \<open>q ! length p = 39\<close> before by (cases "b = []") (auto simp: escaped_at_def closable_def)
  have first: "split_char q st (length p) = st\<lparr>sp_quote := True\<rparr>"
    using \<open>q ! length p = 39\<close> st by (simp add: split_char_def)
  have middle: "foldl (split_char q) (st\<lparr>sp_quote := True\<rparr>) [length p + 1..<?e] = st\<lparr>sp_quote := True\<rparr>"
  proof (rule fold_quiet)
    fix i assume i: "length p + 1 \<le> i" "i < ?e"
    then have "q ! i = b ! (i - length p - 1)" by (auto simp: at quoted_def nth_append nth_Cons')
    with i have "q ! i \<in> set b" by simp
    with b st show "split_char q (st\<lparr>sp_quote := True\<rparr>) i = st\<lparr>sp_quote := True\<rparr>"
      by (auto simp: closable_def list_all_iff split_char_def)
  qed
  have close: "split_char q (st\<lparr>sp_quote := True\<rparr>) ?e
    = st\<lparr>sp_parts := sp_parts st @ [quoted b], sp_start := length p + length (quoted b) + 1\<rparr>"
    using \<open>q ! ?e = 39\<close> free st slice_inside [OF q]
    by (simp add: split_char_def push_part_def quoted_def)
  have "[length p..<length p + length (quoted b)] = length p # [length p + 1..<?e] @ [?e]"
    using upt_ends [of "length p" "length b"] by (simp add: quoted_def)
  then show ?thesis using first middle close by simp
qed

lemma split_bracketed:
  assumes q: "q = p @ ([40] @ b @ [41]) @ r" and b: "closable [41] b"
    and st: "\<not> sp_bracket st" "\<not> sp_quote st" "sp_start st = length p"
  shows "foldl (split_char q) st [length p..<length p + length ([40] @ b @ [41])]
    = st\<lparr>sp_parts := sp_parts st @ [[40] @ b @ [41]], sp_start := length p + length ([40] @ b @ [41]) + 1\<rparr>"
proof -
  let ?t = "[40] @ b @ [41]" and ?e = "length p + 1 + length b"
  have at: "\<And>i. length p \<le> i \<Longrightarrow> i \<le> ?e \<Longrightarrow> q ! i = ?t ! (i - length p)"
    by (rule nth_inside [OF q]) simp_all
  have "q ! length p = 40" "q ! ?e = 41" by (simp_all add: at nth_append)
  have before: "b \<noteq> [] \<Longrightarrow> q ! (?e - 1) = last b"
    by (simp add: at nth_append last_conv_nth)
  have free: "\<not> escaped_at q ?e"
    using b \<open>q ! length p = 40\<close> before by (cases "b = []") (auto simp: escaped_at_def closable_def)
  have first: "split_char q st (length p) = st\<lparr>sp_bracket := True\<rparr>"
    using \<open>q ! length p = 40\<close> st by (simp add: split_char_def)
  have "\<And>i. length p + 1 \<le> i \<Longrightarrow> i < ?e \<Longrightarrow> q ! i \<noteq> 41"
  proof -
    fix i assume i: "length p + 1 \<le> i" "i < ?e"
    then have "q ! i = b ! (i - length p - 1)" by (auto simp: at nth_append nth_Cons')
    with i have "q ! i \<in> set b" by simp
    with b show "q ! i \<noteq> 41" by (auto simp: closable_def list_all_iff)
  qed
  then obtain x where middle: "foldl (split_char q) (st\<lparr>sp_bracket := True\<rparr>) [length p + 1..<?e]
      = st\<lparr>sp_bracket := True, sp_quote := x\<rparr>"
    using fold_in_brackets [of "st\<lparr>sp_bracket := True\<rparr>" "length p + 1" ?e q] by auto
  have close: "split_char q (st\<lparr>sp_bracket := True, sp_quote := x\<rparr>) ?e
    = st\<lparr>sp_parts := sp_parts st @ [?t], sp_start := length p + length ?t + 1\<rparr>"
    using \<open>q ! ?e = 41\<close> free st slice_inside [OF q]
    by (cases x) (simp_all add: split_char_def push_part_def)
  have "[length p..<length p + length ?t] = length p # [length p + 1..<?e] @ [?e]"
    using upt_ends [of "length p" "length b"] by simp
  then show ?thesis using first middle close by simp
qed


text \<open>A token between the spaces of a query is cut out whole.\<close>

definition is_token :: "jsstr \<Rightarrow> bool" where
  "is_token t \<longleftrightarrow> plain_word t \<or> quoted_text t \<or> (\<exists>b. t = [40] @ b @ [41] \<and> closable [41] b)"

lemma token_nonempty: "is_token t \<Longrightarrow> t \<noteq> []"
  by (auto simp: is_token_def plain_word_def quoted_text_def)

definition between_tokens :: "nat \<Rightarrow> split_state \<Rightarrow> bool" where
  "between_tokens n st \<longleftrightarrow> \<not> sp_bracket st \<and> \<not> sp_quote st \<and> sp_start st = n"

definition cut :: "split_state \<Rightarrow> jsstr list" where
  "cut st = filter (\<lambda>p. p \<noteq> []) (sp_parts st)"

lemma split_token:
  assumes q: "q = p @ t @ r" and t: "is_token t" and st: "between_tokens (length p) st"
  defines "st' \<equiv> foldl (split_char q) st [length p..<length p + length t]"
  shows "(st' = st \<and> plain_word t)
    \<or> st' = st\<lparr>sp_parts := sp_parts st @ [t], sp_start := length p + length t + 1\<rparr>"
  using t unfolding is_token_def
proof (elim disjE exE conjE)
  assume "plain_word t"
  then show ?thesis unfolding st'_def using split_plain [OF q] by simp
next
  assume "quoted_text t"
  then obtain b where b: "t = quoted b" "closable [39, 40, 41] b" by (rule quoted_textE)
  then show ?thesis
    unfolding st'_def using split_quoted [of q p b r st] q st by (simp add: between_tokens_def)
next
  fix b assume b: "t = [40] @ b @ [41]" "closable [41] b"
  then show ?thesis
    unfolding st'_def using split_bracketed [of q p b r st] q st by (simp add: between_tokens_def)
qed

lemma split_last_token:
  assumes "q = p @ t" "is_token t" "between_tokens (length p) st"
  shows "split_end q (foldl (split_char q) st [length p..<length q]) = cut st @ [t]"
proof -
  have q: "q = p @ t @ []" using assms(1) by simp
  have "slice_of q (length p) (length q) = t" using assms(1) by (simp add: slice_of_def)
  then show ?thesis
    using split_token [OF q assms(2,3)] token_nonempty [OF assms(2)] assms(1,3)
    by (auto simp: split_end_def cut_def push_part_def between_tokens_def)
qed

lemma split_next_token:
  assumes q: "q = p @ t @ [32] @ r" and t: "is_token t" and st: "between_tokens (length p) st"
  defines "st' \<equiv> foldl (split_char q) st [length p..<length p + length t + 1]"
  shows "between_tokens (length p + length t + 1) st'" "cut st' = cut st @ [t]"
proof -
  let ?e = "length p + length t" and ?m = "foldl (split_char q) st [length p..<length p + length t]"
  have st': "st' = split_char q ?m ?e" by (simp add: st'_def)
  have space: "q ! ?e = 32" using q by (simp add: nth_append)
  have slices: "slice_of q (length p) ?e = t" "slice_of q (?e + 1) ?e = []"
    using slice_inside [of q p t "[32] @ r"] q by (simp_all add: slice_of_def)
  show "between_tokens (length p + length t + 1) st'" "cut st' = cut st @ [t]"
    using split_token [OF q t st] st space slices token_nonempty [OF t]
    by (auto simp: st' split_char_def push_part_def between_tokens_def cut_def)
qed

lemma split_tokens:
  "q = p @ str_join [32] ts \<Longrightarrow> ts \<noteq> [] \<Longrightarrow> list_all is_token ts \<Longrightarrow> between_tokens (length p) st
   \<Longrightarrow> split_end q (foldl (split_char q) st [length p..<length q]) = cut st @ ts"
proof (induction ts arbitrary: p st)
  case (Cons t ts)
  show ?case
  proof (cases ts)
    case Nil
    then show ?thesis using Cons.prems split_last_token [of q p t st] by simp
  next
    case (Cons t' ts')
    let ?p = "p @ t @ [32]" and ?st = "foldl (split_char q) st [length p..<length p + length t + 1]"
    have q: "q = p @ t @ [32] @ str_join [32] ts" using Cons.prems(1) Cons by simp
    have "is_token t" "list_all is_token ts" using Cons.prems(3) by simp_all
    note step = split_next_token [OF q this(1) Cons.prems(4)]
    have "split_end q (foldl (split_char q) ?st [length ?p..<length q]) = cut ?st @ ts"
      by (rule Cons.IH) (use q Cons step \<open>list_all is_token ts\<close> in simp_all)
    moreover have "foldl (split_char q) st [length p..<length q] = foldl (split_char q) ?st [length ?p..<length q]"
      using fold_upt_split [of "length p" "length p + length t + 1" "length q" "split_char q" st] q by simp
    ultimately show ?thesis using step(2) by simp
  qed
qed simp

lemma splitter_tokens: "list_all is_token ts \<Longrightarrow> splitter (str_join [32] ts) = ts"
proof (cases "ts = []")
  case True
  then show ?thesis by (simp add: splitter_def split_end_def split_begin_def)
next
  case False
  moreover assume "list_all is_token ts"
  ultimately show ?thesis
    using split_tokens [of "str_join [32] ts" "[]" ts split_begin]
    by (simp add: splitter_def between_tokens_def split_begin_def cut_def)
qed


subsection \<open>Lists in parentheses\<close>

lemma value_quoted:
  assumes q: "q = p @ quoted b @ r" and p: "p \<noteq> []" "last p \<noteq> 92" and b: "closable [39, 41] b"
    and st: "\<not> vs_quote st"
  shows "foldl (value_char q) st [length p..<length p + length (quoted b)]
    = st\<lparr>vs_values := vs_values st @ [b], vs_start := length p + 1\<rparr>"
proof -
  let ?e = "length p + 1 + length b" and ?in = "st\<lparr>vs_quote := True, vs_start := length p + 1\<rparr>"
  have at: "\<And>i. length p \<le> i \<Longrightarrow> i \<le> ?e \<Longrightarrow> q ! i = quoted b ! (i - length p)"
    by (simp add: nth_inside [OF q] quoted_def)
  have ends: "q ! length p = 39" "q ! ?e = 39" by (simp_all add: at quoted_def nth_append)
  have start: "q ! (length p - 1) = last p" using q p by (simp add: nth_append last_conv_nth)
  have before: "b \<noteq> [] \<Longrightarrow> q ! (?e - 1) = last b"
    by (simp add: at quoted_def nth_append last_conv_nth)
  have free: "q ! (?e - 1) \<noteq> 92"
    using b ends(1) before by (cases "b = []") (auto simp: closable_def)
  have first: "value_char q st (length p) = ?in"
    using ends(1) start p st by (simp add: value_char_def)
  have middle: "foldl (value_char q) ?in [length p + 1..<?e] = ?in"
  proof (rule fold_quiet)
    fix i assume i: "length p + 1 \<le> i" "i < ?e"
    then have "q ! i = b ! (i - length p - 1)" by (auto simp: at quoted_def nth_append nth_Cons')
    with i have "q ! i \<in> set b" by simp
    with b show "value_char q ?in i = ?in" by (auto simp: closable_def list_all_iff value_char_def)
  qed
  have "slice_of q (length p + 1) ?e = b" using q by (simp add: slice_of_def quoted_def)
  then have close: "value_char q ?in ?e = st\<lparr>vs_values := vs_values st @ [b], vs_start := length p + 1\<rparr>"
    using ends(2) free st by (simp add: value_char_def)
  have "[length p..<length p + length (quoted b)] = length p # [length p + 1..<?e] @ [?e]"
    using upt_ends [of "length p" "length b"] by (simp add: quoted_def)
  then show ?thesis using first middle close by simp
qed

lemma value_list:
  "q = p @ str_join [44] (map quoted vs) @ r \<Longrightarrow> p \<noteq> [] \<Longrightarrow> last p \<noteq> 92 \<Longrightarrow> list_all (closable [39, 41]) vs
   \<Longrightarrow> \<not> vs_quote st
   \<Longrightarrow> vs_values (foldl (value_char q) st [length p..<length p + length (str_join [44] (map quoted vs))]) = vs_values st @ vs"
proof (induction vs arbitrary: p st)
  case (Cons v vs)
  show ?case
  proof (cases vs)
    case Nil
    with Cons.prems show ?thesis using value_quoted [of q p v r st] by simp
  next
    case (Cons v' vs')
    let ?rest = "str_join [44] (map quoted vs)"
    let ?p = "p @ quoted v @ [44]"
    let ?mid = "length p + length (quoted v)"
    have q: "q = p @ quoted v @ [44] @ ?rest @ r" using Cons.prems(1) Cons by simp
    have v: "closable [39, 41] v" using Cons.prems(4) by simp
    let ?st = "st\<lparr>vs_values := vs_values st @ [v], vs_start := length p + 1\<rparr>"
    have head: "foldl (value_char q) st [length p..<?mid] = ?st"
      using value_quoted [OF q Cons.prems(2,3) v Cons.prems(5)] .
    have comma: "foldl (value_char q) ?st [?mid..<length ?p] = ?st"
      using q by (simp add: value_char_def nth_append)
    let ?n = "length ?p + length ?rest"
    have le: "length p \<le> ?mid" "?mid \<le> ?n" "?mid \<le> length ?p" "length ?p \<le> ?n" by simp_all
    have "vs_values (foldl (value_char q) ?st [length ?p..<?n]) = vs_values ?st @ vs"
      by (rule Cons.IH) (use q Cons.prems in simp_all)
    then have rest: "vs_values (foldl (value_char q) ?st [length ?p..<?n]) = vs_values st @ v # vs" by simp
    have len: "length p + length (str_join [44] (map quoted (v # vs))) = ?n" using Cons by simp
    have whole: "foldl (value_char q) st [length p..<?n] = foldl (value_char q) ?st [length ?p..<?n]"
      by (simp only: fold_upt_split [OF le(1,2), of "value_char q" st] head
          fold_upt_split [OF le(3,4), of "value_char q" ?st] comma)
    show ?thesis by (simp only: len whole rest)
  qed
qed simp

definition list_text :: "jsstr list \<Rightarrow> jsstr" where
  "list_text vs = [40] @ str_join [44] (map quoted vs) @ [41]"

lemma multi_values: "list_all (closable [39, 41]) vs \<Longrightarrow> validateMultiValue (list_text vs) = Some vs"
  using value_list [of "list_text vs" "[40]" vs "[41]" "\<lparr>vs_values = [], vs_start = 0, vs_quote = False\<rparr>"]
  by (simp add: validateMultiValue_def list_text_def)

lemma set_str_join: "set (str_join sep ws) \<subseteq> set sep \<union> \<Union>(set ` set ws)"
  by (induction sep ws rule: str_join.induct) auto

lemma last_str_join:
  "ws \<noteq> [] \<Longrightarrow> last ws \<noteq> [] \<Longrightarrow> str_join sep ws \<noteq> [] \<and> last (str_join sep ws) = last (last ws)"
  by (induction sep ws rule: str_join.induct) auto

lemma token_of_list:
  assumes "list_all (closable [39, 41]) vs" "vs \<noteq> []"
  shows "is_token (list_text vs)"
proof -
  let ?b = "str_join [44] (map quoted vs)"
  have "\<And>u. u \<in> set ?b \<Longrightarrow> u \<noteq> 41"
  proof -
    fix u assume "u \<in> set ?b"
    then have "u = 44 \<or> (\<exists>v \<in> set vs. u \<in> set (quoted v))"
      using set_str_join [of "[44]" "map quoted vs"] by auto
    with assms(1) show "u \<noteq> 41" by (auto simp: list_all_iff closable_def quoted_def)
  qed
  moreover have "last ?b = 39"
    using assms(2) last_str_join [of "map quoted vs" "[44]"] by (simp add: last_map quoted_def)
  ultimately have "closable [41] ?b" by (auto simp: closable_def list_all_iff)
  then show ?thesis by (auto simp: is_token_def list_text_def)
qed

subsection \<open>Items that follow each other\<close>

definition one_word :: "query_text \<Rightarrow> bool" where
  [js_eval]: "one_word v \<longleftrightarrow> (case v of One w \<Rightarrow> plain_word w | Several _ \<Rightarrow> False)"

text \<open>What may stand after an operator.\<close>

definition value_fits :: "jsstr \<Rightarrow> query_text \<Rightarrow> bool" where
  [js_eval]: "value_fits op v \<longleftrightarrow>
     (case v of
        Several vs \<Rightarrow> is_operator queryOperatorsMultiVal op \<and> vs \<noteq> [] \<and> list_all (closable [39, 41]) vs
      | One w \<Rightarrow> \<not> is_operator queryOperatorsMultiVal op
          \<and> (quoted_text w \<or> op \<notin> set stringTypeQueryOperators \<and> plain_word w))"

definition item_fits :: "parsed_item option \<Rightarrow> parsed_item \<Rightarrow> bool" where
  [js_eval]: "item_fits before it \<longleftrightarrow>
     (case before of
        None \<Rightarrow> pi_type it = QueryKey \<and> one_word (pi_value it)
      | Some b \<Rightarrow>
          (case pi_type b of
             ConditionalOperator \<Rightarrow> pi_type it = QueryKey \<and> one_word (pi_value it)
           | QueryKey \<Rightarrow> pi_type it = QueryOperator \<and> one_word (pi_value it)
               \<and> is_operator (queryOperatorsMultiVal @ queryOperatorsSingleVal) (word_of (pi_value it))
           | QueryOperator \<Rightarrow> pi_type it = QueryValue \<and> value_fits (word_of (pi_value b)) (pi_value it)
           | QueryValue \<Rightarrow> pi_type it = ConditionalOperator \<and> one_word (pi_value it)
               \<and> is_operator conditionalOperators (word_of (pi_value it))))"

fun items_fit :: "parsed_item option \<Rightarrow> parsed_item list \<Rightarrow> bool" where
  "items_fit before [] = True"
| "items_fit before (it # items) = (item_fits before it \<and> items_fit (Some it) items)"

definition token_text :: "parsed_item \<Rightarrow> jsstr" where
  "token_text it = (case pi_value it of One w \<Rightarrow> w | Several vs \<Rightarrow> list_text vs)"

definition last_item :: "parsed_item list \<Rightarrow> parsed_item option" where
  "last_item items = (if items = [] then None else Some (last items))"

lemma token_words: "plain_word w \<Longrightarrow> is_token w" "quoted_text w \<Longrightarrow> is_token w"
  by (simp_all add: is_token_def)

lemma fit_token: "item_fits b it \<Longrightarrow> is_token (token_text it)"
  by (auto simp: item_fits_def one_word_def value_fits_def token_text_def token_words token_of_list
      split: option.splits query_type.splits query_text.splits)

lemma unquote: "quoted_text w \<Longrightarrow> quoted (filter (\<lambda>u. u \<noteq> 39) w) = w"
  by (erule quoted_textE) (auto simp: quoted_def closable_def list_all_iff filter_id_conv)

lemma fit_text: "item_fits b it \<Longrightarrow> item_text b it = Some (token_text it)"
  by (cases "pi_value it"; cases "pi_type it")
     (auto simp: item_fits_def one_word_def value_fits_def token_text_def item_text_def list_text_def unquote
        neq_Nil_conv plain_word_def
      split: option.splits query_type.splits)

lemma fit_parse:
  "item_fits (last_item items) it \<Longrightarrow> generateQuery items (token_text it) = Inr (items @ [it])"
  by (cases it)
     (auto simp: item_fits_def one_word_def value_fits_def token_text_def generateQuery_def last_item_def multi_values
      split: option.splits query_type.splits query_text.splits if_splits)

lemma fit_reverse:
  "items_fit b items \<Longrightarrow> items \<noteq> []
   \<Longrightarrow> reverse_from out b items = Some ((if out = [] then [] else out @ [32]) @ str_join [32] (map token_text items))"
proof (induction items arbitrary: out b)
  case (Cons it items)
  let ?out = "(if out = [] then [] else out @ [32]) @ token_text it"
  have here: "item_text b it = Some (token_text it)" and "token_text it \<noteq> []"
    using Cons.prems fit_text fit_token token_nonempty by auto
  show ?case
  proof (cases items)
    case Nil
    with here show ?thesis by simp
  next
    case (Cons a list)
    then have "reverse_from ?out (Some it) items = Some (?out @ [32] @ str_join [32] (map token_text items))"
      using Cons.IH [of "Some it" ?out] Cons.prems \<open>token_text it \<noteq> []\<close> by simp
    with here Cons show ?thesis by simp
  qed
qed simp

lemma fit_generate:
  "items_fit (last_item before) items \<Longrightarrow> generate_items before (map token_text items) = (None, before @ items)"
proof (induction items arbitrary: before)
  case (Cons it items)
  then have "generateQuery before (token_text it) = Inr (before @ [it])" by (simp add: fit_parse)
  moreover have "generate_items (before @ [it]) (map token_text items) = (None, (before @ [it]) @ items)"
    by (rule Cons.IH) (use Cons.prems in \<open>simp add: last_item_def\<close>)
  ultimately show ?case by simp
qed simp

lemma fit_tokens: "items_fit b items \<Longrightarrow> list_all is_token (map token_text items)"
  by (induction items arbitrary: b) (auto simp: fit_token)

subsection \<open>Properties\<close>


definition demo_items :: "parsed_item list" where
  [js_eval]: "demo_items =
     [\<lparr>pi_type = QueryKey, pi_value = One (js ''service'')\<rparr>,
      \<lparr>pi_type = QueryOperator, pi_value = One (js ''IN'')\<rparr>,
      \<lparr>pi_type = QueryValue, pi_value = Several [js ''a b'', js ''c'']\<rparr>,
      \<lparr>pi_type = ConditionalOperator, pi_value = One (js ''AND'')\<rparr>,
      \<lparr>pi_type = QueryKey, pi_value = One (js ''body'')\<rparr>,
      \<lparr>pi_type = QueryOperator, pi_value = One (js ''CONTAINS'')\<rparr>,
      \<lparr>pi_type = QueryValue, pi_value = One (quoted (js ''time out''))\<rparr>]"


text \<open>
  The kinds of the items of a query come in turns, whatever the query; a query that is not understood
  as a list of values becomes one search for its text.
\<close>

fun turn :: "nat \<Rightarrow> query_type" where
  "turn n = (if n mod 4 = 0 then QueryKey else if n mod 4 = 1 then QueryOperator
     else if n mod 4 = 2 then QueryValue else ConditionalOperator)"

definition in_turns :: "parsed_item list \<Rightarrow> bool" where
  "in_turns items \<longleftrightarrow> map pi_type items = map turn [0..<length items]"

lemma turn_next:
  "in_turns items \<Longrightarrow> generateQuery items w = Inr items' \<Longrightarrow> in_turns items'"
proof -
  assume turns: "in_turns items" and step: "generateQuery items w = Inr items'"
  obtain ty v where items': "items' = items @ [\<lparr>pi_type = ty, pi_value = v\<rparr>]"
    using step by (auto simp: generateQuery_def Let_def split: query_type.splits if_splits option.splits)
  have "ty = turn (length items)"
  proof (cases "items = []")
    case True
    with step items' show ?thesis by (auto simp: generateQuery_def)
  next
    case False
    then have "pi_type (last items) = turn (length items - 1)"
      using turns unfolding in_turns_def
      by (metis diff_less last_conv_nth length_greater_0_conv length_map length_upt map_is_Nil_conv minus_nat.diff_0
          nth_map nth_upt plus_nat.add_0 zero_less_one)
    with step items' False show ?thesis
      by (auto simp: generateQuery_def Let_def mod_Suc split: query_type.splits if_splits option.splits
          dest!: gr0_implies_Suc simp del: length_greater_0_conv simp flip: length_greater_0_conv)
  qed
  with turns items' show "in_turns items'" by (simp add: in_turns_def)
qed

lemma generate_all_turns: "in_turns items \<Longrightarrow> in_turns (snd (generate_items items ws))"
  by (induction ws arbitrary: items) (auto split: sum.splits intro: turn_next)

lemma parse_in_turns: "in_turns (parseQuery q)"
proof -
  have "in_turns (snd (generate_items [] (splitter q)))" by (rule generate_all_turns) (simp add: in_turns_def)
  moreover have "in_turns (full_text q)" by (simp add: in_turns_def full_text_def)
  ultimately show ?thesis by (auto simp: parseQuery_def split: prod.splits option.splits parse_error.splits)
qed

end
