(* ===== verification/Web_Editor.thy ===== *)
theory Web_Editor
  imports Server_Api Url_Text "HOL-Library.Multiset"
begin

section \<open>The loop editor of the web client (\<open>frontend/src/pages/WorkflowManager/index.tsx\<close>)\<close>

text \<open>
  The page on which administrators build workflows: the palette of steps, what a new step holds, the
  canvas with its drag and drop, the forms of a step and of the loop, and saving. The draft is the
  record the service stores, so that what is saved can be compared with what the service accepts.
  The fields for numbers hold natural numbers here; the service refuses anything else. Moving an
  element of a list is a function of the drag-and-drop library and a parameter.
\<close>

subsection \<open>The palette\<close>

fun step_type_text :: "step_type \<Rightarrow> jsstr" where
  "step_type_text AgentStep = js ''agent''"
| "step_type_text ServicesStep = js ''services''"
| "step_type_text AlertsStep = js ''alerts''"
| "step_type_text DashboardsStep = js ''dashboards''"
| "step_type_text McpToolStep = js ''mcp-tool''"
| "step_type_text SecurityCheckStep = js ''security-check''"
| "step_type_text OperationStep = js ''operation''"
| "step_type_text VerifyStep = js ''verify''"
| "step_type_text ApprovalStep = js ''approval''"
| "step_type_text ConditionStep = js ''condition''"
| "step_type_text ParallelStep = js ''parallel''"
| "step_type_text LoopStep = js ''loop''"

fun step_label :: "step_type \<Rightarrow> jsstr" where
  "step_label AgentStep = (js ''Agent '' @ [20998, 26512])"
| "step_label ServicesStep = [26597, 35810, 26381, 21153]"
| "step_label AlertsStep = [26597, 35810, 21578, 35686]"
| "step_label DashboardsStep = [26597, 35810, 20202, 34920, 30424]"
| "step_label McpToolStep = (js ''MCP '' @ [24037, 20855])"
| "step_label SecurityCheckStep = [23433, 20840, 20915, 31574]"
| "step_label OperationStep = [21463, 25511, 25191, 34892]"
| "step_label VerifyStep = [32467, 26524, 39564, 35777]"
| "step_label ApprovalStep = [20154, 24037, 23457, 25209]"
| "step_label ConditionStep = [26465, 20214, 20998, 25903]"
| "step_label ParallelStep = [24182, 34892, 20998, 25903]"
| "step_label LoopStep = [24490, 29615, 33410, 28857]"

definition step_options :: "step_type list" where
  [js_eval]: "step_options = [AgentStep, ServicesStep, AlertsStep, DashboardsStep, McpToolStep, SecurityCheckStep,
     OperationStep, VerifyStep, ApprovalStep, ConditionStep, ParallelStep, LoopStep]"

definition nested_step_options :: "step_type list" where
  [js_eval]: "nested_step_options =
     filter (\<lambda>ty. ty \<in> {AgentStep, ServicesStep, AlertsStep, DashboardsStep, ApprovalStep}) step_options"

text \<open>The type with a text, or the first one.\<close>

definition step_option :: "jsstr \<Rightarrow> step_type" where
  [js_eval]: "step_option t = or_else (head_option (filter (\<lambda>ty. step_type_text ty = t) step_options)) AgentStep"

subsection \<open>New steps\<close>

text \<open>What a new step draws: the reading of the clock, and a random text for each step it consists of.\<close>

record drawn =
  dw_now :: nat
  dw_text :: "nat \<Rightarrow> jsstr"

definition drawn_id :: "drawn \<Rightarrow> nat \<Rightarrow> step_type \<Rightarrow> jsstr" where
  [js_eval]: "drawn_id w k ty = step_type_text ty @ [95] @ nat_digits (dw_now w) @ [95] @ dw_text w k"

definition new_info :: "drawn \<Rightarrow> nat \<Rightarrow> step_type \<Rightarrow> step_info" where
  [js_eval]: "new_info w k ty =
     \<lparr>si_id = drawn_id w k ty, si_name = step_label ty, si_type = ty,
      si_prompt = (if ty \<in> {AgentStep, OperationStep, VerifyStep}
        then Some ([26681, 25454, 24050, 26377, 20449, 24687, 32487, 32493, 20998, 26512, 24182, 36755, 20986,
      32467, 35770, 12289, 35777, 25454, 21644, 19979, 19968, 27493, 34892, 21160, 12290]) else None),
      si_message = (if ty = ApprovalStep then Some ([35831, 30830, 35748, 26159, 21542, 32487, 32493, 25191, 34892, 21518, 32493, 27493, 39588,
      12290]) else None),
      si_tool = (if ty = McpToolStep then Some (js ''scry_listServices'') else None),
      si_input = (if ty = McpToolStep then Some (Obj []) else None),
      si_retries = Some 0\<rparr>"

text \<open>The children of a new step are steps without children.\<close>

definition new_leaf :: "drawn \<Rightarrow> nat \<Rightarrow> step_type \<Rightarrow> step" where
  [js_eval]: "new_leaf w k ty = Step (new_info w k ty) None None None"

definition new_rule :: condition_rule where
  [js_eval]: "new_rule = \<lparr>cr_path = js ''results.services'', cr_operator = OpExists, cr_value = None\<rparr>"

definition new_loop_info :: loop_info where
  [js_eval]: "new_loop_info =
     \<lparr>lo_mode = UntilLoop,
      lo_rule = \<lparr>cr_path = js ''results.done'', cr_operator = OpEquals, cr_value = Some (js ''true'')\<rparr>,
      lo_max = 3, lo_source = Some (js ''results.items''), lo_concurrency = Some 1\<rparr>"

definition createStep :: "drawn \<Rightarrow> step_type \<Rightarrow> step" where
  [js_eval]: "createStep w ty = Step (new_info w 0 ty)
     (if ty = ConditionStep then Some (Condition new_rule [new_leaf w 1 AgentStep] [new_leaf w 2 AgentStep]) else None)
     (if ty = ParallelStep then Some
        [Branch (js ''branch_services_'' @ nat_digits (dw_now w)) ([26381, 21153, 20998, 25903]) [new_leaf w 1 ServicesStep],
         Branch (js ''branch_alerts_'' @ nat_digits (dw_now w)) ([21578, 35686, 20998, 25903]) [new_leaf w 2 AlertsStep]] else None)
     (if ty = LoopStep then Some (Loop new_loop_info [new_leaf w 1 AgentStep]) else None)"

lemma createStep_leaf:
  "ty \<notin> {ConditionStep, ParallelStep, LoopStep} \<Longrightarrow> createStep w ty = new_leaf w 0 ty"
  by (simp add: createStep_def new_leaf_def)

definition blankWorkflow :: "drawn \<Rightarrow> workflow_row" where
  [js_eval]: "blankWorkflow w =
     \<lparr>wf_id = [], wf_name = ([26032] @ js '' Loop''), wf_description = [], wf_enabled = True,
      wf_definition = \<lparr>wd_version = 2, wd_steps = [createStep w AgentStep]\<rparr>, wf_tags = [],
      wf_schedule = \<lparr>sd_enabled = False, sd_cron = [], sd_timezone = js ''Asia/Shanghai''\<rparr>,
      wf_triggers = [], wf_inputs = [], wf_version = 1, wf_versions = [],
      wf_created = int (dw_now w), wf_updated = int (dw_now w)\<rparr>"

subsection \<open>Labels\<close>

definition runStatusLabel :: "jsstr \<Rightarrow> jsstr" where
  [js_eval]: "runStatusLabel status =
     (if status = js ''completed'' then [25191, 34892, 23436, 25104]
      else if status = js ''suspended'' then [31561, 24453, 23457, 25209]
      else if status = js ''failed'' then [25191, 34892, 22833, 36133]
      else [25191, 34892, 20013])"

fun operator_text :: "condition_operator \<Rightarrow> jsstr" where
  "operator_text OpExists = js ''exists''"
| "operator_text OpEquals = js ''equals''"
| "operator_text OpNotEquals = js ''not_equals''"
| "operator_text OpGt = js ''gt''"
| "operator_text OpGte = js ''gte''"
| "operator_text OpLt = js ''lt''"
| "operator_text OpLte = js ''lte''"

definition loopStepSummary :: "step \<Rightarrow> jsstr \<Rightarrow> jsstr" where
  [js_eval]: "loopStepSummary s fallback =
     (case st_loop s of
        None \<Rightarrow> fallback
      | Some (Loop i b) \<Rightarrow>
          if lo_mode i = ForeachLoop then
            ([36941, 21382] @ js '' '') @ or_default (or_else (lo_source i) []) ([26410, 35774, 32622, 25968, 25454, 28304])
              @ (js '' '' @ [183] @ js '' '' @ [24182, 21457] @ js '' '') @ nat_digits (case lo_concurrency i of None \<Rightarrow> 1 | Some n \<Rightarrow> if n = 0 then 1 else n)
          else
            (if lo_mode i = WhileLoop then [28385, 36275, 26465, 20214, 26102, 32487, 32493] else [28385, 36275, 26465, 20214, 26102, 20572, 27490])
              @ (js '' '' @ [183] @ js '' '' @ [26368, 22810] @ js '' '') @ nat_digits (lo_max i) @ (js '' '' @ [36718]))"

definition stepSummary :: "step \<Rightarrow> jsstr \<Rightarrow> jsstr" where
  [js_eval]: "stepSummary s fallback =
     (let i = st_info s; said = (\<lambda>t. or_default (or_else t []) fallback)
      in case si_type i of
           AgentStep \<Rightarrow> said (si_prompt i)
         | OperationStep \<Rightarrow> said (si_prompt i)
         | VerifyStep \<Rightarrow> said (si_prompt i)
         | McpToolStep \<Rightarrow> said (si_tool i)
         | ApprovalStep \<Rightarrow> said (si_message i)
         | ConditionStep \<Rightarrow>
             (case st_condition s of
                None \<Rightarrow> fallback
              | Some (Condition r t f) \<Rightarrow>
                  trim (cr_path r @ [32] @ operator_text (cr_operator r) @ [32] @ or_else (cr_value r) []))
         | ParallelStep \<Rightarrow>
             (case st_parallel s of
                None \<Rightarrow> fallback
              | Some bs \<Rightarrow> nat_digits (length bs) @ (js '' '' @ [20010, 20998, 25903, 24182, 34892, 25191, 34892]))
         | LoopStep \<Rightarrow> loopStepSummary s fallback
         | _ \<Rightarrow> fallback)"

subsection \<open>Nested steps\<close>

text \<open>
  \<open>NestedStepsEditor\<close>: what its buttons hand to \<open>onChange\<close>; a disabled button hands on nothing.
  \<open>{ ...step, ...patch }\<close> with a new step as patch keeps the fields the new step does not have.
\<close>

definition over :: "'a option \<Rightarrow> 'a option \<Rightarrow> 'a option" where
  [js_eval]: "over new old = (case new of None \<Rightarrow> old | Some v \<Rightarrow> Some v)"

definition replace_step :: "step \<Rightarrow> step \<Rightarrow> step" where
  [js_eval]: "replace_step new old =
     Step ((st_info old)\<lparr>si_name := si_name (st_info new), si_type := si_type (st_info new),
         si_prompt := over (si_prompt (st_info new)) (si_prompt (st_info old)),
         si_message := over (si_message (st_info new)) (si_message (st_info old)),
         si_tool := over (si_tool (st_info new)) (si_tool (st_info old)),
         si_input := over (si_input (st_info new)) (si_input (st_info old)),
         si_retries := over (si_retries (st_info new)) (si_retries (st_info old))\<rparr>)
       (over (st_condition new) (st_condition old)) (over (st_parallel new) (st_parallel old)) (over (st_loop new) (st_loop old))"

definition at_index :: "nat \<Rightarrow> ('a \<Rightarrow> 'a) \<Rightarrow> 'a list \<Rightarrow> 'a list" where
  [js_eval]: "at_index k f xs = (if k < length xs then xs[k := f (xs ! k)] else xs)"

definition drop_index :: "nat \<Rightarrow> 'a list \<Rightarrow> 'a list" where
  [js_eval]: "drop_index k xs = take k xs @ drop (k + 1) xs"

definition nested_add :: "drawn \<Rightarrow> step list \<Rightarrow> step list" where
  [js_eval]: "nested_add w ss = ss @ [createStep w AgentStep]"

definition nested_retype :: "drawn \<Rightarrow> nat \<Rightarrow> step_type \<Rightarrow> step list \<Rightarrow> step list" where
  [js_eval]: "nested_retype w k ty ss = (if ty \<in> set nested_step_options then at_index k (replace_step (createStep w ty)) ss else ss)"

definition rename_step :: "jsstr \<Rightarrow> step \<Rightarrow> step" where
  [js_eval]: "rename_step n s = Step ((st_info s)\<lparr>si_name := n\<rparr>) (st_condition s) (st_parallel s) (st_loop s)"

definition nested_rename :: "nat \<Rightarrow> jsstr \<Rightarrow> step list \<Rightarrow> step list" where
  [js_eval]: "nested_rename k n ss = at_index k (rename_step n) ss"

definition nested_remove :: "nat \<Rightarrow> step list \<Rightarrow> step list" where
  [js_eval]: "nested_remove k ss = (if length ss = 1 then ss else drop_index k ss)"

datatype nested_edit = NestedAdd drawn | NestedRetype drawn nat step_type | NestedRename nat jsstr | NestedRemove nat

fun edit_nested :: "nested_edit \<Rightarrow> step list \<Rightarrow> step list" where
  "edit_nested (NestedAdd w) ss = nested_add w ss"
| "edit_nested (NestedRetype w k ty) ss = nested_retype w k ty ss"
| "edit_nested (NestedRename k n) ss = nested_rename k n ss"
| "edit_nested (NestedRemove k) ss = nested_remove k ss"

text \<open>\<open>RuleEditor\<close>: one field of a rule at a time.\<close>

datatype rule_edit = RulePath jsstr | RuleOperator condition_operator | RuleValue jsstr

fun edit_rule :: "rule_edit \<Rightarrow> condition_rule \<Rightarrow> condition_rule" where
  "edit_rule (RulePath p) r = r\<lparr>cr_path := p\<rparr>"
| "edit_rule (RuleOperator p) r = r\<lparr>cr_operator := p\<rparr>"
| "edit_rule (RuleValue v) r = r\<lparr>cr_value := Some v\<rparr>"

subsection \<open>The form of a step\<close>

datatype step_edit =
    EditName jsstr | EditPrompt jsstr | EditTool jsstr | EditInput jsval | EditMessage jsstr | EditRetries nat
  | ConditionRule rule_edit | ConditionTrue nested_edit | ConditionFalse nested_edit
  | AddBranch drawn | RenameBranch nat jsstr | RemoveBranch nat | BranchSteps nat nested_edit
  | LoopMode loop_mode | LoopMax nat | LoopSource jsstr | LoopConcurrency nat | LoopRule rule_edit | LoopSteps nested_edit

definition with_info :: "(step_info \<Rightarrow> step_info) \<Rightarrow> step \<Rightarrow> step" where
  [js_eval]: "with_info f s = Step (f (st_info s)) (st_condition s) (st_parallel s) (st_loop s)"

definition with_condition :: "(condition \<Rightarrow> condition) \<Rightarrow> step \<Rightarrow> step" where
  [js_eval]: "with_condition f s = (if st_type s = ConditionStep
     then Step (st_info s) (map_option f (st_condition s)) (st_parallel s) (st_loop s) else s)"

definition with_branches :: "(branch list \<Rightarrow> branch list) \<Rightarrow> step \<Rightarrow> step" where
  [js_eval]: "with_branches f s = (if st_type s = ParallelStep
     then Step (st_info s) (st_condition s) (map_option f (st_parallel s)) (st_loop s) else s)"

definition with_loop :: "(loop \<Rightarrow> loop) \<Rightarrow> step \<Rightarrow> step" where
  [js_eval]: "with_loop f s = (if st_type s = LoopStep
     then Step (st_info s) (st_condition s) (st_parallel s) (map_option f (st_loop s)) else s)"

fun edit_condition :: "(condition_rule \<Rightarrow> condition_rule) \<Rightarrow> (step list \<Rightarrow> step list) \<Rightarrow> (step list \<Rightarrow> step list)
    \<Rightarrow> condition \<Rightarrow> condition" where
  "edit_condition f g h (Condition r t e) = Condition (f r) (g t) (h e)"

fun edit_loop :: "(loop_info \<Rightarrow> loop_info) \<Rightarrow> (step list \<Rightarrow> step list) \<Rightarrow> loop \<Rightarrow> loop" where
  "edit_loop f g (Loop i b) = Loop (f i) (g b)"

fun edit_branch :: "(jsstr \<Rightarrow> jsstr) \<Rightarrow> (step list \<Rightarrow> step list) \<Rightarrow> branch \<Rightarrow> branch" where
  "edit_branch f g (Branch b n ss) = Branch b (f n) (g ss)"

definition new_branch :: "drawn \<Rightarrow> branch" where
  [js_eval]: "new_branch w = Branch (js ''branch_'' @ nat_digits (dw_now w)) ([26032, 20998, 25903]) [createStep w AgentStep]"

text \<open>The patch a field of the form makes of the selected step; the field of a tool is shown for its type only.\<close>

fun edit_step :: "step_edit \<Rightarrow> step \<Rightarrow> step" where
  "edit_step (EditName n) s = with_info (\<lambda>i. i\<lparr>si_name := n\<rparr>) s"
| "edit_step (EditPrompt p) s = (if st_type s \<in> {AgentStep, OperationStep, VerifyStep}
     then with_info (\<lambda>i. i\<lparr>si_prompt := Some p\<rparr>) s else s)"
| "edit_step (EditTool t) s = (if st_type s = McpToolStep then with_info (\<lambda>i. i\<lparr>si_tool := Some t\<rparr>) s else s)"
| "edit_step (EditInput v) s = (if st_type s = McpToolStep then with_info (\<lambda>i. i\<lparr>si_input := Some v\<rparr>) s else s)"
| "edit_step (EditMessage m) s = (if st_type s = ApprovalStep then with_info (\<lambda>i. i\<lparr>si_message := Some m\<rparr>) s else s)"
| "edit_step (EditRetries n) s = (if st_type s \<notin> {ConditionStep, ParallelStep, LoopStep}
     then with_info (\<lambda>i. i\<lparr>si_retries := Some n\<rparr>) s else s)"
| "edit_step (ConditionRule e) s = with_condition (edit_condition (edit_rule e) id id) s"
| "edit_step (ConditionTrue e) s = with_condition (edit_condition id (edit_nested e) id) s"
| "edit_step (ConditionFalse e) s = with_condition (edit_condition id id (edit_nested e)) s"
| "edit_step (AddBranch w) s = with_branches (\<lambda>bs. if 6 \<le> length bs then bs else bs @ [new_branch w]) s"
| "edit_step (RenameBranch k n) s = with_branches (at_index k (edit_branch (\<lambda>_. n) id)) s"
| "edit_step (RemoveBranch k) s = with_branches (\<lambda>bs. if length bs = 2 then bs else drop_index k bs) s"
| "edit_step (BranchSteps k e) s = with_branches (at_index k (edit_branch id (edit_nested e))) s"
| "edit_step (LoopMode m) s = with_loop (edit_loop (\<lambda>i. i\<lparr>lo_mode := m\<rparr>) id) s"
| "edit_step (LoopMax n) s = with_loop (edit_loop (\<lambda>i. i\<lparr>lo_max := n\<rparr>) id) s"
| "edit_step (LoopSource p) s = with_loop (edit_loop (\<lambda>i. if lo_mode i = ForeachLoop then i\<lparr>lo_source := Some p\<rparr> else i) id) s"
| "edit_step (LoopConcurrency n) s =
     with_loop (edit_loop (\<lambda>i. if lo_mode i = ForeachLoop then i\<lparr>lo_concurrency := Some n\<rparr> else i) id) s"
| "edit_step (LoopRule e) s =
     with_loop (edit_loop (\<lambda>i. if lo_mode i = ForeachLoop then i else i\<lparr>lo_rule := edit_rule e (lo_rule i)\<rparr>) id) s"
| "edit_step (LoopSteps e) s = with_loop (edit_loop id (edit_nested e)) s"

subsection \<open>The draft\<close>

record editor =
  ed_draft :: workflow_row
  ed_step :: jsstr
  ed_drag :: jsstr

definition draft_steps :: "editor \<Rightarrow> step list" where
  [js_eval]: "draft_steps st = wd_steps (wf_definition (ed_draft st))"

definition with_steps :: "(step list \<Rightarrow> step list) \<Rightarrow> editor \<Rightarrow> editor" where
  [js_eval]: "with_steps f st = st\<lparr>ed_draft := (ed_draft st)\<lparr>wf_definition :=
     (wf_definition (ed_draft st))\<lparr>wd_steps := f (draft_steps st)\<rparr>\<rparr>\<rparr>"

definition version_two :: "editor \<Rightarrow> editor" where
  [js_eval]: "version_two st = st\<lparr>ed_draft := (ed_draft st)\<lparr>wf_definition := (wf_definition (ed_draft st))\<lparr>wd_version := 2\<rparr>\<rparr>\<rparr>"

text \<open>\<open>findIndex\<close>; \<open>None\<close> is -1.\<close>

fun step_index :: "jsstr \<Rightarrow> step list \<Rightarrow> nat option" where
  "step_index i [] = None"
| "step_index i (s # ss) = (if st_id s = i then Some 0 else map_option Suc (step_index i ss))"

text \<open>The effect that keeps a step selected whenever the steps change.\<close>

definition keep_selection :: "editor \<Rightarrow> editor" where
  [js_eval]: "keep_selection st =
     (if step_index (ed_step st) (draft_steps st) \<noteq> None then st
      else st\<lparr>ed_step := (case draft_steps st of [] \<Rightarrow> [] | s # _ \<Rightarrow> st_id s)\<rparr>)"

definition patchStep :: "(step \<Rightarrow> step) \<Rightarrow> editor \<Rightarrow> editor" where
  [js_eval]: "patchStep f st =
     (case step_index (ed_step st) (draft_steps st) of
        None \<Rightarrow> st
      | Some k \<Rightarrow> version_two (with_steps (at_index k f) st))"

definition changeSelectedStepType :: "drawn \<Rightarrow> step_type \<Rightarrow> editor \<Rightarrow> editor" where
  [js_eval]: "changeSelectedStepType w ty st = patchStep (replace_step (createStep w ty)) st"

text \<open>The last step stays; then a warning is shown.\<close>

definition removeStep :: "jsstr \<Rightarrow> editor \<Rightarrow> editor" where
  [js_eval]: "removeStep i st =
     (if length (draft_steps st) = 1 then st else with_steps (filter (\<lambda>s. st_id s \<noteq> i)) st)"

definition addStep :: "drawn \<Rightarrow> step_type \<Rightarrow> nat \<Rightarrow> editor \<Rightarrow> editor" where
  [js_eval]: "addStep w ty k st =
     (version_two (with_steps (\<lambda>ss. take k ss @ [createStep w ty] @ drop k ss) st))\<lparr>ed_step := st_id (createStep w ty)\<rparr>"

definition palette_prefix :: jsstr where
  [js_eval]: "palette_prefix = js ''palette:''"

definition handleDragStart :: "jsstr \<Rightarrow> editor \<Rightarrow> editor" where
  [js_eval]: "handleDragStart active st = st\<lparr>ed_drag := active\<rparr>"

text \<open>
  The end of a drag: over nothing, nothing happens; a node of the palette becomes a step before the one
  it is dropped on, or the last one; a step of the canvas takes the place of another one.
\<close>

definition handleDragEnd ::
    "(step list \<Rightarrow> nat \<Rightarrow> nat \<Rightarrow> step list) \<Rightarrow> drawn \<Rightarrow> jsstr \<Rightarrow> jsstr option \<Rightarrow> editor \<Rightarrow> editor" where
  [js_eval]: "handleDragEnd arrayMove w active target st =
     (let st = st\<lparr>ed_drag := []\<rparr>; steps = draft_steps st
      in case target of
           None \<Rightarrow> st
         | Some on \<Rightarrow>
             if starts_with active palette_prefix then
               addStep w (step_option (drop 8 active))
                 (case step_index on steps of None \<Rightarrow> length steps | Some k \<Rightarrow> k) st
             else
               (case (step_index active steps, step_index on steps) of
                  (Some i, Some j) \<Rightarrow> if i \<noteq> j then with_steps (\<lambda>ss. arrayMove ss i j) st else st
                | _ \<Rightarrow> st))"

subsection \<open>The form of the loop\<close>

datatype loop_edit =
    EditLoopName jsstr | EditDescription jsstr | EditEnabled bool
  | EditScheduled bool | EditCron jsstr | EditTimezone jsstr
  | AddTrigger nat | TriggerType nat jsstr | TriggerFilter nat jsstr | RemoveTrigger nat
  | AddInput nat | InputLabel nat jsstr | InputType nat input_type | InputRequired nat bool | RemoveInput nat
  | EditTags jsstr
  | RestoreVersion version_record

definition new_trigger :: "nat \<Rightarrow> event_trigger" where
  [js_eval]: "new_trigger now = \<lparr>et_id = js ''event_'' @ nat_digits now, et_type = js ''alert.created'', et_filter = [], et_enabled = True\<rparr>"

definition new_input :: "nat \<Rightarrow> input_field" where
  [js_eval]: "new_input now = \<lparr>if_id = js ''input_'' @ nat_digits now, if_label = [26032, 36755, 20837], if_type = TextInput,
     if_required = False, if_description = Some [], if_default = None\<rparr>"

definition typed_tags :: "jsstr \<Rightarrow> jsstr list" where
  [js_eval]: "typed_tags t = take 20 (filter (\<lambda>w. w \<noteq> []) (map trim (str_split 44 t)))"

fun edit_loop_form :: "loop_edit \<Rightarrow> workflow_row \<Rightarrow> workflow_row" where
  "edit_loop_form (EditLoopName n) d = d\<lparr>wf_name := n\<rparr>"
| "edit_loop_form (EditDescription t) d = d\<lparr>wf_description := t\<rparr>"
| "edit_loop_form (EditEnabled b) d = d\<lparr>wf_enabled := b\<rparr>"
| "edit_loop_form (EditScheduled b) d = d\<lparr>wf_schedule := (wf_schedule d)\<lparr>sd_enabled := b\<rparr>\<rparr>"
| "edit_loop_form (EditCron t) d = (if sd_enabled (wf_schedule d) then d\<lparr>wf_schedule := (wf_schedule d)\<lparr>sd_cron := t\<rparr>\<rparr> else d)"
| "edit_loop_form (EditTimezone t) d = (if sd_enabled (wf_schedule d) then d\<lparr>wf_schedule := (wf_schedule d)\<lparr>sd_timezone := t\<rparr>\<rparr> else d)"
| "edit_loop_form (AddTrigger now) d = d\<lparr>wf_triggers := wf_triggers d @ [new_trigger now]\<rparr>"
| "edit_loop_form (TriggerType k t) d = d\<lparr>wf_triggers := at_index k (\<lambda>e. e\<lparr>et_type := t\<rparr>) (wf_triggers d)\<rparr>"
| "edit_loop_form (TriggerFilter k t) d = d\<lparr>wf_triggers := at_index k (\<lambda>e. e\<lparr>et_filter := t\<rparr>) (wf_triggers d)\<rparr>"
| "edit_loop_form (RemoveTrigger k) d = d\<lparr>wf_triggers := drop_index k (wf_triggers d)\<rparr>"
| "edit_loop_form (AddInput now) d = d\<lparr>wf_inputs := wf_inputs d @ [new_input now]\<rparr>"
| "edit_loop_form (InputLabel k t) d = d\<lparr>wf_inputs := at_index k (\<lambda>i. i\<lparr>if_label := t\<rparr>) (wf_inputs d)\<rparr>"
| "edit_loop_form (InputType k ty) d = d\<lparr>wf_inputs := at_index k (\<lambda>i. i\<lparr>if_type := ty\<rparr>) (wf_inputs d)\<rparr>"
| "edit_loop_form (InputRequired k b) d = d\<lparr>wf_inputs := at_index k (\<lambda>i. i\<lparr>if_required := b\<rparr>) (wf_inputs d)\<rparr>"
| "edit_loop_form (RemoveInput k) d = d\<lparr>wf_inputs := drop_index k (wf_inputs d)\<rparr>"
| "edit_loop_form (EditTags t) d = d\<lparr>wf_tags := typed_tags t\<rparr>"
| "edit_loop_form (RestoreVersion v) d = d\<lparr>wf_name := vr_name v, wf_definition := vr_definition v\<rparr>"

text \<open>The versions the page offers: the last eight, the newest first.\<close>

definition offered_versions :: "workflow_row \<Rightarrow> version_record list" where
  [js_eval]: "offered_versions d = take 8 (rev (wf_versions d))"

subsection \<open>Loading, saving and running\<close>

definition loaded_draft :: "drawn \<Rightarrow> jsstr \<Rightarrow> workflow_row list \<Rightarrow> workflow_row" where
  [js_eval]: "loaded_draft w i records =
     or_else (head_option (filter (\<lambda>r. wf_id r = i) records)) (or_else (head_option records) (blankWorkflow w))"

definition load :: "drawn \<Rightarrow> jsstr \<Rightarrow> workflow_row list \<Rightarrow> editor \<Rightarrow> editor" where
  [js_eval]: "load w i records st = keep_selection (st\<lparr>ed_draft := loaded_draft w i records\<rparr>)"

text \<open>What the schema of the service takes from the record that is sent.\<close>

definition form_of_draft :: "workflow_row \<Rightarrow> workflow_form" where
  [js_eval]: "form_of_draft d =
     \<lparr>wi_name = wf_name d, wi_description = Some (wf_description d), wi_definition = wf_definition d,
      wi_enabled = Some (wf_enabled d), wi_tags = Some (wf_tags d), wi_schedule = Some (wf_schedule d),
      wi_triggers = Some (wf_triggers d), wi_inputs = Some (wf_inputs d)\<rparr>"

definition save_request :: "editor \<Rightarrow> route" where
  [js_eval]: "save_request st =
     (let d = ed_draft st
      in if wf_id d \<noteq> [] then PutWorkflow (wf_id d) (Fit (form_of_draft d)) else PostWorkflow (Fit (form_of_draft d)))"

definition delete_request :: "editor \<Rightarrow> route option" where
  [js_eval]: "delete_request st = (if wf_id (ed_draft st) = [] then None else Some (DeleteWorkflow (wf_id (ed_draft st))))"

text \<open>
  The message a run starts with: the one of the run that is repeated, else the values of the input
  fields, else a fixed question. The link to the chat page throws on a text that is not well formed.
\<close>

definition field_text :: "platform \<Rightarrow> jsval \<Rightarrow> input_field \<Rightarrow> jsstr" where
  [js_eval]: "field_text pf v f =
     (case read_segment (Val v) (if_id f) of
        Val w \<Rightarrow> if w = Undef \<or> w = Null then or_else (if_default f) [] else text_of pf w
      | native \<Rightarrow> reached_text pf native)"

definition default_message :: "platform \<Rightarrow> workflow_row \<Rightarrow> (jsstr \<times> jsval) list \<Rightarrow> jsstr" where
  [js_eval]: "default_message pf d values =
     (if wf_inputs d \<noteq> [] then
        str_join [10] (map (\<lambda>f. if_label f @ js '': '' @ field_text pf (Obj values) f) (wf_inputs d))
      else ([35831, 25191, 34892, 36825, 20010] @ js '' Loop'' @ [65292, 24182, 36820, 22238, 27599,
      20010, 33410, 28857, 30340, 32467, 26524, 21644, 26368, 32456, 32467, 35770, 12290]))"

definition openRunWithInputs :: "platform \<Rightarrow> workflow_row \<Rightarrow> (jsstr \<times> jsval) list option \<Rightarrow> (jsstr \<times> jsval) list \<Rightarrow> jsstr option" where
  [js_eval]: "openRunWithInputs pf d input run_inputs =
     (let values = or_else input run_inputs;
          previous = (case get_prop values (js ''message'') of Str m \<Rightarrow> m | _ \<Rightarrow> []);
          message = or_default previous (default_message pf d values)
      in case (encodeURIComponent (wf_id d), encodeURIComponent message) of
           (Some i, Some m) \<Rightarrow> Some (js ''/ai?workflowId='' @ i @ js ''&input='' @ m)
         | _ \<Rightarrow> None)"

end
