(* ===== verification/Web_Step_Edits.thy ===== *)
theory Web_Step_Edits
  imports Web_Editor
begin

section \<open>Edits of one step in the loop editor\<close>

text \<open>
  The editor and the service share one notion of a workflow, and the editor is meant to produce what the
  service stores. This theory is about one step: a new step passes the schema, an edit of the form of a
  step gives a valid step, and the identifiers and the nesting of a step change only as the edit says.
\<close>

subsection \<open>Definitions as lists of steps\<close>

lemma node_ids_Cons: "node_ids (s # ss) = node_ids [s] @ node_ids ss"
  by (cases s) simp

lemma node_ids_append: "node_ids (ss @ ts) = node_ids ss @ node_ids ts"
proof (induction ss)
  case (Cons s ss)
  then show ?case by (metis append_Cons append_assoc node_ids_Cons)
qed simp

lemma nesting_Cons: "nesting (s # ss) = max (nesting [s]) (nesting ss)"
  by (cases s) simp

lemma nesting_append: "nesting (ss @ ts) = max (nesting ss) (nesting ts)"
proof (induction ss)
  case (Cons s ss)
  then show ?case by (metis append_Cons max.assoc nesting_Cons)
qed simp

lemma branch_node_ids_append: "branch_node_ids (bs @ cs) = branch_node_ids bs @ branch_node_ids cs"
proof (induction bs)
  case (Cons b bs)
  then show ?case by (cases b) simp
qed simp

lemma branch_nesting_append: "branch_nesting (bs @ cs) = max (branch_nesting bs) (branch_nesting cs)"
proof (induction bs)
  case (Cons b bs)
  then show ?case by (cases b) simp
qed simp

lemma valid_steps_append: "valid_steps (ss @ ts) \<longleftrightarrow> valid_steps ss \<and> valid_steps ts"
  by (induction ss) simp_all

lemma valid_branches_append: "valid_branches (bs @ cs) \<longleftrightarrow> valid_branches bs \<and> valid_branches cs"
proof (induction bs)
  case (Cons b bs)
  then show ?case by (cases b) simp
qed simp

lemmas list_facts = node_ids_append nesting_append branch_node_ids_append branch_nesting_append
  valid_steps_append valid_branches_append

lemma valid_definition_iff:
  "valid_definition d \<longleftrightarrow> (wd_version d = 1 \<or> wd_version d = 2) \<and> sized 1 20 (wd_steps d) \<and> valid_steps (wd_steps d)
     \<and> length (node_ids (wd_steps d)) \<le> 100 \<and> nesting (wd_steps d) \<le> 4 \<and> distinct (node_ids (wd_steps d))"
  by (simp add: valid_definition_def inspect_adds)

text \<open>A part of a list, and one element put in the place of another.\<close>

lemma at_index_split:
  "k < length xs \<Longrightarrow> \<exists>us x vs. xs = us @ x # vs \<and> at_index k f xs = us @ f x # vs \<and> drop_index k xs = us @ vs"
  by (rule exI [of _ "take k xs"], rule exI [of _ "xs ! k"], rule exI [of _ "drop (k + 1) xs"])
     (simp add: at_index_def drop_index_def id_take_nth_drop [symmetric] upd_conv_take_nth_drop)

lemma at_index_cases:
  obtains (Same) "at_index k f xs = xs"
    | (Changed) us x vs where "xs = us @ x # vs" "at_index k f xs = us @ f x # vs"
  using at_index_split [of k xs f] by (cases "k < length xs") (auto simp: at_index_def)

lemma drop_index_cases:
  obtains (Same) "drop_index k xs = xs"
    | (Removed) us x vs where "xs = us @ x # vs" "drop_index k xs = us @ vs"
  using at_index_split [of k xs id] by (cases "k < length xs") (auto simp: drop_index_def)

subsection \<open>New steps\<close>

definition clean_draw :: "drawn \<Rightarrow> bool" where
  [js_eval]: "clean_draw w \<longleftrightarrow> length (nat_digits (dw_now w)) \<le> 20
     \<and> list_all (\<lambda>k. length (dw_text w k) \<le> 4 \<and> list_all id_unit (dw_text w k)) [0, 1, 2]"

lemma digits_are_id_units: "list_all id_unit (nat_digits n)"
  using nat_digits_value [of n] by (auto simp: list_all_iff id_unit_def is_digit_def)

lemma type_text_fits: "length (step_type_text ty) \<le> 14" "1 \<le> length (step_type_text ty)"
  "list_all id_unit (step_type_text ty)"
  by (cases ty; simp add: js_def id_unit_def)+

lemma label_fits: "1 \<le> length (step_label ty)" "length (step_label ty) \<le> 100"
  by (cases ty; simp add: js_def)+

lemma drawn_id_valid:
  assumes "clean_draw w" "k \<in> {0, 1, 2}"
  shows "valid_id 80 (drawn_id w k ty)"
proof -
  have "length (dw_text w k) \<le> 4" "list_all id_unit (dw_text w k)" "length (nat_digits (dw_now w)) \<le> 20"
    using assms by (auto simp: clean_draw_def)
  then show ?thesis
    using type_text_fits [of ty] digits_are_id_units [of "dw_now w"]
    by (simp add: valid_id_def drawn_id_def id_unit_def)
qed

lemma new_info_valid:
  assumes "clean_draw w" "k \<in> {0, 1, 2}"
  shows "valid_info (new_info w k ty)"
  using drawn_id_valid [OF assms] label_fits [of ty]
  by (simp add: valid_info_def new_info_def sized_def at_most_def valid_id_def id_unit_def js_def)

lemma new_leaf_valid:
  "clean_draw w \<Longrightarrow> k \<in> {0, 1, 2} \<Longrightarrow> ty \<notin> {ConditionStep, ParallelStep, LoopStep} \<Longrightarrow> valid_step (new_leaf w k ty)"
  using new_info_valid [of w k ty] by (simp add: new_leaf_def) (simp add: new_info_def)

lemma new_loop_valid: "valid_loop new_loop_info" "valid_rule new_rule"
  by (simp_all add: valid_loop_def new_loop_info_def valid_rule_def new_rule_def sized_def at_most_def js_def)

lemma branch_id_valid:
  "length p \<le> 20 \<Longrightarrow> 1 \<le> length p \<Longrightarrow> list_all id_unit p \<Longrightarrow> clean_draw w \<Longrightarrow> valid_id 80 (p @ nat_digits (dw_now w))"
  using digits_are_id_units [of "dw_now w"] by (simp add: valid_id_def clean_draw_def)

lemma created_step_valid:
  assumes "clean_draw w"
  shows "valid_step (createStep w ty)"
proof -
  have ids: "valid_id 80 (js ''branch_services_'' @ nat_digits (dw_now w))"
      "valid_id 80 (js ''branch_alerts_'' @ nat_digits (dw_now w))"
    by (rule branch_id_valid [OF _ _ _ assms]; simp add: js_def id_unit_def)+
  have leaves: "\<And>k. k \<in> {0, 1, 2} \<Longrightarrow> valid_step (new_leaf w k AgentStep)"
      "\<And>k. k \<in> {0, 1, 2} \<Longrightarrow> valid_step (new_leaf w k ServicesStep)"
      "\<And>k. k \<in> {0, 1, 2} \<Longrightarrow> valid_step (new_leaf w k AlertsStep)"
    using assms by (auto intro: new_leaf_valid)
  show ?thesis
    using new_info_valid [OF assms, of 0 ty] ids leaves new_loop_valid
    by (cases ty) (simp_all add: createStep_def new_info_def sized_def)
qed

lemma created_nesting: "nesting [createStep w ty] \<le> 1"
  by (cases ty) (simp_all add: createStep_def new_leaf_def)

lemma created_id: "st_id (createStep w ty) = drawn_id w 0 ty"
  by (simp add: createStep_def st_id_def new_info_def)


subsection \<open>Edits of one step\<close>

definition fits_condition :: "step_type \<Rightarrow> condition option \<Rightarrow> bool" where
  "fits_condition ty c \<longleftrightarrow> (case c of None \<Rightarrow> ty \<noteq> ConditionStep
     | Some (Condition r t f) \<Rightarrow> valid_rule r \<and> sized 1 20 t \<and> sized 1 20 f \<and> valid_steps t \<and> valid_steps f)"

definition fits_branches :: "step_type \<Rightarrow> branch list option \<Rightarrow> bool" where
  "fits_branches ty p \<longleftrightarrow> (case p of None \<Rightarrow> ty \<noteq> ParallelStep | Some bs \<Rightarrow> sized 2 6 bs \<and> valid_branches bs)"

definition fits_loop :: "step_type \<Rightarrow> loop option \<Rightarrow> bool" where
  "fits_loop ty l \<longleftrightarrow> (case l of None \<Rightarrow> ty \<noteq> LoopStep
     | Some (Loop li b) \<Rightarrow> valid_loop li \<and> sized 1 20 b \<and> valid_steps b)"

lemma valid_step_iff:
  "valid_step s \<longleftrightarrow> valid_info (st_info s) \<and> fits_condition (st_type s) (st_condition s)
     \<and> fits_branches (st_type s) (st_parallel s) \<and> fits_loop (st_type s) (st_loop s)
     \<and> (st_type s = McpToolStep \<longrightarrow> si_tool (st_info s) \<noteq> None)"
  by (cases s) (simp add: st_type_def fits_condition_def fits_branches_def fits_loop_def)

lemma fits_over:
  "fits_condition ty c \<Longrightarrow> fits_condition ty' c' \<Longrightarrow> fits_condition ty (over c c')"
  "fits_branches ty p \<Longrightarrow> fits_branches ty' p' \<Longrightarrow> fits_branches ty (over p p')"
  "fits_loop ty l \<Longrightarrow> fits_loop ty' l' \<Longrightarrow> fits_loop ty (over l l')"
  by (auto simp: over_def fits_condition_def fits_branches_def fits_loop_def split: option.splits)

definition own_ids :: "step \<Rightarrow> jsstr list" where
  "own_ids s = node_ids [s]"

lemma own_ids_iff:
  "own_ids s = st_id s # (case st_condition s of None \<Rightarrow> [] | Some (Condition r t f) \<Rightarrow> node_ids t @ node_ids f)
     @ (case st_parallel s of None \<Rightarrow> [] | Some bs \<Rightarrow> branch_node_ids bs)
     @ (case st_loop s of None \<Rightarrow> [] | Some (Loop li b) \<Rightarrow> node_ids b)"
  by (cases s) (simp add: own_ids_def st_id_def)

lemma own_nesting_iff:
  "nesting [s] = max (max (case st_condition s of None \<Rightarrow> 0 | Some (Condition r t f) \<Rightarrow> 1 + max (nesting t) (nesting f))
       (case st_parallel s of None \<Rightarrow> 0 | Some bs \<Rightarrow> branch_nesting bs))
     (case st_loop s of None \<Rightarrow> 0 | Some (Loop li b) \<Rightarrow> 1 + nesting b)"
  by (cases s) simp

lemma over_case:
  "(case a of None \<Rightarrow> True | Some x \<Rightarrow> P x) \<Longrightarrow> (case b of None \<Rightarrow> True | Some x \<Rightarrow> P x)
   \<Longrightarrow> (case over a b of None \<Rightarrow> True | Some x \<Rightarrow> P x)"
  by (cases a) (simp_all add: over_def)

lemma replace_info_valid: "valid_info (st_info new) \<Longrightarrow> valid_info (st_info old) \<Longrightarrow> valid_info (st_info (replace_step new old))"
  by (simp add: valid_info_def replace_step_def at_most_def over_case)

lemma replace_valid:
  assumes "valid_step new" "valid_step old"
  shows "valid_step (replace_step new old)"
proof -
  let ?s = "replace_step new old"
  have "st_type ?s = st_type new" by (simp add: replace_step_def st_type_def)
  moreover have "st_condition ?s = over (st_condition new) (st_condition old)"
      "st_parallel ?s = over (st_parallel new) (st_parallel old)" "st_loop ?s = over (st_loop new) (st_loop old)"
      "si_tool (st_info ?s) = over (si_tool (st_info new)) (si_tool (st_info old))"
    by (simp_all add: replace_step_def)
  moreover have "x \<noteq> None \<Longrightarrow> over x y \<noteq> None" for x y :: "jsstr option" by (auto simp: over_def)
  ultimately show ?thesis
    using assms by (auto simp only: valid_step_iff intro!: fits_over replace_info_valid)
qed

lemma replace_nesting: "nesting [replace_step new old] \<le> max (nesting [new]) (nesting [old])"
  unfolding own_nesting_iff replace_step_def over_def
  by (auto simp: max_def split: option.splits condition.splits loop.splits)

text \<open>The texts and numbers typed into a form are within the bounds of the schema.\<close>

fun fine_rule :: "rule_edit \<Rightarrow> bool" where
  "fine_rule (RulePath p) = sized 1 300 p"
| "fine_rule (RuleOperator p) = True"
| "fine_rule (RuleValue v) = (length v \<le> 2000)"

fun fine_nested :: "nested_edit \<Rightarrow> bool" where
  "fine_nested (NestedAdd w) = clean_draw w"
| "fine_nested (NestedRetype w k ty) = clean_draw w"
| "fine_nested (NestedRename k n) = sized 1 100 n"
| "fine_nested (NestedRemove k) = True"

fun fine_edit :: "step_edit \<Rightarrow> bool" where
  "fine_edit (EditName n) = sized 1 100 n"
| "fine_edit (EditPrompt p) = (length p \<le> 10000)"
| "fine_edit (EditTool t) = valid_id 200 t"
| "fine_edit (EditInput v) = True"
| "fine_edit (EditMessage m) = (length m \<le> 2000)"
| "fine_edit (EditRetries n) = (n \<le> 10)"
| "fine_edit (ConditionRule e) = fine_rule e"
| "fine_edit (ConditionTrue e) = fine_nested e"
| "fine_edit (ConditionFalse e) = fine_nested e"
| "fine_edit (AddBranch w) = clean_draw w"
| "fine_edit (RenameBranch k n) = sized 1 100 n"
| "fine_edit (RemoveBranch k) = True"
| "fine_edit (BranchSteps k e) = fine_nested e"
| "fine_edit (LoopMode m) = True"
| "fine_edit (LoopMax n) = (1 \<le> n \<and> n \<le> 50)"
| "fine_edit (LoopSource p) = sized 1 300 p"
| "fine_edit (LoopConcurrency n) = (1 \<le> n \<and> n \<le> 10)"
| "fine_edit (LoopRule e) = fine_rule e"
| "fine_edit (LoopSteps e) = fine_nested e"

lemma edit_rule_valid: "valid_rule r \<Longrightarrow> fine_rule e \<Longrightarrow> valid_rule (edit_rule e r)"
  by (cases e) (simp_all add: valid_rule_def at_most_def)

lemma rename_valid: "valid_step s \<Longrightarrow> sized 1 100 n \<Longrightarrow> valid_step (rename_step n s)"
  by (simp add: valid_step_iff rename_step_def st_type_def valid_info_def split: option.splits)

lemma nested_valid:
  assumes "valid_steps ss" "fine_nested e"
  shows "valid_steps (edit_nested e ss)"
proof (cases e)
  case (NestedAdd w)
  with assms show ?thesis by (simp add: nested_add_def list_facts created_step_valid)
next
  case (NestedRetype w k ty)
  then have "valid_step (createStep w ty)" using assms by (simp add: created_step_valid)
  with NestedRetype assms show ?thesis
    by (cases rule: at_index_cases [of k "replace_step (createStep w ty)" ss])
       (auto simp: nested_retype_def list_facts replace_valid)
next
  case (NestedRename k n)
  with assms show ?thesis
    by (cases rule: at_index_cases [of k "rename_step n" ss]) (auto simp: nested_rename_def list_facts rename_valid)
next
  case (NestedRemove k)
  with assms show ?thesis
    by (cases rule: drop_index_cases [of k ss]) (auto simp: nested_remove_def list_facts)
qed

lemma length_at_index [simp]: "length (at_index k f xs) = length xs"
  by (simp add: at_index_def)

lemma length_drop_index: "length xs - 1 \<le> length (drop_index k xs) \<and> length (drop_index k xs) \<le> length xs"
  by (auto simp: drop_index_def)

lemma nested_sized:
  "sized 1 20 ss \<Longrightarrow> length (edit_nested e ss) \<le> 20 \<Longrightarrow> sized 1 20 (edit_nested e ss)"
  using length_drop_index [of ss]
  by (cases e) (auto simp: sized_def nested_add_def nested_retype_def nested_rename_def nested_remove_def
      intro: le_trans [of _ "length ss - Suc 0"])


text \<open>
  Two more conditions on an edit: nested lists stay within twenty steps, and a loop becomes one over a
  list only if it names the list.
\<close>

fun short_branch :: "branch \<Rightarrow> bool" where
  "short_branch (Branch b n ss) = (length ss \<le> 20)"

definition short_lists :: "step \<Rightarrow> bool" where
  [js_eval]: "short_lists s \<longleftrightarrow>
     (case st_condition s of None \<Rightarrow> True | Some (Condition r t f) \<Rightarrow> length t \<le> 20 \<and> length f \<le> 20)
     \<and> (case st_parallel s of None \<Rightarrow> True | Some bs \<Rightarrow> list_all short_branch bs)
     \<and> (case st_loop s of None \<Rightarrow> True | Some (Loop li b) \<Rightarrow> length b \<le> 20)"

definition mode_has_source :: "step_edit \<Rightarrow> step \<Rightarrow> bool" where
  [js_eval]: "mode_has_source e s \<longleftrightarrow> (case st_loop s of
       Some (Loop li b) \<Rightarrow> e = LoopMode ForeachLoop \<longrightarrow> lo_source li \<noteq> None | None \<Rightarrow> True)"

definition accepted_edit :: "step_edit \<Rightarrow> step \<Rightarrow> bool" where
  [js_eval]: "accepted_edit e s \<longleftrightarrow> fine_edit e \<and> mode_has_source e s \<and> short_lists (edit_step e s)"

lemma with_info_valid:
  "valid_step s \<Longrightarrow> valid_info (f (st_info s)) \<Longrightarrow> si_type (f (st_info s)) = si_type (st_info s)
   \<Longrightarrow> (si_tool (st_info s) \<noteq> None \<Longrightarrow> si_tool (f (st_info s)) \<noteq> None) \<Longrightarrow> valid_step (with_info f s)"
  by (auto simp: valid_step_iff with_info_def st_type_def)

lemma with_condition_valid:
  "valid_step s
   \<Longrightarrow> (\<And>c. st_type s = ConditionStep \<Longrightarrow> st_condition s = Some c \<Longrightarrow> fits_condition ConditionStep (Some c)
          \<Longrightarrow> fits_condition ConditionStep (Some (f c)))
   \<Longrightarrow> valid_step (with_condition f s)"
  by (cases "st_condition s") (auto simp: valid_step_iff with_condition_def st_type_def)

lemma with_branches_valid:
  "valid_step s
   \<Longrightarrow> (\<And>bs. st_type s = ParallelStep \<Longrightarrow> st_parallel s = Some bs \<Longrightarrow> sized 2 6 bs \<Longrightarrow> valid_branches bs
          \<Longrightarrow> sized 2 6 (f bs) \<and> valid_branches (f bs))
   \<Longrightarrow> valid_step (with_branches f s)"
  by (cases "st_parallel s") (auto simp: valid_step_iff with_branches_def st_type_def fits_branches_def)

lemma with_loop_valid:
  "valid_step s
   \<Longrightarrow> (\<And>l. st_type s = LoopStep \<Longrightarrow> st_loop s = Some l \<Longrightarrow> fits_loop LoopStep (Some l)
          \<Longrightarrow> fits_loop LoopStep (Some (f l)))
   \<Longrightarrow> valid_step (with_loop f s)"
  by (cases "st_loop s") (auto simp: valid_step_iff with_loop_def st_type_def)

lemma info_edit_valid:
  assumes "valid_step s"
  shows "sized 1 100 n \<Longrightarrow> valid_step (edit_step (EditName n) s)"
    "length t \<le> 10000 \<Longrightarrow> valid_step (edit_step (EditPrompt t) s)"
    "valid_id 200 t \<Longrightarrow> valid_step (edit_step (EditTool t) s)"
    "valid_step (edit_step (EditInput v) s)"
    "length t \<le> 2000 \<Longrightarrow> valid_step (edit_step (EditMessage t) s)"
    "k \<le> 10 \<Longrightarrow> valid_step (edit_step (EditRetries k) s)"
proof -
  have "valid_info (st_info s)" using assms by (simp add: valid_step_iff)
  then show "sized 1 100 n \<Longrightarrow> valid_step (edit_step (EditName n) s)"
    "length t \<le> 10000 \<Longrightarrow> valid_step (edit_step (EditPrompt t) s)"
    "valid_id 200 t \<Longrightarrow> valid_step (edit_step (EditTool t) s)"
    "valid_step (edit_step (EditInput v) s)"
    "length t \<le> 2000 \<Longrightarrow> valid_step (edit_step (EditMessage t) s)"
    "k \<le> 10 \<Longrightarrow> valid_step (edit_step (EditRetries k) s)"
    using assms by (simp_all add: with_info_valid valid_info_def at_most_def)
qed

text \<open>What an editor of nested steps promises its form.\<close>

definition keeps_steps :: "(step list \<Rightarrow> step list) \<Rightarrow> bool" where
  "keeps_steps g \<longleftrightarrow> (\<forall>ss. valid_steps ss \<and> sized 1 20 ss \<longrightarrow>
     valid_steps (g ss) \<and> (length (g ss) \<le> 20 \<longrightarrow> sized 1 20 (g ss)))"

lemma keeps_nested: "fine_nested e \<Longrightarrow> keeps_steps (edit_nested e)"
  unfolding keeps_steps_def using nested_valid nested_sized by blast

lemma keeps_id: "keeps_steps id"
  by (simp add: keeps_steps_def)

lemma keeps_stepsD:
  "keeps_steps g \<Longrightarrow> valid_steps ss \<Longrightarrow> sized 1 20 ss \<Longrightarrow> length (g ss) \<le> 20 \<Longrightarrow> valid_steps (g ss) \<and> sized 1 20 (g ss)"
  by (simp add: keeps_steps_def)

lemma condition_edit_valid:
  assumes "valid_step s" "short_lists (with_condition (edit_condition f g h) s)"
    "\<And>r. valid_rule r \<Longrightarrow> valid_rule (f r)" "keeps_steps g" "keeps_steps h"
  shows "valid_step (with_condition (edit_condition f g h) s)"
proof (rule with_condition_valid [OF assms(1)])
  fix c assume c: "st_type s = ConditionStep" "st_condition s = Some c" "fits_condition ConditionStep (Some c)"
  obtain r t e where c': "c = Condition r t e" by (cases c)
  have short: "length (g t) \<le> 20" "length (h e) \<le> 20"
    using assms(2) c(1,2) unfolding short_lists_def with_condition_def c' by simp_all
  have "valid_rule r" "valid_steps t" "sized 1 20 t" "valid_steps e" "sized 1 20 e"
    using c(3) by (simp_all add: fits_condition_def c')
  then show "fits_condition ConditionStep (Some (edit_condition f g h c))"
    using assms(3) keeps_stepsD [OF assms(4) _ _ short(1)] keeps_stepsD [OF assms(5) _ _ short(2)]
    by (simp add: fits_condition_def c')
qed

lemma loop_edit_valid:
  assumes "valid_step s" "short_lists (with_loop (edit_loop f g) s)"
    "\<And>i b. st_loop s = Some (Loop i b) \<Longrightarrow> valid_loop i \<Longrightarrow> valid_loop (f i)" "keeps_steps g"
  shows "valid_step (with_loop (edit_loop f g) s)"
proof (rule with_loop_valid [OF assms(1)])
  fix l assume l: "st_type s = LoopStep" "st_loop s = Some l" "fits_loop LoopStep (Some l)"
  obtain i b where l': "l = Loop i b" by (cases l)
  have short: "length (g b) \<le> 20"
    using assms(2) l(1,2) unfolding short_lists_def with_loop_def l' by simp
  have "valid_loop i" "valid_steps b" "sized 1 20 b" using l(3) by (simp_all add: fits_loop_def l')
  then show "fits_loop LoopStep (Some (edit_loop f g l))"
    using assms(3) l(2) keeps_stepsD [OF assms(4) _ _ short] by (simp add: fits_loop_def l')
qed

lemma parallel_edit_valid:
  assumes "valid_step s" "short_lists (with_branches f s)"
    "\<And>bs. valid_branches bs \<Longrightarrow> sized 2 6 bs \<Longrightarrow> list_all short_branch (f bs) \<Longrightarrow> sized 2 6 (f bs) \<and> valid_branches (f bs)"
  shows "valid_step (with_branches f s)"
proof (rule with_branches_valid [OF assms(1)])
  fix bs assume bs: "st_type s = ParallelStep" "st_parallel s = Some bs" "sized 2 6 bs" "valid_branches bs"
  have "list_all short_branch (f bs)"
    using assms(2) bs(1,2) unfolding short_lists_def with_branches_def by simp
  with bs assms(3) show "sized 2 6 (f bs) \<and> valid_branches (f bs)" by blast
qed

lemma valid_branches_Cons: "valid_branches (b # bs) \<longleftrightarrow> valid_branches [b] \<and> valid_branches bs"
  using valid_branches_append [of "[b]" bs] by simp

lemma at_index_branches:
  assumes "valid_branches bs" "list_all short_branch (at_index k f bs)"
    "\<And>b. valid_branches [b] \<Longrightarrow> short_branch (f b) \<Longrightarrow> valid_branches [f b]"
  shows "valid_branches (at_index k f bs)"
proof (cases rule: at_index_cases [of k f bs])
  case Same
  with assms show ?thesis by simp
next
  case (Changed us x vs)
  then have "valid_branches us" "valid_branches [x]" "valid_branches vs" "short_branch (f x)"
    using assms(1,2) by (simp_all only: valid_branches_append valid_branches_Cons [of _ vs] list_all_append list.pred_inject(2))
  with Changed(2) assms(3) show ?thesis
    by (simp only: valid_branches_append valid_branches_Cons [of _ vs])
qed

lemma drop_index_branches:
  assumes "valid_branches bs" "sized 2 6 bs" "length bs \<noteq> 2"
  shows "sized 2 6 (drop_index k bs) \<and> valid_branches (drop_index k bs)"
proof (cases rule: drop_index_cases [of k bs])
  case Same
  with assms show ?thesis by simp
next
  case (Removed us x vs)
  then have "valid_branches us" "valid_branches vs"
    using assms(1) by (simp_all only: valid_branches_append valid_branches_Cons [of _ vs])
  with Removed assms(2,3) show ?thesis by (simp add: valid_branches_append sized_def)
qed

lemma new_branch_valid: "clean_draw w \<Longrightarrow> valid_branches [new_branch w]"
  using branch_id_valid [of "js ''branch_''" w] created_step_valid [of w AgentStep]
  by (simp add: new_branch_def sized_def js_def id_unit_def)

lemma renamed_branch_valid: "valid_branches [b] \<Longrightarrow> sized 1 100 n \<Longrightarrow> valid_branches [edit_branch (\<lambda>_. n) id b]"
  by (cases b) simp

lemma branch_steps_valid:
  "valid_branches [b] \<Longrightarrow> keeps_steps g \<Longrightarrow> short_branch (edit_branch id g b) \<Longrightarrow> valid_branches [edit_branch id g b]"
  using keeps_stepsD [of g] by (cases b) simp

lemma edit_valid:
  assumes s: "valid_step s" and e: "accepted_edit e s"
  shows "valid_step (edit_step e s)"
proof -
  have fine: "fine_edit e" and short: "short_lists (edit_step e s)" and mode: "mode_has_source e s"
    using e by (simp_all add: accepted_edit_def)
  note cond = condition_edit_valid [OF s] and loop = loop_edit_valid [OF s] and par = parallel_edit_valid [OF s]
  show ?thesis
  proof (cases e)
    case (ConditionRule x1)
    with fine short show ?thesis by (auto intro!: cond keeps_id edit_rule_valid)
  next
    case (ConditionTrue x)
    with fine short show ?thesis by (auto intro!: cond keeps_id keeps_nested)
  next
    case (ConditionFalse x)
    with fine short show ?thesis by (auto intro!: cond keeps_id keeps_nested)
  next
    case (AddBranch w)
    have "sized 2 6 (bs @ [new_branch w]) \<and> valid_branches (bs @ [new_branch w])"
      if "valid_branches bs" "sized 2 6 bs" "\<not> 6 \<le> length bs" for bs
      using that new_branch_valid [of w] fine AddBranch unfolding valid_branches_append
      by (simp add: sized_def del: valid_branches.simps)
    with AddBranch short show ?thesis by (auto intro!: par)
  next
    case (RenameBranch k n)
    have "valid_branches bs \<Longrightarrow> list_all short_branch (at_index k (edit_branch (\<lambda>_. n) id) bs)
        \<Longrightarrow> valid_branches (at_index k (edit_branch (\<lambda>_. n) id) bs)" for bs
      by (rule at_index_branches) (use renamed_branch_valid fine RenameBranch in auto)
    with RenameBranch short show ?thesis by (auto intro!: par simp: sized_def)
  next
    case (RemoveBranch k)
    with short show ?thesis using drop_index_branches by (auto intro!: par)
  next
    case (BranchSteps k x)
    have "valid_branches bs \<Longrightarrow> list_all short_branch (at_index k (edit_branch id (edit_nested x)) bs)
        \<Longrightarrow> valid_branches (at_index k (edit_branch id (edit_nested x)) bs)" for bs
      by (rule at_index_branches) (use branch_steps_valid keeps_nested fine BranchSteps in auto)
    with BranchSteps short show ?thesis by (auto intro!: par simp: sized_def)
  next
    case (LoopMode m)
    have "valid_loop (i\<lparr>lo_mode := m\<rparr>)" if "st_loop s = Some (Loop i b)" "valid_loop i" for i b
      using that mode LoopMode by (cases "lo_source i") (auto simp: mode_has_source_def valid_loop_def)
    with LoopMode short show ?thesis by (auto intro!: loop keeps_id)
  next
    case (LoopMax n)
    with fine short show ?thesis by (auto intro!: loop keeps_id simp: valid_loop_def split: option.splits)
  next
    case (LoopSource p)
    with fine short show ?thesis by (auto intro!: loop keeps_id simp: valid_loop_def split: option.splits)
  next
    case (LoopConcurrency n)
    with fine short show ?thesis by (auto intro!: loop keeps_id simp: valid_loop_def split: option.splits)
  next
    case (LoopRule x)
    with fine short show ?thesis by (auto intro!: loop keeps_id simp: valid_loop_def edit_rule_valid split: option.splits)
  next
    case (LoopSteps x)
    with fine short show ?thesis by (auto intro!: loop keeps_nested)
  qed (use info_edit_valid [OF s] fine in auto)
qed


subsection \<open>Identifiers and nesting\<close>

fun nested_grows :: "nested_edit \<Rightarrow> bool" where
  "nested_grows (NestedAdd w) = True"
| "nested_grows _ = False"

text \<open>Edits that add a step; the others leave the identifiers or drop some.\<close>

fun grows :: "step_edit \<Rightarrow> bool" where
  "grows (ConditionTrue e) = nested_grows e"
| "grows (ConditionFalse e) = nested_grows e"
| "grows (AddBranch w) = True"
| "grows (BranchSteps k e) = nested_grows e"
| "grows (LoopSteps e) = nested_grows e"
| "grows _ = False"

lemma mset_middle: "mset (us @ x # vs) = mset us + {#x#} + mset vs"
  by simp

lemma own_ids_rename: "own_ids (rename_step n s) = own_ids s"
  by (simp add: own_ids_iff rename_step_def st_id_def)

lemma own_ids_retype:
  "ty \<in> set nested_step_options \<Longrightarrow> own_ids (replace_step (createStep w ty) s) = own_ids s"
  by (auto simp: own_ids_iff replace_step_def createStep_def over_def st_id_def nested_step_options_def split: option.splits)

lemma node_ids_middle: "node_ids (us @ s # vs) = node_ids us @ own_ids s @ node_ids vs"
  by (simp add: list_facts node_ids_Cons [of s vs] own_ids_def)

lemma nesting_middle: "nesting (us @ s # vs) = max (nesting us) (max (nesting [s]) (nesting vs))"
  by (simp add: list_facts nesting_Cons [of s vs])

lemma at_index_ids: "(\<And>s. own_ids (f s) = own_ids s) \<Longrightarrow> node_ids (at_index k f ss) = node_ids ss"
  by (cases rule: at_index_cases [of k f ss]) (simp_all add: node_ids_middle)

lemma drop_index_ids: "mset (node_ids (drop_index k ss)) \<subseteq># mset (node_ids ss)"
proof (cases rule: drop_index_cases [of k ss])
  case (Removed us x vs)
  then show ?thesis by (simp add: node_ids_append node_ids_Cons [of x vs])
qed simp

lemma drop_index_nesting: "nesting (drop_index k ss) \<le> nesting ss"
proof (cases rule: drop_index_cases [of k ss])
  case (Removed us x vs)
  then show ?thesis by (simp add: nesting_append nesting_Cons [of x vs])
qed simp

lemma nested_ids: "\<not> nested_grows e \<Longrightarrow> mset (node_ids (edit_nested e ss)) \<subseteq># mset (node_ids ss)"
proof (cases e)
  case (NestedRetype w k ty)
  then show ?thesis
    using at_index_ids [of "replace_step (createStep w ty)" k ss] own_ids_retype [of ty w]
    by (simp add: nested_retype_def)
next
  case (NestedRename k n)
  then show ?thesis by (simp add: nested_rename_def at_index_ids own_ids_rename)
next
  case (NestedRemove k)
  then show ?thesis by (simp add: nested_remove_def drop_index_ids)
qed simp

lemma replace_leaf_nesting:
  "ty \<in> set nested_step_options \<Longrightarrow> nesting [replace_step (createStep w ty) s] \<le> nesting [s]"
  using replace_nesting [of "createStep w ty" s]
  by (auto simp: nested_step_options_def createStep_leaf new_leaf_def)

lemma at_index_nesting: "(\<And>s. nesting [f s] \<le> nesting [s]) \<Longrightarrow> nesting (at_index k f ss) \<le> nesting ss"
  by (cases rule: at_index_cases [of k f ss]) (simp_all only: nesting_middle max.mono order_refl)

lemma nested_nesting: "nesting (edit_nested e ss) \<le> nesting ss"
proof (cases e)
  case (NestedAdd w)
  then show ?thesis by (simp add: nested_add_def list_facts createStep_leaf new_leaf_def)
next
  case (NestedRetype w k ty)
  then show ?thesis using at_index_nesting replace_leaf_nesting by (simp add: nested_retype_def)
next
  case (NestedRename k n)
  have "nesting [rename_step n s] \<le> nesting [s]" for s by (simp add: own_nesting_iff rename_step_def)
  with NestedRename show ?thesis by (simp add: nested_rename_def at_index_nesting)
next
  case (NestedRemove k)
  then show ?thesis by (simp add: nested_remove_def drop_index_nesting)
qed


text \<open>Branches are lists of steps with a name, so edits of branches keep what edits of their steps keep.\<close>

definition branch_ids :: "branch \<Rightarrow> jsstr list" where
  "branch_ids b = branch_node_ids [b]"

lemma branch_ids_middle:
  "branch_node_ids (us @ b # vs) = branch_node_ids us @ branch_ids b @ branch_node_ids vs"
  using branch_node_ids_append [of "[b]" vs] by (simp add: branch_node_ids_append branch_ids_def)

lemma branch_nesting_middle:
  "branch_nesting (us @ b # vs) = max (branch_nesting us) (max (branch_nesting [b]) (branch_nesting vs))"
  using branch_nesting_append [of "[b]" vs] by (simp add: branch_nesting_append)

lemma at_index_branch_ids:
  assumes "\<And>b. mset (branch_ids (f b)) \<subseteq># mset (branch_ids b)"
  shows "mset (branch_node_ids (at_index k f bs)) \<subseteq># mset (branch_node_ids bs)"
proof (cases rule: at_index_cases [of k f bs])
  case (Changed us b vs)
  then show ?thesis
    using assms [of b] by (simp only: branch_ids_middle mset_append) (simp add: subset_mset.add_mono)
qed simp

lemma drop_index_branch_ids: "mset (branch_node_ids (drop_index k bs)) \<subseteq># mset (branch_node_ids bs)"
proof (cases rule: drop_index_cases [of k bs])
  case (Removed us x vs)
  then show ?thesis using branch_node_ids_append [of "[x]" vs] by (simp add: branch_node_ids_append)
qed simp

lemma at_index_branch_nesting:
  assumes "\<And>b. branch_nesting [f b] \<le> branch_nesting [b]"
  shows "branch_nesting (at_index k f bs) \<le> branch_nesting bs"
proof (cases rule: at_index_cases [of k f bs])
  case (Changed us b vs)
  then show ?thesis using assms by (simp only: branch_nesting_middle max.mono order_refl)
qed simp

lemma drop_index_branch_nesting: "branch_nesting (drop_index k bs) \<le> branch_nesting bs"
proof (cases rule: drop_index_cases [of k bs])
  case (Removed us x vs)
  then show ?thesis using branch_nesting_append [of "[x]" vs] by (simp add: branch_nesting_append)
qed simp

lemma own_ids_with:
  "st_id (with_info f s) = st_id s \<Longrightarrow> own_ids (with_info f s) = own_ids s"
  "(\<And>r t e. mset (node_ids (g t)) \<subseteq># mset (node_ids t)) \<Longrightarrow> (\<And>e. mset (node_ids (h e)) \<subseteq># mset (node_ids e))
   \<Longrightarrow> mset (own_ids (with_condition (edit_condition c g h) s)) \<subseteq># mset (own_ids s)"
  "(\<And>bs. mset (branch_node_ids (p bs)) \<subseteq># mset (branch_node_ids bs))
   \<Longrightarrow> mset (own_ids (with_branches p s)) \<subseteq># mset (own_ids s)"
  "(\<And>b. mset (node_ids (g b)) \<subseteq># mset (node_ids b)) \<Longrightarrow> mset (own_ids (with_loop (edit_loop l g) s)) \<subseteq># mset (own_ids s)"
  by (auto simp: own_ids_iff with_info_def with_condition_def with_branches_def with_loop_def st_id_def
      split: option.splits condition.splits loop.splits intro!: subset_mset.add_mono)

lemma own_ids_info: "(\<And>i. si_id (f i) = si_id i) \<Longrightarrow> own_ids (with_info f s) = own_ids s"
  by (rule own_ids_with(1)) (simp add: st_id_def with_info_def)

lemma max_between: "q \<le> max 1 p \<Longrightarrow> max (max c q) l \<le> max 1 (max (max c p) l)" for q p c l :: nat
  by (auto simp: max_def split: if_splits)

lemma own_nesting_with:
  "nesting [with_info f s] = nesting [s]"
  "(\<And>t. nesting (g t) \<le> nesting t) \<Longrightarrow> (\<And>e. nesting (h e) \<le> nesting e)
   \<Longrightarrow> nesting [with_condition (edit_condition c g h) s] \<le> nesting [s]"
  "(\<And>bs. branch_nesting (p bs) \<le> max 1 (branch_nesting bs)) \<Longrightarrow> nesting [with_branches p s] \<le> max 1 (nesting [s])"
  "(\<And>b. nesting (g b) \<le> nesting b) \<Longrightarrow> nesting [with_loop (edit_loop l g) s] \<le> nesting [s]"
proof -
  show "nesting [with_info f s] = nesting [s]" by (simp add: own_nesting_iff with_info_def)
  show "nesting [with_condition (edit_condition c g h) s] \<le> nesting [s]"
    if "\<And>t. nesting (g t) \<le> nesting t" "\<And>e. nesting (h e) \<le> nesting e"
  proof -
    show ?thesis
    proof (cases "st_condition s")
      case (Some c)
      then obtain r t e where c: "st_condition s = Some (Condition r t e)" by (cases c) simp
      have "nesting (g t) \<le> nesting t" "nesting (h e) \<le> nesting e" by (rule that)+
      with c show ?thesis by (auto simp: own_nesting_iff with_condition_def max_def)
    qed (simp add: own_nesting_iff with_condition_def)
  qed
  show "nesting [with_branches p s] \<le> max 1 (nesting [s])"
    if "\<And>bs. branch_nesting (p bs) \<le> max 1 (branch_nesting bs)"
  proof (cases "st_type s = ParallelStep")
    case True
    then have w: "with_branches p s = Step (st_info s) (st_condition s) (map_option p (st_parallel s)) (st_loop s)"
      by (simp add: with_branches_def)
    show ?thesis
      by (cases "st_parallel s")
         (simp_all only: w own_nesting_iff step.sel option.map option.case max_between that max.cobounded2)
  qed (simp add: with_branches_def)
  show "(\<And>b. nesting (g b) \<le> nesting b) \<Longrightarrow> nesting [with_loop (edit_loop l g) s] \<le> nesting [s]"
    by (cases "st_loop s") (auto simp: own_nesting_iff with_loop_def split: loop.splits intro: max.coboundedI2)
qed


lemma edit_id: "st_id (edit_step e s) = st_id s"
  by (cases e) (simp_all add: st_id_def with_info_def with_condition_def with_branches_def with_loop_def)

lemma branch_edit_ids:
  "branch_ids (edit_branch (\<lambda>_. n) id b) = branch_ids b"
  "(\<And>ss. mset (node_ids (g ss)) \<subseteq># mset (node_ids ss)) \<Longrightarrow> mset (branch_ids (edit_branch id g b)) \<subseteq># mset (branch_ids b)"
  by (cases b; simp add: branch_ids_def)+

lemma branch_edit_nesting:
  "branch_nesting [edit_branch (\<lambda>_. n) id b] \<le> branch_nesting [b]"
  "(\<And>ss. nesting (g ss) \<le> nesting ss) \<Longrightarrow> branch_nesting [edit_branch id g b] \<le> branch_nesting [b]"
  by (cases b; simp)+

lemma edit_ids: "\<not> grows e \<Longrightarrow> mset (own_ids (edit_step e s)) \<subseteq># mset (own_ids s)"
proof (cases e)
  case (RenameBranch k n)
  then show ?thesis
    by (auto intro!: own_ids_with(3) at_index_branch_ids simp: branch_edit_ids(1))
next
  case (BranchSteps k x)
  moreover assume "\<not> grows e"
  ultimately show ?thesis
    by (auto intro!: own_ids_with(3) at_index_branch_ids branch_edit_ids(2) nested_ids)
next
  case (RemoveBranch k)
  then show ?thesis by (auto intro!: own_ids_with(3) simp: drop_index_branch_ids)
qed (auto intro!: own_ids_with(2,4) nested_ids simp: own_ids_info)

lemma edit_nesting: "nesting [edit_step e s] \<le> max 1 (nesting [s])"
proof (cases e)
  case (AddBranch w)
  have "branch_nesting (if 6 \<le> length bs then bs else bs @ [new_branch w]) \<le> max 1 (branch_nesting bs)" for bs
    by (simp add: branch_nesting_append new_branch_def createStep_leaf new_leaf_def)
  with AddBranch own_nesting_with(3) show ?thesis by simp
next
  case (RenameBranch k n)
  have "branch_nesting (at_index k (edit_branch (\<lambda>_. n) id) bs) \<le> branch_nesting bs" for bs
    by (rule at_index_branch_nesting) (rule branch_edit_nesting(1))
  then show ?thesis
    unfolding RenameBranch edit_step.simps by (intro own_nesting_with(3)) (simp add: le_max_iff_disj)
next
  case (RemoveBranch k)
  show ?thesis
    unfolding RemoveBranch edit_step.simps
    by (intro own_nesting_with(3)) (simp add: le_max_iff_disj drop_index_branch_nesting)
next
  case (BranchSteps k x)
  have "branch_nesting (at_index k (edit_branch id (edit_nested x)) bs) \<le> branch_nesting bs" for bs
    by (rule at_index_branch_nesting) (rule branch_edit_nesting(2), rule nested_nesting)
  then show ?thesis
    unfolding BranchSteps edit_step.simps by (intro own_nesting_with(3)) (simp add: le_max_iff_disj)
next
  case (ConditionTrue x)
  then show ?thesis by (simp add: le_max_iff_disj own_nesting_with(2) nested_nesting)
next
  case (ConditionFalse x)
  then show ?thesis by (simp add: le_max_iff_disj own_nesting_with(2) nested_nesting)
next
  case (ConditionRule x)
  then show ?thesis by (simp add: le_max_iff_disj own_nesting_with(2))
qed (simp_all add: le_max_iff_disj own_nesting_with(1,4) nested_nesting)

end
