(* ===== verification/Web_Editor_Laws.thy ===== *)
theory Web_Editor_Laws
  imports Web_Step_Edits
begin

section \<open>What the loop editor keeps\<close>

text \<open>
  Every edit of a draft the schema of the service accepts gives one it accepts again, where the texts
  typed are within its bounds and the draft has room for new steps; a new loop is accepted as it is;
  and a draft that is saved is what the service then stores.
\<close>

subsection \<open>Edits of the draft\<close>

definition storable :: "editor \<Rightarrow> bool" where
  [js_eval]: "storable st \<longleftrightarrow> valid_definition (wf_definition (ed_draft st))"

definition good_steps :: "step list \<Rightarrow> bool" where
  "good_steps ss \<longleftrightarrow> sized 1 20 ss \<and> valid_steps ss \<and> length (node_ids ss) \<le> 100 \<and> nesting ss \<le> 4 \<and> distinct (node_ids ss)"

lemma storable_iff:
  "storable st \<longleftrightarrow> (wd_version (wf_definition (ed_draft st)) = 1 \<or> wd_version (wf_definition (ed_draft st)) = 2)
     \<and> good_steps (draft_steps st)"
  by (auto simp: storable_def valid_definition_iff good_steps_def draft_steps_def)

text \<open>There is room for the identifiers of a list of steps, and they are new.\<close>

definition room_for :: "step list \<Rightarrow> bool" where
  [js_eval]: "room_for ss \<longleftrightarrow> length ss \<le> 20 \<and> length (node_ids ss) \<le> 100 \<and> distinct (node_ids ss)"

definition moves_only :: "(step list \<Rightarrow> nat \<Rightarrow> nat \<Rightarrow> step list) \<Rightarrow> bool" where
  "moves_only mv \<longleftrightarrow> (\<forall>ss i j. mset (mv ss i j) = mset ss)"

text \<open>
  The edits of a draft, one event of the page each. The conditions are those the page leaves to its
  user: texts within the bounds, room for a new step, identifiers that are drawn new.
\<close>

inductive editing :: "(step list \<Rightarrow> nat \<Rightarrow> nat \<Rightarrow> step list) \<Rightarrow> editor \<Rightarrow> editor \<Rightarrow> bool" for mv where
  Started: "editing mv st (handleDragStart active st)"
| Selected: "editing mv st (keep_selection st)"
| Removed: "editing mv st (removeStep i st)"
| Added: "clean_draw w \<Longrightarrow> room_for (draft_steps st @ [createStep w ty]) \<Longrightarrow> editing mv st (addStep w ty k st)"
| Dropped: "starts_with active palette_prefix \<longrightarrow> clean_draw w \<and> room_for (draft_steps st @ [createStep w (step_option (drop 8 active))])
    \<Longrightarrow> editing mv st (handleDragEnd mv w active target st)"
| Retyped: "clean_draw w \<Longrightarrow> room_for (draft_steps (changeSelectedStepType w ty st))
    \<Longrightarrow> editing mv st (changeSelectedStepType w ty st)"
| Patched: "list_all (\<lambda>s. st_id s = ed_step st \<longrightarrow> accepted_edit e s) (draft_steps st)
    \<Longrightarrow> (grows e \<Longrightarrow> room_for (draft_steps (patchStep (edit_step e) st)))
    \<Longrightarrow> editing mv st (patchStep (edit_step e) st)"
| Form: "(case e of RestoreVersion v \<Rightarrow> valid_definition (vr_definition v) | _ \<Rightarrow> True)
    \<Longrightarrow> editing mv st (st\<lparr>ed_draft := edit_loop_form e (ed_draft st)\<rparr>)"

lemma node_ids_first: "node_ids (s # ss) = own_ids s @ node_ids ss"
  unfolding own_ids_def by (rule node_ids_Cons)

lemma node_ids_concat: "node_ids ss = concat (map own_ids ss)"
  by (induction ss) (simp_all only: node_ids_first node_ids.simps(1) list.map concat.simps)

lemma distinct_sub:
  assumes "mset ts \<subseteq># mset ss" "distinct ss"
  shows "distinct ts"
proof -
  obtain us where "mset ss = mset (ts @ us)"
    using assms(1) by (metis ex_mset mset_append mset_subset_eq_exists_conv)
  then have "distinct (ts @ us)" using assms(2) mset_eq_imp_distinct_iff by blast
  then show ?thesis by simp
qed

lemma mset_node_ids_sum: "mset (node_ids ss) = sum_mset (image_mset (\<lambda>s. mset (own_ids s)) (mset ss))"
  by (induction ss) (simp_all add: node_ids_first)

lemma mset_node_ids: "mset ss = mset ts \<Longrightarrow> mset (node_ids ss) = mset (node_ids ts)"
  by (simp only: mset_node_ids_sum)

lemma valid_steps_set: "valid_steps ss \<longleftrightarrow> (\<forall>s\<in>set ss. valid_step s)"
  by (induction ss) auto

lemma nesting_set: "nesting ss \<le> n \<longleftrightarrow> (\<forall>s\<in>set ss. nesting [s] \<le> n)"
proof (induction ss)
  case (Cons s ss)
  then show ?case using nesting_Cons [of s ss] by simp
qed simp

text \<open>The order of the steps does not matter to the schema.\<close>

lemma good_steps_permuted: "mset ss = mset ts \<Longrightarrow> good_steps ss \<longleftrightarrow> good_steps ts"
proof -
  assume m: "mset ss = mset ts"
  have "length ss = length ts" "set ss = set ts" using m by (metis size_mset, metis set_mset_mset)
  moreover have "length (node_ids ss) = length (node_ids ts)" "distinct (node_ids ss) = distinct (node_ids ts)"
    using mset_node_ids [OF m] by (metis size_mset, metis mset_eq_imp_distinct_iff)
  ultimately show ?thesis by (simp add: good_steps_def valid_steps_set nesting_set [of ss] nesting_set [of ts] sized_def)
qed

lemma good_steps_sub:
  "good_steps ss \<Longrightarrow> valid_steps ts \<Longrightarrow> sized 1 20 ts \<Longrightarrow> nesting ts \<le> 4 \<Longrightarrow> mset (node_ids ts) \<subseteq># mset (node_ids ss) \<Longrightarrow> good_steps ts"
  using size_mset_mono [of "mset (node_ids ts)" "mset (node_ids ss)"]
  by (auto simp: good_steps_def dest: distinct_sub)


subsection \<open>Every edit keeps a storable draft\<close>

lemma draft_steps_simps [simp]:
  "draft_steps (with_steps f st) = f (draft_steps st)"
  "draft_steps (version_two st) = draft_steps st"
  "draft_steps (st\<lparr>ed_step := i\<rparr>) = draft_steps st"
  "draft_steps (st\<lparr>ed_drag := i\<rparr>) = draft_steps st"
  by (simp_all add: draft_steps_def with_steps_def version_two_def)

lemma storable_simps [simp]:
  "storable (st\<lparr>ed_step := i\<rparr>) = storable st"
  "storable (st\<lparr>ed_drag := i\<rparr>) = storable st"
  by (simp_all add: storable_def)

lemma storable_with_steps: "storable st \<Longrightarrow> good_steps (f (draft_steps st)) \<Longrightarrow> storable (with_steps f st)"
  by (simp add: storable_iff) (simp add: with_steps_def)

lemma storable_version_two: "storable st \<Longrightarrow> storable (version_two st)"
  by (simp add: storable_iff) (simp add: version_two_def)

lemma storable_good: "storable st \<Longrightarrow> good_steps (draft_steps st)"
  by (simp add: storable_iff)

lemma step_index_Some: "step_index i ss = Some k \<Longrightarrow> k < length ss \<and> st_id (ss ! k) = i"
  by (induction ss arbitrary: k) (auto split: if_splits)

lemma good_at_index:
  assumes ss: "good_steps ss" and k: "k < length ss" and valid: "valid_step (f (ss ! k))"
    and nesting: "nesting [f (ss ! k)] \<le> max 1 (nesting [ss ! k])"
    and ids: "mset (own_ids (f (ss ! k))) \<subseteq># mset (own_ids (ss ! k)) \<or> room_for (at_index k f ss)"
  shows "good_steps (at_index k f ss)"
proof -
  obtain us x vs where at: "ss = us @ x # vs" "at_index k f ss = us @ f x # vs" "length us = k"
    using at_index_split [OF k, of f] id_take_nth_drop [OF k] k
    by (intro that [of "take k ss" "ss ! k" "drop (Suc k) ss"]) (simp_all add: at_index_def upd_conv_take_nth_drop)
  have x: "ss ! k = x" using at by auto
  have "nesting [x] \<le> 4"
    using ss by (auto simp: good_steps_def at(1) nesting_set [of "us @ x # vs"])
  then have "nesting [f x] \<le> 4" "valid_step (f x)" using nesting valid by (simp_all add: x)
  then have "valid_steps (at_index k f ss)" "nesting (at_index k f ss) \<le> 4" "sized 1 20 (at_index k f ss)"
    using ss unfolding at(1) at(2) [unfolded at(1)]
    by (auto simp: good_steps_def sized_def nesting_set [of "us @ x # vs"] nesting_set [of "us @ f x # vs"]
        valid_steps_set)
  moreover have "mset (node_ids (at_index k f ss)) \<subseteq># mset (node_ids ss)"
    if "mset (own_ids (f x)) \<subseteq># mset (own_ids x)"
    using that unfolding at(1,2) at(2) [unfolded at(1)] by (simp add: node_ids_middle subset_mset.add_mono)
  ultimately show ?thesis
    using ids good_steps_sub [OF ss] by (auto simp: x good_steps_def room_for_def)
qed

lemma good_added:
  assumes ss: "good_steps ss" and w: "clean_draw w" and room: "room_for (ss @ [createStep w ty])"
  shows "good_steps (take k ss @ [createStep w ty] @ drop k ss)"
proof -
  have "nesting [createStep w ty] \<le> 4" using created_nesting [of w ty] by simp
  then have "good_steps (ss @ [createStep w ty])"
    using ss room created_step_valid [OF w, of ty]
    by (auto simp: good_steps_def room_for_def sized_def list_facts)
  moreover have "mset (ss @ [createStep w ty]) = mset (take k ss @ [createStep w ty] @ drop k ss)"
    by (simp add: union_code [symmetric] del: union_code) (metis append_take_drop_id mset_append)
  ultimately show ?thesis using good_steps_permuted by blast
qed

lemma length_filter_one: "distinct (map f xs) \<Longrightarrow> length xs - 1 \<le> length (filter (\<lambda>x. f x \<noteq> i) xs)"
proof (induction xs)
  case (Cons x xs)
  show ?case
  proof (cases "f x = i")
    case True
    then have "filter (\<lambda>x. f x \<noteq> i) xs = xs" using Cons.prems by (intro filter_True) (auto simp: rev_image_eqI)
    with True show ?thesis by simp
  next
    case False
    with Cons show ?thesis by (cases xs) auto
  qed
qed simp

lemma st_id_own: "st_id s \<in> set (own_ids s)"
  by (simp add: own_ids_iff)

lemma distinct_own: "distinct (node_ids ss) \<Longrightarrow> distinct (map st_id ss)"
proof (induction ss)
  case (Cons s ss)
  have "st_id ` set ss \<subseteq> set (node_ids ss)" by (auto simp: node_ids_concat intro: st_id_own)
  moreover have "set (own_ids s) \<inter> set (node_ids ss) = {}" "distinct (node_ids ss)"
    using Cons.prems by (simp_all add: node_ids_first)
  ultimately show ?case using Cons.IH st_id_own [of s] by auto
qed simp

lemma filter_ids: "mset (node_ids (filter P ss)) \<subseteq># mset (node_ids ss)"
proof (induction ss)
  case (Cons s ss)
  then show ?case
    by (auto simp: node_ids_concat intro: subset_mset.add_mono subset_mset.order_trans [OF _ mset_subset_eq_add_right])
qed simp

lemma good_removed:
  assumes "good_steps ss" "length ss \<noteq> 1"
  shows "good_steps (filter (\<lambda>s. st_id s \<noteq> i) ss)"
proof (rule good_steps_sub [OF assms(1)])
  have d: "distinct (map st_id ss)" and n: "1 \<le> length ss" "length ss \<le> 20"
    using assms(1) distinct_own by (simp_all add: good_steps_def sized_def)
  have "length (filter (\<lambda>s. st_id s \<noteq> i) ss) \<le> length ss" by simp
  then show "sized 1 20 (filter (\<lambda>s. st_id s \<noteq> i) ss)"
    using length_filter_one [OF d, of i] n assms(2) unfolding sized_def by linarith
  show "valid_steps (filter (\<lambda>s. st_id s \<noteq> i) ss)" "nesting (filter (\<lambda>s. st_id s \<noteq> i) ss) \<le> 4"
    using assms(1) by (auto simp: good_steps_def valid_steps_set nesting_set [of ss] nesting_set [of "filter _ ss"])
qed (rule filter_ids)

lemma storable_patch:
  assumes "storable st"
    "\<And>k. step_index (ed_step st) (draft_steps st) = Some k \<Longrightarrow> good_steps (at_index k f (draft_steps st))"
  shows "storable (patchStep f st)"
  using assms by (auto simp: patchStep_def storable_version_two storable_with_steps split: option.splits)

lemma draft_patch: "step_index (ed_step st) (draft_steps st) = Some k \<Longrightarrow> draft_steps (patchStep f st) = at_index k f (draft_steps st)"
  by (simp add: patchStep_def)

lemma storable_added:
  "storable st \<Longrightarrow> clean_draw w \<Longrightarrow> room_for (draft_steps st @ [createStep w ty]) \<Longrightarrow> storable (addStep w ty k st)"
  unfolding addStep_def storable_simps
  by (intro storable_version_two storable_with_steps good_added storable_good)

lemma storable_dropped:
  assumes "storable st" "moves_only mv"
    "starts_with active palette_prefix \<longrightarrow> clean_draw w \<and> room_for (draft_steps st @ [createStep w (step_option (drop 8 active))])"
  shows "storable (handleDragEnd mv w active target st)"
proof -
  have "mset (mv (draft_steps st) i j) = mset (draft_steps st)" for i j using assms(2) by (simp add: moves_only_def)
  then have "storable (with_steps (\<lambda>ss. mv ss i j) st)" for i j
    using storable_with_steps [OF assms(1), of "\<lambda>ss. mv ss i j"] good_steps_permuted storable_good [OF assms(1)] by blast
  then have "storable (with_steps (\<lambda>ss. mv ss i j) (st\<lparr>ed_drag := []\<rparr>))" for i j
    by (simp add: storable_def with_steps_def draft_steps_def)
  moreover have "storable (addStep w (step_option (drop 8 active)) k (st\<lparr>ed_drag := []\<rparr>))"
    if "starts_with active palette_prefix" for k
    using that assms by (intro storable_added) simp_all
  ultimately show ?thesis
    using assms(1) by (auto simp: handleDragEnd_def Let_def split: option.splits)
qed

lemma storable_form:
  "storable st \<Longrightarrow> (case e of RestoreVersion v \<Rightarrow> valid_definition (vr_definition v) | _ \<Rightarrow> True)
   \<Longrightarrow> storable (st\<lparr>ed_draft := edit_loop_form e (ed_draft st)\<rparr>)"
  by (cases e) (simp_all add: storable_def)

lemma editing_keeps_storable:
  assumes "editing mv st st'" "moves_only mv" "storable st"
  shows "storable st'"
  using assms(1)
proof cases
  case (Started active)
  then show ?thesis using assms by (simp add: handleDragStart_def)
next
  case Selected
  then show ?thesis using assms by (simp add: keep_selection_def)
next
  case (Removed i)
  then show ?thesis
    using assms by (auto simp: removeStep_def intro!: storable_with_steps good_removed storable_good)
next
  case (Added w ty k)
  then show ?thesis using assms by (auto intro: storable_added)
next
  case (Dropped active w target)
  then show ?thesis using assms by (auto intro!: storable_dropped)
next
  case (Retyped w ty)
  have good: "good_steps (draft_steps st)" using assms(3) by (rule storable_good)
  show ?thesis
    unfolding Retyped(1) changeSelectedStepType_def
  proof (rule storable_patch [OF assms(3)])
    fix k assume k: "step_index (ed_step st) (draft_steps st) = Some k"
    let ?s = "draft_steps st ! k"
    have "k < length (draft_steps st)" using step_index_Some [OF k] by simp
    moreover have "valid_step ?s"
      using good \<open>k < _\<close> by (simp add: good_steps_def valid_steps_set)
    moreover have "nesting [replace_step (createStep w ty) ?s] \<le> max 1 (nesting [?s])"
      using replace_nesting [of "createStep w ty" ?s] created_nesting [of w ty] by (auto simp: le_max_iff_disj)
    moreover have "room_for (at_index k (replace_step (createStep w ty)) (draft_steps st))"
      using Retyped(3) draft_patch [OF k] by (simp add: changeSelectedStepType_def)
    ultimately show "good_steps (at_index k (replace_step (createStep w ty)) (draft_steps st))"
      using good Retyped(2) by (intro good_at_index replace_valid created_step_valid) auto
  qed
next
  case (Patched e)
  have good: "good_steps (draft_steps st)" using assms(3) by (rule storable_good)
  show ?thesis
    unfolding Patched(1)
  proof (rule storable_patch [OF assms(3)])
    fix k assume k: "step_index (ed_step st) (draft_steps st) = Some k"
    let ?s = "draft_steps st ! k"
    have i: "k < length (draft_steps st)" "st_id ?s = ed_step st" using step_index_Some [OF k] by simp_all
    then have "accepted_edit e ?s" "valid_step ?s"
      using Patched(2) good by (auto simp: list_all_iff good_steps_def valid_steps_set)
    moreover have "mset (own_ids (edit_step e ?s)) \<subseteq># mset (own_ids ?s) \<or> room_for (at_index k (edit_step e) (draft_steps st))"
      using Patched(3) edit_ids [of e ?s] draft_patch [OF k] by auto
    ultimately show "good_steps (at_index k (edit_step e) (draft_steps st))"
      using good i by (intro good_at_index edit_valid edit_nesting) auto
  qed
next
  case (Form e)
  then show ?thesis using assms by (auto intro: storable_form)
qed


subsection \<open>A new loop\<close>

definition new_editor :: "drawn \<Rightarrow> editor" where
  [js_eval]: "new_editor w = \<lparr>ed_draft = blankWorkflow w, ed_step = [], ed_drag = []\<rparr>"

lemma new_editor_storable: "clean_draw w \<Longrightarrow> storable (new_editor w)"
  using created_step_valid [of w AgentStep]
  by (simp add: storable_def valid_definition_iff new_editor_def blankWorkflow_def sized_def createStep_leaf new_leaf_def)

lemma edits_keep_storable: "(editing mv)\<^sup>*\<^sup>* st st' \<Longrightarrow> moves_only mv \<Longrightarrow> storable st \<Longrightarrow> storable st'"
  by (induction rule: rtranclp_induct) (auto intro: editing_keeps_storable)

lemma form_keeps_id: "wf_id (edit_loop_form e d) = wf_id d"
  by (cases e) simp_all

lemma draft_id_simps [simp]:
  "wf_id (ed_draft (with_steps f st)) = wf_id (ed_draft st)"
  "wf_id (ed_draft (version_two st)) = wf_id (ed_draft st)"
  by (simp_all add: with_steps_def version_two_def)

lemma editing_keeps_id: "editing mv st st' \<Longrightarrow> wf_id (ed_draft st') = wf_id (ed_draft st)"
  by (induction rule: editing.induct)
     (auto simp: handleDragStart_def keep_selection_def removeStep_def addStep_def handleDragEnd_def Let_def
        changeSelectedStepType_def patchStep_def form_keeps_id split: option.splits)

lemma edits_keep_id: "(editing mv)\<^sup>*\<^sup>* st st' \<Longrightarrow> wf_id (ed_draft st') = wf_id (ed_draft st)"
  by (induction rule: rtranclp_induct) (simp_all add: editing_keeps_id)

text \<open>The fields of the loop beside its steps are within the bounds of the schema.\<close>

definition form_in_bounds :: "workflow_row \<Rightarrow> bool" where
  [js_eval]: "form_in_bounds d \<longleftrightarrow> 1 \<le> length (wf_name d) \<and> length (wf_name d) \<le> 100 \<and> length (wf_description d) \<le> 2000
     \<and> length (wf_tags d) \<le> 20 \<and> list_all (trimmed_text 1 40) (wf_tags d)
     \<and> length (sd_cron (wf_schedule d)) \<le> 200 \<and> 1 \<le> length (sd_timezone (wf_schedule d)) \<and> length (sd_timezone (wf_schedule d)) \<le> 80
     \<and> length (wf_triggers d) \<le> 20 \<and> list_all valid_trigger (wf_triggers d)
     \<and> length (wf_inputs d) \<le> 30 \<and> list_all valid_input_field (wf_inputs d)"

lemma form_accepted:
  "storable st \<Longrightarrow> form_in_bounds (ed_draft st) \<Longrightarrow> valid_workflow_form (form_of_draft (ed_draft st))"
  by (simp add: valid_workflow_form_def form_in_bounds_def form_of_draft_def storable_def all_if_def short_def)

definition saved_row :: "jsstr \<Rightarrow> int \<Rightarrow> workflow_row \<Rightarrow> workflow_row" where
  [js_eval]: "saved_row i now d =
     d\<lparr>wf_id := i, wf_version := 1, wf_versions := [], wf_created := now, wf_updated := now\<rparr>"

lemma new_row_of_draft: "new_workflow_row i now (form_of_draft d) = saved_row i now d"
  by (simp add: new_workflow_row_def form_of_draft_def saved_row_def or_else_def)

lemma head_option_append_new: "P r \<Longrightarrow> filter P rows = [] \<Longrightarrow> head_option (filter P (rows @ [r])) = Some r"
  by simp

lemma created_workflow:
  assumes "i \<notin> wf_id ` set (workflows s)"
  shows "createWorkflowRecord i now f s =
    (Some (new_workflow_row i now f), s\<lparr>workflows := workflows s @ [new_workflow_row i now f]\<rparr>)"
proof -
  have "filter (\<lambda>w. wf_id w = i) (workflows s) = []" using assms by (auto simp: filter_empty_conv)
  then show ?thesis by (simp add: createWorkflowRecord_def getWorkflow_def new_workflow_row_def)
qed


definition demo_move :: "step list \<Rightarrow> nat \<Rightarrow> nat \<Rightarrow> step list" where
  [js_eval]: "demo_move ss i j = (if i < length ss
     then take j (drop_index i ss) @ [ss ! i] @ drop j (drop_index i ss) else ss)"

lemma demo_move_moves: "moves_only demo_move"
proof -
  have "mset (demo_move ss i j) = mset ss" for ss i j
  proof (cases "i < length ss")
    case True
    then obtain us x vs where s: "ss = us @ x # vs" "length us = i"
      by (metis id_take_nth_drop length_take less_imp_le_nat min.absorb2)
    have "mset (take j (us @ vs)) + mset (drop j (us @ vs)) = mset us + mset vs"
      by (metis append_take_drop_id mset_append)
    with s show ?thesis by (simp add: demo_move_def drop_index_def nth_append ac_simps)
  qed (simp add: demo_move_def)
  then show ?thesis by (simp add: moves_only_def)
qed

definition demo_drawn :: "nat \<Rightarrow> drawn" where
  [js_eval]: "demo_drawn n = \<lparr>dw_now = n, dw_text = (\<lambda>k. [97 + k])\<rparr>"

definition demo_edited :: editor where
  [js_eval]: "demo_edited = handleDragEnd demo_move (demo_drawn 7) (drawn_id (demo_drawn 6) 0 ConditionStep)
     (Some (drawn_id (demo_drawn 5) 0 AgentStep)) (addStep (demo_drawn 6) ConditionStep 1 (new_editor (demo_drawn 5)))"

lemma demo_edits: "(editing demo_move)\<^sup>*\<^sup>* (new_editor (demo_drawn 5)) demo_edited"
proof -
  have "editing demo_move (new_editor (demo_drawn 5)) (addStep (demo_drawn 6) ConditionStep 1 (new_editor (demo_drawn 5)))"
    by (rule editing.Added) code_simp+
  moreover have "editing demo_move (addStep (demo_drawn 6) ConditionStep 1 (new_editor (demo_drawn 5))) demo_edited"
    unfolding demo_edited_def by (rule editing.Dropped) code_simp
  ultimately show ?thesis by (meson converse_rtranclp_into_rtranclp r_into_rtranclp)
qed




definition demo_saving :: arrival where
  [js_eval]: "demo_saving = \<lparr>ar_moment = \<lparr>mm_now = 9, mm_uuid = js ''u1'', mm_fresh = demo_fresh\<rparr>,
     ar_ids = (\<lambda>_ _ _. []), ar_nonce = []\<rparr>"


end
