(* ===== verification/Web_Chat.thy ===== *)
theory Web_Chat
  imports Server_Api
begin

section \<open>The agent workspace of the web client (\<open>frontend/src/pages/AgentWorkspace\<close>)\<close>

text \<open>
  The chat page: what the page reads from the parts of messages, the files waiting to be sent, sending
  and the request each message becomes, approvals, and how a part of a message is shown
  (\<open>index.tsx\<close>, \<open>MastraMessagePart.tsx\<close>, \<open>A2UIRenderer.tsx\<close>). A part is the object of the message, as in
  the service. The chat library, which keeps the messages and calls the transport, is outside.
\<close>

type_synonym part = "(jsstr \<times> jsval) list"

subsection \<open>Parts of messages\<close>

definition partData :: "part \<Rightarrow> part" where
  [js_eval]: "partData p = fields_of (get_prop p (js ''data''))"

definition part_type :: "part \<Rightarrow> jsstr" where
  [js_eval]: "part_type p = (case get_prop p (js ''type'') of Str t \<Rightarrow> t | _ \<Rightarrow> [])"

definition isToolPart :: "part \<Rightarrow> bool" where
  [js_eval]: "isToolPart p \<longleftrightarrow> starts_with (part_type p) (js ''tool-'') \<or> part_type p = js ''dynamic-tool''"

fun truthy_of :: "jsval list \<Rightarrow> jsval \<Rightarrow> jsval" where
  "truthy_of [] d = d"
| "truthy_of (v # vs) d = (if truthy v then v else truthy_of vs d)"

definition mastraPartKey :: "platform \<Rightarrow> jsstr \<Rightarrow> part \<Rightarrow> nat \<Rightarrow> jsstr" where
  [js_eval]: "mastraPartKey pf i p k =
     i @ [45] @ text_of pf (truthy_of (map (\<lambda>n. get_prop p (js n)) [''id'', ''toolCallId'', ''sourceId'', ''url''])
       (Str (part_type p @ [45] @ nat_digits k)))"

definition joined_text :: "platform \<Rightarrow> jsval \<Rightarrow> jsstr" where
  [js_eval]: "joined_text pf v = (if v = Undef \<or> v = Null then [] else text_of pf v)"

definition uiMessageText :: "platform \<Rightarrow> part list \<Rightarrow> jsstr" where
  [js_eval]: "uiMessageText pf ps =
     trim (str_join [10] (map (\<lambda>p. joined_text pf (get_prop p (js ''text''))) (filter (is_part ''text'') ps)))"

definition part_streams :: "platform \<Rightarrow> part \<Rightarrow> bool" where
  [js_eval]: "part_streams pf p \<longleftrightarrow>
     (if is_part ''text'' p \<or> is_part ''reasoning'' p then get_prop p (js ''state'') = Str (js ''streaming'')
      else isToolPart p \<and> text_or pf (get_prop p (js ''state'')) [] \<notin> {js ''output-available'', js ''output-error''})"

definition hasStreamingPart :: "platform \<Rightarrow> part list option \<Rightarrow> bool" where
  [js_eval]: "hasStreamingPart pf m = (case m of None \<Rightarrow> False | Some ps \<Rightarrow> list_ex (part_streams pf) ps)"

text \<open>The parts the inspector lists.\<close>

definition approval_part :: "platform \<Rightarrow> part \<Rightarrow> bool" where
  [js_eval]: "approval_part pf p \<longleftrightarrow>
     is_part ''data-tool-call-approval'' p \<or> is_part ''data-tool-call-suspended'' p
     \<or> is_part ''data-scry-workflow-step'' p \<and> get_prop (partData p) (js ''status'') = Str (js ''suspended'')
     \<or> text_or pf (get_prop p (js ''state'')) [] = js ''approval-requested''"

definition execution_part :: "part \<Rightarrow> bool" where
  [js_eval]: "execution_part p \<longleftrightarrow> isToolPart p \<or> part_type p \<in> set (map js [''data-workflow'', ''data-tool-workflow'',
     ''data-workflow-step'', ''data-tool-workflow-step'', ''data-scry-workflow-step'', ''data-network'', ''data-tool-network''])"

subsection \<open>Requests\<close>

record request_state =
  rq_thread :: jsstr
  rq_mode :: agent_mode
  rq_workflow :: jsstr

fun request_mode :: "agent_mode \<Rightarrow> jsstr" where
  "request_mode Diagnose = js ''diagnose''"
| "request_mode Plan = js ''plan''"
| "request_mode Operate = js ''operate''"

text \<open>\<open>JSON.parse\<close> is an argument; \<open>None\<close> is its exception.\<close>

definition isAgentResumeBody :: "(jsstr \<Rightarrow> jsval option) \<Rightarrow> jsstr option \<Rightarrow> bool" where
  [js_eval]: "isAgentResumeBody parse body \<longleftrightarrow>
     (case body of
        None \<Rightarrow> False
      | Some t \<Rightarrow>
          (case parse t of
             None \<Rightarrow> False
           | Some v \<Rightarrow> truthy (get_prop (fields_of v) (js ''runId'')) \<and> truthy (get_prop (fields_of v) (js ''resumeData''))))"

definition transport_path :: "(jsstr \<Rightarrow> jsval option) \<Rightarrow> request_state \<Rightarrow> jsstr option \<Rightarrow> jsstr" where
  [js_eval]: "transport_path parse rq body =
     (if rq_workflow rq \<noteq> [] \<and> \<not> isAgentResumeBody parse body
      then js ''/api/workflows/'' @ rq_workflow rq @ js ''/stream'' else js ''/api/chat'')"

text \<open>
  \<open>prepareSendMessagesRequest\<close>: a decision on a tool resumes its run with all messages; otherwise a
  selected loop takes the text of the last message, and an agent the last message itself.
\<close>

definition last_message :: "jsval list \<Rightarrow> jsval option" where
  [js_eval]: "last_message ms = (if ms = [] then None else Some (last ms))"

definition prepared_body :: "platform \<Rightarrow> request_state \<Rightarrow> jsval list \<Rightarrow> part \<Rightarrow> jsval \<Rightarrow> part" where
  [js_eval]: "prepared_body pf rq ms body trigger =
     (let final = last_message ms;
          said = (case final of None \<Rightarrow> [] | Some m \<Rightarrow> uiMessageText pf (parts_of m))
      in if truthy (get_prop body (js ''resumeData'')) \<and> truthy (get_prop body (js ''runId'')) then
           [(js ''threadId'', Str (rq_thread rq)), (js ''mode'', Str (request_mode (rq_mode rq))), (js ''messages'', Arr ms),
            (js ''runId'', get_prop body (js ''runId'')), (js ''resumeData'', get_prop body (js ''resumeData'')),
            (js ''trigger'', trigger)]
         else if rq_workflow rq \<noteq> [] then
           [(js ''threadId'', Str (rq_thread rq)), (js ''inputData'', Obj [(js ''message'', Str said)])]
         else
           [(js ''threadId'', Str (rq_thread rq)), (js ''mode'', Str (request_mode (rq_mode rq))),
            (js ''messages'', Arr [case final of None \<Rightarrow> Undef | Some m \<Rightarrow> m]), (js ''trigger'', trigger)])"

subsection \<open>Files\<close>

record web_file =
  fi_name :: jsstr
  fi_size :: nat
  fi_modified :: int

definition same_file :: "web_file \<Rightarrow> web_file \<Rightarrow> bool" where
  [js_eval]: "same_file f g \<longleftrightarrow> fi_name f = fi_name g \<and> fi_size f = fi_size g \<and> fi_modified f = fi_modified g"

text \<open>A file is kept where the first one like it stands.\<close>

fun first_files :: "web_file list \<Rightarrow> web_file list \<Rightarrow> web_file list" where
  "first_files seen [] = []"
| "first_files seen (f # fs) = (if list_ex (same_file f) seen then first_files (seen @ [f]) fs else f # first_files (seen @ [f]) fs)"

record workspace =
  ws_threads :: "thread_row list"
  ws_active :: jsstr
  ws_input :: jsstr
  ws_files :: "web_file list"
  ws_picked :: "web_file list"
  ws_mode :: agent_mode
  ws_workflow :: jsstr
  ws_tab :: jsstr
  ws_error :: jsstr

definition too_many_files :: jsstr where
  [js_eval]: "too_many_files = ([19968, 27425, 26368, 22810, 28155, 21152] @ js '' 5 '' @ [20010, 38468, 20214])"

definition too_large_file :: jsstr where
  [js_eval]: "too_large_file = ([21333, 20010, 38468, 20214, 19981, 33021, 36229, 36807] @ js '' 10 MB'')"

definition too_large_text :: jsstr where
  [js_eval]: "too_large_text = ([25991, 26412, 38468, 20214, 19981, 33021, 36229, 36807] @ js '' 512 KB'')"

text \<open>The refusal of a list of files, if there is one.\<close>

definition refuse_files :: "web_file list \<Rightarrow> jsstr option" where
  [js_eval]: "refuse_files fs =
     (if 5 < length fs then Some too_many_files
      else if list_ex (\<lambda>f. 10 * 1024 * 1024 < fi_size f) fs then Some too_large_file
      else if list_ex (\<lambda>f. re_test text_extension (fi_name f) \<and> 512 * 1024 < fi_size f) fs then Some too_large_text
      else None)"

text \<open>
  \<open>ws_picked\<close> is what the file input of the page holds. The browser sets it to the chosen files before
  the page sees them; the page sets it to all waiting files once it accepts them.
\<close>

definition selectFiles :: "web_file list \<Rightarrow> workspace \<Rightarrow> workspace" where
  [js_eval]: "selectFiles chosen st =
     (let st = st\<lparr>ws_picked := chosen\<rparr>; wanted = first_files [] (ws_files st @ chosen)
      in case refuse_files wanted of
           Some m \<Rightarrow> st\<lparr>ws_error := m\<rparr>
         | None \<Rightarrow> st\<lparr>ws_picked := wanted, ws_files := wanted, ws_error := []\<rparr>)"

definition selectWorkflow :: "jsstr \<Rightarrow> workspace \<Rightarrow> workspace" where
  [js_eval]: "selectWorkflow i st =
     (let st = st\<lparr>ws_workflow := i\<rparr>
      in if i = [] \<or> ws_files st = [] then st
         else st\<lparr>ws_files := [], ws_picked := [], ws_error := (js ''Loop '' @ [24403, 21069, 20165, 25903, 25345, 25991, 26412, 36755, 20837, 65292, 24050,
      31227, 38500, 24453, 21457, 36865, 38468, 20214])\<rparr>)"

definition removePendingFile :: "nat \<Rightarrow> workspace \<Rightarrow> workspace" where
  [js_eval]: "removePendingFile k st =
     (let left = take k (ws_files st) @ drop (k + 1) (ws_files st) in st\<lparr>ws_picked := left, ws_files := left\<rparr>)"

subsection \<open>Sending\<close>

text \<open>
  \<open>sendMessage\<close> up to the call of the library: \<open>None\<close> where nothing is sent, else the text and the files
  handed over. What follows a message that was sent is \<open>message_sent\<close>.
\<close>

definition sendMessage :: "bool \<Rightarrow> jsstr option \<Rightarrow> workspace \<Rightarrow> (jsstr \<times> web_file list) option \<times> workspace" where
  [js_eval]: "sendMessage running explicit st =
     (let message = trim (or_else explicit (ws_input st)); files = ws_picked st
      in if message = [] \<and> (files = [] \<or> ws_workflow st \<noteq> []) \<or> ws_active st = [] \<or> running then (None, st)
         else (Some (message, files), st\<lparr>ws_input := [], ws_error := [], ws_tab := js ''execution''\<rparr>))"

definition message_sent :: "workspace \<Rightarrow> workspace" where
  [js_eval]: "message_sent st = st\<lparr>ws_picked := [], ws_files := []\<rparr>"

definition send_disabled :: "workspace \<Rightarrow> bool" where
  [js_eval]: "send_disabled st \<longleftrightarrow> trim (ws_input st) = [] \<and> (ws_workflow st \<noteq> [] \<or> ws_files st = [])"

text \<open>\<open>respondToAgentTool\<close>: the body of the request that resumes a tool.\<close>

definition respondToAgentTool :: "bool \<Rightarrow> jsstr \<Rightarrow> bool \<Rightarrow> part option" where
  [js_eval]: "respondToAgentTool running i approved =
     (if i = [] \<or> running then None
      else Some [(js ''runId'', Str i), (js ''resumeData'', Obj [(js ''approved'', JBool approved)])])"

definition resumeWorkflowRun :: "jsstr \<Rightarrow> bool \<Rightarrow> jsstr \<times> part" where
  [js_eval]: "resumeWorkflowRun i approved =
     (js ''/api/workflow-runs/'' @ i @ js ''/resume'', [(js ''approved'', JBool approved)])"

subsection \<open>Threads\<close>

text \<open>
  \<open>loadThreads\<close> with what the service listed, before and, if there was no thread, after one was made.
\<close>

definition loadThreads :: "thread_row list \<Rightarrow> (jsstr \<times> thread_row list) \<Rightarrow> workspace \<Rightarrow> workspace" where
  [js_eval]: "loadThreads listed made st =
     (let (list, st) = (if listed = [] then (snd made, st\<lparr>ws_active := fst made\<rparr>) else (listed, st))
      in st\<lparr>ws_threads := list, ws_active := (if ws_active st \<noteq> [] then ws_active st
           else case list of [] \<Rightarrow> [] | t # _ \<Rightarrow> th_id t)\<rparr>)"

definition thread_deleted :: "jsstr \<Rightarrow> workspace \<Rightarrow> workspace" where
  [js_eval]: "thread_deleted i st =
     (if i = ws_active st then st\<lparr>ws_active := (case ws_threads st of [] \<Rightarrow> [] | t # _ \<Rightarrow> th_id t)\<rparr> else st)"

definition filteredThreads :: "jsstr \<Rightarrow> thread_row list \<Rightarrow> thread_row list" where
  [js_eval]: "filteredThreads search ts = filter (\<lambda>t. str_includes (to_lower (th_title t)) (to_lower (trim search))) ts"

definition threadGroups :: "int \<Rightarrow> thread_row list \<Rightarrow> (jsstr \<times> thread_row list) list" where
  [js_eval]: "threadGroups today ts =
     [([20170, 22825], filter (\<lambda>t. today \<le> th_updated t) ts), ([26356, 26089], filter (\<lambda>t. th_updated t < today) ts)]"

definition near_bottom :: "int \<Rightarrow> int \<Rightarrow> int \<Rightarrow> bool" where
  [js_eval]: "near_bottom h y v \<longleftrightarrow> h - y - v < 96"


subsection \<open>Showing a part\<close>

definition part_labels :: "(jsstr \<times> jsstr) list" where
  [js_eval]: "part_labels =
     [(js ''publish-plan'', [29983, 25104, 25191, 34892, 35745, 21010]), (js ''publishPlan'', [29983, 25104, 25191, 34892, 35745, 21010]),
      (js ''list-services'', [35835, 21462, 26381, 21153, 21015, 34920]), (js ''listServices'', [35835, 21462, 26381, 21153, 21015, 34920]),
      (js ''list-alerts'', [35835, 21462, 24403, 21069, 21578, 35686]), (js ''listAlerts'', [35835, 21462, 24403, 21069, 21578, 35686]),
      (js ''list-dashboards'', [35835, 21462, 20202, 34920, 30424]), (js ''listDashboards'', [35835, 21462, 20202, 34920, 30424]),
      (js ''query-signals'', [26597, 35810, 21487, 35266, 27979, 24615, 20449, 21495]), (js ''querySignals'', [26597, 35810, 21487, 35266, 27979, 24615, 20449, 21495]),
      (js ''ssh-list-hosts'', ([35835, 21462] @ js '' SSH '' @ [20027, 26426, 21015, 34920])), (js ''sshListHosts'', ([35835, 21462] @ js '' SSH '' @ [20027, 26426, 21015, 34920])),
      (js ''listHosts'', ([35835, 21462] @ js '' SSH '' @ [20027, 26426, 21015, 34920])),
      (js ''ssh-readonly-inspect'', (js ''SSH '' @ [21482, 35835, 24033, 26816])), (js ''sshReadonlyInspect'', (js ''SSH '' @ [21482, 35835, 24033, 26816])),
      (js ''readonlyInspect'', (js ''SSH '' @ [21482, 35835, 24033, 26816])),
      (js ''ssh-execute-command'', ([25191, 34892] @ js '' SSH '' @ [25480, 26435, 21629, 20196])), (js ''sshExecuteCommand'', ([25191, 34892] @ js '' SSH '' @ [25480, 26435, 21629, 20196])),
      (js ''executeConfiguredCommand'', ([25191, 34892] @ js '' SSH '' @ [25480, 26435, 21629, 20196]))]"

text \<open>Reading a label of an inherited name gives a built-in function, which is shown as its text.\<close>

definition label_of :: "platform \<Rightarrow> jsstr \<Rightarrow> jsstr option" where
  [js_eval]: "label_of pf n =
     (case map_of part_labels n of
        Some l \<Rightarrow> Some l
      | None \<Rightarrow> if n \<in> set inherited_names then Some (reached_text pf (Native n)) else None)"

definition toolName :: "platform \<Rightarrow> part \<Rightarrow> jsstr" where
  [js_eval]: "toolName pf p =
     (let ty = part_type p;
          name = text_of pf (truthy_of [get_prop p (js ''toolName'')]
            (Str (if starts_with ty (js ''tool-'') then drop 5 ty else [])))
      in case label_of pf name of
           Some l \<Rightarrow> l
         | None \<Rightarrow> text_of pf (truthy_of [get_prop p (js ''title''), Str name] (Str ([24037, 20855, 35843, 29992]))))"

definition statusLabel :: "jsstr \<Rightarrow> jsstr" where
  [js_eval]: "statusLabel status =
     (if status \<in> {js ''output-available'', js ''completed'', js ''success''} then [24050, 23436, 25104]
      else if status \<in> {js ''output-error'', js ''failed'', js ''error''} then [22833, 36133]
      else if status \<in> {js ''cancelled'', js ''canceled''} then [24050, 21462, 28040]
      else if status = js ''approval-requested'' \<or> str_includes status (js ''approval'') then [31561, 24453, 23457, 25209]
      else if status = js ''suspended'' then [24050, 26242, 20572]
      else [25191, 34892, 20013])"

datatype status_icon = DoneIcon | AlertIcon | ShieldIcon | SpinIcon

definition statusIcon :: "jsstr \<Rightarrow> status_icon" where
  [js_eval]: "statusIcon status =
     (if status \<in> {js ''output-available'', js ''completed'', js ''success''} then DoneIcon
      else if status \<in> {js ''output-error'', js ''failed'', js ''error'', js ''cancelled'', js ''canceled''} then AlertIcon
      else if status \<in> {js ''approval-requested'', js ''suspended''} \<or> str_includes status (js ''approval'') then ShieldIcon
      else SpinIcon)"

text \<open>A value that is an object: its own properties, in order; an array has its indices as names.\<close>

definition own_props :: "jsval \<Rightarrow> (jsstr \<times> jsval) list option" where
  [js_eval]: "own_props v =
     (case v of Obj kvs \<Rightarrow> Some kvs | Arr vs \<Rightarrow> Some (zip (map nat_digits [0..<length vs]) vs) | _ \<Rightarrow> None)"

definition recordValue :: "jsval \<Rightarrow> (jsstr \<times> jsval) list" where
  [js_eval]: "recordValue v = or_else (own_props v) []"

definition a2uiSurface :: "(jsstr \<times> jsval) list \<Rightarrow> (jsstr \<times> jsval) list option" where
  [js_eval]: "a2uiSurface kvs =
     (case own_props (get_prop kvs (js ''a2ui'')) of
        Some surface \<Rightarrow> Some surface
      | None \<Rightarrow> if truthy (get_prop kvs (js ''root'')) then Some kvs else None)"

text \<open>
  \<open>findA2UISurface\<close> searches six levels. The argument is the number of levels left, so the source's
  call is the one with six.
\<close>

fun find_surface :: "nat \<Rightarrow> jsval \<Rightarrow> (jsstr \<times> jsval) list option" where
  "find_surface 0 v = None"
| "find_surface (Suc n) v =
     (case own_props v of
        None \<Rightarrow> None
      | Some kvs \<Rightarrow>
          (case a2uiSurface kvs of
             Some surface \<Rightarrow> Some surface
           | None \<Rightarrow> foldl (\<lambda>found (k, c). case found of Some s \<Rightarrow> Some s | None \<Rightarrow> find_surface n c) None kvs))"

definition findA2UISurface :: "jsval \<Rightarrow> (jsstr \<times> jsval) list option" where
  [js_eval]: "findA2UISurface v = find_surface 6 v"

text \<open>The progress of a workflow: steps that finished, all steps, and the width of the bar in percent.\<close>

definition workflow_steps :: "part \<Rightarrow> (jsstr \<times> jsval) list" where
  [js_eval]: "workflow_steps p = recordValue (get_prop (partData p) (js ''steps''))"

definition step_finished :: "platform \<Rightarrow> jsval \<Rightarrow> bool" where
  [js_eval]: "step_finished pf v \<longleftrightarrow>
     text_or pf (get_prop (recordValue v) (js ''status'')) [] \<in> {js ''success'', js ''completed''}"

definition workflow_progress :: "platform \<Rightarrow> part \<Rightarrow> nat \<times> nat \<times> int option" where
  [js_eval]: "workflow_progress pf p =
     (let steps = workflow_steps p; completed = length (filter (\<lambda>(k, v). step_finished pf v) steps)
      in (completed, length steps,
          if steps = [] then None else Some (js_round (of_nat completed / of_nat (length steps) * 100))))"

text \<open>What the renderer makes of a part.\<close>

datatype part_view =
    TextView | ReasoningView | SourceView | DocumentView | ImageView | FileView | StepBoundary | ToolView | ApprovalView
  | WorkflowView | NetworkView | AgentView | TripwireView | SuspendedView
  | SurfaceView "(jsstr \<times> jsval) list" | WorkflowStepView bool | DataView | Nothing

definition part_view_of :: "part \<Rightarrow> part_view" where
  [js_eval]: "part_view_of p =
     (let ty = part_type p; data = partData p
      in if ty = js ''text'' then TextView
         else if ty = js ''reasoning'' then ReasoningView
         else if ty = js ''source-url'' then SourceView
         else if ty = js ''source-document'' then DocumentView
         else if ty = js ''file'' then
           (if starts_with (case get_prop p (js ''mediaType'') of Str m \<Rightarrow> m | _ \<Rightarrow> []) (js ''image/'') then ImageView else FileView)
         else if ty = js ''step-start'' then StepBoundary
         else if isToolPart p then ToolView
         else if ty = js ''data-tool-call-approval'' then ApprovalView
         else if ty \<in> {js ''data-workflow'', js ''data-tool-workflow''} then WorkflowView
         else if ty \<in> {js ''data-network'', js ''data-tool-network''} then NetworkView
         else if ty = js ''data-tool-agent'' then AgentView
         else if ty = js ''data-tripwire'' then TripwireView
         else if ty = js ''data-tool-call-suspended'' then SuspendedView
         else if starts_with ty (js ''data-'') then
           (case a2uiSurface data of
              Some surface \<Rightarrow> SurfaceView surface
            | None \<Rightarrow>
                if ty \<in> {js ''data-workflow-step'', js ''data-tool-workflow-step'', js ''data-scry-workflow-step''}
                then WorkflowStepView (ty = js ''data-scry-workflow-step''
                  \<and> get_prop data (js ''status'') = Str (js ''suspended'') \<and> truthy (get_prop data (js ''runId'')))
                else DataView)
         else Nothing)"

text \<open>Surfaces: the rows of a table, at most twenty, with at most six columns, those of the first row.\<close>

definition rowsFromData :: "jsval \<Rightarrow> jsval list" where
  [js_eval]: "rowsFromData v =
     (case v of
        Arr vs \<Rightarrow> vs
      | Obj kvs \<Rightarrow>
          (case (get_prop kvs (js ''data''), get_prop kvs (js ''items''), get_prop kvs (js ''results'')) of
             (Arr vs, _, _) \<Rightarrow> vs | (_, Arr vs, _) \<Rightarrow> vs | (_, _, Arr vs) \<Rightarrow> vs | _ \<Rightarrow> [])
      | _ \<Rightarrow> [])"

definition table_rows :: "jsval \<Rightarrow> jsval list" where
  [js_eval]: "table_rows v = take 20 (rowsFromData v)"

text \<open>\<open>Object.keys\<close>; \<open>None\<close> is the exception for a row that is \<open>null\<close>.\<close>

definition keys_of :: "jsval \<Rightarrow> jsstr list option" where
  [js_eval]: "keys_of v =
     (case v of
        Undef \<Rightarrow> None
      | Null \<Rightarrow> None
      | Str s \<Rightarrow> Some (map nat_digits [0..<length s])
      | _ \<Rightarrow> Some (map fst (recordValue v)))"

definition table_columns :: "jsval list \<Rightarrow> jsstr list option" where
  [js_eval]: "table_columns rows = (case rows of [] \<Rightarrow> Some [] | r # _ \<Rightarrow> map_option (take 6) (keys_of r))"

end
