(* ===== verification/Web_Chat_Laws.thy ===== *)
theory Web_Chat_Laws
  imports Web_Chat
begin

section \<open>What the agent workspace keeps\<close>

text \<open>
  The page and the service both limit attachments; the waiting files of the page always pass the
  service. A request goes to the route its body is meant for. A refused choice of files leaves the
  waiting files, but stays in the file input, from which a message is sent.
\<close>

subsection \<open>Waiting files\<close>

definition files_fit :: "web_file list \<Rightarrow> bool" where
  [js_eval]: "files_fit fs \<longleftrightarrow> length fs \<le> 5
     \<and> list_all (\<lambda>f. fi_size f \<le> 10 * 1024 * 1024 \<and> (re_test text_extension (fi_name f) \<longrightarrow> fi_size f \<le> 512 * 1024)) fs"

lemma refuse_files_iff: "refuse_files fs = None \<longleftrightarrow> files_fit fs"
  by (auto simp: refuse_files_def files_fit_def list_ex_iff list_all_iff not_less) (metis leD)+

lemma files_fit_drop: "files_fit fs \<Longrightarrow> files_fit (take k fs @ drop (k + 1) fs)"
  by (auto simp: files_fit_def list_all_iff dest: in_set_takeD in_set_dropD)

text \<open>What the user does on the page.\<close>

datatype ws_action =
    ChooseFiles "web_file list" | ChooseLoop jsstr | DropFile nat | Send bool "jsstr option" | Sent

fun ws_step :: "ws_action \<Rightarrow> workspace \<Rightarrow> workspace" where
  "ws_step (ChooseFiles fs) st = selectFiles fs st"
| "ws_step (ChooseLoop i) st = selectWorkflow i st"
| "ws_step (DropFile k) st = removePendingFile k st"
| "ws_step (Send running t) st = snd (sendMessage running t st)"
| "ws_step Sent st = message_sent st"

lemma ws_step_files: "files_fit (ws_files st) \<Longrightarrow> files_fit (ws_files (ws_step a st))"
proof (cases a)
  case (ChooseFiles fs)
  moreover assume "files_fit (ws_files st)"
  ultimately show ?thesis by (auto simp: selectFiles_def Let_def refuse_files_iff split: option.splits)
next
  case (DropFile k)
  moreover assume "files_fit (ws_files st)"
  ultimately show ?thesis using files_fit_drop by (simp add: removePendingFile_def Let_def)
qed (auto simp: selectWorkflow_def sendMessage_def message_sent_def Let_def files_fit_def)

lemma ws_steps_files: "files_fit (ws_files st) \<Longrightarrow> files_fit (ws_files (fold ws_step acts st))"
  by (induction acts arbitrary: st) (simp_all add: ws_step_files)

text \<open>
  The chat library makes a part of a file that names it, embeds its content and declares the media type
  the browser guessed. The guess is taken to call a file text only where its name does.
\<close>

definition part_of_file :: "platform \<Rightarrow> part \<Rightarrow> web_file \<Rightarrow> bool" where
  [js_eval]: "part_of_file pf p f \<longleftrightarrow> is_part ''file'' p \<and> text_or pf (get_prop p (js ''filename'')) [] = fi_name f
     \<and> (case decodeDataAttachment pf p of Inl _ \<Rightarrow> False | Inr content \<Rightarrow> length content = fi_size f)
     \<and> (isTextAttachment pf p \<longrightarrow> re_test text_extension (fi_name f))"

lemma normalize_fitting:
  "part_of_file pf p f \<Longrightarrow> fi_size f \<le> 10 * 1024 * 1024 \<Longrightarrow> (re_test text_extension (fi_name f) \<Longrightarrow> fi_size f \<le> 512 * 1024)
   \<Longrightarrow> \<not> isl (normalize_part pf p)"
  by (auto simp: part_of_file_def normalize_part_def split: sum.splits)

lemma collect_all: "list_all (\<lambda>x. \<not> isl (f x)) xs \<Longrightarrow> \<not> isl (collect f xs)"
  by (induction xs) (auto simp: isl_map_sum split: sum.splits)

lemma list_all2_fitting:
  "list_all2 (part_of_file pf) ps fs \<Longrightarrow> files_fit fs \<Longrightarrow> list_all (\<lambda>p. \<not> isl (normalize_part pf p)) ps"
  by (induction rule: list_all2_induct) (auto simp: files_fit_def dest: normalize_fitting)

definition message_with :: "jsstr \<Rightarrow> part list \<Rightarrow> jsval" where
  [js_eval]: "message_with said ps = Obj [(js ''role'', Str (js ''user'')),
     (js ''parts'', Arr (map Obj (ps @ [[(js ''type'', Str (js ''text'')), (js ''text'', Str said)]])))]"


definition demo_file :: web_file where
  [js_eval]: "demo_file = \<lparr>fi_name = js ''a.txt'', fi_size = 3, fi_modified = 1\<rparr>"

definition demo_part :: part where
  [js_eval]: "demo_part = [(js ''type'', Str (js ''file'')), (js ''filename'', Str (js ''a.txt'')),
     (js ''mediaType'', Str (js ''text/plain'')), (js ''url'', Str (js ''data:text/plain;base64,YWJj''))]"

definition demo_workspace :: workspace where
  [js_eval]: "demo_workspace = \<lparr>ws_threads = [], ws_active = js ''t'', ws_input = [], ws_files = [], ws_picked = [],
     ws_mode = Diagnose, ws_workflow = [], ws_tab = [], ws_error = []\<rparr>"


text \<open>
  The service calls a file text by its media type too; there a file the page accepts is refused: the
  page looks at the name only.
\<close>

lemma text_by_media_type_is_refused:
  assumes "is_part ''file'' p" "decodeDataAttachment pf p = Inr content" "isTextAttachment pf p"
    "512 * 1024 < length content" "length content \<le> 10 * 1024 * 1024"
  shows "isl (normalize_part pf p)"
  using assms by (simp add: normalize_part_def)

text \<open>
  A refused choice stays in the file input, and the next message takes its files from there: the files
  the page has just refused are sent, and the ones that wait are not.
\<close>

lemma refused_files_are_sent:
  assumes "refuse_files (first_files [] (ws_files st @ chosen)) = Some m" "ws_active st \<noteq> []" "trim t \<noteq> []"
  shows "fst (sendMessage False (Some t) (selectFiles chosen st)) = Some (trim t, chosen)
    \<and> ws_files (selectFiles chosen st) = ws_files st \<and> ws_error (selectFiles chosen st) = m"
  using assms by (simp add: selectFiles_def sendMessage_def or_else_def Let_def)

subsection \<open>Requests\<close>

text \<open>
  A request goes to the route that understands it: to the stream of the selected loop exactly if its
  body holds the input of a loop, and to the chat otherwise. A decision on a tool goes to the chat
  also while a loop is selected. The parser of JSON is taken to read back what was written.
\<close>

theorem requests_reach_their_route:
  assumes "body = prepared_body pf rq ms given trigger" "parse (json_text pf (Obj body)) = Some (Obj body)"
  shows "transport_path parse rq (Some (json_text pf (Obj body))) =
      (if get_prop body (js ''inputData'') = Undef then js ''/api/chat''
       else js ''/api/workflows/'' @ rq_workflow rq @ js ''/stream'')
    \<and> get_prop body (js ''threadId'') = Str (rq_thread rq)
    \<and> (if truthy (get_prop given (js ''resumeData'')) \<and> truthy (get_prop given (js ''runId''))
       then get_prop body (js ''inputData'') = Undef \<and> get_prop body (js ''runId'') = get_prop given (js ''runId'')
         \<and> get_prop body (js ''messages'') = Arr ms
       else get_prop body (js ''runId'') = Undef)"
proof -
  have parsed: "parse (json_text pf (Obj (prepared_body pf rq ms given trigger))) = Some (Obj (prepared_body pf rq ms given trigger))"
    using assms by simp
  show ?thesis
    unfolding assms(1) transport_path_def isAgentResumeBody_def option.case parsed
    by (auto simp: prepared_body_def fields_of_def Let_def)
qed

definition demo_sending :: request_state where
  [js_eval]: "demo_sending = \<lparr>rq_thread = js ''t'', rq_mode = Operate, rq_workflow = js ''w''\<rparr>"

theorem requests_reach_their_route_witness:
  "transport_path (\<lambda>_. Some (Obj (prepared_body demo_platform demo_sending []
       [(js ''runId'', Str (js ''r'')), (js ''resumeData'', Obj [])] Undef))) demo_sending
     (Some (json_text demo_platform (Obj (prepared_body demo_platform demo_sending []
       [(js ''runId'', Str (js ''r'')), (js ''resumeData'', Obj [])] Undef)))) = js ''/api/chat''"
proof -
  let ?given = "[(js ''runId'', Str (js ''r'')), (js ''resumeData'', Obj [])]"
  let ?body = "prepared_body demo_platform demo_sending [] ?given Undef"
  have "truthy (get_prop ?given (js ''resumeData'')) \<and> truthy (get_prop ?given (js ''runId''))" by simp
  then show ?thesis
    using requests_reach_their_route [OF refl, of "\<lambda>_. Some (Obj ?body)" demo_platform demo_sending "[]" ?given Undef] by simp
qed

text \<open>The page and the service read the same text in a message of texts.\<close>

lemma same_message_text:
  assumes "list_all (\<lambda>p. is_part ''text'' p \<longrightarrow> (\<exists>t. get_prop p (js ''text'') = Str t)) (parts_of m)"
  shows "uiMessageText pf (parts_of m) = messageText pf m"
proof -
  have "map (\<lambda>p. joined_text pf (get_prop p (js ''text''))) (filter (is_part ''text'') (parts_of m))
      = map (\<lambda>p. text_or pf (get_prop p (js ''text'')) []) (filter (is_part ''text'') (parts_of m))"
    using assms by (auto simp: list_all_iff joined_text_def text_or_def)
  then show ?thesis by (simp only: uiMessageText_def messageText_def)
qed

end
