(* ===== verification/Web_Trace.thy ===== *)
theory Web_Trace
  imports Json
begin

section \<open>The trace page of the web client (\<open>utils/spanToTree.ts\<close>, \<open>GantChart/utils.ts\<close>, \<open>TraceDetail/utils.ts\<close>)\<close>

text \<open>
  From the spans of a trace to the forest that is shown, and the walks over it. The objects of
  \<open>spanToTreeUtil\<close> refer to each other and are changed in place, so the function is modelled on a store:
  a map from identifiers to nodes, whose children are identifiers. The walks take a tree as a value.
  Identifiers of spans are taken not to be names that every object inherits.
\<close>

subsection \<open>Spans\<close>

text \<open>A number, \<open>NaN\<close>, or \<open>null\<close>.\<close>

datatype web_number = Number int | NotANumber | NullNumber

record trace_span =
  sn_start :: int
  sn_id :: jsstr
  sn_trace :: jsstr
  sn_service :: jsstr
  sn_name :: jsstr
  sn_duration :: jsstr
  sn_keys :: jsval
  sn_values :: jsval
  sn_refs :: "jsstr list"
  sn_events :: "jsstr list option"
  sn_error :: bool
  sn_message :: jsstr
  sn_status :: jsstr
  sn_kind :: jsstr

text \<open>A reference: what stands before and after the first \<open>=\<close> of each pair.\<close>

type_synonym reference = "(jsstr \<times> jsstr option) list"

definition child_of :: jsstr where
  [js_eval]: "child_of = js ''CHILD_OF''"

definition pair_of :: "jsstr \<Rightarrow> jsstr \<times> jsstr option" where
  [js_eval]: "pair_of t = (case str_split 61 t of [] \<Rightarrow> ([], None) | [k] \<Rightarrow> (k, None) | k # v # _ \<Rightarrow> (k, Some v))"

definition parse_reference :: "jsstr \<Rightarrow> reference" where
  [js_eval]: "parse_reference raw =
     foldl (\<lambda>m (k, v). put_prop m k v) [] (map pair_of (str_split 44 (filter (\<lambda>u. u \<noteq> 123 \<and> u \<noteq> 125 \<and> u \<noteq> 32) raw)))"

definition getSpanReferences :: "jsstr list \<Rightarrow> bool \<Rightarrow> reference list" where
  [js_eval]: "getSpanReferences raw wanted = map parse_reference (filter (\<lambda>r. str_includes r child_of = wanted) raw)"

definition ref_field :: "reference \<Rightarrow> string \<Rightarrow> jsstr option" where
  [js_eval]: "ref_field r k = (case map_of r (js k) of None \<Rightarrow> None | Some v \<Rightarrow> v)"

text \<open>The tags: two texts make one tag, two lists that are not empty as many as there are keys.\<close>

definition getSpanTags :: "trace_span \<Rightarrow> (jsval \<times> jsval) list" where
  [js_eval]: "getSpanTags s =
     (case (sn_keys s, sn_values s) of
        (Str k, Str v) \<Rightarrow> [(Str k, Str v)]
      | (Arr ks, Arr vs) \<Rightarrow>
          if ks \<noteq> [] \<and> vs \<noteq> [] then map (\<lambda>j. (ks ! j, if j < length vs then vs ! j else Undef)) [0..<length ks] else []
      | _ \<Rightarrow> [])"

text \<open>\<open>parseInt(text, 10)\<close>: white space, a sign, and the digits that follow.\<close>

definition parse_int :: "jsstr \<Rightarrow> web_number" where
  [js_eval]: "parse_int t =
     (let t = trim_left t; negative = (t \<noteq> [] \<and> hd t = 45); t = (if t \<noteq> [] \<and> hd t \<in> {43, 45} then tl t else t);
          ds = takeWhile is_digit t
      in if ds = [] then NotANumber
         else Number (if negative then - int (digits_value ds) else int (digits_value ds)))"

subsection \<open>The store\<close>

record span_node =
  nd_id :: jsstr
  nd_name :: jsstr
  nd_value :: web_number
  nd_start :: web_number
  nd_tags :: "(jsval \<times> jsval) list"
  nd_children :: "jsstr list"
  nd_service :: jsstr
  nd_error :: bool
  nd_events :: "jsval list option"
  nd_refs :: "reference list option"
  nd_others :: "reference list"
  nd_message :: jsstr
  nd_status :: jsstr
  nd_kind :: jsstr
  nd_missing :: bool
  nd_processed :: bool

type_synonym span_map = "(jsstr \<times> span_node) list"

text \<open>\<open>JSON.parse(e || '{}') || {}\<close>, with the parser as argument; \<open>None\<close> is its exception.\<close>

definition parse_event :: "(jsstr \<Rightarrow> jsval option) \<Rightarrow> jsstr \<Rightarrow> jsval option" where
  [js_eval]: "parse_event parse e =
     map_option (\<lambda>v. if truthy v then v else Obj []) (parse (if e = [] then js ''{}'' else e))"

fun all_some :: "'a option list \<Rightarrow> 'a list option" where
  "all_some [] = Some []"
| "all_some (x # xs) = (case x of None \<Rightarrow> None | Some v \<Rightarrow> map_option ((#) v) (all_some xs))"

definition span_object :: "(jsstr \<Rightarrow> jsval option) \<Rightarrow> trace_span \<Rightarrow> span_node option" where
  [js_eval]: "span_object parse s =
     (case (case sn_events s of
              None \<Rightarrow> Some None
            | Some es \<Rightarrow> map_option Some (all_some (map (parse_event parse) es))) of
        None \<Rightarrow> None
      | Some events \<Rightarrow> Some
          \<lparr>nd_id = sn_id s, nd_name = sn_name s, nd_value = parse_int (sn_duration s), nd_start = Number (sn_start s),
           nd_tags = getSpanTags s, nd_children = [], nd_service = sn_service s, nd_error = sn_error s,
           nd_events = events, nd_refs = Some (getSpanReferences (sn_refs s) True),
           nd_others = getSpanReferences (sn_refs s) False, nd_message = sn_message s, nd_status = sn_status s,
           nd_kind = sn_kind s, nd_missing = False, nd_processed = False\<rparr>)"

definition missing_node :: "jsstr \<Rightarrow> span_node" where
  [js_eval]: "missing_node i =
     \<lparr>nd_id = i, nd_name = js ''Missing Span ('' @ i @ js '')'', nd_value = NullNumber, nd_start = NullNumber,
      nd_tags = [], nd_children = [], nd_service = [], nd_error = False, nd_events = None, nd_refs = None,
      nd_others = [], nd_message = [], nd_status = [], nd_kind = [], nd_missing = True, nd_processed = False\<rparr>"

text \<open>The names of an object: indices of arrays first, in their order, then the others as they came.\<close>

definition is_index :: "jsstr \<Rightarrow> bool" where
  [js_eval]: "is_index k \<longleftrightarrow> k \<noteq> [] \<and> list_all is_digit k \<and> nat_digits (digits_value k) = k \<and> digits_value k < 4294967295"

definition own_names :: "span_map \<Rightarrow> jsstr list" where
  [js_eval]: "own_names m = (let ks = map fst m in sort_key digits_value (filter is_index ks) @ filter (\<lambda>k. \<not> is_index k) ks)"

definition change_node :: "jsstr \<Rightarrow> (span_node \<Rightarrow> span_node) \<Rightarrow> span_map \<Rightarrow> span_map" where
  [js_eval]: "change_node i f m = map (\<lambda>(k, n). (k, if k = i then f n else n)) m"

text \<open>\<open>createTraceRootSpan\<close>: the trace of each reference, and a node for a parent that is not there.\<close>

record forest_state =
  fs_map :: span_map
  fs_traces :: "jsstr option list"

definition note_reference :: "forest_state \<Rightarrow> reference \<Rightarrow> forest_state" where
  [js_eval]: "note_reference st r =
     (let st = (if ref_field r ''TraceId'' \<in> set (fs_traces st) then st
                else st\<lparr>fs_traces := fs_traces st @ [ref_field r ''TraceId'']\<rparr>)
      in case ref_field r ''SpanId'' of
           None \<Rightarrow> st
         | Some i \<Rightarrow> if i \<noteq> [] \<and> i \<notin> fst ` set (fs_map st) then st\<lparr>fs_map := fs_map st @ [(i, missing_node i)]\<rparr> else st)"

definition parent_id :: "reference \<Rightarrow> jsstr" where
  [js_eval]: "parent_id r = (case ref_field r ''SpanId'' of None \<Rightarrow> js ''undefined'' | Some i \<Rightarrow> i)"

definition attach :: "jsstr \<Rightarrow> forest_state \<Rightarrow> reference \<Rightarrow> forest_state" where
  [js_eval]: "attach i st r =
     (if parent_id r \<in> fst ` set (fs_map st)
      then st\<lparr>fs_map := change_node (parent_id r) (\<lambda>n. n\<lparr>nd_children := nd_children n @ [i]\<rparr>)
                (change_node i (\<lambda>n. n\<lparr>nd_processed := True\<rparr>) (fs_map st))\<rparr>
      else st)"

definition place_span :: "forest_state \<Rightarrow> jsstr \<Rightarrow> forest_state" where
  [js_eval]: "place_span st i =
     (case map_of (fs_map st) i of
        None \<Rightarrow> st
      | Some n \<Rightarrow>
          (case nd_refs n of
             None \<Rightarrow> st
           | Some refs \<Rightarrow> foldl (attach i) (foldl note_reference st refs) refs))"

text \<open>
  A node that hangs below no other is a root if it names an empty parent; otherwise it goes, once for
  every trace that is referred to, to the trees or to the missing ones. \<open>None\<close> is the exception for a
  reference without a trace.
\<close>

record forest =
  fo_trees :: "jsstr list"
  fo_missing :: "jsstr list"

fun sort_by_traces :: "jsstr \<Rightarrow> jsstr option list \<Rightarrow> forest \<Rightarrow> forest option" where
  "sort_by_traces i [] f = Some f"
| "sort_by_traces i (None # ts) f = None"
| "sort_by_traces i (Some t # ts) f =
     sort_by_traces i ts (if str_includes t i then f\<lparr>fo_trees := fo_trees f @ [i]\<rparr> else f\<lparr>fo_missing := fo_missing f @ [i]\<rparr>)"

definition is_root :: "span_node \<Rightarrow> bool" where
  [js_eval]: "is_root n \<longleftrightarrow> (case nd_refs n of None \<Rightarrow> False | Some refs \<Rightarrow> list_ex (\<lambda>r. ref_field r ''SpanId'' = Some []) refs)"

fun collect_roots :: "span_map \<Rightarrow> jsstr option list \<Rightarrow> jsstr list \<Rightarrow> forest \<Rightarrow> forest option" where
  "collect_roots m ts [] f = Some f"
| "collect_roots m ts (i # is) f =
     (case map_of m i of
        None \<Rightarrow> collect_roots m ts is f
      | Some n \<Rightarrow>
          if is_root n then collect_roots m ts is (f\<lparr>fo_trees := fo_trees f @ [i]\<rparr>)
          else (case sort_by_traces i ts f of None \<Rightarrow> None | Some f' \<Rightarrow> collect_roots m ts is f'))"

definition build_map :: "span_node list \<Rightarrow> span_map" where
  [js_eval]: "build_map ns = foldl (\<lambda>m n. put_prop m (nd_id n) n) [] ns"

definition linked_nodes :: "span_node list \<Rightarrow> forest_state" where
  [js_eval]: "linked_nodes ns = foldl place_span \<lparr>fs_map = build_map ns, fs_traces = []\<rparr> (own_names (build_map ns))"

definition free_nodes :: "span_map \<Rightarrow> span_map" where
  [js_eval]: "free_nodes m = filter (\<lambda>(k, n). \<not> nd_processed n) m"

definition spanToTreeUtil :: "(jsstr \<Rightarrow> jsval option) \<Rightarrow> trace_span list \<Rightarrow> (span_map \<times> forest) option" where
  [js_eval]: "spanToTreeUtil parse spans =
     (case all_some (map (span_object parse) spans) of
        None \<Rightarrow> None
      | Some ns \<Rightarrow>
          (let st = linked_nodes ns; free = free_nodes (fs_map st)
           in map_option (Pair (fs_map st)) (collect_roots free (fs_traces st) (own_names free) \<lparr>fo_trees = [], fo_missing = []\<rparr>)))"

subsection \<open>Walks over a tree\<close>

datatype span_tree = Node (tr_span: span_node) (tr_children: "span_tree list")

definition tr_id :: "span_tree \<Rightarrow> jsstr" where
  [js_eval]: "tr_id t = nd_id (tr_span t)"

text \<open>\<open>getSpanPath\<close>: a path of identifiers that the walk extends, and shortens where it found nothing.\<close>

fun path_walk :: "jsstr \<Rightarrow> span_tree \<Rightarrow> jsstr list \<Rightarrow> bool \<times> jsstr list"
  and path_walks :: "jsstr \<Rightarrow> span_tree list \<Rightarrow> bool \<times> jsstr list \<Rightarrow> bool \<times> jsstr list" where
  "path_walk i (Node n ts) path =
     (let path = path @ [nd_id n]
      in if i = nd_id n then (True, path)
         else (case path_walks i ts (False, path) of (found, path) \<Rightarrow> if found then (True, path) else (False, butlast path)))"
| "path_walks i [] st = st"
| "path_walks i (t # ts) (found, path) =
     (case path_walk i t path of (f, path) \<Rightarrow> path_walks i ts (found \<or> f, path))"

definition getSpanPath :: "span_tree \<Rightarrow> jsstr \<Rightarrow> jsstr list" where
  [js_eval]: "getSpanPath t i = snd (path_walk i t [])"

text \<open>\<open>getTreeLevelsCount\<close> and the number of spans and of levels in \<open>getMetaDataFromSpanTree\<close>.\<close>

fun level_walk :: "span_tree \<Rightarrow> nat \<Rightarrow> nat \<Rightarrow> nat"
  and level_walks :: "span_tree list \<Rightarrow> nat \<Rightarrow> nat \<Rightarrow> nat" where
  "level_walk (Node n ts) level levels = level_walks ts (level + 1) (max level levels)"
| "level_walks [] level levels = levels"
| "level_walks (t # ts) level levels = level_walks ts level (level_walk t level levels)"

definition getTreeLevelsCount :: "span_tree option \<Rightarrow> nat" where
  [js_eval]: "getTreeLevelsCount t = (case t of None \<Rightarrow> 0 | Some t \<Rightarrow> level_walk t 1 1)"

text \<open>
  \<open>Math.min\<close>, \<open>Math.max\<close> and the sum of numbers: \<open>NaN\<close> stays, \<open>null\<close> counts as zero. The bounds start at
  infinity, which is \<open>None\<close>.
\<close>

fun plain_number :: "web_number \<Rightarrow> web_number" where
  "plain_number NullNumber = Number 0"
| "plain_number n = n"

fun add_numbers :: "web_number \<Rightarrow> web_number \<Rightarrow> web_number" where
  "add_numbers a b = (case (plain_number a, plain_number b) of (Number x, Number y) \<Rightarrow> Number (x + y) | _ \<Rightarrow> NotANumber)"

fun extreme :: "(int \<Rightarrow> int \<Rightarrow> int) \<Rightarrow> web_number option \<Rightarrow> web_number \<Rightarrow> web_number option" where
  "extreme f None b = Some (plain_number b)"
| "extreme f (Some a) b = Some (case (plain_number a, plain_number b) of (Number x, Number y) \<Rightarrow> Number (f x y) | _ \<Rightarrow> NotANumber)"

record trace_meta =
  tm_start :: "web_number option"
  tm_end :: "web_number option"
  tm_spans :: nat
  tm_levels :: nat

fun meta_walk :: "span_tree \<Rightarrow> nat \<Rightarrow> trace_meta \<Rightarrow> trace_meta"
  and meta_walks :: "span_tree list \<Rightarrow> nat \<Rightarrow> trace_meta \<Rightarrow> trace_meta" where
  "meta_walk (Node n ts) level m = meta_walks ts (level + 1)
     \<lparr>tm_start = extreme min (tm_start m) (nd_start n),
      tm_end = extreme max (tm_end m) (add_numbers (nd_start n) (nd_value n)),
      tm_spans = tm_spans m + 1, tm_levels = max (tm_levels m) level\<rparr>"
| "meta_walks [] level m = m"
| "meta_walks (t # ts) level m = meta_walks ts level (meta_walk t level m)"

fun scale_number :: "web_number \<Rightarrow> web_number" where
  "scale_number n = (case plain_number n of Number x \<Rightarrow> Number (x * 1000000) | m \<Rightarrow> m)"

definition getMetaDataFromSpanTree :: "span_tree \<Rightarrow> trace_meta \<times> web_number" where
  [js_eval]: "getMetaDataFromSpanTree t =
     (let m = meta_walk t 1 \<lparr>tm_start = None, tm_end = None, tm_spans = 0, tm_levels = 1\<rparr>;
          m = m\<lparr>tm_start := map_option scale_number (tm_start m), tm_end := map_option scale_number (tm_end m)\<rparr>
      in (m, case (tm_start m, tm_end m) of (Some (Number a), Some (Number b)) \<Rightarrow> Number (b - a) | _ \<Rightarrow> NotANumber))"

text \<open>\<open>getNodeById\<close>: of several nodes with the identifier the last one counts, in either list of trees.\<close>

fun nodes_with :: "jsstr \<Rightarrow> span_tree \<Rightarrow> span_tree list"
  and nodes_with_all :: "jsstr \<Rightarrow> span_tree list \<Rightarrow> span_tree list" where
  "nodes_with i (Node n ts) = (if i = nd_id n then [Node n ts] else []) @ nodes_with_all i ts"
| "nodes_with_all i [] = []"
| "nodes_with_all i (t # ts) = nodes_with i t @ nodes_with_all i ts"

definition last_node :: "span_tree list \<Rightarrow> span_tree option" where
  [js_eval]: "last_node ts = (if ts = [] then None else Some (last ts))"

definition getNodeById :: "jsstr \<Rightarrow> (span_tree list \<times> span_tree list) option \<Rightarrow> span_tree option \<times> span_tree option" where
  [js_eval]: "getNodeById i data =
     (case data of
        None \<Rightarrow> (None, None)
      | Some (trees, missing) \<Rightarrow> (last_node (nodes_with_all i trees), last_node (nodes_with_all i missing)))"

text \<open>
  \<open>isSpanPresent\<close>: the nodes whose text holds what is searched, in the order of the walk; the text of a
  node without its children is the platform's.
\<close>

fun isSpanPresent :: "(span_node \<Rightarrow> jsstr) \<Rightarrow> jsstr \<Rightarrow> span_tree \<Rightarrow> span_tree list"
  and spans_present :: "(span_node \<Rightarrow> jsstr) \<Rightarrow> jsstr \<Rightarrow> span_tree list \<Rightarrow> span_tree list" where
  "isSpanPresent shown key (Node n ts) = (if str_includes (shown n) key then [Node n ts] else []) @ spans_present shown key ts"
| "spans_present shown key [] = []"
| "spans_present shown key (t # ts) = isSpanPresent shown key t @ spans_present shown key ts"

text \<open>\<open>getSortedData\<close>: the children of every node in the order of a library function.\<close>

function getSortedData :: "(span_tree list \<Rightarrow> span_tree list) \<Rightarrow> span_tree \<Rightarrow> span_tree" where
  "getSortedData order (Node n ts) = Node n (order (map (getSortedData order) ts))"
  by pat_completeness auto
termination by (relation "measure (\<lambda>(order, t). size t)") (auto simp: less_Suc_eq_le intro: size_list_estimation')

end
