(* ===== verification/Web_Trace_Laws.thy ===== *)
theory Web_Trace_Laws
  imports Web_Trace
begin

section \<open>No span of a trace is lost, and every span is found\<close>

text \<open>
  The forest that \<open>spanToTreeUtil\<close> builds shows every span it was given, at the top or below another one,
  and the walk of \<open>getSpanPath\<close> returns the way from the root to a span.
\<close>

subsection \<open>Paths\<close>

fun ids_of :: "span_tree \<Rightarrow> jsstr list" where
  "ids_of (Node n ts) = nd_id n # concat (map ids_of ts)"

text \<open>A way down from the root: each span is followed by one of its children.\<close>

fun way_down :: "span_tree \<Rightarrow> jsstr list \<Rightarrow> bool" where
  "way_down t [] = False"
| "way_down (Node n ts) (i # p) = (i = nd_id n \<and> (p = [] \<or> list_ex (\<lambda>t. way_down t p) ts))"

lemma way_down_not_empty: "way_down t p \<Longrightarrow> p \<noteq> []"
  by (cases p) auto

lemma walk_in_vain:
  "i \<notin> set (ids_of t) \<Longrightarrow> path_walk i t p = (False, p)"
  "i \<notin> set (concat (map ids_of ts)) \<Longrightarrow> path_walks i ts (f, p) = (f, p)"
  by (induction i t p and i ts "(f, p)" arbitrary: and f p rule: path_walk_path_walks.induct) (auto simp: Let_def)

lemma walk_finds:
  "distinct (ids_of t) \<Longrightarrow> i \<in> set (ids_of t) \<Longrightarrow>
     \<exists>q. path_walk i t p = (True, p @ q) \<and> way_down t q \<and> last q = i"
  "distinct (concat (map ids_of ts)) \<Longrightarrow> i \<in> set (concat (map ids_of ts)) \<Longrightarrow>
     \<exists>q. path_walks i ts (f, p) = (True, p @ q) \<and> list_ex (\<lambda>t. way_down t q) ts \<and> last q = i"
proof (induction i t p and i ts "(f, p)" arbitrary: and f p rule: path_walk_path_walks.induct)
  case (1 i n ts path)
  show ?case
  proof (cases "i = nd_id n")
    case True
    then show ?thesis by (intro exI [of _ "[i]"]) simp
  next
    case False
    then obtain q where "path_walks i ts (False, path @ [nd_id n]) = (True, (path @ [nd_id n]) @ q)"
        and "list_ex (\<lambda>t. way_down t q) ts" and "last q = i"
      using 1 by fastforce
    then show ?thesis using False way_down_not_empty
      by (intro exI [of _ "nd_id n # q"]) (auto simp: list_ex_iff)
  qed
next
  case (2 i f p)
  then show ?case by simp
next
  case (3 i t ts f p)
  show ?case
  proof (cases "i \<in> set (ids_of t)")
    case True
    then obtain q where "path_walk i t p = (True, p @ q)" and "way_down t q" and "last q = i"
      using 3(1) 3(3) by (auto simp: Let_def)
    moreover have "i \<notin> set (concat (map ids_of ts))" using True 3(3) by auto
    ultimately show ?thesis by (intro exI [of _ q]) (simp add: walk_in_vain del: set_concat)
  next
    case False
    then have "i \<in> set (concat (map ids_of ts))" using 3(4) by auto
    then obtain q where "path_walks i ts (f, p) = (True, p @ q)" and "list_ex (\<lambda>t. way_down t q) ts" and "last q = i"
      using 3(2) [of False] 3(3) False by (auto simp: walk_in_vain(1))
    then show ?thesis using False by (intro exI [of _ q]) (simp add: walk_in_vain(1))
  qed
qed

subsection \<open>The nodes that hang below others\<close>

text \<open>The nodes marked as processed, and the children of all nodes: they are the same at every moment.\<close>

definition marked :: "span_map \<Rightarrow> jsstr set" where
  "marked m = {k. \<exists>n. map_of m k = Some n \<and> nd_processed n}"

definition hung :: "span_map \<Rightarrow> jsstr set" where
  "hung m = {c. \<exists>k n. map_of m k = Some n \<and> c \<in> set (nd_children n)}"

lemma map_of_change_node [simp]:
  "map_of (change_node i f m) k = (if k = i then map_option f (map_of m k) else map_of m k)"
  by (induction m) (auto simp: change_node_def)

lemma keys_change_node [simp]: "map fst (change_node i f m) = map fst m"
  by (induction m) (auto simp: change_node_def)

lemma key_set_change_node [simp]: "fst ` set (change_node i f m) = fst ` set m"
  by (metis keys_change_node set_map)

lemma change_children:
  assumes "\<And>n. nd_processed (f n) = nd_processed n" and "\<And>n. nd_children (f n) = nd_children n @ [c]"
    and "i \<in> fst ` set m"
  shows "marked (change_node i f m) = marked m \<and> hung (change_node i f m) = insert c (hung m)"
proof -
  obtain n where "map_of m i = Some n" using assms(3) by (metis map_of_eq_None_iff not_None_eq)
  then show ?thesis using assms(1,2) by (auto simp: marked_def hung_def split: if_splits) (metis option.inject)
qed

lemma change_mark:
  assumes "i \<in> fst ` set m"
  shows "marked (change_node i (\<lambda>n. n\<lparr>nd_processed := True\<rparr>) m) = insert i (marked m)"
    and "hung (change_node i (\<lambda>n. n\<lparr>nd_processed := True\<rparr>) m) = hung m"
proof -
  obtain n where "map_of m i = Some n" using assms by (metis map_of_eq_None_iff not_None_eq)
  then show "marked (change_node i (\<lambda>n. n\<lparr>nd_processed := True\<rparr>) m) = insert i (marked m)"
    and "hung (change_node i (\<lambda>n. n\<lparr>nd_processed := True\<rparr>) m) = hung m"
    by (auto simp: marked_def hung_def split: if_splits) (metis option.inject)
qed

definition coherent :: "jsstr list \<Rightarrow> span_map \<Rightarrow> bool" where
  "coherent ks m \<longleftrightarrow> distinct (map fst m) \<and> marked m = hung m \<and> set ks \<subseteq> fst ` set m"

lemma attach_coherent: "coherent ks (fs_map st) \<Longrightarrow> i \<in> set ks \<Longrightarrow> coherent ks (fs_map (attach i st r))"
  unfolding coherent_def attach_def using change_mark [of i "fs_map st"] by (auto simp: change_children subset_iff)

lemma append_missing:
  assumes "i \<notin> fst ` set m"
  shows "marked (m @ [(i, missing_node i)]) = marked m" and "hung (m @ [(i, missing_node i)]) = hung m"
proof -
  have none: "map_of m i = None" using assms by (simp add: map_of_eq_None_iff)
  then have "map_of (m @ [(i, missing_node i)]) = (map_of m)(i \<mapsto> missing_node i)"
    by (auto simp: map_add_def fun_eq_iff split: option.splits)
  with none show "marked (m @ [(i, missing_node i)]) = marked m" and "hung (m @ [(i, missing_node i)]) = hung m"
    by (auto simp: marked_def hung_def missing_node_def split: if_splits) (metis option.distinct(1))
qed

lemma note_cases:
  "fs_map (note_reference st r) = fs_map st \<or>
   (\<exists>i. i \<notin> fst ` set (fs_map st) \<and> fs_map (note_reference st r) = fs_map st @ [(i, missing_node i)])"
  by (auto simp: note_reference_def Let_def split: option.split)

lemma note_coherent: "coherent ks (fs_map st) \<Longrightarrow> coherent ks (fs_map (note_reference st r))"
  using note_cases [of st r] by (auto simp: coherent_def append_missing)

lemma foldl_keeps:
  "(\<And>st x. x \<in> set xs \<Longrightarrow> P st \<Longrightarrow> P (f st x)) \<Longrightarrow> P st \<Longrightarrow> P (foldl f st xs)"
  by (induction xs arbitrary: st) auto

lemma place_keeps:
  assumes "\<And>st r. P st \<Longrightarrow> P (note_reference st r)" and "\<And>st r. P st \<Longrightarrow> P (attach i st r)" and "P st"
  shows "P (place_span st i)"
proof -
  have "P (foldl (attach i) (foldl note_reference st refs) refs)" for refs
    by (rule foldl_keeps [where P = P], rule assms(2), assumption,
        rule foldl_keeps [where P = P], rule assms(1), assumption, rule assms(3))
  then show ?thesis using assms(3) by (simp add: place_span_def split: option.split)
qed

lemma place_coherent: "coherent ks (fs_map st) \<Longrightarrow> i \<in> set ks \<Longrightarrow> coherent ks (fs_map (place_span st i))"
  by (rule place_keeps [of "\<lambda>st. coherent ks (fs_map st)"]) (auto intro: note_coherent attach_coherent)

lemma names_are_keys [simp]: "set (own_names m) = fst ` set m"
  by (auto simp: own_names_def Let_def)

lemma build_map_values: "map_of (build_map ns) k = Some n \<Longrightarrow> n \<in> set ns \<and> nd_id n = k"
proof (induction ns rule: rev_induct)
  case (snoc x xs)
  then show ?case by (auto simp: build_map_def split: if_splits)
qed (simp add: build_map_def)

lemma build_map_keys: "fst ` set (build_map ns) = nd_id ` set ns"
  by (induction ns rule: rev_induct) (simp_all add: build_map_def)

lemma build_map_distinct: "distinct (map fst (build_map ns))"
  by (induction ns rule: rev_induct) (simp_all add: build_map_def)

lemma linked_coherent:
  assumes "\<And>n. n \<in> set ns \<Longrightarrow> \<not> nd_processed n \<and> nd_children n = []"
  shows "coherent (own_names (build_map ns)) (fs_map (linked_nodes ns))"
proof -
  have "coherent (own_names (build_map ns)) (build_map ns)"
    using assms build_map_values [of ns] build_map_distinct [of ns] unfolding coherent_def marked_def hung_def by fastforce
  then show ?thesis
    unfolding linked_nodes_def by (intro foldl_keeps [where P = "\<lambda>st. coherent _ (fs_map st)"]) (simp_all add: place_coherent)
qed

text \<open>A span keeps its references, and one that refers to a trace leaves a trace behind.\<close>

definition refers :: "jsstr \<Rightarrow> reference list \<Rightarrow> forest_state \<Rightarrow> bool" where
  "refers k r st \<longleftrightarrow> (\<exists>n. map_of (fs_map st) k = Some n \<and> nd_refs n = Some r)"

lemma note_refers: "refers k r st \<Longrightarrow> refers k r (note_reference st x)"
  using note_cases [of st x] by (auto simp: refers_def map_add_def map_of_eq_None_iff split: option.split)

lemma attach_refers: "refers k r st \<Longrightarrow> refers k r (attach i st x)"
  by (auto simp: refers_def attach_def)

lemma attach_traces [simp]: "fs_traces (attach i st x) = fs_traces st"
  by (simp add: attach_def)

lemma note_traces: "fs_traces (note_reference st x) \<noteq> []"
  by (auto simp: note_reference_def Let_def split: option.split)

lemma place_traces_kept: "fs_traces st \<noteq> [] \<Longrightarrow> fs_traces (place_span st i) \<noteq> []"
  by (rule place_keeps [of "\<lambda>st. fs_traces st \<noteq> []"]) (simp_all add: note_traces)

lemma place_leaves_trace:
  assumes "refers k r st" and "r \<noteq> []"
  shows "fs_traces (place_span st k) \<noteq> []"
proof -
  obtain x xs where r: "r = x # xs" using assms(2) by (cases r) auto
  have "fs_traces (foldl note_reference (note_reference st x) xs) \<noteq> []"
    by (rule foldl_keeps [where P = "\<lambda>st. fs_traces st \<noteq> []"]) (simp_all add: note_traces)
  then have "fs_traces (foldl note_reference st r) \<noteq> []" using r by simp
  then have "fs_traces (foldl (attach k) (foldl note_reference st r) r) \<noteq> []"
    by (rule foldl_keeps [where P = "\<lambda>st. fs_traces st \<noteq> []", rotated]) simp
  then show ?thesis using assms(1) by (auto simp: refers_def place_span_def)
qed

lemma linked_traces:
  assumes "refers k r st" and "r \<noteq> []" and "k \<in> set ks"
  shows "fs_traces (foldl place_span st ks) \<noteq> []"
  using assms
proof (induction ks arbitrary: st)
  case (Cons i ks)
  show ?case
  proof (cases "i = k")
    case True
    then have "fs_traces (place_span st i) \<noteq> []" using place_leaves_trace Cons.prems by simp
    then show ?thesis by (simp add: foldl_keeps [where P = "\<lambda>st. fs_traces st \<noteq> []"] place_traces_kept)
  next
    case False
    have "refers k r (place_span st i)"
      using Cons.prems(1) by (intro place_keeps [of "refers k r"]) (simp_all add: note_refers attach_refers)
    then show ?thesis using Cons False by simp
  qed
qed simp

subsection \<open>The nodes at the top\<close>

definition at_top :: "forest \<Rightarrow> jsstr set" where
  "at_top f = set (fo_trees f) \<union> set (fo_missing f)"

lemma sort_by_traces_top: "sort_by_traces i ts f = Some f' \<Longrightarrow> ts \<noteq> [] \<Longrightarrow> at_top f' = insert i (at_top f)"
proof (induction i ts f rule: sort_by_traces.induct)
  case (3 i t ts f)
  then show ?case by (cases ts) (auto simp: at_top_def split: if_splits)
qed simp_all

lemma collect_roots_top:
  "collect_roots m ts ks f = Some f' \<Longrightarrow> ts \<noteq> [] \<Longrightarrow> at_top f' = at_top f \<union> {k \<in> set ks. map_of m k \<noteq> None}"
proof (induction m ts ks f rule: collect_roots.induct)
  case (2 m ts i ks f)
  then show ?case
    using sort_by_traces_top [of i ts f] by (auto simp: at_top_def split: option.splits if_splits)
qed simp

lemma free_keys:
  assumes "distinct (map fst m)"
  shows "fst ` set (free_nodes m) = fst ` set m - marked m"
  using assms by (auto simp: free_nodes_def marked_def map_of_eq_Some_iff image_iff) (metis eq_key_imp_eq_value)+

lemma top_nodes:
  assumes "collect_roots (free_nodes m) ts (own_names (free_nodes m)) \<lparr>fo_trees = [], fo_missing = []\<rparr> = Some f"
    and "ts \<noteq> []" and "distinct (map fst m)"
  shows "at_top f = fst ` set m - marked m"
  using collect_roots_top [OF assms(1,2)] free_keys [OF assms(3)]
  by (auto simp: at_top_def map_of_eq_None_iff)

lemma span_object_fresh:
  "span_object parse s = Some n \<Longrightarrow>
     \<not> nd_processed n \<and> nd_children n = [] \<and> nd_id n = sn_id s \<and> nd_refs n = Some (getSpanReferences (sn_refs s) True)"
  by (auto simp: span_object_def split: option.splits)

lemma all_some_map: "all_some (map g xs) = Some ys \<longleftrightarrow> list_all2 (\<lambda>x y. g x = Some y) xs ys"
proof (induction xs arbitrary: ys)
  case Nil
  then show ?case by (cases ys) simp_all
next
  case (Cons x xs)
  then show ?case by (cases ys) (auto split: option.split)
qed

lemma object_of_span:
  assumes "list_all2 (\<lambda>s n. span_object parse s = Some n) spans ns" and "s \<in> set spans"
  shows "\<exists>n. n \<in> set ns \<and> span_object parse s = Some n"
  using assms by (auto simp: list_all2_conv_all_nth in_set_conv_nth)

lemma span_of_object:
  assumes "list_all2 (\<lambda>s n. span_object parse s = Some n) spans ns" and "n \<in> set ns"
  shows "\<exists>s. s \<in> set spans \<and> span_object parse s = Some n"
  using assms by (auto simp: list_all2_conv_all_nth in_set_conv_nth)

lemma linked_traces_of_spans:
  assumes objects: "list_all2 (\<lambda>s n. span_object parse s = Some n) spans ns"
    and distinct: "distinct (map sn_id spans)"
    and s: "s \<in> set spans" "getSpanReferences (sn_refs s) True \<noteq> []"
  shows "fs_traces (linked_nodes ns) \<noteq> []"
proof -
  obtain n where n: "n \<in> set ns" "span_object parse s = Some n" using object_of_span [OF objects s(1)] by blast
  have "sn_id s \<in> fst ` set (build_map ns)" using n span_object_fresh [OF n(2)] by (force simp: build_map_keys)
  then obtain n' where n': "map_of (build_map ns) (sn_id s) = Some n'" by (metis map_of_eq_None_iff not_None_eq)
  then have "n' \<in> set ns" and id: "nd_id n' = sn_id s" using build_map_values by blast+
  then obtain s' where s': "s' \<in> set spans" "span_object parse s' = Some n'" using span_of_object [OF objects] by blast
  then have "sn_id s' = sn_id s" using id span_object_fresh by metis
  then have "s' = s" using distinct s' s by (auto simp: distinct_map inj_on_def)
  then have "refers (sn_id s) (getSpanReferences (sn_refs s) True) \<lparr>fs_map = build_map ns, fs_traces = []\<rparr>"
    using n' s' span_object_fresh [of parse s n'] by (simp add: refers_def)
  moreover have "sn_id s \<in> set (own_names (build_map ns))" using n' by (force dest: map_of_SomeD)
  ultimately show ?thesis unfolding linked_nodes_def by (rule linked_traces [OF _ s(2)])
qed


text \<open>Two spans of one service: the second is a child of the first.\<close>

definition demo_span :: "jsstr \<Rightarrow> jsstr \<Rightarrow> trace_span" where
  [js_eval]: "demo_span i parent =
     \<lparr>sn_start = 5, sn_id = i, sn_trace = js ''t'', sn_service = js ''shop'', sn_name = js ''pay'', sn_duration = js ''70'',
      sn_keys = Arr [], sn_values = Arr [],
      sn_refs = [js ''{TraceId=t, SpanId='' @ parent @ js '', RefType=CHILD_OF}''], sn_events = None, sn_error = False,
      sn_message = [], sn_status = [], sn_kind = []\<rparr>"

definition demo_trace :: "trace_span list" where
  [js_eval]: "demo_trace = [demo_span (js ''a'') [], demo_span (js ''b'') (js ''a'')]"

lemma demo_forest:
  "map_option (map_prod (map (map_prod id nd_children)) id) (spanToTreeUtil (\<lambda>_. None) demo_trace) =
     Some ([(js ''a'', [js ''b'']), (js ''b'', [])], \<lparr>fo_trees = [js ''a''], fo_missing = []\<rparr>)"
  by code_simp


subsection \<open>The way to a span\<close>

text \<open>
  \<open>getSpanPath\<close> on a tree with different identifiers: it returns a way that leads from the root down
  to the span that is asked for, and nothing if the span is not in the tree.
\<close>

theorem span_path_leads_down:
  assumes "distinct (ids_of t)"
  shows "if i \<in> set (ids_of t) then way_down t (getSpanPath t i) \<and> last (getSpanPath t i) = i else getSpanPath t i = []"
  using walk_finds(1) [OF assms, of i "[]"] walk_in_vain(1) [of i t "[]"] by (auto simp: getSpanPath_def)

definition demo_node :: "jsstr \<Rightarrow> span_node" where
  [js_eval]: "demo_node i = the (span_object (\<lambda>_. None) (demo_span i []))"

definition demo_tree :: span_tree where
  [js_eval]: "demo_tree = Node (demo_node (js ''a''))
     [Node (demo_node (js ''b'')) [], Node (demo_node (js ''c'')) [Node (demo_node (js ''d'')) []]]"

lemma span_path_leads_down_witness:
  "way_down demo_tree (getSpanPath demo_tree (js ''d'')) \<and> getSpanPath demo_tree (js ''d'') = [js ''a'', js ''c'', js ''d''] \<and>
   getSpanPath demo_tree (js ''e'') = []"
proof -
  have d: "distinct (ids_of demo_tree)" and "js ''d'' \<in> set (ids_of demo_tree)" and "js ''e'' \<notin> set (ids_of demo_tree)"
    and "getSpanPath demo_tree (js ''d'') = [js ''a'', js ''c'', js ''d'']"
    by code_simp+
  then show ?thesis using span_path_leads_down [OF d, of "js ''d''"] span_path_leads_down [OF d, of "js ''e''"] by simp
qed

end
