(* ===== verification/Web_Settings.thy ===== *)
theory Web_Settings
  imports Server_Api
begin

section \<open>The AI settings of the web client (\<open>frontend/src/container/AgentSettings\<close>)\<close>

text \<open>
  The forms in which administrators set the model (\<open>index.tsx\<close>), the MCP servers
  (\<open>MCPPluginSettings.tsx\<close>), the hosts and the policies of commands (\<open>SSHSecuritySettings.tsx\<close>): what a
  field changes, when a button is enabled, what is sent and what the page keeps of the reply. The fields
  for numbers hold numbers here; the service refuses anything else.
\<close>

subsection \<open>The model\<close>

record settings_page =
  sg_settings :: model_view
  sg_key :: jsstr

definition initial_settings :: settings_page where
  [js_eval]: "initial_settings = \<lparr>sg_settings = default_settings, sg_key = []\<rparr>"

definition no_base_hint :: jsstr where
  [js_eval]: "no_base_hint = ([35831, 20808, 22635, 20889, 33258, 23450, 20041] @ js '' Base URL'')"

definition endpointFor :: "model_view \<Rightarrow> jsstr" where
  [js_eval]: "endpointFor m =
     (let official = (if md_provider m = OpenAI then js ''https://api.openai.com/v1'' else js ''https://api.anthropic.com/v1'');
          base = (if md_mode m = OfficialEndpoint then official else drop_slashes (trim (md_base m)));
          normalized = (if md_provider m = OpenAI then drop_suffix (js ''/responses'') base else drop_suffix (js ''/messages'') base)
      in if base = [] then no_base_hint
         else normalized @ [47] @ (if md_provider m = OpenAI then js ''responses'' else js ''messages''))"

definition canTest :: "settings_page \<Rightarrow> bool" where
  [js_eval]: "canTest p \<longleftrightarrow> trim (md_model (sg_settings p)) \<noteq> [] \<and> (trim (sg_key p) \<noteq> [] \<or> md_has_key (sg_settings p))
     \<and> (md_mode (sg_settings p) = OfficialEndpoint \<or> trim (md_base (sg_settings p)) \<noteq> [])"

datatype settings_edit =
    SetProvider model_provider | SetModel jsstr | SetMode endpoint_mode | SetBase jsstr | SetKey jsstr
  | SetTemperature "rat option" | SetTokens int | SetSteps int | SetTimeout int | SetRetries int
  | SetChoice tool_choice | SetInstructions jsstr | SetMemory int

definition changeProvider :: "model_provider \<Rightarrow> model_view \<Rightarrow> model_view" where
  [js_eval]: "changeProvider k m = m\<lparr>md_provider := k, md_mode := OfficialEndpoint, md_base := [],
     md_model := (if k = OpenAI then js ''gpt-4o-mini'' else js ''claude-opus-4-8'')\<rparr>"

text \<open>The field of the base is shown for an own endpoint only.\<close>

fun edit_settings :: "settings_edit \<Rightarrow> settings_page \<Rightarrow> settings_page" where
  "edit_settings (SetProvider k) p = p\<lparr>sg_settings := changeProvider k (sg_settings p)\<rparr>"
| "edit_settings (SetModel t) p = p\<lparr>sg_settings := (sg_settings p)\<lparr>md_model := t\<rparr>\<rparr>"
| "edit_settings (SetMode m) p = p\<lparr>sg_settings := (sg_settings p)\<lparr>md_mode := m\<rparr>\<rparr>"
| "edit_settings (SetBase t) p =
     (if md_mode (sg_settings p) = CustomEndpoint then p\<lparr>sg_settings := (sg_settings p)\<lparr>md_base := t\<rparr>\<rparr> else p)"
| "edit_settings (SetKey t) p = p\<lparr>sg_key := t\<rparr>"
| "edit_settings (SetTemperature t) p = p\<lparr>sg_settings := (sg_settings p)\<lparr>md_temperature := t\<rparr>\<rparr>"
| "edit_settings (SetTokens n) p = p\<lparr>sg_settings := (sg_settings p)\<lparr>md_tokens := n\<rparr>\<rparr>"
| "edit_settings (SetSteps n) p = p\<lparr>sg_settings := (sg_settings p)\<lparr>md_steps := n\<rparr>\<rparr>"
| "edit_settings (SetTimeout n) p = p\<lparr>sg_settings := (sg_settings p)\<lparr>md_timeout := n\<rparr>\<rparr>"
| "edit_settings (SetRetries n) p = p\<lparr>sg_settings := (sg_settings p)\<lparr>md_retries := n\<rparr>\<rparr>"
| "edit_settings (SetChoice k) p = p\<lparr>sg_settings := (sg_settings p)\<lparr>md_choice := k\<rparr>\<rparr>"
| "edit_settings (SetInstructions t) p = p\<lparr>sg_settings := (sg_settings p)\<lparr>md_instructions := t\<rparr>\<rparr>"
| "edit_settings (SetMemory n) p = p\<lparr>sg_settings := (sg_settings p)\<lparr>md_memory := n\<rparr>\<rparr>"

text \<open>What the schema of the service takes from \<open>{ ...settings, apiKey: apiKey || undefined }\<close>.\<close>

definition sent_settings :: "settings_page \<Rightarrow> model_form" where
  [js_eval]: "sent_settings p =
     (let m = sg_settings p
      in \<lparr>mf_provider = md_provider m, mf_mode = md_mode m, mf_model = md_model m, mf_base = md_base m, mf_key = sg_key p,
          mf_temperature = md_temperature m, mf_tokens = md_tokens m, mf_steps = md_steps m, mf_timeout = md_timeout m,
          mf_retries = md_retries m, mf_choice = md_choice m, mf_instructions = md_instructions m, mf_memory = md_memory m\<rparr>)"

definition settings_request :: "settings_page \<Rightarrow> route" where
  [js_eval]: "settings_request p = PutSettings (Fit (sent_settings p))"

text \<open>\<open>save\<close> with the reply: an error is shown and leaves the page as it is.\<close>

definition settings_saved :: "reply \<Rightarrow> settings_page \<Rightarrow> settings_page" where
  [js_eval]: "settings_saved r p =
     (case reply_content r of SettingsContent (Some m) \<Rightarrow> \<lparr>sg_settings = m, sg_key = []\<rparr> | _ \<Rightarrow> p)"

definition save_disabled :: "settings_page \<Rightarrow> bool" where
  [js_eval]: "save_disabled p \<longleftrightarrow> trim (md_model (sg_settings p)) = []"

subsection \<open>MCP servers\<close>

record mcp_page =
  mp_servers :: "mcp_view list"
  mp_selected :: "jsstr option"
  mp_form :: mcp_form
  mp_headers :: jsstr

definition empty_server :: mcp_form where
  [js_eval]: "empty_server = \<lparr>cf_name = [], cf_description = [], cf_url = [], cf_enabled = True, cf_headers = Some [], cf_timeout = 30000\<rparr>"

datatype mcp_edit =
    ServerName jsstr | ServerTimeout int | ServerUrl jsstr | ServerDescription jsstr | ServerHeaders jsstr | ServerEnabled bool

fun edit_server :: "mcp_edit \<Rightarrow> mcp_page \<Rightarrow> mcp_page" where
  "edit_server (ServerName t) p = p\<lparr>mp_form := (mp_form p)\<lparr>cf_name := t\<rparr>\<rparr>"
| "edit_server (ServerTimeout n) p = p\<lparr>mp_form := (mp_form p)\<lparr>cf_timeout := n\<rparr>\<rparr>"
| "edit_server (ServerUrl t) p = p\<lparr>mp_form := (mp_form p)\<lparr>cf_url := t\<rparr>\<rparr>"
| "edit_server (ServerDescription t) p = p\<lparr>mp_form := (mp_form p)\<lparr>cf_description := t\<rparr>\<rparr>"
| "edit_server (ServerHeaders t) p = p\<lparr>mp_headers := t\<rparr>"
| "edit_server (ServerEnabled b) p = p\<lparr>mp_form := (mp_form p)\<lparr>cf_enabled := b\<rparr>\<rparr>"

definition server_save_disabled :: "mcp_page \<Rightarrow> bool" where
  [js_eval]: "server_save_disabled p \<longleftrightarrow> trim (cf_name (mp_form p)) = [] \<or> trim (cf_url (mp_form p)) = []"

datatype header_error = NotParsed | NoObject

text \<open>
  \<open>parseHeaders\<close>, with \<open>JSON.parse\<close> as argument: a blank text keeps the headers of a server that exists
  (\<open>undefined\<close>), and is the empty object for a new one.
\<close>

definition parseHeaders :: "(jsstr \<Rightarrow> jsval option) \<Rightarrow> jsstr \<Rightarrow> bool \<Rightarrow> header_error + jsval" where
  [js_eval]: "parseHeaders parse t preserve =
     (if trim t = [] then Inr (if preserve then Undef else Obj [])
      else case parse t of
             None \<Rightarrow> Inl NotParsed
           | Some (Obj kvs) \<Rightarrow> Inr (Obj kvs)
           | Some _ \<Rightarrow> Inl NoObject)"

text \<open>What the schema of the service makes of the headers: texts by name, none, or a refusal.\<close>

definition header_texts :: "(jsstr \<times> jsval) list \<Rightarrow> headers option" where
  [js_eval]: "header_texts kvs =
     (if list_all (\<lambda>(k, v). \<exists>t. v = Str t) kvs then Some (map (\<lambda>(k, v). (k, case v of Str t \<Rightarrow> t | _ \<Rightarrow> [])) kvs) else None)"

text \<open>The schema trims the name and the description.\<close>

definition server_body :: "mcp_form \<Rightarrow> jsval \<Rightarrow> mcp_form body" where
  [js_eval]: "server_body f h =
     (let f = f\<lparr>cf_name := trim (cf_name f), cf_description := trim (cf_description f)\<rparr>
      in case h of
           Undef \<Rightarrow> Fit (f\<lparr>cf_headers := None\<rparr>)
         | Obj kvs \<Rightarrow> (case header_texts kvs of None \<Rightarrow> Unfit | Some hs \<Rightarrow> Fit (f\<lparr>cf_headers := Some hs\<rparr>))
         | _ \<Rightarrow> Unfit)"

definition select_server :: "mcp_view \<Rightarrow> mcp_page \<Rightarrow> mcp_page" where
  [js_eval]: "select_server w p = p\<lparr>mp_selected := Some (mw_id w),
     mp_form := \<lparr>cf_name = mw_name w, cf_description = mw_description w, cf_url = mw_url w, cf_enabled = mw_enabled w,
       cf_headers = None, cf_timeout = mw_timeout w\<rparr>, mp_headers := []\<rparr>"

definition reset_server :: "mcp_page \<Rightarrow> mcp_page" where
  [js_eval]: "reset_server p = p\<lparr>mp_selected := None, mp_form := empty_server, mp_headers := js ''{}''\<rparr>"

text \<open>\<open>save\<close>: nothing is sent if the headers cannot be read. An empty selection is none.\<close>

definition server_request :: "(jsstr \<Rightarrow> jsval option) \<Rightarrow> mcp_page \<Rightarrow> header_error + route" where
  [js_eval]: "server_request parse p =
     (let chosen = (case mp_selected p of None \<Rightarrow> None | Some i \<Rightarrow> if i = [] then None else Some i)
      in map_sum id (\<lambda>h. let b = server_body (mp_form p) h in (case chosen of None \<Rightarrow> PostServer b | Some i \<Rightarrow> PutServer i b))
           (parseHeaders parse (mp_headers p) (chosen \<noteq> None)))"

definition server_saved :: "mcp_view \<Rightarrow> mcp_page \<Rightarrow> mcp_page" where
  [js_eval]: "server_saved w p =
     select_server w (p\<lparr>mp_servers := (case mp_selected p of
        None \<Rightarrow> w # mp_servers p
      | Some i \<Rightarrow> if i = [] then w # mp_servers p else map (\<lambda>v. if mw_id v = mw_id w then w else v) (mp_servers p))\<rparr>)"

definition server_removed :: "mcp_page \<Rightarrow> mcp_page" where
  [js_eval]: "server_removed p =
     (case mp_selected p of
        None \<Rightarrow> p
      | Some i \<Rightarrow> if i = [] then p else reset_server (p\<lparr>mp_servers := filter (\<lambda>v. mw_id v \<noteq> i) (mp_servers p)\<rparr>))"

subsection \<open>Hosts\<close>

definition EMPTY_HOST :: host_form where
  [js_eval]: "EMPTY_HOST = \<lparr>hf_name = [], hf_hostname = [], hf_port = 22, hf_username = js ''scry-ops'', hf_auth = PrivateKey,
     hf_fingerprint = [], hf_enabled = True, hf_private_key = [], hf_passphrase = []\<rparr>"

text \<open>The form of a stored host starts without its secrets, which the service does not return.\<close>

definition host_draft :: "ssh_host option \<Rightarrow> host_form" where
  [js_eval]: "host_draft h =
     (case h of
        None \<Rightarrow> EMPTY_HOST
      | Some h \<Rightarrow> \<lparr>hf_name = sh_name h, hf_hostname = sh_hostname h, hf_port = sh_port h, hf_username = sh_username h,
          hf_auth = sh_auth h, hf_fingerprint = sh_fingerprint h, hf_enabled = sh_enabled h, hf_private_key = [], hf_passphrase = []\<rparr>)"

datatype host_edit =
    HostName jsstr | HostAddress jsstr | HostPort int | HostEnabled bool | HostKey jsstr | HostPassphrase jsstr
  | HostFingerprint jsstr | Probed jsstr

fun edit_host :: "host_edit \<Rightarrow> host_form \<Rightarrow> host_form" where
  "edit_host (HostName t) f = f\<lparr>hf_name := t\<rparr>"
| "edit_host (HostAddress t) f = f\<lparr>hf_hostname := t\<rparr>"
| "edit_host (HostPort n) f = f\<lparr>hf_port := n\<rparr>"
| "edit_host (HostEnabled b) f = f\<lparr>hf_enabled := b\<rparr>"
| "edit_host (HostKey t) f = f\<lparr>hf_private_key := t\<rparr>"
| "edit_host (HostPassphrase t) f = f\<lparr>hf_passphrase := t\<rparr>"
| "edit_host (HostFingerprint t) f = f\<lparr>hf_fingerprint := t\<rparr>"
| "edit_host (Probed t) f = f\<lparr>hf_fingerprint := t\<rparr>"

definition host_save_disabled :: "host_form \<Rightarrow> bool" where
  [js_eval]: "host_save_disabled f \<longleftrightarrow> hf_name f = [] \<or> hf_hostname f = [] \<or> hf_username f = [] \<or> hf_fingerprint f = []"

text \<open>What the schema of the service takes: the texts are trimmed.\<close>

definition sent_host :: "host_form \<Rightarrow> host_form" where
  [js_eval]: "sent_host f =
     f\<lparr>hf_name := trim (hf_name f), hf_hostname := trim (hf_hostname f), hf_fingerprint := trim (hf_fingerprint f)\<rparr>"

definition host_request :: "ssh_host option \<Rightarrow> host_form \<Rightarrow> route" where
  [js_eval]: "host_request h f =
     (case h of None \<Rightarrow> PostHost (Fit (sent_host f)) | Some h \<Rightarrow> PutHost (sh_id h) (Fit (sent_host f)))"

subsection \<open>Policies of commands\<close>

definition readonly_choices :: "jsstr list" where
  [js_eval]: "readonly_choices = map js [''system_overview'', ''disk_usage'', ''memory_usage'', ''failed_services'',
     ''network_listeners'', ''recent_errors'', ''security_preflight'']"

definition commandDraft :: ssh_command where
  [js_eval]: "commandDraft = \<lparr>sc_id = [], sc_name = [], sc_description = [], sc_command = []\<rparr>"

datatype policy_edit =
    PolicyEnabled bool | PolicyApproval bool | PolicySeconds int | Choose jsstr bool
  | CommandId nat jsstr | CommandName nat jsstr | CommandDescription nat jsstr | CommandText nat jsstr
  | RemoveCommand nat | AddCommand

definition updateCommand :: "nat \<Rightarrow> (ssh_command \<Rightarrow> ssh_command) \<Rightarrow> ssh_policy \<Rightarrow> ssh_policy" where
  [js_eval]: "updateCommand k f p = p\<lparr>sp_commands := (if k < length (sp_commands p)
     then (sp_commands p)[k := f (sp_commands p ! k)] else sp_commands p)\<rparr>"

text \<open>
  What a field of the form makes of the draft: the approval and the choice of commands belong to the
  read-only tool, the rows of commands to the other one. A box reports that it was checked only where it
  was not checked before.
\<close>

fun edit_policy :: "policy_edit \<Rightarrow> ssh_policy \<Rightarrow> ssh_policy" where
  "edit_policy (PolicyEnabled b) p = p\<lparr>sp_enabled := b\<rparr>"
| "edit_policy (PolicyApproval b) p = (if sp_tool p = ReadonlyInspect then p\<lparr>sp_approval := b\<rparr> else p)"
| "edit_policy (PolicySeconds n) p = p\<lparr>sp_seconds := n\<rparr>"
| "edit_policy (Choose i b) p =
     (if sp_tool p = ReadonlyInspect \<and> i \<in> set readonly_choices \<and> b = (i \<notin> set (sp_command_ids p))
      then p\<lparr>sp_command_ids := (if b then sp_command_ids p @ [i] else filter (\<lambda>j. j \<noteq> i) (sp_command_ids p))\<rparr> else p)"
| "edit_policy (CommandId k t) p = (if sp_tool p = ExecuteCommand then updateCommand k (\<lambda>c. c\<lparr>sc_id := t\<rparr>) p else p)"
| "edit_policy (CommandName k t) p = (if sp_tool p = ExecuteCommand then updateCommand k (\<lambda>c. c\<lparr>sc_name := t\<rparr>) p else p)"
| "edit_policy (CommandDescription k t) p =
     (if sp_tool p = ExecuteCommand then updateCommand k (\<lambda>c. c\<lparr>sc_description := t\<rparr>) p else p)"
| "edit_policy (CommandText k t) p = (if sp_tool p = ExecuteCommand then updateCommand k (\<lambda>c. c\<lparr>sc_command := t\<rparr>) p else p)"
| "edit_policy (RemoveCommand k) p = (if sp_tool p = ExecuteCommand
     then p\<lparr>sp_commands := take k (sp_commands p) @ drop (k + 1) (sp_commands p)\<rparr> else p)"
| "edit_policy AddCommand p = (if sp_tool p = ExecuteCommand \<and> length (sp_commands p) < 50
     then p\<lparr>sp_commands := sp_commands p @ [commandDraft]\<rparr> else p)"

definition sent_command :: "ssh_command \<Rightarrow> ssh_command" where
  [js_eval]: "sent_command c = c\<lparr>sc_name := trim (sc_name c), sc_description := trim (sc_description c), sc_command := trim (sc_command c)\<rparr>"

definition policy_request :: "ssh_policy \<Rightarrow> route" where
  [js_eval]: "policy_request p = PutPolicy (Some (sp_tool p)) (Fit (p\<lparr>sp_commands := map sent_command (sp_commands p)\<rparr>))"

end
