(* ===== verification/Web_Settings_Laws.thy ===== *)
theory Web_Settings_Laws
  imports Web_Settings
begin

section \<open>What the settings forms keep\<close>

text \<open>
  The page shows the endpoint the service calls, a saved form is what is stored, a secret that is left
  blank is kept, and the policy of the read-only tool stays within the schema.
\<close>

subsection \<open>The model\<close>

lemma endpoint_of_page: "endpointFor m = (case resolvedRequestEndpoint m of Inr e \<Rightarrow> e | Inl _ \<Rightarrow> no_base_hint)"
  by (cases "md_provider m"; cases "md_mode m")
     (simp_all add: endpointFor_def resolvedRequestEndpoint_def resolveBaseUrl_def Let_def js_def drop_suffix_def)

definition with_key_state :: "bool \<Rightarrow> model_view \<Rightarrow> model_view" where
  [js_eval]: "with_key_state k m = m\<lparr>md_key := [], md_has_key := k\<rparr>"

lemma encrypt_not_empty: "encryptSecret v iv t \<noteq> []"
  by (simp add: encryptSecret_def split: prod.split)

lemma settings_stored:
  assumes "model_settings s = [r]" "valid_model_form (sent_settings p)"
  shows "getModelSettings (sv_vault sv) False (snd (updateModelSettings (sv_vault sv) iv now (sent_settings p) s)) =
    Some (with_key_state (sg_key p \<noteq> [] \<or> mo_key r \<noteq> []) (sg_settings p))"
  using assms encrypt_not_empty
  by (auto simp: updateModelSettings_def getModelSettings_def changed_settings_def sent_settings_def with_key_state_def
      valid_model_form_def nonzero_or_def or_default_def Let_def)

text \<open>
  C39. Saving the settings takes effect as the page shows it: after a form within the schema was saved, the
  page shows exactly what is stored, the key is gone from it, it tells whether there is a key, and the
  endpoint it shows is the one the service calls, or a hint where the service has none.
\<close>

theorem saved_settings_take_effect:
  assumes "model_settings s = [r]" "valid_model_form (sent_settings p)"
  shows "let (answer, s') = serve sv a u (settings_request p) s; p' = settings_saved answer p
    in getModelSettings (sv_vault sv) False s' = Some (sg_settings p')
     \<and> sg_settings p' = with_key_state (sg_key p \<noteq> [] \<or> mo_key r \<noteq> []) (sg_settings p) \<and> sg_key p' = []
     \<and> endpointFor (sg_settings p') = (case resolvedRequestEndpoint (sg_settings p') of Inr e \<Rightarrow> e | Inl _ \<Rightarrow> no_base_hint)"
  using settings_stored [OF assms, of sv "ar_nonce a" "ar_now a"] assms(2)
  by (simp add: settings_request_def with_body_def changeSettings_def updateModelSettings_def settings_reply_def settings_saved_def
      endpoint_of_page Let_def)

definition demo_settings :: settings_page where
  [js_eval]: "demo_settings = edit_settings (SetBase (js ''https://x/v1/messages/'')) (edit_settings (SetMode CustomEndpoint)
     (edit_settings (SetKey (js ''k'')) (edit_settings (SetProvider Anthropic) initial_settings)))"

definition demo_model :: model_row where
  [js_eval]: "demo_model = \<lparr>mo_provider = OpenAI, mo_mode = OfficialEndpoint, mo_model = js ''m'', mo_base = [], mo_key = [],
     mo_temperature = None, mo_tokens = 100, mo_steps = 5, mo_timeout = 30, mo_retries = 0, mo_choice = AutoTools,
     mo_instructions = [], mo_memory = 10, mo_updated = 1\<rparr>"

lemma saved_settings_take_effect_witness:
  "\<forall>sv a u. let p' = settings_saved (fst (serve sv a u (settings_request demo_settings) (empty_db\<lparr>model_settings := [demo_model]\<rparr>))) demo_settings
     in sg_settings p' = with_key_state True (sg_settings demo_settings) \<and> endpointFor (sg_settings p') = js ''https://x/v1/messages''"
proof -
  have "valid_model_form (sent_settings demo_settings)" and "sg_key demo_settings \<noteq> []"
    and "endpointFor (with_key_state True (sg_settings demo_settings)) = js ''https://x/v1/messages''"
    by code_simp+
  then show ?thesis
    using saved_settings_take_effect [of "empty_db\<lparr>model_settings := [demo_model]\<rparr>" demo_model demo_settings]
    by (simp add: Let_def case_prod_unfold)
qed

subsection \<open>Blank secrets\<close>

lemma model_key_kept:
  "sg_key p = [] \<Longrightarrow> map mo_key (model_settings (snd (serve sv a u (settings_request p) s))) = map mo_key (model_settings s)"
  by (simp add: settings_request_def with_body_def changeSettings_def updateModelSettings_def changed_settings_def sent_settings_def Let_def)

lemma update_keeps: "(\<And>x. P x \<Longrightarrow> g (f x) = g x) \<Longrightarrow> map g (update_where P f xs) = map g xs"
  by (induction xs) (auto simp: update_where_def)

lemma mcp_headers_kept:
  assumes "server_request parse p = Inr q" "mp_selected p = Some i" "i \<noteq> []" "trim (mp_headers p) = []"
  shows "map mv_headers (mcp_servers (snd (serve sv a u q s))) = map mv_headers (mcp_servers s)"
proof -
  have q: "q = PutServer i (server_body (mp_form p) Undef)" using assms by (auto simp: server_request_def parseHeaders_def)
  show ?thesis
    unfolding q by (auto simp: server_body_def with_body_def changeServer_def updateMCPServerRecord_def changed_server_def Let_def
        update_keeps split: option.split)
qed

lemma host_secrets_kept:
  assumes "hf_private_key f = []" "hf_passphrase f = []" "distinct (map sh_id (ssh_hosts s))"
  shows "map (\<lambda>h. (sh_private_key h, sh_passphrase h)) (ssh_hosts (snd (serve sv a u (host_request (Some h) f) s))) =
         map (\<lambda>h. (sh_private_key h, sh_passphrase h)) (ssh_hosts s)"
proof -
  have same: "k = cur" if "stored_host (sh_id h) s = Some cur" "k \<in> set (ssh_hosts s)" "sh_id k = sh_id h" for k cur
    using that assms(3) by (auto simp: stored_host_def dest!: head_option_filterD simp: distinct_map inj_on_def)
  let ?secrets = "\<lambda>h. (sh_private_key h, sh_passphrase h)"
  have kept: "map ?secrets (update_where (\<lambda>k. sh_id k = sh_id h) (\<lambda>k. host_of_form (sh_id h) (sh_created k) (ar_now a) g) (ssh_hosts s))
      = map ?secrets (ssh_hosts s)"
    if "stored_host (sh_id h) s = Some cur" "hf_private_key g = sh_private_key cur" "hf_passphrase g = sh_passphrase cur" for cur g
    using same that by (auto simp: update_where_def host_of_form_def)
  have "map ?secrets (ssh_hosts (snd (updateSSHHost (ar_now a) (sh_id h) (sent_host f) s))) = map ?secrets (ssh_hosts s)"
    using assms(1,2)
    by (auto simp: updateSSHHost_def getSSHHostWithSecret_def simulated_for_def sent_host_def or_default_def Let_def kept
        split: option.split)
  then show ?thesis
    by (auto simp: host_request_def changeHost_def with_body_def Let_def case_prod_unfold)
qed

text \<open>
  C40. A secret that is left blank in a form is kept: saving the model settings without a key, a selected MCP
  server without headers, or a stored host without its private key and passphrase changes no stored key,
  no stored headers and no stored secret of a host.
\<close>

theorem blank_secrets_are_kept:
  assumes "sg_key p = []" and "server_request parse w = Inr q" "mp_selected w = Some i" "i \<noteq> []" "trim (mp_headers w) = []"
    and "hf_private_key f = []" "hf_passphrase f = []" "distinct (map sh_id (ssh_hosts s))"
  shows "map mo_key (model_settings (snd (serve sv a u (settings_request p) s))) = map mo_key (model_settings s)
    \<and> map mv_headers (mcp_servers (snd (serve sv a u q s))) = map mv_headers (mcp_servers s)
    \<and> map (\<lambda>h. (sh_private_key h, sh_passphrase h)) (ssh_hosts (snd (serve sv a u (host_request (Some h) f) s))) =
      map (\<lambda>h. (sh_private_key h, sh_passphrase h)) (ssh_hosts s)"
  using model_key_kept [OF assms(1)] mcp_headers_kept [OF assms(2-5)] host_secrets_kept [OF assms(6-8)] by blast

definition demo_page :: mcp_page where
  [js_eval]: "demo_page = \<lparr>mp_servers = [], mp_selected = Some (js ''v''), mp_form = empty_server, mp_headers = js '' ''\<rparr>"

definition demo_stored_host :: ssh_host where
  [js_eval]: "demo_stored_host = host_of_form (js ''h'') 1 1 (EMPTY_HOST\<lparr>hf_name := js ''db'', hf_private_key := js ''secret''\<rparr>)"

lemma blank_secrets_are_kept_witness:
  "\<forall>sv a u. map sh_private_key (ssh_hosts (snd (serve sv a u (host_request (Some demo_stored_host) (host_draft (Some demo_stored_host)))
     (empty_db\<lparr>ssh_hosts := [demo_stored_host]\<rparr>)))) = [js ''secret'']"
proof (intro allI)
  fix sv a u
  have key: "sg_key initial_settings = []" by code_simp
  have selected: "mp_selected demo_page = Some (js ''v'')" "js ''v'' \<noteq> []" "trim (mp_headers demo_page) = []" by code_simp+
  have request: "server_request (\<lambda>_. None) demo_page = Inr (PutServer (js ''v'') (server_body (mp_form demo_page) Undef))"
    by (simp add: server_request_def parseHeaders_def selected)
  have blank: "hf_private_key (host_draft (Some demo_stored_host)) = []" "hf_passphrase (host_draft (Some demo_stored_host)) = []" by code_simp+
  have "distinct (map sh_id (ssh_hosts (empty_db\<lparr>ssh_hosts := [demo_stored_host]\<rparr>)))" by simp
  from blank_secrets_are_kept [OF key request selected blank this, of sv a u demo_stored_host]
  have "map (\<lambda>h. (sh_private_key h, sh_passphrase h)) (ssh_hosts (snd (serve sv a u (host_request (Some demo_stored_host)
      (host_draft (Some demo_stored_host))) (empty_db\<lparr>ssh_hosts := [demo_stored_host]\<rparr>)))) = [(js ''secret'', [])]"
    by (simp add: demo_stored_host_def host_of_form_def EMPTY_HOST_def)
  then show "map sh_private_key (ssh_hosts (snd (serve sv a u (host_request (Some demo_stored_host) (host_draft (Some demo_stored_host)))
     (empty_db\<lparr>ssh_hosts := [demo_stored_host]\<rparr>)))) = [js ''secret'']"
    by (simp add: map_eq_Cons_conv) auto
qed

subsection \<open>The policy of the read-only tool\<close>

lemma readonly_ids: "set readonly_choices = fst ` set SSH_READONLY_COMMANDS" "length SSH_READONLY_COMMANDS = 7"
  by code_simp+

lemma few_ids:
  assumes "distinct is" "set is \<subseteq> fst ` set SSH_READONLY_COMMANDS"
  shows "length is \<le> 20"
proof -
  have "length is = card (set is)" using assms(1) by (simp add: distinct_card)
  also have "\<dots> \<le> card (fst ` set SSH_READONLY_COMMANDS)" using assms(2) by (simp add: card_mono)
  also have "\<dots> \<le> 7" by (metis card_image_le card_length finite_set le_trans readonly_ids(2))
  finally show ?thesis by simp
qed

text \<open>
  However the form of the read-only tool is edited, with a time limit within the bounds, the schema of the
  service accepts the policy.
\<close>

lemma readonly_policy_stays_valid:
  assumes "sp_tool p = ReadonlyInspect" "valid_ssh_policy p" "list_all (\<lambda>e. \<forall>n. e = PolicySeconds n \<longrightarrow> 5 \<le> n \<and> n \<le> 120) es"
  shows "sp_tool (fold edit_policy es p) = ReadonlyInspect \<and> valid_ssh_policy (fold edit_policy es p)"
  using assms
proof (induction es arbitrary: p)
  case (Cons e es)
  have "sp_tool (edit_policy e p) = ReadonlyInspect" using Cons.prems(1) by (cases e) auto
  moreover have "valid_ssh_policy (edit_policy e p)"
  proof (cases e)
    case (Choose i b)
    then show ?thesis using Cons.prems(1,2) few_ids
      by (auto simp: valid_ssh_policy_def list_all_iff readonly_ids few_ids subset_iff)
  qed (use Cons.prems in \<open>auto simp: valid_ssh_policy_def\<close>)
  ultimately show ?case using Cons by simp
qed simp

end
