(* ===== verification/Web_Client.thy ===== *)
theory Web_Client
  imports Server_Api
begin

section \<open>The client of the agent service (\<open>frontend/src/api/agent/client.ts\<close>)\<close>

text \<open>
  What every call of the web client puts on the wire, and the table of routes that the service registers
  (\<open>server.ts\<close>). Records that are sent as they are given are JSON values here. The query of an address is
  the list of its names and values; how it is written as a text belongs to the platform.
\<close>

datatype http_method = HttpGet | HttpPost | HttpPut | HttpPatch | HttpDelete

record http_request =
  hr_method :: http_method
  hr_path :: jsstr
  hr_query :: "(jsstr \<times> jsstr) list"
  hr_headers :: "(jsstr \<times> jsstr) list"
  hr_body :: "jsval option"

text \<open>\<open>request\<close>: the headers every call has.\<close>

definition sent :: "http_method \<Rightarrow> jsstr \<Rightarrow> (jsstr \<times> jsstr) list \<Rightarrow> jsstr \<Rightarrow> jsval option \<Rightarrow> http_request" where
  [js_eval]: "sent m path query token body =
     \<lparr>hr_method = m, hr_path = path, hr_query = query,
      hr_headers = [(js ''Content-Type'', js ''application/json''), (js ''Authorization'', js ''Bearer '' @ token)], hr_body = body\<rparr>"

text \<open>
  \<open>request\<close> with the response: its status and what its body parses to. \<open>Broken\<close> is an exception of the
  parser or of a body that is \<open>null\<close>.
\<close>

datatype answer = Answer jsval | Refused jsstr | Broken

definition received :: "platform \<Rightarrow> nat \<Rightarrow> jsval option \<Rightarrow> answer" where
  [js_eval]: "received pf status body =
     (if 200 \<le> status \<and> status < 300 then
        (if status = 204 then Answer Undef else case body of None \<Rightarrow> Broken | Some v \<Rightarrow> Answer v)
      else
        (let v = or_else body (Obj [])
         in if v = Null then Broken
            else Refused (let e = get_prop (fields_of v) (js ''error'')
                          in if truthy e then text_of pf e else js ''Agent API '' @ nat_digits status)))"

text \<open>The calls. The three last ones are those of the chat page, which do not go through \<open>request\<close>.\<close>

datatype client_call =
    ListThreads | CreateThread jsstr | ReadThread jsstr | RemoveThread jsstr
  | ReadModelSettings | SaveModelSettings jsval | TestModel jsval | ReadSimulation | SaveSimulation bool
  | ListHosts | ProbeHost jsstr int | CreateHost jsval | SaveHost jsstr jsval | RemoveHost jsstr | TestHost jsstr
  | ListPolicies | SavePolicy jsstr jsval | ListSSHAudits nat | ListSecurityAudits nat
  | ListEvidence jsstr | ListMemories "(jsstr \<times> jsval) list" | ReadMemoryStats | ListSamples | GenerateSamples "jsstr list"
  | RemoveSample jsstr | CreateMemory jsval | SaveMemory jsstr jsval | ForgetMemory jsstr
  | SearchMemory jsstr "jsstr option" nat | ReadThreadMemories jsstr | MaintainMemories nat
  | SaveEvidence jsstr jsval | ReviseWithEvidence jsstr "jsstr list" jsstr
  | ListServers | CreateServer jsval | SaveServer jsstr jsval | RemoveServer jsstr | TestServer jsstr
  | ListWorkflows bool | CreateWorkflow jsval | SaveWorkflow jsstr jsval | RemoveWorkflow jsstr | ListRuns jsstr
  | SendChat jsval | RunLoop jsstr jsval | DecideRun jsstr bool

text \<open>The filters of a list of memories that are sent: not \<open>undefined\<close>, and not the empty text.\<close>

definition memory_params :: "platform \<Rightarrow> (jsstr \<times> jsval) list \<Rightarrow> (jsstr \<times> jsstr) list" where
  [js_eval]: "memory_params pf kvs = map (\<lambda>(k, v). (k, text_of pf v)) (filter (\<lambda>(k, v). v \<noteq> Undef \<and> v \<noteq> Str []) kvs)"

definition int_value :: "int \<Rightarrow> jsval" where
  [js_eval]: "int_value n = Num (of_int n)"

definition text_list_value :: "jsstr list \<Rightarrow> jsval" where
  [js_eval]: "text_list_value ts = Arr (map Str ts)"

fun client_request :: "platform \<Rightarrow> jsstr \<Rightarrow> client_call \<Rightarrow> http_request" where
  "client_request pf k ListThreads = sent HttpGet (js ''/api/threads'') [] k None"
| "client_request pf k (CreateThread t) = sent HttpPost (js ''/api/threads'') [] k (Some (Obj [(js ''title'', Str t)]))"
| "client_request pf k (ReadThread i) = sent HttpGet (js ''/api/threads/'' @ i) [] k None"
| "client_request pf k (RemoveThread i) = sent HttpDelete (js ''/api/threads/'' @ i) [] k None"
| "client_request pf k ReadModelSettings = sent HttpGet (js ''/api/settings/model'') [] k None"
| "client_request pf k (SaveModelSettings v) = sent HttpPut (js ''/api/settings/model'') [] k (Some v)"
| "client_request pf k (TestModel v) = sent HttpPost (js ''/api/settings/model/test'') [] k (Some v)"
| "client_request pf k ReadSimulation = sent HttpGet (js ''/api/debug/simulation'') [] k None"
| "client_request pf k (SaveSimulation b) =
     sent HttpPut (js ''/api/debug/simulation'') [] k (Some (Obj [(js ''simulatedSSHEnabled'', JBool b)]))"
| "client_request pf k ListHosts = sent HttpGet (js ''/api/ssh/hosts'') [] k None"
| "client_request pf k (ProbeHost h p) =
     sent HttpPost (js ''/api/ssh/hosts/probe'') [] k (Some (Obj [(js ''hostname'', Str h), (js ''port'', int_value p)]))"
| "client_request pf k (CreateHost v) = sent HttpPost (js ''/api/ssh/hosts'') [] k (Some v)"
| "client_request pf k (SaveHost i v) = sent HttpPut (js ''/api/ssh/hosts/'' @ i) [] k (Some v)"
| "client_request pf k (RemoveHost i) = sent HttpDelete (js ''/api/ssh/hosts/'' @ i) [] k None"
| "client_request pf k (TestHost i) = sent HttpPost (js ''/api/ssh/hosts/'' @ i @ js ''/test'') [] k None"
| "client_request pf k ListPolicies = sent HttpGet (js ''/api/ssh/policies'') [] k None"
| "client_request pf k (SavePolicy i v) = sent HttpPut (js ''/api/ssh/policies/'' @ i) [] k (Some v)"
| "client_request pf k (ListSSHAudits n) = sent HttpGet (js ''/api/ssh/audits'') [(js ''limit'', nat_digits n)] k None"
| "client_request pf k (ListSecurityAudits n) = sent HttpGet (js ''/api/security/audits'') [(js ''limit'', nat_digits n)] k None"
| "client_request pf k (ListEvidence i) = sent HttpGet (js ''/api/threads/'' @ i @ js ''/evidence'') [] k None"
| "client_request pf k (ListMemories kvs) = sent HttpGet (js ''/api/memories'') (memory_params pf kvs) k None"
| "client_request pf k ReadMemoryStats = sent HttpGet (js ''/api/memories/stats'') [] k None"
| "client_request pf k ListSamples = sent HttpGet (js ''/api/memory-samples'') [] k None"
| "client_request pf k (GenerateSamples is) =
     sent HttpPost (js ''/api/memory-samples/generate'') [] k (Some (Obj [(js ''sampleIds'', text_list_value is)]))"
| "client_request pf k (RemoveSample i) = sent HttpDelete (js ''/api/memory-samples/'' @ i) [] k None"
| "client_request pf k (CreateMemory v) = sent HttpPost (js ''/api/memories'') [] k (Some v)"
| "client_request pf k (SaveMemory i v) = sent HttpPatch (js ''/api/memories/'' @ i) [] k (Some v)"
| "client_request pf k (ForgetMemory i) = sent HttpDelete (js ''/api/memories/'' @ i) [] k None"
| "client_request pf k (SearchMemory q t n) = sent HttpPost (js ''/api/memories/search'') [] k
     (Some (Obj ((js ''query'', Str q) # (case t of None \<Rightarrow> [] | Some t \<Rightarrow> [(js ''threadId'', Str t)]) @ [(js ''limit'', int_value (int n))])))"
| "client_request pf k (ReadThreadMemories i) = sent HttpGet (js ''/api/threads/'' @ i @ js ''/memories'') [] k None"
| "client_request pf k (MaintainMemories n) =
     sent HttpPost (js ''/api/memories/maintenance'') [] k (Some (Obj [(js ''limit'', int_value (int n))]))"
| "client_request pf k (SaveEvidence i v) = sent HttpPatch (js ''/api/evidence/'' @ i) [] k (Some v)"
| "client_request pf k (ReviseWithEvidence i es t) = sent HttpPost (js ''/api/threads/'' @ i @ js ''/evidence/revise'') [] k
     (Some (Obj [(js ''evidenceIds'', text_list_value es), (js ''instruction'', Str t)]))"
| "client_request pf k ListServers = sent HttpGet (js ''/api/mcp/servers'') [] k None"
| "client_request pf k (CreateServer v) = sent HttpPost (js ''/api/mcp/servers'') [] k (Some v)"
| "client_request pf k (SaveServer i v) = sent HttpPut (js ''/api/mcp/servers/'' @ i) [] k (Some v)"
| "client_request pf k (RemoveServer i) = sent HttpDelete (js ''/api/mcp/servers/'' @ i) [] k None"
| "client_request pf k (TestServer i) = sent HttpPost (js ''/api/mcp/servers/'' @ i @ js ''/test'') [] k None"
| "client_request pf k (ListWorkflows b) =
     sent HttpGet (js ''/api/workflows'') [(js ''enabledOnly'', if b then js ''true'' else js ''false'')] k None"
| "client_request pf k (CreateWorkflow v) = sent HttpPost (js ''/api/workflows'') [] k (Some v)"
| "client_request pf k (SaveWorkflow i v) = sent HttpPut (js ''/api/workflows/'' @ i) [] k (Some v)"
| "client_request pf k (RemoveWorkflow i) = sent HttpDelete (js ''/api/workflows/'' @ i) [] k None"
| "client_request pf k (ListRuns i) = sent HttpGet (js ''/api/workflows/'' @ i @ js ''/runs'') [] k None"
| "client_request pf k (SendChat v) = sent HttpPost (js ''/api/chat'') [] k (Some v)"
| "client_request pf k (RunLoop i v) = sent HttpPost (js ''/api/workflows/'' @ i @ js ''/stream'') [] k (Some v)"
| "client_request pf k (DecideRun i b) =
     sent HttpPost (js ''/api/workflow-runs/'' @ i @ js ''/resume'') [] k (Some (Obj [(js ''approved'', JBool b)]))"

subsection \<open>The routes of the service\<close>

text \<open>All registrations of \<open>server.ts\<close>, in their order.\<close>

definition route_table :: "(http_method \<times> string) list" where
  [js_eval]: "route_table =
     [(HttpGet, ''/health''), (HttpGet, ''/api/mcp/tools''), (HttpGet, ''/api/mcp/servers''), (HttpPost, ''/api/mcp/servers''),
      (HttpPut, ''/api/mcp/servers/:serverId''), (HttpDelete, ''/api/mcp/servers/:serverId''),
      (HttpPost, ''/api/mcp/servers/:serverId/test''),
      (HttpGet, ''/api/settings/model''), (HttpPut, ''/api/settings/model''), (HttpPost, ''/api/settings/model/test''),
      (HttpGet, ''/api/debug/simulation''), (HttpPut, ''/api/debug/simulation''),
      (HttpGet, ''/api/ssh/hosts''), (HttpPost, ''/api/ssh/hosts/probe''), (HttpPost, ''/api/ssh/hosts''),
      (HttpPut, ''/api/ssh/hosts/:hostId''), (HttpDelete, ''/api/ssh/hosts/:hostId''), (HttpPost, ''/api/ssh/hosts/:hostId/test''),
      (HttpGet, ''/api/ssh/policies''), (HttpPut, ''/api/ssh/policies/:toolId''), (HttpGet, ''/api/ssh/audits''),
      (HttpGet, ''/api/security/audits''),
      (HttpGet, ''/api/threads''), (HttpPost, ''/api/threads''), (HttpGet, ''/api/threads/:threadId''),
      (HttpDelete, ''/api/threads/:threadId''),
      (HttpGet, ''/api/memory-samples''), (HttpPost, ''/api/memory-samples/generate''), (HttpDelete, ''/api/memory-samples/:memoryId''),
      (HttpGet, ''/api/memories/stats''), (HttpGet, ''/api/memories''), (HttpPost, ''/api/memories''),
      (HttpGet, ''/api/memories/:memoryId''), (HttpPatch, ''/api/memories/:memoryId''), (HttpDelete, ''/api/memories/:memoryId''),
      (HttpPost, ''/api/memories/search''), (HttpGet, ''/api/threads/:threadId/memories''), (HttpPost, ''/api/memories/maintenance''),
      (HttpGet, ''/api/threads/:threadId/evidence''), (HttpPatch, ''/api/evidence/:evidenceId''),
      (HttpPost, ''/api/threads/:threadId/evidence/revise''), (HttpPost, ''/api/chat''),
      (HttpGet, ''/api/workflows''), (HttpGet, ''/api/workflows/:workflowId''), (HttpPost, ''/api/workflows''),
      (HttpPut, ''/api/workflows/:workflowId''), (HttpDelete, ''/api/workflows/:workflowId''),
      (HttpGet, ''/api/workflows/:workflowId/runs''), (HttpPost, ''/api/workflows/:workflowId/stream''),
      (HttpPost, ''/api/workflow-runs/:runId/resume'')]"

text \<open>
  A pattern and a path agree segment by segment; a segment with a colon takes any that is not empty. The
  result are the segments taken.
\<close>

fun agree :: "jsstr list \<Rightarrow> jsstr list \<Rightarrow> jsstr list option" where
  "agree [] [] = Some []"
| "agree (p # ps) (x # xs) =
     (if p \<noteq> [] \<and> hd p = 58 then (if x \<noteq> [] then map_option ((#) x) (agree ps xs) else None)
      else if p = x then agree ps xs else None)"
| "agree [] (x # xs) = None"
| "agree (p # ps) [] = None"

definition segments :: "jsstr \<Rightarrow> jsstr list" where
  [js_eval]: "segments t = str_split 47 t"

text \<open>The registrations that agree with a request, in their order: the first one handles it.\<close>

definition handlers :: "http_method \<Rightarrow> jsstr \<Rightarrow> (string \<times> jsstr list) list" where
  [js_eval]: "handlers m path =
     concat (map (\<lambda>(k, p). if k = m then (case agree (segments (js p)) (segments path) of None \<Rightarrow> [] | Some xs \<Rightarrow> [(p, xs)]) else [])
       route_table)"

text \<open>The registration of each route of the handler \<open>handle\<close>.\<close>

fun registration :: "route \<Rightarrow> http_method \<times> string" where
  "registration GetServers = (HttpGet, ''/api/mcp/servers'')"
| "registration (PostServer _) = (HttpPost, ''/api/mcp/servers'')"
| "registration (PutServer _ _) = (HttpPut, ''/api/mcp/servers/:serverId'')"
| "registration (DeleteServer _) = (HttpDelete, ''/api/mcp/servers/:serverId'')"
| "registration (PostServerTest _) = (HttpPost, ''/api/mcp/servers/:serverId/test'')"
| "registration GetSettings = (HttpGet, ''/api/settings/model'')"
| "registration (PutSettings _) = (HttpPut, ''/api/settings/model'')"
| "registration (PostSettingsTest _) = (HttpPost, ''/api/settings/model/test'')"
| "registration GetSimulation = (HttpGet, ''/api/debug/simulation'')"
| "registration (PutSimulation _) = (HttpPut, ''/api/debug/simulation'')"
| "registration GetHosts = (HttpGet, ''/api/ssh/hosts'')"
| "registration (PostProbe _) = (HttpPost, ''/api/ssh/hosts/probe'')"
| "registration (PostHost _) = (HttpPost, ''/api/ssh/hosts'')"
| "registration (PutHost _ _) = (HttpPut, ''/api/ssh/hosts/:hostId'')"
| "registration (DeleteHost _) = (HttpDelete, ''/api/ssh/hosts/:hostId'')"
| "registration (PostHostTest _) = (HttpPost, ''/api/ssh/hosts/:hostId/test'')"
| "registration GetPolicies = (HttpGet, ''/api/ssh/policies'')"
| "registration (PutPolicy _ _) = (HttpPut, ''/api/ssh/policies/:toolId'')"
| "registration (GetSshAudits _) = (HttpGet, ''/api/ssh/audits'')"
| "registration (GetSecurityAudits _) = (HttpGet, ''/api/security/audits'')"
| "registration GetThreads = (HttpGet, ''/api/threads'')"
| "registration (PostThread _) = (HttpPost, ''/api/threads'')"
| "registration (GetThread _) = (HttpGet, ''/api/threads/:threadId'')"
| "registration (DeleteThread _) = (HttpDelete, ''/api/threads/:threadId'')"
| "registration GetSamples = (HttpGet, ''/api/memory-samples'')"
| "registration (PostSamples _) = (HttpPost, ''/api/memory-samples/generate'')"
| "registration (DeleteSample _) = (HttpDelete, ''/api/memory-samples/:memoryId'')"
| "registration GetStats = (HttpGet, ''/api/memories/stats'')"
| "registration (GetMemories _) = (HttpGet, ''/api/memories'')"
| "registration (PostMemory _) = (HttpPost, ''/api/memories'')"
| "registration (GetMemory _) = (HttpGet, ''/api/memories/:memoryId'')"
| "registration (PatchMemory _ _) = (HttpPatch, ''/api/memories/:memoryId'')"
| "registration (DeleteMemory _) = (HttpDelete, ''/api/memories/:memoryId'')"
| "registration (PostSearch _) = (HttpPost, ''/api/memories/search'')"
| "registration (GetThreadMemories _) = (HttpGet, ''/api/threads/:threadId/memories'')"
| "registration (PostMaintenance _) = (HttpPost, ''/api/memories/maintenance'')"
| "registration (GetEvidence _) = (HttpGet, ''/api/threads/:threadId/evidence'')"
| "registration (PatchEvidence _ _) = (HttpPatch, ''/api/evidence/:evidenceId'')"
| "registration (PostRevision _ _) = (HttpPost, ''/api/threads/:threadId/evidence/revise'')"
| "registration (PostChat _) = (HttpPost, ''/api/chat'')"
| "registration (GetWorkflows _) = (HttpGet, ''/api/workflows'')"
| "registration (GetWorkflow _) = (HttpGet, ''/api/workflows/:workflowId'')"
| "registration (PostWorkflow _) = (HttpPost, ''/api/workflows'')"
| "registration (PutWorkflow _ _) = (HttpPut, ''/api/workflows/:workflowId'')"
| "registration (DeleteWorkflow _) = (HttpDelete, ''/api/workflows/:workflowId'')"
| "registration (GetRuns _) = (HttpGet, ''/api/workflows/:workflowId/runs'')"
| "registration (PostStream _ _) = (HttpPost, ''/api/workflows/:workflowId/stream'')"
| "registration (PostResume _ _) = (HttpPost, ''/api/workflow-runs/:runId/resume'')"

end
