(* ===== verification/Web_Client_Laws.thy ===== *)
theory Web_Client_Laws
  imports Web_Client
begin

section \<open>Every call of the client reaches its handler\<close>

text \<open>
  The paths of the calls, cut into segments, agree with one registration of the service each; the only
  path two registrations agree with is that of the statistics, where the order of registration decides.
\<close>

subsection \<open>Paths\<close>

lemma split_free: "d \<notin> set x \<Longrightarrow> str_split d x = [x]"
  by (induction x) auto

lemma split_at: "d \<notin> set x \<Longrightarrow> str_split d (x @ d # y) = x # str_split d y"
  by (induction x) auto

definition path_of :: "jsstr list \<Rightarrow> jsstr" where
  [js_eval]: "path_of xs = concat (map ((#) 47) xs)"

lemma split_path: "\<forall>x\<in>set xs. 47 \<notin> set x \<Longrightarrow> 47 \<notin> set y \<Longrightarrow> str_split 47 (y @ path_of xs) = y # xs"
  by (induction xs arbitrary: y) (auto simp: path_of_def split_free split_at)

lemma segments_path: "\<forall>x\<in>set xs. 47 \<notin> set x \<Longrightarrow> segments (path_of xs) = [] # xs"
  using split_path [of xs "[]"] by (simp add: segments_def)

text \<open>The segments of each call, and its identifiers.\<close>

fun call_segments :: "client_call \<Rightarrow> jsstr list" where
  "call_segments ListThreads = [js ''api'', js ''threads'']"
| "call_segments (CreateThread _) = [js ''api'', js ''threads'']"
| "call_segments (ReadThread i) = [js ''api'', js ''threads'', i]"
| "call_segments (RemoveThread i) = [js ''api'', js ''threads'', i]"
| "call_segments ReadModelSettings = [js ''api'', js ''settings'', js ''model'']"
| "call_segments (SaveModelSettings _) = [js ''api'', js ''settings'', js ''model'']"
| "call_segments (TestModel _) = [js ''api'', js ''settings'', js ''model'', js ''test'']"
| "call_segments ReadSimulation = [js ''api'', js ''debug'', js ''simulation'']"
| "call_segments (SaveSimulation _) = [js ''api'', js ''debug'', js ''simulation'']"
| "call_segments ListHosts = [js ''api'', js ''ssh'', js ''hosts'']"
| "call_segments (ProbeHost _ _) = [js ''api'', js ''ssh'', js ''hosts'', js ''probe'']"
| "call_segments (CreateHost _) = [js ''api'', js ''ssh'', js ''hosts'']"
| "call_segments (SaveHost i _) = [js ''api'', js ''ssh'', js ''hosts'', i]"
| "call_segments (RemoveHost i) = [js ''api'', js ''ssh'', js ''hosts'', i]"
| "call_segments (TestHost i) = [js ''api'', js ''ssh'', js ''hosts'', i, js ''test'']"
| "call_segments ListPolicies = [js ''api'', js ''ssh'', js ''policies'']"
| "call_segments (SavePolicy i _) = [js ''api'', js ''ssh'', js ''policies'', i]"
| "call_segments (ListSSHAudits _) = [js ''api'', js ''ssh'', js ''audits'']"
| "call_segments (ListSecurityAudits _) = [js ''api'', js ''security'', js ''audits'']"
| "call_segments (ListEvidence i) = [js ''api'', js ''threads'', i, js ''evidence'']"
| "call_segments (ListMemories _) = [js ''api'', js ''memories'']"
| "call_segments ReadMemoryStats = [js ''api'', js ''memories'', js ''stats'']"
| "call_segments ListSamples = [js ''api'', js ''memory-samples'']"
| "call_segments (GenerateSamples _) = [js ''api'', js ''memory-samples'', js ''generate'']"
| "call_segments (RemoveSample i) = [js ''api'', js ''memory-samples'', i]"
| "call_segments (CreateMemory _) = [js ''api'', js ''memories'']"
| "call_segments (SaveMemory i _) = [js ''api'', js ''memories'', i]"
| "call_segments (ForgetMemory i) = [js ''api'', js ''memories'', i]"
| "call_segments (SearchMemory _ _ _) = [js ''api'', js ''memories'', js ''search'']"
| "call_segments (ReadThreadMemories i) = [js ''api'', js ''threads'', i, js ''memories'']"
| "call_segments (MaintainMemories _) = [js ''api'', js ''memories'', js ''maintenance'']"
| "call_segments (SaveEvidence i _) = [js ''api'', js ''evidence'', i]"
| "call_segments (ReviseWithEvidence i _ _) = [js ''api'', js ''threads'', i, js ''evidence'', js ''revise'']"
| "call_segments ListServers = [js ''api'', js ''mcp'', js ''servers'']"
| "call_segments (CreateServer _) = [js ''api'', js ''mcp'', js ''servers'']"
| "call_segments (SaveServer i _) = [js ''api'', js ''mcp'', js ''servers'', i]"
| "call_segments (RemoveServer i) = [js ''api'', js ''mcp'', js ''servers'', i]"
| "call_segments (TestServer i) = [js ''api'', js ''mcp'', js ''servers'', i, js ''test'']"
| "call_segments (ListWorkflows _) = [js ''api'', js ''workflows'']"
| "call_segments (CreateWorkflow _) = [js ''api'', js ''workflows'']"
| "call_segments (SaveWorkflow i _) = [js ''api'', js ''workflows'', i]"
| "call_segments (RemoveWorkflow i) = [js ''api'', js ''workflows'', i]"
| "call_segments (ListRuns i) = [js ''api'', js ''workflows'', i, js ''runs'']"
| "call_segments (SendChat _) = [js ''api'', js ''chat'']"
| "call_segments (RunLoop i _) = [js ''api'', js ''workflows'', i, js ''stream'']"
| "call_segments (DecideRun i _) = [js ''api'', js ''workflow-runs'', i, js ''resume'']"

fun call_ids :: "client_call \<Rightarrow> jsstr list" where
  "call_ids ListThreads = []"
| "call_ids (CreateThread _) = []"
| "call_ids (ReadThread i) = [i]"
| "call_ids (RemoveThread i) = [i]"
| "call_ids ReadModelSettings = []"
| "call_ids (SaveModelSettings _) = []"
| "call_ids (TestModel _) = []"
| "call_ids ReadSimulation = []"
| "call_ids (SaveSimulation _) = []"
| "call_ids ListHosts = []"
| "call_ids (ProbeHost _ _) = []"
| "call_ids (CreateHost _) = []"
| "call_ids (SaveHost i _) = [i]"
| "call_ids (RemoveHost i) = [i]"
| "call_ids (TestHost i) = [i]"
| "call_ids ListPolicies = []"
| "call_ids (SavePolicy i _) = [i]"
| "call_ids (ListSSHAudits _) = []"
| "call_ids (ListSecurityAudits _) = []"
| "call_ids (ListEvidence i) = [i]"
| "call_ids (ListMemories _) = []"
| "call_ids ReadMemoryStats = []"
| "call_ids ListSamples = []"
| "call_ids (GenerateSamples _) = []"
| "call_ids (RemoveSample i) = [i]"
| "call_ids (CreateMemory _) = []"
| "call_ids (SaveMemory i _) = [i]"
| "call_ids (ForgetMemory i) = [i]"
| "call_ids (SearchMemory _ _ _) = []"
| "call_ids (ReadThreadMemories i) = [i]"
| "call_ids (MaintainMemories _) = []"
| "call_ids (SaveEvidence i _) = [i]"
| "call_ids (ReviseWithEvidence i _ _) = [i]"
| "call_ids ListServers = []"
| "call_ids (CreateServer _) = []"
| "call_ids (SaveServer i _) = [i]"
| "call_ids (RemoveServer i) = [i]"
| "call_ids (TestServer i) = [i]"
| "call_ids (ListWorkflows _) = []"
| "call_ids (CreateWorkflow _) = []"
| "call_ids (SaveWorkflow i _) = [i]"
| "call_ids (RemoveWorkflow i) = [i]"
| "call_ids (ListRuns i) = [i]"
| "call_ids (SendChat _) = []"
| "call_ids (RunLoop i _) = [i]"
| "call_ids (DecideRun i _) = [i]"

text \<open>An identifier of letters, digits, hyphens and underscores, as the service draws them.\<close>

definition plain_id :: "jsstr \<Rightarrow> bool" where
  [js_eval]: "plain_id i \<longleftrightarrow> i \<noteq> [] \<and> list_all id_unit i"

lemma plain_no_slash: "plain_id i \<Longrightarrow> 47 \<notin> set i"
  by (auto simp: plain_id_def list_all_iff id_unit_def)

lemma js_no_slash: "47 \<in> set (js s) \<longleftrightarrow> CHR ''/'' \<in> set s"
proof -
  have "(47::nat) = of_char (CHR ''/'')" by simp
  then show ?thesis by (metis (no_types, lifting) imageE image_eqI js_def list.set_map of_char_eq_iff)
qed

lemma call_path: "hr_path (client_request pf k c) = path_of (call_segments c)"
  by (cases c) (simp_all add: sent_def path_of_def js_def)

lemma call_segments_plain: "list_all plain_id (call_ids c) \<Longrightarrow> x \<in> set (call_segments c) \<Longrightarrow> 47 \<notin> set x"
  by (cases c) (auto simp: js_no_slash dest: plain_no_slash)

lemma segments_of_call:
  "list_all plain_id (call_ids c) \<Longrightarrow> segments (hr_path (client_request pf k c)) = js [] # call_segments c"
  using call_segments_plain by (simp add: call_path segments_path)

subsection \<open>The table\<close>

text \<open>The part of the table for one method, with the patterns cut.\<close>

definition table :: "http_method \<Rightarrow> (string \<times> jsstr list) list" where
  [js_eval]: "table m = map (\<lambda>(k, p). (p, segments (js p))) (filter (\<lambda>(k, p). k = m) route_table)"

lemma table_parts:
  "table HttpGet = [(''/health'', [js '''', js ''health'']),
     (''/api/mcp/tools'', [js '''', js ''api'', js ''mcp'', js ''tools'']),
     (''/api/mcp/servers'', [js '''', js ''api'', js ''mcp'', js ''servers'']),
     (''/api/settings/model'', [js '''', js ''api'', js ''settings'', js ''model'']),
     (''/api/debug/simulation'', [js '''', js ''api'', js ''debug'', js ''simulation'']),
     (''/api/ssh/hosts'', [js '''', js ''api'', js ''ssh'', js ''hosts'']),
     (''/api/ssh/policies'', [js '''', js ''api'', js ''ssh'', js ''policies'']),
     (''/api/ssh/audits'', [js '''', js ''api'', js ''ssh'', js ''audits'']),
     (''/api/security/audits'', [js '''', js ''api'', js ''security'', js ''audits'']),
     (''/api/threads'', [js '''', js ''api'', js ''threads'']),
     (''/api/threads/:threadId'', [js '''', js ''api'', js ''threads'', js '':threadId'']),
     (''/api/memory-samples'', [js '''', js ''api'', js ''memory-samples'']),
     (''/api/memories/stats'', [js '''', js ''api'', js ''memories'', js ''stats'']),
     (''/api/memories'', [js '''', js ''api'', js ''memories'']),
     (''/api/memories/:memoryId'', [js '''', js ''api'', js ''memories'', js '':memoryId'']),
     (''/api/threads/:threadId/memories'', [js '''', js ''api'', js ''threads'', js '':threadId'', js ''memories'']),
     (''/api/threads/:threadId/evidence'', [js '''', js ''api'', js ''threads'', js '':threadId'', js ''evidence'']),
     (''/api/workflows'', [js '''', js ''api'', js ''workflows'']),
     (''/api/workflows/:workflowId'', [js '''', js ''api'', js ''workflows'', js '':workflowId'']),
     (''/api/workflows/:workflowId/runs'', [js '''', js ''api'', js ''workflows'', js '':workflowId'', js ''runs''])]"
  "table HttpPost = [(''/api/mcp/servers'', [js '''', js ''api'', js ''mcp'', js ''servers'']),
     (''/api/mcp/servers/:serverId/test'', [js '''', js ''api'', js ''mcp'', js ''servers'', js '':serverId'', js ''test'']),
     (''/api/settings/model/test'', [js '''', js ''api'', js ''settings'', js ''model'', js ''test'']),
     (''/api/ssh/hosts/probe'', [js '''', js ''api'', js ''ssh'', js ''hosts'', js ''probe'']),
     (''/api/ssh/hosts'', [js '''', js ''api'', js ''ssh'', js ''hosts'']),
     (''/api/ssh/hosts/:hostId/test'', [js '''', js ''api'', js ''ssh'', js ''hosts'', js '':hostId'', js ''test'']),
     (''/api/threads'', [js '''', js ''api'', js ''threads'']),
     (''/api/memory-samples/generate'', [js '''', js ''api'', js ''memory-samples'', js ''generate'']),
     (''/api/memories'', [js '''', js ''api'', js ''memories'']),
     (''/api/memories/search'', [js '''', js ''api'', js ''memories'', js ''search'']),
     (''/api/memories/maintenance'', [js '''', js ''api'', js ''memories'', js ''maintenance'']),
     (''/api/threads/:threadId/evidence/revise'', [js '''', js ''api'', js ''threads'', js '':threadId'', js ''evidence'', js ''revise'']),
     (''/api/chat'', [js '''', js ''api'', js ''chat'']),
     (''/api/workflows'', [js '''', js ''api'', js ''workflows'']),
     (''/api/workflows/:workflowId/stream'', [js '''', js ''api'', js ''workflows'', js '':workflowId'', js ''stream'']),
     (''/api/workflow-runs/:runId/resume'', [js '''', js ''api'', js ''workflow-runs'', js '':runId'', js ''resume''])]"
  "table HttpPut = [(''/api/mcp/servers/:serverId'', [js '''', js ''api'', js ''mcp'', js ''servers'', js '':serverId'']),
     (''/api/settings/model'', [js '''', js ''api'', js ''settings'', js ''model'']),
     (''/api/debug/simulation'', [js '''', js ''api'', js ''debug'', js ''simulation'']),
     (''/api/ssh/hosts/:hostId'', [js '''', js ''api'', js ''ssh'', js ''hosts'', js '':hostId'']),
     (''/api/ssh/policies/:toolId'', [js '''', js ''api'', js ''ssh'', js ''policies'', js '':toolId'']),
     (''/api/workflows/:workflowId'', [js '''', js ''api'', js ''workflows'', js '':workflowId''])]"
  "table HttpPatch = [(''/api/memories/:memoryId'', [js '''', js ''api'', js ''memories'', js '':memoryId'']),
     (''/api/evidence/:evidenceId'', [js '''', js ''api'', js ''evidence'', js '':evidenceId''])]"
  "table HttpDelete = [(''/api/mcp/servers/:serverId'', [js '''', js ''api'', js ''mcp'', js ''servers'', js '':serverId'']),
     (''/api/ssh/hosts/:hostId'', [js '''', js ''api'', js ''ssh'', js ''hosts'', js '':hostId'']),
     (''/api/threads/:threadId'', [js '''', js ''api'', js ''threads'', js '':threadId'']),
     (''/api/memory-samples/:memoryId'', [js '''', js ''api'', js ''memory-samples'', js '':memoryId'']),
     (''/api/memories/:memoryId'', [js '''', js ''api'', js ''memories'', js '':memoryId'']),
     (''/api/workflows/:workflowId'', [js '''', js ''api'', js ''workflows'', js '':workflowId''])]"
  by code_simp+

lemma agree_first [simp]: "agree ([] # ps) (x # xs) = (if x = [] then agree ps xs else None)"
  by auto

lemma agree_js [simp]:
  "agree (js p # ps) (x # xs) =
     (if p \<noteq> [] \<and> hd p = CHR '':'' then (if x \<noteq> [] then map_option ((#) x) (agree ps xs) else None)
      else if js p = x then agree ps xs else None)"
proof -
  have "js p \<noteq> [] \<and> hd (js p) = 58 \<longleftrightarrow> p \<noteq> [] \<and> hd p = CHR '':''"
  proof (cases p)
    case (Cons c cs)
    have "(58::nat) = of_char (CHR '':'')" by simp
    then show ?thesis using Cons by (simp add: js_def del: of_char_Char) (metis of_char_eq_iff)
  qed simp
  then show ?thesis by (simp only: agree.simps)
qed

declare agree.simps(2) [simp del]

lemma concat_if: "concat (map (\<lambda>x. if P x then f x else []) xs) = concat (map f (filter P xs))"
  by (induction xs) simp_all

lemma handlers_table:
  "handlers m path = concat (map (\<lambda>(p, ps). case agree ps (segments path) of None \<Rightarrow> [] | Some xs \<Rightarrow> [(p, xs)]) (table m))"
  unfolding handlers_def table_def case_prod_unfold concat_if map_map comp_def
  by (intro arg_cong [where f = concat] map_cong refl) (simp split: option.split)

text \<open>The routes of the model of the service that a call may reach, whatever its body is made to.\<close>

definition served_by :: "client_call \<Rightarrow> route \<Rightarrow> bool" where
  "served_by c r \<longleftrightarrow> (case c of
     ListThreads \<Rightarrow> r = GetThreads
   | CreateThread _ \<Rightarrow> \<exists>b. r = PostThread b
   | ReadThread i \<Rightarrow> r = GetThread i
   | RemoveThread i \<Rightarrow> r = DeleteThread i
   | ReadModelSettings \<Rightarrow> r = GetSettings
   | SaveModelSettings _ \<Rightarrow> \<exists>b. r = PutSettings b
   | TestModel _ \<Rightarrow> \<exists>b. r = PostSettingsTest b
   | ReadSimulation \<Rightarrow> r = GetSimulation
   | SaveSimulation _ \<Rightarrow> \<exists>b. r = PutSimulation b
   | ListHosts \<Rightarrow> r = GetHosts
   | ProbeHost _ _ \<Rightarrow> \<exists>b. r = PostProbe b
   | CreateHost _ \<Rightarrow> \<exists>b. r = PostHost b
   | SaveHost i _ \<Rightarrow> \<exists>b. r = PutHost i b
   | RemoveHost i \<Rightarrow> r = DeleteHost i
   | TestHost i \<Rightarrow> r = PostHostTest i
   | ListPolicies \<Rightarrow> r = GetPolicies
   | SavePolicy i _ \<Rightarrow> \<exists>k b. r = PutPolicy k b
   | ListSSHAudits _ \<Rightarrow> \<exists>b. r = GetSshAudits b
   | ListSecurityAudits _ \<Rightarrow> \<exists>b. r = GetSecurityAudits b
   | ListEvidence i \<Rightarrow> r = GetEvidence i
   | ListMemories _ \<Rightarrow> \<exists>b. r = GetMemories b
   | ReadMemoryStats \<Rightarrow> r = GetStats
   | ListSamples \<Rightarrow> r = GetSamples
   | GenerateSamples _ \<Rightarrow> \<exists>b. r = PostSamples b
   | RemoveSample i \<Rightarrow> r = DeleteSample i
   | CreateMemory _ \<Rightarrow> \<exists>b. r = PostMemory b
   | SaveMemory i _ \<Rightarrow> \<exists>b. r = PatchMemory i b
   | ForgetMemory i \<Rightarrow> r = DeleteMemory i
   | SearchMemory _ _ _ \<Rightarrow> \<exists>b. r = PostSearch b
   | ReadThreadMemories i \<Rightarrow> r = GetThreadMemories i
   | MaintainMemories _ \<Rightarrow> \<exists>b. r = PostMaintenance b
   | SaveEvidence i _ \<Rightarrow> \<exists>b. r = PatchEvidence i b
   | ReviseWithEvidence i _ _ \<Rightarrow> \<exists>b. r = PostRevision i b
   | ListServers \<Rightarrow> r = GetServers
   | CreateServer _ \<Rightarrow> \<exists>b. r = PostServer b
   | SaveServer i _ \<Rightarrow> \<exists>b. r = PutServer i b
   | RemoveServer i \<Rightarrow> r = DeleteServer i
   | TestServer i \<Rightarrow> r = PostServerTest i
   | ListWorkflows _ \<Rightarrow> \<exists>b. r = GetWorkflows b
   | CreateWorkflow _ \<Rightarrow> \<exists>b. r = PostWorkflow b
   | SaveWorkflow i _ \<Rightarrow> \<exists>b. r = PutWorkflow i b
   | RemoveWorkflow i \<Rightarrow> r = DeleteWorkflow i
   | ListRuns i \<Rightarrow> r = GetRuns i
   | SendChat _ \<Rightarrow> \<exists>b. r = PostChat b
   | RunLoop i _ \<Rightarrow> \<exists>b. r = PostStream i b
   | DecideRun i _ \<Rightarrow> \<exists>b. r = PostResume i b)"

fun call_pattern :: "client_call \<Rightarrow> string" where
  "call_pattern ListThreads = ''/api/threads''"
| "call_pattern (CreateThread _) = ''/api/threads''"
| "call_pattern (ReadThread _) = ''/api/threads/:threadId''"
| "call_pattern (RemoveThread _) = ''/api/threads/:threadId''"
| "call_pattern ReadModelSettings = ''/api/settings/model''"
| "call_pattern (SaveModelSettings _) = ''/api/settings/model''"
| "call_pattern (TestModel _) = ''/api/settings/model/test''"
| "call_pattern ReadSimulation = ''/api/debug/simulation''"
| "call_pattern (SaveSimulation _) = ''/api/debug/simulation''"
| "call_pattern ListHosts = ''/api/ssh/hosts''"
| "call_pattern (ProbeHost _ _) = ''/api/ssh/hosts/probe''"
| "call_pattern (CreateHost _) = ''/api/ssh/hosts''"
| "call_pattern (SaveHost _ _) = ''/api/ssh/hosts/:hostId''"
| "call_pattern (RemoveHost _) = ''/api/ssh/hosts/:hostId''"
| "call_pattern (TestHost _) = ''/api/ssh/hosts/:hostId/test''"
| "call_pattern ListPolicies = ''/api/ssh/policies''"
| "call_pattern (SavePolicy _ _) = ''/api/ssh/policies/:toolId''"
| "call_pattern (ListSSHAudits _) = ''/api/ssh/audits''"
| "call_pattern (ListSecurityAudits _) = ''/api/security/audits''"
| "call_pattern (ListEvidence _) = ''/api/threads/:threadId/evidence''"
| "call_pattern (ListMemories _) = ''/api/memories''"
| "call_pattern ReadMemoryStats = ''/api/memories/stats''"
| "call_pattern ListSamples = ''/api/memory-samples''"
| "call_pattern (GenerateSamples _) = ''/api/memory-samples/generate''"
| "call_pattern (RemoveSample _) = ''/api/memory-samples/:memoryId''"
| "call_pattern (CreateMemory _) = ''/api/memories''"
| "call_pattern (SaveMemory _ _) = ''/api/memories/:memoryId''"
| "call_pattern (ForgetMemory _) = ''/api/memories/:memoryId''"
| "call_pattern (SearchMemory _ _ _) = ''/api/memories/search''"
| "call_pattern (ReadThreadMemories _) = ''/api/threads/:threadId/memories''"
| "call_pattern (MaintainMemories _) = ''/api/memories/maintenance''"
| "call_pattern (SaveEvidence _ _) = ''/api/evidence/:evidenceId''"
| "call_pattern (ReviseWithEvidence _ _ _) = ''/api/threads/:threadId/evidence/revise''"
| "call_pattern ListServers = ''/api/mcp/servers''"
| "call_pattern (CreateServer _) = ''/api/mcp/servers''"
| "call_pattern (SaveServer _ _) = ''/api/mcp/servers/:serverId''"
| "call_pattern (RemoveServer _) = ''/api/mcp/servers/:serverId''"
| "call_pattern (TestServer _) = ''/api/mcp/servers/:serverId/test''"
| "call_pattern (ListWorkflows _) = ''/api/workflows''"
| "call_pattern (CreateWorkflow _) = ''/api/workflows''"
| "call_pattern (SaveWorkflow _ _) = ''/api/workflows/:workflowId''"
| "call_pattern (RemoveWorkflow _) = ''/api/workflows/:workflowId''"
| "call_pattern (ListRuns _) = ''/api/workflows/:workflowId/runs''"
| "call_pattern (SendChat _) = ''/api/chat''"
| "call_pattern (RunLoop _ _) = ''/api/workflows/:workflowId/stream''"
| "call_pattern (DecideRun _ _) = ''/api/workflow-runs/:runId/resume''"

lemma handlers_of_call:
  assumes "list_all plain_id (call_ids c)"
  shows "handlers (hr_method (client_request pf k c)) (hr_path (client_request pf k c)) =
    (call_pattern c, call_ids c) # (if c = ReadMemoryStats then [(''/api/memories/:memoryId'', [js ''stats''])] else [])"
  using assms unfolding handlers_table segments_of_call [OF assms] js_Nil
  by (cases c) (simp_all add: sent_def table_parts plain_id_def)

lemma registration_of_call:
  "served_by c r \<Longrightarrow> registration r = (hr_method (client_request pf k c), call_pattern c)"
  by (cases c) (auto simp: served_by_def sent_def)

text \<open>
  C38. Every call of the client reaches the handler it is meant for: for plain identifiers the request of a
  call agrees with the registration of its route, which takes exactly its identifiers, and with no other;
  only the statistics of memories also agree with a second one, which is registered later.
\<close>

theorem calls_reach_their_handlers:
  assumes "list_all plain_id (call_ids c)" "served_by c r"
  shows "let q = client_request pf token c
    in registration r = (hr_method q, call_pattern c) \<and> hd (handlers (hr_method q) (hr_path q)) = (call_pattern c, call_ids c)
     \<and> length (handlers (hr_method q) (hr_path q)) = (if c = ReadMemoryStats then 2 else 1)"
  using handlers_of_call [OF assms(1), of pf token] registration_of_call [OF assms(2), of pf token] by (simp add: Let_def)

lemma calls_reach_their_handlers_witness:
  "\<forall>b. handlers HttpPost (js ''/api/workflows/w-1/stream'') = [(''/api/workflows/:workflowId/stream'', [js ''w-1''])]
     \<and> registration (PostStream (js ''w-1'') b) = (HttpPost, ''/api/workflows/:workflowId/stream'')"
proof
  fix b :: "start_form body"
  have "list_all plain_id (call_ids (RunLoop (js ''w-1'') Null))" by code_simp
  moreover have "served_by (RunLoop (js ''w-1'') Null) (PostStream (js ''w-1'') b)" by (simp add: served_by_def)
  ultimately have r: "registration (PostStream (js ''w-1'') b) = (HttpPost, ''/api/workflows/:workflowId/stream'')"
      and h: "hd (handlers HttpPost (js ''/api/workflows/w-1/stream'')) = (''/api/workflows/:workflowId/stream'', [js ''w-1''])"
      and l: "length (handlers HttpPost (js ''/api/workflows/w-1/stream'')) = 1"
    using calls_reach_their_handlers [of "RunLoop (js ''w-1'') Null" "PostStream (js ''w-1'') b" demo_platform "[]"]
    by (simp_all add: sent_def Let_def js_def)
  from l obtain x where "handlers HttpPost (js ''/api/workflows/w-1/stream'') = [x]" by (auto simp: length_Suc_conv)
  with h r show "handlers HttpPost (js ''/api/workflows/w-1/stream'') = [(''/api/workflows/:workflowId/stream'', [js ''w-1''])]
     \<and> registration (PostStream (js ''w-1'') b) = (HttpPost, ''/api/workflows/:workflowId/stream'')" by simp
qed

subsection \<open>Answers\<close>

text \<open>A refusal of the service is shown with its own message.\<close>

lemma failure_is_shown:
  "e \<noteq> [] \<Longrightarrow> 300 \<le> status \<Longrightarrow> received pf status (Some (Obj [(js ''error'', Str e)])) = Refused e"
  by (simp add: received_def or_else_def Let_def fields_of_def)

end
