(* ===== verification/Web_Logs.thy ===== *)
theory Web_Logs
  imports Web_Logql
begin

section \<open>The store of the log pages (\<open>frontend/src/store/reducers/logs.ts\<close>)\<close>

text \<open>
  The state behind the log pages and its reducer, one constructor for each action. The rows the query
  service returns are values with an identifier; fields, aggregates and the view mode are values.
\<close>

datatype logs_order = Ascending | Descending

datatype live_tail = TailStopped | TailPlaying | TailPaused

record log_line =
  ln_id :: jsstr
  ln_data :: jsval

record logs_state =
  lg_interesting :: jsval
  lg_selected :: jsval
  lg_query :: jsstr
  lg_parsed :: "parsed_item list"
  lg_logs :: "log_line list"
  lg_per_page :: nat
  lg_per_row :: nat
  lg_view :: jsstr
  lg_end :: jsstr
  lg_start :: jsstr
  lg_loading :: bool
  lg_aggregating :: bool
  lg_aggregate :: jsval
  lg_tail :: live_tail
  lg_tail_range :: nat
  lg_detailed :: "log_line option"
  lg_order :: logs_order

text \<open>The order: that of the address on the old page if it is a known one, else descending.\<close>

definition getLogsOrder :: "jsstr \<Rightarrow> jsstr option \<Rightarrow> logs_order" where
  [js_eval]: "getLogsOrder path param =
     (if path = js ''/logs/old-logs-explorer'' \<and> param = Some (js ''asc'') then Ascending else Descending)"

definition initial_logs :: "jsstr \<Rightarrow> jsstr option \<Rightarrow> logs_state" where
  [js_eval]: "initial_logs path param =
     \<lparr>lg_interesting = Arr [], lg_selected = Arr [], lg_query = [], lg_parsed = [], lg_logs = [], lg_per_page = 200, lg_per_row = 2,
      lg_view = js ''raw'', lg_end = [], lg_start = [], lg_loading = False, lg_aggregating = False, lg_aggregate = Arr [],
      lg_tail = TailStopped, lg_tail_range = 15, lg_detailed = None, lg_order = getLogsOrder path param\<rparr>"

datatype logs_action =
    SetLoading bool | SetLoadingAggregate bool | GetFields | SetFields jsval jsval
  | SetSearchQueryString jsstr | SetSearchQueryParsedPayload "parsed_item list" | AddSearchFieldQueryString jsstr
  | SetLogs "log_line list" | SetLogsOrder logs_order | SetLogLinesPerPage nat
  | GetPreviousLogLines | GetNextLogLines | ResetIdStartAndEnd | SetLogsAggregateSeries jsval
  | SetDetailedLogData "log_line option" | ToggleLiveTail live_tail | StopLiveTail | PushLiveTailEvent "log_line list"
  | SetLiveTailStartTime nat | FlushLogs | SetLinesPerRow nat | SetViewMode jsstr
  | UpdateInterestingFields jsval | UpdateSelectedFields jsval | OtherAction

definition joined_query :: "jsstr \<Rightarrow> jsstr \<Rightarrow> jsstr" where
  [js_eval]: "joined_query q added = q @ (if q \<noteq> [] then js '' and '' else []) @ added"

fun logsReducer :: "logs_action \<Rightarrow> logs_state \<Rightarrow> logs_state" where
  "logsReducer (SetLoading b) s = s\<lparr>lg_loading := b\<rparr>"
| "logsReducer (SetLoadingAggregate b) s = s\<lparr>lg_aggregating := b\<rparr>"
| "logsReducer GetFields s = s"
| "logsReducer (SetFields i c) s = s\<lparr>lg_interesting := i, lg_selected := c\<rparr>"
| "logsReducer (SetSearchQueryString q) s = s\<lparr>lg_query := q\<rparr>"
| "logsReducer (SetSearchQueryParsedPayload items) s = s\<lparr>lg_parsed := items\<rparr>"
| "logsReducer (AddSearchFieldQueryString t) s =
     (let q = joined_query (lg_query s) t in s\<lparr>lg_query := q, lg_parsed := parseQuery q\<rparr>)"
| "logsReducer (SetLogs ls) s = s\<lparr>lg_logs := ls\<rparr>"
| "logsReducer (SetLogsOrder ord) s = s\<lparr>lg_order := ord, lg_start := [], lg_end := []\<rparr>"
| "logsReducer (SetLogLinesPerPage n) s = s\<lparr>lg_per_page := n\<rparr>"
| "logsReducer GetPreviousLogLines s = s\<lparr>lg_start := (case lg_logs s of [] \<Rightarrow> [] | l # _ \<Rightarrow> ln_id l), lg_end := []\<rparr>"
| "logsReducer GetNextLogLines s = s\<lparr>lg_start := [], lg_end := (if lg_logs s = [] then [] else ln_id (last (lg_logs s)))\<rparr>"
| "logsReducer ResetIdStartAndEnd s = s\<lparr>lg_end := [], lg_start := []\<rparr>"
| "logsReducer (SetLogsAggregateSeries v) s = s\<lparr>lg_aggregate := v\<rparr>"
| "logsReducer (SetDetailedLogData l) s = s\<lparr>lg_detailed := l\<rparr>"
| "logsReducer (ToggleLiveTail t) s = s\<lparr>lg_tail := t\<rparr>"
| "logsReducer StopLiveTail s = s\<lparr>lg_logs := [], lg_tail := TailStopped\<rparr>"
| "logsReducer (PushLiveTailEvent ls) s = s\<lparr>lg_logs := take 100 (ls @ lg_logs s)\<rparr>"
| "logsReducer (SetLiveTailStartTime n) s = s\<lparr>lg_tail_range := n\<rparr>"
| "logsReducer FlushLogs s = s\<lparr>lg_logs := []\<rparr>"
| "logsReducer (SetLinesPerRow n) s = s\<lparr>lg_per_row := n\<rparr>"
| "logsReducer (SetViewMode m) s = s\<lparr>lg_view := m\<rparr>"
| "logsReducer (UpdateInterestingFields v) s = s\<lparr>lg_interesting := v\<rparr>"
| "logsReducer (UpdateSelectedFields v) s = s\<lparr>lg_selected := v\<rparr>"
| "logsReducer OtherAction s = s"

definition logs_after :: "logs_action list \<Rightarrow> logs_state \<Rightarrow> logs_state" where
  [js_eval]: "logs_after acts s = fold logsReducer acts s"

subsection \<open>Pages and live tail\<close>

text \<open>At most one end of a page is fixed.\<close>

definition one_ended :: "logs_state \<Rightarrow> bool" where
  [js_eval]: "one_ended s \<longleftrightarrow> lg_start s = [] \<or> lg_end s = []"

lemma one_ended_step: "one_ended s \<Longrightarrow> one_ended (logsReducer a s)"
  by (cases a) (simp_all add: one_ended_def Let_def)

lemma pages_are_one_ended: "one_ended s \<Longrightarrow> one_ended (logs_after acts s)"
  by (induction acts arbitrary: s) (simp_all add: logs_after_def one_ended_step)

text \<open>Lines that are pushed stand first, and all the lines that are not among the last hundred are gone.\<close>

lemma pushed_lines:
  "lg_logs (logs_after (map PushLiveTailEvent batches) s) =
     (if batches = [] then lg_logs s else take 100 (concat (rev batches) @ lg_logs s))"
proof (induction batches arbitrary: s)
  case (Cons b bs)
  have "lg_logs (logs_after (map PushLiveTailEvent (b # bs)) s) =
      lg_logs (logs_after (map PushLiveTailEvent bs) (s\<lparr>lg_logs := take 100 (b @ lg_logs s)\<rparr>))"
    by (simp add: logs_after_def)
  also have "\<dots> = take 100 (concat (rev bs) @ take 100 (b @ lg_logs s))"
    using Cons by (cases "bs = []") (simp_all add: min_def)
  also have "\<dots> = take 100 (concat (rev (b # bs)) @ lg_logs s)"
    by (simp add: min_def)
  finally show ?case by simp
qed (simp add: logs_after_def)

text \<open>A query a field was added to is parsed as it stands.\<close>

lemma added_field_is_parsed:
  "lg_parsed (logsReducer (AddSearchFieldQueryString t) s) = parseQuery (lg_query (logsReducer (AddSearchFieldQueryString t) s))"
  by (simp add: Let_def)

end
