(* ===== verification/Web_Evidence.thy ===== *)
theory Web_Evidence
  imports Server_Api
begin

section \<open>The evidence inspector (\<open>frontend/src/pages/AgentWorkspace/EvidenceInspector.tsx\<close>)\<close>

text \<open>
  The panel beside a conversation in which a user curates its evidence and asks for a new answer that
  rests on the selected items. The state of the component is a record; every handler is split at its
  calls of the service into what it asks for and what it makes of the answer. An answer is \<open>Inl\<close> the
  message of the exception, where one was thrown, which is \<open>None\<close> for a value that is no \<open>Error\<close>.
\<close>

record inspector =
  ins_evidence :: "evidence_item list"
  ins_loading :: bool
  ins_updating :: jsstr
  ins_filter :: "evidence_status option"
  ins_target :: "evidence_item option"
  ins_note :: jsstr
  ins_instruction :: jsstr
  ins_revising :: bool
  ins_errors :: "jsstr list"

definition opened_inspector :: inspector where
  [js_eval]: "opened_inspector = \<lparr>ins_evidence = [], ins_loading = True, ins_updating = [], ins_filter = None, ins_target = None,
     ins_note = [], ins_instruction = [], ins_revising = False, ins_errors = []\<rparr>"

definition report_error :: "jsstr \<Rightarrow> jsstr option \<Rightarrow> inspector \<Rightarrow> inspector" where
  [js_eval]: "report_error usual m p = p\<lparr>ins_errors := ins_errors p @ [case m of None \<Rightarrow> usual | Some t \<Rightarrow> t]\<rparr>"

subsection \<open>Labels\<close>

fun statusLabels :: "evidence_status \<Rightarrow> jsstr" where
  "statusLabels EvActive = [26377, 25928]"
| "statusLabels EvAccepted = [24050, 37319, 32435]"
| "statusLabels EvRejected = [24050, 39539, 22238]"
| "statusLabels EvSuspended = [24050, 25346, 36215]"

fun sourceLabels :: "evidence_source \<Rightarrow> jsstr" where
  "sourceLabels SrcTelemetry = [21487, 35266, 27979, 20449, 21495]"
| "sourceLabels SrcService = [26381, 21153]"
| "sourceLabels SrcAlert = [21578, 35686]"
| "sourceLabels SrcDashboard = [20202, 34920, 30424]"
| "sourceLabels SrcSsh = [20027, 26426, 24033, 26816]"
| "sourceLabels SrcMcp = (js ''MCP '' @ [24037, 20855])"
| "sourceLabels SrcWorkflow = (js ''Loop '' @ [20998, 26512])"
| "sourceLabels SrcDocument = [25991, 26723]"
| "sourceLabels SrcUrl = [32593, 39029, 26469, 28304]"

definition scoreClass :: "int \<Rightarrow> jsstr" where
  [js_eval]: "scoreClass score = (if 80 \<le> score then js ''high'' else if 60 \<le> score then js ''medium'' else js ''low'')"

fun relationLabel :: "evidence_relation_type \<Rightarrow> jsstr" where
  "relationLabel RelSameTrace = [21516, 19968, 25191, 34892, 38142]"
| "relationLabel RelCorroborates = [20132, 21449, 21360, 35777]"
| "relationLabel RelDerivedFrom = [30001, 27492, 27966, 29983]"
| "relationLabel RelRelated = [30456, 20851, 35777, 25454]"

definition action_labels :: "(jsstr \<times> jsstr) list" where
  [js_eval]: "action_labels =
     [(js ''captured'', [31995, 32479, 37319, 38598]), (js ''auto_suspended'', [23433, 20840, 25195, 25551, 33258, 21160, 25346, 36215]),
      (js ''accepted'', [20154, 24037, 37319, 32435]), (js ''rejected'', [20154, 24037, 39539, 22238]), (js ''suspended'', [20154, 24037, 25346, 36215]),
      (js ''restored'', [24674, 22797, 26377, 25928]), (js ''selected'', [36873, 20837, 37325, 31572]), (js ''unselected'', [31227, 20986, 37325, 31572]),
      (js ''noted'', [26356, 26032, 22791, 27880]), (js ''used_for_revision'', [29992, 20110, 20462, 35746, 22238, 31572])]"

text \<open>The service writes the actions, none of them the name of an inherited property.\<close>

definition actionLabel :: "jsstr \<Rightarrow> jsstr" where
  [js_eval]: "actionLabel action = (case map_of action_labels action of None \<Rightarrow> action | Some t \<Rightarrow> t)"

subsection \<open>What is shown\<close>

definition visibleEvidence :: "inspector \<Rightarrow> evidence_item list" where
  [js_eval]: "visibleEvidence p =
     filter (\<lambda>i. case ins_filter p of None \<Rightarrow> True | Some st \<Rightarrow> ev_status (ei_row i) = st) (ins_evidence p)"

definition disabled :: "evidence_item \<Rightarrow> bool" where
  [js_eval]: "disabled i \<longleftrightarrow> ev_status (ei_row i) = EvRejected \<or> ev_status (ei_row i) = EvSuspended"

definition selected_items :: "inspector \<Rightarrow> evidence_item list" where
  [js_eval]: "selected_items p = filter (\<lambda>i. ev_selected (ei_row i) \<and> \<not> disabled i) (ins_evidence p)"

definition activeEvidence :: "inspector \<Rightarrow> evidence_item list" where
  [js_eval]: "activeEvidence p = filter (\<lambda>i. \<not> disabled i) (ins_evidence p)"

definition averageConfidence :: "inspector \<Rightarrow> int" where
  [js_eval]: "averageConfidence p =
     (let items = activeEvidence p
      in if items = [] then 0
         else js_round (of_int (foldl (\<lambda>total i. total + ev_confidence (ei_row i)) 0 items) / of_nat (length items)))"

definition other_end :: "jsstr \<Rightarrow> evidence_relation \<Rightarrow> jsstr" where
  [js_eval]: "other_end i r = (if er_from r = i then er_to r else er_from r)"

text \<open>The relations of an item, each with the item at its other end.\<close>

definition related :: "inspector \<Rightarrow> evidence_item \<Rightarrow> (evidence_relation \<times> evidence_item option) list" where
  [js_eval]: "related p i = map (\<lambda>r. (r, head_option (filter (\<lambda>c. ev_id (ei_row c) = other_end (ev_id (ei_row i)) r) (ins_evidence p))))
     (ei_relations i)"

definition relation_line :: "evidence_relation \<times> evidence_item option \<Rightarrow> jsstr \<times> jsstr \<times> int" where
  [js_eval]: "relation_line ro = (relationLabel (er_type (fst ro)),
     or_default (case snd ro of None \<Rightarrow> [] | Some i \<Rightarrow> ev_title (ei_row i)) [20851, 32852, 35777, 25454], er_score (fst ro))"

text \<open>The last eight actions, the latest first.\<close>

definition history_lines :: "evidence_item \<Rightarrow> (jsstr \<times> int \<times> jsstr) list" where
  [js_eval]: "history_lines i = map (\<lambda>a. (actionLabel (ea_action a), ea_created a, ea_note a)) (take 8 (rev (ei_actions i)))"

text \<open>The check box: whether it is ticked, and whether it can be changed.\<close>

definition box_checked :: "evidence_item \<Rightarrow> bool" where
  [js_eval]: "box_checked i \<longleftrightarrow> ev_selected (ei_row i) \<and> \<not> disabled i"

definition box_enabled :: "inspector \<Rightarrow> evidence_item \<Rightarrow> bool" where
  [js_eval]: "box_enabled p i \<longleftrightarrow> \<not> (disabled i \<or> ins_updating p = ev_id (ei_row i))"

text \<open>The status each button of an item asks for, in the order of the buttons.\<close>

definition status_buttons :: "evidence_item \<Rightarrow> evidence_status list" where
  [js_eval]: "status_buttons i =
     (if ev_status (ei_row i) \<noteq> EvAccepted \<and> \<not> disabled i then [EvAccepted] else []) @
     (if \<not> disabled i then [EvRejected, EvSuspended] else []) @ (if disabled i then [EvActive] else [])"

subsection \<open>Handlers\<close>

text \<open>\<open>load\<close>, before the call and after it. Without a token or a conversation there is no call.\<close>

definition load_request :: "jsstr \<Rightarrow> jsstr \<Rightarrow> route option" where
  [js_eval]: "load_request token thread = (if token = [] \<or> thread = [] then None else Some (GetEvidence thread))"

definition load_started :: "jsstr \<Rightarrow> jsstr \<Rightarrow> inspector \<Rightarrow> inspector" where
  [js_eval]: "load_started token thread p =
     (if token = [] \<or> thread = [] then p\<lparr>ins_evidence := [], ins_loading := False\<rparr> else p\<lparr>ins_loading := True\<rparr>)"

definition evidence_loaded :: "jsstr option + evidence_item list \<Rightarrow> inspector \<Rightarrow> inspector" where
  [js_eval]: "evidence_loaded answer p =
     (case answer of
        Inr items \<Rightarrow> p\<lparr>ins_evidence := items\<rparr>
      | Inl m \<Rightarrow> report_error [35777, 25454, 21152, 36733, 22833, 36133] m p)\<lparr>ins_loading := False\<rparr>"

text \<open>\<open>patchEvidence\<close>: the fields a handler does not name are not sent.\<close>

definition no_patch :: evidence_patch where
  [js_eval]: "no_patch = \<lparr>ep_status = None, ep_selected = None, ep_note = None\<rparr>"

definition patch_request :: "evidence_item \<Rightarrow> evidence_patch \<Rightarrow> route" where
  [js_eval]: "patch_request i q = PatchEvidence (ev_id (ei_row i)) (Fit q)"

definition patch_started :: "evidence_item \<Rightarrow> inspector \<Rightarrow> inspector" where
  [js_eval]: "patch_started i p = p\<lparr>ins_updating := ev_id (ei_row i)\<rparr>"

definition replace_item :: "evidence_item \<Rightarrow> evidence_item list \<Rightarrow> evidence_item list" where
  [js_eval]: "replace_item new items = map (\<lambda>c. if ev_id (ei_row c) = ev_id (ei_row new) then new else c) items"

definition evidence_patched :: "jsstr option + evidence_item \<Rightarrow> inspector \<Rightarrow> inspector" where
  [js_eval]: "evidence_patched answer p =
     (case answer of
        Inr new \<Rightarrow> p\<lparr>ins_evidence := replace_item new (ins_evidence p)\<rparr>
      | Inl m \<Rightarrow> report_error [35777, 25454, 26356, 26032, 22833, 36133] m p)\<lparr>ins_updating := []\<rparr>"

text \<open>What the user can do with an item, and the patch each of these sends.\<close>

datatype item_act = TickBox bool | PressStatus evidence_status | StoreNote

definition act_offered :: "inspector \<Rightarrow> evidence_item \<Rightarrow> item_act \<Rightarrow> bool" where
  [js_eval]: "act_offered p i w =
     (i \<in> set (visibleEvidence p) \<and> (case w of
        TickBox _ \<Rightarrow> box_enabled p i
      | PressStatus st \<Rightarrow> st \<in> set (status_buttons i)
      | StoreNote \<Rightarrow> False)
      \<or> w = StoreNote \<and> ins_target p = Some i)"

definition act_patch :: "inspector \<Rightarrow> item_act \<Rightarrow> evidence_patch" where
  [js_eval]: "act_patch p w = (case w of
     TickBox b \<Rightarrow> no_patch\<lparr>ep_selected := Some b\<rparr>
   | PressStatus st \<Rightarrow> no_patch\<lparr>ep_status := Some st\<rparr>
   | StoreNote \<Rightarrow> no_patch\<lparr>ep_note := Some (ins_note p)\<rparr>)"

definition openNote :: "evidence_item \<Rightarrow> inspector \<Rightarrow> inspector" where
  [js_eval]: "openNote i p = p\<lparr>ins_target := Some i, ins_note := ev_note (ei_row i)\<rparr>"

definition closeNote :: "inspector \<Rightarrow> inspector" where
  [js_eval]: "closeNote p = p\<lparr>ins_target := None\<rparr>"

text \<open>The fields for texts hold at most 4000 and 2000 code units (\<open>maxLength\<close>).\<close>

definition typeNote :: "jsstr \<Rightarrow> inspector \<Rightarrow> inspector" where
  [js_eval]: "typeNote t p = (if length t \<le> 4000 then p\<lparr>ins_note := t\<rparr> else p)"

definition typeInstruction :: "jsstr \<Rightarrow> inspector \<Rightarrow> inspector" where
  [js_eval]: "typeInstruction t p = (if length t \<le> 2000 then p\<lparr>ins_instruction := t\<rparr> else p)"

definition chooseFilter :: "evidence_status option \<Rightarrow> inspector \<Rightarrow> inspector" where
  [js_eval]: "chooseFilter st p = p\<lparr>ins_filter := st\<rparr>"

text \<open>\<open>saveNote\<close>: the dialog closes also when the update failed.\<close>

definition note_saved :: "jsstr option + evidence_item \<Rightarrow> inspector \<Rightarrow> inspector" where
  [js_eval]: "note_saved answer p = closeNote (evidence_patched answer p)"

text \<open>\<open>revise\<close>. A success is followed by another \<open>load\<close>.\<close>

definition revise_request :: "jsstr \<Rightarrow> bool \<Rightarrow> inspector \<Rightarrow> route option" where
  [js_eval]: "revise_request thread busy p =
     (if selected_items p = [] \<or> ins_revising p \<or> busy then None
      else Some (PostRevision thread (Fit \<lparr>vf_ids = map (\<lambda>i. ev_id (ei_row i)) (selected_items p),
         vf_instruction = trim (ins_instruction p)\<rparr>)))"

definition revise_started :: "inspector \<Rightarrow> inspector" where
  [js_eval]: "revise_started p = p\<lparr>ins_revising := True\<rparr>"

definition revised :: "jsstr option + unit \<Rightarrow> inspector \<Rightarrow> inspector" where
  [js_eval]: "revised answer p =
     (case answer of
        Inr _ \<Rightarrow> p\<lparr>ins_instruction := []\<rparr>
      | Inl m \<Rightarrow> report_error [22522, 20110, 35777, 25454, 37325, 26032, 22238, 31572, 22833, 36133] m p)\<lparr>ins_revising := False\<rparr>"

end
