(* ===== verification/Web_Evidence_Laws.thy ===== *)
theory Web_Evidence_Laws
  imports Web_Evidence Evidence_Laws
begin

section \<open>The panel shows what the service stores\<close>

text \<open>
  A session of one user with the evidence panel and the service: the relation \<open>panel_step\<close>, the invariant
  \<open>in_step\<close> that ties the state of the component to the tables, and what a request for a new answer stores.
\<close>

subsection \<open>Sorting by a key\<close>

lemma sort_by_map: "sort_by (\<lambda>a b. R (k a) (k b)) (map f xs) = map f (sort_by (\<lambda>a b. R (k (f a)) (k (f b))) xs)"
proof -
  have one: "insert_by (\<lambda>a b. R (k a) (k b)) (f x) (map f ys) = map f (insert_by (\<lambda>a b. R (k (f a)) (k (f b))) x ys)" for x ys
    by (induction ys) auto
  have "foldl (\<lambda>ys x. insert_by (\<lambda>a b. R (k a) (k b)) x ys) (map f acc) (map f xs) =
      map f (foldl (\<lambda>ys x. insert_by (\<lambda>a b. R (k (f a)) (k (f b))) x ys) acc xs)" for acc
    by (induction xs arbitrary: acc) (simp_all add: one)
  from this [of "[]"] show ?thesis by (simp add: sort_by_def)
qed

lemma filter_insert_by:
  fixes k :: "'a \<Rightarrow> int"
  assumes "sorted_wrt (\<lambda>a b. k a \<le> k b) ys"
  shows "filter Q (insert_by (\<lambda>a b. k a \<le> k b) x ys) =
    (if Q x then insert_by (\<lambda>a b. k a \<le> k b) x (filter Q ys) else filter Q ys)"
  using assms
proof (induction ys)
  case (Cons y ys)
  show ?case
  proof (cases "k y \<le> k x")
    case True
    then show ?thesis using Cons by simp
  next
    case False
    have "insert_by (\<lambda>a b. k a \<le> k b) x zs = x # zs" if "\<forall>z \<in> set zs. \<not> k z \<le> k x" for zs
      using that by (cases zs) auto
    moreover have "\<forall>z \<in> set (filter Q (y # ys)). \<not> k z \<le> k x" using Cons.prems False by (auto simp: not_le intro: less_le_trans)
    ultimately have "insert_by (\<lambda>a b. k a \<le> k b) x (filter Q (y # ys)) = x # filter Q (y # ys)" by blast
    then show ?thesis using False by simp
  qed
qed simp

lemma filter_sort_by:
  fixes k :: "'a \<Rightarrow> int"
  shows "filter Q (sort_by (\<lambda>a b. k a \<le> k b) xs) = sort_by (\<lambda>a b. k a \<le> k b) (filter Q xs)"
proof (induction xs rule: rev_induct)
  case (snoc x xs)
  have "sorted_wrt (\<lambda>a b. k a \<le> k b) (sort_by (\<lambda>a b. k a \<le> k b) xs)" by (rule sorted_sort_by) auto
  then show ?case using snoc by (simp add: sort_by_def filter_insert_by)
qed (simp add: sort_by_def)


subsection \<open>Items one by one\<close>

definition rows_of :: "jsstr \<Rightarrow> jsstr \<Rightarrow> agent_db \<Rightarrow> evidence_row list" where
  "rows_of thread org s = sort_by (\<lambda>a b. ev_captured b \<le> ev_captured a)
     (filter (\<lambda>e. ev_thread e = thread \<and> ev_org e = org) (evidence_items s))"

definition item_at :: "agent_db \<Rightarrow> jsstr \<Rightarrow> jsstr list \<Rightarrow> evidence_row \<Rightarrow> evidence_item" where
  "item_at s thread ids e = \<lparr>ei_row = e,
     ei_relations = filter (\<lambda>r. er_from r \<in> set ids \<and> er_to r \<in> set ids \<and> (er_from r = ev_id e \<or> er_to r = ev_id e))
       (sort_by (\<lambda>a b. er_created a \<le> er_created b) (filter (\<lambda>r. er_thread r = thread) (evidence_relations s))),
     ei_actions = sort_by (\<lambda>a b. ea_created a \<le> ea_created b)
       (filter (\<lambda>a. ea_evidence a = ev_id e) (filter (\<lambda>r. ea_thread r = thread) (evidence_actions s)))\<rparr>"

lemma item_at_row [simp]: "ei_row (item_at s thread ids e) = e"
  by (simp add: item_at_def)

lemma rows_in: "e \<in> set (rows_of thread org s) \<longleftrightarrow> e \<in> set (evidence_items s) \<and> ev_thread e = thread \<and> ev_org e = org"
  by (simp add: rows_of_def)

lemma rows_distinct: "good_ledger pf s \<Longrightarrow> distinct (map ev_id (rows_of thread org s))"
  unfolding rows_of_def good_ledger_def
  by (metis (no_types, lifting) card_distinct distinct_card distinct_map_filter length_map length_sort_by list.set_map set_sort_by)

lemma listed_items: "listEvidence thread org s = map (item_at s thread (map ev_id (rows_of thread org s))) (rows_of thread org s)"
proof (cases "rows_of thread org s")
  case Nil
  then show ?thesis by (simp add: listEvidence_def hydrateEvidence_def rows_of_def)
next
  case (Cons e es)
  then have "ev_thread e = thread" using rows_in [of e thread org s] by simp
  then show ?thesis
    using Cons by (simp add: listEvidence_def hydrateEvidence_def Let_def item_at_def filter_sort_by flip: rows_of_def)
qed

subsection \<open>Curating one item\<close>

lemma log_fold_trail:
  "\<exists>es. evidence_actions (fold (log_patch u now e p) as s) = evidence_actions s @ es \<and> (\<forall>a \<in> set es. ea_evidence a = ev_id e)
    \<and> evidence_relations (fold (log_patch u now e p) as s) = evidence_relations s"
proof (induction as arbitrary: s)
  case (Cons x as)
  have "\<exists>a. evidence_actions (log_patch u now e p x s) = evidence_actions s @ [a] \<and> ea_evidence a = ev_id e
      \<and> evidence_relations (log_patch u now e p x s) = evidence_relations s"
    by (simp add: log_patch_def addEvidenceAction_def)
  then show ?case using Cons [of "log_patch u now e p x s"] by fastforce
qed simp

lemma curated_rows:
  assumes "evidence_items s' = update_where (\<lambda>e. ev_id e = ev_id cur) (patch_evidence now p cur) (evidence_items s)"
  shows "rows_of thread org s' = update_where (\<lambda>e. ev_id e = ev_id cur) (patch_evidence now p cur) (rows_of thread org s)"
proof -
  let ?f = "\<lambda>e. if ev_id e = ev_id cur then patch_evidence now p cur e else e"
  have same: "ev_thread (?f e) = ev_thread e" "ev_org (?f e) = ev_org e" "ev_captured (?f e) = ev_captured e" for e
    by (simp_all add: patch_evidence_def)
  have "filter (\<lambda>e. ev_thread e = thread \<and> ev_org e = org) (map ?f (evidence_items s)) =
      map ?f (filter (\<lambda>e. ev_thread e = thread \<and> ev_org e = org) (evidence_items s))"
    by (simp add: filter_map comp_def same)
  then show ?thesis
    using sort_by_map [of "\<lambda>a b. b \<le> a" ev_captured ?f]
    by (simp add: rows_of_def assms update_where_def same)
qed

lemma curated_listing:
  assumes ledger: "good_ledger pf s" and cur: "cur \<in> set (rows_of thread (user_org u) s)"
  shows "\<exists>new s'. updateEvidence pf fresh now (ev_id cur) u p s = (Some new, s') \<and> ev_id (ei_row new) = ev_id cur
    \<and> replace_item new (listEvidence thread (user_org u) s) = listEvidence thread (user_org u) s'"
proof -
  let ?org = "user_org u" and ?rows = "rows_of thread (user_org u) s"
  define s1 where "s1 = fold (log_patch u now cur p) (logged_actions p cur)
      (s\<lparr>evidence_items := update_where (\<lambda>e. ev_id e = ev_id cur) (patch_evidence now p cur) (evidence_items s)\<rparr>)"
  let ?f = "\<lambda>e. if ev_id e = ev_id cur then patch_evidence now p cur e else e" and ?ids = "map ev_id ?rows"
  have own: "cur \<in> set (evidence_items s)" "ev_thread cur = thread" "ev_org cur = ?org" using cur by (simp_all add: rows_in)
  have only: "e = cur" if "e \<in> set (evidence_items s)" "ev_id e = ev_id cur" for e
    using that own(1) ledger unfolding good_ledger_def by (meson distinct_map inj_onD)
  have found: "head_option (filter (\<lambda>e. ev_id e = ev_id cur \<and> ev_org e = ?org) (evidence_items s)) = Some cur"
    using own only by (cases "filter (\<lambda>e. ev_id e = ev_id cur \<and> ev_org e = ?org) (evidence_items s)")
      (auto simp: filter_empty_conv filter_eq_Cons_iff)
  have items: "evidence_items s1 = update_where (\<lambda>e. ev_id e = ev_id cur) (patch_evidence now p cur) (evidence_items s)"
    by (simp add: s1_def)
  have rows: "rows_of thread ?org s1 = map ?f ?rows" using curated_rows [OF items] by (simp add: update_where_def)
  have ids: "map ev_id (rows_of thread ?org s1) = ?ids" by (simp add: rows)
  obtain es where trail: "evidence_actions s1 = evidence_actions s @ es" "\<forall>a \<in> set es. ea_evidence a = ev_id cur"
      "evidence_relations s1 = evidence_relations s"
    using log_fold_trail [of u now cur p "logged_actions p cur"
        "s\<lparr>evidence_items := update_where (\<lambda>e. ev_id e = ev_id cur) (patch_evidence now p cur) (evidence_items s)\<rparr>"]
    by (auto simp: s1_def)
  have other: "item_at s1 thread ?ids e = item_at s thread ?ids e" if "ev_id e \<noteq> ev_id cur" for e
  proof -
    have "filter (\<lambda>a. ea_evidence a = ev_id e) (filter (\<lambda>r. ea_thread r = thread) es) = []"
      using trail(2) that by (auto simp: filter_empty_conv)
    then show ?thesis by (simp add: item_at_def trail(1,3))
  qed
  let ?new = "item_at s1 thread ?ids (patch_evidence now p cur cur)"
  have listing: "listEvidence thread ?org s1 = map (\<lambda>e. item_at s1 thread ?ids (?f e)) ?rows"
    unfolding listed_items ids by (simp add: rows)
  have same: "?f e = patch_evidence now p cur cur" if "e \<in> set ?rows" "ev_id e = ev_id cur" for e
    using only [of e] that by (simp add: rows_in)
  have replaced: "replace_item ?new (listEvidence thread ?org s) = listEvidence thread ?org s1"
    unfolding listing unfolding listed_items replace_item_def using same by (auto simp: other)
  have "head_option (filter (\<lambda>i. ev_id (ei_row i) = ev_id cur) (listEvidence thread ?org s1)) = Some ?new"
  proof -
    obtain i more where i: "filter (\<lambda>i. ev_id (ei_row i) = ev_id cur) (listEvidence thread ?org s1) = i # more"
      using cur by (cases "filter (\<lambda>i. ev_id (ei_row i) = ev_id cur) (listEvidence thread ?org s1)")
        (force simp: listing filter_empty_conv)+
    then have "i \<in> set (filter (\<lambda>i. ev_id (ei_row i) = ev_id cur) (listEvidence thread ?org s1))" by simp
    then have "i = ?new" using same by (auto simp: listing split: if_splits)
    then show ?thesis using i by simp
  qed
  then have picked: "head_option (getEvidenceByIds (ev_thread cur) ?org [ev_id cur] s1) = Some ?new"
    by (simp add: getEvidenceByIds_def own)
  define s' where "s' = snd (updateEvidence pf fresh now (ev_id cur) u p s)"
  have "updateEvidence pf fresh now (ev_id cur) u p s = (Some ?new, s')" and part: "evidence_part s' = evidence_part s1"
    unfolding s'_def updateEvidence_def Let_def found by (simp_all add: s1_def [symmetric] picked)
  moreover have "listEvidence thread ?org s' = listEvidence thread ?org s1"
    using part by (simp add: evidence_part_def listed_items rows_of_def item_at_def)
  ultimately show ?thesis using replaced by auto
qed


subsection \<open>A session with the panel\<close>

text \<open>
  The panel and the database while one user works with it. A call is one step with its answer; \<open>m\<close> is the
  message of the exception that the client raises for an answer that is no success.
\<close>

definition list_answer :: "jsstr option \<Rightarrow> reply \<Rightarrow> jsstr option + evidence_item list" where
  [js_eval]: "list_answer m r = (case r of
     Reply n (EvidenceListContent items) \<Rightarrow> if n = 200 then Inr items else Inl m | _ \<Rightarrow> Inl m)"

definition item_answer :: "jsstr option \<Rightarrow> reply \<Rightarrow> jsstr option + evidence_item" where
  [js_eval]: "item_answer m r = (case r of
     Reply n (EvidenceContent i) \<Rightarrow> if n = 200 then Inr i else Inl m | _ \<Rightarrow> Inl m)"

definition reloaded :: "service \<Rightarrow> arrival \<Rightarrow> auth_user \<Rightarrow> jsstr \<Rightarrow> jsstr option \<Rightarrow> inspector \<Rightarrow> agent_db \<Rightarrow> inspector \<times> agent_db" where
  [js_eval]: "reloaded sv a u thread m p s =
     (let (answer, s') = serve sv a u (GetEvidence thread) s
      in (evidence_loaded (list_answer m answer) (p\<lparr>ins_loading := True\<rparr>), s'))"

inductive panel_step :: "service \<Rightarrow> auth_user \<Rightarrow> jsstr \<Rightarrow> inspector \<times> agent_db \<Rightarrow> inspector \<times> agent_db \<Rightarrow> bool"
  for sv u thread where
  Reload: "panel_step sv u thread (p, s) (reloaded sv a u thread m p s)"
| Curate: "act_offered p i w \<Longrightarrow> serve sv a u (patch_request i (act_patch p w)) s = (answer, s') \<Longrightarrow>
    panel_step sv u thread (p, s)
      ((if w = StoreNote then note_saved else evidence_patched) (item_answer m answer) (patch_started i p), s')"
| Open: "i \<in> set (visibleEvidence p) \<Longrightarrow> panel_step sv u thread (p, s) (openNote i p, s)"
| Close: "panel_step sv u thread (p, s) (closeNote p, s)"
| Note: "panel_step sv u thread (p, s) (typeNote t p, s)"
| Instruct: "panel_step sv u thread (p, s) (typeInstruction t p, s)"
| Choose: "panel_step sv u thread (p, s) (chooseFilter st p, s)"
| Revised: "revise_request thread busy p = Some q \<Longrightarrow> serve sv a u q s = (answer, s') \<Longrightarrow> reply_status answer = 200 \<Longrightarrow>
    panel_step sv u thread (p, s) (reloaded sv b u thread m (revised (Inr ()) (revise_started p)) s')"
| Unrevised: "revise_request thread busy p = Some q \<Longrightarrow> serve sv a u q s = (answer, s') \<Longrightarrow> reply_status answer \<noteq> 200 \<Longrightarrow>
    panel_step sv u thread (p, s) (revised (Inl m) (revise_started p), s')"

definition in_step :: "platform \<Rightarrow> auth_user \<Rightarrow> jsstr \<Rightarrow> inspector \<times> agent_db \<Rightarrow> bool" where
  "in_step pf u thread x \<longleftrightarrow> (case x of (p, s) \<Rightarrow>
     good_ledger pf s \<and> ownsThread thread (user_id u) (user_org u) s \<and> ins_evidence p = listEvidence thread (user_org u) s
     \<and> length (ins_note p) \<le> 4000 \<and> length (ins_instruction p) \<le> 2000 \<and> \<not> ins_revising p \<and> \<not> ins_loading p
     \<and> (case ins_target p of None \<Rightarrow> True | Some i \<Rightarrow> ev_id (ei_row i) \<in> set (map (\<lambda>c. ev_id (ei_row c)) (ins_evidence p))))"

lemma owns_same: "threads s' = threads s \<Longrightarrow> ownsThread thread i org s' = ownsThread thread i org s"
  by (simp add: ownsThread_def)

lemma parts_threads: "threads (snd (ingest_parts pf ids now u ps k s)) = threads s"
  by (induction ps arbitrary: k s) (simp_all split: part_plan.split)

lemma history_step:
  assumes "good_ledger (sv_platform sv) (snd y)"
  shows "good_ledger (sv_platform sv) (snd (ingest_history sv a u thread km y)) \<and>
    threads (snd (ingest_history sv a u thread km y)) = threads (snd y)"
proof -
  obtain k m q s where [simp]: "km = (k, m)" "y = (q, s)" by (cases km; cases y)
  have "good_ledger (sv_platform sv) (snd (ingest_parts (sv_platform sv) ids now u ps j s))" for ids now ps j
    using keeps_ingest [of "sv_platform sv" s u ids now ps j] assms by (simp add: keeps_def)
  then show ?thesis
    using assms by (simp add: ingest_history_def Let_def ingestEvidenceFromUIMessage_def parts_threads del: ingest_parts.simps)
qed

lemma history_kept:
  "good_ledger (sv_platform sv) (snd y) \<Longrightarrow> good_ledger (sv_platform sv) (snd (fold (ingest_history sv a u thread) ms y))
    \<and> threads (snd (fold (ingest_history sv a u thread) ms y)) = threads (snd y)"
proof (induction ms arbitrary: y)
  case (Cons m ms)
  then show ?case using history_step [OF Cons.prems] by simp
qed simp

lemma evidence_served:
  assumes "good_ledger (sv_platform sv) s" "ownsThread thread (user_id u) (user_org u) s"
  shows "\<exists>s'. serve sv a u (GetEvidence thread) s = (Reply 200 (EvidenceListContent (listEvidence thread (user_org u) s')), s')
    \<and> good_ledger (sv_platform sv) s' \<and> ownsThread thread (user_id u) (user_org u) s'
    \<and> (listEvidence thread (user_org u) s \<noteq> [] \<longrightarrow> s' = s)"
proof -
  let ?y = "fold (ingest_history sv a u thread) (enumerate 0 (getThreadUIMessages thread s)) ([], s)"
  have served: "serve sv a u (GetEvidence thread) s = threadEvidence sv a u thread s" by (rule serve.simps)
  show ?thesis
  proof (cases "listEvidence thread (user_org u) s = []")
    case True
    have "good_ledger (sv_platform sv) (snd ?y)" "threads (snd ?y) = threads s"
      using history_kept [of sv "([], s)" a u thread] assms(1) by simp_all
    moreover have "threadEvidence sv a u thread s = (Reply 200 (EvidenceListContent (listEvidence thread (user_org u) (snd ?y))), snd ?y)"
      unfolding threadEvidence_def Let_def case_prod_unfold using True assms(2) by simp
    ultimately show ?thesis unfolding served using True assms(2) owns_same by blast
  next
    case False
    then show ?thesis unfolding served threadEvidence_def using assms by simp
  qed
qed

subsection \<open>Asking for a new answer\<close>

lemma disabled_unusable: "disabled i = unusable i"
  by (simp add: disabled_def unusable_def)

lemma selected_are_chosen:
  assumes "distinct (map (\<lambda>i. ev_id (ei_row i)) (ins_evidence p))"
  shows "filter (\<lambda>i. ev_id (ei_row i) \<in> set (map (\<lambda>i. ev_id (ei_row i)) (selected_items p))) (ins_evidence p) = selected_items p"
  unfolding selected_items_def
proof (rule filter_cong [OF refl])
  fix i assume "i \<in> set (ins_evidence p)"
  then show "(ev_id (ei_row i) \<in> set (map (\<lambda>i. ev_id (ei_row i)) (filter (\<lambda>i. ev_selected (ei_row i) \<and> \<not> disabled i) (ins_evidence p)))) =
      (ev_selected (ei_row i) \<and> \<not> disabled i)"
    using assms by (auto simp: distinct_map dest: inj_onD)
qed

lemma listed_distinct:
  assumes "good_ledger pf s"
  shows "distinct (map (\<lambda>i. ev_id (ei_row i)) (listEvidence thread org s))"
  using rows_distinct [OF assms, of thread org] by (simp add: listed_items comp_def)

definition revision_stored :: "jsstr \<Rightarrow> auth_user \<Rightarrow> inspector \<Rightarrow> agent_db \<Rightarrow> agent_db \<Rightarrow> bool" where
  "revision_stored thread u p s s' \<longleftrightarrow> (\<exists>r. evidence_revisions s' = evidence_revisions s @ [r] \<and> rv_thread r = thread
     \<and> rv_user r = user_id u \<and> rv_selected r = map (\<lambda>i. ev_id (ei_row i)) (selected_items p)
     \<and> rv_excluded r = map (\<lambda>i. ev_id (ei_row i)) (filter disabled (ins_evidence p))
     \<and> rv_instruction r = trim (ins_instruction p))"

lemma revision_frame_more:
  "evidence_revisions (snd (recordEvidenceRevision i now u thread message selected excluded note s)) = evidence_revisions s @
     [\<lparr>rv_id = i, rv_thread = thread, rv_org = user_org u, rv_user = user_id u, rv_message = message, rv_selected = selected,
       rv_excluded = excluded, rv_instruction = note, rv_created = now\<rparr>]"
  "threads (snd (recordEvidenceRevision i now u thread message selected excluded note s)) = threads s"
proof -
  have one: "evidence_revisions (fold (\<lambda>e. addEvidenceAction e u now a (ev_status e) (ev_status e) n) es t) = evidence_revisions t
      \<and> threads (fold (\<lambda>e. addEvidenceAction e u now a (ev_status e) (ev_status e) n) es t) = threads t" for a n es t
    by (induction es arbitrary: t) (simp_all add: addEvidenceAction_def)
  have "evidence_revisions (fold (\<lambda>eid s. fold (\<lambda>e. addEvidenceAction e u now a (ev_status e) (ev_status e) n)
          (filter (\<lambda>e. ev_id e = eid) (evidence_items s)) s) ids t) = evidence_revisions t
      \<and> threads (fold (\<lambda>eid s. fold (\<lambda>e. addEvidenceAction e u now a (ev_status e) (ev_status e) n)
          (filter (\<lambda>e. ev_id e = eid) (evidence_items s)) s) ids t) = threads t" for a n ids t
    by (induction ids arbitrary: t) (simp_all add: one)
  then show "evidence_revisions (snd (recordEvidenceRevision i now u thread message selected excluded note s)) = evidence_revisions s @
     [\<lparr>rv_id = i, rv_thread = thread, rv_org = user_org u, rv_user = user_id u, rv_message = message, rv_selected = selected,
       rv_excluded = excluded, rv_instruction = note, rv_created = now\<rparr>]"
    "threads (snd (recordEvidenceRevision i now u thread message selected excluded note s)) = threads s"
    by (simp_all add: recordEvidenceRevision_def Let_def)
qed

lemma touched_ex: "(\<And>x. P (f x) = P x) \<Longrightarrow> list_ex P (update_where Q f xs) = list_ex P xs"
  by (induction xs) (auto simp: update_where_def)

lemma upsert_frame:
  "evidence_items (upsertUIMessage pf k now i m s) = evidence_items s" "evidence_revisions (upsertUIMessage pf k now i m s) = evidence_revisions s"
  "ownsThread thread user org (upsertUIMessage pf k now i m s) = ownsThread thread user org s"
  by (simp_all add: upsertUIMessage_def Let_def ownsThread_def touched_ex)

lemma audit_evidence:
  "evidence_items (addSecurityAuditEvent e s) = evidence_items s" "evidence_revisions (addSecurityAuditEvent e s) = evidence_revisions s"
  "ownsThread thread user org (addSecurityAuditEvent e s) = ownsThread thread user org s"
  by (simp_all add: addSecurityAuditEvent_def ownsThread_def)

lemma revise_cases:
  assumes "getEvidenceByIds thread (user_org u) (vf_ids f) s = chosen" "length chosen = length (remdups (vf_ids f))"
    "filter (\<lambda>i. \<not> unusable i) chosen = chosen" "chosen \<noteq> []"
  shows "let (answer, s') = reviseAnswer sv a u thread f s
    in reply_status answer = 200 \<and> (\<exists>r. evidence_revisions s' = evidence_revisions s @ [r] \<and> rv_thread r = thread \<and> rv_user r = user_id u
          \<and> rv_selected r = map (\<lambda>i. ev_id (ei_row i)) chosen
          \<and> rv_excluded r = map (\<lambda>i. ev_id (ei_row i)) (filter unusable (listEvidence thread (user_org u) s))
          \<and> rv_instruction r = vf_instruction f)
        \<and> evidence_items s' = evidence_items s \<and> ownsThread thread (user_id u) (user_org u) s' = ownsThread thread (user_id u) (user_org u) s
      \<or> reply_status answer = 500 \<and> s' = s \<and> (getModelSettings (sv_vault sv) True s = None
          \<or> (\<exists>m system prompt e. generate_text sv m system prompt = Inl e))"
proof (cases "getModelSettings (sv_vault sv) True s")
  case None
  then have "reviseAnswer sv a u thread f s = (failed unreadable_key, s)"
    unfolding reviseAnswer_def Let_def using assms by simp
  then show ?thesis using None by (simp add: failed_def)
next
  case (Some settings)
  define spoken where "spoken = (\<lambda>r. case last_with (has_role r) (getThreadUIMessages thread s) of None \<Rightarrow> [] | Some m \<Rightarrow> messageText (sv_platform sv) m)"
  define prompt where "prompt = revision_prompt (spoken ''user'') (spoken ''assistant'')
     (take 100000 (str_join [10] (map (evidence_line (sv_platform sv)) (map ei_row chosen))))
     (take 20000 (str_join [10] (map excluded_line (map ei_row (filter unusable (listEvidence thread (user_org u) s)))))) (vf_instruction f)"
  show ?thesis
  proof (cases "generate_text sv settings revision_system prompt")
    case (Inl e)
    then have "reviseAnswer sv a u thread f s = (failed (tw_text e), s)"
      unfolding reviseAnswer_def Let_def using assms Some by (simp add: spoken_def prompt_def)
    then show ?thesis using Inl by (auto simp: failed_def)
  next
    case (Inr written)
    define chosen_ids where "chosen_ids = map ev_id (map ei_row chosen)"
    define out where "out = map ev_id (map ei_row (filter unusable (listEvidence thread (user_org u) s)))"
    let ?t = "recordEvidenceRevision (mm_fresh (ar_moment a) 0) (ar_now a) u thread (mm_uuid (ar_moment a)) chosen_ids out (vf_instruction f) s"
    have "\<exists>m e. reviseAnswer sv a u thread f s = (Reply 200 (RevisionContent (fst ?t) m),
        addSecurityAuditEvent e (upsertUIMessage (sv_platform sv) (mm_fresh (ar_moment a) 1) (ar_now a) thread m (snd ?t)))"
      unfolding reviseAnswer_def Let_def case_prod_unfold using assms Some Inr
      by (simp add: spoken_def prompt_def chosen_ids_def out_def) (rule exI, rule refl)
    then show ?thesis
      using owns_same [OF revision_frame_more(2)]
      by (auto simp: audit_evidence upsert_frame revision_frame_more revision_frame chosen_ids_def out_def comp_def)
  qed
qed

definition asked :: "inspector \<Rightarrow> revision_form" where
  "asked p = \<lparr>vf_ids = map (\<lambda>i. ev_id (ei_row i)) (selected_items p), vf_instruction = trim (ins_instruction p)\<rparr>"

lemma revise_answer:
  assumes "in_step (sv_platform sv) u thread (p, s)" "revise_request thread busy p = Some q" "serve sv a u q s = (answer, s')"
  shows "if valid_revision (asked p)
    then reply_status answer = 200 \<and> revision_stored thread u p s s' \<and> evidence_items s' = evidence_items s
        \<and> ownsThread thread (user_id u) (user_org u) s'
      \<or> reply_status answer = 500 \<and> s' = s \<and> (getModelSettings (sv_vault sv) True s = None
          \<or> (\<exists>m system prompt e. generate_text sv m system prompt = Inl e))
    else answer = Reply 400 InvalidRequest \<and> s' = s"
proof -
  have sync: "good_ledger (sv_platform sv) s" "ownsThread thread (user_id u) (user_org u) s"
      "ins_evidence p = listEvidence thread (user_org u) s"
    using assms(1) by (simp_all add: in_step_def)
  have q: "q = PostRevision thread (Fit (asked p))" and some: "selected_items p \<noteq> []"
    using assms(2) by (auto simp: revise_request_def asked_def split: if_splits)
  have served: "serve sv a u q s = with_body valid_revision (Fit (asked p)) (reviseAnswer sv a u thread) s"
    unfolding q using sync(2) by simp
  have unique: "distinct (map (\<lambda>i. ev_id (ei_row i)) (ins_evidence p))" unfolding sync(3) by (rule listed_distinct [OF sync(1)])
  then have "distinct (map (\<lambda>i. ev_id (ei_row i)) (selected_items p))" unfolding selected_items_def by (rule distinct_map_filter)
  then have count: "length (selected_items p) = length (remdups (vf_ids (asked p)))"
    by (simp add: asked_def distinct_remdups_id)
  have chosen: "getEvidenceByIds thread (user_org u) (vf_ids (asked p)) s = selected_items p"
    using selected_are_chosen [OF unique] some by (simp add: getEvidenceByIds_def asked_def flip: sync(3))
  have usable: "filter (\<lambda>i. \<not> unusable i) (selected_items p) = selected_items p"
    by (auto simp: selected_items_def disabled_unusable intro: filter_cong)
  have excluded: "filter unusable (listEvidence thread (user_org u) s) = filter disabled (ins_evidence p)"
    by (simp add: sync(3) disabled_unusable [abs_def])
  show ?thesis
  proof (cases "valid_revision (asked p)")
    case True
    then have "reviseAnswer sv a u thread (asked p) s = (answer, s')" using assms(3) by (simp add: served with_body_def)
    then show ?thesis
      using revise_cases [OF chosen count usable some, of sv a] True sync(2)
      by (auto simp: asked_def revision_stored_def excluded)
  qed (use assms(3) in \<open>simp add: served with_body_def\<close>)
qed

lemma asked_valid:
  assumes "in_step pf u thread (p, s)" "list_all is_uuid (map ev_id (evidence_items s))" "revise_request thread busy p = Some q"
  shows "valid_revision (asked p) \<longleftrightarrow> length (selected_items p) \<le> 50"
proof -
  have "selected_items p \<noteq> []" using assms(3) by (auto simp: revise_request_def split: if_splits)
  then have "0 < length (selected_items p)" by simp
  moreover have "length (trim (ins_instruction p)) \<le> 2000"
    using length_trim [of "ins_instruction p"] assms(1) by (simp add: in_step_def)
  moreover have "list_all is_uuid (map (\<lambda>i. ev_id (ei_row i)) (selected_items p))"
    using assms(1,2) by (auto simp: in_step_def selected_items_def listed_items list_all_iff rows_in)
  ultimately show ?thesis by (simp add: valid_revision_def asked_def Suc_le_eq)
qed

subsection \<open>Every step keeps the panel and the store together\<close>

lemma replace_ids: "map (\<lambda>c. ev_id (ei_row c)) (replace_item new items) = map (\<lambda>c. ev_id (ei_row c)) items"
  by (induction items) (auto simp: replace_item_def)

lemma update_threads: "threads (snd (updateEvidence pf fresh now i u p s)) = threads s"
  by (simp add: updateEvidence_def Let_def split: option.split)

lemma patches_are_valid: "length (ins_note p) \<le> 4000 \<Longrightarrow> valid_evidence_patch (act_patch p w)"
  by (cases w) (simp_all add: valid_evidence_patch_def act_patch_def no_patch_def)

lemma offered_known:
  assumes "in_step pf u thread (p, s)" "act_offered p i w"
  shows "\<exists>cur \<in> set (rows_of thread (user_org u) s). ev_id cur = ev_id (ei_row i)"
proof -
  have "ev_id (ei_row i) \<in> set (map (\<lambda>c. ev_id (ei_row c)) (ins_evidence p))"
    using assms by (auto simp: in_step_def act_offered_def visibleEvidence_def)
  then show ?thesis using assms(1) by (auto simp: in_step_def listed_items)
qed

lemma curation_served:
  assumes "in_step (sv_platform sv) u thread (p, s)" "act_offered p i w"
  shows "\<exists>new s'. serve sv a u (patch_request i (act_patch p w)) s = (Reply 200 (EvidenceContent new), s')
    \<and> replace_item new (ins_evidence p) = listEvidence thread (user_org u) s'
    \<and> good_ledger (sv_platform sv) s' \<and> ownsThread thread (user_id u) (user_org u) s'"
proof -
  have sync: "good_ledger (sv_platform sv) s" "ownsThread thread (user_id u) (user_org u) s"
      "ins_evidence p = listEvidence thread (user_org u) s" "length (ins_note p) \<le> 4000"
    using assms(1) by (simp_all add: in_step_def)
  obtain cur where cur: "cur \<in> set (rows_of thread (user_org u) s)" "ev_id cur = ev_id (ei_row i)"
    using offered_known [OF assms] by blast
  let ?update = "updateEvidence (sv_platform sv) (mm_fresh (ar_moment a)) (ar_now a) (ev_id (ei_row i)) u (act_patch p w) s"
  obtain new s' where new: "?update = (Some new, s')"
      "replace_item new (listEvidence thread (user_org u) s) = listEvidence thread (user_org u) s'"
    using curated_listing [OF sync(1) cur(1), of "mm_fresh (ar_moment a)" "ar_now a" "act_patch p w"] cur(2) by auto
  have "serve sv a u (patch_request i (act_patch p w)) s = (Reply 200 (EvidenceContent new), s')"
    using patches_are_valid [OF sync(4), of w] by (simp add: patch_request_def with_body_def patchEvidence_def new(1))
  moreover have "good_ledger (sv_platform sv) s'"
    using keeps_update [OF sync(1), of u "mm_fresh (ar_moment a)" "ar_now a" "ev_id (ei_row i)" "act_patch p w"] new(1)
    by (simp add: keeps_def)
  moreover have "threads s' = threads s"
    using update_threads [of "sv_platform sv" "mm_fresh (ar_moment a)" "ar_now a" "ev_id (ei_row i)" u "act_patch p w" s] new(1) by simp
  ultimately show ?thesis using new(2) sync(2,3) owns_same by metis
qed

lemma reload_in_step:
  assumes "good_ledger (sv_platform sv) s" "ownsThread thread (user_id u) (user_org u) s"
    "length (ins_note p) \<le> 4000" "length (ins_instruction p) \<le> 2000" "\<not> ins_revising p"
    "case ins_target p of None \<Rightarrow> True | Some i \<Rightarrow> ev_id (ei_row i) \<in> set (map ev_id (rows_of thread (user_org u) s))"
  shows "in_step (sv_platform sv) u thread (reloaded sv a u thread m p s)"
proof -
  obtain s' where s': "serve sv a u (GetEvidence thread) s = (Reply 200 (EvidenceListContent (listEvidence thread (user_org u) s')), s')"
      "good_ledger (sv_platform sv) s'" "ownsThread thread (user_id u) (user_org u) s'" "listEvidence thread (user_org u) s \<noteq> [] \<longrightarrow> s' = s"
    using evidence_served [OF assms(1,2)] by blast
  have "case ins_target p of None \<Rightarrow> True | Some i \<Rightarrow> ev_id (ei_row i) \<in> set (map ev_id (rows_of thread (user_org u) s'))"
    using assms(6) s'(4) by (auto simp: listed_items split: option.split)
  then show ?thesis
    using assms(3-5) s'(1-3)
    by (simp add: reloaded_def list_answer_def evidence_loaded_def in_step_def listed_items comp_def del: serve.simps split: option.splits)
qed

lemma target_row:
  "in_step pf u thread (p, s) \<Longrightarrow>
    case ins_target p of None \<Rightarrow> True | Some i \<Rightarrow> ev_id (ei_row i) \<in> set (map ev_id (rows_of thread (user_org u) s))"
  by (auto simp: in_step_def listed_items split: option.splits)

lemma revised_frame:
  assumes "in_step (sv_platform sv) u thread (p, s)" "revise_request thread busy p = Some q" "serve sv a u q s = (answer, s')"
  shows "evidence_items s' = evidence_items s \<and> ownsThread thread (user_id u) (user_org u) s'
    \<and> (reply_status answer \<noteq> 200 \<longrightarrow> s' = s)"
  using revise_answer [OF assms] assms(1) by (auto simp: in_step_def split: if_splits)

lemma panel_step_kept: "panel_step sv u thread x y \<Longrightarrow> in_step (sv_platform sv) u thread x \<Longrightarrow> in_step (sv_platform sv) u thread y"
proof (induction rule: panel_step.induct)
  case (Reload p s a m)
  then show ?case using target_row [OF Reload] by (intro reload_in_step) (simp_all add: in_step_def)
next
  case (Curate p i w a s answer s' m)
  from curation_served [OF Curate.prems Curate.hyps(1), of a] Curate.hyps(2) obtain new where
    new: "answer = Reply 200 (EvidenceContent new)" "replace_item new (ins_evidence p) = listEvidence thread (user_org u) s'"
      "good_ledger (sv_platform sv) s'" "ownsThread thread (user_id u) (user_org u) s'" by auto
  have "case ins_target p of None \<Rightarrow> True
      | Some i \<Rightarrow> ev_id (ei_row i) \<in> set (map (\<lambda>c. ev_id (ei_row c)) (replace_item new (ins_evidence p)))"
    unfolding replace_ids using Curate.prems by (simp add: in_step_def)
  then show ?case
    using Curate.prems new by (simp add: in_step_def item_answer_def note_saved_def closeNote_def evidence_patched_def patch_started_def
        split: option.splits)
next
  case (Open i p s)
  then have "ei_row i \<in> set (rows_of thread (user_org u) s)" by (auto simp: in_step_def visibleEvidence_def listed_items)
  then have "length (ev_note (ei_row i)) \<le> 4000"
    using Open.prems by (auto simp: in_step_def good_ledger_def list_all_iff good_evidence_def rows_in)
  then show ?case using Open by (auto simp: in_step_def openNote_def visibleEvidence_def)
next
  case (Revised busy p q a s answer s' b m)
  note frame = revised_frame [OF Revised.prems Revised.hyps(1,2)]
  then have "good_ledger (sv_platform sv) s'" "rows_of thread (user_org u) s' = rows_of thread (user_org u) s"
    using Revised.prems by (simp_all add: in_step_def good_ledger_def rows_of_def)
  then show ?case
    using Revised.prems frame target_row [OF Revised.prems]
    by (intro reload_in_step) (simp_all add: in_step_def revised_def revise_started_def split: option.splits)
next
  case (Unrevised busy p q a s answer s' m)
  then show ?case using revised_frame [OF Unrevised.prems Unrevised.hyps(1,2)]
    by (auto simp: in_step_def revised_def revise_started_def report_error_def split: option.splits)
qed (auto simp: in_step_def closeNote_def typeNote_def typeInstruction_def chooseFilter_def split: option.splits)

lemma session_kept: "(panel_step sv u thread)\<^sup>*\<^sup>* x y \<Longrightarrow> in_step (sv_platform sv) u thread x \<Longrightarrow> in_step (sv_platform sv) u thread y"
  by (induction rule: rtranclp_induct) (auto intro: panel_step_kept)

lemma opened_in_step:
  "good_ledger (sv_platform sv) s \<Longrightarrow> ownsThread thread (user_id u) (user_org u) s \<Longrightarrow>
    in_step (sv_platform sv) u thread (reloaded sv a u thread m opened_inspector s)"
  by (rule reload_in_step) (simp_all add: opened_inspector_def)

lemma foldl_bounds:
  fixes c :: "'a \<Rightarrow> int"
  assumes "\<forall>i \<in> set xs. 0 \<le> c i \<and> c i \<le> 100"
  shows "t \<le> foldl (\<lambda>t i. t + c i) t xs \<and> foldl (\<lambda>t i. t + c i) t xs \<le> t + 100 * int (length xs)"
  using assms
proof (induction xs arbitrary: t)
  case (Cons x xs)
  have "t + c x \<le> foldl (\<lambda>t i. t + c i) (t + c x) xs \<and> foldl (\<lambda>t i. t + c i) (t + c x) xs \<le> t + c x + 100 * int (length xs)"
    using Cons.prems by (intro Cons.IH) simp
  then show ?case using Cons.prems by auto
qed simp

lemma average_bounds:
  assumes "in_step pf u thread (p, s)"
  shows "0 \<le> averageConfidence p \<and> averageConfidence p \<le> 100"
proof -
  let ?items = "activeEvidence p" and ?c = "\<lambda>i. ev_confidence (ei_row i)"
  have good: "0 \<le> ?c i \<and> ?c i \<le> 100" if "i \<in> set ?items" for i
    using assms that
    by (auto simp: in_step_def activeEvidence_def listed_items rows_in good_ledger_def list_all_iff good_evidence_def)
  show ?thesis
  proof (cases "?items = []")
    case False
    let ?sum = "foldl (\<lambda>t i. t + ?c i) 0 ?items"
    have s: "0 \<le> ?sum" "?sum \<le> 100 * int (length ?items)" using foldl_bounds [of ?items ?c 0] good by auto
    have n: "0 < rat_of_nat (length ?items)" using False by simp
    have "rat_of_int ?sum \<le> rat_of_int (100 * int (length ?items))" using s(2) by (simp only: of_int_le_iff)
    then have "of_int ?sum / of_nat (length ?items) \<le> (of_int 100 :: rat)"
      using n by (simp add: divide_le_eq)
    moreover have "(of_int 0 :: rat) \<le> of_int ?sum / of_nat (length ?items)" using s(1) by simp
    ultimately have "js_round (of_int 0) \<le> js_round (of_int ?sum / of_nat (length ?items))"
      "js_round (of_int ?sum / of_nat (length ?items)) \<le> js_round (of_int 100)" by (blast intro: js_round_mono)+
    then show ?thesis using False by (simp only: averageConfidence_def Let_def js_round_of_int if_False)
  qed (simp add: averageConfidence_def)
qed


text \<open>A database with one conversation and one piece of evidence, and the panel opened on it.\<close>

definition demo_row :: "platform \<Rightarrow> evidence_row" where
  [js_eval]: "demo_row pf = \<lparr>ev_id = js ''11111111-1111-1111-1111-111111111111'', ev_thread = js ''t1'', ev_org = user_org demo_user,
     ev_user = user_id demo_user, ev_trace = js ''r1'', ev_message = js ''m1'', ev_source = SrcDocument, ev_source_name = js ''notes'',
     ev_title = js ''disk'', ev_summary = js ''full'', ev_content = Str (js ''full''), ev_hash = sha256 pf (json_text pf (Str (js ''full''))),
     ev_confidence = 80, ev_relevance = 60,
     ev_factors = \<lparr>sf_reliability = 80, sf_quality = 80, sf_freshness = 100, sf_integrity = 80, sf_directness = 80, sf_lexical = 60\<rparr>,
     ev_status = EvActive, ev_selected = True, ev_note = [], ev_captured = 1, ev_updated = 1\<rparr>"

definition demo_case :: "platform \<Rightarrow> agent_db" where
  [js_eval]: "demo_case pf = ledger_start\<lparr>evidence_items := [demo_row pf]\<rparr>"

definition demo_panel :: "platform \<Rightarrow> inspector" where
  [js_eval]: "demo_panel pf = opened_inspector\<lparr>ins_evidence := listEvidence (js ''t1'') (user_org demo_user) (demo_case pf), ins_loading := False\<rparr>"

lemma demo_good: "good_ledger pf (demo_case pf)" "ownsThread (js ''t1'') (user_id demo_user) (user_org demo_user) (demo_case pf)"
  by (simp_all add: good_ledger_def good_evidence_def demo_case_def demo_row_def ownsThread_def ledger_start_def)

lemma demo_listed: "map ei_row (listEvidence (js ''t1'') (user_org demo_user) (demo_case pf)) = [demo_row pf]"
  by (simp add: listEvidence_def demo_case_def sort_by_def) (simp add: demo_row_def)

lemma demo_reloaded: "reloaded sv a demo_user (js ''t1'') m opened_inspector (demo_case (sv_platform sv)) =
    (demo_panel (sv_platform sv), demo_case (sv_platform sv))"
proof -
  have "listEvidence (js ''t1'') (user_org demo_user) (demo_case (sv_platform sv)) \<noteq> []"
    using demo_listed [of "sv_platform sv"] by auto
  then show ?thesis
    using demo_good(2) [of "sv_platform sv"]
    by (simp add: reloaded_def threadEvidence_def list_answer_def evidence_loaded_def demo_panel_def opened_inspector_def)
qed


text \<open>
  C32. A request for a new answer uses what the panel shows: if at most fifty items are ticked, either it
  succeeds and the stored revision cites exactly the ticked items and excludes exactly those shown as
  rejected or suspended, with the instruction as typed but trimmed, or the model could not be asked or
  failed and nothing is stored. With more than fifty the service refuses the request, which the panel
  sends all the same.
\<close>

theorem revision_uses_what_is_shown:
  assumes "good_ledger (sv_platform sv) s0" "ownsThread thread (user_id u) (user_org u) s0"
    "(panel_step sv u thread)\<^sup>*\<^sup>* (reloaded sv a u thread m opened_inspector s0) (p, s)"
    "list_all is_uuid (map ev_id (evidence_items s))" "revise_request thread busy p = Some q" "serve sv b u q s = (answer, s')"
  shows "if length (selected_items p) \<le> 50
    then reply_status answer = 200 \<and> (\<exists>r. evidence_revisions s' = evidence_revisions s @ [r] \<and> rv_thread r = thread
          \<and> rv_user r = user_id u \<and> rv_selected r = map (\<lambda>i. ev_id (ei_row i)) (filter box_checked (ins_evidence p))
          \<and> rv_excluded r = map (\<lambda>i. ev_id (ei_row i)) (filter disabled (ins_evidence p))
          \<and> rv_instruction r = trim (ins_instruction p))
      \<or> reply_status answer = 500 \<and> s' = s \<and> (getModelSettings (sv_vault sv) True s = None
          \<or> (\<exists>m system prompt e. generate_text sv m system prompt = Inl e))
    else answer = Reply 400 InvalidRequest \<and> s' = s"
proof -
  have sync: "in_step (sv_platform sv) u thread (p, s)"
    using session_kept [OF assms(3) opened_in_step [OF assms(1,2)]] .
  have "selected_items p = filter box_checked (ins_evidence p)" by (simp add: selected_items_def box_checked_def [abs_def])
  then show ?thesis
    using revise_answer [OF sync assms(5,6)] asked_valid [OF sync assms(4,5)]
    by (auto simp: revision_stored_def split: if_splits)
qed

lemma revision_uses_what_is_shown_witness:
  "\<forall>sv b. \<exists>q. revise_request (js ''t1'') False (demo_panel (sv_platform sv)) = Some q
    \<and> reply_status (fst (serve sv b demo_user q (demo_case (sv_platform sv)))) \<in> {200, 500}"
proof (intro allI)
  fix sv :: service and b :: arrival
  let ?pf = "sv_platform sv"
  have ids: "list_all is_uuid (map ev_id (evidence_items (demo_case ?pf)))"
  proof -
    have "is_uuid (js ''11111111-1111-1111-1111-111111111111'')" by code_simp
    then show ?thesis by (simp add: demo_case_def demo_row_def)
  qed
  obtain i where i: "ins_evidence (demo_panel ?pf) = [i]" "ei_row i = demo_row ?pf"
    using demo_listed [of ?pf] by (auto simp: demo_panel_def map_eq_Cons_conv)
  then have one: "selected_items (demo_panel ?pf) = [i]" by (simp add: selected_items_def disabled_def demo_row_def)
  then obtain q where q: "revise_request (js ''t1'') False (demo_panel ?pf) = Some q"
    by (simp add: revise_request_def demo_panel_def opened_inspector_def)
  obtain answer s' where served: "serve sv b demo_user q (demo_case ?pf) = (answer, s')" by fastforce
  have "(panel_step sv demo_user (js ''t1''))\<^sup>*\<^sup>* (reloaded sv b demo_user (js ''t1'') None opened_inspector (demo_case ?pf))
      (demo_panel ?pf, demo_case ?pf)"
    unfolding demo_reloaded by (rule rtranclp.rtrancl_refl)
  from revision_uses_what_is_shown [OF demo_good this ids q served] one have "reply_status answer \<in> {200, 500}" by auto
  then show "\<exists>q. revise_request (js ''t1'') False (demo_panel ?pf) = Some q
    \<and> reply_status (fst (serve sv b demo_user q (demo_case ?pf))) \<in> {200, 500}" using q served by auto
qed

end
