(* ===== verification/Spec2Isabelle.thy ===== *)
theory Spec2Isabelle
  imports Input_Policy Agent_Laws Settings_Laws Samples_Laws Approval_Laws Server_Isolation Server_Replies
    Web_Logql Web_Editor_Laws Web_Chat_Laws Web_Trace_Laws Web_Settings_Laws Web_Client_Laws Web_Logs
    Web_Evidence_Laws
begin

text \<open>
  A model of the agent service of BoringPanel (\<open>agent-service/src\<close>), the part of the repository that is
  its own: a service that lets language models diagnose and operate a monitored system, under policies;
  and of the pages of the web client (\<open>frontend/src\<close>) that build what this service runs and show it.

  \<^bold>\<open>The program.\<close> Users talk to agents in threads. An agent reads telemetry through the query service,
  collects evidence, remembers what proved useful, follows workflows and runs commands on managed
  hosts. Everything it does goes through tools (\<open>tools/\<close>), which check a policy (\<open>security/\<close>), write an
  audit log and store their results (\<open>evidence.ts\<close>, \<open>memory/index.ts\<close>). Workflows are compiled for an
  engine and executed step by step (\<open>workflows/compiler.ts\<close>), with approvals that suspend a run. An HTTP
  interface (\<open>server.ts\<close>, \<open>auth.ts\<close>) and an MCP interface (\<open>mcp/\<close>) let clients in. All state is in one
  SQL database (\<open>db.ts\<close>), which every component reads and writes.

  \<^bold>\<open>Theories.\<close> In the order in which they build on each other:

  \<^item> \<open>Prelude\<close>: texts as lists of UTF-16 code units, JSON values, tables as lists of rows, the collection of
    evaluation rules, and the record \<open>platform\<close> of library functions that are parameters. \<open>Regex\<close> is a
    backtracking matcher for the fragment of regular expressions the source uses, with its match
    relation. \<open>Json\<close> holds numbers, \<open>String\<close>, \<open>Number\<close> and \<open>JSON.stringify\<close>; \<open>Bytes\<close> and \<open>Url_Text\<close> the
    encodings; \<open>Text_Tools\<close> redaction, tokens and scores.
  \<^item> \<open>Workflow_Types\<close>, \<open>Database\<close>: \<open>types.ts\<close> and the tables of \<open>db.ts\<close>; the record \<open>agent_db\<close> is the
    database. \<open>Frames\<close> says which operations leave which tables alone.
  \<^item> \<open>Command_Risk\<close> (\<open>security/command-risk-analyzer.ts\<close>) and \<open>Input_Policy\<close> (the rest of \<open>security/\<close>): the
    gates before commands and messages.
  \<^item> \<open>Signal_Query\<close> (\<open>tools/signal-query.ts\<close>): schema and compiler of telemetry queries.
  \<^item> \<open>Memory_Text\<close>, \<open>Memory_Store\<close>, \<open>Memory_Retrieval\<close>, \<open>Memory_Maintenance\<close> and \<open>Memory_Laws\<close>
    (\<open>memory/index.ts\<close>): texts and scores, the store, retrieval along failing paths, ageing and merging,
    and the invariant of the store over all its operations.
  \<^item> \<open>Evidence_Store\<close>, \<open>Evidence_Laws\<close> (\<open>evidence.ts\<close>): capture, scoring, curation, and its invariant.
  \<^item> \<open>Workflow\<close>, \<open>Workflow_Records\<close>, \<open>Workflow_Run\<close>, \<open>Run_Laws\<close> (\<open>workflows/\<close>, \<open>db.ts\<close>, the schema in
    \<open>server.ts\<close>): definitions, the stored workflows, what the steps of a run do, and the relation
    \<open>engine_step\<close> of all executions in any order with its invariant.
  \<^item> \<open>Scry_Calls\<close> (\<open>tools/scry.ts\<close>), \<open>Ssh_Ops\<close>, \<open>Ssh_Laws\<close> (\<open>ssh/\<close>, \<open>tools/ssh.ts\<close>, \<open>tools/ssh-tools.ts\<close>,
    \<open>debug/simulation.ts\<close>): audited calls of the query service and audited commands on hosts.
  \<^item> \<open>Agent_Tools\<close>, \<open>Agent_Laws\<close> (\<open>tools/scry.ts\<close>, \<open>tools/a2ui.ts\<close>): all tools of an agent, and what no
    sequence of tool calls can do.
  \<^item> \<open>Settings\<close>, \<open>Settings_Laws\<close> (\<open>crypto.ts\<close>, \<open>model.ts\<close>, settings and MCP servers of \<open>db.ts\<close>).
  \<^item> \<open>Samples\<close>, \<open>Samples_Laws\<close> (\<open>memory/samples.ts\<close>, \<open>memory/sample-catalog.ts\<close>): the catalogue of sample
    memories, their generation and deletion.
  \<^item> \<open>Server_Auth\<close>, \<open>Auth_Laws\<close> (\<open>auth.ts\<close>, \<open>mcp/client.ts\<close>, \<open>mcp/server.ts\<close>): who is asking, and the headers
    that carry a user through MCP. \<open>Agent_Prompt\<close> (\<open>agent.ts\<close>, \<open>mcp/protocol.ts\<close>): how an agent is set up.
  \<^item> \<open>Server_Base\<close>, \<open>Server_Chat\<close>, \<open>Server_Runs\<close>, \<open>Server_Memory\<close>, \<open>Server_Api\<close> (\<open>server.ts\<close>, \<open>agent.ts\<close>,
    \<open>model.ts\<close>, \<open>runtime.ts\<close>): the handlers of all routes, and \<open>handle\<close>, the service as one function from a
    request and a database to a reply and a database.
  \<^item> \<open>Approval_Laws\<close>: a run through an approval. \<open>Server_Frame\<close>: the locale of properties that all requests of
    users keep, with its interpretations in \<open>Server_Laws\<close> (the rights of users) and \<open>Server_Isolation\<close> (the
    invariant of the database and the separation of organisations). \<open>Server_Replies\<close>: what replies show.
  \<^item> \<open>Web_Editor\<close>, \<open>Web_Step_Edits\<close>, \<open>Web_Editor_Laws\<close> (\<open>pages/WorkflowManager\<close>): the editor of loops, the
    relation \<open>editing\<close> of all edits in any order, and that the service accepts what the page saves.
    \<open>Web_Chat\<close>, \<open>Web_Chat_Laws\<close> (\<open>pages/AgentWorkspace\<close>): waiting files, sending, requests and the views of
    parts, against the checks of the service.
  \<^item> \<open>Web_Settings\<close>, \<open>Web_Settings_Laws\<close> (\<open>container/AgentSettings\<close>): the forms of the model, of MCP servers,
    hosts and policies, which show what is stored and keep secrets that are left blank. \<open>Web_Client\<close>,
    \<open>Web_Client_Laws\<close> (\<open>api/agent/client.ts\<close>): the request of every call, and the handler it reaches.
  \<^item> \<open>Web_Evidence\<close>, \<open>Web_Evidence_Laws\<close> (\<open>pages/AgentWorkspace/EvidenceInspector.tsx\<close>): the panel in which
    evidence is curated, the relation \<open>panel_step\<close> of a session of one user with it and the service, whose
    calls do not overlap, and that the panel shows the store at every moment.
  \<^item> \<open>Web_Logql\<close> (\<open>lib/logql\<close>): the log query language, whose parser reads back what its writer writes, and
    \<open>Web_Logs\<close> (\<open>store/reducers/logs.ts\<close>) the store of the log pages.
    \<open>Web_Trace\<close>, \<open>Web_Trace_Laws\<close> (\<open>utils/spanToTree.ts\<close>, \<open>GantChart/utils.ts\<close>, \<open>TraceDetail/utils.ts\<close>): the
    forest of a trace, which loses no span, and the walks over it.

  \<^bold>\<open>Correspondence.\<close> A definition has the name of the function it models, with a suffix where a name is
  taken; records have short field prefixes and the fields of the source in their order. An operation
  on the database takes it last and returns it; \<open>randomUUID\<close> and \<open>Date.now\<close> are arguments, one reading
  of the clock for each operation, and a supply of identifiers where several are drawn. Exceptions are
  \<open>Inl\<close> or an error datatype, a missing row is \<open>None\<close>.

  \<^bold>\<open>Parameters.\<close> Code outside the sources is an argument: SHA-256, Unicode normalisation, logarithm,
  root and power (\<open>platform\<close>); cipher, digest and JSON parser of secrets (\<open>vault\<close>, whose law
  \<open>lawful_vault\<close> says that opening inverts sealing); the query service (\<open>gateway\<close>); hosts on the network
  (\<open>ssh_network\<close>, events in any order); agents and the tools of foreign servers (\<open>run_world\<close>); the service
  of roles (\<open>identity_service\<close>); and, in the record \<open>service\<close>, the language model, the agent library (which
  tools an agent calls, with which inputs), the engine of workflows (which steps it executes, in which
  order, on which inputs) and the connections to MCP servers. What a request draws when it arrives, the
  clock and identifiers, is the record \<open>arrival\<close>. For the pages these are what a new step draws (\<open>drawn\<close>), the
  moving of an element by the drag-and-drop library, and the parser of JSON. Hypotheses on them are named and have witnesses: that
  identifiers drawn for memories are new is \<open>new_ids\<close>.

  \<^bold>\<open>Bounds and fuel.\<close> No definition needs fuel beyond a bound the source has itself: the depth of
  \<open>sanitizeValue\<close>, the length of a path (six services), the number of chunks (80), the limits of lists.
  Repetition in the matcher is bounded by the length of the rest of the text, which is enough because
  an iteration must consume something. All functions are total.

  \<^bold>\<open>Idealisations.\<close> Numbers are exact rationals, not doubles. Case conversion covers the scripts listed
  in \<open>Prelude\<close>. Columns that hold JSON hold the value. An object keeps the insertion order of its keys.
  Sorting by columns is stable, texts are ordered by code units. Operations are atomic: \<open>await\<close> does not
  interleave the operations of two requests, one request reads the clock once, and the messages of a
  stream, which the service stores in the background, are stored before the reply. The body of a request
  is not JSON, refused by its schema, or what the schema makes of it. A turn of an agent is a sequence of
  calls of the service's own tools; tools of other servers do not write to this database. Inputs of tools are taken after the schema has parsed
  them; the schemas themselves are modelled where they carry rules of the program (queries, workflows,
  hosts, commands, settings). Secrets of hosts are stored as they are, those of models and servers sealed.

  \<^bold>\<open>Not modelled.\<close> The agent and workflow libraries (they decide which tool or step comes next, so the
  theorems hold for every choice), SQL itself and its adapter, environment variables and process
  start, the query service (\<open>pkg\<close>, \<open>ee\<close>, in Go), the markup of the pages, the chat and drag-and-drop
  libraries, and the rest of the web client (\<open>frontend\<close>): charts, tables and calls of the query service
  inherited from the monitoring product, which decide nothing about the agent service.
\<close>

end
